(* ===== verification/Line_Prelude.thy ===== *)
theory Line_Prelude
  imports Main "HOL-Library.Word"
begin

text \<open>
  Shared vocabulary of the development: the outcome of a TypeScript function that can return early
  or throw, JavaScript's number arithmetic on integers, the nullish operators, in-place update of
  the first array element that matches, and the sums over arrays that the accounting proofs use.
\<close>

named_theorems safe_arith \<open>exactness of JavaScript number arithmetic below 2 ^ 53\<close>
named_theorems outcome_ok \<open>what a successful outcome implies, one guard at a time\<close>
named_theorems stop_simps \<open>evaluation of early returns and exceptions\<close>

section \<open>Early returns and exceptions\<close>

text \<open>
  A function of the simulator ends in one of three ways: it returns its result, it returns
  \<open>fail(code, reason)\<close>, or an exception escapes. The last two are the two ways to stop early.
\<close>

datatype exn = Error string | RangeError string | TypeError string | NamedError string string

datatype stop = Fail string string | Throw exn

type_synonym 'a outcome = "stop + 'a"

definition bindS :: "'a outcome \<Rightarrow> ('a \<Rightarrow> 'b outcome) \<Rightarrow> 'b outcome" where
  "bindS m k = (case m of Inl e \<Rightarrow> Inl e | Inr a \<Rightarrow> k a)"

text \<open>\<open>try { m } catch { return r }\<close>: only exceptions are caught, an early return passes.\<close>

definition catchS :: "'a outcome \<Rightarrow> 'a outcome \<Rightarrow> 'a outcome" where
  "catchS m r = (case m of Inl (Throw e) \<Rightarrow> r | Inl (Fail c w) \<Rightarrow> Inl (Fail c w) | Inr a \<Rightarrow> Inr a)"

definition is_ok :: "'a outcome \<Rightarrow> bool" where
  "is_ok m = (case m of Inl _ \<Rightarrow> False | Inr _ \<Rightarrow> True)"

lemma bindS_simps [simp, stop_simps]:
  "bindS (Inl e) k = Inl e"
  "bindS (Inr a) k = k a"
  by (simp_all add: bindS_def)

lemma bindS_Inr_iff [outcome_ok]: "bindS m k = Inr b \<longleftrightarrow> (\<exists>a. m = Inr a \<and> k a = Inr b)"
  by (cases m) auto

lemma bindS_InrE [elim]:
  assumes "bindS m k = Inr b"
  obtains a where "m = Inr a" and "k a = Inr b"
  using assms by (auto simp: bindS_Inr_iff)

lemma bindS_assoc: "bindS (bindS m f) g = bindS m (\<lambda>a. bindS (f a) g)"
  by (cases m) auto

lemma catchS_simps [simp, stop_simps]:
  "catchS (Inr a) r = Inr a"
  "catchS (Inl (Throw e)) r = r"
  "catchS (Inl (Fail c w)) r = Inl (Fail c w)"
  by (simp_all add: catchS_def)

lemma catchS_fail_Inr_iff [outcome_ok]:
  "catchS m (Inl (Fail c w)) = Inr a \<longleftrightarrow> m = Inr a"
  by (cases m rule: sum.exhaust) (auto simp: catchS_def split: stop.splits)

lemma guard_Inr_iff [outcome_ok]:
  "(if b then Inl e else m) = Inr z \<longleftrightarrow> \<not> b \<and> m = Inr z"
  by simp

lemma option_Inr_iff [outcome_ok]:
  "(case x of None \<Rightarrow> Inl e | Some y \<Rightarrow> f y) = Inr z \<longleftrightarrow> (\<exists>y. x = Some y \<and> f y = Inr z)"
  by (cases x) auto

lemma is_ok_simps [simp]: "is_ok (Inr a)" "\<not> is_ok (Inl e)"
  by (simp_all add: is_ok_def)

lemma is_ok_iff: "is_ok m \<longleftrightarrow> (\<exists>a. m = Inr a)"
  by (cases m) auto

section \<open>Nullish operators\<close>

text \<open>\<open>a ?? b\<close> with a definite and with an optional right operand.\<close>

definition nullish :: "'a option \<Rightarrow> 'a \<Rightarrow> 'a" where
  "nullish a b = (case a of Some x \<Rightarrow> x | None \<Rightarrow> b)"

definition or_else :: "'a option \<Rightarrow> 'a option \<Rightarrow> 'a option" where
  "or_else a b = (case a of Some x \<Rightarrow> Some x | None \<Rightarrow> b)"

lemma nullish_simps [simp]: "nullish (Some x) b = x" "nullish None b = b"
  by (simp_all add: nullish_def)

lemma or_else_simps [simp]: "or_else (Some x) b = Some x" "or_else None b = b"
  by (simp_all add: or_else_def)

section \<open>JavaScript numbers\<close>

text \<open>
  A \<open>number\<close> is an IEEE double. The simulator only does arithmetic on integers, so a number is
  modelled by the integer it stands for, and every sum or difference is rounded to the nearest
  double (ties to even), which is exact up to \<open>2 ^ 53\<close>. A fraction, \<open>NaN\<close> or an infinity is
  refused by the same guards as an integer outside the safe range, so those inputs are represented
  by unsafe integers. Exponent overflow (above \<open>2 ^ 1023\<close>) is out of reach of the modelled code.
\<close>

definition max_safe :: int where
  "max_safe = 9007199254740991"

definition uint64_max :: int where
  "uint64_max = 18446744073709551615"

text \<open>How many low bits of a natural number do not fit in the 53-bit significand.\<close>

fun excess_bits :: "nat \<Rightarrow> nat" where
  "excess_bits n = (if n < 2 ^ 53 then 0 else Suc (excess_bits (n div 2)))"

declare excess_bits.simps [simp del]

definition round_nat :: "nat \<Rightarrow> nat" where
  "round_nat n =
     (let u = 2 ^ excess_bits n; q = n div u; r = n mod u
      in if 2 * r < u \<or> (2 * r = u \<and> even q) then q * u else (q + 1) * u)"

definition fl :: "int \<Rightarrow> int" where
  "fl n = (if n < 0 then - int (round_nat (nat (- n))) else int (round_nat (nat n)))"

definition fadd :: "int \<Rightarrow> int \<Rightarrow> int" where
  "fadd a b = fl (a + b)"

definition fsub :: "int \<Rightarrow> int \<Rightarrow> int" where
  "fsub a b = fl (a - b)"

definition isSafeInteger :: "int \<Rightarrow> bool" where
  "isSafeInteger n \<longleftrightarrow> - max_safe \<le> n \<and> n \<le> max_safe"

lemma round_nat_exact: "n \<le> 2 ^ 53 \<Longrightarrow> round_nat n = n"
proof (cases "n = 2 ^ 53")
  case True
  have "excess_bits (2 ^ 53) = 1"
    by (simp add: excess_bits.simps [of "9007199254740992"] excess_bits.simps [of "4503599627370496"])
  with True show ?thesis by (simp add: round_nat_def Let_def)
next
  case False
  moreover assume "n \<le> 2 ^ 53"
  ultimately have "excess_bits n = 0" by (simp add: excess_bits.simps)
  then show ?thesis by (simp add: round_nat_def Let_def)
qed

lemma fl_exact: "\<bar>n\<bar> \<le> 2 ^ 53 \<Longrightarrow> fl n = n"
  by (auto simp: fl_def round_nat_exact nat_le_iff abs_le_iff)

text \<open>Rounding never brings an unsafe integer back into the safe range.\<close>

lemma excess_bits_quotient: "2 ^ 52 \<le> n \<Longrightarrow> 2 ^ 52 \<le> n div 2 ^ excess_bits n"
proof (induction n rule: excess_bits.induct)
  case (1 n)
  show ?case
  proof (cases "n < 2 ^ 53")
    case True
    with "1.prems" show ?thesis by (simp add: excess_bits.simps [of n])
  next
    case False
    then have "2 ^ 52 \<le> n div 2" by simp
    then have "2 ^ 52 \<le> n div 2 div 2 ^ excess_bits (n div 2)" using "1.IH" False by blast
    with False show ?thesis by (simp add: excess_bits.simps [of n] div_mult2_eq)
  qed
qed

lemma round_nat_ge: "2 ^ 53 \<le> n \<Longrightarrow> 2 ^ 53 \<le> round_nat n"
proof -
  assume n: "2 ^ 53 \<le> n"
  define u where "u = (2 :: nat) ^ excess_bits n"
  have "excess_bits n = Suc (excess_bits (n div 2))"
    using n by (simp add: excess_bits.simps [of n])
  then have "2 \<le> u" by (simp add: u_def)
  moreover have "2 ^ 52 \<le> n div u" using n excess_bits_quotient [of n] by (simp add: u_def)
  ultimately have "2 ^ 52 * 2 \<le> n div u * u" by (rule mult_le_mono [rotated])
  then show ?thesis by (auto simp: round_nat_def Let_def u_def [symmetric])
qed

lemma fl_ge: "2 ^ 53 \<le> n \<Longrightarrow> 2 ^ 53 \<le> fl n"
  using round_nat_ge [of "nat n"] by (simp add: fl_def le_nat_iff)

lemma fadd_safe:
  assumes "fadd a b \<le> max_safe" and "0 \<le> a + b"
  shows "fadd a b = a + b"
proof (cases "a + b \<le> 2 ^ 53")
  case True
  with assms(2) show ?thesis by (simp add: fadd_def fl_exact)
next
  case False
  then have "2 ^ 53 \<le> fl (a + b)" by (intro fl_ge) simp
  with assms(1) show ?thesis by (simp add: fadd_def max_safe_def)
qed

lemma fadd_exact [safe_arith]: "\<bar>a + b\<bar> \<le> 2 ^ 53 \<Longrightarrow> fadd a b = a + b"
  by (simp add: fadd_def fl_exact)

lemma fsub_exact [safe_arith]: "\<bar>a - b\<bar> \<le> 2 ^ 53 \<Longrightarrow> fsub a b = a - b"
  by (simp add: fsub_def fl_exact)

lemma max_safe_bound [safe_arith]: "n \<le> max_safe \<longleftrightarrow> n < 2 ^ 53"
  by (auto simp: max_safe_def)

lemma isSafeInteger_bounds: "isSafeInteger n \<Longrightarrow> \<bar>n\<bar> \<le> max_safe"
  by (auto simp: isSafeInteger_def)

section \<open>Updating the first matching array element\<close>

text \<open>\<open>const live = xs.find(p)\<close> followed by assignments to \<open>live\<close>.\<close>

fun update_first :: "('a \<Rightarrow> bool) \<Rightarrow> ('a \<Rightarrow> 'a) \<Rightarrow> 'a list \<Rightarrow> 'a list" where
  "update_first p f [] = []"
| "update_first p f (x # xs) = (if p x then f x # xs else x # update_first p f xs)"

lemma find_split:
  assumes "find p xs = Some x"
  obtains ys zs where "xs = ys @ x # zs" "p x" "\<forall>y \<in> set ys. \<not> p y"
    "\<And>f. update_first p f xs = ys @ f x # zs"
proof -
  have "\<exists>ys zs. xs = ys @ x # zs \<and> p x \<and> (\<forall>y \<in> set ys. \<not> p y) \<and>
          (\<forall>f. update_first p f xs = ys @ f x # zs)"
    using assms
  proof (induction xs)
    case Nil
    then show ?case by simp
  next
    case (Cons a xs)
    show ?case
    proof (cases "p a")
      case True
      with Cons.prems show ?thesis by (intro exI [of _ "[]"] exI [of _ xs]) auto
    next
      case False
      with Cons obtain ys zs where "xs = ys @ x # zs" "p x" "\<forall>y \<in> set ys. \<not> p y"
        "\<forall>f. update_first p f xs = ys @ f x # zs" by auto
      with False show ?thesis by (intro exI [of _ "a # ys"] exI [of _ zs]) auto
    qed
  qed
  then show thesis using that by blast
qed

lemma find_SomeD: "find p xs = Some x \<Longrightarrow> x \<in> set xs \<and> p x"
  by (auto simp: find_Some_iff in_set_conv_nth)

lemma find_None_all: "find p xs = None \<longleftrightarrow> (\<forall>x \<in> set xs. \<not> p x)"
  by (auto simp: find_None_iff)

lemma find_Some_append: "find p xs = Some x \<Longrightarrow> find p (xs @ ys) = Some x"
  by (induction xs) (auto split: if_splits)

lemma find_append_fresh: "find p xs = None \<Longrightarrow> find p (xs @ ys) = find p ys"
  by (induction xs) (auto split: if_splits)

lemma map_update_first:
  "(\<And>x. g (f x) = g x) \<Longrightarrow> map g (update_first p f xs) = map g xs"
  by (induction xs) auto

lemma length_update_first [simp]: "length (update_first p f xs) = length xs"
  by (induction xs) auto

lemma set_update_first_le: "set (update_first p f xs) \<subseteq> set xs \<union> f ` {x \<in> set xs. p x}"
  by (induction xs) auto

lemma find_update_first_self:
  assumes "find p xs = Some x" and "p (f x)"
  shows "find p (update_first p f xs) = Some (f x)"
  using assms by (induction xs) (auto split: if_splits)

lemma find_update_first_other:
  assumes "\<And>x. p x \<Longrightarrow> \<not> q x \<and> \<not> q (f x)"
  shows "find q (update_first p f xs) = find q xs"
  using assms by (induction xs) auto

text \<open>The effect of a first-match update on a sum over the array, and on a distinct key column.\<close>

lemma sum_list_update_first:
  fixes h :: "'a \<Rightarrow> int"
  assumes "find p xs = Some x"
  shows "sum_list (map h (update_first p f xs)) = sum_list (map h xs) - h x + h (f x)"
  using assms by (induction xs) (auto split: if_splits)

lemma sum_list_map_nonneg:
  fixes h :: "'a \<Rightarrow> int"
  shows "\<forall>y \<in> set xs. 0 \<le> h y \<Longrightarrow> 0 \<le> sum_list (map h xs)"
  by (induction xs) auto

lemma sum_list_ge_member:
  fixes h :: "'a \<Rightarrow> int"
  assumes "x \<in> set xs" and "\<forall>y \<in> set xs. 0 \<le> h y"
  shows "h x \<le> sum_list (map h xs)"
  using assms by (induction xs) (auto intro: add_increasing simp: sum_list_map_nonneg)

end
