(* ===== verification/Js_Strings.thy ===== *)
theory Js_Strings
  imports Line_Prelude
begin

text \<open>
  JavaScript strings and byte arrays. A string is its list of UTF-16 code units, a
  \<open>Uint8Array\<close> its list of bytes. The theory holds \<open>src/lib/bytes.ts\<close> (\<open>toHex\<close>,
  \<open>hexToBytes\<close>), the standard functions the encoders call on strings (\<open>startsWith\<close>,
  \<open>slice\<close>, the hexadecimal regular expressions, \<open>trim\<close>, \<open>TextEncoder.encode\<close>), and the
  proofs that hexadecimal and UTF-8 encoding lose nothing.
\<close>

type_synonym jsstr = "16 word list"
type_synonym bytes = "8 word list"

text \<open>A string literal of the source, all of them ASCII.\<close>

definition js :: "string \<Rightarrow> jsstr" where
  "js s = map (\<lambda>c. of_nat (of_char c)) s"

section \<open>Hexadecimal\<close>

definition hex_digit :: "nat \<Rightarrow> 16 word" where
  "hex_digit n = (if n < 10 then of_nat (48 + n) else of_nat (87 + n))"

text \<open>\<open>[0-9a-fA-F]\<close> and the digit's value.\<close>

definition is_hex :: "16 word \<Rightarrow> bool" where
  "is_hex c = (let n = unat c in
     (48 \<le> n \<and> n \<le> 57) \<or> (97 \<le> n \<and> n \<le> 102) \<or> (65 \<le> n \<and> n \<le> 70))"

definition hex_val :: "16 word \<Rightarrow> nat" where
  "hex_val c = (let n = unat c in
     if n \<le> 57 then n - 48 else if n \<le> 70 then n - 55 else n - 87)"

text \<open>\<open>bytes[i].toString(16).padStart(2, "0")\<close>, appended for every byte.\<close>

definition hex_byte :: "8 word \<Rightarrow> jsstr" where
  "hex_byte b = [hex_digit (unat b div 16), hex_digit (unat b mod 16)]"

primrec toHex :: "bytes \<Rightarrow> jsstr" where
  "toHex [] = []"
| "toHex (b # bs) = hex_byte b @ toHex bs"

text \<open>The decoding loop: \<open>parseInt\<close> of each pair of digits.\<close>

fun parse_hex_pairs :: "jsstr \<Rightarrow> bytes" where
  "parse_hex_pairs (a # b # s) = of_nat (16 * hex_val a + hex_val b) # parse_hex_pairs s"
| "parse_hex_pairs _ = []"

text \<open>\<open>hex.startsWith("0x") ? hex.slice(2) : hex\<close>\<close>

definition strip_0x :: "jsstr \<Rightarrow> jsstr" where
  "strip_0x s = (if take 2 s = js ''0x'' then drop 2 s else s)"

definition hexToBytes :: "jsstr \<Rightarrow> bytes outcome" where
  "hexToBytes hex =
     (let clean = strip_0x hex
      in if odd (length clean) \<or> \<not> list_all is_hex clean
         then Inl (Throw (Error ''Invalid hex string''))
         else Inr (parse_hex_pairs clean))"

lemma unat_u8: "unat (b :: 8 word) < 256"
  using unsigned_less [of b] by simp

lemma unat_u16: "unat (c :: 16 word) < 65536"
  using unsigned_less [of c] by simp

lemma unat_hex_digit: "n < 16 \<Longrightarrow> unat (hex_digit n) = (if n < 10 then 48 + n else 87 + n)"
  by (simp add: hex_digit_def unat_of_nat del: of_nat_add)

lemma is_hex_hex_digit: "n < 16 \<Longrightarrow> is_hex (hex_digit n)"
  by (auto simp: is_hex_def unat_hex_digit Let_def)

lemma hex_val_hex_digit: "n < 16 \<Longrightarrow> hex_val (hex_digit n) = n"
  by (auto simp: hex_val_def unat_hex_digit Let_def)

lemma unat_byte_div16: "unat (b :: 8 word) div 16 < 16"
  using unat_u8 [of b] by (simp add: less_mult_imp_div_less)

lemma hex_byte_value:
  "16 * hex_val (hex_digit (unat (b :: 8 word) div 16)) + hex_val (hex_digit (unat b mod 16)) = unat b"
  by (simp add: hex_val_hex_digit unat_byte_div16)

lemma length_toHex [simp]: "length (toHex bs) = 2 * length bs"
  by (induction bs) (auto simp: hex_byte_def)

lemma list_all_is_hex_toHex [simp]: "list_all is_hex (toHex bs)"
  by (induction bs) (auto simp: hex_byte_def is_hex_hex_digit unat_byte_div16)

lemma parse_toHex [simp]: "parse_hex_pairs (toHex bs) = bs"
  by (induction bs) (simp_all add: hex_byte_def hex_byte_value)

lemma not_is_hex_x: "\<not> is_hex (of_nat (of_char CHR ''x''))"
  by (simp add: is_hex_def)

text \<open>The second character of \<open>0x\<close> is no hexadecimal digit, so an encoding is never stripped.\<close>

lemma strip_0x_hex: "list_all is_hex s \<Longrightarrow> strip_0x s = s"
proof -
  assume hex: "list_all is_hex s"
  have "take 2 s \<noteq> js ''0x''"
  proof
    assume eq: "take 2 s = js ''0x''"
    have "list_all is_hex (take 2 s)"
      using hex by (auto simp: list_all_iff dest: in_set_takeD)
    then show False using eq not_is_hex_x by (simp add: js_def)
  qed
  then show ?thesis by (simp add: strip_0x_def)
qed

lemma strip_0x_toHex [simp]: "strip_0x (toHex bs) = toHex bs"
  by (simp add: strip_0x_hex)

lemma toHex_inject [simp]: "toHex a = toHex b \<longleftrightarrow> a = b"
  by (metis parse_toHex)

lemma hexToBytes_toHex [simp]: "hexToBytes (toHex bs) = Inr bs"
  by (simp add: hexToBytes_def)

section \<open>UTF-8\<close>

definition is_high :: "16 word \<Rightarrow> bool" where
  "is_high c = (55296 \<le> unat c \<and> unat c \<le> 56319)"

definition is_low :: "16 word \<Rightarrow> bool" where
  "is_low c = (56320 \<le> unat c \<and> unat c \<le> 57343)"

definition pair_point :: "16 word \<Rightarrow> 16 word \<Rightarrow> nat" where
  "pair_point c d = 65536 + (unat c - 55296) * 1024 + (unat d - 56320)"

text \<open>The code points of a string; a surrogate that is not part of a pair reads as U+FFFD.\<close>

fun code_points :: "jsstr \<Rightarrow> nat list" where
  "code_points [] = []"
| "code_points [c] = [if is_high c \<or> is_low c then 65533 else unat c]"
| "code_points (c # d # s) =
     (if is_high c \<and> is_low d then pair_point c d # code_points s
      else (if is_high c \<or> is_low c then 65533 else unat c) # code_points (d # s))"

definition utf8_point :: "nat \<Rightarrow> bytes" where
  "utf8_point n =
     (if n < 128 then [of_nat n]
      else if n < 2048 then [of_nat (192 + n div 64), of_nat (128 + n mod 64)]
      else if n < 65536 then
        [of_nat (224 + n div 4096), of_nat (128 + n div 64 mod 64), of_nat (128 + n mod 64)]
      else [of_nat (240 + n div 262144), of_nat (128 + n div 4096 mod 64),
            of_nat (128 + n div 64 mod 64), of_nat (128 + n mod 64)])"

text \<open>\<open>new TextEncoder().encode(s)\<close>\<close>

definition utf8 :: "jsstr \<Rightarrow> bytes" where
  "utf8 s = concat (map utf8_point (code_points s))"

text \<open>A string without unpaired surrogates.\<close>

fun well_formed :: "jsstr \<Rightarrow> bool" where
  "well_formed [] = True"
| "well_formed [c] = (\<not> is_high c \<and> \<not> is_low c)"
| "well_formed (c # d # s) =
     (if is_high c then is_low d \<and> well_formed s
      else \<not> is_low c \<and> well_formed (d # s))"

lemma pair_point_bounds:
  "is_high c \<Longrightarrow> is_low d \<Longrightarrow> 65536 \<le> pair_point c d \<and> pair_point c d < 1114112"
  by (auto simp: pair_point_def is_high_def is_low_def)

lemma radix_inject:
  fixes a b c d m :: nat
  assumes "a * m + b = c * m + d" and "b < m" and "d < m"
  shows "a = c" and "b = d"
proof -
  have "(a * m + b) div m = a" "(c * m + d) div m = c" using assms(2,3) by auto
  with assms(1) show "a = c" by metis
  with assms(1) show "b = d" by simp
qed

lemma pair_point_inject:
  assumes "is_high c" "is_low d" "is_high c'" "is_low d'"
    and "pair_point c d = pair_point c' d'"
  shows "c = c' \<and> d = d'"
proof -
  have "(unat c - 55296) * 1024 + (unat d - 56320) = (unat c' - 55296) * 1024 + (unat d' - 56320)"
    using assms(5) by (simp add: pair_point_def)
  moreover have "unat d - 56320 < 1024" "unat d' - 56320 < 1024"
    using assms by (auto simp: is_low_def)
  ultimately have "unat c - 55296 = unat c' - 55296" "unat d - 56320 = unat d' - 56320"
    by (rule radix_inject)+
  then have "unat c = unat c'" "unat d = unat d'"
    using assms by (auto simp: is_high_def is_low_def)
  then show ?thesis by (simp add: word_unat_eq_iff)
qed

lemma code_points_bound: "\<forall>n \<in> set (code_points s). n < 1114112"
proof (induction s rule: code_points.induct)
  case (2 c)
  then show ?case using unat_u16 [of c] by auto
next
  case (3 c d s)
  then show ?case using unat_u16 [of c] pair_point_bounds [of c d] by auto
qed simp

lemma code_points_eq_Nil [simp]:
  "code_points s = [] \<longleftrightarrow> s = []" "[] = code_points s \<longleftrightarrow> s = []"
  by (cases s rule: code_points.cases; auto)+

text \<open>On well-formed strings the first code unit (or pair) can be read back from the first point.\<close>

lemma code_points_well_formed_inject:
  "well_formed s \<Longrightarrow> well_formed t \<Longrightarrow> code_points s = code_points t \<Longrightarrow> s = t"
proof (induction s arbitrary: t rule: code_points.induct)
  case 1
  then show ?case by (metis code_points_eq_Nil)
next
  case (2 c)
  then show ?case using unat_u16 [of c]
    by (cases t rule: code_points.cases)
      (auto simp: word_unat_eq_iff dest!: pair_point_bounds split: if_splits)
next
  case (3 c d s)
  obtain e t' where t: "t = e # t'"
    using "3.prems"(3) by (cases t) (auto split: if_splits)
  show ?case
  proof (cases "is_high c")
    case True
    with "3.prems" have low: "is_low d" and wf: "well_formed s" by auto
    have pt: "code_points t = pair_point c d # code_points s"
      using True low "3.prems"(3) by simp
    have "is_high e"
      using pt t pair_point_bounds [OF True low] unat_u16 [of e] "3.prems"(2)
      by (cases t') (auto split: if_splits)
    then obtain f u where t': "t' = f # u" "is_low f" "well_formed u"
      using t "3.prems"(2) by (cases t') auto
    with pt t \<open>is_high e\<close> have "pair_point e f = pair_point c d" "code_points u = code_points s"
      by auto
    then show ?thesis
      using pair_point_inject [OF \<open>is_high e\<close> t'(2) True low] "3.IH"(1) [of u] True low wf t' t
      by auto
  next
    case False
    with "3.prems" have nl: "\<not> is_low c" and wf: "well_formed (d # s)" by auto
    have pt: "code_points t = unat c # code_points (d # s)"
      using False nl "3.prems"(3) by simp
    have ne: "\<not> is_high e"
      using pt t "3.prems"(2) unat_u16 [of c]
      by (cases t') (auto dest!: pair_point_bounds [of e] split: if_splits)
    then have "\<not> is_low e" "well_formed t'"
      using t "3.prems"(2) by (cases t'; auto)+
    then have "unat e = unat c" "code_points t' = code_points (d # s)"
      using pt t ne by (cases t'; auto)+
    then show ?thesis
      using "3.IH"(2) [of t'] False wf \<open>well_formed t'\<close> t by (auto simp: word_unat_eq_iff)
  qed
qed

text \<open>The encodings of the code points form a prefix code.\<close>

lemma of_nat_byte_eq:
  "a < 256 \<Longrightarrow> b < 256 \<Longrightarrow> (of_nat a :: 8 word) = of_nat b \<longleftrightarrow> a = b"
  by (simp add: word_unat_eq_iff unat_of_nat)

lemma nat_split64: "(n :: nat) = n div 64 * 64 + n mod 64"
  by simp

lemma utf8_point_prefix:
  assumes "a < 1114112" and "b < 1114112" and "utf8_point a @ xs = utf8_point b @ ys"
  shows "a = b \<and> xs = ys"
proof -
  have bounds: "c div 64 < 32" if "c < 2048" for c :: nat using that by simp
  consider "a < 128" | "128 \<le> a" "a < 2048" | "2048 \<le> a" "a < 65536" | "65536 \<le> a" by linarith
  then have "a = b"
  proof cases
    case 1
    with assms show ?thesis
      by (auto simp: utf8_point_def of_nat_byte_eq simp del: of_nat_add split: if_splits)
  next
    case 2
    with assms have "192 + a div 64 = 192 + b div 64 \<and> 128 + a mod 64 = 128 + b mod 64 \<and> b < 2048"
      by (auto simp: utf8_point_def of_nat_byte_eq simp del: of_nat_add split: if_splits)
    then show ?thesis using nat_split64 [of a] nat_split64 [of b] by simp
  next
    case 3
    with assms have "224 + a div 4096 = 224 + b div 4096 \<and> 128 + a div 64 mod 64 = 128 + b div 64 mod 64 \<and>
        128 + a mod 64 = 128 + b mod 64"
      by (auto simp: utf8_point_def of_nat_byte_eq simp del: of_nat_add split: if_splits)
    then show ?thesis
      using nat_split64 [of a] nat_split64 [of b] nat_split64 [of "a div 64"] nat_split64 [of "b div 64"]
      by (simp add: div_mult2_eq [symmetric])
  next
    case 4
    with assms have "240 + a div 262144 = 240 + b div 262144 \<and>
        128 + a div 4096 mod 64 = 128 + b div 4096 mod 64 \<and>
        128 + a div 64 mod 64 = 128 + b div 64 mod 64 \<and> 128 + a mod 64 = 128 + b mod 64"
      by (auto simp: utf8_point_def of_nat_byte_eq simp del: of_nat_add split: if_splits)
    then show ?thesis
      using nat_split64 [of a] nat_split64 [of b] nat_split64 [of "a div 64"] nat_split64 [of "b div 64"]
        nat_split64 [of "a div 4096"] nat_split64 [of "b div 4096"]
      by (simp add: div_mult2_eq [symmetric])
  qed
  with assms show ?thesis by simp
qed

lemma utf8_points_inject:
  "\<forall>n \<in> set ps. n < 1114112 \<Longrightarrow> \<forall>n \<in> set qs. n < 1114112 \<Longrightarrow>
   concat (map utf8_point ps) = concat (map utf8_point qs) \<Longrightarrow> ps = qs"
proof (induction ps arbitrary: qs)
  case Nil
  then show ?case by (cases qs) (auto simp: utf8_point_def split: if_splits)
next
  case (Cons p ps)
  then obtain q qs' where qs: "qs = q # qs'"
    by (cases qs) (auto simp: utf8_point_def split: if_splits)
  with Cons.prems have "p = q \<and> concat (map utf8_point ps) = concat (map utf8_point qs')"
    by (intro utf8_point_prefix) auto
  then show ?case using Cons.IH [of qs'] Cons.prems qs by simp
qed

lemma utf8_inject:
  "well_formed s \<Longrightarrow> well_formed t \<Longrightarrow> utf8 s = utf8 t \<Longrightarrow> s = t"
  by (metis utf8_def utf8_points_inject code_points_bound code_points_well_formed_inject)

section \<open>Surrounding white space\<close>

text \<open>The code units \<open>String.prototype.trim\<close> removes: WhiteSpace and LineTerminator.\<close>

definition is_space :: "16 word \<Rightarrow> bool" where
  "is_space c = (let n = unat c in
     n \<in> {9, 10, 11, 12, 13, 32, 160, 5760, 8232, 8233, 8239, 8287, 12288, 65279} \<or>
     (8192 \<le> n \<and> n \<le> 8202))"

definition trim :: "jsstr \<Rightarrow> jsstr" where
  "trim s = rev (dropWhile is_space (rev (dropWhile is_space s)))"

end
