(* ===== verification/Encoding.thy ===== *)
theory Encoding
  imports Js_Strings
begin

text \<open>
  \<open>src/lib/line/encoding.ts\<close>: the byte encodings, commitments and nullifiers of the protocol, and
  the fee arithmetic. \<open>persistentHash\<close>, \<open>persistentCommit\<close> and \<open>convertFieldToBytes\<close> belong to
  \<open>@midnight-ntwrk/compact-runtime\<close>, which is not part of the repository: they are the fields of
  a record \<^verbatim>\<open>runtime\<close> that every definition using them takes as its first argument.
\<close>

section \<open>The Compact runtime\<close>

text \<open>
  A value handed to \<open>persistentCommit\<close> is described by the alignment of its type and the list of
  its atoms, in the order of the type's fields. The conversion of one atom is the runtime's.
\<close>

datatype align = ABytes nat | AUint nat

datatype atom = VBytes bytes | VUint int

record runtime =
  persistentHash :: "bytes list \<Rightarrow> bytes"
  persistentCommit :: "align list \<Rightarrow> atom list \<Rightarrow> bytes \<Rightarrow> bytes"
  convertFieldToBytes :: "nat \<Rightarrow> int \<Rightarrow> bytes"

text \<open>What the code relies on: hashes and commitments are 32-byte strings.\<close>

definition runtime_ok :: "runtime \<Rightarrow> bool" where
  "runtime_ok rt \<longleftrightarrow>
     (\<forall>xs. length (persistentHash rt xs) = 32) \<and>
     (\<forall>al vs s. length (persistentCommit rt al vs s) = 32)"

definition BYTES32 :: align where "BYTES32 = ABytes 32"
definition UINT64 :: align where "UINT64 = AUint 8"

section \<open>Committed records\<close>

record line_preimage =
  lp_domain :: bytes
  lp_identity :: bytes
  lp_limit :: int
  lp_outstanding :: int
  lp_epoch :: int

definition line_alignment :: "align list" where
  "line_alignment = [BYTES32, BYTES32, UINT64, UINT64, UINT64]"

definition line_toValue :: "line_preimage \<Rightarrow> atom list" where
  "line_toValue v =
     [VBytes (lp_domain v), VBytes (lp_identity v), VUint (lp_limit v),
      VUint (lp_outstanding v), VUint (lp_epoch v)]"

record note_preimage =
  np_domain :: bytes
  np_lineGeneration :: int
  np_identity :: bytes
  np_quoteCommit :: bytes
  np_merchantPk :: bytes
  np_amount :: int
  np_fee :: "int option"
  np_noteNonce :: bytes
  np_expiry :: int

definition note_alignment :: "align list" where
  "note_alignment =
     [BYTES32, UINT64, BYTES32, BYTES32, BYTES32, UINT64, UINT64, BYTES32, UINT64]"

definition note_toValue :: "note_preimage \<Rightarrow> atom list" where
  "note_toValue v =
     [VBytes (np_domain v), VUint (np_lineGeneration v), VBytes (np_identity v),
      VBytes (np_quoteCommit v), VBytes (np_merchantPk v), VUint (np_amount v),
      VUint (nullish (np_fee v) 0), VBytes (np_noteNonce v), VUint (np_expiry v)]"

record refund_preimage =
  rp_domain :: bytes
  rp_lineGeneration :: int
  rp_identity :: bytes
  rp_noteCommit :: bytes
  rp_amount :: int

definition refund_alignment :: "align list" where
  "refund_alignment = [BYTES32, UINT64, BYTES32, BYTES32, UINT64]"

definition refund_toValue :: "refund_preimage \<Rightarrow> atom list" where
  "refund_toValue v =
     [VBytes (rp_domain v), VUint (rp_lineGeneration v), VBytes (rp_identity v),
      VBytes (rp_noteCommit v), VUint (rp_amount v)]"

definition refundCommit :: "runtime \<Rightarrow> refund_preimage \<Rightarrow> bytes \<Rightarrow> bytes" where
  "refundCommit rt p salt = persistentCommit rt refund_alignment (refund_toValue p) salt"

definition lineStateCommit :: "runtime \<Rightarrow> line_preimage \<Rightarrow> bytes \<Rightarrow> bytes" where
  "lineStateCommit rt p salt = persistentCommit rt line_alignment (line_toValue p) salt"

definition drawNoteCommit :: "runtime \<Rightarrow> note_preimage \<Rightarrow> bytes \<Rightarrow> bytes" where
  "drawNoteCommit rt p salt = persistentCommit rt note_alignment (note_toValue p) salt"

lemma line_toValue_inject: "line_toValue p = line_toValue q \<longleftrightarrow> p = q"
  by (auto simp: line_toValue_def)

lemma refund_toValue_inject: "refund_toValue p = refund_toValue q \<longleftrightarrow> p = q"
  by (auto simp: refund_toValue_def)

section \<open>Byte encodings\<close>

definition zeros32 :: bytes where "zeros32 = replicate 32 0"

definition pad_bytes :: "bytes \<Rightarrow> bytes" where
  "pad_bytes bs = bs @ replicate (32 - length bs) 0"

definition pad32 :: "jsstr \<Rightarrow> bytes outcome" where
  "pad32 label =
     (let enc = utf8 label
      in if length enc > 32 then Inl (Throw (Error ''pad32 overflow'')) else Inr (pad_bytes enc))"

definition fromHex :: "jsstr \<Rightarrow> bytes outcome" where
  "fromHex hex =
     (let clean = strip_0x hex
      in if length clean \<noteq> 64 \<or> \<not> list_all is_hex clean
         then Inl (Throw (Error ''expected 32-byte hex''))
         else Inr (parse_hex_pairs clean))"

definition encodeU64 :: "runtime \<Rightarrow> int \<Rightarrow> bytes outcome" where
  "encodeU64 rt n =
     (if n < 0 \<or> n > uint64_max then Inl (Throw (Error ''Uint<64> out of range''))
      else Inr (convertFieldToBytes rt 32 n))"

text \<open>The chunking loop of \<open>canonicalPaymentReferenceBytes\<close>: 32-byte parts, the last zero-padded.\<close>

fun chunk32 :: "bytes \<Rightarrow> bytes list" where
  "chunk32 [] = []"
| "chunk32 (b # bs) = pad_bytes (take 32 (b # bs)) # chunk32 (drop 32 (b # bs))"

text \<open>The hash input of a payment reference, after its checks.\<close>

definition payment_reference_parts :: "runtime \<Rightarrow> jsstr \<Rightarrow> bytes list outcome" where
  "payment_reference_parts rt reference =
     (if reference = [] \<or> reference \<noteq> trim reference
      then Inl (Throw (Error ''Payment reference must be nonempty with no surrounding whitespace.''))
      else if \<not> well_formed reference
      then Inl (Throw (Error ''Malformed Unicode payment reference.''))
      else let bs = utf8 reference in
        if length bs > 4096
        then Inl (Throw (Error ''Payment reference exceeds 4096 UTF-8 bytes.''))
        else bindS (pad32 (js ''line:payment-ref:v1'')) (\<lambda>tag.
             bindS (encodeU64 rt (int (length bs))) (\<lambda>len.
               Inr (tag # len # chunk32 bs))))"

definition canonicalPaymentReferenceBytes :: "runtime \<Rightarrow> jsstr \<Rightarrow> bytes outcome" where
  "canonicalPaymentReferenceBytes rt reference =
     bindS (payment_reference_parts rt reference) (\<lambda>parts. Inr (persistentHash rt parts))"

section \<open>Domain tags, keys, commitments and nullifiers\<close>

definition TAG :: "string \<Rightarrow> bytes" where
  "TAG label = pad_bytes (utf8 (js label))"

definition TAG_issuerPk :: bytes where "TAG_issuerPk = TAG ''line:issuer:pk''"
definition TAG_merchantPk :: bytes where "TAG_merchantPk = TAG ''line:merchant:pk''"
definition TAG_id :: bytes where "TAG_id = TAG ''line:id''"
definition TAG_domain :: bytes where "TAG_domain = TAG ''line:v2:domain''"
definition TAG_quote :: bytes where "TAG_quote = TAG ''line:v3:quote''"
definition TAG_draw :: bytes where "TAG_draw = TAG ''line:v2:draw''"
definition TAG_redeem :: bytes where "TAG_redeem = TAG ''line:v2:redeem''"
definition TAG_repay :: bytes where "TAG_repay = TAG ''line:v2:repay''"
definition TAG_payment :: bytes where "TAG_payment = TAG ''line:v3:payment''"

definition issuer_key_input :: "bytes \<Rightarrow> bytes list" where
  "issuer_key_input sk = [TAG_issuerPk, sk]"

definition encodeIssuerPublicKey :: "runtime \<Rightarrow> bytes \<Rightarrow> bytes" where
  "encodeIssuerPublicKey rt sk = persistentHash rt (issuer_key_input sk)"

definition merchant_key_input :: "bytes \<Rightarrow> bytes list" where
  "merchant_key_input sk = [TAG_merchantPk, sk]"

definition encodeMerchantPublicKey :: "runtime \<Rightarrow> bytes \<Rightarrow> bytes" where
  "encodeMerchantPublicKey rt sk = persistentHash rt (merchant_key_input sk)"

definition agent_id_input :: "bytes \<Rightarrow> bytes list" where
  "agent_id_input sk = [TAG_id, sk]"

definition agentId :: "runtime \<Rightarrow> bytes \<Rightarrow> bytes" where
  "agentId rt sk = persistentHash rt (agent_id_input sk)"

definition domain_input :: "bytes \<Rightarrow> bytes \<Rightarrow> bytes \<Rightarrow> bytes list" where
  "domain_input issuerPk initialMerchantPk nonce = [TAG_domain, issuerPk, initialMerchantPk, nonce]"

definition encodeContractDomain :: "runtime \<Rightarrow> bytes \<Rightarrow> bytes \<Rightarrow> bytes \<Rightarrow> bytes" where
  "encodeContractDomain rt issuerPk initialMerchantPk nonce =
     persistentHash rt (domain_input issuerPk initialMerchantPk nonce)"

record quote_parts =
  qp_merchantPk :: bytes
  qp_invoiceId :: bytes
  qp_amount :: int
  qp_expiry :: int
  qp_nonce :: bytes
  qp_generation :: int
  qp_domain :: bytes
  qp_feeFlat :: "int option"
  qp_feeBps :: "int option"

definition quote_input :: "runtime \<Rightarrow> quote_parts \<Rightarrow> bytes list outcome" where
  "quote_input rt p =
     bindS (encodeU64 rt (qp_amount p)) (\<lambda>amount.
     bindS (encodeU64 rt (qp_expiry p)) (\<lambda>expiry.
     bindS (encodeU64 rt (qp_generation p)) (\<lambda>generation.
     bindS (encodeU64 rt (nullish (qp_feeFlat p) 0)) (\<lambda>flat.
     bindS (encodeU64 rt (nullish (qp_feeBps p) 0)) (\<lambda>bps.
       Inr [TAG_quote, qp_merchantPk p, qp_invoiceId p, amount, expiry, qp_nonce p, generation,
            qp_domain p, flat, bps])))))"

definition encodeQuoteCommit :: "runtime \<Rightarrow> quote_parts \<Rightarrow> bytes outcome" where
  "encodeQuoteCommit rt p = bindS (quote_input rt p) (\<lambda>xs. Inr (persistentHash rt xs))"

definition draw_nullifier_input :: "bytes \<Rightarrow> bytes \<Rightarrow> bytes \<Rightarrow> bytes list" where
  "draw_nullifier_input sk Q domain = [TAG_draw, sk, Q, domain]"

definition encodeDrawNullifier :: "runtime \<Rightarrow> bytes \<Rightarrow> bytes \<Rightarrow> bytes \<Rightarrow> bytes" where
  "encodeDrawNullifier rt sk Q domain = persistentHash rt (draw_nullifier_input sk Q domain)"

definition redeem_nullifier_input :: "bytes \<Rightarrow> bytes \<Rightarrow> bytes \<Rightarrow> bytes list" where
  "redeem_nullifier_input sk D domain = [TAG_redeem, sk, D, domain]"

definition encodeRedeemNullifier :: "runtime \<Rightarrow> bytes \<Rightarrow> bytes \<Rightarrow> bytes \<Rightarrow> bytes" where
  "encodeRedeemNullifier rt sk D domain = persistentHash rt (redeem_nullifier_input sk D domain)"

definition repay_nullifier_input ::
    "runtime \<Rightarrow> bytes \<Rightarrow> bytes \<Rightarrow> bytes \<Rightarrow> int \<Rightarrow> bytes \<Rightarrow> bytes \<Rightarrow> bytes list outcome" where
  "repay_nullifier_input rt nonce identity currentC amount paymentRef domain =
     bindS (encodeU64 rt amount) (\<lambda>a.
       Inr [TAG_repay, nonce, identity, currentC, a, paymentRef, domain])"

definition encodeRepayNullifier ::
    "runtime \<Rightarrow> bytes \<Rightarrow> bytes \<Rightarrow> bytes \<Rightarrow> int \<Rightarrow> bytes \<Rightarrow> bytes \<Rightarrow> bytes outcome" where
  "encodeRepayNullifier rt nonce identity currentC amount paymentRef domain =
     bindS (repay_nullifier_input rt nonce identity currentC amount paymentRef domain)
       (\<lambda>xs. Inr (persistentHash rt xs))"

definition payment_nullifier_input :: "bytes \<Rightarrow> bytes \<Rightarrow> bytes \<Rightarrow> bytes list" where
  "payment_nullifier_input issuerSecret paymentRef domain =
     [TAG_payment, issuerSecret, paymentRef, domain]"

definition encodePaymentNullifier :: "runtime \<Rightarrow> bytes \<Rightarrow> bytes \<Rightarrow> bytes \<Rightarrow> bytes" where
  "encodePaymentNullifier rt issuerSecret paymentRef domain =
     persistentHash rt (payment_nullifier_input issuerSecret paymentRef domain)"

section \<open>Issuer fee arithmetic\<close>

text \<open>BigInt division truncates; all operands are nonnegative after the range checks.\<close>

definition requiredDrawFee :: "int \<Rightarrow> int \<Rightarrow> int \<Rightarrow> int outcome" where
  "requiredDrawFee amount flat bps =
     (if \<not> list_all (\<lambda>v. 0 \<le> v \<and> v \<le> uint64_max) [amount, flat, bps]
      then Inl (Throw (RangeError ''Fee inputs must be Uint64 bigint values''))
      else if bps > 10000
      then Inl (Throw (RangeError ''Fee basis points exceed supported rate''))
      else let fee = flat + (amount * bps + 9999) div 10000 in
        if fee > uint64_max then Inl (Throw (RangeError ''Required fee exceeds Uint64''))
        else Inr fee)"

text \<open>
  The division-free test of the same policy in the \<open>draw\<close> circuit (\<open>contracts/line.compact\<close>):
  the products are over widened integers, so they are written over \<open>int\<close>.
\<close>

definition circuitFeeCheck :: "int \<Rightarrow> int \<Rightarrow> int \<Rightarrow> int \<Rightarrow> bool" where
  "circuitFeeCheck amount fee feeFlat feeBps =
     (if \<not> fee \<ge> feeFlat then False
      else let variableFee = fee - feeFlat in
        if feeBps = 0 then variableFee = 0
        else variableFee > 0 \<and>
             (let numerator = amount * feeBps
              in (variableFee - 1) * 10000 < numerator \<and> numerator \<le> variableFee * 10000))"

section \<open>Display and invoice identifiers\<close>

definition shortHex :: "jsstr \<Rightarrow> nat \<Rightarrow> jsstr" where
  "shortHex hex n =
     (if length hex \<le> n * 2 + 1 then hex
      else take n hex @ [8230] @ (if n = 0 then hex else drop (length hex - n) hex))"

definition invoiceReferenceError :: "jsstr \<Rightarrow> string" where
  "invoiceReferenceError invoiceId =
     (let clean = strip_0x invoiceId
      in if (length clean = 64 \<and> list_all is_hex clean) \<or> length (utf8 invoiceId) \<le> 32 then ''''
         else ''Use a reference of at most 32 UTF-8 bytes, or a 64-digit hexadecimal invoice ID.'')"

definition canonicalInvoiceIdBytes :: "jsstr \<Rightarrow> bytes outcome" where
  "canonicalInvoiceIdBytes invoiceId =
     (let err = invoiceReferenceError invoiceId in
      if err \<noteq> '''' then Inl (Throw (Error err))
      else let clean = strip_0x invoiceId in
        if length clean = 64 \<and> list_all is_hex clean then fromHex clean else pad32 invoiceId)"

definition canonicalInvoiceIdHex :: "jsstr \<Rightarrow> jsstr outcome" where
  "canonicalInvoiceIdHex invoiceId =
     bindS (canonicalInvoiceIdBytes invoiceId) (\<lambda>bs. Inr (toHex bs))"

end
