(* ===== verification/Encoding_Facts.thy ===== *)
theory Encoding_Facts
  imports Encoding
begin

text \<open>
  Correctness of the encoders: text encodings that lose nothing (a locale with one law, interpreted
  on the hexadecimal codecs), separation of the hash inputs, the injectivity of payment references,
  and the equivalence of the two ways the program computes a fee.
\<close>

named_theorems encoding_simps \<open>evaluation of the byte encoders\<close>

section \<open>Text encodings\<close>

text \<open>
  The contract of a text encoding as its callers use it: decoding what was encoded returns it,
  on the values the encoder is meant for.
\<close>

locale text_codec =
  fixes enc :: "'a \<Rightarrow> 'b" and dec :: "'b \<Rightarrow> 'a outcome" and valid :: "'a \<Rightarrow> bool"
  assumes decode_encode: "valid a \<Longrightarrow> dec (enc a) = Inr a"
begin

lemma encode_inject: "valid a \<Longrightarrow> valid b \<Longrightarrow> enc a = enc b \<longleftrightarrow> a = b"
  by (metis decode_encode sum.inject(2))

lemma decode_total_on_image: "valid a \<Longrightarrow> is_ok (dec (enc a))"
  by (simp add: decode_encode)

lemma encode_absent: "valid a \<Longrightarrow> dec t = Inl e \<Longrightarrow> t \<noteq> enc a"
  by (auto simp: decode_encode)

end

lemma fromHex_toHex [simp]: "length bs = 32 \<Longrightarrow> fromHex (toHex bs) = Inr bs"
  by (simp add: fromHex_def)

interpretation hex: text_codec toHex hexToBytes "\<lambda>_. True"
  by unfold_locales simp

interpretation hex32: text_codec toHex fromHex "\<lambda>bs. length bs = 32"
  by unfold_locales simp

lemma length_parse_hex_pairs: "length (parse_hex_pairs s) = length s div 2"
  by (induction s rule: parse_hex_pairs.induct) auto

lemma fromHex_length: "fromHex s = Inr bs \<Longrightarrow> length bs = 32"
  by (auto simp: fromHex_def Let_def length_parse_hex_pairs split: if_splits)

lemma fromHex_hexToBytes: "fromHex s = Inr bs \<Longrightarrow> hexToBytes s = Inr bs"
  by (auto simp: fromHex_def hexToBytes_def Let_def split: if_splits)

section \<open>Padding\<close>

lemma length_pad_bytes: "length bs \<le> 32 \<Longrightarrow> length (pad_bytes bs) = 32"
  by (simp add: pad_bytes_def)

lemma pad_bytes_inject:
  "length a = length b \<Longrightarrow> pad_bytes a = pad_bytes b \<longleftrightarrow> a = b"
  by (auto simp: pad_bytes_def)

lemma pad32_ok: "pad32 label = Inr bs \<longleftrightarrow> length (utf8 label) \<le> 32 \<and> bs = pad_bytes (utf8 label)"
  by (auto simp: pad32_def Let_def)

lemma pad32_length: "pad32 label = Inr bs \<Longrightarrow> length bs = 32"
  by (simp add: pad32_ok length_pad_bytes)

lemma code_points_plain:
  "\<not> is_high c \<Longrightarrow> \<not> is_low c \<Longrightarrow> code_points (c # s) = unat c # code_points s"
  by (cases s) simp_all

lemma unat_ascii: "of_char c < (128 :: nat) \<Longrightarrow> unat (of_nat (of_char c) :: 16 word) = of_char c"
  by (simp only: unat_of_nat) simp

lemma utf8_ascii:
  "list_all (\<lambda>c. of_char c < (128 :: nat)) s \<Longrightarrow> utf8 (js s) = map of_char s"
proof (induction s)
  case (Cons c s)
  let ?w = "of_nat (of_char c) :: 16 word"
  have lt: "of_char c < (128 :: nat)" using Cons.prems by simp
  note small = unat_ascii [OF lt] lt
  have "\<not> is_high ?w" "\<not> is_low ?w"
    using small(2) by (simp_all only: is_high_def is_low_def small(1)) auto
  then have "code_points (js (c # s)) = of_char c # code_points (js s)"
    unfolding js_def list.map by (simp only: code_points_plain small(1) simp_thms)
  then show ?case
    using Cons small(2) by (simp add: utf8_def utf8_point_def of_nat_of_char)
qed (simp add: js_def utf8_def)

lemma TAG_ascii [encoding_simps]:
  "list_all (\<lambda>c. of_char c < (128 :: nat)) s \<Longrightarrow> TAG s = pad_bytes (map of_char s)"
  by (simp add: TAG_def utf8_ascii)

lemmas TAG_defs = TAG_issuerPk_def TAG_merchantPk_def TAG_id_def TAG_domain_def TAG_quote_def
  TAG_draw_def TAG_redeem_def TAG_repay_def TAG_payment_def

text \<open>The nine tags are 32 bytes each and pairwise different.\<close>

lemma tags_distinct:
  "distinct [TAG_issuerPk, TAG_merchantPk, TAG_id, TAG_domain, TAG_quote, TAG_draw, TAG_redeem,
     TAG_repay, TAG_payment]"
  by (simp add: TAG_defs encoding_simps pad_bytes_def)

section \<open>Payment references\<close>

lemma chunk32_inject:
  "length a = length b \<Longrightarrow> chunk32 a = chunk32 b \<Longrightarrow> a = b"
proof (induction a arbitrary: b rule: chunk32.induct)
  case (2 x xs)
  then obtain y ys where b: "b = y # ys" by (cases b) auto
  have len: "length (take 32 (x # xs)) = length (take 32 b)"
    using "2.prems" by simp
  have "take 32 (x # xs) = take 32 b"
    using "2.prems"(2) pad_bytes_inject [OF len] b by simp
  moreover have "drop 32 (x # xs) = drop 32 b"
    using "2.IH" [of "drop 32 b"] "2.prems" b by simp
  ultimately show ?case by (metis append_take_drop_id)
qed simp

lemma encodeU64_ok: "encodeU64 rt n = Inr b \<longleftrightarrow> 0 \<le> n \<and> n \<le> uint64_max \<and> b = convertFieldToBytes rt 32 n"
  by (auto simp: encodeU64_def)

text \<open>What the code relies on from \<open>convertFieldToBytes\<close>: different numbers get different bytes.\<close>

definition field_inject :: "runtime \<Rightarrow> bool" where
  "field_inject rt \<longleftrightarrow>
     (\<forall>m n. 0 \<le> m \<longrightarrow> m \<le> uint64_max \<longrightarrow> 0 \<le> n \<longrightarrow> n \<le> uint64_max \<longrightarrow>
        convertFieldToBytes rt 32 m = convertFieldToBytes rt 32 n \<longrightarrow> m = n)"

lemma encodeU64_inject:
  "field_inject rt \<Longrightarrow> encodeU64 rt m = Inr b \<Longrightarrow> encodeU64 rt n = Inr b \<Longrightarrow> m = n"
  by (auto simp: field_inject_def encodeU64_ok)

lemma payment_reference_parts_ok:
  "payment_reference_parts rt s = Inr ps \<Longrightarrow>
     s \<noteq> [] \<and> s = trim s \<and> well_formed s \<and> length (utf8 s) \<le> 4096 \<and>
     encodeU64 rt (int (length (utf8 s))) = Inr (ps ! 1) \<and> drop 2 ps = chunk32 (utf8 s)"
  by (auto simp: payment_reference_parts_def Let_def bindS_Inr_iff split: if_splits)

section \<open>Fees\<close>

lemma ceil_div_iff:
  fixes n v :: int
  shows "(v - 1) * 10000 < n \<and> n \<le> v * 10000 \<longleftrightarrow> v = (n + 9999) div 10000"
proof -
  let ?q = "(n + 9999) div 10000"
  have "10000 * ?q \<le> n + 9999" "n + 9999 < 10000 * ?q + 10000" by simp_all
  then show ?thesis by auto
qed

lemma requiredDrawFee_ok:
  "requiredDrawFee amount flat bps = Inr fee \<longleftrightarrow>
     0 \<le> amount \<and> amount \<le> uint64_max \<and> 0 \<le> flat \<and> flat \<le> uint64_max \<and> 0 \<le> bps \<and> bps \<le> 10000 \<and>
     fee = flat + (amount * bps + 9999) div 10000 \<and> fee \<le> uint64_max"
  by (auto simp: requiredDrawFee_def Let_def uint64_max_def)

lemma requiredDrawFee_nonneg: "requiredDrawFee amount flat bps = Inr fee \<Longrightarrow> 0 \<le> flat \<and> flat \<le> fee"
  by (auto simp: requiredDrawFee_ok zero_le_mult_iff intro!: pos_imp_zdiv_nonneg_iff [THEN iffD2])

lemma circuitFeeCheck_iff:
  assumes "0 < amount" and "0 \<le> bps"
  shows "circuitFeeCheck amount fee flat bps \<longleftrightarrow> fee = flat + (amount * bps + 9999) div 10000"
proof (cases "bps = 0")
  case True
  then show ?thesis by (auto simp: circuitFeeCheck_def)
next
  case False
  then have pos: "0 < amount * bps" using assms by simp
  have "circuitFeeCheck amount fee flat bps \<longleftrightarrow>
      fee \<ge> flat \<and> fee - flat > 0 \<and>
      (fee - flat - 1) * 10000 < amount * bps \<and> amount * bps \<le> (fee - flat) * 10000"
    using False by (auto simp: circuitFeeCheck_def Let_def)
  also have "\<dots> \<longleftrightarrow> (fee - flat - 1) * 10000 < amount * bps \<and> amount * bps \<le> (fee - flat) * 10000"
    using pos by auto
  also have "\<dots> \<longleftrightarrow> fee - flat = (amount * bps + 9999) div 10000"
    by (rule ceil_div_iff)
  finally show ?thesis by (simp add: algebra_simps)
qed

end
