(* ===== verification/Ledger.thy ===== *)
theory Ledger
  imports Encoding_Facts
begin

text \<open>
  The data of the simulator (\<open>src/lib/line/types.ts\<close>) and the helpers of
  \<open>src/lib/line/protocol.ts\<close> that every circuit uses: the public ledger, the private witness
  bundles, the string-level commitments, the ledger's constructor and its event log. A field whose
  name is also a function of the source is renamed: \<open>identityCommitment\<close>, \<open>lineCommitment\<close> and
  \<open>notes\<close> of the ledger are \<open>currentIdentity\<close>, \<open>currentCommitment\<close> and \<open>drawNotes\<close>.
\<close>

section \<open>Public state\<close>

datatype line_status = SNone | SOpen | SDefaulted | SClosed

record quote_record =
  q_commitment :: jsstr
  q_expiry :: int
  q_lineGeneration :: int
  q_used :: bool

record note_record =
  n_commitment :: jsstr
  n_amount :: int
  n_fee :: int
  n_redeemed :: bool
  n_cancelled :: bool
  n_expiry :: int
  n_lineGeneration :: int
  n_compensationAllocated :: bool
  n_refundCommitment :: jsstr
  n_cashRefundOwed :: bool
  n_refundAcknowledged :: bool
  n_refundPaymentNullifier :: jsstr

text \<open>
  The event texts are templates; the model keeps the template and the values put into it, and
  leaves the rendering of numbers out.
\<close>

datatype public_note =
    PText string
  | PMerchantRegistered jsstr
  | PMerchantDisabled jsstr
  | PFunded int int
  | PWithdrew int int
  | PFees int
  | PStatus line_status

record ledger_event =
  ev_t :: int
  ev_circuit :: string
  ev_ok :: bool
  ev_publicNote :: public_note
  ev_commitment :: "jsstr option"
  ev_quote :: "jsstr option"
  ev_note :: "jsstr option"
  ev_nullifier :: "jsstr option"
  ev_amount :: "int option"

record ledger =
  contractDomain :: jsstr
  issuerPubKey :: jsstr
  initialMerchantPubKey :: jsstr
  instanceNonce :: jsstr
  registeredMerchants :: "jsstr \<rightharpoonup> bool"
  totalReserve :: int
  encumberedReserve :: int
  redeemedReserve :: int
  feeReserve :: int
  pendingFeeReserve :: int
  refundReserve :: int
  reportedRefundReserve :: int
  feeFlat :: int
  feeBps :: int
  currentIdentity :: "jsstr option"
  currentCommitment :: "jsstr option"
  lineExpiry :: int
  status :: line_status
  lineGeneration :: int
  quotes :: "quote_record list"
  drawNotes :: "note_record list"
  nullifiers :: "jsstr list"
  events :: "ledger_event list"
  actionClock :: int

section \<open>Private witnesses\<close>

record line_witness =
  lw_domain :: jsstr
  lw_I :: jsstr
  lw_L :: int
  lw_B :: int
  lw_e :: int
  lw_s :: jsstr

record agent_store =
  as_secret :: jsstr
  as_witness :: "line_witness option"
  as_identityCommitment :: "jsstr option"

record quote_preimage =
  tq_merchantCommitment :: jsstr
  tq_amount :: int
  tq_invoiceId :: jsstr
  tq_expiry :: int
  tq_nonce :: jsstr
  tq_generation :: int
  tq_feeFlat :: int
  tq_feeBps :: int

record merchant_invoice =
  mi_invoiceId :: jsstr
  mi_amount :: int
  mi_Q :: jsstr
  mi_used :: bool
  mi_preimage :: quote_preimage

record draw_note_preimage =
  tn_domain :: jsstr
  tn_lineGeneration :: int
  tn_identity :: jsstr
  tn_quoteCommit :: jsstr
  tn_merchantPk :: jsstr
  tn_amount :: int
  tn_fee :: int
  tn_noteNonce :: jsstr
  tn_expiry :: int

record draw_note =
  dn_D :: jsstr
  dn_preimage :: draw_note_preimage
  dn_salt :: jsstr

record refund_allocation =
  ra_domain :: jsstr
  ra_lineGeneration :: int
  ra_identity :: jsstr
  ra_noteCommit :: jsstr
  ra_amount :: int
  ra_allocatedCredit :: int
  ra_salt :: jsstr
  ra_commitment :: jsstr

record repay_receipt =
  rr_identity :: jsstr
  rr_currentC :: jsstr
  rr_amount :: int
  rr_paymentRef :: jsstr
  rr_nonce :: jsstr
  rr_expiry :: int
  rr_contractDomain :: jsstr

text \<open>\<open>Math.max(0, w.L - w.B)\<close>, zero without a witness.\<close>

definition availableCredit :: "line_witness option \<Rightarrow> int" where
  "availableCredit w = (case w of None \<Rightarrow> 0 | Some v \<Rightarrow> max 0 (fsub (lw_L v) (lw_B v)))"

section \<open>Execution environment\<close>

text \<open>
  The reading of the trusted clock the ledger was created with, and the results of
  \<open>randomBytes32\<close> in the order one execution asks for them.
\<close>

record env =
  env_clock :: int
  env_random :: "nat \<Rightarrow> bytes"

definition assertSafeUint :: "int \<Rightarrow> bool" where
  "assertSafeUint n \<longleftrightarrow> n \<ge> 0 \<and> isSafeInteger n"

definition executionUnixSeconds :: "env \<Rightarrow> int outcome" where
  "executionUnixSeconds e =
     (let now = env_clock e in
      if \<not> isSafeInteger now \<or> now < 0
      then Inl (Throw (RangeError ''Invalid trusted model Unix-seconds clock''))
      else Inr now)"

section \<open>Bytes and strings\<close>

datatype b32_input = Missing | Text jsstr | Raw bytes

definition asBytes32 :: "b32_input \<Rightarrow> bytes outcome" where
  "asBytes32 input =
     (case input of
        Missing \<Rightarrow> Inr zeros32
      | Raw bs \<Rightarrow> Inr bs
      | Text s \<Rightarrow>
          if s = [] then Inr zeros32
          else let clean = strip_0x s in
            if length clean = 64 \<and> list_all is_hex clean then fromHex clean else pad32 s)"

text \<open>\<open>toHex(asBytes32(s))\<close>, the normal form of a 32-byte string.\<close>

definition hex32 :: "b32_input \<Rightarrow> jsstr outcome" where
  "hex32 s = bindS (asBytes32 s) (\<lambda>bs. Inr (toHex bs))"

definition getCaller :: "jsstr option \<Rightarrow> jsstr option \<Rightarrow> jsstr" where
  "getCaller caller callerSk = nullish (or_else callerSk caller) []"

definition lockedReserve :: "ledger \<Rightarrow> int" where
  "lockedReserve l =
     fadd (fadd (fadd (fadd (fadd (encumberedReserve l) (redeemedReserve l)) (feeReserve l))
       (pendingFeeReserve l)) (refundReserve l)) (reportedRefundReserve l)"

text \<open>A number entering a hash must be a safe non-negative integer.\<close>

definition u64 :: "int \<Rightarrow> int outcome" where
  "u64 n = (if n < 0 \<or> \<not> isSafeInteger n
            then Inl (Throw (RangeError ''not a Uint<64>-compatible integer'')) else Inr n)"

definition identityCommitment :: "runtime \<Rightarrow> jsstr \<Rightarrow> jsstr outcome" where
  "identityCommitment rt agentSecret =
     bindS (asBytes32 (Text agentSecret)) (\<lambda>sk. Inr (toHex (agentId rt sk)))"

definition issuerPublicKey :: "runtime \<Rightarrow> jsstr \<Rightarrow> jsstr outcome" where
  "issuerPublicKey rt issuerSecret =
     bindS (asBytes32 (Text issuerSecret)) (\<lambda>sk. Inr (toHex (encodeIssuerPublicKey rt sk)))"

definition merchantPublicKey :: "runtime \<Rightarrow> jsstr \<Rightarrow> jsstr outcome" where
  "merchantPublicKey rt merchantSecret =
     bindS (asBytes32 (Text merchantSecret)) (\<lambda>sk. Inr (toHex (encodeMerchantPublicKey rt sk)))"

definition lineCommitment :: "runtime \<Rightarrow> line_witness \<Rightarrow> jsstr outcome" where
  "lineCommitment rt w =
     bindS (asBytes32 (Text (lw_domain w))) (\<lambda>domain.
     bindS (asBytes32 (Text (lw_I w))) (\<lambda>identity.
     bindS (u64 (lw_L w)) (\<lambda>limit.
     bindS (u64 (lw_B w)) (\<lambda>outstanding.
     bindS (u64 (lw_e w)) (\<lambda>epoch.
     bindS (asBytes32 (Text (lw_s w))) (\<lambda>salt.
       Inr (toHex (lineStateCommit rt \<lparr>lp_domain = domain, lp_identity = identity,
         lp_limit = limit, lp_outstanding = outstanding, lp_epoch = epoch\<rparr> salt))))))))"

definition quoteCommitment :: "runtime \<Rightarrow> quote_preimage \<Rightarrow> jsstr \<Rightarrow> jsstr outcome" where
  "quoteCommitment rt q domain =
     bindS (asBytes32 (Text (tq_merchantCommitment q))) (\<lambda>merchantPk.
     bindS (asBytes32 (Text (tq_invoiceId q))) (\<lambda>invoiceId.
     bindS (u64 (tq_amount q)) (\<lambda>amount.
     bindS (u64 (tq_expiry q)) (\<lambda>expiry.
     bindS (asBytes32 (Text (tq_nonce q))) (\<lambda>nonce.
     bindS (u64 (tq_generation q)) (\<lambda>generation.
     bindS (u64 (tq_feeFlat q)) (\<lambda>flat.
     bindS (u64 (tq_feeBps q)) (\<lambda>bps.
     bindS (asBytes32 (Text domain)) (\<lambda>dom.
     bindS (encodeQuoteCommit rt \<lparr>qp_merchantPk = merchantPk, qp_invoiceId = invoiceId,
         qp_amount = amount, qp_expiry = expiry, qp_nonce = nonce, qp_generation = generation,
         qp_domain = dom, qp_feeFlat = Some flat, qp_feeBps = Some bps\<rparr>) (\<lambda>Q.
       Inr (toHex Q)))))))))))"

definition drawNoteCommitment :: "runtime \<Rightarrow> draw_note_preimage \<Rightarrow> jsstr \<Rightarrow> jsstr outcome" where
  "drawNoteCommitment rt np salt =
     bindS (asBytes32 (Text (tn_domain np))) (\<lambda>domain.
     bindS (u64 (tn_lineGeneration np)) (\<lambda>generation.
     bindS (asBytes32 (Text (tn_identity np))) (\<lambda>identity.
     bindS (asBytes32 (Text (tn_quoteCommit np))) (\<lambda>quote.
     bindS (asBytes32 (Text (tn_merchantPk np))) (\<lambda>merchantPk.
     bindS (u64 (tn_amount np)) (\<lambda>amount.
     bindS (u64 (tn_fee np)) (\<lambda>fee.
     bindS (asBytes32 (Text (tn_noteNonce np))) (\<lambda>nonce.
     bindS (u64 (tn_expiry np)) (\<lambda>expiry.
     bindS (asBytes32 (Text salt)) (\<lambda>s.
       Inr (toHex (drawNoteCommit rt \<lparr>np_domain = domain, np_lineGeneration = generation,
         np_identity = identity, np_quoteCommit = quote, np_merchantPk = merchantPk,
         np_amount = amount, np_fee = Some fee, np_noteNonce = nonce, np_expiry = expiry\<rparr> s))))))))))))"

definition refundCommitment ::
    "runtime \<Rightarrow> jsstr \<Rightarrow> int \<Rightarrow> jsstr \<Rightarrow> jsstr \<Rightarrow> int \<Rightarrow> jsstr \<Rightarrow> jsstr outcome" where
  "refundCommitment rt domain generation identity noteCommit amount salt =
     bindS (asBytes32 (Text domain)) (\<lambda>dom.
     bindS (u64 generation) (\<lambda>gen.
     bindS (asBytes32 (Text identity)) (\<lambda>owner.
     bindS (asBytes32 (Text noteCommit)) (\<lambda>D.
     bindS (u64 amount) (\<lambda>a.
     bindS (asBytes32 (Text salt)) (\<lambda>s.
       Inr (toHex (refundCommit rt \<lparr>rp_domain = dom, rp_lineGeneration = gen,
         rp_identity = owner, rp_noteCommit = D, rp_amount = a\<rparr> s))))))))"

definition drawNullifier :: "runtime \<Rightarrow> jsstr \<Rightarrow> jsstr \<Rightarrow> jsstr \<Rightarrow> jsstr outcome" where
  "drawNullifier rt agentSecret Q domain =
     bindS (asBytes32 (Text agentSecret)) (\<lambda>sk.
     bindS (asBytes32 (Text Q)) (\<lambda>q.
     bindS (asBytes32 (Text domain)) (\<lambda>d. Inr (toHex (encodeDrawNullifier rt sk q d)))))"

definition redeemNullifier :: "runtime \<Rightarrow> jsstr \<Rightarrow> jsstr \<Rightarrow> jsstr \<Rightarrow> jsstr outcome" where
  "redeemNullifier rt merchantSecret D domain =
     bindS (asBytes32 (Text merchantSecret)) (\<lambda>sk.
     bindS (asBytes32 (Text D)) (\<lambda>d.
     bindS (asBytes32 (Text domain)) (\<lambda>dom. Inr (toHex (encodeRedeemNullifier rt sk d dom)))))"

definition repayNullifier ::
    "runtime \<Rightarrow> jsstr \<Rightarrow> jsstr \<Rightarrow> jsstr \<Rightarrow> int \<Rightarrow> jsstr \<Rightarrow> jsstr \<Rightarrow> jsstr outcome" where
  "repayNullifier rt receiptNonce I currentC amount paymentRef domain =
     bindS (asBytes32 (Text receiptNonce)) (\<lambda>nonce.
     bindS (asBytes32 (Text I)) (\<lambda>identity.
     bindS (asBytes32 (Text currentC)) (\<lambda>C.
     bindS (u64 amount) (\<lambda>a.
     bindS (canonicalPaymentReferenceBytes rt paymentRef) (\<lambda>ref.
     bindS (asBytes32 (Text domain)) (\<lambda>dom.
     bindS (encodeRepayNullifier rt nonce identity C a ref dom) (\<lambda>N. Inr (toHex N))))))))"

section \<open>The ledger's life\<close>

text \<open>Every successful circuit advances the action counter and prepends one event.\<close>

definition pushEvent :: "ledger_event \<Rightarrow> ledger \<Rightarrow> ledger" where
  "pushEvent ev l =
     l\<lparr>actionClock := fadd (actionClock l) 1,
       events := ev\<lparr>ev_t := fadd (actionClock l) 1\<rparr> # events l\<rparr>"

definition event :: "string \<Rightarrow> public_note \<Rightarrow> ledger_event" where
  "event circuit note =
     \<lparr>ev_t = 0, ev_circuit = circuit, ev_ok = True, ev_publicNote = note, ev_commitment = None,
      ev_quote = None, ev_note = None, ev_nullifier = None, ev_amount = None\<rparr>"

record ledger_params =
  cp_issuerSecret :: "jsstr option"
  cp_merchantSecret :: "jsstr option"
  cp_instanceNonce :: "jsstr option"
  cp_issuerPubKey :: "jsstr option"
  cp_merchantPubKey :: "jsstr option"

text \<open>A parameter that is absent or the empty string is falsy.\<close>

definition truthy :: "jsstr option \<Rightarrow> jsstr option" where
  "truthy s = (case s of Some x \<Rightarrow> if x = [] then None else Some x | None \<Rightarrow> None)"

definition key_param ::
    "(bytes \<Rightarrow> bytes) \<Rightarrow> jsstr option \<Rightarrow> jsstr option \<Rightarrow> bytes \<Rightarrow> bytes outcome" where
  "key_param derive pubKey secret random =
     (case truthy pubKey of
        Some k \<Rightarrow> asBytes32 (Text k)
      | None \<Rightarrow> (case truthy secret of
          Some s \<Rightarrow> bindS (asBytes32 (Text s)) (\<lambda>sk. Inr (derive sk))
        | None \<Rightarrow> Inr random))"

definition createLedger :: "runtime \<Rightarrow> env \<Rightarrow> ledger_params \<Rightarrow> ledger outcome" where
  "createLedger rt env p =
     bindS (key_param (encodeIssuerPublicKey rt) (cp_issuerPubKey p) (cp_issuerSecret p)
       (env_random env 0)) (\<lambda>issuerPk.
     bindS (key_param (encodeMerchantPublicKey rt) (cp_merchantPubKey p) (cp_merchantSecret p)
       (env_random env 1)) (\<lambda>merchantPk.
     bindS (case truthy (cp_instanceNonce p) of
         Some n \<Rightarrow> asBytes32 (Text n) | None \<Rightarrow> Inr (env_random env 2)) (\<lambda>nonce.
       Inr \<lparr>contractDomain = toHex (encodeContractDomain rt issuerPk merchantPk nonce),
         issuerPubKey = toHex issuerPk, initialMerchantPubKey = toHex merchantPk,
         instanceNonce = toHex nonce,
         registeredMerchants = [toHex merchantPk \<mapsto> True],
         totalReserve = 0, encumberedReserve = 0, redeemedReserve = 0, feeReserve = 0,
         pendingFeeReserve = 0, refundReserve = 0, reportedRefundReserve = 0,
         feeFlat = 0, feeBps = 0, currentIdentity = None, currentCommitment = None,
         lineExpiry = 0, status = SNone, lineGeneration = 0, quotes = [], drawNotes = [],
         nullifiers = [], events = [], actionClock = 0\<rparr>)))"

definition isIssuer :: "runtime \<Rightarrow> ledger \<Rightarrow> jsstr \<Rightarrow> bool outcome" where
  "isIssuer rt l callerSecret =
     bindS (issuerPublicKey rt callerSecret) (\<lambda>pk. Inr (pk = issuerPubKey l))"

definition opens :: "runtime \<Rightarrow> line_witness \<Rightarrow> jsstr option \<Rightarrow> bool outcome" where
  "opens rt w C =
     (case C of None \<Rightarrow> Inr False | Some c \<Rightarrow> bindS (lineCommitment rt w) (\<lambda>d. Inr (d = c)))"

section \<open>Facts the circuits share\<close>

lemma asBytes32_toHex [simp]: "length bs = 32 \<Longrightarrow> asBytes32 (Text (toHex bs)) = Inr bs"
proof -
  assume len: "length bs = 32"
  then have "toHex bs \<noteq> []" by (cases bs) (auto simp: hex_byte_def)
  with len show ?thesis by (simp add: asBytes32_def)
qed

interpretation b32: text_codec "\<lambda>bs. toHex bs" "\<lambda>s. asBytes32 (Text s)" "\<lambda>bs. length bs = 32"
  by unfold_locales simp

lemma zeros32_length [simp]: "length zeros32 = 32"
  by (simp add: zeros32_def)

lemma asBytes32_Text_length: "asBytes32 (Text s) = Inr bs \<Longrightarrow> length bs = 32"
  by (auto simp: asBytes32_def Let_def fromHex_length pad32_length split: if_splits)

lemma hex32_ok: "hex32 s = Inr t \<longleftrightarrow> (\<exists>bs. asBytes32 s = Inr bs \<and> t = toHex bs)"
  by (auto simp: hex32_def bindS_Inr_iff)

text \<open>Normalising twice changes nothing.\<close>

lemma hex32_idem: "hex32 (Text s) = Inr t \<Longrightarrow> hex32 (Text t) = Inr t"
  by (auto simp: hex32_ok dest: asBytes32_Text_length)

lemma u64_ok: "u64 n = Inr m \<longleftrightarrow> m = n \<and> 0 \<le> n \<and> n \<le> max_safe"
  by (auto simp: u64_def isSafeInteger_def max_safe_def)

lemma assertSafeUint_iff: "assertSafeUint n \<longleftrightarrow> 0 \<le> n \<and> n \<le> max_safe"
  by (auto simp: assertSafeUint_def isSafeInteger_def max_safe_def)

lemma executionUnixSeconds_ok:
  "executionUnixSeconds e = Inr now \<longleftrightarrow> now = env_clock e \<and> 0 \<le> now \<and> now \<le> max_safe"
  by (auto simp: executionUnixSeconds_def Let_def isSafeInteger_def max_safe_def)

lemma isIssuer_ok:
  "isIssuer rt l k = Inr b \<longleftrightarrow> (\<exists>pk. issuerPublicKey rt k = Inr pk \<and> b = (pk = issuerPubKey l))"
  by (auto simp: isIssuer_def bindS_Inr_iff)

lemma opens_ok:
  "opens rt w C = Inr True \<longleftrightarrow> (\<exists>c. C = Some c \<and> lineCommitment rt w = Inr c)"
  by (auto simp: opens_def bindS_Inr_iff split: option.splits)

text \<open>A witness that opens a commitment has numbers in the safe range.\<close>

lemma lineCommitment_bounds:
  "lineCommitment rt w = Inr c \<Longrightarrow>
     0 \<le> lw_L w \<and> lw_L w \<le> max_safe \<and> 0 \<le> lw_B w \<and> lw_B w \<le> max_safe \<and>
     0 \<le> lw_e w \<and> lw_e w \<le> max_safe"
  by (auto simp: lineCommitment_def bindS_Inr_iff u64_ok)

lemma pushEvent_fields [simp]:
  "contractDomain (pushEvent ev l) = contractDomain l"
  "issuerPubKey (pushEvent ev l) = issuerPubKey l"
  "registeredMerchants (pushEvent ev l) = registeredMerchants l"
  "totalReserve (pushEvent ev l) = totalReserve l"
  "encumberedReserve (pushEvent ev l) = encumberedReserve l"
  "redeemedReserve (pushEvent ev l) = redeemedReserve l"
  "feeReserve (pushEvent ev l) = feeReserve l"
  "pendingFeeReserve (pushEvent ev l) = pendingFeeReserve l"
  "refundReserve (pushEvent ev l) = refundReserve l"
  "reportedRefundReserve (pushEvent ev l) = reportedRefundReserve l"
  "feeFlat (pushEvent ev l) = feeFlat l"
  "feeBps (pushEvent ev l) = feeBps l"
  "currentIdentity (pushEvent ev l) = currentIdentity l"
  "currentCommitment (pushEvent ev l) = currentCommitment l"
  "lineExpiry (pushEvent ev l) = lineExpiry l"
  "status (pushEvent ev l) = status l"
  "lineGeneration (pushEvent ev l) = lineGeneration l"
  "quotes (pushEvent ev l) = quotes l"
  "drawNotes (pushEvent ev l) = drawNotes l"
  "nullifiers (pushEvent ev l) = nullifiers l"
  by (simp_all add: pushEvent_def)

end
