(* ===== verification/Protocol.thy ===== *)
theory Protocol
  imports Ledger
begin

text \<open>
  The twelve circuits of the simulator, \<open>src/lib/line/protocol.ts\<close>. Each works on a clone of the
  ledger and returns the clone, so it is a function from the ledger to an outcome that carries the
  new ledger; a failed or throwing call returns no ledger, and the caller keeps the old one.
  Order of the guards, their codes and their messages are the source's.
\<close>

section \<open>Registry\<close>

definition registerMerchant ::
    "runtime \<Rightarrow> ledger \<Rightarrow> jsstr option \<Rightarrow> jsstr option \<Rightarrow> jsstr \<Rightarrow> ledger outcome" where
  "registerMerchant rt l caller callerSk merchantPk =
     bindS (isIssuer rt l (getCaller caller callerSk)) (\<lambda>auth.
     if \<not> auth then Inl (Fail ''AUTH_ISSUER'' ''caller is not the registered issuer'') else
     bindS (hex32 (Text merchantPk)) (\<lambda>pubM.
     if registeredMerchants l pubM = Some True
     then Inl (Fail ''MERCHANT_REGISTERED'' ''merchant already registered'') else
     Inr (pushEvent (event ''registerMerchant'' (PMerchantRegistered (take 8 pubM)))
       (l\<lparr>registeredMerchants := (registeredMerchants l)(pubM \<mapsto> True)\<rparr>))))"

definition disableMerchant ::
    "runtime \<Rightarrow> ledger \<Rightarrow> jsstr \<Rightarrow> jsstr \<Rightarrow> ledger outcome" where
  "disableMerchant rt l caller merchantPk =
     bindS (isIssuer rt l caller) (\<lambda>auth.
     if \<not> auth then Inl (Fail ''AUTH_ISSUER'' ''caller is not the registered issuer'') else
     bindS (hex32 (Text merchantPk)) (\<lambda>pubM.
     if registeredMerchants l pubM = None
     then Inl (Fail ''UNKNOWN_MERCHANT'' ''merchant is not in the registry'') else
     Inr (pushEvent (event ''disableMerchant'' (PMerchantDisabled (take 8 pubM)))
       (l\<lparr>registeredMerchants := (registeredMerchants l)(pubM \<mapsto> False)\<rparr>))))"

section \<open>Reserve\<close>

definition fundReserve ::
    "runtime \<Rightarrow> ledger \<Rightarrow> jsstr option \<Rightarrow> jsstr option \<Rightarrow> int \<Rightarrow> ledger outcome" where
  "fundReserve rt l caller callerSk amount =
     bindS (isIssuer rt l (getCaller caller callerSk)) (\<lambda>auth.
     if \<not> auth then Inl (Fail ''AUTH_ISSUER'' ''caller is not the registered issuer'') else
     if \<not> assertSafeUint amount \<or> amount \<le> 0
     then Inl (Fail ''ZERO'' ''zero-amount operations are rejected'') else
     (let nextReserve = fadd (totalReserve l) amount in
      if nextReserve > uint64_max
      then Inl (Fail ''OVERFLOW'' ''balance arithmetic overflowed'') else
      Inr (pushEvent ((event ''fundReserve'' (PFunded amount nextReserve))\<lparr>ev_amount := Some amount\<rparr>)
        (l\<lparr>totalReserve := nextReserve\<rparr>))))"

definition withdrawUnencumberedReserve ::
    "runtime \<Rightarrow> ledger \<Rightarrow> jsstr option \<Rightarrow> jsstr option \<Rightarrow> int \<Rightarrow> ledger outcome" where
  "withdrawUnencumberedReserve rt l caller callerSk amount =
     bindS (isIssuer rt l (getCaller caller callerSk)) (\<lambda>auth.
     if \<not> auth then Inl (Fail ''AUTH_ISSUER'' ''caller is not the registered issuer'') else
     if \<not> assertSafeUint amount \<or> amount \<le> 0
     then Inl (Fail ''ZERO'' ''zero-amount operations are rejected'') else
     (let locked = lockedReserve l; withdrawable = fsub (totalReserve l) locked in
      if amount > withdrawable
      then Inl (Fail ''RESERVE_WITHDRAW'' ''withdrawal exceeds unencumbered reserve'') else
      (let total = fsub (totalReserve l) amount in
       Inr (pushEvent
         ((event ''withdrawUnencumberedReserve'' (PWithdrew amount total))\<lparr>ev_amount := Some amount\<rparr>)
         (l\<lparr>totalReserve := total\<rparr>)))))"

definition withdrawFees ::
    "runtime \<Rightarrow> ledger \<Rightarrow> jsstr \<Rightarrow> (ledger \<times> int) outcome" where
  "withdrawFees rt l caller =
     bindS (isIssuer rt l caller) (\<lambda>auth.
     if \<not> auth then Inl (Fail ''AUTH_ISSUER'' ''caller is not the registered issuer'') else
     (let f = feeReserve l in
      if f \<le> 0 then Inl (Fail ''NO_FEES'' ''no fees'') else
      (let locked = lockedReserve l in
       if totalReserve l < locked then Inl (Fail ''RESERVE_DEFICIT'' ''reserve deficit'') else
       Inr (pushEvent ((event ''withdrawFees'' (PFees f))\<lparr>ev_amount := Some f\<rparr>)
         (l\<lparr>totalReserve := fsub (totalReserve l) f, feeReserve := 0\<rparr>), f))))"

section \<open>Opening a line\<close>

record open_input =
  oi_caller :: "jsstr option"
  oi_callerSk :: "jsstr option"
  oi_agentSecret :: jsstr
  oi_limit :: "int option"
  oi_salt :: "jsstr option"
  oi_expiry :: int
  oi_feeFlat :: "int option"
  oi_feeBps :: "int option"

definition openLine ::
    "runtime \<Rightarrow> env \<Rightarrow> ledger \<Rightarrow> open_input \<Rightarrow> int option \<Rightarrow> (ledger \<times> agent_store) outcome" where
  "openLine rt env l i wlimit =
     bindS (isIssuer rt l (getCaller (oi_caller i) (oi_callerSk i))) (\<lambda>auth.
     if \<not> auth then Inl (Fail ''AUTH_ISSUER'' ''caller is not the registered issuer'') else
     (let limit = nullish (or_else wlimit (oi_limit i)) 0 in
      if \<not> assertSafeUint limit \<or> limit \<le> 0
      then Inl (Fail ''LIMIT'' ''limit must be a positive integer'') else
      if \<not> assertSafeUint (oi_expiry i)
      then Inl (Fail ''EXPIRY'' ''expiry is not in the future'') else
      bindS (executionUnixSeconds env) (\<lambda>now.
      if oi_expiry i \<le> now then Inl (Fail ''EXPIRY'' ''expiry is not in the future'') else
      if status l \<noteq> SNone \<and> status l \<noteq> SClosed
      then Inl (Fail ''LINE_EXISTS'' ''an open line already exists for this identity'') else
      (let flat = nullish (oi_feeFlat i) 0; bps = nullish (oi_feeBps i) 0 in
       if \<not> assertSafeUint flat \<or> \<not> assertSafeUint bps \<or> bps > 10000
       then Inl (Fail ''FEE_POLICY'' ''invalid issuer fee policy'') else
       bindS (identityCommitment rt (oi_agentSecret i)) (\<lambda>I.
       bindS (hex32 (Text (nullish (oi_salt i) (toHex (env_random env 0))))) (\<lambda>s.
       (let lineWitness = \<lparr>lw_domain = contractDomain l, lw_I = I, lw_L = limit, lw_B = 0,
          lw_e = 0, lw_s = s\<rparr> in
        bindS (lineCommitment rt lineWitness) (\<lambda>C.
        bindS (hex32 (Text (oi_agentSecret i))) (\<lambda>secret.
          Inr (pushEvent ((event ''openLine''
                 (PText ''Line opened. Commitment published. Limit is not on the ledger.''))
                   \<lparr>ev_commitment := Some C\<rparr>)
               (l\<lparr>currentIdentity := Some I, currentCommitment := Some C,
                  lineExpiry := oi_expiry i, feeFlat := flat, feeBps := bps, status := SOpen,
                  lineGeneration := fadd (lineGeneration l) 1\<rparr>),
               \<lparr>as_secret = secret, as_witness = Some lineWitness,
                as_identityCommitment = Some I\<rparr>))))))))))"

section \<open>Quotes\<close>

record quote_request =
  qi_caller :: "jsstr option"
  qi_callerSk :: "jsstr option"
  qi_merchantSecret :: "jsstr option"
  qi_amount :: "int option"
  qi_invoiceId :: jsstr
  qi_expiry :: int
  qi_nonce :: "jsstr option"

definition fee_policy_ok :: "ledger \<Rightarrow> bool" where
  "fee_policy_ok l \<longleftrightarrow>
     assertSafeUint (feeFlat l) \<and> assertSafeUint (feeBps l) \<and> \<not> feeBps l > 10000"

definition postQuote ::
    "runtime \<Rightarrow> env \<Rightarrow> ledger \<Rightarrow> quote_request \<Rightarrow> int option \<Rightarrow>
       (ledger \<times> quote_preimage \<times> jsstr) outcome" where
  "postQuote rt env l i wamount =
     (let caller = nullish (or_else (qi_callerSk i) (or_else (qi_merchantSecret i) (qi_caller i))) [] in
      bindS (merchantPublicKey rt caller) (\<lambda>mPk.
      if registeredMerchants l mPk = None
      then Inl (Fail ''AUTH_MERCHANT'' ''caller is not a registered merchant'') else
      if registeredMerchants l mPk \<noteq> Some True
      then Inl (Fail ''MERCHANT_DISABLED'' ''merchant is disabled'') else
      if status l \<noteq> SOpen
      then Inl (Fail ''STATUS'' ''line status does not allow this circuit'') else
      (let amount = nullish (or_else wamount (qi_amount i)) 0 in
       if \<not> assertSafeUint amount \<or> amount \<le> 0
       then Inl (Fail ''ZERO'' ''zero-amount operations are rejected'') else
       if \<not> assertSafeUint (qi_expiry i)
       then Inl (Fail ''EXPIRY'' ''expiry is not in the future'') else
       bindS (executionUnixSeconds env) (\<lambda>now.
       if qi_expiry i \<le> now then Inl (Fail ''EXPIRY'' ''expiry is not in the future'') else
       if \<not> fee_policy_ok l
       then Inl (Fail ''FEE_POLICY'' ''missing or invalid issuer fee policy'') else
       bindS (hex32 (Text (qi_invoiceId i))) (\<lambda>invoice.
       bindS (hex32 (Text (nullish (qi_nonce i) (toHex (env_random env 0))))) (\<lambda>nonce.
       (let preimage = \<lparr>tq_merchantCommitment = mPk, tq_amount = amount, tq_invoiceId = invoice,
          tq_expiry = qi_expiry i, tq_nonce = nonce, tq_generation = lineGeneration l,
          tq_feeFlat = feeFlat l, tq_feeBps = feeBps l\<rparr> in
        bindS (quoteCommitment rt preimage (contractDomain l)) (\<lambda>Q.
        if list_ex (\<lambda>q. q_commitment q = Q) (quotes l)
        then Inl (Fail ''QUOTE_USED'' ''quote commitment already posted'') else
        Inr (pushEvent ((event ''postQuote'' (PText ''Opaque quote commitment posted.''))
               \<lparr>ev_quote := Some Q\<rparr>)
             (l\<lparr>quotes := quotes l @ [\<lparr>q_commitment = Q, q_expiry = qi_expiry i,
                q_lineGeneration = lineGeneration l, q_used = False\<rparr>]\<rparr>),
             preimage, Q)))))))))"

section \<open>Drawing\<close>

record draw_input =
  di_caller :: "jsstr option"
  di_callerSk :: "jsstr option"
  di_agentSecret :: "jsstr option"
  di_agent :: "agent_store option"
  di_witness :: "line_witness option"
  di_quote :: "quote_preimage option"
  di_invoice :: "merchant_invoice option"
  di_quoteCommit :: "jsstr option"
  di_newSalt :: "jsstr option"
  di_noteNonce :: "jsstr option"
  di_noteSalt :: "jsstr option"
  di_noteExpiry :: "int option"
  di_fee :: "int option"

record draw_witness =
  dw_books :: line_witness
  dw_quote :: quote_preimage

text \<open>What the first half of \<open>draw\<close> has established: who draws, on which books, which quote.\<close>

record draw_auth =
  da_now :: int
  da_secret :: jsstr
  da_books :: line_witness
  da_I :: jsstr
  da_Q :: jsstr
  da_live :: quote_record
  da_merchantPk :: jsstr
  da_amount :: int

text \<open>Authentication of the agent and of the committed books.\<close>

definition drawAgent ::
    "runtime \<Rightarrow> ledger \<Rightarrow> draw_input \<Rightarrow> draw_witness option \<Rightarrow> int \<Rightarrow>
       (jsstr \<times> line_witness \<times> jsstr) outcome" where
  "drawAgent rt l i w now =
     (if status l \<noteq> SOpen
      then Inl (Fail ''STATUS'' ''line status does not allow this circuit'') else
      if nullish (currentCommitment l) [] = [] then Inl (Fail ''NO_LINE'' ''no line is open'') else
      if lineExpiry l \<le> now then Inl (Fail ''LINE_EXPIRED'' ''line expired'') else
      (let secret = nullish (or_else (di_agentSecret i) (or_else (map_option as_secret (di_agent i))
         (or_else (di_callerSk i) (di_caller i)))) [] in
       if secret = [] then Inl (Fail ''AUTH_AGENT'' ''agent secret does not own this line'') else
       (case or_else (map_option dw_books w) (or_else (di_witness i)
          (Option.bind (di_agent i) as_witness)) of
          None \<Rightarrow> Inl (Fail ''STALE'' ''line-state commitment is stale'')
        | Some books \<Rightarrow>
          bindS (identityCommitment rt secret) (\<lambda>I.
          if I \<noteq> lw_I books \<or> Some I \<noteq> currentIdentity l
          then Inl (Fail ''AUTH_AGENT'' ''agent secret does not own this line'') else
          bindS (opens rt books (currentCommitment l)) (\<lambda>opened.
          if \<not> opened then Inl (Fail ''STALE'' ''line-state commitment is stale'') else
          Inr (secret, books, I))))))"

text \<open>The live quote, and the proof that the private invoice opens it.\<close>

definition drawQuote ::
    "runtime \<Rightarrow> ledger \<Rightarrow> draw_input \<Rightarrow> draw_witness option \<Rightarrow> int \<Rightarrow>
       (jsstr \<times> quote_record \<times> jsstr \<times> int) outcome" where
  "drawQuote rt l i w now =
     (case or_else (map_option dw_quote w) (or_else (di_quote i)
        (map_option mi_preimage (di_invoice i))) of
        None \<Rightarrow> Inl (Fail ''QUOTE'' ''quote preimage does not match a live quote'')
      | Some wq \<Rightarrow>
        if \<not> fee_policy_ok l
        then Inl (Fail ''FEE_POLICY'' ''missing or invalid issuer fee policy'') else
        bindS (case di_quoteCommit i of Some Q \<Rightarrow> Inr Q
               | None \<Rightarrow> quoteCommitment rt wq (contractDomain l)) (\<lambda>Q.
        (case find (\<lambda>q. q_commitment q = Q) (quotes l) of
           None \<Rightarrow> Inl (Fail ''QUOTE'' ''quote preimage does not match a live quote'')
         | Some live \<Rightarrow>
           if q_used live then Inl (Fail ''QUOTE_USED'' ''quote already consumed'') else
           if q_expiry live \<le> now then Inl (Fail ''QUOTE_EXPIRED'' ''quote expired'') else
           if q_lineGeneration live \<noteq> lineGeneration l
           then Inl (Fail ''QUOTE_GEN'' ''quote is bound to a different line generation'') else
           bindS (hex32 (Text (tq_merchantCommitment wq))) (\<lambda>wMerchantPk.
           (let A = tq_amount wq in
            if \<not> assertSafeUint A \<or> A \<le> 0
            then Inl (Fail ''ZERO'' ''zero-amount operations are rejected'') else
            bindS (hex32 (Text (tq_invoiceId wq))) (\<lambda>invoice.
            bindS (hex32 (Text (tq_nonce wq))) (\<lambda>nonce.
            bindS (quoteCommitment rt \<lparr>tq_merchantCommitment = wMerchantPk, tq_amount = A,
                tq_invoiceId = invoice, tq_expiry = q_expiry live, tq_nonce = nonce,
                tq_generation = q_lineGeneration live, tq_feeFlat = feeFlat l,
                tq_feeBps = feeBps l\<rparr> (contractDomain l)) (\<lambda>recon.
            if recon \<noteq> Q
            then Inl (Fail ''QUOTE'' ''quote preimage does not match a live quote'') else
            if registeredMerchants l wMerchantPk = None
            then Inl (Fail ''QUOTE_AUTH'' ''quote is not bound to a registered merchant'') else
            Inr (Q, live, wMerchantPk, A)))))))))"

text \<open>Pricing, credit capacity and reserve solvency: the fee, the cost and the new balance.\<close>

definition drawPrice ::
    "ledger \<Rightarrow> draw_input \<Rightarrow> line_witness \<Rightarrow> int \<Rightarrow> (int \<times> int \<times> int) outcome" where
  "drawPrice l i books A =
     (let f = nullish (di_fee i) 0 in
      if \<not> assertSafeUint f then Inl (Fail ''AMOUNT'' ''fee must be a non-negative integer'') else
      bindS (catchS (bindS (u64 A) (\<lambda>a. bindS (u64 (feeFlat l)) (\<lambda>flat. bindS (u64 (feeBps l)) (\<lambda>bps.
               requiredDrawFee a flat bps))))
             (Inl (Fail ''OVERFLOW'' ''balance arithmetic overflowed''))) (\<lambda>expectedFee.
      if expectedFee > max_safe then Inl (Fail ''OVERFLOW'' ''balance arithmetic overflowed'') else
      bindS (u64 f) (\<lambda>bf.
      if bf \<noteq> expectedFee then Inl (Fail ''FEE_POLICY'' ''fee does not match issuer policy'') else
      (let cost = fadd A f in
       if cost < A \<or> \<not> assertSafeUint cost
       then Inl (Fail ''OVERFLOW'' ''balance arithmetic overflowed'') else
       (let nextB = fadd (lw_B books) cost in
        if nextB < lw_B books \<or> \<not> assertSafeUint nextB
        then Inl (Fail ''OVERFLOW'' ''balance arithmetic overflowed'') else
        if nextB > lw_L books then Inl (Fail ''CAPACITY'' ''draw exceeds available credit'') else
        (let locked = lockedReserve l in
         if totalReserve l < locked then Inl (Fail ''RESERVE_DEFICIT'' ''reserve deficit'') else
         (let free = fsub (totalReserve l) locked in
          if cost > free
          then Inl (Fail ''RESERVE_CAPACITY'' ''insufficient reserve for draw note'') else
          Inr (f, cost, nextB))))))))"

text \<open>The note, its nullifier and the rotated books.\<close>

definition drawSettle ::
    "runtime \<Rightarrow> env \<Rightarrow> ledger \<Rightarrow> draw_input \<Rightarrow> draw_auth \<Rightarrow> int \<Rightarrow> int \<Rightarrow>
       (ledger \<times> agent_store \<times> draw_note) outcome" where
  "drawSettle rt env l i a f nextB =
     (let Q = da_Q a; A = da_amount a; books = da_books a; I = da_I a;
          noteExp = nullish (di_noteExpiry i) (q_expiry (da_live a)) in
      if noteExp \<noteq> q_expiry (da_live a)
      then Inl (Fail ''NOTE_EXPIRY'' ''note expiry must match authenticated quote deadline'') else
      if \<not> assertSafeUint noteExp \<or> noteExp \<le> da_now a
      then Inl (Fail ''NOTE_EXPIRED'' ''draw note expired'') else
      bindS (drawNullifier rt (da_secret a) Q (contractDomain l)) (\<lambda>N.
      if N \<in> set (nullifiers l) then Inl (Fail ''NULLIFIER'' ''nullifier already spent'') else
      bindS (hex32 (case di_noteNonce i of Some s \<Rightarrow> Text s | None \<Rightarrow> Raw (env_random env 0))) (\<lambda>noteNonce.
      bindS (hex32 (case di_noteSalt i of Some s \<Rightarrow> Text s | None \<Rightarrow> Raw (env_random env 1))) (\<lambda>noteSalt.
      (let preimage = \<lparr>tn_domain = contractDomain l, tn_lineGeneration = lineGeneration l,
         tn_identity = I, tn_quoteCommit = Q, tn_merchantPk = da_merchantPk a, tn_amount = A,
         tn_fee = f, tn_noteNonce = noteNonce, tn_expiry = noteExp\<rparr> in
       bindS (drawNoteCommitment rt preimage noteSalt) (\<lambda>D.
       if list_ex (\<lambda>n. n_commitment n = D) (drawNotes l)
       then Inl (Fail ''NOTE_USED'' ''note commitment already exists'') else
       bindS (hex32 (Text (nullish (di_newSalt i) (toHex (env_random env 2))))) (\<lambda>s.
       (let nextWitness = \<lparr>lw_domain = contractDomain l, lw_I = I, lw_L = lw_L books,
          lw_B = nextB, lw_e = fadd (lw_e books) 1, lw_s = s\<rparr> in
        bindS (lineCommitment rt nextWitness) (\<lambda>C2.
        bindS (hex32 (Text (da_secret a))) (\<lambda>secret.
          Inr (pushEvent ((event ''draw''
                 (PText ''Draw authorized. Note commitment issued. Balance and limit remain private.''))
                   \<lparr>ev_commitment := Some C2, ev_quote := Some Q, ev_note := Some D,
                    ev_nullifier := Some N\<rparr>)
               (l\<lparr>quotes := update_first (\<lambda>q. q_commitment q = Q) (q_used_update (\<lambda>_. True)) (quotes l),
                  currentCommitment := Some C2,
                  nullifiers := nullifiers l @ [N],
                  encumberedReserve := fadd (encumberedReserve l) A,
                  pendingFeeReserve := fadd (pendingFeeReserve l) f,
                  drawNotes := drawNotes l @ [\<lparr>n_commitment = D, n_amount = A, n_fee = f,
                    n_redeemed = False, n_cancelled = False, n_expiry = noteExp,
                    n_lineGeneration = lineGeneration l, n_compensationAllocated = False,
                    n_refundCommitment = toHex zeros32, n_cashRefundOwed = False,
                    n_refundAcknowledged = False, n_refundPaymentNullifier = toHex zeros32\<rparr>]\<rparr>),
               \<lparr>as_secret = secret, as_witness = Some nextWitness, as_identityCommitment = Some I\<rparr>,
               \<lparr>dn_D = D, dn_preimage = preimage, dn_salt = noteSalt\<rparr>)))))))))))"

definition draw ::
    "runtime \<Rightarrow> env \<Rightarrow> ledger \<Rightarrow> draw_input \<Rightarrow> draw_witness option \<Rightarrow>
       (ledger \<times> agent_store \<times> draw_note) outcome" where
  "draw rt env l i w =
     bindS (executionUnixSeconds env) (\<lambda>now.
     bindS (drawAgent rt l i w now) (\<lambda>(secret, books, I).
     bindS (drawQuote rt l i w now) (\<lambda>(Q, live, merchantPk, A).
     bindS (drawPrice l i books A) (\<lambda>(f, cost, nextB).
       drawSettle rt env l i \<lparr>da_now = now, da_secret = secret, da_books = books, da_I = I,
         da_Q = Q, da_live = live, da_merchantPk = merchantPk, da_amount = A\<rparr> f nextB))))"

text \<open>Local preflight: the same checks, only the remaining credit is returned.\<close>

definition available :: "line_witness \<Rightarrow> int" where
  "available w = fsub (lw_L w) (lw_B w)"

definition simulateDraw ::
    "runtime \<Rightarrow> env \<Rightarrow> ledger \<Rightarrow> draw_input \<Rightarrow> draw_witness \<Rightarrow> int outcome" where
  "simulateDraw rt env l i w =
     bindS (draw rt env l i (Some w)) (\<lambda>(l', agent, note).
       case as_witness agent of
         Some v \<Rightarrow> Inr (fsub (lw_L v) (lw_B v))
       | None \<Rightarrow> Inl (Throw (TypeError ''Cannot read properties of null'')))"

section \<open>Redemption\<close>

record redeem_input =
  ri_caller :: "jsstr option"
  ri_callerSk :: "jsstr option"
  ri_merchantSecret :: "jsstr option"
  ri_note :: "draw_note option"
  ri_noteCommitment :: "jsstr option"
  ri_noteExpiry :: "int option"
  ri_notePreimage :: "draw_note_preimage option"
  ri_noteSalt :: "jsstr option"

text \<open>Assignments to the note found by its commitment.\<close>

definition setNote :: "jsstr \<Rightarrow> (note_record \<Rightarrow> note_record) \<Rightarrow> ledger \<Rightarrow> ledger" where
  "setNote D f l = l\<lparr>drawNotes := update_first (\<lambda>n. n_commitment n = D) f (drawNotes l)\<rparr>"

definition findNote :: "ledger \<Rightarrow> jsstr \<Rightarrow> note_record option" where
  "findNote l D = find (\<lambda>n. n_commitment n = D) (drawNotes l)"

definition redeemDraw ::
    "runtime \<Rightarrow> env \<Rightarrow> ledger \<Rightarrow> redeem_input \<Rightarrow> draw_note_preimage option \<Rightarrow>
       (ledger \<times> jsstr) outcome" where
  "redeemDraw rt env l i w =
     (let caller = nullish (or_else (ri_callerSk i) (or_else (ri_merchantSecret i) (ri_caller i))) [];
          commitment = nullish (or_else (ri_noteCommitment i) (map_option dn_D (ri_note i))) [];
          salt = nullish (or_else (ri_noteSalt i) (map_option dn_salt (ri_note i))) [] in
      case findNote l commitment of
        None \<Rightarrow> Inl (Fail ''NOTE_NOT_FOUND'' ''draw note not found'')
      | Some live \<Rightarrow>
        if n_redeemed live then Inl (Fail ''NOTE_USED'' ''draw note already redeemed'') else
        if n_cancelled live then Inl (Fail ''NOTE_CANCELLED'' ''draw note is cancelled'') else
        bindS (executionUnixSeconds env) (\<lambda>now.
        if n_expiry live \<le> now then Inl (Fail ''NOTE_EXPIRED'' ''draw note expired'') else
        (case or_else w (or_else (ri_notePreimage i) (map_option dn_preimage (ri_note i))) of
           None \<Rightarrow> Inl (Fail ''NOTE_AUTH'' ''caller is not the designated merchant for this note'')
         | Some preimage \<Rightarrow>
           bindS (merchantPublicKey rt caller) (\<lambda>mPk.
           bindS (hex32 (Text (tn_merchantPk preimage))) (\<lambda>bound.
           if mPk \<noteq> bound
           then Inl (Fail ''NOTE_AUTH'' ''caller is not the designated merchant for this note'') else
           if tn_amount preimage \<noteq> n_amount live
           then Inl (Fail ''AMOUNT'' ''note preimage amount mismatch'') else
           (let noteExp = nullish (ri_noteExpiry i) (tn_expiry preimage) in
            bindS (hex32 (Text (tn_identity preimage))) (\<lambda>identity.
            bindS (hex32 (Text (tn_quoteCommit preimage))) (\<lambda>quote.
            bindS (hex32 (Text (tn_noteNonce preimage))) (\<lambda>nonce.
            bindS (drawNoteCommitment rt \<lparr>tn_domain = contractDomain l,
                tn_lineGeneration = n_lineGeneration live, tn_identity = identity,
                tn_quoteCommit = quote, tn_merchantPk = mPk, tn_amount = tn_amount preimage,
                tn_fee = n_fee live, tn_noteNonce = nonce, tn_expiry = noteExp\<rparr> salt) (\<lambda>computedD.
            if computedD \<noteq> commitment
            then Inl (Fail ''NOTE_OPENING'' ''note preimage does not open commitment'') else
            bindS (redeemNullifier rt caller commitment (contractDomain l)) (\<lambda>N.
            if N \<in> set (nullifiers l)
            then Inl (Fail ''NULLIFIER'' ''redemption nullifier already spent'') else
            Inr (pushEvent ((event ''redeemDraw''
                   (PText ''Merchant redeemed draw note against issuer reserve.''))
                     \<lparr>ev_note := Some commitment, ev_nullifier := Some N\<rparr>)
                 ((setNote commitment (n_redeemed_update (\<lambda>_. True)) l)
                   \<lparr>nullifiers := nullifiers l @ [N],
                    encumberedReserve := fsub (encumberedReserve l) (n_amount live),
                    redeemedReserve := fadd (redeemedReserve l) (n_amount live),
                    pendingFeeReserve := fsub (pendingFeeReserve l) (n_fee live),
                    feeReserve := fadd (feeReserve l) (n_fee live)\<rparr>),
                 N))))))))))))"

section \<open>Expiry, compensation and refund reports\<close>

record compensation =
  co_note :: draw_note_preimage
  co_noteSalt :: jsstr
  co_newSalt :: jsstr
  co_books :: "line_witness option"

record refund_ack =
  rk_identity :: jsstr
  rk_amount :: int
  rk_salt :: jsstr
  rk_paymentRef :: jsstr
  rk_receiptExpiry :: int

record cancel_input =
  xi_caller :: "jsstr option"
  xi_callerSk :: "jsstr option"
  xi_agentSecret :: "jsstr option"
  xi_noteCommitment :: "jsstr option"
  xi_note :: "draw_note option"
  xi_action :: "int option"
  xi_receiptExpiry :: "int option"
  xi_compensation :: "compensation option"
  xi_refundAck :: "refund_ack option"

text \<open>The shared head of modes 0 and 1: an expired claim moves its whole cost to the refund budget.\<close>

definition cancelExpired ::
    "env \<Rightarrow> ledger \<Rightarrow> note_record \<Rightarrow> int \<Rightarrow> int \<Rightarrow> ledger outcome" where
  "cancelExpired env l live mode cost =
     (if mode = 0 \<and> n_cancelled live
      then Inl (Fail ''NOTE_CANCELLED'' ''draw note is cancelled'') else
      if mode = 1 \<and> n_compensationAllocated live
      then Inl (Fail ''COMPENSATION_USED'' ''compensation already allocated'') else
      if n_cancelled live then Inr l else
      bindS (executionUnixSeconds env) (\<lambda>now.
      if n_expiry live > now
      then Inl (Fail ''NOTE_NOT_EXPIRED'' ''draw note has not expired yet'') else
      Inr ((setNote (n_commitment live) (n_cancelled_update (\<lambda>_. True)) l)
        \<lparr>encumberedReserve := fsub (encumberedReserve l) (n_amount live),
         pendingFeeReserve := fsub (pendingFeeReserve l) (n_fee live),
         refundReserve := fadd (refundReserve l) cost\<rparr>)))"

text \<open>
  The credit part of an allocation: against the current generation the debt is reduced and the
  books rotate; a claim of an older generation is owed in full. Returns the ledger, the amount owed,
  the amount credited and the rotated witness.
\<close>

definition allocateCredit ::
    "runtime \<Rightarrow> ledger \<Rightarrow> note_record \<Rightarrow> compensation \<Rightarrow> jsstr \<Rightarrow> int \<Rightarrow>
       (ledger \<times> int \<times> int \<times> line_witness option) outcome" where
  "allocateCredit rt l live proof owner cost =
     (if n_lineGeneration live = lineGeneration l then
        if Some owner \<noteq> currentIdentity l
        then Inl (Fail ''COMPENSATION_IDENTITY'' ''compensation identity mismatch'') else
        (case co_books proof of
           None \<Rightarrow> Inl (Fail ''STALE'' ''stale compensation book'')
         | Some books \<Rightarrow>
           if lw_I books \<noteq> owner then Inl (Fail ''STALE'' ''stale compensation book'') else
           bindS (opens rt books (currentCommitment l)) (\<lambda>opened.
           if \<not> opened then Inl (Fail ''STALE'' ''stale compensation book'') else
           if \<not> assertSafeUint (lw_B books) \<or> \<not> assertSafeUint (fadd (lw_e books) 1)
           then Inl (Fail ''OVERFLOW'' ''balance arithmetic overflowed'') else
           (let credited = min (lw_B books) cost; owed = fsub cost credited in
            bindS (hex32 (Text (co_newSalt proof))) (\<lambda>s.
            (let w = books\<lparr>lw_domain := contractDomain l, lw_B := fsub (lw_B books) credited,
                 lw_e := fadd (lw_e books) 1, lw_s := s\<rparr> in
             bindS (lineCommitment rt w) (\<lambda>C.
               Inr (l\<lparr>currentCommitment := Some C,
                      refundReserve := (if owed = 0 then fsub (refundReserve l) cost
                                        else refundReserve l)\<rparr>,
                    owed, credited, Some w)))))))
      else if n_lineGeneration live \<ge> lineGeneration l
      then Inl (Fail ''COMPENSATION_GENERATION'' ''compensation generation mismatch'')
      else Inr (l, cost, 0, None))"

text \<open>Mode 1 after the head: authenticate the note and its owner, credit, and record the refund.\<close>

definition allocateCompensation ::
    "runtime \<Rightarrow> ledger \<Rightarrow> cancel_input \<Rightarrow> jsstr \<Rightarrow> jsstr \<Rightarrow> note_record \<Rightarrow> int \<Rightarrow>
       (ledger \<times> line_witness option \<times> refund_allocation) outcome" where
  "allocateCompensation rt l i caller commitment live cost =
     (case xi_compensation i of
        None \<Rightarrow> Inl (Fail ''COMPENSATION_OPENING'' ''missing compensation note opening'')
      | Some proof \<Rightarrow>
        bindS (hex32 (Text (tn_identity (co_note proof)))) (\<lambda>owner.
        bindS (catchS (drawNoteCommitment rt ((co_note proof)\<lparr>tn_domain := contractDomain l,
                 tn_lineGeneration := n_lineGeneration live, tn_identity := owner,
                 tn_amount := n_amount live, tn_fee := n_fee live, tn_expiry := n_expiry live\<rparr>)
                 (co_noteSalt proof))
               (Inl (Fail ''COMPENSATION_OPENING'' ''invalid compensation note opening''))) (\<lambda>computedD.
        if computedD \<noteq> commitment
        then Inl (Fail ''COMPENSATION_OPENING'' ''invalid compensation note opening'') else
        bindS (isIssuer rt l caller) (\<lambda>issuer.
        bindS (if issuer then Inr owner else identityCommitment rt caller) (\<lambda>callerId.
        if callerId \<noteq> owner
        then Inl (Fail ''COMPENSATION_AUTH'' ''caller does not own compensation authority'') else
        bindS (allocateCredit rt l live proof owner cost) (\<lambda>(l', owed, credited, w).
        bindS (hex32 (Text (co_newSalt proof))) (\<lambda>salt.
        bindS (refundCommitment rt (contractDomain l') (n_lineGeneration live) owner commitment owed salt)
          (\<lambda>R.
          Inr (setNote commitment (\<lambda>n. n\<lparr>n_compensationAllocated := True, n_refundCommitment := R,
                 n_cashRefundOwed := owed > 0, n_refundAcknowledged := False,
                 n_refundPaymentNullifier := toHex zeros32\<rparr>) l',
               w, \<lparr>ra_domain = contractDomain l', ra_lineGeneration = n_lineGeneration live,
                 ra_identity = owner, ra_noteCommit = commitment, ra_amount = owed,
                 ra_allocatedCredit = credited, ra_salt = salt, ra_commitment = R\<rparr>)))))))))"

text \<open>Mode 2: the issuer reports the cash refund; the full budget moves to the reported bucket.\<close>

definition reportRefund ::
    "runtime \<Rightarrow> env \<Rightarrow> ledger \<Rightarrow> cancel_input \<Rightarrow> jsstr \<Rightarrow> jsstr \<Rightarrow> note_record \<Rightarrow> int \<Rightarrow>
       ledger outcome" where
  "reportRefund rt env l i caller commitment live cost =
     bindS (isIssuer rt l caller) (\<lambda>auth.
     if \<not> auth then Inl (Fail ''AUTH_ISSUER'' ''caller is not the registered issuer'') else
     if \<not> n_cancelled live \<or> \<not> n_compensationAllocated live \<or> \<not> n_cashRefundOwed live
     then Inl (Fail ''NO_REFUND'' ''no cash refund obligation'') else
     if n_refundAcknowledged live
     then Inl (Fail ''REFUND_USED'' ''refund already acknowledged'') else
     (case xi_refundAck i of
        None \<Rightarrow> Inl (Fail ''REFUND_OPENING'' ''missing refund opening'')
      | Some ack \<Rightarrow>
        (let expiry = nullish (xi_receiptExpiry i) (rk_receiptExpiry ack) in
         if \<not> assertSafeUint expiry then Inl (Fail ''EXPIRY'' ''refund receipt expired'') else
         bindS (executionUnixSeconds env) (\<lambda>now.
         if expiry \<le> now then Inl (Fail ''EXPIRY'' ''refund receipt expired'') else
         if \<not> assertSafeUint (rk_amount ack) \<or> rk_amount ack = 0 \<or> rk_amount ack > cost
         then Inl (Fail ''REFUND_AMOUNT'' ''refund amount is outside the note cost'') else
         bindS (catchS (bindS (refundCommitment rt (contractDomain l) (n_lineGeneration live)
                  (rk_identity ack) commitment (rk_amount ack) (rk_salt ack)) (\<lambda>R.
                bindS (canonicalPaymentReferenceBytes rt (rk_paymentRef ack)) (\<lambda>ref. Inr (R, ref))))
              (Inl (Fail ''REFUND_OPENING'' ''invalid refund opening or payment reference'')))
           (\<lambda>(computedRefund, referenceBytes).
         if computedRefund \<noteq> n_refundCommitment live
         then Inl (Fail ''REFUND_OPENING'' ''refund opening does not match obligation'') else
         bindS (asBytes32 (Text caller)) (\<lambda>sk.
         bindS (asBytes32 (Text (contractDomain l))) (\<lambda>dom.
         (let paymentN = toHex (encodePaymentNullifier rt sk referenceBytes dom) in
          if paymentN \<in> set (nullifiers l)
          then Inl (Fail ''RECEIPT_USED'' ''repayment receipt already used'') else
          Inr ((setNote commitment (\<lambda>n. n\<lparr>n_refundAcknowledged := True,
                  n_refundPaymentNullifier := paymentN\<rparr>) l)
            \<lparr>nullifiers := nullifiers l @ [paymentN],
             refundReserve := fsub (refundReserve l) cost,
             reportedRefundReserve := fadd (reportedRefundReserve l) cost\<rparr>)))))))))"

definition cancelOrExpireNote ::
    "runtime \<Rightarrow> env \<Rightarrow> ledger \<Rightarrow> cancel_input \<Rightarrow>
       (ledger \<times> line_witness option \<times> refund_allocation option) outcome" where
  "cancelOrExpireNote rt env l i =
     (let commitment = nullish (or_else (xi_noteCommitment i) (map_option dn_D (xi_note i))) [];
          mode = nullish (xi_action i) 0 in
      if mode \<noteq> 0 \<and> mode \<noteq> 1 \<and> mode \<noteq> 2
      then Inl (Fail ''COMPENSATION_ACTION'' ''unsupported compensation action'') else
      (case findNote l commitment of
         None \<Rightarrow> Inl (Fail ''NOTE_NOT_FOUND'' ''draw note not found'')
       | Some live \<Rightarrow>
         if n_redeemed live then Inl (Fail ''NOTE_USED'' ''draw note already redeemed'') else
         if \<not> assertSafeUint (n_amount live) \<or> \<not> assertSafeUint (n_fee live) \<or>
            \<not> assertSafeUint (fadd (n_amount live) (n_fee live))
         then Inl (Fail ''OVERFLOW'' ''balance arithmetic overflowed'') else
         (let cost = fadd (n_amount live) (n_fee live);
              caller = nullish (or_else (xi_callerSk i) (or_else (xi_caller i) (xi_agentSecret i))) [];
              ev = \<lambda>t. (event ''cancelOrExpireNote'' (PText t))\<lparr>ev_note := Some commitment\<rparr> in
          if mode = 0 then
            bindS (cancelExpired env l live mode cost) (\<lambda>l'.
              Inr (pushEvent (ev ''Expired note cancelled; full purchase budget locked for compensation.'') l',
                   None, None))
          else if mode = 1 then
            bindS (cancelExpired env l live mode cost) (\<lambda>l'.
            bindS (allocateCompensation rt l' i caller commitment
                (live\<lparr>n_cancelled := True\<rparr>) cost) (\<lambda>(l2, w, allocation).
              Inr (pushEvent ((ev ''Compensation allocated once; cash obligations remain private and unpaid.'')
                     \<lparr>ev_commitment := (if w \<noteq> None then currentCommitment l2 else None)\<rparr>) l2,
                   w, Some allocation)))
          else
            bindS (reportRefund rt env l i caller commitment live cost) (\<lambda>l'.
              Inr (pushEvent (ev ''Issuer reported cash refund; full original-cost budget remains conservatively locked.'') l',
                   None, None)))))"

section \<open>Repayment\<close>

record repay_input =
  pi_caller :: "jsstr option"
  pi_callerSk :: "jsstr option"
  pi_agent :: "agent_store option"
  pi_witness :: "line_witness option"
  pi_receipt :: "repay_receipt option"
  pi_newSalt :: "jsstr option"
  pi_receiptExpiry :: "int option"

record repay_witness =
  pw_books :: line_witness
  pw_receipt :: repay_receipt

definition acknowledgeRepayment ::
    "runtime \<Rightarrow> env \<Rightarrow> ledger \<Rightarrow> repay_input \<Rightarrow> repay_witness option \<Rightarrow>
       (ledger \<times> line_witness \<times> agent_store option) outcome" where
  "acknowledgeRepayment rt env l i w =
     (let caller = getCaller (pi_caller i) (pi_callerSk i) in
      bindS (isIssuer rt l caller) (\<lambda>auth.
      if \<not> auth then Inl (Fail ''AUTH_ISSUER'' ''caller is not the registered issuer'') else
      if status l \<noteq> SOpen \<and> status l \<noteq> SDefaulted
      then Inl (Fail ''STATUS'' ''line status does not allow this circuit'') else
      if nullish (currentCommitment l) [] = [] then Inl (Fail ''NO_LINE'' ''no line is open'') else
      (case or_else (map_option pw_books w) (or_else (pi_witness i)
         (Option.bind (pi_agent i) as_witness)) of
         None \<Rightarrow> Inl (Fail ''STALE'' ''line-state commitment is stale'')
       | Some books \<Rightarrow>
         bindS (opens rt books (currentCommitment l)) (\<lambda>opened.
         if \<not> opened then Inl (Fail ''STALE'' ''line-state commitment is stale'') else
         (case or_else (map_option pw_receipt w) (pi_receipt i) of
            None \<Rightarrow> Inl (Fail ''RECEIPT'' ''repayment receipt is invalid for this line'')
          | Some r \<Rightarrow>
            if rr_contractDomain r \<noteq> contractDomain l
            then Inl (Fail ''RECEIPT'' ''repayment receipt is invalid for this line'') else
            if rr_identity r \<noteq> lw_I books \<or> Some (rr_identity r) \<noteq> currentIdentity l
            then Inl (Fail ''RECEIPT'' ''repayment receipt is invalid for this line'') else
            if Some (rr_currentC r) \<noteq> currentCommitment l
            then Inl (Fail ''RECEIPT_STALE'' ''receipt does not reference the current commitment'') else
            (let receiptExpiry = nullish (pi_receiptExpiry i) (rr_expiry r) in
             if \<not> assertSafeUint receiptExpiry
             then Inl (Fail ''EXPIRY'' ''expiry is not in the future'') else
             bindS (executionUnixSeconds env) (\<lambda>now.
             if receiptExpiry \<le> now
             then Inl (Fail ''EXPIRY'' ''expiry is not in the future'') else
             (let R = rr_amount r; B = lw_B books in
              if \<not> assertSafeUint R \<or> R \<le> 0 \<or> R > B
              then Inl (Fail ''RECEIPT_RANGE'' ''repayment amount is not in (0, outstanding]'') else
              bindS (catchS (canonicalPaymentReferenceBytes rt (rr_paymentRef r))
                (Inl (Fail ''RECEIPT'' ''repayment receipt is invalid for this line''))) (\<lambda>referenceBytes.
              bindS (repayNullifier rt (rr_nonce r) (lw_I books) (nullish (currentCommitment l) []) R
                (rr_paymentRef r) (contractDomain l)) (\<lambda>N.
              bindS (asBytes32 (Text caller)) (\<lambda>sk.
              bindS (asBytes32 (Text (contractDomain l))) (\<lambda>dom.
              (let paymentN = toHex (encodePaymentNullifier rt sk referenceBytes dom) in
               if paymentN \<in> set (nullifiers l)
               then Inl (Fail ''RECEIPT_USED'' ''repayment receipt already used'') else
               if N \<in> set (nullifiers l)
               then Inl (Fail ''RECEIPT_USED'' ''repayment receipt already used'') else
               bindS (hex32 (Text (nullish (pi_newSalt i) (toHex (env_random env 0))))) (\<lambda>s.
               (let nextWitness = \<lparr>lw_domain = contractDomain l, lw_I = lw_I books,
                  lw_L = lw_L books, lw_B = fsub B R, lw_e = fadd (lw_e books) 1, lw_s = s\<rparr> in
                bindS (lineCommitment rt nextWitness) (\<lambda>C2.
                Inr (pushEvent ((event ''acknowledgeRepayment''
                       (PText ''Issuer acknowledged repayment. Line commitment rotated. Amount is not on the ledger.''))
                         \<lparr>ev_commitment := Some C2, ev_nullifier := Some N\<rparr>)
                     (l\<lparr>currentCommitment := Some C2, nullifiers := nullifiers l @ [N, paymentN]\<rparr>),
                     nextWitness,
                     map_option (\<lambda>a. a\<lparr>as_witness := Some nextWitness,
                       as_identityCommitment := Some (lw_I books)\<rparr>) (pi_agent i))))))))))))))))))"

section \<open>Status\<close>

definition setStatus ::
    "runtime \<Rightarrow> ledger \<Rightarrow> jsstr option \<Rightarrow> jsstr option \<Rightarrow> line_status \<Rightarrow> line_witness option \<Rightarrow>
       ledger outcome" where
  "setStatus rt l caller callerSk new witness =
     bindS (isIssuer rt l (getCaller caller callerSk)) (\<lambda>auth.
     if \<not> auth then Inl (Fail ''AUTH_ISSUER'' ''caller is not the registered issuer'') else
     if status l = SNone \<or> nullish (currentCommitment l) [] = []
     then Inl (Fail ''NO_LINE'' ''no line is open'') else
     if new = SNone then Inl (Fail ''BAD_STATUS'' ''status transition is not allowed'') else
     if status l = SClosed
     then Inl (Fail ''CLOSED'' ''closed line cannot be reused in this epoch'') else
     if new = SOpen \<and> status l \<noteq> SOpen \<and> status l \<noteq> SDefaulted
     then Inl (Fail ''BAD_STATUS'' ''status transition is not allowed'') else
     bindS (if new = SClosed then
              (case witness of
                 None \<Rightarrow> Inl (Fail ''STALE'' ''stale closing book'')
               | Some books \<Rightarrow>
                 if Some (lw_I books) \<noteq> currentIdentity l
                 then Inl (Fail ''STALE'' ''stale closing book'') else
                 bindS (opens rt books (currentCommitment l)) (\<lambda>opened.
                 if \<not> opened then Inl (Fail ''STALE'' ''stale closing book'') else
                 if lw_B books \<noteq> 0 then Inl (Fail ''OUTSTANDING_DEBT'' ''outstanding debt'') else
                 Inr ()))
            else Inr ()) (\<lambda>_.
     Inr (pushEvent (event ''setStatus'' (PStatus new)) (l\<lparr>status := new\<rparr>))))"

section \<open>What a chain observer sees\<close>

text \<open>
  \<open>publicLedgerView\<close> keeps every field but \<open>initialMerchantPubKey\<close> and \<open>instanceNonce\<close>.
\<close>

record public_view =
  pv_contractDomain :: jsstr
  pv_issuerPubKey :: jsstr
  pv_registeredMerchants :: "jsstr \<rightharpoonup> bool"
  pv_currentIdentity :: "jsstr option"
  pv_currentCommitment :: "jsstr option"
  pv_lineExpiry :: int
  pv_status :: line_status
  pv_lineGeneration :: int
  pv_quotes :: "quote_record list"
  pv_notes :: "note_record list"
  pv_nullifiers :: "jsstr list"
  pv_reserves :: "int list"
  pv_feePolicy :: "int \<times> int"
  pv_actionClock :: int
  pv_events :: "ledger_event list"

definition publicLedgerView :: "ledger \<Rightarrow> public_view" where
  "publicLedgerView l =
     \<lparr>pv_contractDomain = contractDomain l, pv_issuerPubKey = issuerPubKey l,
      pv_registeredMerchants = registeredMerchants l, pv_currentIdentity = currentIdentity l,
      pv_currentCommitment = currentCommitment l, pv_lineExpiry = lineExpiry l,
      pv_status = status l, pv_lineGeneration = lineGeneration l, pv_quotes = quotes l,
      pv_notes = drawNotes l, pv_nullifiers = nullifiers l,
      pv_reserves = [totalReserve l, encumberedReserve l, redeemedReserve l, feeReserve l,
        pendingFeeReserve l, refundReserve l, reportedRefundReserve l],
      pv_feePolicy = (feeFlat l, feeBps l), pv_actionClock = actionClock l, pv_events = events l\<rparr>"

end
