(* ===== verification/Circuit_Facts.thy ===== *)
theory Circuit_Facts
  imports Protocol
begin

text \<open>
  What a successful call of each circuit implies: the guards that held and the shape of the new
  ledger. The later theories reason from these facts and never unfold a circuit again.
\<close>

lemmas outcome_unfold = outcome_ok Let_def isIssuer_ok executionUnixSeconds_ok

lemma find_member:
  "findNote l D = Some n \<Longrightarrow> n \<in> set (drawNotes l) \<and> n_commitment n = D"
  by (auto simp: findNote_def dest: find_SomeD)

lemma registerMerchant_ok:
  assumes "registerMerchant rt l caller callerSk pk = Inr l'"
  obtains pubM where "issuerPublicKey rt (getCaller caller callerSk) = Inr (issuerPubKey l)"
    "hex32 (Text pk) = Inr pubM" "registeredMerchants l pubM \<noteq> Some True"
    "l' = pushEvent (event ''registerMerchant'' (PMerchantRegistered (take 8 pubM)))
       (l\<lparr>registeredMerchants := (registeredMerchants l)(pubM \<mapsto> True)\<rparr>)"
  using assms by (auto simp: registerMerchant_def outcome_unfold)

lemma disableMerchant_ok:
  assumes "disableMerchant rt l caller pk = Inr l'"
  obtains pubM where "issuerPublicKey rt caller = Inr (issuerPubKey l)"
    "hex32 (Text pk) = Inr pubM" "registeredMerchants l pubM \<noteq> None"
    "l' = pushEvent (event ''disableMerchant'' (PMerchantDisabled (take 8 pubM)))
       (l\<lparr>registeredMerchants := (registeredMerchants l)(pubM \<mapsto> False)\<rparr>)"
  using assms by (auto simp: disableMerchant_def outcome_unfold)

lemma fundReserve_ok:
  assumes "fundReserve rt l caller callerSk amount = Inr l'"
  obtains ev where "issuerPublicKey rt (getCaller caller callerSk) = Inr (issuerPubKey l)"
    "0 < amount" "amount \<le> max_safe" "fadd (totalReserve l) amount \<le> uint64_max"
    "l' = pushEvent ev (l\<lparr>totalReserve := fadd (totalReserve l) amount\<rparr>)"
  using assms by (auto simp: fundReserve_def outcome_unfold assertSafeUint_iff)

lemma withdrawUnencumberedReserve_ok:
  assumes "withdrawUnencumberedReserve rt l caller callerSk amount = Inr l'"
  obtains ev where "issuerPublicKey rt (getCaller caller callerSk) = Inr (issuerPubKey l)"
    "0 < amount" "amount \<le> max_safe" "amount \<le> fsub (totalReserve l) (lockedReserve l)"
    "l' = pushEvent ev (l\<lparr>totalReserve := fsub (totalReserve l) amount\<rparr>)"
  using assms
  by (auto simp: withdrawUnencumberedReserve_def outcome_unfold assertSafeUint_iff)

lemma withdrawFees_ok:
  assumes "withdrawFees rt l caller = Inr (l', f)"
  obtains ev where "issuerPublicKey rt caller = Inr (issuerPubKey l)"
    "f = feeReserve l" "0 < f" "lockedReserve l \<le> totalReserve l"
    "l' = pushEvent ev (l\<lparr>totalReserve := fsub (totalReserve l) f, feeReserve := 0\<rparr>)"
  using assms by (auto simp: withdrawFees_def outcome_unfold)

lemma openLine_ok:
  assumes "openLine rt env l i w = Inr (l', agent)"
  obtains ev I C s limit flat bps where
    "issuerPublicKey rt (getCaller (oi_caller i) (oi_callerSk i)) = Inr (issuerPubKey l)"
    "limit = nullish (or_else w (oi_limit i)) 0" "0 < limit" "limit \<le> max_safe"
    "env_clock env < oi_expiry i" "oi_expiry i \<le> max_safe" "0 \<le> env_clock env"
    "status l = SNone \<or> status l = SClosed"
    "flat = nullish (oi_feeFlat i) 0" "0 \<le> flat" "flat \<le> max_safe"
    "bps = nullish (oi_feeBps i) 0" "0 \<le> bps" "bps \<le> 10000"
    "identityCommitment rt (oi_agentSecret i) = Inr I"
    "as_witness agent = Some \<lparr>lw_domain = contractDomain l, lw_I = I, lw_L = limit, lw_B = 0,
       lw_e = 0, lw_s = s\<rparr>"
    "lineCommitment rt \<lparr>lw_domain = contractDomain l, lw_I = I, lw_L = limit, lw_B = 0,
       lw_e = 0, lw_s = s\<rparr> = Inr C"
    "l' = pushEvent ev (l\<lparr>currentIdentity := Some I, currentCommitment := Some C,
       lineExpiry := oi_expiry i, feeFlat := flat, feeBps := bps, status := SOpen,
       lineGeneration := fadd (lineGeneration l) 1\<rparr>)"
  using assms by (auto simp: openLine_def outcome_unfold assertSafeUint_iff)

lemma postQuote_ok:
  assumes "postQuote rt env l i w = Inr (l', preimage, Q)"
  obtains ev nonce where
    "merchantPublicKey rt (nullish (or_else (qi_callerSk i) (or_else (qi_merchantSecret i) (qi_caller i))) [])
       = Inr (tq_merchantCommitment preimage)"
    "registeredMerchants l (tq_merchantCommitment preimage) = Some True"
    "status l = SOpen"
    "tq_amount preimage = nullish (or_else w (qi_amount i)) 0"
    "0 < tq_amount preimage" "tq_amount preimage \<le> max_safe"
    "0 \<le> env_clock env" "env_clock env < qi_expiry i" "qi_expiry i \<le> max_safe"
    "tq_expiry preimage = qi_expiry i" "tq_generation preimage = lineGeneration l"
    "tq_feeFlat preimage = feeFlat l" "tq_feeBps preimage = feeBps l" "fee_policy_ok l"
    "hex32 (Text (qi_invoiceId i)) = Inr (tq_invoiceId preimage)"
    "hex32 (Text nonce) = Inr (tq_nonce preimage)"
    "quoteCommitment rt preimage (contractDomain l) = Inr Q"
    "\<forall>q \<in> set (quotes l). q_commitment q \<noteq> Q"
    "l' = pushEvent ev (l\<lparr>quotes := quotes l @ [\<lparr>q_commitment = Q, q_expiry = qi_expiry i,
       q_lineGeneration = lineGeneration l, q_used = False\<rparr>]\<rparr>)"
  using assms
  by (auto simp: postQuote_def outcome_unfold assertSafeUint_iff list_ex_iff)

section \<open>Drawing\<close>

lemma drawAgent_ok:
  assumes "drawAgent rt l i w now = Inr (secret, books, I)"
  obtains C where "status l = SOpen" "currentCommitment l = Some C" "C \<noteq> []" "now < lineExpiry l"
    "identityCommitment rt secret = Inr I" "lw_I books = I" "currentIdentity l = Some I"
    "lineCommitment rt books = Inr C" "secret \<noteq> []"
  using assms
  by (auto simp: drawAgent_def outcome_unfold opens_ok)

lemma drawQuote_ok:
  assumes "drawQuote rt l i w now = Inr (Q, live, pk, A)"
  shows "\<exists>invoice nonce.
     (quoteCommitment rt \<lparr>tq_merchantCommitment = pk, tq_amount = A, tq_invoiceId = invoice,
       tq_expiry = q_expiry live, tq_nonce = nonce, tq_generation = lineGeneration l,
       tq_feeFlat = feeFlat l, tq_feeBps = feeBps l\<rparr> (contractDomain l) = Inr Q) \<and>
     (fee_policy_ok l) \<and>
     (find (\<lambda>q. q_commitment q = Q) (quotes l) = Some live) \<and>
     (\<not> q_used live) \<and>
     (now < q_expiry live) \<and>
     (q_lineGeneration live = lineGeneration l) \<and>
     (\<exists>s. hex32 (Text s) = Inr pk) \<and>
     (0 < A) \<and>
     (A \<le> max_safe) \<and>
     (\<exists>s. hex32 (Text s) = Inr invoice) \<and>
     (\<exists>s. hex32 (Text s) = Inr nonce) \<and>
     (registeredMerchants l pk \<noteq> None)"
proof -
  show ?thesis
    using assms
    by (clarsimp simp: drawQuote_def outcome_unfold assertSafeUint_iff) (metis not_le_imp_less order_le_imp_less_or_eq)
qed

lemma drawPrice_ok:
  assumes "drawPrice l i books A = Inr (f, cost, nextB)"
  shows "f = nullish (di_fee i) 0" "0 \<le> f" "f \<le> max_safe"
    "requiredDrawFee A (feeFlat l) (feeBps l) = Inr f"
    "cost = fadd A f" "A \<le> cost" "0 \<le> cost" "cost \<le> max_safe"
    "nextB = fadd (lw_B books) cost" "lw_B books \<le> nextB" "nextB \<le> max_safe" "nextB \<le> lw_L books"
    "lockedReserve l \<le> totalReserve l" "cost \<le> fsub (totalReserve l) (lockedReserve l)"
  using assms
  by (auto simp: drawPrice_def outcome_unfold assertSafeUint_iff catchS_fail_Inr_iff u64_ok
     )

lemma drawSettle_ok:
  assumes "drawSettle rt env l i a f nextB = Inr (l', agent, note)"
  obtains ev N nonce salt D s C2 preimage nextW where
    "da_now a < q_expiry (da_live a)" "q_expiry (da_live a) \<le> max_safe"
    "di_noteExpiry i = None \<or> di_noteExpiry i = Some (q_expiry (da_live a))"
    "drawNullifier rt (da_secret a) (da_Q a) (contractDomain l) = Inr N" "N \<notin> set (nullifiers l)"
    "preimage = \<lparr>tn_domain = contractDomain l, tn_lineGeneration = lineGeneration l,
       tn_identity = da_I a, tn_quoteCommit = da_Q a, tn_merchantPk = da_merchantPk a,
       tn_amount = da_amount a, tn_fee = f, tn_noteNonce = nonce,
       tn_expiry = q_expiry (da_live a)\<rparr>"
    "drawNoteCommitment rt preimage salt = Inr D"
    "\<forall>n \<in> set (drawNotes l). n_commitment n \<noteq> D"
    "nextW = \<lparr>lw_domain = contractDomain l, lw_I = da_I a, lw_L = lw_L (da_books a),
       lw_B = nextB, lw_e = fadd (lw_e (da_books a)) 1, lw_s = s\<rparr>"
    "lineCommitment rt nextW = Inr C2" "as_witness agent = Some nextW"
    "note = \<lparr>dn_D = D, dn_preimage = preimage, dn_salt = salt\<rparr>"
    "l' = pushEvent ev (l\<lparr>
       quotes := update_first (\<lambda>q. q_commitment q = da_Q a) (q_used_update (\<lambda>_. True)) (quotes l),
       currentCommitment := Some C2, nullifiers := nullifiers l @ [N],
       encumberedReserve := fadd (encumberedReserve l) (da_amount a),
       pendingFeeReserve := fadd (pendingFeeReserve l) f,
       drawNotes := drawNotes l @ [\<lparr>n_commitment = D, n_amount = da_amount a, n_fee = f,
         n_redeemed = False, n_cancelled = False, n_expiry = q_expiry (da_live a),
         n_lineGeneration = lineGeneration l, n_compensationAllocated = False,
         n_refundCommitment = toHex zeros32, n_cashRefundOwed = False,
         n_refundAcknowledged = False, n_refundPaymentNullifier = toHex zeros32\<rparr>]\<rparr>)"
    "ev = (event ''draw''
         (PText ''Draw authorized. Note commitment issued. Balance and limit remain private.''))
       \<lparr>ev_commitment := Some C2, ev_quote := Some (da_Q a), ev_note := Some D,
        ev_nullifier := Some N\<rparr>"
proof -
  have exp: "nullish (di_noteExpiry i) e = e \<Longrightarrow> di_noteExpiry i = None \<or> di_noteExpiry i = Some e" for e
    by (cases "di_noteExpiry i") auto
  show thesis
    using assms that
    by (auto simp: drawSettle_def outcome_unfold assertSafeUint_iff list_ex_iff dest!: exp
       )
qed

lemma draw_ok:
  assumes "draw rt env l i w = Inr (l', agent, note)"
  obtains a f cost nextB where "0 \<le> env_clock env" "da_now a = env_clock env"
    "drawAgent rt l i w (env_clock env) = Inr (da_secret a, da_books a, da_I a)"
    "drawQuote rt l i w (env_clock env) = Inr (da_Q a, da_live a, da_merchantPk a, da_amount a)"
    "drawPrice l i (da_books a) (da_amount a) = Inr (f, cost, nextB)"
    "drawSettle rt env l i a f nextB = Inr (l', agent, note)"
proof -
  from assms obtain secret books I Q live pk A f cost nextB where
    "0 \<le> env_clock env"
    "drawAgent rt l i w (env_clock env) = Inr (secret, books, I)"
    "drawQuote rt l i w (env_clock env) = Inr (Q, live, pk, A)"
    "drawPrice l i books A = Inr (f, cost, nextB)"
    "drawSettle rt env l i \<lparr>da_now = env_clock env, da_secret = secret, da_books = books, da_I = I,
       da_Q = Q, da_live = live, da_merchantPk = pk, da_amount = A\<rparr> f nextB = Inr (l', agent, note)"
    by (auto simp: draw_def outcome_unfold)
  then show thesis
    using that [of "\<lparr>da_now = env_clock env, da_secret = secret, da_books = books, da_I = I,
       da_Q = Q, da_live = live, da_merchantPk = pk, da_amount = A\<rparr>" f cost nextB] by simp
qed

section \<open>Redemption, expiry and compensation\<close>

lemma redeemDraw_ok:
  assumes "redeemDraw rt env l i w = Inr (l', N)"
  shows "\<exists>ev D live mPk noteExp identity quote nonce.
     (findNote l D = Some live) \<and>
     (D = nullish (or_else (ri_noteCommitment i) (map_option dn_D (ri_note i))) []) \<and>
     (merchantPublicKey rt (nullish (or_else (ri_callerSk i) (or_else (ri_merchantSecret i)
       (ri_caller i))) []) = Inr mPk) \<and>
     (drawNoteCommitment rt \<lparr>tn_domain = contractDomain l, tn_lineGeneration = n_lineGeneration live,
       tn_identity = identity, tn_quoteCommit = quote, tn_merchantPk = mPk,
       tn_amount = n_amount live, tn_fee = n_fee live, tn_noteNonce = nonce,
       tn_expiry = noteExp\<rparr>
       (nullish (or_else (ri_noteSalt i) (map_option dn_salt (ri_note i))) []) = Inr D) \<and>
     (\<exists>s. hex32 (Text s) = Inr identity) \<and>
     (\<exists>s. hex32 (Text s) = Inr quote) \<and>
     (\<exists>s. hex32 (Text s) = Inr nonce) \<and>
     (\<not> n_redeemed live) \<and>
     (\<not> n_cancelled live) \<and>
     (0 \<le> env_clock env) \<and>
     (env_clock env < n_expiry live) \<and>
     (redeemNullifier rt (nullish (or_else (ri_callerSk i) (or_else (ri_merchantSecret i)
       (ri_caller i))) []) D (contractDomain l) = Inr N) \<and>
     (N \<notin> set (nullifiers l)) \<and>
     (l' = pushEvent ev ((setNote D (n_redeemed_update (\<lambda>_. True)) l)
       \<lparr>nullifiers := nullifiers l @ [N],
        encumberedReserve := fsub (encumberedReserve l) (n_amount live),
        redeemedReserve := fadd (redeemedReserve l) (n_amount live),
        pendingFeeReserve := fsub (pendingFeeReserve l) (n_fee live),
        feeReserve := fadd (feeReserve l) (n_fee live)\<rparr>))"
proof -
  show ?thesis
    using assms
    by (clarsimp simp: redeemDraw_def outcome_unfold) (metis not_le_imp_less order_le_imp_less_or_eq)
qed

lemma cancelExpired_ok:
  assumes "cancelExpired env l live mode cost = Inr l'"
  shows "(n_cancelled live \<and> mode \<noteq> 0 \<and> (mode = 1 \<longrightarrow> \<not> n_compensationAllocated live) \<and> l' = l) \<or>
    (\<not> n_cancelled live \<and> (mode = 1 \<longrightarrow> \<not> n_compensationAllocated live) \<and>
     n_expiry live \<le> env_clock env \<and>
     l' = (setNote (n_commitment live) (n_cancelled_update (\<lambda>_. True)) l)
       \<lparr>encumberedReserve := fsub (encumberedReserve l) (n_amount live),
        pendingFeeReserve := fsub (pendingFeeReserve l) (n_fee live),
        refundReserve := fadd (refundReserve l) cost\<rparr>)"
  using assms by (cases "n_cancelled live") (auto simp: cancelExpired_def outcome_unfold)

lemma allocateCredit_ok:
  assumes "allocateCredit rt l live proof owner cost = Inr (l', owed, credited, w)"
  shows "(n_lineGeneration live = lineGeneration l \<and> currentIdentity l = Some owner \<and>
      (\<exists>books s C.
        co_books proof = Some books \<and> lw_I books = owner \<and>
        opens rt books (currentCommitment l) = Inr True \<and>
        0 \<le> lw_B books \<and> lw_B books \<le> max_safe \<and> fadd (lw_e books) 1 \<le> max_safe \<and>
        credited = min (lw_B books) cost \<and> owed = fsub cost credited \<and>
        w = Some (books\<lparr>lw_domain := contractDomain l, lw_B := fsub (lw_B books) credited,
              lw_e := fadd (lw_e books) 1, lw_s := s\<rparr>) \<and>
        lineCommitment rt (the w) = Inr C \<and>
        l' = l\<lparr>currentCommitment := Some C,
               refundReserve := (if owed = 0 then fsub (refundReserve l) cost else refundReserve l)\<rparr>)) \<or>
    (n_lineGeneration live < lineGeneration l \<and> l' = l \<and> owed = cost \<and> credited = 0 \<and> w = None)"
proof (cases "n_lineGeneration live = lineGeneration l")
  case True
  with assms show ?thesis
    by (auto simp: allocateCredit_def outcome_unfold assertSafeUint_iff)
next
  case False
  with assms show ?thesis
    by (auto simp: allocateCredit_def outcome_unfold)
qed

lemma allocateCompensation_ok:
  assumes "allocateCompensation rt l i caller D live cost = Inr (l', w, allocation)"
  shows "\<exists>proof owner l1 owed credited salt R.
     xi_compensation i = Some proof \<and> hex32 (Text (tn_identity (co_note proof))) = Inr owner \<and>
     drawNoteCommitment rt ((co_note proof)\<lparr>tn_domain := contractDomain l,
       tn_lineGeneration := n_lineGeneration live, tn_identity := owner, tn_amount := n_amount live,
       tn_fee := n_fee live, tn_expiry := n_expiry live\<rparr>) (co_noteSalt proof) = Inr D \<and>
     (issuerPublicKey rt caller = Inr (issuerPubKey l) \<or> identityCommitment rt caller = Inr owner) \<and>
     allocateCredit rt l live proof owner cost = Inr (l1, owed, credited, w) \<and>
     hex32 (Text (co_newSalt proof)) = Inr salt \<and>
     refundCommitment rt (contractDomain l1) (n_lineGeneration live) owner D owed salt = Inr R \<and>
     allocation = \<lparr>ra_domain = contractDomain l1, ra_lineGeneration = n_lineGeneration live,
       ra_identity = owner, ra_noteCommit = D, ra_amount = owed, ra_allocatedCredit = credited,
       ra_salt = salt, ra_commitment = R\<rparr> \<and>
     l' = setNote D (\<lambda>n. n\<lparr>n_compensationAllocated := True, n_refundCommitment := R,
       n_cashRefundOwed := owed > 0, n_refundAcknowledged := False,
       n_refundPaymentNullifier := toHex zeros32\<rparr>) l1"
  using assms
  by (clarsimp simp: allocateCompensation_def outcome_unfold) (metis Inr_inject)

lemma reportRefund_ok:
  assumes "reportRefund rt env l i caller D live cost = Inr l'"
  shows "\<exists>ack ref sk dom N.
     issuerPublicKey rt caller = Inr (issuerPubKey l) \<and>
     n_cancelled live \<and> n_compensationAllocated live \<and> n_cashRefundOwed live \<and>
     \<not> n_refundAcknowledged live \<and> xi_refundAck i = Some ack \<and>
     env_clock env < nullish (xi_receiptExpiry i) (rk_receiptExpiry ack) \<and>
     0 < rk_amount ack \<and> rk_amount ack \<le> cost \<and>
     refundCommitment rt (contractDomain l) (n_lineGeneration live) (rk_identity ack) D
       (rk_amount ack) (rk_salt ack) = Inr (n_refundCommitment live) \<and>
     canonicalPaymentReferenceBytes rt (rk_paymentRef ack) = Inr ref \<and>
     asBytes32 (Text caller) = Inr sk \<and> asBytes32 (Text (contractDomain l)) = Inr dom \<and>
     N = toHex (encodePaymentNullifier rt sk ref dom) \<and> N \<notin> set (nullifiers l) \<and>
     l' = (setNote D (\<lambda>n. n\<lparr>n_refundAcknowledged := True, n_refundPaymentNullifier := N\<rparr>) l)
       \<lparr>nullifiers := nullifiers l @ [N], refundReserve := fsub (refundReserve l) cost,
        reportedRefundReserve := fadd (reportedRefundReserve l) cost\<rparr>"
  using assms
  by (auto simp: reportRefund_def outcome_unfold assertSafeUint_iff)

lemma cancelOrExpireNote_ok:
  assumes "cancelOrExpireNote rt env l i = Inr (l', w, alloc)"
  shows "\<exists>D mode live caller cost ev l0 l1.
     D = nullish (or_else (xi_noteCommitment i) (map_option dn_D (xi_note i))) [] \<and>
     mode = nullish (xi_action i) 0 \<and>
     caller = nullish (or_else (xi_callerSk i) (or_else (xi_caller i) (xi_agentSecret i))) [] \<and>
     findNote l D = Some live \<and> \<not> n_redeemed live \<and>
     0 \<le> n_amount live \<and> 0 \<le> n_fee live \<and> cost = fadd (n_amount live) (n_fee live) \<and>
     0 \<le> cost \<and> cost \<le> max_safe \<and> l' = pushEvent ev l1 \<and>
     ((mode = 0 \<and> cancelExpired env l live 0 cost = Inr l1 \<and> w = None \<and> alloc = None) \<or>
      (mode = 1 \<and> cancelExpired env l live 1 cost = Inr l0 \<and>
        (\<exists>a. alloc = Some a \<and>
          allocateCompensation rt l0 i caller D (live\<lparr>n_cancelled := True\<rparr>) cost = Inr (l1, w, a))) \<or>
      (mode = 2 \<and> reportRefund rt env l i caller D live cost = Inr l1 \<and> w = None \<and> alloc = None))"
proof -
  define mode where "mode = nullish (xi_action i) 0"
  consider "mode = 0" | "mode = 1" | "mode = 2"
    using assms by (auto simp: cancelOrExpireNote_def mode_def Let_def guard_Inr_iff)
  then show ?thesis
    using assms
    by cases (auto simp: cancelOrExpireNote_def outcome_unfold assertSafeUint_iff mode_def)
qed

section \<open>Repayment and status\<close>

lemma acknowledgeRepayment_ok:
  assumes "acknowledgeRepayment rt env l i w = Inr (l', nextW, agent)"
  shows "\<exists>books r C caller ref N sk dom paymentN s C2 ev.
     or_else (map_option pw_books w) (or_else (pi_witness i) (Option.bind (pi_agent i) as_witness))
       = Some books \<and>
     or_else (map_option pw_receipt w) (pi_receipt i) = Some r \<and>
     caller = getCaller (pi_caller i) (pi_callerSk i) \<and>
     issuerPublicKey rt caller = Inr (issuerPubKey l) \<and>
     (status l = SOpen \<or> status l = SDefaulted) \<and> currentCommitment l = Some C \<and>
     lineCommitment rt books = Inr C \<and> currentIdentity l = Some (lw_I books) \<and>
     rr_currentC r = C \<and> rr_contractDomain r = contractDomain l \<and>
     0 \<le> env_clock env \<and> env_clock env < nullish (pi_receiptExpiry i) (rr_expiry r) \<and>
     0 < rr_amount r \<and> rr_amount r \<le> lw_B books \<and>
     canonicalPaymentReferenceBytes rt (rr_paymentRef r) = Inr ref \<and>
     repayNullifier rt (rr_nonce r) (lw_I books) C (rr_amount r) (rr_paymentRef r) (contractDomain l) = Inr N \<and>
     asBytes32 (Text caller) = Inr sk \<and> asBytes32 (Text (contractDomain l)) = Inr dom \<and>
     paymentN = toHex (encodePaymentNullifier rt sk ref dom) \<and>
     paymentN \<notin> set (nullifiers l) \<and> N \<notin> set (nullifiers l) \<and>
     nextW = \<lparr>lw_domain = contractDomain l, lw_I = lw_I books, lw_L = lw_L books,
       lw_B = fsub (lw_B books) (rr_amount r), lw_e = fadd (lw_e books) 1, lw_s = s\<rparr> \<and>
     lineCommitment rt nextW = Inr C2 \<and>
     l' = pushEvent ev (l\<lparr>currentCommitment := Some C2, nullifiers := nullifiers l @ [N, paymentN]\<rparr>)"
proof -
  obtain C where C: "currentCommitment l = Some C"
    using assms by (cases "currentCommitment l") (auto simp: acknowledgeRepayment_def outcome_unfold)
  show ?thesis
    using assms C
    by (auto simp: acknowledgeRepayment_def outcome_unfold assertSafeUint_iff opens_ok)
qed

lemma setStatus_ok:
  assumes "setStatus rt l caller callerSk new w = Inr l'"
  shows "issuerPublicKey rt (getCaller caller callerSk) = Inr (issuerPubKey l) \<and>
     (status l = SOpen \<or> status l = SDefaulted) \<and> new \<noteq> SNone \<and>
     (\<exists>C. currentCommitment l = Some C) \<and>
     (new = SClosed \<longrightarrow> (\<exists>books C. w = Some books \<and> currentIdentity l = Some (lw_I books) \<and>
        currentCommitment l = Some C \<and> lineCommitment rt books = Inr C \<and> lw_B books = 0)) \<and>
     l' = pushEvent (event ''setStatus'' (PStatus new)) (l\<lparr>status := new\<rparr>)"
proof (cases "new = SClosed")
  case True
  with assms show ?thesis
    by (cases "status l"; cases "currentCommitment l")
      (auto simp: setStatus_def outcome_unfold opens_ok)
next
  case False
  with assms show ?thesis
    by (cases "status l"; cases "currentCommitment l") (auto simp: setStatus_def outcome_unfold)
qed

end
