(* ===== verification/Outcome_Machine.thy ===== *)
theory Outcome_Machine
  imports Line_Prelude
begin

text \<open>
  State machines whose requests can fail. A request either yields the next state or stops, and a
  stopped request leaves the state as it was. The locales here are the contracts the components
  share: an invariant every accepted request keeps, and a preorder every accepted request respects.
\<close>

text \<open>
  The states an execution passes through, from \<open>s\<close>, under a side condition on every state reached
  (for the simulator: amounts stay in the range where JavaScript arithmetic is exact).
\<close>

inductive reach ::
    "('e \<Rightarrow> 's \<Rightarrow> 'q \<Rightarrow> 's outcome) \<Rightarrow> ('s \<Rightarrow> bool) \<Rightarrow> 's \<Rightarrow> 's \<Rightarrow> bool"
  for exec :: "'e \<Rightarrow> 's \<Rightarrow> 'q \<Rightarrow> 's outcome" and side :: "'s \<Rightarrow> bool" and s :: 's where
  start: "reach exec side s s"
| step: "reach exec side s t \<Longrightarrow> exec e t q = Inr u \<Longrightarrow> side u \<Longrightarrow> reach exec side s u"

lemma reach_trans: "reach exec side s t \<Longrightarrow> reach exec side t u \<Longrightarrow> reach exec side s u"
  by (rotate_tac, induction rule: reach.induct) (auto intro: reach.step)

lemma reach_side: "reach exec side s t \<Longrightarrow> side s \<Longrightarrow> side t"
  by (induction rule: reach.induct) auto

locale invariant_machine =
  fixes exec :: "'e \<Rightarrow> 's \<Rightarrow> 'q \<Rightarrow> 's outcome" and side :: "'s \<Rightarrow> bool" and inv :: "'s \<Rightarrow> bool"
  assumes exec_inv: "inv s \<Longrightarrow> exec e s q = Inr t \<Longrightarrow> side t \<Longrightarrow> inv t"
begin

lemma reach_inv: "reach exec side s t \<Longrightarrow> inv s \<Longrightarrow> inv t"
  by (induction rule: reach.induct) (auto intro: exec_inv)

end

text \<open>A machine whose accepted requests also move the state upwards in a preorder.\<close>

locale growing_machine = invariant_machine exec side inv
  for exec :: "'e \<Rightarrow> 's \<Rightarrow> 'q \<Rightarrow> 's outcome" and side :: "'s \<Rightarrow> bool" and inv :: "'s \<Rightarrow> bool" +
  fixes below :: "'s \<Rightarrow> 's \<Rightarrow> bool"
  assumes below_refl: "below s s"
    and below_trans: "below s t \<Longrightarrow> below t u \<Longrightarrow> below s u"
    and exec_below: "inv s \<Longrightarrow> exec e s q = Inr t \<Longrightarrow> side t \<Longrightarrow> below s t"
begin

lemma reach_below: "reach exec side s t \<Longrightarrow> inv s \<Longrightarrow> below s t"
  by (induction rule: reach.induct)
    (auto intro: below_refl below_trans exec_below reach_inv)

text \<open>A property of states that the preorder carries upwards holds for ever once it holds.\<close>

lemma reach_stable:
  assumes "\<And>s t. below s t \<Longrightarrow> P s \<Longrightarrow> P t" and "reach exec side s t" and "inv s" and "P s"
  shows "P t"
  using assms reach_below by blast

end

text \<open>A machine given by a step relation, with an invariant and a preorder its steps respect.\<close>

locale step_machine =
  fixes step :: "'d \<Rightarrow> 'd \<Rightarrow> bool" and inv :: "'d \<Rightarrow> bool" and below :: "'d \<Rightarrow> 'd \<Rightarrow> bool"
  assumes step_inv: "inv d \<Longrightarrow> step d d' \<Longrightarrow> inv d'"
    and below_refl: "below d d"
    and below_trans: "below d d' \<Longrightarrow> below d' d'' \<Longrightarrow> below d d''"
    and step_below: "inv d \<Longrightarrow> step d d' \<Longrightarrow> below d d'"
begin

lemma steps_inv: "step\<^sup>*\<^sup>* d d' \<Longrightarrow> inv d \<Longrightarrow> inv d'"
  by (induction rule: rtranclp_induct) (auto intro: step_inv)

lemma steps_below: "step\<^sup>*\<^sup>* d d' \<Longrightarrow> inv d \<Longrightarrow> below d d'"
  by (induction rule: rtranclp_induct) (auto intro: below_refl below_trans step_below steps_inv)

end

end
