(* ===== verification/Accounting.thy ===== *)
theory Accounting
  imports Circuit_Facts Outcome_Machine
begin

text \<open>
  Reserve accounting. The six locked counters of the ledger are, at every moment, the sums over the
  notes that the header of \<open>contracts/line.compact\<close> announces; together they never exceed the total
  reserve. One lemma per circuit shows that it keeps this, as long as the total stays a safe integer.
\<close>

section \<open>One request type for the twelve circuits\<close>

datatype request =
    RegisterMerchant "jsstr option" "jsstr option" jsstr
  | DisableMerchant jsstr jsstr
  | FundReserve "jsstr option" "jsstr option" int
  | WithdrawUnencumbered "jsstr option" "jsstr option" int
  | WithdrawFees jsstr
  | OpenLine open_input "int option"
  | PostQuote quote_request "int option"
  | Draw draw_input "draw_witness option"
  | RedeemDraw redeem_input "draw_note_preimage option"
  | CancelOrExpire cancel_input
  | AcknowledgeRepayment repay_input "repay_witness option"
  | SetStatus "jsstr option" "jsstr option" line_status "line_witness option"

text \<open>The ledger a request leaves behind; the private results go to the caller.\<close>

fun exec :: "runtime \<Rightarrow> env \<Rightarrow> ledger \<Rightarrow> request \<Rightarrow> ledger outcome" where
  "exec rt env l (RegisterMerchant c k pk) = registerMerchant rt l c k pk"
| "exec rt env l (DisableMerchant c pk) = disableMerchant rt l c pk"
| "exec rt env l (FundReserve c k a) = fundReserve rt l c k a"
| "exec rt env l (WithdrawUnencumbered c k a) = withdrawUnencumberedReserve rt l c k a"
| "exec rt env l (WithdrawFees c) = bindS (withdrawFees rt l c) (\<lambda>(l', f). Inr l')"
| "exec rt env l (OpenLine i w) = bindS (openLine rt env l i w) (\<lambda>(l', a). Inr l')"
| "exec rt env l (PostQuote i w) = bindS (postQuote rt env l i w) (\<lambda>(l', q, Q). Inr l')"
| "exec rt env l (Draw i w) = bindS (draw rt env l i w) (\<lambda>(l', a, n). Inr l')"
| "exec rt env l (RedeemDraw i w) = bindS (redeemDraw rt env l i w) (\<lambda>(l', N). Inr l')"
| "exec rt env l (CancelOrExpire i) = bindS (cancelOrExpireNote rt env l i) (\<lambda>(l', w, a). Inr l')"
| "exec rt env l (AcknowledgeRepayment i w) =
     bindS (acknowledgeRepayment rt env l i w) (\<lambda>(l', v, a). Inr l')"
| "exec rt env l (SetStatus c k s w) = setStatus rt l c k s w"

section \<open>Buckets\<close>

definition note_cost :: "note_record \<Rightarrow> int" where
  "note_cost n = n_amount n + n_fee n"

definition claim_open :: "note_record \<Rightarrow> bool" where
  "claim_open n \<longleftrightarrow> \<not> n_redeemed n \<and> \<not> n_cancelled n"

text \<open>
  The refund budget of a cancelled claim is held until it is allocated without a cash remainder, or
  until its cash refund has been reported.
\<close>

definition refund_held :: "note_record \<Rightarrow> bool" where
  "refund_held n \<longleftrightarrow> n_cancelled n \<and>
     (\<not> n_compensationAllocated n \<or> (n_cashRefundOwed n \<and> \<not> n_refundAcknowledged n))"

definition bucketE :: "note_record \<Rightarrow> int" where
  "bucketE n = (if claim_open n then n_amount n else 0)"
definition bucketP :: "note_record \<Rightarrow> int" where
  "bucketP n = (if claim_open n then n_fee n else 0)"
definition bucketR :: "note_record \<Rightarrow> int" where
  "bucketR n = (if n_redeemed n then n_amount n else 0)"
definition bucketF :: "note_record \<Rightarrow> int" where
  "bucketF n = (if n_redeemed n then n_fee n else 0)"
definition bucketU :: "note_record \<Rightarrow> int" where
  "bucketU n = (if refund_held n then note_cost n else 0)"
definition bucketX :: "note_record \<Rightarrow> int" where
  "bucketX n = (if n_refundAcknowledged n then note_cost n else 0)"

definition total :: "(note_record \<Rightarrow> int) \<Rightarrow> ledger \<Rightarrow> int" where
  "total b l = sum_list (map b (drawNotes l))"

text \<open>The life cycle of one note: which combinations of its flags can occur.\<close>

definition note_ok :: "note_record \<Rightarrow> bool" where
  "note_ok n \<longleftrightarrow>
     0 < n_amount n \<and> 0 \<le> n_fee n \<and> note_cost n \<le> max_safe \<and>
     \<not> (n_redeemed n \<and> n_cancelled n) \<and>
     (n_compensationAllocated n \<longrightarrow> n_cancelled n) \<and>
     (n_cashRefundOwed n \<longrightarrow> n_compensationAllocated n) \<and>
     (n_refundAcknowledged n \<longrightarrow> n_cashRefundOwed n)"

definition locked :: "ledger \<Rightarrow> int" where
  "locked l = encumberedReserve l + redeemedReserve l + feeReserve l + pendingFeeReserve l +
     refundReserve l + reportedRefundReserve l"

definition accounting :: "ledger \<Rightarrow> bool" where
  "accounting l \<longleftrightarrow>
     list_all note_ok (drawNotes l) \<and>
     encumberedReserve l = total bucketE l \<and> pendingFeeReserve l = total bucketP l \<and>
     redeemedReserve l = total bucketR l \<and>
     0 \<le> feeReserve l \<and> feeReserve l \<le> total bucketF l \<and>
     refundReserve l = total bucketU l \<and> reportedRefundReserve l = total bucketX l \<and>
     locked l \<le> totalReserve l \<and> totalReserve l \<le> max_safe"

definition safe_total :: "ledger \<Rightarrow> bool" where
  "safe_total l \<longleftrightarrow> totalReserve l \<le> max_safe"

lemmas bucket_defs = bucketE_def bucketP_def bucketR_def bucketF_def bucketU_def bucketX_def
  claim_open_def refund_held_def

lemma bucket_nonneg:
  assumes "list_all note_ok ns"
  shows "\<forall>n \<in> set ns. 0 \<le> bucketE n" "\<forall>n \<in> set ns. 0 \<le> bucketP n" "\<forall>n \<in> set ns. 0 \<le> bucketR n"
    "\<forall>n \<in> set ns. 0 \<le> bucketF n" "\<forall>n \<in> set ns. 0 \<le> bucketU n" "\<forall>n \<in> set ns. 0 \<le> bucketX n"
  using assms
  by (auto simp: list_all_iff note_ok_def bucket_defs note_cost_def dest!: bspec)

lemma accounting_nonneg:
  assumes "accounting l"
  shows "0 \<le> encumberedReserve l" "0 \<le> pendingFeeReserve l" "0 \<le> redeemedReserve l"
    "0 \<le> feeReserve l" "0 \<le> refundReserve l" "0 \<le> reportedRefundReserve l"
  using assms bucket_nonneg [of "drawNotes l"]
  by (auto simp: accounting_def total_def intro!: sum_list_map_nonneg)

lemma accounting_locked: "accounting l \<Longrightarrow> lockedReserve l = locked l"
  using accounting_nonneg [of l]
  by (simp add: lockedReserve_def locked_def accounting_def fadd_exact max_safe_def)

lemma accounting_safe: "accounting l \<Longrightarrow> safe_total l"
  by (simp add: accounting_def safe_total_def)

text \<open>A note that is updated in place moves its share from one bucket to another.\<close>

lemma total_setNote:
  assumes "findNote l D = Some n"
  shows "total b (setNote D f l) = total b l - b n + b (f n)"
  using assms unfolding total_def setNote_def findNote_def by (simp add: sum_list_update_first)

lemma list_all_setNote:
  assumes "list_all P (drawNotes l)" and "findNote l D = Some n" and "P (f n)"
  shows "list_all P (drawNotes (setNote D f l))"
proof -
  obtain ys zs where "drawNotes l = ys @ n # zs"
    "update_first (\<lambda>m. n_commitment m = D) f (drawNotes l) = ys @ f n # zs"
    using assms(2) unfolding findNote_def by (rule find_split) auto
  then show ?thesis using assms by (simp add: setNote_def)
qed

lemma setNote_fields [simp]:
  "contractDomain (setNote D f l) = contractDomain l" "issuerPubKey (setNote D f l) = issuerPubKey l"
  "totalReserve (setNote D f l) = totalReserve l" "encumberedReserve (setNote D f l) = encumberedReserve l"
  "redeemedReserve (setNote D f l) = redeemedReserve l" "feeReserve (setNote D f l) = feeReserve l"
  "pendingFeeReserve (setNote D f l) = pendingFeeReserve l" "refundReserve (setNote D f l) = refundReserve l"
  "reportedRefundReserve (setNote D f l) = reportedRefundReserve l"
  "currentIdentity (setNote D f l) = currentIdentity l"
  "currentCommitment (setNote D f l) = currentCommitment l" "nullifiers (setNote D f l) = nullifiers l"
  "lineGeneration (setNote D f l) = lineGeneration l" "status (setNote D f l) = status l"
  "quotes (setNote D f l) = quotes l" "registeredMerchants (setNote D f l) = registeredMerchants l"
  by (simp_all add: setNote_def)

lemma accounting_note:
  assumes "accounting l" and "findNote l D = Some n"
  shows "note_ok n" "bucketE n \<le> encumberedReserve l" "bucketP n \<le> pendingFeeReserve l"
    "bucketU n \<le> refundReserve l"
proof -
  have n: "n \<in> set (drawNotes l)" using find_member [OF assms(2)] by simp
  have ok: "list_all note_ok (drawNotes l)" using assms(1) by (simp add: accounting_def)
  then show "note_ok n" using n by (simp add: list_all_iff)
  show "bucketE n \<le> encumberedReserve l" "bucketP n \<le> pendingFeeReserve l"
    "bucketU n \<le> refundReserve l"
    using assms(1) n bucket_nonneg [OF ok]
    by (simp_all add: accounting_def total_def sum_list_ge_member)
qed

text \<open>Circuits that leave the notes and the locked counters alone.\<close>

lemma accounting_frame:
  assumes "accounting l" and "drawNotes l' = drawNotes l"
    and "encumberedReserve l' = encumberedReserve l" "redeemedReserve l' = redeemedReserve l"
    "pendingFeeReserve l' = pendingFeeReserve l" "refundReserve l' = refundReserve l"
    "reportedRefundReserve l' = reportedRefundReserve l"
    and "0 \<le> feeReserve l'" "feeReserve l' \<le> feeReserve l"
    and "locked l' \<le> totalReserve l'" "totalReserve l' \<le> max_safe"
  shows "accounting l'"
  using assms by (simp add: accounting_def total_def)

end
