(* ===== verification/Accounting_Steps.thy ===== *)
theory Accounting_Steps
  imports Accounting
begin

text \<open>
  Every circuit keeps the reserve accounting: one lemma per circuit, their summary for \<open>exec\<close>, and
  the interpretation that lifts it to every execution.
\<close>

lemmas note_updates = bucket_defs note_cost_def note_ok_def

text \<open>Arithmetic on counters that stay below the total is exact.\<close>

lemma fadd_below: "0 \<le> a \<Longrightarrow> 0 \<le> b \<Longrightarrow> a + b \<le> max_safe \<Longrightarrow> fadd a b = a + b"
  by (simp add: fadd_exact max_safe_def)

lemma fsub_below: "0 \<le> b \<Longrightarrow> b \<le> a \<Longrightarrow> a \<le> max_safe \<Longrightarrow> fsub a b = a - b"
  by (simp add: fsub_exact max_safe_def)

lemma accounting_bound: "accounting l \<Longrightarrow> locked l \<le> max_safe"
  by (simp add: accounting_def)

lemma accounting_created:
  "createLedger rt env p = Inr l \<Longrightarrow> accounting l"
  by (auto simp: createLedger_def bindS_Inr_iff accounting_def total_def locked_def max_safe_def)

lemma accounting_registry:
  "accounting l \<Longrightarrow> accounting (pushEvent ev (l\<lparr>registeredMerchants := m\<rparr>))"
  by (rule accounting_frame [of l]) (auto simp: accounting_def locked_def)

lemma accounting_fund:
  assumes "accounting l" and "fundReserve rt l c k a = Inr l'" and "safe_total l'"
  shows "accounting l'"
proof -
  obtain ev where a: "0 < a" and l': "l' = pushEvent ev (l\<lparr>totalReserve := fadd (totalReserve l) a\<rparr>)"
    using assms(2) by (rule fundReserve_ok)
  have "0 \<le> totalReserve l"
    using accounting_nonneg [OF assms(1)] assms(1) by (simp add: accounting_def locked_def)
  then have "fadd (totalReserve l) a = totalReserve l + a"
    using assms(3) a by (intro fadd_safe) (auto simp: l' safe_total_def)
  with assms(1,3) a show ?thesis
    by (intro accounting_frame [OF assms(1)]) (auto simp: l' accounting_def locked_def safe_total_def)
qed

lemma accounting_withdraw:
  assumes "accounting l" and "withdrawUnencumberedReserve rt l c k a = Inr l'"
  shows "accounting l'"
proof -
  obtain ev where a: "0 < a" "a \<le> fsub (totalReserve l) (lockedReserve l)"
    and l': "l' = pushEvent ev (l\<lparr>totalReserve := fsub (totalReserve l) a\<rparr>)"
    using assms(2) by (rule withdrawUnencumberedReserve_ok)
  have locked: "lockedReserve l = locked l" "0 \<le> locked l" "locked l \<le> totalReserve l"
    "totalReserve l \<le> max_safe"
    using assms(1) accounting_locked [OF assms(1)] accounting_nonneg [OF assms(1)]
    by (auto simp: accounting_def locked_def)
  then have "a \<le> totalReserve l - locked l" using a by (simp add: fsub_below)
  moreover from this have "fsub (totalReserve l) a = totalReserve l - a"
    using a locked by (intro fsub_below) auto
  ultimately show ?thesis
    using assms(1) a by (intro accounting_frame [OF assms(1)]) (auto simp: l' accounting_def locked_def)
qed

lemma accounting_fees:
  assumes "accounting l" and "withdrawFees rt l c = Inr (l', f)"
  shows "accounting l'"
proof -
  obtain ev where f: "f = feeReserve l" "0 < f"
    and l': "l' = pushEvent ev (l\<lparr>totalReserve := fsub (totalReserve l) f, feeReserve := 0\<rparr>)"
    using assms(2) by (rule withdrawFees_ok)
  have "f \<le> locked l" "locked l \<le> totalReserve l" "totalReserve l \<le> max_safe"
    using assms(1) accounting_nonneg [OF assms(1)] f by (auto simp: accounting_def locked_def)
  then have "fsub (totalReserve l) f = totalReserve l - f" using f by (intro fsub_below) auto
  with assms(1) f show ?thesis
    by (intro accounting_frame [OF assms(1)]) (auto simp: l' accounting_def locked_def)
qed

lemma accounting_open:
  assumes "accounting l" and "openLine rt env l i w = Inr (l', agent)"
  shows "accounting l'"
proof -
  from assms(2) obtain ev I C flat bps where
    "l' = pushEvent ev (l\<lparr>currentIdentity := Some I, currentCommitment := Some C,
       lineExpiry := oi_expiry i, feeFlat := flat, feeBps := bps, status := SOpen,
       lineGeneration := fadd (lineGeneration l) 1\<rparr>)"
    by (rule openLine_ok)
  with assms(1) show ?thesis
    by (intro accounting_frame [OF assms(1)]) (auto simp: accounting_def locked_def)
qed

lemma accounting_quote:
  assumes "accounting l" and "postQuote rt env l i w = Inr (l', p, Q)"
  shows "accounting l'"
proof -
  from assms(2) obtain ev qs where "l' = pushEvent ev (l\<lparr>quotes := qs\<rparr>)"
    by (rule postQuote_ok)
  with assms(1) show ?thesis
    by (intro accounting_frame [OF assms(1)]) (auto simp: accounting_def locked_def)
qed

lemma accounting_repay:
  assumes "accounting l" and "acknowledgeRepayment rt env l i w = Inr (l', v, a)"
  shows "accounting l'"
proof -
  from acknowledgeRepayment_ok [OF assms(2)] obtain ev C2 ns where
    "l' = pushEvent ev (l\<lparr>currentCommitment := Some C2, nullifiers := ns\<rparr>)"
    by auto
  with assms(1) show ?thesis
    by (intro accounting_frame [OF assms(1)]) (auto simp: accounting_def locked_def)
qed

lemma accounting_status:
  assumes "accounting l" and "setStatus rt l c k s w = Inr l'"
  shows "accounting l'"
  using setStatus_ok [OF assms(2)] assms(1)
  by (intro accounting_frame [OF assms(1)]) (auto simp: accounting_def locked_def)

text \<open>A draw locks its principal and its fee, both covered by the unlocked reserve.\<close>

lemma accounting_draw:
  assumes acc: "accounting l" and "draw rt env l i w = Inr (l', agent, note)"
  shows "accounting l'"
proof -
  from assms(2) obtain a f cost nextB where
    quote: "drawQuote rt l i w (env_clock env) = Inr (da_Q a, da_live a, da_merchantPk a, da_amount a)"
    and price: "drawPrice l i (da_books a) (da_amount a) = Inr (f, cost, nextB)"
    and settle: "drawSettle rt env l i a f nextB = Inr (l', agent, note)"
    by (rule draw_ok)
  have A: "0 < da_amount a" using drawQuote_ok [OF quote] by auto
  have f: "0 \<le> f" using drawPrice_ok(2) [OF price] .
  have lk: "lockedReserve l = locked l" "locked l \<le> totalReserve l" "totalReserve l \<le> max_safe"
    using acc accounting_locked [OF acc] by (auto simp: accounting_def)
  have cost: "cost = da_amount a + f" "cost \<le> max_safe"
    using drawPrice_ok(5,7,8) [OF price] A f fadd_safe [of "da_amount a" f] by auto
  have nn: "0 \<le> locked l" using accounting_nonneg [OF acc] by (simp add: locked_def)
  then have room: "cost \<le> totalReserve l - locked l"
    using drawPrice_ok(14) [OF price] lk by (simp add: fsub_below)
  have E: "fadd (encumberedReserve l) (da_amount a) = encumberedReserve l + da_amount a"
    and P: "fadd (pendingFeeReserve l) f = pendingFeeReserve l + f"
    using room cost lk accounting_nonneg [OF acc] A f
    by (auto intro!: fadd_below simp: locked_def)
  obtain ev N D C2 where l': "l' = pushEvent ev (l\<lparr>
       quotes := update_first (\<lambda>q. q_commitment q = da_Q a) (q_used_update (\<lambda>_. True)) (quotes l),
       currentCommitment := Some C2, nullifiers := nullifiers l @ [N],
       encumberedReserve := fadd (encumberedReserve l) (da_amount a),
       pendingFeeReserve := fadd (pendingFeeReserve l) f,
       drawNotes := drawNotes l @ [\<lparr>n_commitment = D, n_amount = da_amount a, n_fee = f,
         n_redeemed = False, n_cancelled = False, n_expiry = q_expiry (da_live a),
         n_lineGeneration = lineGeneration l, n_compensationAllocated = False,
         n_refundCommitment = toHex zeros32, n_cashRefundOwed = False,
         n_refundAcknowledged = False, n_refundPaymentNullifier = toHex zeros32\<rparr>]\<rparr>)"
    using settle by (rule drawSettle_ok)
  show ?thesis
    using acc A f cost room
    by (auto simp: l' [unfolded E P] accounting_def total_def locked_def note_updates)
qed

text \<open>
  The pattern of the remaining circuits: one note changes its flags, and every counter moves by the
  difference of the note's share in its bucket.
\<close>

lemma accounting_transfer:
  assumes acc: "accounting l" and find: "findNote l D = Some n" and ok: "note_ok (f n)"
    and notes_eq: "drawNotes l' = drawNotes (setNote D f l)"
    and E: "encumberedReserve l' = encumberedReserve l - bucketE n + bucketE (f n)"
    and P: "pendingFeeReserve l' = pendingFeeReserve l - bucketP n + bucketP (f n)"
    and R: "redeemedReserve l' = redeemedReserve l - bucketR n + bucketR (f n)"
    and F: "feeReserve l' = feeReserve l - bucketF n + bucketF (f n)" "bucketF n \<le> bucketF (f n)"
    and U: "refundReserve l' = refundReserve l - bucketU n + bucketU (f n)"
    and X: "reportedRefundReserve l' = reportedRefundReserve l - bucketX n + bucketX (f n)"
    and T: "totalReserve l' = totalReserve l" and le: "locked l' \<le> locked l"
  shows "accounting l'"
proof -
  have tot: "total b l' = total b l - b n + b (f n)" for b
    using total_setNote [OF find, of b f] by (simp add: total_def notes_eq)
  have "list_all note_ok (drawNotes l')"
    unfolding notes_eq using acc find ok
    by (intro list_all_setNote [where P = note_ok]) (simp_all add: accounting_def)
  then show ?thesis
    using acc E P R F U X T le by (auto simp: accounting_def tot)
qed

text \<open>Redeeming moves principal and fee of one claim from E and P to R and F.\<close>

lemma accounting_redeem:
  assumes acc: "accounting l" and "redeemDraw rt env l i w = Inr (l', N)"
  shows "accounting l'"
proof -
  from redeemDraw_ok [OF assms(2)] obtain ev D live where
    live: "findNote l D = Some live" "\<not> n_redeemed live" "\<not> n_cancelled live"
    and l': "l' = pushEvent ev ((setNote D (n_redeemed_update (\<lambda>_. True)) l)
       \<lparr>nullifiers := nullifiers l @ [N],
        encumberedReserve := fsub (encumberedReserve l) (n_amount live),
        redeemedReserve := fadd (redeemedReserve l) (n_amount live),
        pendingFeeReserve := fsub (pendingFeeReserve l) (n_fee live),
        feeReserve := fadd (feeReserve l) (n_fee live)\<rparr>)"
    by blast
  note live_facts = accounting_note [OF acc live(1)]
  note nn = accounting_nonneg [OF acc]
  have E: "n_amount live \<le> encumberedReserve l" "n_fee live \<le> pendingFeeReserve l"
    using live_facts live by (simp_all add: bucket_defs)
  have pos: "0 < n_amount live" "0 \<le> n_fee live" using live_facts(1) by (simp_all add: note_ok_def)
  have bound: "locked l \<le> totalReserve l" "totalReserve l \<le> max_safe"
    using acc by (simp_all add: accounting_def)
  have arith: "fsub (encumberedReserve l) (n_amount live) = encumberedReserve l - n_amount live"
    "fadd (redeemedReserve l) (n_amount live) = redeemedReserve l + n_amount live"
    "fsub (pendingFeeReserve l) (n_fee live) = pendingFeeReserve l - n_fee live"
    "fadd (feeReserve l) (n_fee live) = feeReserve l + n_fee live"
    using E pos bound nn by (auto intro!: fadd_below fsub_below simp: locked_def)
  show ?thesis
    using live live_facts(1) pos
    by (intro accounting_transfer [OF acc live(1), of "n_redeemed_update (\<lambda>_. True)" l'])
      (auto simp: l' arith note_updates locked_def)
qed

text \<open>Expiry moves the whole cost of an open claim from E and P to U.\<close>

lemma accounting_cancelExpired:
  assumes acc: "accounting l" and find: "findNote l D = Some live" and nr: "\<not> n_redeemed live"
    and cost: "cost = note_cost live"
    and run: "cancelExpired env l live mode cost = Inr l'"
  shows "accounting l'" and "findNote l' D = Some (live\<lparr>n_cancelled := True\<rparr>)"
    and "mode = 1 \<Longrightarrow> \<not> n_compensationAllocated live"
    and "contractDomain l' = contractDomain l \<and> lineGeneration l' = lineGeneration l \<and>
      currentCommitment l' = currentCommitment l \<and> currentIdentity l' = currentIdentity l \<and>
      issuerPubKey l' = issuerPubKey l \<and> nullifiers l' = nullifiers l"
proof -
  have D: "n_commitment live = D" using find_member [OF find] by simp
  have same: "live\<lparr>n_cancelled := True\<rparr> = live" if "n_cancelled live" using that by simp
  note steps = cancelExpired_ok [OF run]
  show "mode = 1 \<Longrightarrow> \<not> n_compensationAllocated live" using steps by auto
  show "contractDomain l' = contractDomain l \<and> lineGeneration l' = lineGeneration l \<and>
      currentCommitment l' = currentCommitment l \<and> currentIdentity l' = currentIdentity l \<and>
      issuerPubKey l' = issuerPubKey l \<and> nullifiers l' = nullifiers l"
    using steps by auto
  show "findNote l' D = Some (live\<lparr>n_cancelled := True\<rparr>)"
  proof (cases "n_cancelled live")
    case True
    with steps find show ?thesis by (simp add: same)
  next
    case False
    then have "drawNotes l' = drawNotes (setNote D (n_cancelled_update (\<lambda>_. True)) l)"
      using steps D by auto
    then show ?thesis
      using find D find_update_first_self [of "\<lambda>n. n_commitment n = D" "drawNotes l" live
          "n_cancelled_update (\<lambda>_. True)"]
      by (simp add: findNote_def setNote_def)
  qed
  show "accounting l'"
  proof (cases "n_cancelled live")
    case True
    with steps acc show ?thesis by auto
  next
    case False
    note live_facts = accounting_note [OF acc find]
    have le: "n_amount live \<le> encumberedReserve l" "n_fee live \<le> pendingFeeReserve l"
      using live_facts nr False by (simp_all add: bucket_defs)
    have pos: "0 < n_amount live" "0 \<le> n_fee live" using live_facts(1) by (simp_all add: note_ok_def)
    have bound: "locked l \<le> totalReserve l" "totalReserve l \<le> max_safe"
      using acc by (simp_all add: accounting_def)
    have arith: "fsub (encumberedReserve l) (n_amount live) = encumberedReserve l - n_amount live"
      "fsub (pendingFeeReserve l) (n_fee live) = pendingFeeReserve l - n_fee live"
      "fadd (refundReserve l) cost = refundReserve l + cost"
      using le pos bound accounting_nonneg [OF acc]
      by (auto intro!: fadd_below fsub_below simp: locked_def cost note_cost_def)
    have l': "l' = (setNote D (n_cancelled_update (\<lambda>_. True)) l)
       \<lparr>encumberedReserve := encumberedReserve l - n_amount live,
        pendingFeeReserve := pendingFeeReserve l - n_fee live,
        refundReserve := refundReserve l + cost\<rparr>"
      using steps False D by (auto simp: arith)
    show ?thesis
      using nr False live_facts(1) pos
      by (intro accounting_transfer [OF acc find, of "n_cancelled_update (\<lambda>_. True)" l'])
        (auto simp: l' note_updates locked_def cost)
  qed
qed

text \<open>
  Allocation releases the budget when the credit covers the whole cost, and keeps all of it when a
  cash remainder is owed.
\<close>

lemma accounting_allocate:
  assumes acc: "accounting l" and find: "findNote l D = Some live"
    and flags: "n_cancelled live" "\<not> n_compensationAllocated live"
    and cost: "cost = note_cost live"
    and run: "allocateCompensation rt l i caller D live cost = Inr (l', w, a)"
  shows "accounting l'"
proof -
  from allocateCompensation_ok [OF run] obtain cp owner l1 owed credited R where
    credit: "allocateCredit rt l live cp owner cost = Inr (l1, owed, credited, w)"
    and l': "l' = setNote D (\<lambda>n. n\<lparr>n_compensationAllocated := True, n_refundCommitment := R,
       n_cashRefundOwed := owed > 0, n_refundAcknowledged := False,
       n_refundPaymentNullifier := toHex zeros32\<rparr>) l1"
    by blast
  note live_facts = accounting_note [OF acc find]
  have ok: "0 < cost" "cost \<le> max_safe" "\<not> n_redeemed live" "\<not> n_cashRefundOwed live"
    "\<not> n_refundAcknowledged live"
    using live_facts(1) flags by (auto simp: note_ok_def cost note_cost_def)
  have U: "cost \<le> refundReserve l"
    using live_facts(4) flags by (simp add: bucket_defs cost)
  have bound: "refundReserve l \<le> max_safe"
    using acc accounting_nonneg [OF acc] by (simp add: accounting_def locked_def)
  have U': "fsub (refundReserve l) cost = refundReserve l - cost"
    using ok U bound by (simp add: fsub_below)
  have "0 \<le> owed \<and> (\<exists>C. l1 = l\<lparr>currentCommitment := C,
      refundReserve := (if owed = 0 then refundReserve l - cost else refundReserve l)\<rparr>)"
    using allocateCredit_ok [OF credit]
  proof (elim disjE conjE exE)
    fix books s C
    assume "0 \<le> lw_B books" "credited = min (lw_B books) cost" "owed = fsub cost credited"
      and l1: "l1 = l\<lparr>currentCommitment := Some C,
        refundReserve := (if owed = 0 then fsub (refundReserve l) cost else refundReserve l)\<rparr>"
    then have "owed = cost - credited" "credited \<le> cost"
      using ok by (simp_all add: fsub_below)
    then have "0 \<le> owed" by simp
    moreover have "l1 = l\<lparr>currentCommitment := Some C,
        refundReserve := (if owed = 0 then refundReserve l - cost else refundReserve l)\<rparr>"
      unfolding l1 U' ..
    ultimately show ?thesis by blast
  next
    assume "l1 = l" "owed = cost"
    then show ?thesis
      using ok by (intro conjI exI [of _ "currentCommitment l"]) simp_all
  qed
  then obtain C where owed: "0 \<le> owed" and l1': "l1 = l\<lparr>currentCommitment := C,
      refundReserve := (if owed = 0 then refundReserve l - cost else refundReserve l)\<rparr>" by blast
  show ?thesis
    using live_facts(1) flags ok owed
    by (intro accounting_transfer [OF acc find, of "\<lambda>n. n\<lparr>n_compensationAllocated := True,
          n_refundCommitment := R, n_cashRefundOwed := owed > 0, n_refundAcknowledged := False,
          n_refundPaymentNullifier := toHex zeros32\<rparr>" l'])
      (auto simp: l' l1' note_updates locked_def cost setNote_def)
qed

text \<open>A reported refund moves the full cost from U to X.\<close>

lemma accounting_report:
  assumes acc: "accounting l" and find: "findNote l D = Some live"
    and cost: "cost = note_cost live"
    and run: "reportRefund rt env l i caller D live cost = Inr l'"
  shows "accounting l'"
proof -
  from reportRefund_ok [OF run] obtain N where
    flags: "n_cancelled live" "n_compensationAllocated live" "n_cashRefundOwed live"
      "\<not> n_refundAcknowledged live"
    and l': "l' = (setNote D (\<lambda>n. n\<lparr>n_refundAcknowledged := True, n_refundPaymentNullifier := N\<rparr>) l)
       \<lparr>nullifiers := nullifiers l @ [N], refundReserve := fsub (refundReserve l) cost,
        reportedRefundReserve := fadd (reportedRefundReserve l) cost\<rparr>"
    by blast
  note live_facts = accounting_note [OF acc find]
  have ok: "0 < cost" "\<not> n_redeemed live"
    using live_facts(1) flags by (auto simp: note_ok_def cost note_cost_def)
  have U: "cost \<le> refundReserve l"
    using live_facts(4) flags by (simp add: bucket_defs cost)
  have bound: "locked l \<le> totalReserve l" "totalReserve l \<le> max_safe"
    using acc by (simp_all add: accounting_def)
  have arith: "fsub (refundReserve l) cost = refundReserve l - cost"
    "fadd (reportedRefundReserve l) cost = reportedRefundReserve l + cost"
    using ok U bound accounting_nonneg [OF acc]
    by (auto intro!: fadd_below fsub_below simp: locked_def)
  show ?thesis
    using live_facts(1) flags ok
    by (intro accounting_transfer [OF acc find, of "\<lambda>n. n\<lparr>n_refundAcknowledged := True,
          n_refundPaymentNullifier := N\<rparr>" l'])
      (auto simp: l' [unfolded arith] note_updates locked_def cost)
qed

lemma accounting_pushEvent: "accounting l \<Longrightarrow> accounting (pushEvent ev l)"
  by (rule accounting_frame [of l]) (auto simp: accounting_def locked_def)

lemma accounting_cancel:
  assumes acc: "accounting l" and "cancelOrExpireNote rt env l i = Inr (l', w, a)"
  shows "accounting l'"
proof -
  from cancelOrExpireNote_ok [OF assms(2)] obtain D mode live caller cost ev l0 l1 where
    live: "findNote l D = Some live" "\<not> n_redeemed live"
    and c: "cost = fadd (n_amount live) (n_fee live)" "cost \<le> max_safe" and l': "l' = pushEvent ev l1"
    and modes: "(mode = 0 \<and> cancelExpired env l live 0 cost = Inr l1) \<or>
      (mode = 1 \<and> cancelExpired env l live 1 cost = Inr l0 \<and>
        (\<exists>a. allocateCompensation rt l0 i caller D (live\<lparr>n_cancelled := True\<rparr>) cost = Inr (l1, w, a))) \<or>
      (mode = 2 \<and> reportRefund rt env l i caller D live cost = Inr l1)"
    by blast
  have cost: "cost = note_cost live"
    using c accounting_note(1) [OF acc live(1)] fadd_safe [of "n_amount live" "n_fee live"]
    by (simp add: note_ok_def note_cost_def)
  have "accounting l1"
    using modes
  proof (elim disjE conjE exE)
    assume "cancelExpired env l live 0 cost = Inr l1"
    then show ?thesis using accounting_cancelExpired(1) [OF acc live cost] by blast
  next
    fix alloc
    assume head: "cancelExpired env l live 1 cost = Inr l0"
      and alloc: "allocateCompensation rt l0 i caller D (live\<lparr>n_cancelled := True\<rparr>) cost = Inr (l1, w, alloc)"
    note l0 = accounting_cancelExpired [OF acc live cost head]
    show ?thesis
      using l0(3) cost by (intro accounting_allocate [OF l0(1,2) _ _ _ alloc]) (auto simp: note_cost_def)
  next
    assume "reportRefund rt env l i caller D live cost = Inr l1"
    then show ?thesis using accounting_report [OF acc live(1) cost] by blast
  qed
  then show ?thesis by (simp add: l' accounting_pushEvent)
qed

text \<open>All twelve circuits.\<close>

lemma accounting_exec:
  assumes "accounting l" and "exec rt env l q = Inr l'" and "safe_total l'"
  shows "accounting l'"
  using assms
  by (cases q)
    (auto simp: bindS_Inr_iff accounting_registry
      elim: registerMerchant_ok disableMerchant_ok
      intro: accounting_fund accounting_withdraw accounting_fees accounting_open accounting_quote
        accounting_draw accounting_redeem accounting_cancel accounting_repay accounting_status)

interpretation reserve: invariant_machine "exec rt" safe_total accounting for rt
  by unfold_locales (rule accounting_exec)

end
