(* ===== verification/Evolution.thy ===== *)
theory Evolution
  imports Accounting_Steps
begin

text \<open>
  How the public ledger may evolve: notes, quotes and nullifiers are only added, the terms of a note
  never change, and its flags only move forward. The preorder \<^verbatim>\<open>below\<close> says so for two ledgers; every
  circuit respects it, so it relates any two moments of an execution.
\<close>

section \<open>The preorder\<close>

text \<open>A redeemed claim and a reported refund are final.\<close>

definition note_below :: "note_record \<Rightarrow> note_record \<Rightarrow> bool" where
  "note_below n m \<longleftrightarrow>
     n_commitment m = n_commitment n \<and> n_amount m = n_amount n \<and> n_fee m = n_fee n \<and>
     n_expiry m = n_expiry n \<and> n_lineGeneration m = n_lineGeneration n \<and>
     (n_redeemed n \<longrightarrow> m = n) \<and> (n_refundAcknowledged n \<longrightarrow> m = n) \<and>
     (n_cancelled n \<longrightarrow> n_cancelled m) \<and>
     (n_compensationAllocated n \<longrightarrow> n_compensationAllocated m \<and>
        n_refundCommitment m = n_refundCommitment n \<and> n_cashRefundOwed m = n_cashRefundOwed n)"

definition quote_below :: "quote_record \<Rightarrow> quote_record \<Rightarrow> bool" where
  "quote_below p q \<longleftrightarrow>
     q_commitment q = q_commitment p \<and> q_expiry q = q_expiry p \<and>
     q_lineGeneration q = q_lineGeneration p \<and> (q_used p \<longrightarrow> q_used q)"

definition grows :: "('a \<Rightarrow> 'a \<Rightarrow> bool) \<Rightarrow> 'a list \<Rightarrow> 'a list \<Rightarrow> bool" where
  "grows r xs ys \<longleftrightarrow> length xs \<le> length ys \<and> (\<forall>i < length xs. r (xs ! i) (ys ! i))"

definition below :: "ledger \<Rightarrow> ledger \<Rightarrow> bool" where
  "below l l' \<longleftrightarrow>
     contractDomain l' = contractDomain l \<and> issuerPubKey l' = issuerPubKey l \<and>
     dom (registeredMerchants l) \<subseteq> dom (registeredMerchants l') \<and>
     (\<exists>ns. nullifiers l' = nullifiers l @ ns) \<and>
     grows note_below (drawNotes l) (drawNotes l') \<and>
     grows quote_below (quotes l) (quotes l') \<and>
     lineGeneration l \<le> lineGeneration l'"

lemma note_below_refl [simp]: "note_below n n"
  by (simp add: note_below_def)

lemma note_below_trans: "note_below a b \<Longrightarrow> note_below b c \<Longrightarrow> note_below a c"
  by (auto simp: note_below_def)

lemma quote_below_refl [simp]: "quote_below n n"
  by (simp add: quote_below_def)

lemma quote_below_trans: "quote_below a b \<Longrightarrow> quote_below b c \<Longrightarrow> quote_below a c"
  by (auto simp: quote_below_def)

lemma grows_refl [simp]: "(\<And>x. r x x) \<Longrightarrow> grows r xs xs"
  by (simp add: grows_def)

lemma grows_trans:
  "(\<And>a b c. r a b \<Longrightarrow> r b c \<Longrightarrow> r a c) \<Longrightarrow> grows r xs ys \<Longrightarrow> grows r ys zs \<Longrightarrow> grows r xs zs"
  unfolding grows_def by (metis order_less_le_trans order_trans)

lemma grows_append: "(\<And>x. r x x) \<Longrightarrow> grows r xs (xs @ ys)"
  by (simp add: grows_def nth_append)

lemma grows_update_first:
  assumes "\<And>x. r x x" and "\<And>x. find p xs = Some x \<Longrightarrow> r x (f x)"
  shows "grows r xs (update_first p f xs)"
proof (cases "find p xs")
  case None
  then have "update_first p f xs = xs" by (induction xs) (auto split: if_splits)
  with assms(1) show ?thesis by simp
next
  case (Some x)
  then obtain ys zs where "xs = ys @ x # zs" "update_first p f xs = ys @ f x # zs"
    by (rule find_split) auto
  with assms Some show ?thesis
    by (auto simp: grows_def nth_append nth_Cons split: nat.splits)
qed

lemma grows_member:
  assumes "grows r xs ys" and "x \<in> set xs"
  obtains y where "y \<in> set ys" and "r x y"
proof -
  obtain i where "i < length xs" "xs ! i = x" using assms(2) by (auto simp: in_set_conv_nth)
  with assms(1) have "ys ! i \<in> set ys" "r x (ys ! i)" by (auto simp: grows_def)
  then show thesis by (rule that)
qed

lemma below_refl: "below l l"
  by (simp add: below_def)

lemma below_trans: "below l m \<Longrightarrow> below m n \<Longrightarrow> below l n"
  unfolding below_def
  by (auto intro: grows_trans [where r = note_below, OF note_below_trans]
      grows_trans [where r = quote_below, OF quote_below_trans])

text \<open>A circuit that does not touch the notes.\<close>

lemma below_frame:
  assumes "contractDomain l' = contractDomain l" "issuerPubKey l' = issuerPubKey l"
    "dom (registeredMerchants l) \<subseteq> dom (registeredMerchants l')"
    "nullifiers l' = nullifiers l @ ns" "drawNotes l' = drawNotes l"
    "grows quote_below (quotes l) (quotes l')" "lineGeneration l \<le> lineGeneration l'"
  shows "below l l'"
  using assms by (auto simp: below_def)

text \<open>A circuit that updates one note.\<close>

lemma below_setNote:
  assumes "findNote l D = Some n" and "note_below n (f n)"
    and "contractDomain l' = contractDomain l" "issuerPubKey l' = issuerPubKey l"
    "registeredMerchants l' = registeredMerchants l" "nullifiers l' = nullifiers l @ ns"
    "drawNotes l' = drawNotes (setNote D f l)" "quotes l' = quotes l"
    "lineGeneration l' = lineGeneration l"
  shows "below l l'"
proof -
  have "grows note_below (drawNotes l) (drawNotes l')"
    using assms(1,2) unfolding assms(7) setNote_def findNote_def
    by (auto intro!: grows_update_first)
  with assms show ?thesis by (auto simp: below_def)
qed

section \<open>Well-formed ledgers\<close>

text \<open>
  The accounting, unique commitments, and a generation counter in the range where adding one is
  exact or stops at \<open>2 ^ 53\<close>.
\<close>

definition wf_ledger :: "ledger \<Rightarrow> bool" where
  "wf_ledger l \<longleftrightarrow>
     accounting l \<and> distinct (map n_commitment (drawNotes l)) \<and>
     distinct (map q_commitment (quotes l)) \<and>
     0 \<le> lineGeneration l \<and> lineGeneration l \<le> 2 ^ 53"

lemma fadd_generation: "0 \<le> g \<Longrightarrow> g < 2 ^ 53 \<Longrightarrow> fadd g 1 = g + 1"
  by (simp add: fadd_exact)

lemma fadd_generation_stops: "fadd (2 ^ 53) 1 = 2 ^ 53"
proof -
  have "excess_bits 9007199254740993 = 1"
    by (simp add: excess_bits.simps [of "9007199254740993"] excess_bits.simps [of "4503599627370496"])
  then show ?thesis by (simp add: fadd_def fl_def round_nat_def)
qed

lemma next_generation:
  "0 \<le> g \<Longrightarrow> g \<le> 2 ^ 53 \<Longrightarrow> g \<le> fadd g 1 \<and> fadd g 1 \<le> 2 ^ 53"
  using fadd_generation [of g] fadd_generation_stops by (cases "g = 2 ^ 53") auto

lemma map_setNote:
  "(\<And>n. n_commitment (f n) = n_commitment n) \<Longrightarrow>
     map n_commitment (drawNotes (setNote D f l)) = map n_commitment (drawNotes l)"
  by (simp add: setNote_def map_update_first)

lemma map_quotes_used:
  "map q_commitment (update_first p (q_used_update (\<lambda>_. True)) qs) = map q_commitment qs"
  by (rule map_update_first) simp

end
