(* ===== verification/Evolution_Steps.thy ===== *)
theory Evolution_Steps
  imports Evolution
begin

text \<open>
  Every circuit respects the preorder \<^verbatim>\<open>below\<close> and keeps the ledger well formed; the interpretation at
  the end lifts both to whole executions.
\<close>

lemma wf_created: "createLedger rt env p = Inr l \<Longrightarrow> wf_ledger l"
  using accounting_created [of rt env p l]
  by (auto simp: wf_ledger_def createLedger_def bindS_Inr_iff)

lemma wf_pushEvent: "wf_ledger (pushEvent ev l) \<longleftrightarrow> wf_ledger l"
proof -
  have "accounting (pushEvent ev l) = accounting l"
    by (simp add: accounting_def total_def locked_def)
  then show ?thesis by (simp add: wf_ledger_def)
qed

lemma below_pushEvent: "below l (pushEvent ev m) \<longleftrightarrow> below l m"
  by (simp add: below_def)

section \<open>Commitments stay distinct\<close>

lemma distinct_setNote:
  "(\<And>n. n_commitment (f n) = n_commitment n) \<Longrightarrow>
     distinct (map n_commitment (drawNotes (setNote D f l))) = distinct (map n_commitment (drawNotes l))"
  by (simp add: map_setNote)

text \<open>What a step keeps besides the accounting, in one predicate.\<close>

definition tidy :: "ledger \<Rightarrow> bool" where
  "tidy l \<longleftrightarrow> distinct (map n_commitment (drawNotes l)) \<and> distinct (map q_commitment (quotes l)) \<and>
     0 \<le> lineGeneration l \<and> lineGeneration l \<le> 2 ^ 53"

lemma wf_ledger_iff: "wf_ledger l \<longleftrightarrow> accounting l \<and> tidy l"
  by (auto simp: wf_ledger_def tidy_def)

lemma tidy_frame:
  assumes "tidy l" and "drawNotes l' = drawNotes l" and "quotes l' = quotes l"
    and "lineGeneration l' = lineGeneration l"
  shows "tidy l'"
  using assms by (simp add: tidy_def)

section \<open>Circuits that leave the notes alone\<close>

lemma step_open:
  assumes "tidy l" and "openLine rt env l i w = Inr (l', agent)"
  shows "below l l' \<and> tidy l'"
proof -
  from assms(2) obtain ev I C flat bps where
    "l' = pushEvent ev (l\<lparr>currentIdentity := Some I, currentCommitment := Some C,
       lineExpiry := oi_expiry i, feeFlat := flat, feeBps := bps, status := SOpen,
       lineGeneration := fadd (lineGeneration l) 1\<rparr>)"
    by (rule openLine_ok)
  with assms(1) next_generation [of "lineGeneration l"] show ?thesis
    by (auto simp: below_def tidy_def)
qed

lemma step_quote:
  assumes "tidy l" and "postQuote rt env l i w = Inr (l', p, Q)"
  shows "below l l' \<and> tidy l'"
proof -
  from assms(2) obtain ev e where "\<forall>q \<in> set (quotes l). q_commitment q \<noteq> Q"
    "l' = pushEvent ev (l\<lparr>quotes := quotes l @ [\<lparr>q_commitment = Q, q_expiry = e,
       q_lineGeneration = lineGeneration l, q_used = False\<rparr>]\<rparr>)"
    by (rule postQuote_ok)
  with assms(1) show ?thesis by (auto simp: below_def tidy_def grows_append)
qed

lemma step_repay:
  assumes "tidy l" and "acknowledgeRepayment rt env l i w = Inr (l', v, a)"
  shows "below l l' \<and> tidy l'"
proof -
  from acknowledgeRepayment_ok [OF assms(2)] obtain ev C2 ns where
    "l' = pushEvent ev (l\<lparr>currentCommitment := Some C2, nullifiers := nullifiers l @ ns\<rparr>)"
    by blast
  with assms(1) show ?thesis by (auto simp: below_def tidy_def)
qed

lemma step_status:
  assumes "tidy l" and "setStatus rt l c k s w = Inr l'"
  shows "below l l' \<and> tidy l'"
  using setStatus_ok [OF assms(2)] assms(1) by (auto simp: below_def tidy_def)

section \<open>Circuits that add or update notes\<close>

lemma step_draw:
  assumes "tidy l" and "draw rt env l i w = Inr (l', agent, note)"
  shows "below l l' \<and> tidy l'"
proof -
  from assms(2) obtain a f nextB where "drawSettle rt env l i a f nextB = Inr (l', agent, note)"
    by (rule draw_ok)
  then obtain ev N D C2 where fresh: "\<forall>n \<in> set (drawNotes l). n_commitment n \<noteq> D"
    and l': "l' = pushEvent ev (l\<lparr>
       quotes := update_first (\<lambda>q. q_commitment q = da_Q a) (q_used_update (\<lambda>_. True)) (quotes l),
       currentCommitment := Some C2, nullifiers := nullifiers l @ [N],
       encumberedReserve := fadd (encumberedReserve l) (da_amount a),
       pendingFeeReserve := fadd (pendingFeeReserve l) f,
       drawNotes := drawNotes l @ [\<lparr>n_commitment = D, n_amount = da_amount a, n_fee = f,
         n_redeemed = False, n_cancelled = False, n_expiry = q_expiry (da_live a),
         n_lineGeneration = lineGeneration l, n_compensationAllocated = False,
         n_refundCommitment = toHex zeros32, n_cashRefundOwed = False,
         n_refundAcknowledged = False, n_refundPaymentNullifier = toHex zeros32\<rparr>]\<rparr>)"
    by (rule drawSettle_ok)
  have "grows quote_below (quotes l) (quotes l')"
    by (auto simp: l' quote_below_def intro!: grows_update_first)
  with assms(1) fresh show ?thesis
    by (auto simp: l' below_def tidy_def grows_append map_quotes_used)
qed

lemma step_setNote:
  assumes "tidy l" and "findNote l D = Some n" and "note_below n (f n)"
    and "\<And>n. n_commitment (f n) = n_commitment n"
    and "contractDomain l' = contractDomain l" "issuerPubKey l' = issuerPubKey l"
    "registeredMerchants l' = registeredMerchants l" "nullifiers l' = nullifiers l @ ns"
    "drawNotes l' = drawNotes (setNote D f l)" "quotes l' = quotes l"
    "lineGeneration l' = lineGeneration l"
  shows "below l l' \<and> tidy l'"
proof
  show "below l l'" by (rule below_setNote [OF assms(2,3,5-11)])
  have "map n_commitment (drawNotes l') = map n_commitment (drawNotes l)"
    by (simp add: assms(9) map_setNote assms(4))
  then show "tidy l'" using assms(1,10,11) by (simp add: tidy_def)
qed

lemma step_redeem:
  assumes "accounting l" and "tidy l" and "redeemDraw rt env l i w = Inr (l', N)"
  shows "below l l' \<and> tidy l'"
proof -
  from redeemDraw_ok [OF assms(3)] obtain ev D live where
    live: "findNote l D = Some live" "\<not> n_redeemed live" "\<not> n_cancelled live"
    and l': "l' = pushEvent ev ((setNote D (n_redeemed_update (\<lambda>_. True)) l)
       \<lparr>nullifiers := nullifiers l @ [N],
        encumberedReserve := fsub (encumberedReserve l) (n_amount live),
        redeemedReserve := fadd (redeemedReserve l) (n_amount live),
        pendingFeeReserve := fsub (pendingFeeReserve l) (n_fee live),
        feeReserve := fadd (feeReserve l) (n_fee live)\<rparr>)"
    by blast
  show ?thesis
    using live accounting_note(1) [OF assms(1) live(1)]
    by (intro step_setNote [OF assms(2) live(1), of "n_redeemed_update (\<lambda>_. True)" l' "[N]"])
      (auto simp: l' note_below_def note_ok_def)
qed

lemma step_cancelExpired:
  assumes "accounting l" and "tidy l" and find: "findNote l D = Some live" and "\<not> n_redeemed live"
    and "cancelExpired env l live mode cost = Inr l'"
  shows "below l l' \<and> tidy l'"
proof -
  have D: "n_commitment live = D" using find_member [OF find] by simp
  from cancelExpired_ok [OF assms(5)] show ?thesis
  proof (elim disjE conjE)
    assume "l' = l"
    with assms(2) show ?thesis by (simp add: below_refl)
  next
    assume nc: "\<not> n_cancelled live" and l': "l' = (setNote (n_commitment live) (n_cancelled_update (\<lambda>_. True)) l)
       \<lparr>encumberedReserve := fsub (encumberedReserve l) (n_amount live),
        pendingFeeReserve := fsub (pendingFeeReserve l) (n_fee live),
        refundReserve := fadd (refundReserve l) cost\<rparr>"
    show ?thesis
      using assms(4) nc accounting_note(1) [OF assms(1) find]
      by (intro step_setNote [OF assms(2) find, of "n_cancelled_update (\<lambda>_. True)" l' "[]"])
        (auto simp: l' D note_below_def note_ok_def)
  qed
qed

text \<open>The credit part of an allocation touches the books and the refund budget only.\<close>

lemma allocateCredit_frame:
  assumes "allocateCredit rt l live cp owner cost = Inr (l1, owed, credited, w)"
  shows "\<exists>C r. l1 = l\<lparr>currentCommitment := C, refundReserve := r\<rparr>"
  using allocateCredit_ok [OF assms]
proof (elim disjE conjE exE)
  assume "l1 = l"
  then show ?thesis
    by (intro exI [of _ "currentCommitment l"] exI [of _ "refundReserve l"]) simp
qed blast

lemma step_allocate:
  assumes "accounting l" and "tidy l" and find: "findNote l D = Some live"
    and "\<not> n_redeemed live" and "\<not> n_compensationAllocated live"
    and run: "allocateCompensation rt l i caller D live cost = Inr (l', w, a)"
  shows "below l l' \<and> tidy l'"
proof -
  from allocateCompensation_ok [OF run] obtain cp owner l1 owed credited R where
    credit: "allocateCredit rt l live cp owner cost = Inr (l1, owed, credited, w)"
    and l': "l' = setNote D (\<lambda>n. n\<lparr>n_compensationAllocated := True, n_refundCommitment := R,
       n_cashRefundOwed := owed > 0, n_refundAcknowledged := False,
       n_refundPaymentNullifier := toHex zeros32\<rparr>) l1"
    by blast
  from allocateCredit_frame [OF credit] obtain C r where
    l1: "l1 = l\<lparr>currentCommitment := C, refundReserve := r\<rparr>" by blast
  show ?thesis
    using assms(4,5) accounting_note(1) [OF assms(1) find]
    by (intro step_setNote [OF assms(2) find, of "\<lambda>n. n\<lparr>n_compensationAllocated := True,
          n_refundCommitment := R, n_cashRefundOwed := owed > 0, n_refundAcknowledged := False,
          n_refundPaymentNullifier := toHex zeros32\<rparr>" l' "[]"])
      (auto simp: l' l1 note_below_def note_ok_def setNote_def)
qed

lemma step_report:
  assumes "accounting l" and "tidy l" and find: "findNote l D = Some live" and "\<not> n_redeemed live"
    and run: "reportRefund rt env l i caller D live cost = Inr l'"
  shows "below l l' \<and> tidy l'"
proof -
  from reportRefund_ok [OF run] obtain N where flags: "\<not> n_refundAcknowledged live"
    and l': "l' = (setNote D (\<lambda>n. n\<lparr>n_refundAcknowledged := True, n_refundPaymentNullifier := N\<rparr>) l)
       \<lparr>nullifiers := nullifiers l @ [N], refundReserve := fsub (refundReserve l) cost,
        reportedRefundReserve := fadd (reportedRefundReserve l) cost\<rparr>"
    by blast
  show ?thesis
    using assms(4) flags
    by (intro step_setNote [OF assms(2) find, of "\<lambda>n. n\<lparr>n_refundAcknowledged := True,
          n_refundPaymentNullifier := N\<rparr>" l' "[N]"])
      (auto simp: l' note_below_def)
qed

lemma step_cancel:
  assumes acc: "accounting l" and tidy: "tidy l" and "cancelOrExpireNote rt env l i = Inr (l', w, a)"
  shows "below l l' \<and> tidy l'"
proof -
  from cancelOrExpireNote_ok [OF assms(3)] obtain D mode live caller cost ev l0 l1 where
    live: "findNote l D = Some live" "\<not> n_redeemed live"
    and c: "cost = fadd (n_amount live) (n_fee live)" "cost \<le> max_safe" and l': "l' = pushEvent ev l1"
    and modes: "(mode = 0 \<and> cancelExpired env l live 0 cost = Inr l1) \<or>
      (mode = 1 \<and> cancelExpired env l live 1 cost = Inr l0 \<and>
        (\<exists>a. allocateCompensation rt l0 i caller D (live\<lparr>n_cancelled := True\<rparr>) cost = Inr (l1, w, a))) \<or>
      (mode = 2 \<and> reportRefund rt env l i caller D live cost = Inr l1)"
    by blast
  have cost: "cost = note_cost live"
    using c accounting_note(1) [OF acc live(1)] fadd_safe [of "n_amount live" "n_fee live"]
    by (simp add: note_ok_def note_cost_def)
  have "below l l1 \<and> tidy l1"
    using modes
  proof (elim disjE conjE exE)
    assume "cancelExpired env l live 0 cost = Inr l1"
    then show ?thesis by (rule step_cancelExpired [OF acc tidy live])
  next
    fix alloc
    assume head: "cancelExpired env l live 1 cost = Inr l0"
      and alloc: "allocateCompensation rt l0 i caller D (live\<lparr>n_cancelled := True\<rparr>) cost = Inr (l1, w, alloc)"
    note l0 = accounting_cancelExpired [OF acc live cost head]
    note s0 = step_cancelExpired [OF acc tidy live head]
    have "below l0 l1 \<and> tidy l1"
      using l0(3) live(2) s0 by (intro step_allocate [OF l0(1) _ l0(2) _ _ alloc]) auto
    with s0 show ?thesis using below_trans by blast
  next
    assume "reportRefund rt env l i caller D live cost = Inr l1"
    then show ?thesis by (rule step_report [OF acc tidy live])
  qed
  then show ?thesis by (simp add: l' below_pushEvent tidy_def)
qed

section \<open>All twelve circuits\<close>

lemma step_exec:
  assumes "accounting l" and "tidy l" and "exec rt env l q = Inr l'"
  shows "below l l' \<and> tidy l'"
proof (cases q)
  case (RegisterMerchant c k pk)
  with assms show ?thesis by (auto elim!: registerMerchant_ok simp: below_pushEvent below_def tidy_def)
next
  case (DisableMerchant c pk)
  with assms show ?thesis by (auto elim!: disableMerchant_ok simp: below_pushEvent below_def tidy_def)
next
  case (FundReserve c k a)
  with assms show ?thesis
    by (auto elim!: fundReserve_ok simp: below_pushEvent below_def tidy_def)
next
  case (WithdrawUnencumbered c k a)
  with assms show ?thesis
    by (auto elim!: withdrawUnencumberedReserve_ok simp: below_pushEvent below_def tidy_def)
next
  case (WithdrawFees c)
  with assms show ?thesis by (auto elim!: withdrawFees_ok simp: below_pushEvent below_def tidy_def)
qed (use assms in \<open>auto simp: bindS_Inr_iff dest: step_open step_quote step_draw step_redeem
        step_cancel step_repay step_status\<close>)

lemma wf_exec: "wf_ledger l \<Longrightarrow> exec rt env l q = Inr l' \<Longrightarrow> safe_total l' \<Longrightarrow> wf_ledger l'"
  using accounting_exec step_exec by (auto simp: wf_ledger_iff)

interpretation growth: growing_machine "exec rt" safe_total wf_ledger below for rt
proof unfold_locales
  show "wf_ledger l'" if "wf_ledger l" "exec rt e l q = Inr l'" "safe_total l'" for e l q l'
    using that by (rule wf_exec)
  show "below l l" for l by (rule below_refl)
  show "below l n" if "below l m" "below m n" for l m n using that by (rule below_trans)
  show "below l l'" if "wf_ledger l" "exec rt e l q = Inr l'" for e l q l'
    using that step_exec by (auto simp: wf_ledger_iff)
qed

section \<open>Consequences for one note, one quote, one nullifier\<close>

text \<open>A note found once is found for ever, with the same terms.\<close>

lemma find_below:
  assumes "wf_ledger l'" and "below l l'" and "findNote l D = Some n"
  obtains m where "findNote l' D = Some m" and "note_below n m"
proof -
  have n: "n \<in> set (drawNotes l)" "n_commitment n = D" using find_member [OF assms(3)] by auto
  from assms(2) n(1) obtain m where m: "m \<in> set (drawNotes l')" "note_below n m"
    unfolding below_def by (blast elim: grows_member)
  have D: "n_commitment m = D" using m(2) n(2) by (simp add: note_below_def)
  have "\<exists>x. find (\<lambda>y. n_commitment y = D) (drawNotes l') = Some x"
    using m(1) D find_None_all [of "\<lambda>y. n_commitment y = D" "drawNotes l'"] by (metis option.exhaust)
  then obtain x where x: "findNote l' D = Some x" by (auto simp: findNote_def)
  have "x \<in> set (drawNotes l')" "n_commitment x = D" using find_member [OF x] by auto
  then have "x = m"
    using m(1) D assms(1) inj_onD [of n_commitment "set (drawNotes l')" x m]
    by (simp add: wf_ledger_def distinct_map)
  with x m(2) show thesis using that by blast
qed

lemma quote_find_below:
  assumes "wf_ledger l'" and "below l l'" and "find (\<lambda>q. q_commitment q = Q) (quotes l) = Some p"
  obtains q where "find (\<lambda>q. q_commitment q = Q) (quotes l') = Some q" and "quote_below p q"
proof -
  have p: "p \<in> set (quotes l)" "q_commitment p = Q" using find_SomeD [OF assms(3)] by auto
  from assms(2) p(1) obtain q where q: "q \<in> set (quotes l')" "quote_below p q"
    unfolding below_def by (blast elim: grows_member)
  have Q: "q_commitment q = Q" using q(2) p(2) by (simp add: quote_below_def)
  obtain x where x: "find (\<lambda>q. q_commitment q = Q) (quotes l') = Some x"
    using q(1) Q find_None_all [of "\<lambda>y. q_commitment y = Q" "quotes l'"] by (metis option.exhaust)
  have "x \<in> set (quotes l')" "q_commitment x = Q" using find_SomeD [OF x] by auto
  then have "x = q"
    using q(1) Q assms(1) inj_onD [of q_commitment "set (quotes l')" x q]
    by (simp add: wf_ledger_def distinct_map)
  with x q(2) show thesis using that by blast
qed

lemma nullifier_below: "below l l' \<Longrightarrow> N \<in> set (nullifiers l) \<Longrightarrow> N \<in> set (nullifiers l')"
  by (auto simp: below_def)

end
