(* ===== verification/Demo.thy ===== *)
theory Demo
  imports Evolution_Steps
begin

text \<open>
  A concrete runtime and a concrete history, on which the properties are instantiated. The runtime
  hashes a list of fields to its first field (so the domain tags keep the kinds of hashes apart) and
  commits to a value by its salt; the history is one purchase: fund, open, quote, draw, redeem.
\<close>

section \<open>A runtime\<close>

definition first_field :: "bytes list \<Rightarrow> bytes" where
  "first_field xs = (case xs of [] \<Rightarrow> zeros32 | x # _ \<Rightarrow> take 32 (pad_bytes x))"

primrec le_bytes :: "nat \<Rightarrow> int \<Rightarrow> bytes" where
  "le_bytes 0 n = []"
| "le_bytes (Suc k) n = of_int n # le_bytes k (n div 256)"

definition demo :: runtime where
  "demo = \<lparr>persistentHash = first_field, persistentCommit = (\<lambda>al vs s. take 32 (pad_bytes s)),
     convertFieldToBytes = le_bytes\<rparr>"

lemma length_take_pad [simp]: "min (length (pad_bytes bs)) 32 = 32"
  by (simp add: pad_bytes_def)

lemma take_pad_id [simp]: "length bs = 32 \<Longrightarrow> take 32 (pad_bytes bs) = bs"
  by (simp add: pad_bytes_def)

lemma runtime_ok_demo: "runtime_ok demo"
  by (auto simp: runtime_ok_def demo_def first_field_def split: list.splits)

lemma word_of_int_eq_mod: "(of_int m :: 8 word) = of_int n \<longleftrightarrow> m mod 256 = n mod 256"
  by (simp add: word_of_int_eq_iff take_bit_eq_mod)

lemma le_bytes_inject:
  "0 \<le> m \<Longrightarrow> m < 256 ^ k \<Longrightarrow> 0 \<le> n \<Longrightarrow> n < 256 ^ k \<Longrightarrow> le_bytes k m = le_bytes k n \<Longrightarrow> m = n"
proof (induction k arbitrary: m n)
  case (Suc k)
  from Suc.prems(5) have mods: "m mod 256 = n mod 256" and tl: "le_bytes k (m div 256) = le_bytes k (n div 256)"
    by (simp_all add: word_of_int_eq_mod)
  have "m div 256 < 256 ^ k" "n div 256 < 256 ^ k"
    using Suc.prems by (auto simp: div_less_iff_less_mult mult.commute)
  then have "m div 256 = n div 256"
    using Suc.IH [of "m div 256" "n div 256"] Suc.prems tl by (simp add: pos_imp_zdiv_nonneg_iff)
  with mods show ?case by (metis div_mult_mod_eq)
qed simp

lemma field_inject_demo: "field_inject demo"
  unfolding field_inject_def demo_def runtime.simps
proof (intro allI impI)
  fix m n :: int
  assume "0 \<le> m" "m \<le> uint64_max" "0 \<le> n" "n \<le> uint64_max" "le_bytes 32 m = le_bytes 32 n"
  then show "m = n" by (intro le_bytes_inject [of m 32 n]) (auto simp: uint64_max_def)
qed

text \<open>Hashes and commitments of the demo runtime, on 32-byte arguments.\<close>

lemma length_TAG [simp]:
  "length TAG_issuerPk = 32" "length TAG_merchantPk = 32" "length TAG_id = 32"
  "length TAG_domain = 32" "length TAG_quote = 32" "length TAG_draw = 32" "length TAG_redeem = 32"
  "length TAG_repay = 32" "length TAG_payment = 32"
  by (simp_all add: TAG_defs encoding_simps pad_bytes_def)

lemma demo_hash [simp]: "length x = 32 \<Longrightarrow> persistentHash demo (x # xs) = x"
  by (simp add: demo_def first_field_def)

lemma demo_commit [simp]: "length s = 32 \<Longrightarrow> persistentCommit demo al vs s = s"
  by (simp add: demo_def)

lemmas demo_eval = identityCommitment_def issuerPublicKey_def merchantPublicKey_def
  lineCommitment_def quoteCommitment_def drawNoteCommitment_def refundCommitment_def
  drawNullifier_def redeemNullifier_def repayNullifier_def agentId_def agent_id_input_def
  encodeIssuerPublicKey_def issuer_key_input_def encodeMerchantPublicKey_def merchant_key_input_def
  encodeContractDomain_def domain_input_def lineStateCommit_def drawNoteCommit_def refundCommit_def
  encodeQuoteCommit_def quote_input_def encodeDrawNullifier_def draw_nullifier_input_def
  encodeRedeemNullifier_def redeem_nullifier_input_def encodeRepayNullifier_def
  repay_nullifier_input_def encodePaymentNullifier_def payment_nullifier_input_def
  encodeU64_def u64_def isSafeInteger_def assertSafeUint_def max_safe_def uint64_max_def
  hex32_def isIssuer_def opens_def executionUnixSeconds_def getCaller_def Let_def

section \<open>A purchase\<close>

text \<open>Secrets and salts: 32 equal bytes, in hexadecimal.\<close>

definition rep32 :: "8 word \<Rightarrow> bytes" where
  "rep32 b = replicate 32 b"

definition key :: "8 word \<Rightarrow> jsstr" where
  "key b = toHex (rep32 b)"

lemma toHex_eq_Nil [simp]: "toHex bs = [] \<longleftrightarrow> bs = []"
  by (cases bs) (simp_all add: hex_byte_def)

lemma rep32_facts [simp]: "length (rep32 b) = 32" "rep32 a = rep32 b \<longleftrightarrow> a = b" "rep32 b \<noteq> []"
  by (simp_all add: rep32_def)

lemma key_facts [simp]:
  "asBytes32 (Text (key b)) = Inr (rep32 b)" "toHex (rep32 b) = key b"
  "key a = key b \<longleftrightarrow> a = b" "key b \<noteq> []" "toHex bs = key b \<longleftrightarrow> bs = rep32 b"
  by (simp_all add: key_def)

definition clock :: "int \<Rightarrow> env" where
  "clock t = \<lparr>env_clock = t, env_random = (\<lambda>i. rep32 (of_nat (100 + i)))\<rparr>"

definition demo_params :: ledger_params where
  "demo_params = \<lparr>cp_issuerSecret = Some (key 1), cp_merchantSecret = Some (key 2),
     cp_instanceNonce = None, cp_issuerPubKey = None, cp_merchantPubKey = None\<rparr>"

definition demo_created :: ledger where
  "demo_created = \<lparr>contractDomain = toHex TAG_domain, issuerPubKey = toHex TAG_issuerPk,
     initialMerchantPubKey = toHex TAG_merchantPk, instanceNonce = key 102,
     registeredMerchants = [toHex TAG_merchantPk \<mapsto> True],
     totalReserve = 0, encumberedReserve = 0, redeemedReserve = 0, feeReserve = 0,
     pendingFeeReserve = 0, refundReserve = 0, reportedRefundReserve = 0,
     feeFlat = 0, feeBps = 0, currentIdentity = None, currentCommitment = None,
     lineExpiry = 0, status = SNone, lineGeneration = 0, quotes = [], drawNotes = [],
     nullifiers = [], events = [], actionClock = 0\<rparr>"

lemma demo_created: "createLedger demo (clock 0) demo_params = Inr demo_created"
  by (simp add: createLedger_def demo_params_def demo_created_def key_param_def truthy_def
      demo_eval clock_def)

text \<open>The issuer funds 1000 and opens a line of 500, fee 2 plus one percent.\<close>

definition demo_funded :: ledger where
  "demo_funded = pushEvent ((event ''fundReserve'' (PFunded 1000 1000))\<lparr>ev_amount := Some 1000\<rparr>)
     (demo_created\<lparr>totalReserve := 1000\<rparr>)"

lemma fl_small [simp]: "\<bar>n\<bar> \<le> 2 ^ 53 \<Longrightarrow> fl n = n"
  by (rule fl_exact)

lemma demo_funded: "fundReserve demo demo_created (Some (key 1)) None 1000 = Inr demo_funded"
  by (simp add: fundReserve_def demo_funded_def demo_created_def demo_eval fadd_def)

definition demo_open_input :: open_input where
  "demo_open_input = \<lparr>oi_caller = None, oi_callerSk = Some (key 1), oi_agentSecret = key 3,
     oi_limit = Some 500, oi_salt = Some (key 10), oi_expiry = 1000, oi_feeFlat = Some 2,
     oi_feeBps = Some 100\<rparr>"

definition demo_books :: line_witness where
  "demo_books = \<lparr>lw_domain = toHex TAG_domain, lw_I = toHex TAG_id, lw_L = 500, lw_B = 0,
     lw_e = 0, lw_s = key 10\<rparr>"

definition demo_agent :: agent_store where
  "demo_agent = \<lparr>as_secret = key 3, as_witness = Some demo_books,
     as_identityCommitment = Some (toHex TAG_id)\<rparr>"

definition demo_opened :: ledger where
  "demo_opened = pushEvent ((event ''openLine''
       (PText ''Line opened. Commitment published. Limit is not on the ledger.''))
         \<lparr>ev_commitment := Some (key 10)\<rparr>)
     (demo_funded\<lparr>currentIdentity := Some (toHex TAG_id), currentCommitment := Some (key 10),
        lineExpiry := 1000, feeFlat := 2, feeBps := 100, status := SOpen, lineGeneration := 1\<rparr>)"

lemmas demo_ledgers = demo_created_def demo_funded_def demo_opened_def

lemma demo_opened:
  "openLine demo (clock 10) demo_funded demo_open_input None = Inr (demo_opened, demo_agent)"
  by (simp add: openLine_def demo_open_input_def demo_opened_def demo_funded_def demo_created_def
      demo_eval clock_def demo_agent_def demo_books_def fadd_def)

text \<open>The merchant posts a quote of 100; the agent draws against it, and the fee is 3.\<close>

definition demo_quote_request :: quote_request where
  "demo_quote_request = \<lparr>qi_caller = None, qi_callerSk = Some (key 2), qi_merchantSecret = None,
     qi_amount = Some 100, qi_invoiceId = key 20, qi_expiry = 500, qi_nonce = Some (key 21)\<rparr>"

definition demo_quote :: quote_preimage where
  "demo_quote = \<lparr>tq_merchantCommitment = toHex TAG_merchantPk, tq_amount = 100,
     tq_invoiceId = key 20, tq_expiry = 500, tq_nonce = key 21, tq_generation = 1,
     tq_feeFlat = 2, tq_feeBps = 100\<rparr>"

definition demo_quoted :: ledger where
  "demo_quoted = pushEvent ((event ''postQuote'' (PText ''Opaque quote commitment posted.''))
       \<lparr>ev_quote := Some (toHex TAG_quote)\<rparr>)
     (demo_opened\<lparr>quotes := [\<lparr>q_commitment = toHex TAG_quote, q_expiry = 500,
        q_lineGeneration = 1, q_used = False\<rparr>]\<rparr>)"

lemma demo_quoted:
  "postQuote demo (clock 20) demo_opened demo_quote_request None =
     Inr (demo_quoted, demo_quote, toHex TAG_quote)"
  by (simp add: postQuote_def demo_quote_request_def demo_quoted_def demo_opened_def demo_funded_def
      demo_created_def demo_eval clock_def demo_quote_def fee_policy_ok_def)

definition demo_draw_input :: draw_input where
  "demo_draw_input = \<lparr>di_caller = None, di_callerSk = None, di_agentSecret = Some (key 3),
     di_agent = Some demo_agent, di_witness = None, di_quote = Some demo_quote, di_invoice = None,
     di_quoteCommit = None, di_newSalt = Some (key 11), di_noteNonce = Some (key 30),
     di_noteSalt = Some (key 31), di_noteExpiry = None, di_fee = Some 3\<rparr>"

definition demo_drawn_books :: line_witness where
  "demo_drawn_books = \<lparr>lw_domain = toHex TAG_domain, lw_I = toHex TAG_id, lw_L = 500, lw_B = 103,
     lw_e = 1, lw_s = key 11\<rparr>"

definition demo_note_preimage :: draw_note_preimage where
  "demo_note_preimage = \<lparr>tn_domain = toHex TAG_domain, tn_lineGeneration = 1,
     tn_identity = toHex TAG_id, tn_quoteCommit = toHex TAG_quote,
     tn_merchantPk = toHex TAG_merchantPk, tn_amount = 100, tn_fee = 3, tn_noteNonce = key 30,
     tn_expiry = 500\<rparr>"

definition demo_note :: draw_note where
  "demo_note = \<lparr>dn_D = key 31, dn_preimage = demo_note_preimage, dn_salt = key 31\<rparr>"

definition demo_note_record :: note_record where
  "demo_note_record = \<lparr>n_commitment = key 31, n_amount = 100, n_fee = 3, n_redeemed = False,
     n_cancelled = False, n_expiry = 500, n_lineGeneration = 1, n_compensationAllocated = False,
     n_refundCommitment = toHex zeros32, n_cashRefundOwed = False, n_refundAcknowledged = False,
     n_refundPaymentNullifier = toHex zeros32\<rparr>"

definition demo_drawn :: ledger where
  "demo_drawn = pushEvent ((event ''draw''
       (PText ''Draw authorized. Note commitment issued. Balance and limit remain private.''))
         \<lparr>ev_commitment := Some (key 11), ev_quote := Some (toHex TAG_quote),
          ev_note := Some (key 31), ev_nullifier := Some (toHex TAG_draw)\<rparr>)
     (demo_quoted\<lparr>quotes := [\<lparr>q_commitment = toHex TAG_quote, q_expiry = 500,
        q_lineGeneration = 1, q_used = True\<rparr>], currentCommitment := Some (key 11),
        nullifiers := [toHex TAG_draw], encumberedReserve := 100, pendingFeeReserve := 3,
        drawNotes := [demo_note_record]\<rparr>)"

lemma demo_drawn:
  "draw demo (clock 30) demo_quoted demo_draw_input None =
     Inr (demo_drawn, demo_agent\<lparr>as_witness := Some demo_drawn_books\<rparr>, demo_note)"
  by (simp add: draw_def drawAgent_def drawQuote_def drawPrice_def drawSettle_def
      demo_draw_input_def demo_drawn_def demo_quoted_def demo_opened_def demo_funded_def
      demo_created_def demo_eval clock_def demo_quote_def fee_policy_ok_def demo_agent_def
      demo_books_def demo_drawn_books_def demo_note_def demo_note_preimage_def fadd_def fsub_def
      requiredDrawFee_def lockedReserve_def demo_note_record_def pushEvent_def)

lemma demo_drawn_with_witness:
  "draw demo (clock 30) demo_quoted demo_draw_input (Some \<lparr>dw_books = demo_books, dw_quote = demo_quote\<rparr>) =
     Inr (demo_drawn, demo_agent\<lparr>as_witness := Some demo_drawn_books\<rparr>, demo_note)"
  by (simp add: draw_def drawAgent_def drawQuote_def drawPrice_def drawSettle_def
      demo_draw_input_def demo_drawn_def demo_quoted_def demo_opened_def demo_funded_def
      demo_created_def demo_eval clock_def demo_quote_def fee_policy_ok_def demo_agent_def
      demo_books_def demo_drawn_books_def demo_note_def demo_note_preimage_def fadd_def fsub_def
      requiredDrawFee_def lockedReserve_def demo_note_record_def pushEvent_def)

text \<open>The merchant redeems the claim; the issuer withdraws the earned fee.\<close>

definition demo_redeem_input :: redeem_input where
  "demo_redeem_input = \<lparr>ri_caller = None, ri_callerSk = Some (key 2), ri_merchantSecret = None,
     ri_note = Some demo_note, ri_noteCommitment = None, ri_noteExpiry = None,
     ri_notePreimage = None, ri_noteSalt = None\<rparr>"

definition demo_redeemed :: ledger where
  "demo_redeemed = pushEvent ((event ''redeemDraw''
       (PText ''Merchant redeemed draw note against issuer reserve.''))
         \<lparr>ev_note := Some (key 31), ev_nullifier := Some (toHex TAG_redeem)\<rparr>)
     (demo_drawn\<lparr>drawNotes := [demo_note_record\<lparr>n_redeemed := True\<rparr>],
        nullifiers := [toHex TAG_draw, toHex TAG_redeem], encumberedReserve := 0,
        redeemedReserve := 100, pendingFeeReserve := 0, feeReserve := 3\<rparr>)"

lemma tag_facts [simp]:
  "TAG_draw \<noteq> TAG_redeem" "TAG_redeem \<noteq> TAG_draw" "TAG_repay \<noteq> TAG_draw" "TAG_payment \<noteq> TAG_draw"
  "TAG_payment \<noteq> TAG_repay" "TAG_repay \<noteq> TAG_payment"
  using tags_distinct by auto

lemmas demo_history = demo_redeemed_def demo_drawn_def demo_quoted_def demo_opened_def
  demo_funded_def demo_created_def

lemmas demo_inputs = demo_redeem_input_def demo_draw_input_def demo_quote_request_def
  demo_quote_def demo_open_input_def demo_agent_def demo_books_def demo_drawn_books_def
  demo_note_def demo_note_preimage_def demo_note_record_def clock_def

lemma demo_redeemed:
  "redeemDraw demo (clock 40) demo_drawn demo_redeem_input None =
     Inr (demo_redeemed, toHex TAG_redeem)"
  by (simp add: redeemDraw_def findNote_def setNote_def demo_history demo_inputs demo_eval
      pushEvent_def fadd_def fsub_def)

text \<open>Or the agent repays 103 in cash, and the issuer closes the line.\<close>

definition demo_receipt :: repay_receipt where
  "demo_receipt = \<lparr>rr_identity = toHex TAG_id, rr_currentC = key 11, rr_amount = 103,
     rr_paymentRef = js ''wire-1'', rr_nonce = key 40, rr_expiry = 900,
     rr_contractDomain = toHex TAG_domain\<rparr>"

definition demo_repay_input :: repay_input where
  "demo_repay_input = \<lparr>pi_caller = None, pi_callerSk = Some (key 1), pi_agent = None,
     pi_witness = Some demo_drawn_books, pi_receipt = Some demo_receipt,
     pi_newSalt = Some (key 12), pi_receiptExpiry = None\<rparr>"

definition demo_repaid_books :: line_witness where
  "demo_repaid_books = demo_drawn_books\<lparr>lw_B := 0, lw_e := 2, lw_s := key 12\<rparr>"

definition demo_repaid :: ledger where
  "demo_repaid = pushEvent ((event ''acknowledgeRepayment''
       (PText ''Issuer acknowledged repayment. Line commitment rotated. Amount is not on the ledger.''))
         \<lparr>ev_commitment := Some (key 12), ev_nullifier := Some (toHex TAG_repay)\<rparr>)
     (demo_drawn\<lparr>currentCommitment := Some (key 12),
        nullifiers := [toHex TAG_draw, toHex TAG_repay, toHex TAG_payment]\<rparr>)"

lemma demo_reference_parts:
  "payment_reference_parts demo (js ''wire-1'') =
     Inr [TAG ''line:payment-ref:v1'', le_bytes 32 6, pad_bytes (map of_char ''wire-1'')]"
proof -
  have "trim (js ''wire-1'') = js ''wire-1''" "well_formed (js ''wire-1'')"
    by (simp_all add: js_def trim_def is_space_def is_high_def is_low_def)
  moreover have "utf8 (js ''wire-1'') = map of_char ''wire-1''"
    by (rule utf8_ascii) simp
  moreover have "length (utf8 (js ''line:payment-ref:v1'')) \<le> 32"
    by (subst utf8_ascii) simp_all
  ultimately show ?thesis
    by (simp add: payment_reference_parts_def pad32_def Let_def encodeU64_def TAG_def demo_def js_def
        uint64_max_def del: le_bytes.simps)
qed

lemma demo_reference:
  "canonicalPaymentReferenceBytes demo (js ''wire-1'') = Inr (TAG ''line:payment-ref:v1'')"
  by (simp add: canonicalPaymentReferenceBytes_def demo_reference_parts TAG_def pad_bytes_def utf8_ascii)

lemma demo_repaid:
  "acknowledgeRepayment demo (clock 50) demo_drawn demo_repay_input None =
     Inr (demo_repaid, demo_repaid_books, None)"
  by (simp add: acknowledgeRepayment_def demo_repay_input_def demo_receipt_def demo_repaid_def
      demo_repaid_books_def demo_history demo_inputs demo_eval demo_reference pushEvent_def
      fadd_def fsub_def)

definition demo_closed :: ledger where
  "demo_closed = pushEvent (event ''setStatus'' (PStatus SClosed)) (demo_repaid\<lparr>status := SClosed\<rparr>)"

lemma demo_closed:
  "setStatus demo demo_repaid None (Some (key 1)) SClosed (Some demo_repaid_books) = Inr demo_closed"
  by (simp add: setStatus_def demo_repaid_def demo_repaid_books_def demo_closed_def demo_history
      demo_inputs demo_eval pushEvent_def)

text \<open>Or the claim expires unredeemed, and its cost is compensated by credit.\<close>

definition demo_cancel_input :: "int \<Rightarrow> cancel_input" where
  "demo_cancel_input mode = \<lparr>xi_caller = None, xi_callerSk = Some (key 1), xi_agentSecret = None,
     xi_noteCommitment = None, xi_note = Some demo_note, xi_action = Some mode,
     xi_receiptExpiry = None,
     xi_compensation = Some \<lparr>co_note = demo_note_preimage, co_noteSalt = key 31,
       co_newSalt = key 13, co_books = Some demo_drawn_books\<rparr>,
     xi_refundAck = Some \<lparr>rk_identity = toHex TAG_id, rk_amount = 50, rk_salt = key 14,
       rk_paymentRef = js ''wire-1'', rk_receiptExpiry = 900\<rparr>\<rparr>"

definition demo_expired :: ledger where
  "demo_expired = pushEvent ((event ''cancelOrExpireNote''
       (PText ''Expired note cancelled; full purchase budget locked for compensation.''))
         \<lparr>ev_note := Some (key 31)\<rparr>)
     (demo_drawn\<lparr>drawNotes := [demo_note_record\<lparr>n_cancelled := True\<rparr>],
        encumberedReserve := 0, pendingFeeReserve := 0, refundReserve := 103\<rparr>)"

lemmas cancel_defs = cancelOrExpireNote_def cancelExpired_def allocateCompensation_def
  allocateCredit_def reportRefund_def findNote_def setNote_def demo_cancel_input_def

lemma demo_expired:
  "cancelOrExpireNote demo (clock 600) demo_drawn (demo_cancel_input 0) = Inr (demo_expired, None, None)"
  by (simp add: cancel_defs demo_expired_def demo_history demo_inputs demo_eval pushEvent_def
      fadd_def fsub_def)

definition demo_credited_books :: line_witness where
  "demo_credited_books = demo_drawn_books\<lparr>lw_B := 0, lw_e := 2, lw_s := key 13\<rparr>"

definition demo_allocation :: refund_allocation where
  "demo_allocation = \<lparr>ra_domain = toHex TAG_domain, ra_lineGeneration = 1,
     ra_identity = toHex TAG_id, ra_noteCommit = key 31, ra_amount = 0, ra_allocatedCredit = 103,
     ra_salt = key 13, ra_commitment = key 13\<rparr>"

definition demo_allocated :: ledger where
  "demo_allocated = pushEvent ((event ''cancelOrExpireNote''
       (PText ''Compensation allocated once; cash obligations remain private and unpaid.''))
         \<lparr>ev_note := Some (key 31), ev_commitment := Some (key 13)\<rparr>)
     (demo_expired\<lparr>currentCommitment := Some (key 13), refundReserve := 0,
        drawNotes := [demo_note_record\<lparr>n_cancelled := True, n_compensationAllocated := True,
          n_refundCommitment := key 13\<rparr>]\<rparr>)"

lemma demo_allocated:
  "cancelOrExpireNote demo (clock 610) demo_expired (demo_cancel_input 1) =
     Inr (demo_allocated, Some demo_credited_books, Some demo_allocation)"
  by (simp add: cancel_defs demo_expired_def demo_history demo_inputs demo_eval pushEvent_def
      demo_allocated_def demo_credited_books_def demo_allocation_def fadd_def fsub_def)

text \<open>A claim whose allocation left 50 to be refunded in cash, and the report of that refund.\<close>

definition demo_owed :: ledger where
  "demo_owed = demo_expired\<lparr>drawNotes := [demo_note_record\<lparr>n_cancelled := True,
     n_compensationAllocated := True, n_refundCommitment := key 14, n_cashRefundOwed := True\<rparr>]\<rparr>"

definition demo_reported :: ledger where
  "demo_reported = pushEvent ((event ''cancelOrExpireNote''
       (PText ''Issuer reported cash refund; full original-cost budget remains conservatively locked.''))
         \<lparr>ev_note := Some (key 31)\<rparr>)
     (demo_owed\<lparr>drawNotes := [demo_note_record\<lparr>n_cancelled := True,
          n_compensationAllocated := True, n_refundCommitment := key 14, n_cashRefundOwed := True,
          n_refundAcknowledged := True, n_refundPaymentNullifier := toHex TAG_payment\<rparr>],
        nullifiers := [toHex TAG_draw, toHex TAG_payment], refundReserve := 0,
        reportedRefundReserve := 103\<rparr>)"

lemma demo_reported:
  "cancelOrExpireNote demo (clock 620) demo_owed (demo_cancel_input 2) = Inr (demo_reported, None, None)"
  by (simp add: cancel_defs demo_expired_def demo_owed_def demo_reported_def demo_history demo_inputs
      demo_eval demo_reference pushEvent_def fadd_def fsub_def)

section \<open>The history as an execution\<close>

lemma demo_reach_opened: "reach (exec demo) safe_total demo_created demo_opened"
proof -
  have "reach (exec demo) safe_total demo_created demo_funded"
    by (rule reach.step [OF reach.start, where e = "clock 0" and q = "FundReserve (Some (key 1)) None 1000"])
      (simp_all add: demo_funded, simp add: safe_total_def demo_history max_safe_def)
  then show ?thesis
    by (rule reach.step [where e = "clock 10" and q = "OpenLine demo_open_input None"])
      (simp_all add: demo_opened, simp add: safe_total_def demo_history max_safe_def)
qed

lemma demo_reach_quoted: "reach (exec demo) safe_total demo_created demo_quoted"
  by (rule reach.step [OF demo_reach_opened, where e = "clock 20" and q = "PostQuote demo_quote_request None"])
    (simp_all add: demo_quoted, simp add: safe_total_def demo_history max_safe_def)

lemma demo_reach_drawn: "reach (exec demo) safe_total demo_created demo_drawn"
  by (rule reach.step [OF demo_reach_quoted, where e = "clock 30" and q = "Draw demo_draw_input None"])
    (simp_all add: demo_drawn, simp add: safe_total_def demo_history max_safe_def)

lemma demo_reach_redeemed: "reach (exec demo) safe_total demo_created demo_redeemed"
  by (rule reach.step [OF demo_reach_drawn, where e = "clock 40" and q = "RedeemDraw demo_redeem_input None"])
    (simp_all add: demo_redeemed, simp add: safe_total_def demo_history max_safe_def)

lemma wf_demo:
  "wf_ledger demo_created" "wf_ledger demo_opened" "wf_ledger demo_quoted" "wf_ledger demo_drawn"
  "wf_ledger demo_redeemed"
  using wf_created [OF demo_created] growth.reach_inv demo_reach_opened demo_reach_quoted
    demo_reach_drawn demo_reach_redeemed by blast+

end
