(* ===== verification/Encoding_Properties.thy ===== *)
theory Encoding_Properties
  imports Demo
begin

text \<open>
  The properties of the encoders of \<open>encoding.ts\<close> and \<open>bytes.ts\<close>: what can be decoded, which hash
  inputs are kept apart, and the two forms of the fee policy.
\<close>

section \<open>Hexadecimal\<close>

text \<open>The lower-case form of a hexadecimal digit.\<close>

definition lower_hex :: "16 word \<Rightarrow> 16 word" where
  "lower_hex c = (if 65 \<le> unat c \<and> unat c \<le> 70 then c + 32 else c)"

lemma hex_digit_hex_val: "is_hex c \<Longrightarrow> hex_val c < 16 \<and> hex_digit (hex_val c) = lower_hex c"
proof -
  assume hex: "is_hex c"
  consider "48 \<le> unat c" "unat c \<le> 57" | "97 \<le> unat c" "unat c \<le> 102" | "65 \<le> unat c" "unat c \<le> 70"
    using hex by (auto simp: is_hex_def Let_def)
  then show ?thesis
  proof cases
    case 1
    then show ?thesis
      by (simp add: hex_val_def hex_digit_def lower_hex_def word_unat_eq_iff unat_of_nat del: of_nat_add of_nat_diff)
  next
    case 2
    then have "10 \<le> unat c - 87" "unat c - 87 < 16" by linarith+
    with 2 show ?thesis
      by (simp add: hex_val_def hex_digit_def lower_hex_def word_unat_eq_iff unat_of_nat del: of_nat_add of_nat_diff)
  next
    case 3
    then have "10 \<le> unat c - 55" "unat c - 55 < 16" by linarith+
    with 3 show ?thesis
      by (simp add: hex_val_def hex_digit_def lower_hex_def word_unat_eq_iff unat_of_nat unat_word_ariths
          del: of_nat_add of_nat_diff)
  qed
qed

lemma hex_byte_pair:
  assumes "is_hex a" "is_hex b"
  shows "hex_byte (of_nat (16 * hex_val a + hex_val b)) = [lower_hex a, lower_hex b]"
proof -
  note va = hex_digit_hex_val [OF assms(1)] and vb = hex_digit_hex_val [OF assms(2)]
  have "unat (of_nat (16 * hex_val a + hex_val b) :: 8 word) = 16 * hex_val a + hex_val b"
    using va vb by (simp add: unat_of_nat del: of_nat_add of_nat_mult)
  then show ?thesis using va vb by (simp add: hex_byte_def del: of_nat_add of_nat_mult)
qed

lemma toHex_parse:
  "even (length s) \<Longrightarrow> list_all is_hex s \<Longrightarrow> toHex (parse_hex_pairs s) = map lower_hex s"
  by (induction s rule: parse_hex_pairs.induct) (auto simp: hex_byte_pair simp del: of_nat_add of_nat_mult)

text \<open>
  Hexadecimal loses nothing in either direction: decoding an encoded byte array returns it, and a
  string that decodes at all encodes back to its own digits, without the \<open>0x\<close> and in lower case. So
  two strings decode to the same bytes exactly when they agree up to prefix and case.
\<close>
lemma hex_round_trip:
  "hexToBytes (toHex bs) = Inr bs \<and>
   (hexToBytes s = Inr cs \<longrightarrow> toHex cs = map lower_hex (strip_0x s)) \<and>
   (hexToBytes s = Inr cs \<and> hexToBytes t = Inr ds \<longrightarrow>
     (cs = ds \<longleftrightarrow> map lower_hex (strip_0x s) = map lower_hex (strip_0x t)))"
proof -
  have decoded: "toHex xs = map lower_hex (strip_0x u)" if "hexToBytes u = Inr xs" for u xs
    using that toHex_parse [of "strip_0x u"] by (auto simp: hexToBytes_def Let_def split: if_splits)
  then show ?thesis by (metis hexToBytes_toHex toHex_inject)
qed

lemma hex_round_trip_witness:
  "toHex [171, 1] = map lower_hex (strip_0x (js ''0xAB01'')) \<and>
   map lower_hex (strip_0x (js ''0xAB01'')) = map lower_hex (strip_0x (js ''AB01''))"
proof -
  have dec: "hexToBytes (js ''0xAB01'') = Inr [171, 1]" "hexToBytes (js ''AB01'') = Inr [171, 1]"
    by (simp_all add: hexToBytes_def strip_0x_def js_def is_hex_def hex_val_def Let_def)
  then show ?thesis
    using hex_round_trip [of "[]" "js ''0xAB01''" "[171, 1]" "js ''AB01''" "[171, 1]"] by blast
qed

section \<open>Hash inputs\<close>

text \<open>
  Domain separation: the inputs hashed for an issuer key, a merchant key, an agent identity, a
  contract domain, a quote and the four kinds of nullifier are never equal, whatever their fields, so
  no value of one kind can be passed off as another without a hash collision.
\<close>
lemma hash_inputs_separated:
  assumes "quote_input rt p = Inr quote" and "repay_nullifier_input rt n i c a r d = Inr repay"
  shows "distinct [issuer_key_input k1, merchant_key_input k2, agent_id_input k3,
    domain_input i4 m4 n4, quote, draw_nullifier_input k6 q6 d6, redeem_nullifier_input k7 n7 d7,
    repay, payment_nullifier_input k9 r9 d9]"
proof -
  have "hd quote = TAG_quote" "hd repay = TAG_repay"
    using assms by (auto simp: quote_input_def repay_nullifier_input_def bindS_Inr_iff)
  then have "map hd [issuer_key_input k1, merchant_key_input k2, agent_id_input k3,
    domain_input i4 m4 n4, quote, draw_nullifier_input k6 q6 d6, redeem_nullifier_input k7 n7 d7,
    repay, payment_nullifier_input k9 r9 d9] =
    [TAG_issuerPk, TAG_merchantPk, TAG_id, TAG_domain, TAG_quote, TAG_draw, TAG_redeem, TAG_repay,
     TAG_payment]"
    by (simp add: issuer_key_input_def merchant_key_input_def agent_id_input_def domain_input_def
        draw_nullifier_input_def redeem_nullifier_input_def payment_nullifier_input_def)
  then show ?thesis using tags_distinct by (metis distinct_map)
qed

lemma hash_inputs_separated_witness:
  "distinct [issuer_key_input (rep32 1), merchant_key_input (rep32 1), agent_id_input (rep32 1),
    domain_input (rep32 1) (rep32 2) (rep32 3),
    [TAG_quote, rep32 1, rep32 2, le_bytes 32 7, le_bytes 32 8, rep32 3, le_bytes 32 1, rep32 4,
     le_bytes 32 0, le_bytes 32 0],
    draw_nullifier_input (rep32 1) (rep32 2) (rep32 3), redeem_nullifier_input (rep32 1) (rep32 2) (rep32 3),
    [TAG_repay, rep32 1, rep32 2, rep32 3, le_bytes 32 5, rep32 6, rep32 7],
    payment_nullifier_input (rep32 1) (rep32 2) (rep32 3)]"
proof (rule hash_inputs_separated)
  show "quote_input demo \<lparr>qp_merchantPk = rep32 1, qp_invoiceId = rep32 2, qp_amount = 7,
      qp_expiry = 8, qp_nonce = rep32 3, qp_generation = 1, qp_domain = rep32 4, qp_feeFlat = None,
      qp_feeBps = None\<rparr> = Inr [TAG_quote, rep32 1, rep32 2, le_bytes 32 7, le_bytes 32 8, rep32 3,
      le_bytes 32 1, rep32 4, le_bytes 32 0, le_bytes 32 0]"
    by (simp add: quote_input_def encodeU64_def demo_def uint64_max_def)
  show "repay_nullifier_input demo (rep32 1) (rep32 2) (rep32 3) 5 (rep32 6) (rep32 7) =
      Inr [TAG_repay, rep32 1, rep32 2, rep32 3, le_bytes 32 5, rep32 6, rep32 7]"
    by (simp add: repay_nullifier_input_def encodeU64_def demo_def uint64_max_def)
qed

text \<open>
  C37. The hash input of a payment reference determines the reference: length, padding and chunking of
  \<open>canonicalPaymentReferenceBytes\<close> are injective on the references it accepts, given that the
  runtime's \<open>convertFieldToBytes\<close> separates 64-bit numbers.
\<close>
lemma payment_reference_injective:
  assumes "field_inject rt"
    and "payment_reference_parts rt s = Inr ps" and "payment_reference_parts rt t = Inr ps"
  shows "s = t"
proof -
  note s = payment_reference_parts_ok [OF assms(2)] and t = payment_reference_parts_ok [OF assms(3)]
  have "int (length (utf8 s)) = int (length (utf8 t))"
    using s t by (intro encodeU64_inject [OF assms(1)]) auto
  then have "utf8 s = utf8 t" using s t by (intro chunk32_inject) auto
  with s t show ?thesis by (intro utf8_inject) auto
qed

lemma payment_reference_injective_witness:
  "payment_reference_parts demo (js ''wire-1'') \<noteq> payment_reference_parts demo (js ''wire-2'')"
proof
  assume eq: "payment_reference_parts demo (js ''wire-1'') = payment_reference_parts demo (js ''wire-2'')"
  have "js ''wire-1'' = js ''wire-2''"
    by (rule payment_reference_injective [OF field_inject_demo demo_reference_parts
          demo_reference_parts [unfolded eq]])
  then show False by (simp add: js_def)
qed

section \<open>Fees\<close>

text \<open>
  C38. The fee the simulator requires (BigInt ceiling division) and the division-free check of the
  \<open>draw\<close> circuit accept exactly the same fees, for every positive 64-bit amount and every policy the
  ledger can hold, as long as the fee itself fits 64 bits; and the fee is never below the flat part.
\<close>
lemma fee_forms_agree:
  assumes "0 < amount" "amount \<le> uint64_max" "0 \<le> flat" "flat \<le> uint64_max" "0 \<le> bps" "bps \<le> 10000"
    and "fee \<le> uint64_max"
  shows "(requiredDrawFee amount flat bps = Inr fee \<longleftrightarrow> circuitFeeCheck amount fee flat bps) \<and>
    (requiredDrawFee amount flat bps = Inr fee \<longrightarrow> flat \<le> fee \<and> fee \<le> flat + amount)"
proof -
  have forms: "requiredDrawFee amount flat bps = Inr fee \<longleftrightarrow> circuitFeeCheck amount fee flat bps"
    using assms by (auto simp: requiredDrawFee_ok circuitFeeCheck_iff)
  have "amount * bps \<le> amount * 10000" using assms by (intro mult_left_mono) auto
  then have "(amount * bps + 9999) div 10000 \<le> (amount * 10000 + 9999) div 10000"
    by (intro zdiv_mono1) auto
  then have "(amount * bps + 9999) div 10000 \<le> amount" by simp
  with forms show ?thesis
    using requiredDrawFee_nonneg [of amount flat bps fee] by (auto simp: requiredDrawFee_ok)
qed

lemma fee_forms_agree_witness:
  "requiredDrawFee 101 2 100 = Inr 4 \<and> circuitFeeCheck 101 4 2 100 \<and> \<not> circuitFeeCheck 101 3 2 100"
proof -
  have fee: "requiredDrawFee 101 2 100 = Inr 4" by (simp add: requiredDrawFee_def uint64_max_def)
  show ?thesis
    using fee fee_forms_agree [of 101 2 100 4] fee_forms_agree [of 101 2 100 3]
    by (simp add: uint64_max_def)
qed

section \<open>Invoice identifiers\<close>

text \<open>
  \<open>canonicalInvoiceIdBytes\<close> succeeds exactly when \<open>invoiceReferenceError\<close> reports nothing, always
  with 32 bytes; a non-empty identifier then denotes the same bytes as in the simulator's own
  \<open>asBytes32\<close>, so the quote a merchant posts and the one an agent checks agree on the invoice.
\<close>
lemma invoice_identifier:
  "(is_ok (canonicalInvoiceIdBytes s) \<longleftrightarrow> invoiceReferenceError s = '''') \<and>
   (canonicalInvoiceIdBytes s = Inr bs \<longrightarrow>
     length bs = 32 \<and> (s \<noteq> [] \<longrightarrow> asBytes32 (Text s) = Inr bs))"
proof -
  have strip: "length (strip_0x (strip_0x s)) = 64 \<and> list_all is_hex (strip_0x (strip_0x s))"
    if "length (strip_0x s) = 64" "list_all is_hex (strip_0x s)"
    using that strip_0x_hex [OF that(2)] by simp
  have "is_ok (canonicalInvoiceIdBytes s) \<longleftrightarrow> invoiceReferenceError s = ''''"
    using strip
    by (auto simp: canonicalInvoiceIdBytes_def invoiceReferenceError_def fromHex_def pad32_def Let_def
        split: if_splits)
  then show ?thesis
    by (auto simp: canonicalInvoiceIdBytes_def asBytes32_def Let_def fromHex_length pad32_length
        split: if_splits)
qed

lemma invoice_identifier_witness:
  "is_ok (canonicalInvoiceIdBytes (key 7)) \<and> length (rep32 7) = 32 \<and>
   asBytes32 (Text (key 7)) = Inr (rep32 7)"
proof -
  have ok: "canonicalInvoiceIdBytes (key 7) = Inr (rep32 7)"
    by (simp add: canonicalInvoiceIdBytes_def invoiceReferenceError_def key_def del: key_facts)
  then show ?thesis using invoice_identifier [of "key 7" "rep32 7"] by simp
qed

end
