(* ===== verification/Reserve_Properties.thy ===== *)
theory Reserve_Properties
  imports Demo
begin


lemma reachable_wf:
  "createLedger rt env p = Inr l0 \<Longrightarrow> reach (exec rt) safe_total l0 l \<Longrightarrow> wf_ledger l"
  by (metis growth.reach_inv wf_created)

lemma reachable_accounting:
  "createLedger rt env p = Inr l0 \<Longrightarrow> reach (exec rt) safe_total l0 l \<Longrightarrow> accounting l"
  by (metis reserve.reach_inv accounting_created)



text \<open>
  Withdrawal. On a reachable ledger an issuer takes out exactly the amounts that leave every locked
  counter covered, and nothing but the total reserve, the clock and the event log changes.
\<close>
lemma withdraw_exact:
  assumes "createLedger rt env p = Inr l0" and "reach (exec rt) safe_total l0 l"
  shows "withdrawUnencumberedReserve rt l caller callerSk a = Inr l' \<longleftrightarrow>
     issuerPublicKey rt (getCaller caller callerSk) = Inr (issuerPubKey l) \<and>
     0 < a \<and> a \<le> totalReserve l - lockedReserve l \<and>
     l' = pushEvent ((event ''withdrawUnencumberedReserve'' (PWithdrew a (totalReserve l - a)))
            \<lparr>ev_amount := Some a\<rparr>) (l\<lparr>totalReserve := totalReserve l - a\<rparr>)"
proof -
  have acc: "accounting l" using assms by (rule reachable_accounting)
  have bound: "0 \<le> locked l" "locked l \<le> totalReserve l" "totalReserve l \<le> max_safe"
    using acc accounting_nonneg [OF acc] by (auto simp: accounting_def locked_def)
  then have free: "fsub (totalReserve l) (locked l) = totalReserve l - locked l" by (simp add: fsub_below)
  have run: "withdrawUnencumberedReserve rt l caller callerSk a = Inr l' \<longleftrightarrow>
     issuerPublicKey rt (getCaller caller callerSk) = Inr (issuerPubKey l) \<and>
     (0 < a \<and> a \<le> totalReserve l - locked l) \<and>
     l' = pushEvent ((event ''withdrawUnencumberedReserve'' (PWithdrew a (fsub (totalReserve l) a)))
            \<lparr>ev_amount := Some a\<rparr>) (l\<lparr>totalReserve := fsub (totalReserve l) a\<rparr>)"
    using bound
    by (simp add: withdrawUnencumberedReserve_def outcome_unfold assertSafeUint_iff
        accounting_locked [OF acc] free not_less) fastforce
  show ?thesis
  proof (cases "0 < a \<and> a \<le> totalReserve l - locked l")
    case True
    with bound have "fsub (totalReserve l) a = totalReserve l - a" by (intro fsub_below) auto
    with True show ?thesis by (simp add: run accounting_locked [OF acc])
  next
    case False
    then show ?thesis by (metis run accounting_locked [OF acc])
  qed
qed

lemma withdraw_exact_witness:
  "(\<exists>l'. withdrawUnencumberedReserve demo demo_drawn None (Some (key 1)) 897 = Inr l') \<and>
   \<not> is_ok (withdrawUnencumberedReserve demo demo_drawn None (Some (key 1)) 898)"
proof -
  have free: "totalReserve demo_drawn - lockedReserve demo_drawn = 897"
    by (simp add: demo_history demo_inputs pushEvent_def lockedReserve_def fadd_def)
  have issuer: "issuerPublicKey demo (getCaller None (Some (key 1))) = Inr (issuerPubKey demo_drawn)"
    by (simp add: demo_history demo_inputs demo_eval)
  show ?thesis
    using withdraw_exact [OF demo_created demo_reach_drawn, of None "Some (key 1)" 897]
      withdraw_exact [OF demo_created demo_reach_drawn, of None "Some (key 1)" 898] free issuer
    by (auto simp: is_ok_iff)
qed

text \<open>
  Earned fees. On a reachable ledger the issuer can take out the fees of redeemed claims whenever
  there are any: the call pays exactly \<open>feeReserve\<close>, resets it, lowers the total by the same amount,
  and leaves all money owed to others in place.
\<close>
lemma fees_exact:
  assumes "createLedger rt env p = Inr l0" and "reach (exec rt) safe_total l0 l"
  shows "withdrawFees rt l caller = Inr (l', f) \<longleftrightarrow>
     issuerPublicKey rt caller = Inr (issuerPubKey l) \<and> f = feeReserve l \<and> 0 < f \<and>
     l' = pushEvent ((event ''withdrawFees'' (PFees f))\<lparr>ev_amount := Some f\<rparr>)
            (l\<lparr>totalReserve := totalReserve l - f, feeReserve := 0\<rparr>)"
proof -
  have acc: "accounting l" using assms by (rule reachable_accounting)
  have bound: "feeReserve l \<le> locked l" "locked l \<le> totalReserve l" "totalReserve l \<le> max_safe"
    using acc accounting_nonneg [OF acc] by (auto simp: accounting_def locked_def)
  have "fsub (totalReserve l) (feeReserve l) = totalReserve l - feeReserve l"
    using bound accounting_nonneg [OF acc] by (intro fsub_below) auto
  then show ?thesis
    using bound(2)
    by (simp add: withdrawFees_def outcome_unfold accounting_locked [OF acc] not_le not_less) blast
qed

lemma fees_exact_witness:
  "\<exists>l'. withdrawFees demo demo_redeemed (key 1) = Inr (l', 3) \<and> totalReserve l' = 997 \<and>
     redeemedReserve l' = 100 \<and> feeReserve l' = 0"
proof -
  have "issuerPublicKey demo (key 1) = Inr (issuerPubKey demo_redeemed)" "feeReserve demo_redeemed = 3"
    "totalReserve demo_redeemed = 1000" "redeemedReserve demo_redeemed = 100"
    by (simp_all add: demo_history demo_inputs demo_eval)
  then show ?thesis
    using fees_exact [OF demo_created demo_reach_redeemed, of "key 1" _ 3] by simp
qed



end
