(* ===== verification/Claim_Properties.thy ===== *)
theory Claim_Properties
  imports Reserve_Properties
begin

text \<open>
  The properties of a purchase claim (a draw note): what a draw establishes, that the merchant can
  redeem it, that it is settled at most once, and how an expired claim is compensated.
\<close>

section \<open>Drawing\<close>



section \<open>Redeeming\<close>

text \<open>The note a request is about.\<close>

definition redeem_target :: "redeem_input \<Rightarrow> jsstr" where
  "redeem_target i = nullish (or_else (ri_noteCommitment i) (map_option dn_D (ri_note i))) []"

definition cancel_target :: "cancel_input \<Rightarrow> jsstr" where
  "cancel_target i = nullish (or_else (xi_noteCommitment i) (map_option dn_D (xi_note i))) []"

lemma redeem_effect:
  assumes "accounting l" and "tidy l" and "redeemDraw rt env l i w = Inr (l', N)"
  obtains n where "findNote l (redeem_target i) = Some n" "\<not> n_redeemed n" "\<not> n_cancelled n"
    "env_clock env < n_expiry n" "findNote l' (redeem_target i) = Some (n\<lparr>n_redeemed := True\<rparr>)"
    "N \<in> set (nullifiers l')" "wf_ledger l'" "below l l'"
proof -
  from redeemDraw_ok [OF assms(3)] obtain ev D live where
    D: "D = redeem_target i" and live: "findNote l D = Some live" "\<not> n_redeemed live" "\<not> n_cancelled live"
    "env_clock env < n_expiry live"
    and l': "l' = pushEvent ev ((setNote D (n_redeemed_update (\<lambda>_. True)) l)
       \<lparr>nullifiers := nullifiers l @ [N],
        encumberedReserve := fsub (encumberedReserve l) (n_amount live),
        redeemedReserve := fadd (redeemedReserve l) (n_amount live),
        pendingFeeReserve := fsub (pendingFeeReserve l) (n_fee live),
        feeReserve := fadd (feeReserve l) (n_fee live)\<rparr>)"
    unfolding redeem_target_def by blast
  have "n_commitment live = D" using find_member [OF live(1)] by simp
  then have "findNote l' D = Some (live\<lparr>n_redeemed := True\<rparr>)"
    using live(1) find_update_first_self [of "\<lambda>n. n_commitment n = D" "drawNotes l" live
        "n_redeemed_update (\<lambda>_. True)"]
    by (simp add: l' findNote_def setNote_def)
  moreover have "below l l' \<and> tidy l'" by (rule step_redeem [OF assms])
  moreover have "accounting l'" by (rule accounting_redeem [OF assms(1,3)])
  moreover have "N \<in> set (nullifiers l')" by (simp add: l')
  ultimately show thesis using that live D by (simp add: wf_ledger_iff)
qed

text \<open>
  Settlement is final. Once a claim has been redeemed, at any later moment of the ledger's life a
  second redemption stops with \<open>NOTE_USED\<close>, the claim cannot be expired, compensated or refunded, and
  its record is the one the redemption left.
\<close>
lemma redeemed_is_final:
  assumes "createLedger rt env0 p = Inr l0" and "reach (exec rt) safe_total l0 l"
    and "redeemDraw rt env l i w = Inr (l', N)" and "reach (exec rt) safe_total l' m"
  shows "findNote m (redeem_target i) = findNote l' (redeem_target i) \<and>
    (\<forall>e j v. redeem_target j = redeem_target i \<longrightarrow>
       redeemDraw rt e m j v = Inl (Fail ''NOTE_USED'' ''draw note already redeemed'')) \<and>
    (\<forall>e j. cancel_target j = redeem_target i \<longrightarrow> \<not> is_ok (cancelOrExpireNote rt e m j))"
proof -
  have wf: "accounting l" "tidy l" using reachable_wf [OF assms(1,2)] by (auto simp: wf_ledger_iff)
  from wf assms(3) obtain n where n: "findNote l' (redeem_target i) = Some (n\<lparr>n_redeemed := True\<rparr>)"
    and wf': "wf_ledger l'" by (rule redeem_effect)
  obtain n' where n': "findNote m (redeem_target i) = Some n'" "note_below (n\<lparr>n_redeemed := True\<rparr>) n'"
    using find_below [OF _ _ n] growth.reach_inv growth.reach_below assms(4) wf' by metis
  then have final: "findNote m (redeem_target i) = Some (n\<lparr>n_redeemed := True\<rparr>)"
    by (simp add: note_below_def)
  have "redeemDraw rt e m j v = Inl (Fail ''NOTE_USED'' ''draw note already redeemed'')"
    if "redeem_target j = redeem_target i" for e j v
    using final that by (simp add: redeemDraw_def redeem_target_def Let_def)
  moreover have "\<not> is_ok (cancelOrExpireNote rt e m j)" if "cancel_target j = redeem_target i" for e j
    using final that cancelOrExpireNote_ok [of rt e m j]
    by (auto simp: is_ok_iff cancel_target_def)
  ultimately show ?thesis using final n by simp
qed

lemma redeemed_is_final_witness:
  "redeemDraw demo (clock 41) demo_redeemed demo_redeem_input None =
     Inl (Fail ''NOTE_USED'' ''draw note already redeemed'') \<and>
   \<not> is_ok (cancelOrExpireNote demo (clock 600) demo_redeemed (demo_cancel_input 0))"
proof -
  have same: "cancel_target (demo_cancel_input 0) = redeem_target demo_redeem_input"
    by (simp add: cancel_target_def redeem_target_def demo_cancel_input_def demo_redeem_input_def)
  show ?thesis
    using redeemed_is_final [OF demo_created demo_reach_drawn demo_redeemed reach.start] same by blast
qed

text \<open>The request a merchant builds from the note it was sent.\<close>

definition redeem_with :: "jsstr \<Rightarrow> draw_note \<Rightarrow> redeem_input" where
  "redeem_with sk dn = \<lparr>ri_caller = None, ri_callerSk = Some sk, ri_merchantSecret = None,
     ri_note = Some dn, ri_noteCommitment = None, ri_noteExpiry = None, ri_notePreimage = None,
     ri_noteSalt = None\<rparr>"

text \<open>What a draw puts into the note it hands out: normalised fields and an opening of the commitment.\<close>

lemma drawn_note_fields:
  assumes "runtime_ok rt" and "\<forall>k. length (env_random env k) = 32"
    and "draw rt env l i w = Inr (l', agent, dn)"
  obtains n where "findNote l' (dn_D dn) = Some n" "n_amount n = tn_amount (dn_preimage dn)"
    "n_fee n = tn_fee (dn_preimage dn)" "n_expiry n = tn_expiry (dn_preimage dn)"
    "n_lineGeneration n = tn_lineGeneration (dn_preimage dn)" "\<not> n_redeemed n" "\<not> n_cancelled n"
    "tn_domain (dn_preimage dn) = contractDomain l" "contractDomain l' = contractDomain l"
    "drawNoteCommitment rt (dn_preimage dn) (dn_salt dn) = Inr (dn_D dn)"
    "hex32 (Text (tn_identity (dn_preimage dn))) = Inr (tn_identity (dn_preimage dn))"
    "hex32 (Text (tn_quoteCommit (dn_preimage dn))) = Inr (tn_quoteCommit (dn_preimage dn))"
    "hex32 (Text (tn_noteNonce (dn_preimage dn))) = Inr (tn_noteNonce (dn_preimage dn))"
    "hex32 (Text (tn_merchantPk (dn_preimage dn))) = Inr (tn_merchantPk (dn_preimage dn))"
proof -
  from assms(3) obtain a f cost nextB where
    agent: "drawAgent rt l i w (env_clock env) = Inr (da_secret a, da_books a, da_I a)"
    and quote: "drawQuote rt l i w (env_clock env) = Inr (da_Q a, da_live a, da_merchantPk a, da_amount a)"
    and settle: "drawSettle rt env l i a f nextB = Inr (l', agent, dn)"
    by (rule draw_ok)
  have canonical: "hex32 (Text (toHex bs)) = Inr (toHex bs)" if "length bs = 32" for bs
    using that by (simp add: hex32_def)
  from agent have "identityCommitment rt (da_secret a) = Inr (da_I a)" by (rule drawAgent_ok)
  then obtain sk where "toHex (agentId rt sk) = da_I a" by (auto simp: identityCommitment_def bindS_Inr_iff)
  then have I: "hex32 (Text (da_I a)) = Inr (da_I a)"
    using assms(1) canonical [of "agentId rt sk"] by (simp add: agentId_def runtime_ok_def)
  from drawQuote_ok [OF quote] obtain q where "quoteCommitment rt q (contractDomain l) = Inr (da_Q a)"
    by blast
  then obtain xs where "toHex (persistentHash rt xs) = da_Q a"
    by (auto simp: quoteCommitment_def encodeQuoteCommit_def bindS_Inr_iff)
  then have Q: "hex32 (Text (da_Q a)) = Inr (da_Q a)"
    using assms(1) canonical [of "persistentHash rt xs"] by (simp add: runtime_ok_def)
  have pk: "hex32 (Text (da_merchantPk a)) = Inr (da_merchantPk a)"
    using drawQuote_ok [OF quote] hex32_idem by blast
  have nonce: "hex32 (Text t) = Inr t"
    if "hex32 (case di_noteNonce i of Some s \<Rightarrow> Text s | None \<Rightarrow> Raw (env_random env 0)) = Inr t" for t
  proof (cases "di_noteNonce i")
    case None
    then have "t = toHex (env_random env 0)" using that by (auto simp: hex32_def asBytes32_def)
    with assms(2) canonical show ?thesis by blast
  next
    case (Some s)
    with that show ?thesis using hex32_idem by simp
  qed
  from settle obtain noteNonce where nn:
      "hex32 (case di_noteNonce i of Some s \<Rightarrow> Text s | None \<Rightarrow> Raw (env_random env 0)) = Inr noteNonce"
    and tn: "tn_noteNonce (dn_preimage dn) = noteNonce"
    by (auto simp: drawSettle_def outcome_unfold)
  note nonce' = nonce [OF nn]
  show thesis
    using settle
  proof (rule drawSettle_ok)
    fix ev N nonce salt D s C2 preimage nextW
    assume fresh: "\<forall>n \<in> set (drawNotes l). n_commitment n \<noteq> D"
      and np: "preimage = \<lparr>tn_domain = contractDomain l, tn_lineGeneration = lineGeneration l,
         tn_identity = da_I a, tn_quoteCommit = da_Q a, tn_merchantPk = da_merchantPk a,
         tn_amount = da_amount a, tn_fee = f, tn_noteNonce = nonce,
         tn_expiry = q_expiry (da_live a)\<rparr>"
      and D: "drawNoteCommitment rt preimage salt = Inr D"
      and dn: "dn = \<lparr>dn_D = D, dn_preimage = preimage, dn_salt = salt\<rparr>"
      and l': "l' = pushEvent ev (l\<lparr>
       quotes := update_first (\<lambda>q. q_commitment q = da_Q a) (q_used_update (\<lambda>_. True)) (quotes l),
       currentCommitment := Some C2, nullifiers := nullifiers l @ [N],
       encumberedReserve := fadd (encumberedReserve l) (da_amount a),
       pendingFeeReserve := fadd (pendingFeeReserve l) f,
       drawNotes := drawNotes l @ [\<lparr>n_commitment = D, n_amount = da_amount a, n_fee = f,
         n_redeemed = False, n_cancelled = False, n_expiry = q_expiry (da_live a),
         n_lineGeneration = lineGeneration l, n_compensationAllocated = False,
         n_refundCommitment = toHex zeros32, n_cashRefundOwed = False,
         n_refundAcknowledged = False, n_refundPaymentNullifier = toHex zeros32\<rparr>]\<rparr>)"
    have "find (\<lambda>n. n_commitment n = D) (drawNotes l) = None"
      using fresh by (simp add: find_None_all)
    note found = find_append_fresh [OF this]
    show thesis
      using np D dn I Q pk nonce' tn
      by (intro that) (auto simp: l' findNote_def found)
  qed
qed

text \<open>
  C3. A claim can be redeemed. Take any draw on a reachable ledger and any later ledger, whatever has
  happened in between: the line defaulted, closed or reopened, the merchant disabled, the books
  rotated. If the claim has been neither redeemed nor cancelled and its deadline has not passed, then
  the merchant whose key it names redeems it with the note it was given, provided only that the
  redemption nullifier is unspent; the principal moves to the redeemed reserve.
\<close>
lemma drawn_claim_redeemable:
  assumes "runtime_ok rt" and "\<forall>k. length (env_random env k) = 32"
    and "createLedger rt env0 p = Inr l0" and "reach (exec rt) safe_total l0 l"
    and "draw rt env l i w = Inr (l1, agent, dn)" and "safe_total l1"
    and "reach (exec rt) safe_total l1 m"
    and "findNote m (dn_D dn) = Some n" "\<not> n_redeemed n" "\<not> n_cancelled n"
    and "0 \<le> env_clock env'" "env_clock env' < n_expiry n" "env_clock env' \<le> max_safe"
    and "merchantPublicKey rt sk = Inr (tn_merchantPk (dn_preimage dn))"
    and "redeemNullifier rt sk (dn_D dn) (contractDomain m) = Inr N" "N \<notin> set (nullifiers m)"
  shows "\<exists>m'. redeemDraw rt env' m (redeem_with sk dn) None = Inr (m', N) \<and>
    redeemedReserve m' = redeemedReserve m + tn_amount (dn_preimage dn) \<and>
    (\<exists>n'. findNote m' (dn_D dn) = Some n' \<and> n_redeemed n')"
proof -
  from assms(1,2,5) obtain n0 where n0: "findNote l1 (dn_D dn) = Some n0"
    "n_amount n0 = tn_amount (dn_preimage dn)" "n_fee n0 = tn_fee (dn_preimage dn)"
    "n_expiry n0 = tn_expiry (dn_preimage dn)" "n_lineGeneration n0 = tn_lineGeneration (dn_preimage dn)"
    and dom: "tn_domain (dn_preimage dn) = contractDomain l" "contractDomain l1 = contractDomain l"
    and open_D: "drawNoteCommitment rt (dn_preimage dn) (dn_salt dn) = Inr (dn_D dn)"
    and norm: "hex32 (Text (tn_identity (dn_preimage dn))) = Inr (tn_identity (dn_preimage dn))"
    "hex32 (Text (tn_quoteCommit (dn_preimage dn))) = Inr (tn_quoteCommit (dn_preimage dn))"
    "hex32 (Text (tn_noteNonce (dn_preimage dn))) = Inr (tn_noteNonce (dn_preimage dn))"
    "hex32 (Text (tn_merchantPk (dn_preimage dn))) = Inr (tn_merchantPk (dn_preimage dn))"
    by (rule drawn_note_fields)
  have wf1: "wf_ledger l1"
    using reachable_wf [OF assms(3,4)] wf_exec [of l rt env "Draw i w" l1] assms(5,6) by simp
  have wfm: "wf_ledger m" and lm: "below l1 m"
    using growth.reach_inv [OF assms(7) wf1] growth.reach_below [OF assms(7) wf1] by auto
  obtain n1 where "findNote m (dn_D dn) = Some n1" "note_below n0 n1"
    using find_below [OF wfm lm n0(1)] by blast
  then have terms: "n_amount n = tn_amount (dn_preimage dn)" "n_fee n = tn_fee (dn_preimage dn)"
    "n_lineGeneration n = tn_lineGeneration (dn_preimage dn)"
    using n0 assms(8) by (auto simp: note_below_def)
  have dom': "contractDomain m = tn_domain (dn_preimage dn)" using lm dom by (simp add: below_def)
  have same: "\<lparr>tn_domain = contractDomain m, tn_lineGeneration = n_lineGeneration n,
      tn_identity = tn_identity (dn_preimage dn), tn_quoteCommit = tn_quoteCommit (dn_preimage dn),
      tn_merchantPk = tn_merchantPk (dn_preimage dn), tn_amount = tn_amount (dn_preimage dn),
      tn_fee = n_fee n, tn_noteNonce = tn_noteNonce (dn_preimage dn),
      tn_expiry = tn_expiry (dn_preimage dn)\<rparr> = dn_preimage dn"
    using terms dom' by (cases "dn_preimage dn") simp
  have acc: "accounting m" using wfm by (simp add: wf_ledger_def)
  have "n_amount n \<le> encumberedReserve m" "0 < n_amount n"
    using accounting_note [OF acc assms(8)] assms(9,10) by (auto simp: bucket_defs note_ok_def)
  then have R: "fadd (redeemedReserve m) (n_amount n) = redeemedReserve m + n_amount n"
    using acc accounting_nonneg [OF acc] by (intro fadd_below) (auto simp: accounting_def locked_def)
  obtain m' where run: "redeemDraw rt env' m (redeem_with sk dn) None = Inr (m', N)"
    and "redeemedReserve m' = fadd (redeemedReserve m) (n_amount n)"
    using assms(8-16) norm open_D terms same
    by (auto simp: redeemDraw_def redeem_with_def outcome_unfold isSafeInteger_def max_safe_def)
  moreover have "\<exists>n'. findNote m' (dn_D dn) = Some n' \<and> n_redeemed n'"
    using acc wfm run
    by (auto simp: wf_ledger_iff redeem_target_def redeem_with_def elim!: redeem_effect)
  ultimately show ?thesis using R terms by auto
qed

lemma drawn_claim_redeemable_witness:
  "\<exists>m'. redeemDraw demo (clock 40) demo_drawn (redeem_with (key 2) demo_note) None =
      Inr (m', toHex TAG_redeem) \<and> redeemedReserve m' = redeemedReserve demo_drawn + 100"
proof -
  have "findNote demo_drawn (dn_D demo_note) = Some demo_note_record"
    "merchantPublicKey demo (key 2) = Inr (tn_merchantPk (dn_preimage demo_note))"
    "redeemNullifier demo (key 2) (dn_D demo_note) (contractDomain demo_drawn) = Inr (toHex TAG_redeem)"
    "toHex TAG_redeem \<notin> set (nullifiers demo_drawn)" "tn_amount (dn_preimage demo_note) = 100"
    "\<not> n_redeemed demo_note_record" "\<not> n_cancelled demo_note_record"
    "0 \<le> env_clock (clock 40)" "env_clock (clock 40) < n_expiry demo_note_record"
    "env_clock (clock 40) \<le> max_safe" "safe_total demo_drawn" "\<forall>k. length (env_random (clock 30) k) = 32"
    by (simp_all add: findNote_def demo_history demo_inputs demo_eval safe_total_def)
  then show ?thesis
    using drawn_claim_redeemable [OF runtime_ok_demo _ demo_created demo_reach_quoted demo_drawn _ reach.start,
        of demo_note_record "clock 40" "key 2" "toHex TAG_redeem"] by fastforce
qed

end
