(* ===== verification/Compensation_Properties.thy ===== *)
theory Compensation_Properties
  imports Claim_Properties
begin

text \<open>
  The properties of claims that were not redeemed in time: expiry, the one-time allocation of their
  cost to credit and cash, and the report of the cash refund.
\<close>

section \<open>What the three modes do to the note\<close>

definition cancel_mode :: "cancel_input \<Rightarrow> int" where
  "cancel_mode i = nullish (xi_action i) 0"

lemma cancel_wf:
  assumes "wf_ledger l" and "cancelOrExpireNote rt env l i = Inr (l', w, a)"
  shows "wf_ledger l'" and "below l l'"
  using assms accounting_cancel [OF _ assms(2)] step_cancel [OF _ _ assms(2)]
  by (auto simp: wf_ledger_iff)

lemma findNote_setNote:
  "findNote l D = Some n \<Longrightarrow> n_commitment (f n) = D \<Longrightarrow> findNote (setNote D f l) D = Some (f n)"
  unfolding findNote_def setNote_def by (simp add: find_update_first_self)

lemma findNote_pushEvent [simp]: "findNote (pushEvent ev l) D = findNote l D"
  by (simp add: findNote_def)

text \<open>A successful call found the claim, unredeemed, and knew its exact cost.\<close>

lemma cancel_cases:
  assumes wf: "wf_ledger l" and "cancelOrExpireNote rt env l i = Inr (l', w, a)"
  obtains n cost l0 l1 ev where
    "findNote l (cancel_target i) = Some n" "\<not> n_redeemed n" "cost = note_cost n" "0 < cost"
    "l' = pushEvent ev l1"
    "(cancel_mode i = 0 \<and> cancelExpired env l n 0 cost = Inr l1 \<and> w = None \<and> a = None) \<or>
     (cancel_mode i = 1 \<and> cancelExpired env l n 1 cost = Inr l0 \<and>
       (\<exists>r caller. a = Some r \<and> allocateCompensation rt l0 i caller (cancel_target i)
          (n\<lparr>n_cancelled := True\<rparr>) cost = Inr (l1, w, r))) \<or>
     (cancel_mode i = 2 \<and> (\<exists>caller. reportRefund rt env l i caller (cancel_target i) n cost = Inr l1) \<and>
       w = None \<and> a = None)"
proof -
  from cancelOrExpireNote_ok [OF assms(2)] obtain D mode live caller cost ev l0 l1 where
    D: "D = cancel_target i" and mode: "mode = cancel_mode i"
    and live: "findNote l D = Some live" "\<not> n_redeemed live"
    and c: "cost = fadd (n_amount live) (n_fee live)" "cost \<le> max_safe" and l': "l' = pushEvent ev l1"
    and modes: "(mode = 0 \<and> cancelExpired env l live 0 cost = Inr l1 \<and> w = None \<and> a = None) \<or>
      (mode = 1 \<and> cancelExpired env l live 1 cost = Inr l0 \<and>
        (\<exists>r. a = Some r \<and> allocateCompensation rt l0 i caller D (live\<lparr>n_cancelled := True\<rparr>) cost = Inr (l1, w, r))) \<or>
      (mode = 2 \<and> reportRefund rt env l i caller D live cost = Inr l1 \<and> w = None \<and> a = None)"
    unfolding cancel_target_def cancel_mode_def by blast
  have acc: "accounting l" using wf by (simp add: wf_ledger_def)
  have "cost = note_cost live" "0 < cost"
    using c accounting_note(1) [OF acc live(1)] fadd_safe [of "n_amount live" "n_fee live"]
    by (simp_all add: note_ok_def note_cost_def)
  then show thesis using that live l' modes unfolding D mode by blast
qed

section \<open>Expiry\<close>

text \<open>
  C4. Redemption and expiry exclude each other at every instant: while a merchant could redeem a claim
  (at a given clock reading, with any input), no call can cancel, compensate or refund it, so there is
  no race in which both the merchant and the agent are paid.
\<close>
lemma redeem_excludes_expiry:
  assumes "createLedger rt env0 p = Inr l0" and "reach (exec rt) safe_total l0 l"
    and "is_ok (redeemDraw rt env l i w)" and "cancel_target j = redeem_target i"
  shows "\<not> is_ok (cancelOrExpireNote rt env l j)"
proof
  assume "is_ok (cancelOrExpireNote rt env l j)"
  then obtain l2 w2 a2 where r: "cancelOrExpireNote rt env l j = Inr (l2, w2, a2)"
    by (auto simp: is_ok_iff)
  have wf: "wf_ledger l" "accounting l" "tidy l"
    using reachable_wf [OF assms(1,2)] by (auto simp: wf_ledger_iff)
  from assms(3) obtain l1 N where "redeemDraw rt env l i w = Inr (l1, N)"
    by (auto simp: is_ok_iff)
  then obtain n where n: "findNote l (redeem_target i) = Some n" "\<not> n_cancelled n" "env_clock env < n_expiry n"
    by (rule redeem_effect [OF wf(2,3)])
  have "\<exists>n'. findNote l (cancel_target j) = Some n' \<and> (n_cancelled n' \<or> n_expiry n' \<le> env_clock env)"
  proof (rule cancel_cases [OF wf(1) r])
    fix n' cost l0 l1 ev
    assume n': "findNote l (cancel_target j) = Some n'"
    assume "(cancel_mode j = 0 \<and> cancelExpired env l n' 0 cost = Inr l1 \<and> w2 = None \<and> a2 = None) \<or>
     (cancel_mode j = 1 \<and> cancelExpired env l n' 1 cost = Inr l0 \<and>
       (\<exists>r caller. a2 = Some r \<and> allocateCompensation rt l0 j caller (cancel_target j)
          (n'\<lparr>n_cancelled := True\<rparr>) cost = Inr (l1, w2, r))) \<or>
     (cancel_mode j = 2 \<and> (\<exists>caller. reportRefund rt env l j caller (cancel_target j) n' cost = Inr l1) \<and>
       w2 = None \<and> a2 = None)"
    then have "n_cancelled n' \<or> n_expiry n' \<le> env_clock env"
      by (auto dest!: cancelExpired_ok reportRefund_ok)
    with n' show ?thesis by blast
  qed
  with n assms(4) show False by auto
qed

lemma redeem_excludes_expiry_witness:
  "\<not> is_ok (cancelOrExpireNote demo (clock 40) demo_drawn (demo_cancel_input 0))"
proof (rule redeem_excludes_expiry [OF demo_created demo_reach_drawn])
  show "is_ok (redeemDraw demo (clock 40) demo_drawn demo_redeem_input None)" by (simp add: demo_redeemed)
  show "cancel_target (demo_cancel_input 0) = redeem_target demo_redeem_input"
    by (simp add: cancel_target_def redeem_target_def demo_cancel_input_def demo_redeem_input_def)
qed

section \<open>Allocation\<close>

text \<open>The state of the claim after a successful allocation.\<close>

lemma allocation_effect:
  assumes wf: "wf_ledger l" and mode: "cancel_mode i = 1"
    and run: "cancelOrExpireNote rt env l i = Inr (l', w, a)"
  obtains n r C where "findNote l (cancel_target i) = Some n" "a = Some r" "0 < note_cost n"
    "\<not> n_compensationAllocated n" "n_cancelled n \<or> n_expiry n \<le> env_clock env"
    "findNote l' (cancel_target i) = Some (n\<lparr>n_cancelled := True, n_compensationAllocated := True,
       n_refundCommitment := ra_commitment r, n_cashRefundOwed := ra_amount r > 0,
       n_refundAcknowledged := False, n_refundPaymentNullifier := toHex zeros32\<rparr>)"
    "ra_amount r = note_cost n - ra_allocatedCredit r"
    "(n_lineGeneration n < lineGeneration l \<and> ra_allocatedCredit r = 0 \<and> w = None) \<or>
     (n_lineGeneration n = lineGeneration l \<and> (\<exists>books v C2. currentIdentity l = Some (lw_I books) \<and>
        currentCommitment l = Some C \<and> lineCommitment rt books = Inr C \<and> w = Some v \<and>
        ra_allocatedCredit r = min (lw_B books) (note_cost n) \<and> 0 \<le> lw_B books \<and>
        lw_L v = lw_L books \<and> lw_B v = lw_B books - ra_allocatedCredit r \<and>
        currentCommitment l' = Some C2 \<and> lineCommitment rt v = Inr C2))"
  using wf run
proof (rule cancel_cases)
  fix n cost l0 l1 ev
  assume n: "findNote l (cancel_target i) = Some n" "\<not> n_redeemed n" and cost: "cost = note_cost n" "0 < cost"
    and l': "l' = pushEvent ev l1"
    and "(cancel_mode i = 0 \<and> cancelExpired env l n 0 cost = Inr l1 \<and> w = None \<and> a = None) \<or>
     (cancel_mode i = 1 \<and> cancelExpired env l n 1 cost = Inr l0 \<and>
       (\<exists>r caller. a = Some r \<and> allocateCompensation rt l0 i caller (cancel_target i)
          (n\<lparr>n_cancelled := True\<rparr>) cost = Inr (l1, w, r))) \<or>
     (cancel_mode i = 2 \<and> (\<exists>caller. reportRefund rt env l i caller (cancel_target i) n cost = Inr l1) \<and>
       w = None \<and> a = None)"
  with mode obtain r caller where head: "cancelExpired env l n 1 cost = Inr l0" and a: "a = Some r"
    and alloc: "allocateCompensation rt l0 i caller (cancel_target i) (n\<lparr>n_cancelled := True\<rparr>) cost
      = Inr (l1, w, r)"
    by auto
  have acc: "accounting l" using wf by (simp add: wf_ledger_def)
  have bound: "cost \<le> max_safe" using accounting_note(1) [OF acc n(1)] cost by (simp add: note_ok_def)
  note l0 = accounting_cancelExpired [OF acc n cost(1) head]
  have due: "n_cancelled n \<or> n_expiry n \<le> env_clock env" using cancelExpired_ok [OF head] by auto
  from allocateCompensation_ok [OF alloc] obtain cp owner m1 owed credited R salt where
    credit: "allocateCredit rt l0 (n\<lparr>n_cancelled := True\<rparr>) cp owner cost = Inr (m1, owed, credited, w)"
    and r: "r = \<lparr>ra_domain = contractDomain m1, ra_lineGeneration = n_lineGeneration n,
       ra_identity = owner, ra_noteCommit = cancel_target i, ra_amount = owed,
       ra_allocatedCredit = credited, ra_salt = salt, ra_commitment = R\<rparr>"
    and l1: "l1 = setNote (cancel_target i) (\<lambda>n. n\<lparr>n_compensationAllocated := True, n_refundCommitment := R,
       n_cashRefundOwed := owed > 0, n_refundAcknowledged := False,
       n_refundPaymentNullifier := toHex zeros32\<rparr>) m1"
    by auto
  obtain C1 rr where m1: "m1 = l0\<lparr>currentCommitment := C1, refundReserve := rr\<rparr>"
    using allocateCredit_frame [OF credit] by blast
  have "findNote m1 (cancel_target i) = Some (n\<lparr>n_cancelled := True\<rparr>)"
    using l0(2) by (simp add: m1 findNote_def)
  moreover have "n_commitment n = cancel_target i" using find_member [OF n(1)] by simp
  ultimately have after: "findNote l1 (cancel_target i) = Some (n\<lparr>n_cancelled := True,
      n_compensationAllocated := True, n_refundCommitment := R, n_cashRefundOwed := owed > 0,
      n_refundAcknowledged := False, n_refundPaymentNullifier := toHex zeros32\<rparr>)"
    unfolding l1 by (subst findNote_setNote) simp_all
  have after': "findNote l' (cancel_target i) = Some (n\<lparr>n_cancelled := True, n_compensationAllocated := True,
       n_refundCommitment := ra_commitment r, n_cashRefundOwed := ra_amount r > 0,
       n_refundAcknowledged := False, n_refundPaymentNullifier := toHex zeros32\<rparr>)"
    and comm: "currentCommitment l' = currentCommitment m1"
    and amounts: "ra_amount r = owed" "ra_allocatedCredit r = credited"
    using after by (simp_all add: l' r l1)
  have fresh: "\<not> n_compensationAllocated n" using l0(3) by simp
  have same: "currentIdentity l0 = currentIdentity l" "currentCommitment l0 = currentCommitment l"
    "lineGeneration l0 = lineGeneration l"
    using l0(4) by auto
  note common = that [OF n(1) a _ fresh due after']
  show thesis
    using allocateCredit_ok [OF credit]
  proof (elim disjE conjE exE)
    fix books s C
    assume gen: "n_lineGeneration (n\<lparr>n_cancelled := True\<rparr>) = lineGeneration l0"
      and id: "currentIdentity l0 = Some owner" "lw_I books = owner"
      and op: "opens rt books (currentCommitment l0) = Inr True"
      and B: "0 \<le> lw_B books" "lw_B books \<le> max_safe"
      and cr: "credited = min (lw_B books) cost" "owed = fsub cost credited"
      and v: "w = Some (books\<lparr>lw_domain := contractDomain l0, lw_B := fsub (lw_B books) credited,
              lw_e := fadd (lw_e books) 1, lw_s := s\<rparr>)"
      and C: "lineCommitment rt (the w) = Inr C"
      and m1': "m1 = l0\<lparr>currentCommitment := Some C,
               refundReserve := (if owed = 0 then fsub (refundReserve l0) cost else refundReserve l0)\<rparr>"
    have "0 \<le> credited" "credited \<le> cost" "credited \<le> lw_B books" using cr(1) B cost(2) by auto
    then have exact: "owed = cost - credited" "fsub (lw_B books) credited = lw_B books - credited"
      using cr(2) B bound by (auto simp: fsub_below)
    obtain C0 where "currentCommitment l0 = Some C0" "lineCommitment rt books = Inr C0"
      using op by (auto simp: opens_ok)
    moreover have "lw_L (the w) = lw_L books" "lw_B (the w) = lw_B books - credited" using v exact by simp_all
    ultimately show thesis
      using cost gen id B(1) cr(1) v C comm exact same m1' amounts
      by (intro common [of C0]) auto
  next
    assume "n_lineGeneration (n\<lparr>n_cancelled := True\<rparr>) < lineGeneration l0" "owed = cost" "credited = 0" "w = None"
    then show thesis using cost same amounts by (intro common [of "[]"]) auto
  qed
qed


lemma demo_reach_expired: "reach (exec demo) safe_total demo_created demo_expired"
  by (rule reach.step [OF demo_reach_drawn, where e = "clock 600" and q = "CancelOrExpire (demo_cancel_input 0)"])
    (simp_all add: demo_expired, simp add: safe_total_def demo_expired_def demo_history max_safe_def)


lemma cancelled_not_redeemable:
  "findNote m (redeem_target j) = Some n \<Longrightarrow> \<not> n_redeemed n \<Longrightarrow> n_cancelled n \<Longrightarrow>
     redeemDraw rt e m j v = Inl (Fail ''NOTE_CANCELLED'' ''draw note is cancelled'')"
  by (simp add: redeemDraw_def redeem_target_def Let_def)

text \<open>A call in mode 0 or 1 needs a claim without an allocation.\<close>

lemma allocated_not_expirable:
  assumes "wf_ledger m" and "findNote m (cancel_target j) = Some n" and "n_cancelled n"
    and "n_compensationAllocated n" and "cancelOrExpireNote rt e m j = Inr (m', w, a)"
  shows "cancel_mode j = 2 \<and> n_cashRefundOwed n \<and> \<not> n_refundAcknowledged n"
  using assms(1,5)
proof (rule cancel_cases)
  fix n0 cost l0 l1 ev
  assume "findNote m (cancel_target j) = Some n0"
    and "(cancel_mode j = 0 \<and> cancelExpired e m n0 0 cost = Inr l1 \<and> w = None \<and> a = None) \<or>
     (cancel_mode j = 1 \<and> cancelExpired e m n0 1 cost = Inr l0 \<and>
       (\<exists>r caller. a = Some r \<and> allocateCompensation rt l0 j caller (cancel_target j)
          (n0\<lparr>n_cancelled := True\<rparr>) cost = Inr (l1, w, r))) \<or>
     (cancel_mode j = 2 \<and> (\<exists>caller. reportRefund rt e m j caller (cancel_target j) n0 cost = Inr l1) \<and>
       w = None \<and> a = None)"
  with assms(2-4) show ?thesis by (auto dest!: cancelExpired_ok reportRefund_ok)
qed

text \<open>
  C6. Compensation happens once. After an allocation, at any later moment: the claim cannot be expired
  or allocated again and cannot be redeemed, and its record still carries the commitment to that
  allocation and the same verdict on whether cash is owed.
\<close>
lemma compensated_once:
  assumes "createLedger rt env0 p = Inr l0" and "reach (exec rt) safe_total l0 l"
    and "cancel_mode i = 1" and "cancelOrExpireNote rt env l i = Inr (l', w, Some r)"
    and "reach (exec rt) safe_total l' m"
  shows "(\<exists>n. findNote m (cancel_target i) = Some n \<and> n_refundCommitment n = ra_commitment r \<and>
      (n_cashRefundOwed n \<longleftrightarrow> 0 < ra_amount r)) \<and>
    (\<forall>e j. cancel_target j = cancel_target i \<and> cancel_mode j \<noteq> 2 \<longrightarrow> \<not> is_ok (cancelOrExpireNote rt e m j)) \<and>
    (\<forall>e j v. redeem_target j = cancel_target i \<longrightarrow>
      redeemDraw rt e m j v = Inl (Fail ''NOTE_CANCELLED'' ''draw note is cancelled''))"
proof -
  have wf: "wf_ledger l" using assms(1,2) by (rule reachable_wf)
  have wfm: "wf_ledger m" and lm: "below l' m"
    using growth.reach_inv [OF assms(5)] growth.reach_below [OF assms(5)] cancel_wf [OF wf assms(4)]
    by auto
  from wf assms(3,4) obtain n0 where n0: "findNote l' (cancel_target i) =
      Some (n0\<lparr>n_cancelled := True, n_compensationAllocated := True,
       n_refundCommitment := ra_commitment r, n_cashRefundOwed := ra_amount r > 0,
       n_refundAcknowledged := False, n_refundPaymentNullifier := toHex zeros32\<rparr>)"
    by (rule allocation_effect) auto
  obtain n where n: "findNote m (cancel_target i) = Some n" "n_cancelled n" "n_compensationAllocated n"
    "n_refundCommitment n = ra_commitment r" "n_cashRefundOwed n \<longleftrightarrow> 0 < ra_amount r"
    using find_below [OF wfm lm n0] by (auto simp: note_below_def)
  moreover have "\<not> n_redeemed n"
    using accounting_note(1) [OF _ n(1)] wfm n(2) by (auto simp: wf_ledger_def note_ok_def)
  ultimately show ?thesis
    using allocated_not_expirable [OF wfm] cancelled_not_redeemable
    by (auto simp: is_ok_iff)
qed

lemma compensated_once_witness:
  "\<not> is_ok (cancelOrExpireNote demo (clock 700) demo_allocated (demo_cancel_input 1)) \<and>
   redeemDraw demo (clock 100) demo_allocated demo_redeem_input None =
     Inl (Fail ''NOTE_CANCELLED'' ''draw note is cancelled'')"
proof -
  have "cancel_mode (demo_cancel_input 1) = 1"
    "redeem_target demo_redeem_input = cancel_target (demo_cancel_input 1)"
    by (simp_all add: cancel_target_def redeem_target_def cancel_mode_def demo_cancel_input_def
        demo_redeem_input_def)
  then show ?thesis
    using compensated_once [OF demo_created demo_reach_expired _ demo_allocated reach.start] by auto
qed

section \<open>Refund reports\<close>

text \<open>
  A cash refund is reported at most once, only for a claim whose allocation left cash owed,
  and it releases nothing: the claim's full cost moves from the pending to the reported
  bucket and the locked total stays what it was. Afterwards no call touches the claim again.
\<close>
lemma refund_reported_once:
  assumes "wf_ledger l" and "cancel_mode i = 2"
    and "cancelOrExpireNote rt env l i = Inr (l', w, a)" and "reach (exec rt) safe_total l' m"
  shows "\<exists>n n'. findNote l (cancel_target i) = Some n \<and> n_compensationAllocated n \<and> n_cashRefundOwed n \<and>
    \<not> n_refundAcknowledged n \<and>
    refundReserve l' = refundReserve l - note_cost n \<and>
    reportedRefundReserve l' = reportedRefundReserve l + note_cost n \<and>
    lockedReserve l' = lockedReserve l \<and> totalReserve l' = totalReserve l \<and>
    findNote m (cancel_target i) = Some n' \<and> n_refundAcknowledged n' \<and>
    (\<forall>e j. cancel_target j = cancel_target i \<longrightarrow> \<not> is_ok (cancelOrExpireNote rt e m j)) \<and>
    (\<forall>e j v. redeem_target j = cancel_target i \<longrightarrow> \<not> is_ok (redeemDraw rt e m j v))"
  using assms(1,3)
proof (rule cancel_cases)
  fix n cost l0 l1 ev
  assume n: "findNote l (cancel_target i) = Some n" "\<not> n_redeemed n" and cost: "cost = note_cost n" "0 < cost"
    and l': "l' = pushEvent ev l1"
    and "(cancel_mode i = 0 \<and> cancelExpired env l n 0 cost = Inr l1 \<and> w = None \<and> a = None) \<or>
     (cancel_mode i = 1 \<and> cancelExpired env l n 1 cost = Inr l0 \<and>
       (\<exists>r caller. a = Some r \<and> allocateCompensation rt l0 i caller (cancel_target i)
          (n\<lparr>n_cancelled := True\<rparr>) cost = Inr (l1, w, r))) \<or>
     (cancel_mode i = 2 \<and> (\<exists>caller. reportRefund rt env l i caller (cancel_target i) n cost = Inr l1) \<and>
       w = None \<and> a = None)"
  with assms(2) obtain caller where "reportRefund rt env l i caller (cancel_target i) n cost = Inr l1"
    by auto
  then obtain N where flags: "n_cancelled n" "n_compensationAllocated n" "n_cashRefundOwed n"
      "\<not> n_refundAcknowledged n"
    and l1: "l1 = (setNote (cancel_target i) (\<lambda>n. n\<lparr>n_refundAcknowledged := True,
          n_refundPaymentNullifier := N\<rparr>) l)
       \<lparr>nullifiers := nullifiers l @ [N], refundReserve := fsub (refundReserve l) cost,
        reportedRefundReserve := fadd (reportedRefundReserve l) cost\<rparr>"
    using reportRefund_ok by blast
  have acc: "accounting l" "accounting l'"
    using assms(1) cancel_wf(1) [OF assms(1,3)] by (simp_all add: wf_ledger_def)
  have U: "cost \<le> refundReserve l" "refundReserve l + reportedRefundReserve l \<le> max_safe"
    "0 \<le> reportedRefundReserve l"
    using accounting_note(4) [OF acc(1) n(1)] flags accounting_nonneg [OF acc(1)] acc(1)
    by (auto simp: bucket_defs cost accounting_def locked_def)
  have arith: "fsub (refundReserve l) cost = refundReserve l - cost"
    "fadd (reportedRefundReserve l) cost = reportedRefundReserve l + cost"
    using U cost(2) by (auto intro!: fadd_below fsub_below)
  have "n_commitment n = cancel_target i" using find_member [OF n(1)] by simp
  then have after: "findNote l' (cancel_target i) = Some (n\<lparr>n_refundAcknowledged := True,
      n_refundPaymentNullifier := N\<rparr>)"
    using findNote_setNote [OF n(1), of "\<lambda>n. n\<lparr>n_refundAcknowledged := True,
      n_refundPaymentNullifier := N\<rparr>"] by (simp add: l' l1 findNote_def)
  have wfm: "wf_ledger m" and lm: "below l' m"
    using growth.reach_inv [OF assms(4)] growth.reach_below [OF assms(4)] cancel_wf [OF assms(1,3)]
    by auto
  have n': "findNote m (cancel_target i) = Some (n\<lparr>n_refundAcknowledged := True,
      n_refundPaymentNullifier := N\<rparr>)"
    using find_below [OF wfm lm after] by (auto simp: note_below_def)
  have books: "refundReserve l' = refundReserve l - cost"
    "reportedRefundReserve l' = reportedRefundReserve l + cost" "totalReserve l' = totalReserve l"
    "lockedReserve l' = lockedReserve l"
    unfolding accounting_locked [OF acc(1)] accounting_locked [OF acc(2)]
    by (simp_all add: l' l1 arith locked_def)
  have "\<not> is_ok (cancelOrExpireNote rt e m j)" if "cancel_target j = cancel_target i" for e j
  proof
    assume "is_ok (cancelOrExpireNote rt e m j)"
    then obtain m2 w2 a2 where run: "cancelOrExpireNote rt e m j = Inr (m2, w2, a2)"
      by (auto simp: is_ok_iff)
    from n' that have "findNote m (cancel_target j) = Some (n\<lparr>n_refundAcknowledged := True,
      n_refundPaymentNullifier := N\<rparr>)" by simp
    from allocated_not_expirable [OF wfm this _ _ run] flags show False by simp
  qed
  moreover have "\<not> is_ok (redeemDraw rt e m j v)" if "redeem_target j = cancel_target i" for e j v
    using that n' n(2) flags(1) cancelled_not_redeemable [of m j] by simp
  ultimately show ?thesis
    using n(1) flags(2-4) books n' unfolding cost(1)
    by (intro exI [of _ n] exI [of _ "n\<lparr>n_refundAcknowledged := True, n_refundPaymentNullifier := N\<rparr>"]
        conjI) simp_all
qed

lemma wf_demo_owed: "wf_ledger demo_owed"
  by (simp add: wf_ledger_def accounting_def total_def locked_def demo_owed_def demo_expired_def
      demo_history demo_inputs pushEvent_def note_updates max_safe_def)

lemma refund_reported_once_witness:
  "lockedReserve demo_reported = lockedReserve demo_owed \<and>
   \<not> is_ok (cancelOrExpireNote demo (clock 630) demo_reported (demo_cancel_input 2))"
proof -
  have "cancel_mode (demo_cancel_input 2) = 2"
    by (simp add: cancel_mode_def demo_cancel_input_def)
  then show ?thesis using refund_reported_once [OF wf_demo_owed _ demo_reported reach.start] by auto
qed

end
