(* ===== verification/Line_Properties.thy ===== *)
theory Line_Properties
  imports Compensation_Properties
begin

text \<open>
  The properties of the line as a whole: who may do what, which status changes occur, what closing and
  reopening guarantee, and what can be used only once (quotes, payment references).
\<close>

section \<open>Authority\<close>

text \<open>The secrets a request presents, resolved as the circuits resolve them.\<close>

definition quote_caller :: "quote_request \<Rightarrow> jsstr" where
  "quote_caller i = nullish (or_else (qi_callerSk i) (or_else (qi_merchantSecret i) (qi_caller i))) []"

definition draw_secret :: "draw_input \<Rightarrow> jsstr" where
  "draw_secret i = nullish (or_else (di_agentSecret i) (or_else (map_option as_secret (di_agent i))
     (or_else (di_callerSk i) (di_caller i)))) []"

definition redeem_caller :: "redeem_input \<Rightarrow> jsstr" where
  "redeem_caller i = nullish (or_else (ri_callerSk i) (or_else (ri_merchantSecret i) (ri_caller i))) []"

definition cancel_caller :: "cancel_input \<Rightarrow> jsstr" where
  "cancel_caller i = nullish (or_else (xi_callerSk i) (or_else (xi_caller i) (xi_agentSecret i))) []"

text \<open>Who must have made an accepted request.\<close>

definition is_issuer_key :: "runtime \<Rightarrow> ledger \<Rightarrow> jsstr \<Rightarrow> bool" where
  "is_issuer_key rt l k \<longleftrightarrow> issuerPublicKey rt k = Inr (issuerPubKey l)"

fun authorised :: "runtime \<Rightarrow> ledger \<Rightarrow> request \<Rightarrow> bool" where
  "authorised rt l (RegisterMerchant c k pk) = is_issuer_key rt l (getCaller c k)"
| "authorised rt l (DisableMerchant c pk) = is_issuer_key rt l c"
| "authorised rt l (FundReserve c k a) = is_issuer_key rt l (getCaller c k)"
| "authorised rt l (WithdrawUnencumbered c k a) = is_issuer_key rt l (getCaller c k)"
| "authorised rt l (WithdrawFees c) = is_issuer_key rt l c"
| "authorised rt l (OpenLine i w) = is_issuer_key rt l (getCaller (oi_caller i) (oi_callerSk i))"
| "authorised rt l (PostQuote i w) =
     (\<exists>pk. merchantPublicKey rt (quote_caller i) = Inr pk \<and> registeredMerchants l pk = Some True)"
| "authorised rt l (Draw i w) =
     (\<exists>I. identityCommitment rt (draw_secret i) = Inr I \<and> currentIdentity l = Some I)"
| "authorised rt l (RedeemDraw i w) =
     (\<exists>np salt. merchantPublicKey rt (redeem_caller i) = Inr (tn_merchantPk np) \<and>
        drawNoteCommitment rt np salt = Inr (redeem_target i))"
| "authorised rt l (CancelOrExpire i) =
     (if cancel_mode i = 0 then True
      else if cancel_mode i = 1 then is_issuer_key rt l (cancel_caller i) \<or>
        (\<exists>np salt. identityCommitment rt (cancel_caller i) = Inr (tn_identity np) \<and>
           drawNoteCommitment rt np salt = Inr (cancel_target i))
      else is_issuer_key rt l (cancel_caller i))"
| "authorised rt l (AcknowledgeRepayment i w) = is_issuer_key rt l (getCaller (pi_caller i) (pi_callerSk i))"
| "authorised rt l (SetStatus c k s w) = is_issuer_key rt l (getCaller c k)"

lemma authorised_draw:
  assumes "draw rt env l i w = Inr r"
  shows "authorised rt l (Draw i w)"
proof -
  obtain l' agent dn where r: "r = (l', agent, dn)" by (cases r)
  from assms [unfolded r] obtain a :: draw_auth and f cost nextB where
    "drawAgent rt l i w (env_clock env) = Inr (da_secret a, da_books a, da_I a)"
    "drawPrice l i (da_books a) (da_amount a) = Inr (f, cost, nextB)"
    by (rule draw_ok)
  then show ?thesis by (auto simp: drawAgent_def outcome_unfold draw_secret_def)
qed

lemma authorised_redeem:
  assumes "redeemDraw rt env l i w = Inr r"
  shows "authorised rt l (RedeemDraw i w)"
proof -
  obtain l' N where r: "r = (l', N)" by (cases r)
  from redeemDraw_ok [OF assms [unfolded r]] obtain D np mPk salt where
    "D = redeem_target i" "merchantPublicKey rt (redeem_caller i) = Inr mPk"
    "drawNoteCommitment rt np salt = Inr D" "tn_merchantPk np = mPk"
    unfolding redeem_target_def redeem_caller_def by fastforce
  then show ?thesis by auto
qed

lemma authorised_cancel:
  assumes "cancelOrExpireNote rt env l i = Inr r"
  shows "authorised rt l (CancelOrExpire i)"
proof -
  obtain l' w a where r: "r = (l', w, a)" by (cases r)
  from cancelOrExpireNote_ok [OF assms [unfolded r]] obtain live cost l0 l1 where
    find: "findNote l (cancel_target i) = Some live" and
    modes: "(cancel_mode i = 0 \<and> cancelExpired env l live 0 cost = Inr l1) \<or>
      (cancel_mode i = 1 \<and> cancelExpired env l live 1 cost = Inr l0 \<and>
        (\<exists>a. allocateCompensation rt l0 i (cancel_caller i) (cancel_target i) (live\<lparr>n_cancelled := True\<rparr>) cost
          = Inr (l1, w, a))) \<or>
      (cancel_mode i = 2 \<and> reportRefund rt env l i (cancel_caller i) (cancel_target i) live cost = Inr l1)"
    unfolding cancel_target_def cancel_mode_def cancel_caller_def by blast
  have same: "issuerPubKey l0 = issuerPubKey l" if "cancelExpired env l live 1 cost = Inr l0"
    using cancelExpired_ok [OF that] by auto
  from modes show ?thesis
  proof (elim disjE conjE exE)
    fix a
    assume m: "cancel_mode i = 1" "cancelExpired env l live 1 cost = Inr l0"
      and "allocateCompensation rt l0 i (cancel_caller i) (cancel_target i) (live\<lparr>n_cancelled := True\<rparr>) cost
          = Inr (l1, w, a)"
    from allocateCompensation_ok [OF this(3)] obtain cp :: compensation and owner where
      opened: "drawNoteCommitment rt ((co_note cp)\<lparr>tn_domain := contractDomain l0,
         tn_lineGeneration := n_lineGeneration (live\<lparr>n_cancelled := True\<rparr>), tn_identity := owner,
         tn_amount := n_amount (live\<lparr>n_cancelled := True\<rparr>),
         tn_fee := n_fee (live\<lparr>n_cancelled := True\<rparr>),
         tn_expiry := n_expiry (live\<lparr>n_cancelled := True\<rparr>)\<rparr>) (co_noteSalt cp) = Inr (cancel_target i)"
      and who: "issuerPublicKey rt (cancel_caller i) = Inr (issuerPubKey l0) \<or>
       identityCommitment rt (cancel_caller i) = Inr owner"
      by blast
    have "\<exists>np salt. tn_identity np = owner \<and> drawNoteCommitment rt np salt = Inr (cancel_target i)"
      by (rule exI, rule exI, rule conjI [rotated], rule opened, simp)
    with who m same show ?thesis by (auto simp: is_issuer_key_def)
  next
    assume "cancel_mode i = 2"
      "reportRefund rt env l i (cancel_caller i) (cancel_target i) live cost = Inr l1"
    then show ?thesis using reportRefund_ok [of rt env l i] by (auto simp: is_issuer_key_def)
  qed simp
qed

text \<open>
  C36. Authority. Every accepted request was made by the party that may make it: registry, reserve,
  fees, opening, repayment, refund reports and status by the holder of the issuer key; a quote by a
  registered, enabled merchant; a draw by the owner of the line's identity; a redemption by the
  merchant whose key the note's commitment contains; an allocation by the issuer or the agent named in
  the note. Only cancelling an expired claim is open to everybody.
\<close>
lemma accepted_requests_authorised:
  assumes "exec rt env l q = Inr l'"
  shows "authorised rt l q"
proof (cases q)
  case (PostQuote i w)
  then show ?thesis
    using assms by (auto simp: bindS_Inr_iff quote_caller_def elim!: postQuote_ok)
next
  case (Draw i w)
  then show ?thesis using assms authorised_draw by (auto simp: bindS_Inr_iff simp del: authorised.simps)
next
  case (RedeemDraw i w)
  then show ?thesis using assms authorised_redeem by (auto simp: bindS_Inr_iff simp del: authorised.simps)
next
  case (CancelOrExpire i)
  then show ?thesis using assms authorised_cancel by (auto simp: bindS_Inr_iff simp del: authorised.simps)
next
  case (AcknowledgeRepayment i w)
  then show ?thesis
    using assms by (auto simp: bindS_Inr_iff is_issuer_key_def dest!: acknowledgeRepayment_ok)
next
  case (SetStatus c k s w)
  then show ?thesis using assms by (auto simp: is_issuer_key_def dest!: setStatus_ok)
qed (use assms in \<open>auto simp: bindS_Inr_iff is_issuer_key_def elim!: registerMerchant_ok disableMerchant_ok
      fundReserve_ok withdrawUnencumberedReserve_ok withdrawFees_ok openLine_ok\<close>)

lemma accepted_requests_authorised_witness:
  "authorised demo demo_quoted (Draw demo_draw_input None)"
  by (rule accepted_requests_authorised [where env = "clock 30" and l' = demo_drawn])
    (simp add: demo_drawn)

section \<open>Status\<close>

lemma draw_status:
  assumes "draw rt env l i w = Inr (l', agent, dn)"
  shows "status l' = status l \<and> status l = SOpen"
proof -
  from assms obtain a :: draw_auth and f cost nextB where
    open_line: "drawAgent rt l i w (env_clock env) = Inr (da_secret a, da_books a, da_I a)"
    and settle: "drawSettle rt env l i a f nextB = Inr (l', agent, dn)"
    by (rule draw_ok)
  have "status l' = status l" using settle by (rule drawSettle_ok) simp
  with open_line show ?thesis by (auto elim!: drawAgent_ok)
qed

lemma cancel_status:
  assumes "cancelOrExpireNote rt env l i = Inr (l', w, a)"
  shows "status l' = status l"
proof -
  have expired: "status m = status l" if "cancelExpired env l n k c = Inr m" for n k c m
    using cancelExpired_ok [OF that] by auto
  have allocated: "status m' = status m" if "allocateCompensation rt m i k D n c = Inr (m', v, r)"
    for m k D n c m' v r
  proof -
    from allocateCompensation_ok [OF that] obtain cp :: compensation and owner m1 owed credited R where
      "allocateCredit rt m n cp owner c = Inr (m1, owed, credited, v)"
      "m' = setNote D (\<lambda>n. n\<lparr>n_compensationAllocated := True, n_refundCommitment := R,
       n_cashRefundOwed := owed > 0, n_refundAcknowledged := False,
       n_refundPaymentNullifier := toHex zeros32\<rparr>) m1" by blast
    then show ?thesis using allocateCredit_frame by fastforce
  qed
  have reported: "status m = status l" if "reportRefund rt env l i k D n c = Inr m" for k D n c m
    using reportRefund_ok [OF that] by auto
  from cancelOrExpireNote_ok [OF assms] show ?thesis
    by (elim exE conjE disjE) (simp_all, (drule expired allocated reported; simp)+)
qed

lemma exec_status:
  assumes "exec rt env l q = Inr l'"
  shows "status l' = status l \<or> (\<exists>i w. q = OpenLine i w) \<or> (\<exists>c k s w. q = SetStatus c k s w)"
proof (cases q)
  case (Draw i w)
  then show ?thesis using assms draw_status by (auto simp: bindS_Inr_iff)
next
  case (RedeemDraw i w)
  then show ?thesis using assms by (auto simp: bindS_Inr_iff dest!: redeemDraw_ok)
next
  case (CancelOrExpire i)
  then show ?thesis using assms cancel_status by (auto simp: bindS_Inr_iff)
next
  case (AcknowledgeRepayment i w)
  then show ?thesis using assms by (auto simp: bindS_Inr_iff dest!: acknowledgeRepayment_ok)
qed (use assms in \<open>auto simp: bindS_Inr_iff elim!: registerMerchant_ok disableMerchant_ok
      fundReserve_ok withdrawUnencumberedReserve_ok withdrawFees_ok postQuote_ok\<close>)

text \<open>
  The status of the line changes in two ways only: a fresh or closed line is opened, which advances
  the generation by one (up to \<open>2 ^ 53\<close>); or the issuer moves an open or defaulted line to open,
  defaulted or closed. In particular a closed line never becomes active again without a new generation,
  and nothing returns to the initial status.
\<close>
lemma status_changes:
  assumes "createLedger rt env0 p = Inr l0" and "reach (exec rt) safe_total l0 l"
    and "exec rt env l q = Inr l'" and "status l' \<noteq> status l"
  shows "(\<exists>i w. q = OpenLine i w \<and> status l \<in> {SNone, SClosed} \<and> status l' = SOpen \<and>
      (lineGeneration l < 2 ^ 53 \<longrightarrow> lineGeneration l' = lineGeneration l + 1)) \<or>
    (\<exists>c k w. q = SetStatus c k (status l') w \<and> is_issuer_key rt l (getCaller c k) \<and>
      status l \<in> {SOpen, SDefaulted} \<and> status l' \<in> {SOpen, SDefaulted, SClosed} \<and>
      lineGeneration l' = lineGeneration l)"
proof -
  have gen: "0 \<le> lineGeneration l" using reachable_wf [OF assms(1,2)] by (simp add: wf_ledger_def)
  from exec_status [OF assms(3)] assms(4) show ?thesis
  proof (elim disjE exE)
    fix i w
    assume q: "q = OpenLine i w"
    with assms(3) obtain agent where "openLine rt env l i w = Inr (l', agent)"
      by (auto simp: bindS_Inr_iff)
    then have "status l \<in> {SNone, SClosed}" "status l' = SOpen"
      "lineGeneration l' = fadd (lineGeneration l) 1"
      by (auto elim!: openLine_ok)
    with q gen fadd_generation show ?thesis by simp
  next
    fix c k s w
    assume q: "q = SetStatus c k s w"
    with assms(3) have "setStatus rt l c k s w = Inr l'" by simp
    from setStatus_ok [OF this] q show ?thesis
      by (cases s) (auto simp: is_issuer_key_def)
  qed simp
qed

lemma status_changes_witness:
  "status demo_opened = SOpen \<and> lineGeneration demo_opened = 1 \<and> status demo_funded = SNone"
proof -
  have funded: "reach (exec demo) safe_total demo_created demo_funded"
    by (rule reach.step [OF reach.start, where e = "clock 0" and q = "FundReserve (Some (key 1)) None 1000"])
      (simp_all add: demo_funded, simp add: safe_total_def demo_history max_safe_def)
  have "status demo_funded = SNone" "status demo_opened \<noteq> status demo_funded" "lineGeneration demo_funded = 0"
    by (simp_all add: demo_history)
  then show ?thesis
    using status_changes [OF demo_created funded, of "clock 10" "OpenLine demo_open_input None" demo_opened]
    by (simp add: demo_opened)
qed

text \<open>
  Closing needs zero debt and is complete: the issuer closes a line only with an opening of the
  current commitment whose balance is zero, and on the closed line no quote, draw, repayment or further
  status change is accepted.
\<close>
lemma close_needs_zero_debt:
  assumes "setStatus rt l c k SClosed w = Inr l'"
  shows "(\<exists>books C. w = Some books \<and> currentCommitment l = Some C \<and> lineCommitment rt books = Inr C \<and>
      currentIdentity l = Some (lw_I books) \<and> lw_B books = 0) \<and>
    (\<forall>e i v. \<not> is_ok (postQuote rt e l' i v)) \<and> (\<forall>e i v. \<not> is_ok (draw rt e l' i v)) \<and>
    (\<forall>e i v. \<not> is_ok (acknowledgeRepayment rt e l' i v)) \<and>
    (\<forall>c k s v. \<not> is_ok (setStatus rt l' c k s v))"
proof -
  note facts = setStatus_ok [OF assms]
  have closed: "status l' = SClosed" using facts by auto
  have "\<not> is_ok (postQuote rt e l' i v)" for e i v
    using closed by (auto simp: is_ok_iff elim!: postQuote_ok)
  moreover have "\<not> is_ok (draw rt e l' i v)" for e i v
    using closed draw_status [of rt e l' i v] by (auto simp: is_ok_iff)
  moreover have "\<not> is_ok (acknowledgeRepayment rt e l' i v)" for e i v
    using closed by (auto simp: is_ok_iff dest!: acknowledgeRepayment_ok)
  moreover have "\<not> is_ok (setStatus rt l' c k s v)" for c k s v
    using closed by (auto simp: is_ok_iff dest!: setStatus_ok)
  ultimately show ?thesis using facts by blast
qed

lemma close_needs_zero_debt_witness:
  "lw_B demo_repaid_books = 0 \<and> \<not> is_ok (postQuote demo (clock 60) demo_closed demo_quote_request None)"
  using close_needs_zero_debt [OF demo_closed] by blast

end
