(* ===== verification/Once_Properties.thy ===== *)
theory Once_Properties
  imports Line_Properties
begin

text \<open>
  What can happen only once or never again (quotes, outdated quotes, payment references, the terms of a
  claim), and the effects of repayment, reopening, registration and the local preflight.
\<close>

section \<open>Quotes\<close>

lemma draw_quote_facts:
  assumes "draw rt env l i w = Inr (l', agent, dn)"
  obtains q where "find (\<lambda>q. q_commitment q = tn_quoteCommit (dn_preimage dn)) (quotes l) = Some q"
    "\<not> q_used q" "q_lineGeneration q = lineGeneration l"
    "find (\<lambda>q. q_commitment q = tn_quoteCommit (dn_preimage dn)) (quotes l') = Some (q\<lparr>q_used := True\<rparr>)"
proof -
  from assms obtain a :: draw_auth and f cost nextB where
    quote: "drawQuote rt l i w (env_clock env) = Inr (da_Q a, da_live a, da_merchantPk a, da_amount a)"
    and settle: "drawSettle rt env l i a f nextB = Inr (l', agent, dn)"
    by (rule draw_ok)
  from drawQuote_ok [OF quote] have live: "find (\<lambda>q. q_commitment q = da_Q a) (quotes l) = Some (da_live a)"
    "\<not> q_used (da_live a)" "q_lineGeneration (da_live a) = lineGeneration l" by blast+
  have Q: "tn_quoteCommit (dn_preimage dn) = da_Q a"
    and qs: "quotes l' = update_first (\<lambda>q. q_commitment q = da_Q a) (q_used_update (\<lambda>_. True)) (quotes l)"
    using settle by (rule drawSettle_ok; simp)+
  have "q_commitment (da_live a) = da_Q a" using find_SomeD [OF live(1)] by simp
  then have "find (\<lambda>q. q_commitment q = da_Q a) (quotes l') = Some (da_live a\<lparr>q_used := True\<rparr>)"
    unfolding qs using find_update_first_self [OF live(1), of "q_used_update (\<lambda>_. True)"] by simp
  with live Q show thesis using that by simp
qed

text \<open>
  C7. A quote is drawn at most once, and an outdated one never: a quote commitment that a draw has
  consumed, or that was posted for an earlier generation of the line, is not the quote of any later
  successful draw, whatever happens in between; and every draw consumes the quote it names.
\<close>
lemma quote_drawn_once:
  assumes "createLedger rt env0 p = Inr l0" and "reach (exec rt) safe_total l0 l"
    and "find (\<lambda>q. q_commitment q = Q) (quotes l) = Some q"
    and "q_used q \<or> q_lineGeneration q < lineGeneration l"
    and "reach (exec rt) safe_total l m"
  shows "\<forall>env i w m' agent dn. draw rt env m i w = Inr (m', agent, dn) \<longrightarrow>
    tn_quoteCommit (dn_preimage dn) \<noteq> Q \<and>
    (\<exists>q'. find (\<lambda>q. q_commitment q = tn_quoteCommit (dn_preimage dn)) (quotes m') = Some q' \<and> q_used q')"
proof (intro allI impI)
  fix env i w m' agent dn
  assume run: "draw rt env m i w = Inr (m', agent, dn)"
  have wf: "wf_ledger l" using assms(1,2) by (rule reachable_wf)
  have wfm: "wf_ledger m" and lm: "below l m"
    using growth.reach_inv [OF assms(5) wf] growth.reach_below [OF assms(5) wf] by auto
  from run obtain r where r:
    "find (\<lambda>q. q_commitment q = tn_quoteCommit (dn_preimage dn)) (quotes m) = Some r"
    "\<not> q_used r" "q_lineGeneration r = lineGeneration m"
    "find (\<lambda>q. q_commitment q = tn_quoteCommit (dn_preimage dn)) (quotes m') = Some (r\<lparr>q_used := True\<rparr>)"
    by (rule draw_quote_facts)
  have "tn_quoteCommit (dn_preimage dn) \<noteq> Q"
  proof
    assume eq: "tn_quoteCommit (dn_preimage dn) = Q"
    obtain q' where "find (\<lambda>q. q_commitment q = Q) (quotes m) = Some q'" "quote_below q q'"
      using quote_find_below [OF wfm lm assms(3)] by blast
    then have "quote_below q r" using r(1) eq by simp
    with r(2,3) assms(4) lm show False by (auto simp: quote_below_def below_def)
  qed
  with r(4) show "tn_quoteCommit (dn_preimage dn) \<noteq> Q \<and>
    (\<exists>q'. find (\<lambda>q. q_commitment q = tn_quoteCommit (dn_preimage dn)) (quotes m') = Some q' \<and> q_used q')"
    by simp
qed

lemma quote_drawn_once_witness:
  "draw demo (clock 31) demo_drawn demo_draw_input None \<noteq> Inr (demo_drawn, demo_agent, demo_note)"
proof -
  have "find (\<lambda>q. q_commitment q = toHex TAG_quote) (quotes demo_drawn) =
      Some \<lparr>q_commitment = toHex TAG_quote, q_expiry = 500, q_lineGeneration = 1, q_used = True\<rparr>"
    "tn_quoteCommit (dn_preimage demo_note) = toHex TAG_quote"
    by (simp_all add: demo_history demo_inputs)
  then show ?thesis
    using quote_drawn_once [OF demo_created demo_reach_drawn _ _ reach.start] by fastforce
qed

section \<open>Payment references\<close>

text \<open>The issuer secret and the payment reference an accepted acknowledgement was made with.\<close>

fun paid_with :: "request \<Rightarrow> (jsstr \<times> jsstr) option" where
  "paid_with (AcknowledgeRepayment i w) =
     map_option (\<lambda>r. (getCaller (pi_caller i) (pi_callerSk i), rr_paymentRef r))
       (or_else (map_option pw_receipt w) (pi_receipt i))"
| "paid_with (CancelOrExpire i) =
     (if cancel_mode i = 2 then map_option (\<lambda>r. (cancel_caller i, rk_paymentRef r)) (xi_refundAck i) else None)"
| "paid_with _ = None"

text \<open>The payment nullifier of a secret and a reference.\<close>

definition payment_spent :: "runtime \<Rightarrow> ledger \<Rightarrow> jsstr \<Rightarrow> jsstr \<Rightarrow> bool" where
  "payment_spent rt l k t \<longleftrightarrow> (\<exists>ref sk dom. canonicalPaymentReferenceBytes rt t = Inr ref \<and>
     asBytes32 (Text k) = Inr sk \<and> asBytes32 (Text (contractDomain l)) = Inr dom \<and>
     toHex (encodePaymentNullifier rt sk ref dom) \<in> set (nullifiers l))"

lemma payment_spent_below: "below l m \<Longrightarrow> payment_spent rt l k t \<Longrightarrow> payment_spent rt m k t"
  by (auto simp: payment_spent_def below_def)

lemma paid_once_step:
  assumes "exec rt env l q = Inr l'" and "paid_with q = Some (k, t)"
  shows "\<not> payment_spent rt l k t \<and> payment_spent rt l' k t"
proof (cases q)
  case (AcknowledgeRepayment i w)
  with assms obtain v a r where run: "acknowledgeRepayment rt env l i w = Inr (l', v, a)"
    and r: "or_else (map_option pw_receipt w) (pi_receipt i) = Some r"
      "k = getCaller (pi_caller i) (pi_callerSk i)" "t = rr_paymentRef r"
    by (auto simp: bindS_Inr_iff)
  from acknowledgeRepayment_ok [OF run] r show ?thesis by (auto simp: payment_spent_def)
next
  case (CancelOrExpire i)
  with assms obtain v a ack where run: "cancelOrExpireNote rt env l i = Inr (l', v, a)"
    and mode: "cancel_mode i = 2" and ack: "xi_refundAck i = Some ack" "k = cancel_caller i" "t = rk_paymentRef ack"
    by (auto simp: bindS_Inr_iff split: if_splits)
  from cancelOrExpireNote_ok [OF run] mode obtain D n cost ev l1 where
    "reportRefund rt env l i (cancel_caller i) D n cost = Inr l1" "l' = pushEvent ev l1"
    unfolding cancel_mode_def cancel_caller_def by auto
  with reportRefund_ok [OF this(1)] ack show ?thesis by (auto simp: payment_spent_def)
qed (use assms in auto)

text \<open>
  C35. A payment reference counts once. After the issuer has acknowledged a repayment, or reported a
  refund, with some reference, no later acknowledgement of either kind under the same issuer secret
  accepts that reference again, even for another receipt, line generation or claim.
\<close>
lemma payment_reference_once:
  assumes "wf_ledger l" and "exec rt env l q = Inr l'" and "safe_total l'"
    and "paid_with q = Some (k, t)" and "reach (exec rt) safe_total l' m"
  shows "\<forall>env q. paid_with q = Some (k, t) \<longrightarrow> \<not> is_ok (exec rt env m q)"
proof -
  have wf': "wf_ledger l'" using assms(1-3) by (metis wf_exec)
  have "payment_spent rt m k t"
    using growth.reach_stable [where P = "\<lambda>l. payment_spent rt l k t", OF _ assms(5) wf']
      payment_spent_below paid_once_step [OF assms(2,4)] by blast
  then show ?thesis using paid_once_step by (auto simp: is_ok_iff)
qed

lemma payment_reference_once_witness:
  "\<not> is_ok (exec demo (clock 51) demo_repaid (AcknowledgeRepayment (demo_repay_input\<lparr>pi_newSalt := None\<rparr>) None))"
proof -
  have "exec demo (clock 50) demo_drawn (AcknowledgeRepayment demo_repay_input None) = Inr demo_repaid"
    by (simp add: demo_repaid)
  moreover have "paid_with (AcknowledgeRepayment demo_repay_input None) = Some (key 1, js ''wire-1'')"
    "paid_with (AcknowledgeRepayment (demo_repay_input\<lparr>pi_newSalt := None\<rparr>) None) = Some (key 1, js ''wire-1'')"
    "safe_total demo_repaid"
    by (simp_all add: demo_repay_input_def demo_receipt_def getCaller_def safe_total_def demo_repaid_def
        demo_history max_safe_def)
  ultimately show ?thesis
    using payment_reference_once [OF wf_demo(4) _ _ _ reach.start] by blast
qed

section \<open>Repayment\<close>

text \<open>
  The effect of a repayment. It needs the books that open the current commitment and a receipt for
  them; the amount is positive and at most the debt; the new commitment opens to the same books with
  exactly that much less debt; two fresh nullifiers are added, and no reserve, quote or claim changes.
\<close>
lemma repayment_effect:
  assumes "acknowledgeRepayment rt env l i w = Inr (l', v, agent)"
  shows "\<exists>books r C C2 N P ev. or_else (map_option pw_receipt w) (pi_receipt i) = Some r \<and>
    currentCommitment l = Some C \<and> lineCommitment rt books = Inr C \<and> rr_currentC r = C \<and>
    currentIdentity l = Some (lw_I books) \<and>
    0 < rr_amount r \<and> rr_amount r \<le> lw_B books \<and>
    lineCommitment rt v = Inr C2 \<and> lw_I v = lw_I books \<and> lw_L v = lw_L books \<and>
    lw_B v = lw_B books - rr_amount r \<and>
    N \<notin> set (nullifiers l) \<and> P \<notin> set (nullifiers l) \<and>
    l' = pushEvent ev (l\<lparr>currentCommitment := Some C2, nullifiers := nullifiers l @ [N, P]\<rparr>)"
proof -
  from acknowledgeRepayment_ok [OF assms] obtain books r C N P s C2 ev where facts:
    "or_else (map_option pw_receipt w) (pi_receipt i) = Some r"
    "currentCommitment l = Some C" "lineCommitment rt books = Inr C" "rr_currentC r = C"
    "currentIdentity l = Some (lw_I books)" "0 < rr_amount r" "rr_amount r \<le> lw_B books"
    "N \<notin> set (nullifiers l)" "P \<notin> set (nullifiers l)"
    "v = \<lparr>lw_domain = contractDomain l, lw_I = lw_I books, lw_L = lw_L books,
       lw_B = fsub (lw_B books) (rr_amount r), lw_e = fadd (lw_e books) 1, lw_s = s\<rparr>"
    "lineCommitment rt v = Inr C2"
    "l' = pushEvent ev (l\<lparr>currentCommitment := Some C2, nullifiers := nullifiers l @ [N, P]\<rparr>)"
    by blast
  have "fsub (lw_B books) (rr_amount r) = lw_B books - rr_amount r"
    using facts(6,7) lineCommitment_bounds [OF facts(3)] by (intro fsub_below) auto
  then show ?thesis
    using facts
    by (intro exI [of _ books] exI [of _ r] exI [of _ C] exI [of _ C2] exI [of _ N] exI [of _ P]
        exI [of _ ev]) auto
qed

lemma repayment_effect_witness:
  "lw_B demo_repaid_books = lw_B demo_drawn_books - 103 \<and>
   (\<exists>N P. nullifiers demo_repaid = nullifiers demo_drawn @ [N, P])"
proof -
  have "\<exists>N P. nullifiers demo_repaid = nullifiers demo_drawn @ [N, P]"
    using repayment_effect [OF demo_repaid] by (elim exE conjE) (drule arg_cong [where f = nullifiers], simp)
  then show ?thesis by (simp add: demo_repaid_books_def demo_drawn_books_def)
qed

section \<open>Claims outlive the line\<close>

text \<open>
  The terms of a claim are permanent: from the moment it is recorded, amount, fee, deadline and
  generation never change and it never disappears; a redemption or a reported refund freezes it.
\<close>
lemma claim_terms_permanent:
  assumes "createLedger rt env0 p = Inr l0" and "reach (exec rt) safe_total l0 l"
    and "findNote l D = Some n" and "reach (exec rt) safe_total l m"
  shows "\<exists>n'. findNote m D = Some n' \<and> n_amount n' = n_amount n \<and> n_fee n' = n_fee n \<and>
    n_expiry n' = n_expiry n \<and> n_lineGeneration n' = n_lineGeneration n \<and>
    (n_redeemed n \<or> n_refundAcknowledged n \<longrightarrow> n' = n) \<and> (n_cancelled n \<longrightarrow> n_cancelled n')"
proof -
  have wf: "wf_ledger l" using assms(1,2) by (rule reachable_wf)
  obtain n' where "findNote m D = Some n'" "note_below n n'"
    using find_below [OF _ _ assms(3)] growth.reach_inv [OF assms(4) wf] growth.reach_below [OF assms(4) wf]
    by blast
  then show ?thesis by (auto simp: note_below_def)
qed

lemma claim_terms_permanent_witness:
  "\<exists>n'. findNote demo_redeemed (key 31) = Some n' \<and> n_amount n' = 100 \<and> n_expiry n' = 500"
proof -
  have "findNote demo_drawn (key 31) = Some demo_note_record"
    "n_amount demo_note_record = 100" "n_expiry demo_note_record = 500"
    by (simp_all add: findNote_def demo_history demo_inputs)
  moreover have "reach (exec demo) safe_total demo_drawn demo_redeemed"
    by (rule reach.step [OF reach.start, where e = "clock 40" and q = "RedeemDraw demo_redeem_input None"])
      (simp_all add: demo_redeemed, simp add: safe_total_def demo_history max_safe_def)
  ultimately show ?thesis
    using claim_terms_permanent [OF demo_created demo_reach_drawn] by fastforce
qed

text \<open>
  Opening a line, the first or a later one, starts from zero debt and does not touch what exists:
  claims, quotes, nullifiers, registry and every reserve counter stay, the generation advances, and the
  agent's books open the published commitment.
\<close>
lemma open_keeps_claims:
  assumes "openLine rt env l i w = Inr (l', agent)"
  shows "\<exists>v C. as_witness agent = Some v \<and> currentCommitment l' = Some C \<and> lineCommitment rt v = Inr C \<and>
    lw_B v = 0 \<and> 0 < lw_L v \<and> currentIdentity l' = Some (lw_I v) \<and>
    status l \<in> {SNone, SClosed} \<and> status l' = SOpen \<and> lineGeneration l' = fadd (lineGeneration l) 1 \<and>
    env_clock env < lineExpiry l' \<and> feeBps l' \<le> 10000 \<and>
    drawNotes l' = drawNotes l \<and> quotes l' = quotes l \<and> nullifiers l' = nullifiers l \<and>
    registeredMerchants l' = registeredMerchants l \<and> totalReserve l' = totalReserve l \<and>
    lockedReserve l' = lockedReserve l"
proof -
  from assms obtain ev I C s limit flat bps where
    "0 < limit" "env_clock env < oi_expiry i" "status l = SNone \<or> status l = SClosed" "bps \<le> 10000"
    "as_witness agent = Some \<lparr>lw_domain = contractDomain l, lw_I = I, lw_L = limit, lw_B = 0,
       lw_e = 0, lw_s = s\<rparr>"
    "lineCommitment rt \<lparr>lw_domain = contractDomain l, lw_I = I, lw_L = limit, lw_B = 0,
       lw_e = 0, lw_s = s\<rparr> = Inr C"
    "l' = pushEvent ev (l\<lparr>currentIdentity := Some I, currentCommitment := Some C,
       lineExpiry := oi_expiry i, feeFlat := flat, feeBps := bps, status := SOpen,
       lineGeneration := fadd (lineGeneration l) 1\<rparr>)"
    by (rule openLine_ok)
  then show ?thesis by (auto simp: lockedReserve_def)
qed

lemma open_keeps_claims_witness:
  "totalReserve demo_opened = totalReserve demo_funded \<and> drawNotes demo_opened = drawNotes demo_funded"
  using open_keeps_claims [OF demo_opened] by blast

section \<open>Registry\<close>

text \<open>
  Registration and disabling. Disabling stops new quotes of a merchant at once. But the simulator's
  \<open>registerMerchant\<close> tests the truth of the registry entry instead of its presence: on a disabled
  merchant it succeeds and enables the merchant again, where the circuit of \<open>line.compact\<close> rejects any
  key that is already a member.
\<close>
lemma disabled_merchant_registered_again:
  assumes "issuerPublicKey rt c = Inr (issuerPubKey l)" and "hex32 (Text pk) = Inr pubM"
    and "disableMerchant rt l c pk = Inr l'"
  shows "(\<forall>e i w. merchantPublicKey rt (quote_caller i) = Inr pubM \<longrightarrow>
      postQuote rt e l' i w = Inl (Fail ''MERCHANT_DISABLED'' ''merchant is disabled'')) \<and>
    (\<exists>l''. registerMerchant rt l' (Some c) None pk = Inr l'' \<and> registeredMerchants l'' pubM = Some True)"
proof -
  from assms(3) obtain M where M: "hex32 (Text pk) = Inr M" and l':
    "l' = pushEvent (event ''disableMerchant'' (PMerchantDisabled (take 8 M)))
       (l\<lparr>registeredMerchants := (registeredMerchants l)(M \<mapsto> False)\<rparr>)"
    by (rule disableMerchant_ok)
  with assms(2) have "M = pubM" by simp
  with l' have off: "registeredMerchants l' pubM = Some False" "issuerPubKey l' = issuerPubKey l" by simp_all
  have "postQuote rt e l' i w = Inl (Fail ''MERCHANT_DISABLED'' ''merchant is disabled'')"
    if "merchantPublicKey rt (quote_caller i) = Inr pubM" for e i w
    using that off by (simp add: postQuote_def quote_caller_def Let_def)
  moreover have "\<exists>l''. registerMerchant rt l' (Some c) None pk = Inr l'' \<and>
      registeredMerchants l'' pubM = Some True"
    using assms(1,2) off by (simp add: registerMerchant_def isIssuer_def getCaller_def)
  ultimately show ?thesis by blast
qed

lemma disabled_merchant_registered_again_witness:
  "\<exists>l' m. disableMerchant demo demo_created (key 1) (toHex TAG_merchantPk) = Inr l' \<and>
     registerMerchant demo l' (Some (key 1)) None (toHex TAG_merchantPk) = Inr m \<and>
     registeredMerchants m (toHex TAG_merchantPk) = Some True"
proof -
  have "issuerPublicKey demo (key 1) = Inr (issuerPubKey demo_created)"
    "hex32 (Text (toHex TAG_merchantPk)) = Inr (toHex TAG_merchantPk)"
    by (simp_all add: demo_eval demo_history)
  moreover have "\<exists>l'. disableMerchant demo demo_created (key 1) (toHex TAG_merchantPk) = Inr l'"
    by (simp add: disableMerchant_def demo_eval demo_history)
  ultimately show ?thesis using disabled_merchant_registered_again by blast
qed

section \<open>Preflight\<close>

text \<open>
  The local preflight tells the truth: when \<open>simulateDraw\<close> reports a remaining credit, the draw
  itself succeeds at that clock and ledger, the report is limit minus debt of the books the draw leaves
  behind, it is the available credit of the presented books less the cost of the purchase, and it is
  not negative.
\<close>
lemma preflight_truthful:
  assumes "createLedger rt env0 p = Inr l0" and "reach (exec rt) safe_total l0 l"
    and "simulateDraw rt env l i w = Inr c"
  shows "\<exists>l' agent dn v. draw rt env l i (Some w) = Inr (l', agent, dn) \<and> as_witness agent = Some v \<and>
    c = lw_L v - lw_B v \<and>
    c = available (dw_books w) - (tn_amount (dn_preimage dn) + tn_fee (dn_preimage dn)) \<and> 0 \<le> c"
proof -
  from assms(3) obtain l' agent dn v where run: "draw rt env l i (Some w) = Inr (l', agent, dn)"
    and v: "as_witness agent = Some v" "c = fsub (lw_L v) (lw_B v)"
    by (auto simp: simulateDraw_def bindS_Inr_iff split: option.splits)
  from run obtain a :: draw_auth and f cost nextB where
    who: "drawAgent rt l i (Some w) (env_clock env) = Inr (da_secret a, da_books a, da_I a)"
    and quote: "drawQuote rt l i (Some w) (env_clock env) = Inr (da_Q a, da_live a, da_merchantPk a, da_amount a)"
    and price: "drawPrice l i (da_books a) (da_amount a) = Inr (f, cost, nextB)"
    and settle: "drawSettle rt env l i a f nextB = Inr (l', agent, dn)"
    by (rule draw_ok)
  have books: "da_books a = dw_books w" using who by (auto simp: drawAgent_def outcome_unfold)
  have "lw_L v = lw_L (da_books a) \<and> lw_B v = nextB \<and> tn_amount (dn_preimage dn) = da_amount a \<and>
    tn_fee (dn_preimage dn) = f"
    using settle by (rule drawSettle_ok) (use v(1) in simp)
  then have fields: "lw_L v = lw_L (da_books a)" "lw_B v = nextB" "tn_amount (dn_preimage dn) = da_amount a"
    "tn_fee (dn_preimage dn) = f" by simp_all
  have A: "0 < da_amount a" using drawQuote_ok [OF quote] by blast
  note pr = drawPrice_ok [OF price]
  obtain C where "lineCommitment rt (da_books a) = Inr C" using who by (rule drawAgent_ok)
  note b = lineCommitment_bounds [OF this]
  have cost: "cost = da_amount a + f"
    using pr(2,5,8) A by (intro trans [OF pr(5) fadd_safe]) auto
  have nextB: "nextB = lw_B (da_books a) + cost"
    using pr(7,9,11) b by (intro trans [OF pr(9) fadd_safe]) auto
  have exact: "fsub (lw_L v) (lw_B v) = lw_L v - lw_B v"
    using b pr(7,12) nextB fields by (intro fsub_below) auto
  have "available (dw_books w) = lw_L (da_books a) - lw_B (da_books a)"
    unfolding available_def books [symmetric] using b pr(7,12) nextB by (intro fsub_below) auto
  then show ?thesis
    using run v exact fields nextB cost pr(12) by auto
qed

lemma preflight_truthful_witness:
  "simulateDraw demo (clock 30) demo_quoted demo_draw_input \<lparr>dw_books = demo_books, dw_quote = demo_quote\<rparr>
     = Inr 397 \<and> available demo_books - 103 = 397"
proof -
  note run = demo_drawn_with_witness
  from run have sim: "simulateDraw demo (clock 30) demo_quoted demo_draw_input
      \<lparr>dw_books = demo_books, dw_quote = demo_quote\<rparr> = Inr 397"
    by (simp add: simulateDraw_def demo_drawn_books_def fsub_def)
  have "tn_amount (dn_preimage demo_note) + tn_fee (dn_preimage demo_note) = 103"
    by (simp add: demo_inputs)
  with preflight_truthful [OF demo_created demo_reach_quoted sim] run sim show ?thesis by auto
qed

end
