(* ===== verification/Vault_Codec.thy ===== *)
theory Vault_Codec
  imports Encoding_Facts
begin

text \<open>
  JavaScript values and \<open>src/lib/security/vault-codec.ts\<close>, the tagged encoding every private record
  is stored in. \<open>JSON.stringify\<close> and \<open>JSON.parse\<close> are left out on both sides: the encoder's
  result and the decoder's argument are the JSON document as a value. The entries of an object are in
  its own property order, which both functions keep. A value is a tree, so the cycle
  check of the encoder has nothing to find; accessors, symbols, class instances, functions and holes
  are the constructor \<^verbatim>\<open>JOther\<close>.
\<close>

section \<open>Values\<close>

text \<open>A number of the sort the codec distinguishes: an integer, another finite one, or a special one.\<close>

datatype jsnum = NInt int | NFrac int nat | NNegZero | NNaN | NPosInf | NNegInf

datatype jsval =
    JUndefined
  | JNull
  | JBool bool
  | JNum jsnum
  | JBig int
  | JStr jsstr
  | JBytes bytes
  | JArr "jsval list"
  | JObj "(jsstr \<times> jsval) list"
  | JOther

definition finite_num :: "jsnum \<Rightarrow> bool" where
  "finite_num n = (case n of NNaN \<Rightarrow> False | NPosInf \<Rightarrow> False | NNegInf \<Rightarrow> False | _ \<Rightarrow> True)"

text \<open>Objects have distinct keys, at every level.\<close>

fun wf_val :: "jsval \<Rightarrow> bool" where
  "wf_val (JArr vs) = list_all wf_val vs"
| "wf_val (JObj es) = (distinct (map fst es) \<and> list_all (\<lambda>e. wf_val (snd e)) es)"
| "wf_val _ = True"

definition get_prop :: "(jsstr \<times> jsval) list \<Rightarrow> string \<Rightarrow> jsval" where
  "get_prop es k = (case map_of es (js k) of Some v \<Rightarrow> v | None \<Rightarrow> JUndefined)"

text \<open>An object literal with the given property names.\<close>

definition js_entries :: "(string \<times> jsval) list \<Rightarrow> (jsstr \<times> jsval) list" where
  "js_entries es = map (\<lambda>(k, v). (js k, v)) es"

definition obj :: "(string \<times> jsval) list \<Rightarrow> jsval" where
  "obj es = JObj (js_entries es)"

section \<open>Decimal integers\<close>

text \<open>\<open>BigInt.prototype.toString\<close> and \<open>BigInt(string)\<close>\<close>

fun dec_nat :: "nat \<Rightarrow> jsstr" where
  "dec_nat n = (if n < 10 then [hex_digit n] else dec_nat (n div 10) @ [hex_digit (n mod 10)])"

declare dec_nat.simps [simp del]

definition dec_int :: "int \<Rightarrow> jsstr" where
  "dec_int n = (if n < 0 then 45 # dec_nat (nat (- n)) else dec_nat (nat n))"

definition is_digit :: "16 word \<Rightarrow> bool" where
  "is_digit c \<longleftrightarrow> 48 \<le> unat c \<and> unat c \<le> 57"

definition parse_nat :: "jsstr \<Rightarrow> nat" where
  "parse_nat s = foldl (\<lambda>a c. 10 * a + hex_val c) 0 s"

text \<open>\<open>/^(0|-?[1-9][0-9]*)$/\<close>\<close>

definition canonical_nat :: "jsstr \<Rightarrow> bool" where
  "canonical_nat s \<longleftrightarrow> s \<noteq> [] \<and> list_all is_digit s \<and> hd s \<noteq> 48"

definition parse_bigint :: "jsstr \<Rightarrow> int option" where
  "parse_bigint s =
     (if s = [48] then Some 0
      else if canonical_nat s then Some (int (parse_nat s))
      else if s \<noteq> [] \<and> hd s = 45 \<and> canonical_nat (tl s) then Some (- int (parse_nat (tl s)))
      else None)"

lemma is_digit_hex_digit: "n < 10 \<Longrightarrow> is_digit (hex_digit n)"
  by (simp add: is_digit_def unat_hex_digit)

lemma dec_nat_digits: "list_all is_digit (dec_nat n)"
  by (induction n rule: dec_nat.induct) (subst dec_nat.simps, auto simp: is_digit_hex_digit)

lemma dec_nat_not_Nil [simp]: "dec_nat n \<noteq> []"
  by (subst dec_nat.simps) simp

lemma hex_digit_zero_iff: "n < 10 \<Longrightarrow> hex_digit n = 48 \<longleftrightarrow> n = 0"
proof -
  assume n: "n < 10"
  have "hex_digit n = 48 \<longleftrightarrow> unat (hex_digit n) = unat (48 :: 16 word)"
    by (simp only: word_unat_eq_iff)
  also have "\<dots> \<longleftrightarrow> n = 0" using n by (simp add: unat_hex_digit)
  finally show ?thesis .
qed

lemma hd_dec_nat: "0 < n \<Longrightarrow> hd (dec_nat n) \<noteq> 48"
proof (induction n rule: dec_nat.induct)
  case (1 n)
  show ?case
  proof (cases "n < 10")
    case True
    with "1.prems" show ?thesis by (subst dec_nat.simps) (simp add: hex_digit_zero_iff)
  next
    case False
    then have "hd (dec_nat (n div 10)) \<noteq> 48" using "1.IH" by simp
    with False show ?thesis by (subst dec_nat.simps) simp
  qed
qed

lemma parse_dec_nat: "parse_nat (dec_nat n) = n"
proof (induction n rule: dec_nat.induct)
  case (1 n)
  then show ?case
    by (subst dec_nat.simps) (auto simp: parse_nat_def hex_val_hex_digit)
qed

lemma canonical_dec_nat: "0 < n \<Longrightarrow> canonical_nat (dec_nat n)"
  by (simp add: canonical_nat_def dec_nat_digits hd_dec_nat)

lemma digit_not_minus: "is_digit c \<Longrightarrow> c \<noteq> 45"
  by (auto simp: is_digit_def)

lemma parse_dec_int: "parse_bigint (dec_int n) = Some n"
proof -
  consider "n = 0" | "0 < n" | "n < 0" by linarith
  then show ?thesis
  proof cases
    case 1
    then show ?thesis by (simp add: dec_int_def dec_nat.simps [of 0] parse_bigint_def hex_digit_def)
  next
    case 2
    then have "canonical_nat (dec_nat (nat n))" by (simp add: canonical_dec_nat)
    moreover from this have "dec_nat (nat n) \<noteq> [48]" by (auto simp: canonical_nat_def)
    ultimately show ?thesis
      using 2 by (simp add: dec_int_def parse_bigint_def parse_dec_nat)
  next
    case 3
    then have "canonical_nat (dec_nat (nat (- n)))" by (simp add: canonical_dec_nat)
    then show ?thesis
      using 3 by (simp add: dec_int_def parse_bigint_def parse_dec_nat canonical_nat_def is_digit_def)
  qed
qed

section \<open>The codec\<close>

definition VAULT_FORMAT :: string where "VAULT_FORMAT = ''line:vault-json/v1''"
definition MAX_DEPTH :: nat where "MAX_DEPTH = 100"
definition MAX_NODES :: nat where "MAX_NODES = 100000"

definition node1 :: "string \<Rightarrow> jsval" where "node1 t = JArr [JStr (js t)]"
definition node2 :: "string \<Rightarrow> jsval \<Rightarrow> jsval" where "node2 t v = JArr [JStr (js t), v]"

text \<open>\<open>encode(value, depth)\<close>; the counter of visited nodes is passed along.\<close>

fun encode_val :: "nat \<Rightarrow> nat \<Rightarrow> jsval \<Rightarrow> (jsval \<times> nat) outcome"
and encode_list :: "nat \<Rightarrow> nat \<Rightarrow> jsval list \<Rightarrow> (jsval list \<times> nat) outcome"
and encode_entries :: "nat \<Rightarrow> nat \<Rightarrow> (jsstr \<times> jsval) list \<Rightarrow> (jsval list \<times> nat) outcome" where
  "encode_val c d v =
     (if c + 1 > MAX_NODES \<or> d > MAX_DEPTH
      then Inl (Throw (TypeError ''Vault payload exceeds codec limits.''))
      else (case v of
        JNull \<Rightarrow> Inr (node1 ''null'', c + 1)
      | JUndefined \<Rightarrow> Inr (node1 ''undefined'', c + 1)
      | JStr s \<Rightarrow> Inr (node2 ''string'' (JStr s), c + 1)
      | JBool b \<Rightarrow> Inr (node2 ''boolean'' (JBool b), c + 1)
      | JNum n \<Rightarrow>
          if \<not> finite_num n then Inl (Throw (TypeError ''Non-finite vault number.''))
          else Inr (node2 ''number'' (if n = NNegZero then JStr (js ''-0'') else JNum n), c + 1)
      | JBig n \<Rightarrow> Inr (node2 ''bigint'' (JStr (dec_int n)), c + 1)
      | JBytes bs \<Rightarrow> Inr (node2 ''bytes'' (JStr (toHex bs)), c + 1)
      | JArr vs \<Rightarrow> bindS (encode_list (c + 1) (d + 1) vs) (\<lambda>(ts, c'). Inr (node2 ''array'' (JArr ts), c'))
      | JObj es \<Rightarrow> bindS (encode_entries (c + 1) (d + 1) es) (\<lambda>(ts, c'). Inr (node2 ''object'' (JArr ts), c'))
      | JOther \<Rightarrow> Inl (Throw (TypeError ''Unsupported vault value.''))))"
| "encode_list c d [] = Inr ([], c)"
| "encode_list c d (v # vs) =
     bindS (encode_val c d v) (\<lambda>(t, c1). bindS (encode_list c1 d vs) (\<lambda>(ts, c2). Inr (t # ts, c2)))"
| "encode_entries c d [] = Inr ([], c)"
| "encode_entries c d ((k, v) # es) =
     bindS (encode_val c d v) (\<lambda>(t, c1).
     bindS (encode_entries c1 d es) (\<lambda>(ts, c2). Inr (JArr [JStr k, t] # ts, c2)))"

definition encodeVaultJson :: "jsval \<Rightarrow> jsval outcome" where
  "encodeVaultJson v =
     bindS (encode_val 0 0 v) (\<lambda>(t, c). Inr (JObj [(js ''format'', JStr (js VAULT_FORMAT)), (js ''payload'', t)]))"

definition is_lower_hex :: "16 word \<Rightarrow> bool" where
  "is_lower_hex c \<longleftrightarrow> (48 \<le> unat c \<and> unat c \<le> 57) \<or> (97 \<le> unat c \<and> unat c \<le> 102)"

definition bad :: "string \<Rightarrow> 'a outcome" where
  "bad m = Inl (Throw (Error m))"

fun decode_val :: "nat \<Rightarrow> nat \<Rightarrow> jsval \<Rightarrow> (jsval \<times> nat) outcome"
and decode_list :: "nat \<Rightarrow> nat \<Rightarrow> jsval list \<Rightarrow> (jsval list \<times> nat) outcome"
and decode_entries :: "nat \<Rightarrow> nat \<Rightarrow> jsstr set \<Rightarrow> jsval list \<Rightarrow> ((jsstr \<times> jsval) list \<times> nat) outcome" where
  "decode_val c d n =
     (if c + 1 > MAX_NODES \<or> d > MAX_DEPTH then bad ''Invalid codec node.''
      else (case n of
        JArr [JStr t] \<Rightarrow>
          if t = js ''null'' then Inr (JNull, c + 1)
          else if t = js ''undefined'' then Inr (JUndefined, c + 1)
          else bad ''Invalid node arity.''
      | JArr [JStr t, v] \<Rightarrow>
          (case v of
             JStr s \<Rightarrow>
               if t = js ''string'' then Inr (JStr s, c + 1)
               else if t = js ''number'' \<and> s = js ''-0'' then Inr (JNum NNegZero, c + 1)
               else if t = js ''bigint'' then
                 (case parse_bigint s of Some m \<Rightarrow> Inr (JBig m, c + 1) | None \<Rightarrow> bad ''Invalid codec value.'')
               else if t = js ''bytes'' \<and> even (length s) \<and> list_all is_lower_hex s
                 then Inr (JBytes (parse_hex_pairs s), c + 1)
               else bad ''Invalid codec value.''
           | JBool b \<Rightarrow> if t = js ''boolean'' then Inr (JBool b, c + 1) else bad ''Invalid codec value.''
           | JNum m \<Rightarrow> if t = js ''number'' \<and> finite_num m then Inr (JNum m, c + 1)
                      else bad ''Invalid codec value.''
           | JArr ns \<Rightarrow>
               if t = js ''array'' then
                 bindS (decode_list (c + 1) (d + 1) ns) (\<lambda>(vs, c'). Inr (JArr vs, c'))
               else if t = js ''object'' then
                 bindS (decode_entries (c + 1) (d + 1) {} ns) (\<lambda>(es, c'). Inr (JObj es, c'))
               else bad ''Invalid codec value.''
           | _ \<Rightarrow> bad ''Invalid codec value.'')
      | _ \<Rightarrow> bad ''Invalid codec node.''))"
| "decode_list c d [] = Inr ([], c)"
| "decode_list c d (n # ns) =
     bindS (decode_val c d n) (\<lambda>(v, c1). bindS (decode_list c1 d ns) (\<lambda>(vs, c2). Inr (v # vs, c2)))"
| "decode_entries c d seen [] = Inr ([], c)"
| "decode_entries c d seen (e # es) =
     (case e of
        JArr [JStr k, n] \<Rightarrow>
          if k \<in> seen then bad ''Invalid object entry.''
          else bindS (decode_val c d n) (\<lambda>(v, c1).
               bindS (decode_entries c1 d (insert k seen) es) (\<lambda>(vs, c2). Inr ((k, v) # vs, c2)))
      | _ \<Rightarrow> bad ''Invalid object entry.'')"

definition starts_with :: "jsstr \<Rightarrow> jsstr \<Rightarrow> bool" where
  "starts_with s p \<longleftrightarrow> take (length p) s = p"

text \<open>The argument is the parsed document; every failure is reported as \<open>VaultTamperedError\<close>.\<close>

definition decodeVaultJson :: "jsval \<Rightarrow> jsval outcome" where
  "decodeVaultJson parsed =
     (case parsed of
        JObj es \<Rightarrow>
          (case get_prop es ''format'' of
             JStr f \<Rightarrow>
               if \<not> starts_with f (js ''line:vault-json/'') then Inr parsed else
               (case (if f \<noteq> js VAULT_FORMAT \<or> map_of es (js ''payload'') = None \<or> length es \<noteq> 2
                      then bad ''Invalid codec version.''
                      else decode_val 0 0 (get_prop es ''payload'')) of
                  Inr (v, c) \<Rightarrow> Inr v
                | Inl e \<Rightarrow>
                    Inl (Throw (NamedError ''VaultTamperedError'' ''Vault JSON payload is malformed or unsupported.'')))
           | _ \<Rightarrow> Inr parsed)
      | _ \<Rightarrow> Inr parsed)"

section \<open>Decoding what was encoded\<close>

declare encode_val.simps [simp del] decode_val.simps [simp del]

lemma js_eq_iff [simp]: "js s = js t \<longleftrightarrow> map of_char s = (map of_char t :: nat list)"
proof -
  have "(of_nat (of_char c) :: 16 word) = of_nat (of_char d) \<longleftrightarrow> of_char c = (of_char d :: nat)" for c d
  proof -
    have "of_char x < (65536 :: nat)" for x by (rule order_less_trans [OF nat_of_char_less_256]) simp
    then show ?thesis by (simp add: word_unat_eq_iff unat_of_nat)
  qed
  then show ?thesis by (induction s arbitrary: t; case_tac t; simp add: js_def)
qed

lemma lower_hex_toHex: "list_all is_lower_hex (toHex bs)"
proof (induction bs)
  case (Cons b bs)
  have "is_lower_hex (hex_digit n)" if "n < 16" for n
    using that by (auto simp: is_lower_hex_def unat_hex_digit)
  with Cons show ?case by (simp add: hex_byte_def unat_byte_div16)
qed simp

lemma encode_decode:
  "encode_val c d v = Inr (t, c') \<Longrightarrow> wf_val v \<Longrightarrow> decode_val c d t = Inr (v, c')"
  "encode_list c d vs = Inr (ts, c') \<Longrightarrow> list_all wf_val vs \<Longrightarrow> decode_list c d ts = Inr (vs, c')"
  "encode_entries c d es = Inr (ts, c') \<Longrightarrow> distinct (map fst es) \<Longrightarrow> list_all (\<lambda>e. wf_val (snd e)) es \<Longrightarrow>
     (\<And>seen. seen \<inter> fst ` set es = {} \<Longrightarrow> decode_entries c d seen ts = Inr (es, c'))"
proof (induction c d v and c d vs and c d es arbitrary: t c' and ts c' and ts c'
    rule: encode_val_encode_list_encode_entries.induct)
  case (1 c d v)
  have lim: "\<not> (c + 1 > MAX_NODES \<or> d > MAX_DEPTH)"
    using "1.prems"(1) by (auto simp: encode_val.simps split: if_splits)
  show ?case
  proof (cases v)
    case (JArr vs)
    with "1.prems" lim obtain ts where
      "encode_list (c + 1) (d + 1) vs = Inr (ts, c')" "t = node2 ''array'' (JArr ts)"
      by (auto simp: encode_val.simps bindS_Inr_iff)
    moreover have "list_all wf_val vs" using "1.prems"(2) JArr by simp
    ultimately show ?thesis
      using "1.IH"(1) [OF lim JArr] lim JArr by (simp add: decode_val.simps node2_def)
  next
    case (JObj es)
    with "1.prems" lim obtain ts where
      "encode_entries (c + 1) (d + 1) es = Inr (ts, c')" "t = node2 ''object'' (JArr ts)"
      by (auto simp: encode_val.simps bindS_Inr_iff)
    moreover have "distinct (map fst es)" "list_all (\<lambda>e. wf_val (snd e)) es"
      using "1.prems"(2) JObj by simp_all
    ultimately show ?thesis
      using "1.IH"(2) [OF lim JObj] lim JObj by (simp add: decode_val.simps node2_def)
  qed (use "1.prems" lim in \<open>auto simp: encode_val.simps decode_val.simps node1_def node2_def
        parse_dec_int lower_hex_toHex split: if_splits\<close>)
next
  case (3 c d v vs)
  then show ?case by (auto simp: bindS_Inr_iff)
next
  case (5 c d k v es)
  then show ?case by (auto simp: bindS_Inr_iff)
qed auto

text \<open>What the decoder accepts: a leaf the encoder would write, or a list of nodes.\<close>

definition leaf :: "jsval \<Rightarrow> bool" where
  "leaf v = (case v of JArr vs \<Rightarrow> False | JObj es \<Rightarrow> False | JOther \<Rightarrow> False | JNum n \<Rightarrow> finite_num n | _ \<Rightarrow> True)"

lemma decode_val_cases:
  assumes "decode_val c d n = Inr (v, c')"
  obtains "leaf v" "c' = c + 1"
  | t ns vs where "n = JArr [JStr t, JArr ns]" "t = js ''array''" "v = JArr vs"
      "decode_list (c + 1) (d + 1) ns = Inr (vs, c')"
  | t ns es where "n = JArr [JStr t, JArr ns]" "t \<noteq> js ''array''" "t = js ''object''" "v = JObj es"
      "decode_entries (c + 1) (d + 1) {} ns = Inr (es, c')"
  using assms
  by (subst (asm) decode_val.simps)
    (auto simp: bad_def leaf_def finite_num_def bindS_Inr_iff
      split: if_splits option.splits jsval.splits list.splits)

lemma encode_leaf:
  "leaf v \<Longrightarrow> \<not> (c + 1 > MAX_NODES \<or> d > MAX_DEPTH) \<Longrightarrow> \<exists>t. encode_val c d v = Inr (t, c + 1)"
  by (cases v) (auto simp: leaf_def encode_val.simps)

lemma leaf_wf: "leaf v \<Longrightarrow> wf_val v"
  by (cases v) (auto simp: leaf_def)

lemma decode_entry_cases:
  assumes "decode_entries c d seen (e # es) = Inr (vs, c')"
  obtains k n v c1 ws where "e = JArr [JStr k, n]" "k \<notin> seen" "decode_val c d n = Inr (v, c1)"
    "decode_entries c1 d (insert k seen) es = Inr (ws, c')" "vs = (k, v) # ws"
  using assms
  by (auto simp: bad_def bindS_Inr_iff split: if_splits jsval.splits list.splits)

lemma decode_encode:
  "decode_val c d t = Inr (v, c') \<Longrightarrow> wf_val v \<and> (\<exists>t'. encode_val c d v = Inr (t', c'))"
  "decode_list c d ts = Inr (vs, c') \<Longrightarrow> list_all wf_val vs \<and> (\<exists>ts'. encode_list c d vs = Inr (ts', c'))"
  "decode_entries c d seen ts = Inr (es, c') \<Longrightarrow>
     distinct (map fst es) \<and> seen \<inter> fst ` set es = {} \<and> list_all (\<lambda>e. wf_val (snd e)) es \<and>
     (\<exists>ts'. encode_entries c d es = Inr (ts', c'))"
proof (induction c d t and c d ts and c d seen ts arbitrary: v c' and vs c' and es c'
    rule: decode_val_decode_list_decode_entries.induct)
  case (1 c d n)
  have lim: "\<not> (c + 1 > MAX_NODES \<or> d > MAX_DEPTH)"
    using "1.prems" by (auto simp: decode_val.simps bad_def split: if_splits)
  from "1.prems" show ?case
  proof (cases rule: decode_val_cases)
    case 1
    then show ?thesis using lim encode_leaf leaf_wf by blast
  next
    case (2 t ns vs)
    with "1.IH"(1) [OF lim 2(1) refl refl refl refl refl 2(2) 2(4)] lim
    show ?thesis by (auto simp: encode_val.simps)
  next
    case (3 t ns es)
    with "1.IH"(2) [OF lim 3(1) refl refl refl refl refl 3(2,3,5)] lim
    show ?thesis by (auto simp: encode_val.simps)
  qed
next
  case (3 c d v vs)
  then show ?case by (fastforce simp: bindS_Inr_iff)
next
  case (5 c d seen e ts)
  from "5.prems" show ?case
  proof (cases rule: decode_entry_cases)
    case (1 k n v c1 ws)
    note shape = 1(1) refl refl refl refl 1(2)
    from "5.IH"(1) [OF shape 1(3)] "5.IH"(2) [OF shape 1(4)] 1(2)
    show ?thesis unfolding 1(5) by (auto simp: bindS_Inr_iff)
  qed
qed auto

lemma vault_encode_decode:
  "encodeVaultJson v = Inr t \<Longrightarrow> wf_val v \<Longrightarrow> decodeVaultJson t = Inr v"
  by (auto simp: encodeVaultJson_def decodeVaultJson_def bindS_Inr_iff get_prop_def starts_with_def
      VAULT_FORMAT_def js_def dest: encode_decode(1))

end
