(* ===== verification/Records.thy ===== *)
theory Records
  imports Vault_Codec Ledger
begin

text \<open>
  The validators of stored records and transfer packages in \<open>src/lib/line/types.ts\<close>. Each takes an
  unknown value, checks it field by field, and returns it unchanged; the first check that fails throws.
  Messages that interpolate a value are kept up to the value.
\<close>

section \<open>Reading an unknown value\<close>

text \<open>
  The properties of \<open>rec as Record\<close> after \<open>!rec || typeof rec !== "object"\<close>: an array or a byte array
  passes that test but has none of the named properties.
\<close>

definition props_of :: "jsval \<Rightarrow> (jsstr \<times> jsval) list option" where
  "props_of v = (case v of JObj es \<Rightarrow> Some es | JArr vs \<Rightarrow> Some [] | JBytes bs \<Rightarrow> Some [] | _ \<Rightarrow> None)"

definition nonempty_str :: "jsval \<Rightarrow> bool" where
  "nonempty_str v = (case v of JStr s \<Rightarrow> s \<noteq> [] | _ \<Rightarrow> False)"

definition is_number :: "jsval \<Rightarrow> bool" where
  "is_number v = (case v of JNum n \<Rightarrow> True | _ \<Rightarrow> False)"

text \<open>\<open>n <= 0\<close> and \<open>n < 0\<close>; every comparison with \<open>NaN\<close> is false.\<close>

definition num_le0 :: "jsval \<Rightarrow> bool" where
  "num_le0 v = (case v of JNum n \<Rightarrow>
     (case n of NInt i \<Rightarrow> i \<le> 0 | NFrac a b \<Rightarrow> a \<le> 0 | NNegZero \<Rightarrow> True | NNegInf \<Rightarrow> True | _ \<Rightarrow> False) | _ \<Rightarrow> False)"

definition num_lt0 :: "jsval \<Rightarrow> bool" where
  "num_lt0 v = (case v of JNum n \<Rightarrow>
     (case n of NInt i \<Rightarrow> i < 0 | NFrac a b \<Rightarrow> a < 0 | NNegInf \<Rightarrow> True | _ \<Rightarrow> False) | _ \<Rightarrow> False)"

text \<open>The integer a number stands for, when it is a safe one (\<open>-0\<close> is).\<close>

definition safe_num :: "jsval \<Rightarrow> int option" where
  "safe_num v = (case v of JNum n \<Rightarrow>
     (case n of NInt i \<Rightarrow> if isSafeInteger i then Some i else None | NNegZero \<Rightarrow> Some 0 | _ \<Rightarrow> None) | _ \<Rightarrow> None)"

text \<open>\<open>typeof v === "number" && Number.isSafeInteger(v) && v >= 0\<close>\<close>

definition safe_uint :: "jsval \<Rightarrow> int option" where
  "safe_uint v = (case safe_num v of Some i \<Rightarrow> if i < 0 then None else Some i | None \<Rightarrow> None)"

definition check :: "bool \<Rightarrow> string \<Rightarrow> unit outcome \<Rightarrow> unit outcome" where
  "check b m k = (if b then k else bad m)"

lemma check_Inr [outcome_ok]: "check b m k = Inr () \<longleftrightarrow> b \<and> k = Inr ()"
  by (simp add: check_def bad_def)

text \<open>\<open>for (const key of keys) if (bad) throw\<close>\<close>

fun check_all :: "string list \<Rightarrow> (string \<Rightarrow> bool) \<Rightarrow> string \<Rightarrow> unit outcome \<Rightarrow> unit outcome" where
  "check_all [] p m k = k"
| "check_all (x # xs) p m k = check (p x) m (check_all xs p m k)"

lemma check_all_Inr [outcome_ok]: "check_all xs p m k = Inr () \<longleftrightarrow> list_all p xs \<and> k = Inr ()"
  by (induction xs) (auto simp: check_Inr)

definition validated :: "jsval \<Rightarrow> string \<Rightarrow> ((jsstr \<times> jsval) list \<Rightarrow> unit outcome) \<Rightarrow> jsval outcome" where
  "validated v m f =
     (case props_of v of None \<Rightarrow> bad m | Some es \<Rightarrow> bindS (f es) (\<lambda>_. Inr v))"

lemma validated_Inr [outcome_ok]:
  "validated v m f = Inr w \<longleftrightarrow> w = v \<and> (\<exists>es. props_of v = Some es \<and> f es = Inr ())"
  by (auto simp: validated_def bad_def bindS_Inr_iff split: option.splits)

section \<open>Fee terms and note amounts\<close>

definition FEE_POLICY :: string where "FEE_POLICY = ''flat-plus-ceil-bps-v1''"

definition validateQuoteFeeTerms :: "(jsstr \<times> jsval) list \<Rightarrow> unit outcome" where
  "validateQuoteFeeTerms r =
     check (get_prop r ''feePolicy'' = JStr (js FEE_POLICY))
       ''Missing or unsupported issuer fee policy. Obtain a newly priced quote.''
    (check_all [''amount'', ''feeFlat'', ''feeBps'', ''fee'']
       (\<lambda>k. safe_uint (get_prop r k) \<noteq> None) ''Invalid quote amount''
    (check (\<not> num_le0 (get_prop r ''amount'')) ''Invalid quote amount''
    (bindS (requiredDrawFee (the (safe_uint (get_prop r ''amount'')))
              (the (safe_uint (get_prop r ''feeFlat''))) (the (safe_uint (get_prop r ''feeBps'')))) (\<lambda>expected.
      check (the (safe_uint (get_prop r ''fee'')) = expected)
        ''Agreed quote fee does not match issuer policy'' (Inr ())))))"

definition validateNoteAmounts :: "(jsstr \<times> jsval) list \<Rightarrow> unit outcome" where
  "validateNoteAmounts r =
     (case safe_num (get_prop r ''amount'') of
        None \<Rightarrow> bad ''Invalid note amount''
      | Some a \<Rightarrow>
        if a \<le> 0 then bad ''Invalid note amount'' else
        (case safe_uint (get_prop r ''fee'') of
           None \<Rightarrow> bad ''Missing or invalid note fee''
         | Some f \<Rightarrow>
           if \<not> isSafeInteger (fadd a f) then bad ''Note cost exceeds safe integer range'' else Inr ()))"

section \<open>Records\<close>

definition validateAgentLineRecord :: "jsval \<Rightarrow> jsval outcome" where
  "validateAgentLineRecord rec = validated rec ''Invalid AgentLineRecord: expected object'' (\<lambda>r.
     check (get_prop r ''version'' = JNum (NInt 1)) ''Invalid AgentLineRecord version''
    (check_all [''networkId'', ''contractAddress'', ''contractDomain'', ''agentSecret'', ''lineCommitment'']
       (\<lambda>k. nonempty_str (get_prop r k)) ''Missing field in AgentLineRecord''
    (check (is_number (get_prop r ''limit'') \<and> \<not> num_le0 (get_prop r ''limit''))
       ''Invalid limit in AgentLineRecord''
    (check (safe_uint (get_prop r ''feeFlat'') \<noteq> None) ''Missing or invalid feeFlat in AgentLineRecord''
    (check (\<exists>b. safe_uint (get_prop r ''feeBps'') = Some b \<and> \<not> b > 10000)
       ''Missing or invalid feeBps in AgentLineRecord''
    (check (is_number (get_prop r ''outstanding'') \<and> \<not> num_lt0 (get_prop r ''outstanding''))
       ''Invalid outstanding balance in AgentLineRecord''
    (check (is_number (get_prop r ''epoch'') \<and> \<not> num_lt0 (get_prop r ''epoch''))
       ''Invalid epoch in AgentLineRecord''
    (check (nonempty_str (get_prop r ''salt'')) ''Missing salt in AgentLineRecord'' (Inr ())))))))))"

definition validateMerchantQuoteRecord :: "jsval \<Rightarrow> jsval outcome" where
  "validateMerchantQuoteRecord rec = validated rec ''Invalid MerchantQuoteRecord: expected object'' (\<lambda>r.
     check (get_prop r ''version'' = JNum (NInt 1)) ''Invalid MerchantQuoteRecord version''
    (check (nonempty_str (get_prop r ''quoteCommitment'')) ''Missing quoteCommitment in MerchantQuoteRecord''
    (check (is_number (get_prop r ''amount'') \<and> \<not> num_le0 (get_prop r ''amount''))
       ''Invalid amount in MerchantQuoteRecord''
    (check (nonempty_str (get_prop r ''quoteNonce'')) ''Missing quoteNonce in MerchantQuoteRecord''
    (check (nonempty_str (get_prop r ''merchantPublicKey'')) ''Missing merchantPublicKey in MerchantQuoteRecord''
      (validateQuoteFeeTerms r))))))"

definition validateDrawNoteRecord :: "jsval \<Rightarrow> jsval outcome" where
  "validateDrawNoteRecord rec = validated rec ''Invalid DrawNoteRecord: expected object'' (\<lambda>r.
     check (get_prop r ''version'' = JNum (NInt 1)) ''Invalid DrawNoteRecord version''
    (check (nonempty_str (get_prop r ''noteCommitment'')) ''Missing noteCommitment in DrawNoteRecord''
    (check (nonempty_str (get_prop r ''merchantPublicKey'')) ''Missing merchantPublicKey in DrawNoteRecord''
    (bindS (validateNoteAmounts r) (\<lambda>_.
     check (nonempty_str (get_prop r ''noteNonce'')) ''Missing noteNonce in DrawNoteRecord''
    (check (nonempty_str (get_prop r ''noteSalt'')) ''Missing noteSalt in DrawNoteRecord'' (Inr ())))))))"

definition validateRefundRecord :: "jsval \<Rightarrow> jsval outcome" where
  "validateRefundRecord rec = validated rec ''Invalid RefundRecord: expected object'' (\<lambda>r.
     check (get_prop r ''version'' = JNum (NInt 1)) ''Invalid RefundRecord version''
    (check_all [''networkId'', ''contractAddress'', ''contractDomain'', ''identityCommitment'',
        ''noteCommitment'', ''refundCommitment'', ''salt'']
       (\<lambda>k. nonempty_str (get_prop r k)) ''Missing field in RefundRecord''
    (check_all [''lineGeneration'', ''amount'', ''allocatedCredit'', ''updatedAt'']
       (\<lambda>k. safe_uint (get_prop r k) \<noteq> None) ''Invalid number in RefundRecord''
    (check (isSafeInteger (fadd (the (safe_uint (get_prop r ''amount'')))
              (the (safe_uint (get_prop r ''allocatedCredit''))))) ''Invalid refund cost''
    (check (get_prop r ''status'' = JStr (js ''allocated'') \<or> get_prop r ''status'' = JStr (js ''issuer-reported''))
       ''Invalid RefundRecord status''
    (check (map_of r (js ''issuerReportObserved'') = None \<or>
            (\<exists>b. get_prop r ''issuerReportObserved'' = JBool b))
       ''Invalid issuerReportObserved in RefundRecord''
    (check (get_prop r ''status'' = JStr (js ''issuer-reported'') \<longrightarrow>
        (case get_prop r ''paymentReference'' of JStr s \<Rightarrow> trim s \<noteq> [] | _ \<Rightarrow> False) \<and>
        safe_uint (get_prop r ''receiptExpiry'') \<noteq> None \<and> safe_uint (get_prop r ''amount'') \<noteq> Some 0)
       ''Missing issuer refund report terms'' (Inr ()))))))))"

section \<open>Transfer packages\<close>

text \<open>\<open>expected && p.key !== expected\<close>\<close>

definition matches :: "jsstr option \<Rightarrow> jsval \<Rightarrow> bool" where
  "matches expected v = (case truthy expected of Some s \<Rightarrow> v = JStr s | None \<Rightarrow> True)"

definition validateQuoteTransferPackage :: "jsval \<Rightarrow> jsstr option \<Rightarrow> jsstr option \<Rightarrow> jsval outcome" where
  "validateQuoteTransferPackage pkg network contract =
     validated pkg ''Invalid QuoteTransferPackage: expected object'' (\<lambda>p.
     check (get_prop p ''format'' = JStr (js ''line:quote-package:v3'') \<and>
            get_prop p ''deadlineUnits'' = JStr (js ''unix-seconds''))
       ''Unsupported quote fee/deadline format. Obtain a new v3 issuer-priced Unix-seconds quote package; legacy terms cannot be migrated automatically.''
    (check (safe_uint (get_prop p ''expiry'') \<noteq> None) ''Invalid Unix-seconds quote deadline''
    (check (matches network (get_prop p ''networkId'')) ''Quote network mismatch''
    (check (matches contract (get_prop p ''contractAddress'')) ''Quote contract mismatch''
    (check (nonempty_str (get_prop p ''quoteCommitment'')) ''Missing quoteCommitment in QuoteTransferPackage''
    (check (is_number (get_prop p ''amount'') \<and> \<not> num_le0 (get_prop p ''amount'')) ''Invalid quote amount''
    (check (nonempty_str (get_prop p ''quoteNonce'')) ''Missing quoteNonce in package''
      (validateQuoteFeeTerms p))))))))"

definition validateDrawNoteTransferPackage :: "jsval \<Rightarrow> jsstr option \<Rightarrow> jsstr option \<Rightarrow> jsval outcome" where
  "validateDrawNoteTransferPackage pkg network contract =
     validated pkg ''Invalid DrawNoteTransferPackage: expected object'' (\<lambda>p.
     check (get_prop p ''format'' = JStr (js ''line:note-package:v3'') \<and>
            get_prop p ''deadlineUnits'' = JStr (js ''unix-seconds''))
       ''Unsupported note fee/deadline format. Obtain a matching v3 fee-bound Unix-seconds note package; legacy notes cannot be relabelled.''
    (check (safe_uint (get_prop p ''expiry'') \<noteq> None) ''Invalid Unix-seconds note deadline''
    (check (matches network (get_prop p ''networkId'')) ''DrawNote network mismatch''
    (check (matches contract (get_prop p ''contractAddress'')) ''DrawNote contract mismatch''
    (check (nonempty_str (get_prop p ''noteCommitment'')) ''Missing noteCommitment in DrawNoteTransferPackage''
    (check (nonempty_str (get_prop p ''merchantPublicKey'')) ''Missing merchantPublicKey in package''
    (bindS (validateNoteAmounts p) (\<lambda>_.
     check (nonempty_str (get_prop p ''noteNonce'')) ''Missing noteNonce in package''
    (check (nonempty_str (get_prop p ''noteSalt'')) ''Missing noteSalt in package'' (Inr ()))))))))))"

section \<open>What acceptance means\<close>

lemma safe_uint_bounds: "safe_uint v = Some n \<Longrightarrow> 0 \<le> n \<and> n \<le> max_safe"
  by (auto simp: safe_uint_def safe_num_def isSafeInteger_def max_safe_def
      split: option.splits if_splits jsval.splits jsnum.splits)

lemma safe_uint_le0: "safe_uint v = Some n \<Longrightarrow> num_le0 v \<longleftrightarrow> n = 0"
  by (auto simp: safe_uint_def safe_num_def num_le0_def
      split: option.splits if_splits jsval.splits jsnum.splits)

lemma validateQuoteFeeTerms_ok:
  "validateQuoteFeeTerms r = Inr () \<longleftrightarrow>
     get_prop r ''feePolicy'' = JStr (js FEE_POLICY) \<and>
     (\<exists>a flat bps fee. safe_uint (get_prop r ''amount'') = Some a \<and>
        safe_uint (get_prop r ''feeFlat'') = Some flat \<and> safe_uint (get_prop r ''feeBps'') = Some bps \<and>
        safe_uint (get_prop r ''fee'') = Some fee \<and> 0 < a \<and> requiredDrawFee a flat bps = Inr fee)"
  using safe_uint_bounds [of "get_prop r ''amount''"] safe_uint_le0 [of "get_prop r ''amount''"]
  by (auto simp: validateQuoteFeeTerms_def outcome_ok)

lemma validateNoteAmounts_ok:
  "validateNoteAmounts r = Inr () \<longleftrightarrow>
     (\<exists>a f. safe_uint (get_prop r ''amount'') = Some a \<and> safe_uint (get_prop r ''fee'') = Some f \<and>
        0 < a \<and> a + f \<le> max_safe)"
proof -
  have exact: "isSafeInteger (fadd a f) \<longleftrightarrow> a + f \<le> max_safe" if "0 < a" "0 \<le> f" for a f
  proof
    assume "isSafeInteger (fadd a f)"
    then have "fadd a f = a + f" using that by (intro fadd_safe) (auto simp: isSafeInteger_def)
    with \<open>isSafeInteger (fadd a f)\<close> show "a + f \<le> max_safe" by (simp add: isSafeInteger_def)
  next
    assume "a + f \<le> max_safe"
    then show "isSafeInteger (fadd a f)"
      using that by (simp add: fadd_exact isSafeInteger_def max_safe_def)
  qed
  show ?thesis
    using exact safe_uint_bounds [of "get_prop r ''fee''"]
    by (auto simp: validateNoteAmounts_def safe_uint_def bad_def split: option.splits if_splits)
qed

end
