(* ===== verification/Records_Properties.thy ===== *)
theory Records_Properties
  imports Records "HOL-Library.AList"
begin

text \<open>
  Properties of the stored-record codec and of the validators of records and transfer packages.
\<close>

section \<open>Helpers\<close>

definition tagged :: "jsval \<Rightarrow> bool" where
  "tagged t = (case t of
     JObj es \<Rightarrow> (case get_prop es ''format'' of JStr f \<Rightarrow> starts_with f (js ''line:vault-json/'') | _ \<Rightarrow> False)
   | _ \<Rightarrow> False)"

lemma get_prop_update:
  "get_prop (AList.update (js k) v es) k' = (if js k = js k' then v else get_prop es k')"
  by (auto simp: get_prop_def update_conv)

lemma decode_tagged:
  assumes "decodeVaultJson t = Inr v" "tagged t"
  obtains n c' where "decode_val 0 0 n = Inr (v, c')"
  using assms
  by (auto simp: decodeVaultJson_def tagged_def bad_def split: jsval.splits if_splits sum.splits)

definition positive_num :: "jsnum \<Rightarrow> bool" where
  "positive_num n = (case n of NInt i \<Rightarrow> 0 < i | NFrac a b \<Rightarrow> 0 < a | NPosInf \<Rightarrow> True | _ \<Rightarrow> False)"

lemma num_le0_JNum: "num_le0 (JNum n) \<longleftrightarrow> \<not> positive_num n \<and> n \<noteq> NNaN"
  by (cases n) (auto simp: num_le0_def positive_num_def)

text \<open>Example records.\<close>

definition str :: "string \<Rightarrow> jsval" where "str s = JStr (js s)"
definition num :: "int \<Rightarrow> jsval" where "num n = JNum (NInt n)"

definition sample_line :: "(jsstr \<times> jsval) list" where
  "sample_line = js_entries
     [(''version'', num 1), (''networkId'', str ''undeployed''), (''contractAddress'', str ''0a''),
      (''contractDomain'', str ''0b''), (''agentSecret'', str ''0c''), (''lineCommitment'', str ''0d''),
      (''limit'', num 1000), (''feeFlat'', num 2), (''feeBps'', num 100), (''outstanding'', num 0),
      (''epoch'', num 0), (''salt'', str ''0e'')]"

definition sample_quote :: "(jsstr \<times> jsval) list" where
  "sample_quote = js_entries
     [(''format'', str ''line:quote-package:v3''), (''deadlineUnits'', str ''unix-seconds''),
      (''networkId'', str ''undeployed''), (''contractAddress'', str ''0a''), (''expiry'', num 100),
      (''quoteCommitment'', str ''0b''), (''quoteNonce'', str ''0c''), (''amount'', num 150),
      (''feePolicy'', str FEE_POLICY), (''feeFlat'', num 2), (''feeBps'', num 100), (''fee'', num 4)]"

definition sample_note :: "(jsstr \<times> jsval) list" where
  "sample_note = js_entries
     [(''format'', str ''line:note-package:v3''), (''deadlineUnits'', str ''unix-seconds''),
      (''networkId'', str ''undeployed''), (''contractAddress'', str ''0a''), (''expiry'', num 100),
      (''noteCommitment'', str ''0b''), (''merchantPublicKey'', str ''0c''), (''amount'', num 150),
      (''fee'', num 4), (''noteNonce'', str ''0d''), (''noteSalt'', str ''0e'')]"

definition sample_refund :: "(jsstr \<times> jsval) list" where
  "sample_refund = js_entries
     [(''version'', num 1), (''networkId'', str ''undeployed''), (''contractAddress'', str ''0a''),
      (''contractDomain'', str ''0b''), (''identityCommitment'', str ''0c''), (''noteCommitment'', str ''0d''),
      (''refundCommitment'', str ''0e''), (''salt'', str ''0f''), (''lineGeneration'', num 1), (''amount'', num 40),
      (''allocatedCredit'', num 110), (''updatedAt'', num 7), (''status'', str ''issuer-reported''),
      (''paymentReference'', str ''wire-1''), (''receiptExpiry'', num 99)]"

lemmas sample_eval = js_entries_def str_def num_def get_prop_def js_def FEE_POLICY_def

lemmas validator_eval = validated_def check_def check_all.simps props_of_def safe_uint_def safe_num_def
  isSafeInteger_def max_safe_def num_le0_def num_lt0_def is_number_def nonempty_str_def matches_def truthy_def
  requiredDrawFee_def uint64_max_def

section \<open>The codec\<close>

text \<open>
  Reading back what the vault encoded gives the value that was encoded, and no other value has
  the same encoding: special values (\<open>-0\<close>, byte arrays, big integers, \<open>undefined\<close>) cannot be
  confused with application data that looks like their tags.\<close>
lemma vault_roundtrip:
  assumes "encodeVaultJson v = Inr t" "wf_val v"
  shows "decodeVaultJson t = Inr v \<and> (\<forall>w. wf_val w \<longrightarrow> encodeVaultJson w = Inr t \<longrightarrow> w = v)"
proof (intro conjI allI impI)
  show "decodeVaultJson t = Inr v" using assms by (rule vault_encode_decode)
next
  fix w assume "wf_val w" "encodeVaultJson w = Inr t"
  then have "decodeVaultJson t = Inr w" by (intro vault_encode_decode)
  with vault_encode_decode [OF assms] show "w = v" by simp
qed

lemma vault_roundtrip_witness:
  "\<exists>t. decodeVaultJson t = Inr (JObj [(js ''marker'', JArr [str ''bytes'', str ''abcd'', JBytes [171], JNum NNegZero])])"
proof -
  let ?v = "JObj [(js ''marker'', JArr [str ''bytes'', str ''abcd'', JBytes [171], JNum NNegZero])]"
  have "\<exists>t. encodeVaultJson ?v = Inr t"
    by (simp add: encodeVaultJson_def encode_val.simps MAX_NODES_def MAX_DEPTH_def str_def finite_num_def)
  moreover have "wf_val ?v" by (simp add: str_def)
  ultimately show ?thesis using vault_roundtrip by blast
qed

text \<open>
  Decoding a document that carries the vault's format tag gives a well-formed value that can be
  encoded and read back again, so reading never accepts what could not be saved; and a document
  that is refused is always reported as \<open>VaultTamperedError\<close>.\<close>
lemma vault_decode_sound:
  assumes "tagged t"
  shows "case decodeVaultJson t of
      Inr v \<Rightarrow> wf_val v \<and> (\<exists>t'. encodeVaultJson v = Inr t' \<and> decodeVaultJson t' = Inr v)
    | Inl e \<Rightarrow> e = Throw (NamedError ''VaultTamperedError'' ''Vault JSON payload is malformed or unsupported.'')"
proof (cases "decodeVaultJson t")
  case (Inr v)
  then obtain n c' where "decode_val 0 0 n = Inr (v, c')" using assms decode_tagged by blast
  from decode_encode(1) [OF this] obtain t' where "wf_val v" "encode_val 0 0 v = Inr (t', c')" by blast
  then obtain d where "encodeVaultJson v = Inr d" by (auto simp: encodeVaultJson_def)
  with \<open>wf_val v\<close> Inr show ?thesis using vault_encode_decode by auto
next
  case (Inl e)
  with assms show ?thesis
    by (auto simp: decodeVaultJson_def tagged_def split: jsval.splits if_splits sum.splits)
qed

lemma vault_decode_sound_witness:
  "case decodeVaultJson (JObj (js_entries [(''format'', str VAULT_FORMAT), (''payload'', node2 ''bytes'' (str ''0aF''))])) of
      Inr v \<Rightarrow> False
    | Inl e \<Rightarrow> e = Throw (NamedError ''VaultTamperedError'' ''Vault JSON payload is malformed or unsupported.'')"
proof -
  let ?t = "JObj (js_entries [(''format'', str VAULT_FORMAT), (''payload'', node2 ''bytes'' (str ''0aF''))])"
  have "tagged ?t" by (simp add: tagged_def sample_eval VAULT_FORMAT_def starts_with_def)
  moreover have "\<exists>e. decodeVaultJson ?t = Inl e"
    by (simp add: decodeVaultJson_def decode_val.simps sample_eval VAULT_FORMAT_def starts_with_def
        node2_def MAX_NODES_def MAX_DEPTH_def bad_def)
  ultimately show ?thesis using vault_decode_sound [of ?t] by auto
qed

section \<open>Packages and records\<close>

text \<open>
  C40. A quote package that is accepted is unchanged, was meant for the network and contract the
  caller asked about, carries a safe integer deadline and a positive safe integer amount, and its fee
  is exactly the flat fee plus the basis points of the amount rounded up, within the protocol's
  bounds on all four numbers.\<close>
lemma quote_package_priced:
  assumes "validateQuoteTransferPackage pkg network contract = Inr q"
  shows "q = pkg \<and> (\<exists>p a flat bps fee.
     props_of pkg = Some p \<and>
     (\<forall>n. network = Some n \<longrightarrow> n \<noteq> [] \<longrightarrow> get_prop p ''networkId'' = JStr n) \<and>
     (\<forall>c. contract = Some c \<longrightarrow> c \<noteq> [] \<longrightarrow> get_prop p ''contractAddress'' = JStr c) \<and>
     safe_uint (get_prop p ''expiry'') \<noteq> None \<and>
     safe_uint (get_prop p ''amount'') = Some a \<and> safe_uint (get_prop p ''feeFlat'') = Some flat \<and>
     safe_uint (get_prop p ''feeBps'') = Some bps \<and> safe_uint (get_prop p ''fee'') = Some fee \<and>
     0 < a \<and> bps \<le> 10000 \<and> fee = flat + (a * bps + 9999) div 10000)"
proof -
  from assms obtain p where "q = pkg" "props_of pkg = Some p"
      "matches network (get_prop p ''networkId'')" "matches contract (get_prop p ''contractAddress'')"
      "safe_uint (get_prop p ''expiry'') \<noteq> None" "validateQuoteFeeTerms p = Inr ()"
    by (auto simp: validateQuoteTransferPackage_def outcome_ok)
  then show ?thesis
    by (auto simp: validateQuoteFeeTerms_ok matches_def requiredDrawFee_ok truthy_def split: option.splits if_splits)
qed

lemma quote_package_priced_witness:
  "(4 :: int) = 2 + (150 * 100 + 9999) div 10000 \<and>
   get_prop sample_quote ''networkId'' = JStr (js ''undeployed'')"
proof -
  have "validateQuoteTransferPackage (JObj sample_quote) (Some (js ''undeployed'')) None = Inr (JObj sample_quote)"
    by (simp add: validateQuoteTransferPackage_def validateQuoteFeeTerms_def sample_quote_def sample_eval validator_eval)
  from quote_package_priced [OF this] show ?thesis
    by (auto simp: sample_quote_def sample_eval props_of_def)
qed

text \<open>
  A note package whose other fields are in order is accepted exactly when its amount is a positive
  and its fee a non-negative safe integer whose sum is still exact in a JavaScript number; the
  floating-point sum the code tests never hides an overflow.\<close>
lemma note_package_cost_exact:
  assumes "validateDrawNoteTransferPackage (JObj p) network contract = Inr q"
  defines "p' \<equiv> \<lambda>m f. AList.update (js ''fee'') f (AList.update (js ''amount'') m p)"
  shows "validateDrawNoteTransferPackage (JObj (p' m f)) network contract = Inr (JObj (p' m f)) \<longleftrightarrow>
    (\<exists>a c. safe_uint m = Some a \<and> safe_uint f = Some c \<and> 0 < a \<and> a + c \<le> max_safe)"
proof -
  have others: "get_prop (p' m f) k = get_prop p k" if "js k \<noteq> js ''amount''" "js k \<noteq> js ''fee''" for k
    using that unfolding p'_def by (simp only: get_prop_update) simp
  have "get_prop (p' m f) ''amount'' = m" "get_prop (p' m f) ''fee'' = f"
    by (simp_all add: p'_def get_prop_update)
  with assms(1) show ?thesis
    by (simp add: validateDrawNoteTransferPackage_def outcome_ok validateNoteAmounts_ok props_of_def others)
qed

lemma note_package_cost_exact_witness:
  "validateDrawNoteTransferPackage (JObj (AList.update (js ''fee'') (num 4) (AList.update (js ''amount'') (num (max_safe - 3)) sample_note)))
     None None \<noteq> Inr (JObj (AList.update (js ''fee'') (num 4) (AList.update (js ''amount'') (num (max_safe - 3)) sample_note)))"
proof -
  have "validateDrawNoteTransferPackage (JObj sample_note) None None = Inr (JObj sample_note)"
    by (simp add: validateDrawNoteTransferPackage_def validateNoteAmounts_def sample_note_def
        fadd_exact sample_eval validator_eval)
  from note_package_cost_exact [OF this, where m = "num (max_safe - 3)" and f = "num 4"] show ?thesis
    by (simp add: num_def validator_eval)
qed

text \<open>
  The limit of a line record is only compared with zero: replacing it in an accepted record by
  any number is accepted exactly when the number is positive or is \<open>NaN\<close>, so \<open>NaN\<close>,
  \<open>Infinity\<close> and fractional limits all pass, unlike the fee fields, which must be safe integers.\<close>
lemma agent_line_limit_check:
  assumes "validateAgentLineRecord (JObj r) = Inr q"
  shows "(\<forall>n. validateAgentLineRecord (JObj (AList.update (js ''limit'') (JNum n) r))
        = Inr (JObj (AList.update (js ''limit'') (JNum n) r)) \<longleftrightarrow> positive_num n \<or> n = NNaN) \<and>
    (\<forall>n. validateAgentLineRecord (JObj (AList.update (js ''feeFlat'') (JNum n) r))
        = Inr (JObj (AList.update (js ''feeFlat'') (JNum n) r)) \<longleftrightarrow> safe_uint (JNum n) \<noteq> None)"
  using assms
  by (simp add: validateAgentLineRecord_def outcome_ok props_of_def get_prop_update num_le0_JNum is_number_def)

lemma agent_line_limit_check_witness:
  "validateAgentLineRecord (JObj (AList.update (js ''limit'') (JNum NNaN) sample_line))
     = Inr (JObj (AList.update (js ''limit'') (JNum NNaN) sample_line))"
proof -
  have "validateAgentLineRecord (JObj sample_line) = Inr (JObj sample_line)"
    by (simp add: validateAgentLineRecord_def sample_line_def sample_eval validator_eval)
  from agent_line_limit_check [OF this] show ?thesis by simp
qed

text \<open>
  An accepted refund record that claims an issuer report names a payment reference that is not
  blank, a safe integer receipt expiry and a positive amount; whatever its status, the amount and the
  credit allocated to debt add up exactly, and it names one of the two states of a refund.\<close>
lemma refund_record_terms:
  assumes "validateRefundRecord v = Inr w"
  shows "w = v \<and> (\<exists>r a c. props_of v = Some r \<and>
     safe_uint (get_prop r ''amount'') = Some a \<and> safe_uint (get_prop r ''allocatedCredit'') = Some c \<and>
     a + c \<le> max_safe \<and>
     (get_prop r ''status'' = str ''allocated'' \<or>
      get_prop r ''status'' = str ''issuer-reported'' \<and> 0 < a \<and>
      safe_uint (get_prop r ''receiptExpiry'') \<noteq> None \<and>
      (\<exists>s. get_prop r ''paymentReference'' = JStr s \<and> trim s \<noteq> [])))"
proof -
  from assms obtain r a c where "w = v" "props_of v = Some r" and
      ac: "safe_uint (get_prop r ''amount'') = Some a" "safe_uint (get_prop r ''allocatedCredit'') = Some c"
        "isSafeInteger (fadd a c)" and
      status: "get_prop r ''status'' = str ''allocated'' \<or> get_prop r ''status'' = str ''issuer-reported''"
        "get_prop r ''status'' = str ''issuer-reported'' \<longrightarrow>
          (case get_prop r ''paymentReference'' of JStr s \<Rightarrow> trim s \<noteq> [] | _ \<Rightarrow> False) \<and>
          safe_uint (get_prop r ''receiptExpiry'') \<noteq> None \<and> safe_uint (get_prop r ''amount'') \<noteq> Some 0"
    by (auto simp: validateRefundRecord_def outcome_ok str_def)
  moreover have "a + c \<le> max_safe"
    using safe_uint_bounds [OF ac(1)] safe_uint_bounds [OF ac(2)] ac(3) fadd_safe [of a c]
    by (simp add: isSafeInteger_def)
  moreover have "0 \<le> a" using safe_uint_bounds [OF ac(1)] by simp
  ultimately show ?thesis by (force split: jsval.splits)
qed

lemma refund_record_terms_witness:
  "(40 :: int) + 110 \<le> max_safe \<and> trim (js ''wire-1'') \<noteq> []"
proof -
  have "validateRefundRecord (JObj sample_refund) = Inr (JObj sample_refund)"
    by (simp add: validateRefundRecord_def sample_refund_def fadd_exact trim_def is_space_def sample_eval validator_eval)
  from refund_record_terms [OF this] show ?thesis
    by (simp add: props_of_def) (simp add: trim_def is_space_def sample_refund_def sample_eval validator_eval)
qed

end
