(* ===== verification/Journal.thy ===== *)
theory Journal
  imports Records "HOL-Library.Monad_Syntax"
begin

text \<open>
  The operation journal of \<open>src/lib/security/operation-journal.ts\<close>: the durable record of the intents a
  client has prepared and submitted, which is what lets it recover after a crash without submitting
  twice. Types, normalisation and validation come first, then the operations of an exclusive lease.
  The stored document is a value (\<open>jsval\<close>); a record read from it is typed.
\<close>

section \<open>Types\<close>

definition OPERATION_JOURNAL_SCHEMA :: string where "OPERATION_JOURNAL_SCHEMA = ''line:operation-journal/v2''"
definition MAX_JOURNAL_OPERATIONS :: nat where "MAX_JOURNAL_OPERATIONS = 1000"

definition OPERATION_KINDS :: "string list" where
  "OPERATION_KINDS =
     [''registerMerchant'', ''disableMerchant'', ''fundReserve'', ''withdrawUnencumberedReserve'',
      ''withdrawFees'', ''openLine'', ''postQuote'', ''draw'', ''redeemDraw'', ''cancelOrExpireNote'',
      ''acknowledgeRepayment'', ''setStatus'']"

datatype op_status = OpPrepared | OpSubmitting | OpUncertain | OpConfirmed | OpRejected

primrec status_name :: "op_status \<Rightarrow> string" where
  "status_name OpPrepared = ''prepared''"
| "status_name OpSubmitting = ''submitting''"
| "status_name OpUncertain = ''uncertain''"
| "status_name OpConfirmed = ''confirmed''"
| "status_name OpRejected = ''rejected''"

record journal_scope =
  sc_networkId :: jsstr
  sc_contractAddress :: jsstr
  sc_sourceFingerprint :: jsstr

record prepared_op =
  jo_id :: jsstr
  jo_kind :: jsstr
  jo_fingerprint :: jsstr
  jo_before :: "jsstr option"
  jo_candidate :: "jsstr option"
  jo_beforeSnapshot :: jsval
  jo_candidateSnapshot :: jsval
  jo_effect :: jsval

text \<open>\<open>expectedEffect\<close> and \<open>receipt\<close> are kept as the values they are, \<^verbatim>\<open>JNull\<close> for \<open>null\<close>.\<close>

record journal_op = prepared_op +
  jo_sequence :: int
  jo_status :: op_status
  jo_createdAt :: int
  jo_updatedAt :: int
  jo_acknowledged :: bool
  jo_transactionId :: "jsstr option"
  jo_receipt :: jsval
  jo_compacted :: bool

record journal =
  jr_scope :: journal_scope
  jr_revision :: int
  jr_operations :: "journal_op list"

datatype confirm_kind =
    DefiniteReceipt jsval
  | ObservedCandidate jsval
  | ObservedEffect jsval
  | OtherConfirmation

record confirm_evidence =
  ce_scope :: journal_scope
  ce_transactionId :: "jsstr option"
  ce_kind :: confirm_kind

text \<open>\<open>lineCommitment\<close> of a rejection is \<^verbatim>\<open>JUndefined\<close> when absent.\<close>

record reject_evidence =
  re_scope :: journal_scope
  re_transactionId :: "jsstr option"
  re_definite :: bool
  re_lineCommitment :: jsval

definition conflict :: "string \<Rightarrow> 'a outcome" where
  "conflict m = Inl (Throw (NamedError ''OperationJournalConflictError'' m))"

definition invalid :: "string \<Rightarrow> 'a outcome" where
  "invalid m = Inl (Throw (TypeError m))"

definition tampered :: "'a outcome" where
  "tampered = Inl (Throw (NamedError ''VaultTamperedError'' ''Invalid or mismatched encrypted operation journal.''))"

section \<open>Normalisation\<close>

definition lower_char :: "16 word \<Rightarrow> 16 word" where
  "lower_char c = (if 65 \<le> unat c \<and> unat c \<le> 90 then c + 32 else c)"

definition lower_alnum :: "16 word \<Rightarrow> bool" where
  "lower_alnum c \<longleftrightarrow> is_digit c \<or> (97 \<le> unat c \<and> unat c \<le> 122)"

definition id_char :: "16 word \<Rightarrow> bool" where
  "id_char c \<longleftrightarrow> lower_alnum c \<or> (65 \<le> unat c \<and> unat c \<le> 90) \<or> unat c \<in> {95, 46, 58, 45}"

text \<open>\<open>/^(?:0x)?[0-9a-fA-F]{64}$/\<close>; a \<open>0x\<close> can only be the prefix, since \<open>x\<close> is no digit.\<close>

definition hex :: "jsval \<Rightarrow> string \<Rightarrow> jsstr outcome" where
  "hex v label =
     (case v of
        JStr s \<Rightarrow>
          if length (strip_0x s) = 64 \<and> list_all is_hex (strip_0x s) then Inr (map lower_char (strip_0x s))
          else invalid (''Invalid '' @ label @ ''.'')
      | _ \<Rightarrow> invalid (''Invalid '' @ label @ ''.''))"

definition commitment :: "jsval \<Rightarrow> string \<Rightarrow> jsstr option outcome" where
  "commitment v label = (if v = JNull then Inr None else bindS (hex v label) (\<lambda>h. Inr (Some h)))"

definition opt_str :: "jsstr option \<Rightarrow> jsval" where
  "opt_str c = (case c of Some s \<Rightarrow> JStr s | None \<Rightarrow> JNull)"

definition valid_network :: "jsstr \<Rightarrow> bool" where
  "valid_network s \<longleftrightarrow> s \<noteq> [] \<and> length s \<le> 80 \<and> lower_alnum (hd s) \<and>
     list_all (\<lambda>c. lower_alnum c \<or> unat c \<in> {95, 45}) (tl s)"

definition normalizeScope :: "journal_scope \<Rightarrow> journal_scope outcome" where
  "normalizeScope s =
     (if \<not> valid_network (sc_networkId s) then invalid ''Invalid journal network scope.'' else
      bindS (hex (JStr (sc_contractAddress s)) ''journal contract scope'') (\<lambda>c.
      bindS (hex (JStr (sc_sourceFingerprint s)) ''journal source fingerprint'') (\<lambda>f.
      Inr \<lparr>sc_networkId = sc_networkId s, sc_contractAddress = c, sc_sourceFingerprint = f\<rparr>)))"

definition sameScope :: "journal_scope \<Rightarrow> journal_scope \<Rightarrow> bool" where
  "sameScope a b \<longleftrightarrow> sc_networkId a = sc_networkId b \<and> sc_contractAddress a = sc_contractAddress b \<and>
     sc_sourceFingerprint a = sc_sourceFingerprint b"

definition clone :: "jsval \<Rightarrow> jsval outcome" where
  "clone v = bindS (encodeVaultJson v) decodeVaultJson"

text \<open>\<open>encodeVaultJson(a) === encodeVaultJson(b)\<close>\<close>

definition same_encoding :: "jsval \<Rightarrow> jsval \<Rightarrow> bool outcome" where
  "same_encoding a b = bindS (encodeVaultJson a) (\<lambda>x. bindS (encodeVaultJson b) (\<lambda>y. Inr (x = y)))"

definition exactKeys :: "(jsstr \<times> jsval) list \<Rightarrow> string list \<Rightarrow> bool" where
  "exactKeys es keys \<longleftrightarrow> length es = length keys \<and> list_all (\<lambda>k. js k \<in> fst ` set es) keys"

definition validId :: "jsstr \<Rightarrow> bool" where
  "validId s \<longleftrightarrow> 1 \<le> length s \<and> length s \<le> 160 \<and> list_all id_char s"

definition validTx :: "jsstr \<Rightarrow> bool" where
  "validTx s \<longleftrightarrow> 1 \<le> length s \<and> length s \<le> 256 \<and> list_all id_char s"

text \<open>\<open>value === undefined || validTx(value)\<close>\<close>

definition optional_tx :: "jsval \<Rightarrow> bool" where
  "optional_tx v = (case v of JUndefined \<Rightarrow> True | JStr s \<Rightarrow> validTx s | _ \<Rightarrow> False)"

definition entries_of :: "jsval \<Rightarrow> (jsstr \<times> jsval) list" where
  "entries_of v = (case props_of v of Some es \<Rightarrow> es | None \<Rightarrow> [])"

definition normalizeReceipt :: "jsval \<Rightarrow> jsval outcome" where
  "normalizeReceipt v =
     (let r = entries_of v; mode = get_prop r ''executionMode'';
          hash = get_prop r ''txHash''; tx = get_prop r ''txId''; height = get_prop r ''blockHeight''
      in if mode \<notin> {JStr (js ''local''), JStr (js ''network''), JStr (js ''test'')} \<or>
            \<not> list_all (\<lambda>e. fst e \<in> {js ''txHash'', js ''txId'', js ''blockHeight'', js ''executionMode''}) r \<or>
            \<not> optional_tx hash \<or> \<not> optional_tx tx \<or>
            (hash = JUndefined \<and> tx = JUndefined) \<or>
            (height \<noteq> JUndefined \<and> safe_uint height = None) \<or>
            (mode = JStr (js ''network'') \<and> (safe_uint height = None \<or> safe_uint height = Some 0))
         then invalid ''Invalid confirmed runtime receipt.''
         else clone v)"

text \<open>\<open>/^(?:0|[1-9][0-9]{0,19})$/\<close> and the 64-bit bound\<close>

definition valid_generation :: "jsval \<Rightarrow> bool" where
  "valid_generation v = (case v of
     JStr s \<Rightarrow> (s = [48] \<or> canonical_nat s \<and> length s \<le> 20) \<and> int (parse_nat s) \<le> uint64_max
   | _ \<Rightarrow> False)"

definition effect_circuits :: "(string \<times> string list) list" where
  "effect_circuits =
     [(''postQuote'', [''quote-present'']), (''redeemDraw'', [''note-redeemed'']),
      (''cancelOrExpireNote'', [''note-cancelled'', ''note-compensation-allocated'', ''note-refund-acknowledged''])]"

definition known_effect :: "jsval \<Rightarrow> jsval \<Rightarrow> bool" where
  "known_effect circuit eff \<longleftrightarrow>
     list_ex (\<lambda>(c, effs). circuit = JStr (js c) \<and> list_ex (\<lambda>x. eff = JStr (js x)) effs) effect_circuits"

definition COMPENSATION :: jsval where "COMPENSATION = JStr (js ''note-compensation-allocated'')"
definition REFUND :: jsval where "REFUND = JStr (js ''note-refund-acknowledged'')"

text \<open>The fields of a compound effect.\<close>

definition compound_effect :: "(jsstr \<times> jsval) list \<Rightarrow> jsval \<Rightarrow> (string \<times> jsval) list \<Rightarrow> jsval outcome" where
  "compound_effect e eff base =
     bindS (hex (get_prop e ''refundCommitment'') ''refund commitment'') (\<lambda>refund.
     let owed = get_prop e ''cashRefundOwed'';
         more = base @ [(''refundCommitment'', JStr refund), (''cashRefundOwed'', owed)]
     in if owed \<noteq> JBool True \<and> owed \<noteq> JBool False then invalid ''Invalid cash refund marker.''
        else if eff = COMPENSATION then
          bindS (commitment (get_prop e ''lineCommitment'') ''compensation book commitment'') (\<lambda>line.
          Inr (obj (more @ [(''lineCommitment'', opt_str line)])))
        else if owed = JBool False then invalid ''A reported refund requires a cash obligation.''
        else
          bindS (hex (get_prop e ''paymentNullifier'') ''reported refund payment nullifier'') (\<lambda>nullifier.
          Inr (obj (more @ [(''paymentNullifier'', JStr nullifier)]))))"

definition normalizeEffect :: "jsval \<Rightarrow> jsval outcome" where
  "normalizeEffect v =
     (let e = entries_of v; circuit = get_prop e ''circuit''; eff = get_prop e ''effect'';
          generation = get_prop e ''lineGeneration''
      in if \<not> known_effect circuit eff \<or> \<not> valid_generation generation
         then invalid ''Invalid unique public effect specification.'' else
         bindS (hex (get_prop e ''targetCommitment'') ''effect target commitment'') (\<lambda>target.
         bindS (hex (get_prop e ''contractDomain'') ''effect contract domain'') (\<lambda>domain.
         let base = [(''circuit'', circuit), (''targetCommitment'', JStr target), (''contractDomain'', JStr domain),
                     (''lineGeneration'', generation), (''effect'', eff)]
         in if eff = COMPENSATION \<or> eff = REFUND then compound_effect e eff base else Inr (obj base))))"

definition effect_name :: "jsval \<Rightarrow> jsval" where
  "effect_name v = get_prop (entries_of v) ''effect''"

definition normalizePrepared :: "prepared_op \<Rightarrow> prepared_op outcome" where
  "normalizePrepared i =
     (if \<not> validId (jo_id i) \<or> jo_kind i \<notin> js ` set OPERATION_KINDS
      then invalid ''Invalid operation identity or circuit.'' else
      bindS (hex (JStr (jo_fingerprint i)) ''operation fingerprint'') (\<lambda>fingerprint.
      bindS (commitment (opt_str (jo_before i)) ''before commitment'') (\<lambda>before.
      bindS (commitment (opt_str (jo_candidate i)) ''candidate commitment'') (\<lambda>candidate.
      bindS (clone (jo_beforeSnapshot i)) (\<lambda>beforeSnapshot.
      bindS (clone (jo_candidateSnapshot i)) (\<lambda>candidateSnapshot.
      bindS (if jo_effect i = JNull \<or> jo_effect i = JUndefined then Inr JNull
             else normalizeEffect (jo_effect i)) (\<lambda>eff.
      if eff \<noteq> JNull \<and> get_prop (entries_of eff) ''circuit'' \<noteq> JStr (jo_kind i)
      then invalid ''Expected effect does not belong to this circuit.''
      else if eff \<noteq> JNull \<and> effect_name eff = COMPENSATION \<and>
              get_prop (entries_of eff) ''lineCommitment'' \<noteq> opt_str candidate
      then invalid ''Compensation effect must bind the prepared book candidate.''
      else if eff \<noteq> JNull \<and> effect_name eff = COMPENSATION \<and> candidate = before \<and> candidate \<noteq> None
      then invalid ''A compensation book transition requires a distinct candidate commitment.''
      else if jo_kind i \<in> {js ''openLine'', js ''draw'', js ''acknowledgeRepayment''} \<and>
              (candidate = None \<or> candidate = before)
      then invalid ''A book transition requires a distinct candidate commitment.''
      else Inr \<lparr>jo_id = jo_id i, jo_kind = jo_kind i, jo_fingerprint = fingerprint, jo_before = before,
                jo_candidate = candidate, jo_beforeSnapshot = beforeSnapshot,
                jo_candidateSnapshot = candidateSnapshot, jo_effect = eff\<rparr>)))))))"

section \<open>Records as values\<close>

definition RECORD_KEYS :: "string list" where
  "RECORD_KEYS = [''schema'', ''scope'', ''revision'', ''operations'']"

definition SCOPE_KEYS :: "string list" where
  "SCOPE_KEYS = [''networkId'', ''contractAddress'', ''sourceFingerprint'']"

definition OPERATION_KEYS :: "string list" where
  "OPERATION_KEYS =
     [''id'', ''kind'', ''fingerprint'', ''beforeCommitment'', ''candidateCommitment'', ''beforeSnapshot'',
      ''candidateSnapshot'', ''expectedEffect'', ''sequence'', ''status'', ''createdAt'', ''updatedAt'',
      ''acknowledged'', ''transactionId'', ''receipt'', ''snapshotsCompacted'']"

definition num_val :: "int \<Rightarrow> jsval" where "num_val n = JNum (NInt n)"

definition scope_val :: "journal_scope \<Rightarrow> jsval" where
  "scope_val s = obj [(''networkId'', JStr (sc_networkId s)), (''contractAddress'', JStr (sc_contractAddress s)),
     (''sourceFingerprint'', JStr (sc_sourceFingerprint s))]"

definition op_val :: "journal_op \<Rightarrow> jsval" where
  "op_val p = obj
     [(''id'', JStr (jo_id p)), (''kind'', JStr (jo_kind p)), (''fingerprint'', JStr (jo_fingerprint p)),
      (''beforeCommitment'', opt_str (jo_before p)), (''candidateCommitment'', opt_str (jo_candidate p)),
      (''beforeSnapshot'', jo_beforeSnapshot p), (''candidateSnapshot'', jo_candidateSnapshot p),
      (''expectedEffect'', jo_effect p), (''sequence'', num_val (jo_sequence p)),
      (''status'', JStr (js (status_name (jo_status p)))), (''createdAt'', num_val (jo_createdAt p)),
      (''updatedAt'', num_val (jo_updatedAt p)), (''acknowledged'', JBool (jo_acknowledged p)),
      (''transactionId'', opt_str (jo_transactionId p)), (''receipt'', jo_receipt p),
      (''snapshotsCompacted'', JBool (jo_compacted p))]"

definition record_val :: "journal \<Rightarrow> jsval" where
  "record_val r = obj
     [(''schema'', JStr (js OPERATION_JOURNAL_SCHEMA)), (''scope'', scope_val (jr_scope r)),
      (''revision'', num_val (jr_revision r)), (''operations'', JArr (map op_val (jr_operations r)))]"

text \<open>Reading the fields back, with the type each field must have.\<close>

definition read_str :: "jsval \<Rightarrow> jsstr option" where
  "read_str v = (case v of JStr s \<Rightarrow> Some s | _ \<Rightarrow> None)"

definition read_opt :: "jsval \<Rightarrow> jsstr option option" where
  "read_opt v = (case v of JNull \<Rightarrow> Some None | JStr s \<Rightarrow> Some (Some s) | _ \<Rightarrow> None)"

definition read_bool :: "jsval \<Rightarrow> bool option" where
  "read_bool v = (case v of JBool b \<Rightarrow> Some b | _ \<Rightarrow> None)"

definition read_status :: "jsval \<Rightarrow> op_status option" where
  "read_status v = find (\<lambda>s. v = JStr (js (status_name s))) [OpPrepared, OpSubmitting, OpUncertain, OpConfirmed, OpRejected]"

definition read_scope :: "jsval \<Rightarrow> journal_scope option" where
  "read_scope v = (let es = entries_of v in
     if \<not> exactKeys es SCOPE_KEYS then None else do {
       n \<leftarrow> read_str (get_prop es ''networkId'');
       c \<leftarrow> read_str (get_prop es ''contractAddress'');
       f \<leftarrow> read_str (get_prop es ''sourceFingerprint'');
       Some \<lparr>sc_networkId = n, sc_contractAddress = c, sc_sourceFingerprint = f\<rparr> })"

definition read_op :: "jsval \<Rightarrow> journal_op option" where
  "read_op v = (let es = entries_of v in
     if \<not> exactKeys es OPERATION_KEYS then None else do {
       i \<leftarrow> read_str (get_prop es ''id'');
       kind \<leftarrow> read_str (get_prop es ''kind'');
       fp \<leftarrow> read_str (get_prop es ''fingerprint'');
       before \<leftarrow> read_opt (get_prop es ''beforeCommitment'');
       candidate \<leftarrow> read_opt (get_prop es ''candidateCommitment'');
       sequence \<leftarrow> safe_num (get_prop es ''sequence'');
       status \<leftarrow> read_status (get_prop es ''status'');
       created \<leftarrow> safe_num (get_prop es ''createdAt'');
       updated \<leftarrow> safe_num (get_prop es ''updatedAt'');
       acknowledged \<leftarrow> read_bool (get_prop es ''acknowledged'');
       tx \<leftarrow> read_opt (get_prop es ''transactionId'');
       compacted \<leftarrow> read_bool (get_prop es ''snapshotsCompacted'');
       Some \<lparr>jo_id = i, jo_kind = kind, jo_fingerprint = fp, jo_before = before, jo_candidate = candidate,
         jo_beforeSnapshot = get_prop es ''beforeSnapshot'', jo_candidateSnapshot = get_prop es ''candidateSnapshot'',
         jo_effect = get_prop es ''expectedEffect'', jo_sequence = sequence, jo_status = status,
         jo_createdAt = created, jo_updatedAt = updated, jo_acknowledged = acknowledged,
         jo_transactionId = tx, jo_receipt = get_prop es ''receipt'', jo_compacted = compacted\<rparr> })"

definition read_record :: "jsval \<Rightarrow> journal option" where
  "read_record v = (let es = entries_of v in
     if \<not> exactKeys es RECORD_KEYS \<or> get_prop es ''schema'' \<noteq> JStr (js OPERATION_JOURNAL_SCHEMA) then None else do {
       scope \<leftarrow> read_scope (get_prop es ''scope'');
       revision \<leftarrow> safe_num (get_prop es ''revision'');
       ops \<leftarrow> (case get_prop es ''operations'' of JArr vs \<Rightarrow> those (map read_op vs) | _ \<Rightarrow> None);
       Some \<lparr>jr_scope = scope, jr_revision = revision, jr_operations = ops\<rparr> })"

section \<open>Validation\<close>

definition settled :: "journal_op \<Rightarrow> bool" where
  "settled p \<longleftrightarrow> jo_status p = OpRejected \<or> jo_status p = OpConfirmed \<and> jo_acknowledged p"

text \<open>\<open>prepared\<close>, \<open>submitting\<close>, \<open>uncertain\<close>, or confirmed and not acknowledged\<close>

definition pending :: "journal_op \<Rightarrow> bool" where
  "pending p \<longleftrightarrow> jo_status p \<in> {OpPrepared, OpSubmitting, OpUncertain} \<or>
     jo_status p = OpConfirmed \<and> \<not> jo_acknowledged p"

definition intent :: "journal_op \<Rightarrow> prepared_op" where
  "intent p = \<lparr>jo_id = jo_id p, jo_kind = jo_kind p, jo_fingerprint = jo_fingerprint p, jo_before = jo_before p,
     jo_candidate = jo_candidate p, jo_beforeSnapshot = jo_beforeSnapshot p,
     jo_candidateSnapshot = jo_candidateSnapshot p, jo_effect = jo_effect p\<rparr>"

definition valid_effect :: "jsval \<Rightarrow> bool" where
  "valid_effect v \<longleftrightarrow> v = JNull \<or>
     (case normalizeEffect v of
        Inr n \<Rightarrow> length (entries_of v) = length (entries_of n) \<and> fst ` set (entries_of v) = fst ` set (entries_of n) \<and>
          same_encoding n v = Inr True
      | Inl e \<Rightarrow> False)"

definition valid_op :: "int \<Rightarrow> int \<Rightarrow> jsstr set \<Rightarrow> journal_op \<Rightarrow> bool" where
  "valid_op revision sequence ids p \<longleftrightarrow>
     is_ok (normalizePrepared (intent p)) \<and> valid_effect (jo_effect p) \<and>
     (jo_receipt p = JNull \<or> is_ok (normalizeReceipt (jo_receipt p))) \<and>
     jo_id p \<notin> ids \<and> isSafeInteger (jo_sequence p) \<and> sequence < jo_sequence p \<and> jo_sequence p \<le> revision \<and>
     isSafeInteger (jo_createdAt p) \<and> isSafeInteger (jo_updatedAt p) \<and>
     0 \<le> jo_createdAt p \<and> jo_createdAt p \<le> jo_updatedAt p \<and>
     (case jo_transactionId p of Some t \<Rightarrow> validTx t | None \<Rightarrow> True) \<and>
     (jo_acknowledged p \<longrightarrow> jo_status p = OpConfirmed) \<and>
     (jo_receipt p \<noteq> JNull \<longrightarrow> jo_status p = OpConfirmed) \<and>
     (jo_compacted p \<longrightarrow> settled p \<and> jo_beforeSnapshot p = JNull \<and> jo_candidateSnapshot p = JNull)"

text \<open>The loop over the operations; the result is the number of pending ones.\<close>

fun valid_ops :: "int \<Rightarrow> int \<Rightarrow> jsstr set \<Rightarrow> journal_op list \<Rightarrow> nat option" where
  "valid_ops revision sequence ids [] = Some 0"
| "valid_ops revision sequence ids (p # ps) =
     (if \<not> valid_op revision sequence ids p then None else
      (case valid_ops revision (jo_sequence p) (insert (jo_id p) ids) ps of
         Some n \<Rightarrow> Some (n + (if pending p then 1 else 0))
       | None \<Rightarrow> None))"

definition latestConfirmedOperation :: "journal \<Rightarrow> journal_op option" where
  "latestConfirmedOperation r = find (\<lambda>p. jo_status p = OpConfirmed) (rev (jr_operations r))"

definition valid_record :: "journal_scope \<Rightarrow> journal \<Rightarrow> bool" where
  "valid_record scope r \<longleftrightarrow>
     (case normalizeScope (jr_scope r) of Inr s \<Rightarrow> sameScope s scope | Inl e \<Rightarrow> False) \<and>
     isSafeInteger (jr_revision r) \<and> 0 \<le> jr_revision r \<and>
     length (jr_operations r) \<le> MAX_JOURNAL_OPERATIONS \<and>
     (case valid_ops (jr_revision r) 0 {} (jr_operations r) of Some n \<Rightarrow> n \<le> 1 | None \<Rightarrow> False) \<and>
     (case latestConfirmedOperation r of Some p \<Rightarrow> \<not> jo_compacted p | None \<Rightarrow> True)"

text \<open>Whatever goes wrong inside \<open>validateRecord\<close>, the caller sees \<open>VaultTamperedError\<close>.\<close>

definition validateRecord :: "jsval \<Rightarrow> journal_scope \<Rightarrow> journal outcome" where
  "validateRecord v scope =
     (case read_record v of
        Some r \<Rightarrow> if valid_record scope r then Inr r else tampered
      | None \<Rightarrow> tampered)"

definition operationJournalStorageKey :: "journal_scope \<Rightarrow> jsstr outcome" where
  "operationJournalStorageKey scopeInput =
     bindS (normalizeScope scopeInput) (\<lambda>s.
       Inr (js ''line:journal:v1:'' @ sc_networkId s @ js '':'' @ sc_contractAddress s))"

end
