(* ===== verification/Journal_Lease.thy ===== *)
theory Journal_Lease
  imports Journal Outcome_Machine
begin

text \<open>
  The exclusive lease of \<open>createOperationJournal\<close> and its methods. Methods run one at a time (the code
  chains them) and leases exclude each other, so a method call is one step. What the surroundings decide
  during a call is its environment: the clock, whether the vault session still holds at each point where
  the code asks, whether the stored record can be decrypted, and whether the storage transaction commits.
\<close>

section \<open>State and environment\<close>

record journal_env =
  je_now :: int
  je_started :: bool       \<comment> \<open>\<open>assertSession()\<close> at the start of \<open>prepare\<close> and of \<open>withExclusive\<close>\<close>
  je_before_load :: bool   \<comment> \<open>before and after \<open>loadEncryptedJson\<close>\<close>
  je_after_load :: bool
  je_before_write :: bool  \<comment> \<open>at the start of \<open>write\<close> and when the transaction commits\<close>
  je_commit :: bool
  je_load_error :: "exn option"
  je_saved :: bool

record journal_state =
  js_store :: "jsval option"
  js_lease :: bool
  js_cached :: "journal option"
  js_submitted :: "jsstr set"

definition session_lost :: "'a outcome" where
  "session_lost = Inl (Throw (NamedError ''VaultLockedError'' ''Vault session was revoked before operation submission.''))"

definition assertSession :: "bool \<Rightarrow> unit outcome" where
  "assertSession b = (if b then Inr () else session_lost)"

definition assertLease :: "journal_state \<Rightarrow> unit outcome" where
  "assertLease st = (if js_lease st then Inr () else conflict ''Operation journal lease has ended.'')"

definition empty_record :: "journal_scope \<Rightarrow> journal" where
  "empty_record scope = \<lparr>jr_scope = scope, jr_revision = 0, jr_operations = []\<rparr>"

text \<open>Cloning a record is the identity, when the codec accepts it.\<close>

definition clone_record :: "journal \<Rightarrow> journal outcome" where
  "clone_record r = bindS (clone (record_val r)) (\<lambda>_. Inr r)"

definition clone_op :: "journal_op \<Rightarrow> journal_op outcome" where
  "clone_op p = bindS (clone (op_val p)) (\<lambda>_. Inr p)"

section \<open>Reading and writing the record\<close>

definition read_journal :: "journal_scope \<Rightarrow> journal_env \<Rightarrow> journal_state \<Rightarrow> journal outcome" where
  "read_journal scope e st =
     bindS (assertLease st) (\<lambda>_.
     bindS (assertSession (je_before_load e)) (\<lambda>_.
     bindS (case je_load_error e of Some x \<Rightarrow> Inl (Throw x) | None \<Rightarrow> Inr (js_store st)) (\<lambda>loaded.
     bindS (assertSession (je_after_load e)) (\<lambda>_.
     case loaded of None \<Rightarrow> Inr (empty_record scope) | Some v \<Rightarrow> validateRecord v scope))))"

definition getRecord :: "journal_scope \<Rightarrow> journal_env \<Rightarrow> journal_state \<Rightarrow> (journal \<times> journal_state) outcome" where
  "getRecord scope e st =
     bindS (assertLease st) (\<lambda>_.
     bindS (case js_cached st of Some r \<Rightarrow> Inr r | None \<Rightarrow> read_journal scope e st) (\<lambda>r.
     bindS (clone_record r) (\<lambda>c. Inr (c, st\<lparr>js_cached := Some r\<rparr>))))"

definition compact_op :: "journal_op \<Rightarrow> journal_op" where
  "compact_op p = (if settled p
     then p\<lparr>jo_beforeSnapshot := JNull, jo_candidateSnapshot := JNull, jo_compacted := True\<rparr> else p)"

text \<open>
  Every settled operation but the latest confirmed one loses its snapshots. From the end of the list,
  the first confirmed operation met is the latest.
\<close>

fun compact_from :: "bool \<Rightarrow> journal_op list \<Rightarrow> journal_op list" where
  "compact_from seen [] = []"
| "compact_from seen (p # ps) =
     (if jo_status p = OpConfirmed \<and> \<not> seen then p # compact_from True ps
      else compact_op p # compact_from seen ps)"

definition compact :: "journal_op list \<Rightarrow> journal_op list" where
  "compact ps = rev (compact_from False (rev ps))"

definition write_journal ::
    "journal_scope \<Rightarrow> journal_env \<Rightarrow> bool \<Rightarrow> journal \<Rightarrow> journal_state \<Rightarrow> (journal \<times> journal_state) outcome" where
  "write_journal scope e requireSession r st =
     bindS (assertLease st) (\<lambda>_.
     bindS (assertSession (requireSession \<longrightarrow> je_before_write e)) (\<lambda>_.
     let r' = r\<lparr>jr_operations := compact (jr_operations r)\<rparr> in
     if \<not> valid_record scope r' then tampered else
     bindS (clone (record_val r')) (\<lambda>doc.
     bindS (assertSession (requireSession \<longrightarrow> je_commit e)) (\<lambda>_.
     if \<not> je_saved e
     then Inl (Throw (NamedError ''VaultPersistenceError'' ''Encrypted storage transaction did not commit.''))
     else Inr (r', st\<lparr>js_store := Some doc, js_cached := Some r'\<rparr>)))))"

definition find_op :: "jsstr \<Rightarrow> journal \<Rightarrow> journal_op option" where
  "find_op i r = find (\<lambda>p. jo_id p = i) (jr_operations r)"

definition set_op :: "jsstr \<Rightarrow> journal_op \<Rightarrow> journal \<Rightarrow> journal" where
  "set_op i p r = r\<lparr>jr_operations := update_first (\<lambda>q. jo_id q = i) (\<lambda>_. p) (jr_operations r)\<rparr>"

text \<open>
  \<open>mutate\<close>: the update works on a clone of the cached record, so a refused update changes nothing.
  The result is a clone of the operation as the write left it.
\<close>

definition mutate ::
    "journal_scope \<Rightarrow> journal_env \<Rightarrow> jsstr \<Rightarrow> bool \<Rightarrow> (journal_op \<Rightarrow> journal_op outcome) \<Rightarrow> journal_state
      \<Rightarrow> (journal_op \<times> journal_state) outcome" where
  "mutate scope e i requireSession update st =
     bindS (getRecord scope e st) (\<lambda>(r, st1).
     case find_op i r of
       None \<Rightarrow> conflict ''Operation was not prepared in this journal.''
     | Some p \<Rightarrow>
         bindS (update p) (\<lambda>p1.
         let p2 = p1\<lparr>jo_updatedAt := max (jo_createdAt p1) (je_now e)\<rparr> in
         if jr_revision r = max_safe then conflict ''Journal revision exhausted.'' else
         bindS (write_journal scope e requireSession ((set_op i p2 r)\<lparr>jr_revision := jr_revision r + 1\<rparr>) st1) (\<lambda>(r', st2).
         case find_op i r' of
           Some p' \<Rightarrow> bindS (clone_op p') (\<lambda>c. Inr (c, st2))
         | None \<Rightarrow> tampered)))"

definition assertEvidenceScope :: "journal_scope \<Rightarrow> journal_scope \<Rightarrow> unit outcome" where
  "assertEvidenceScope scope evidence =
     bindS (normalizeScope evidence) (\<lambda>s.
       if sameScope s scope then Inr () else conflict ''Confirmation evidence belongs to another scope.'')"

section \<open>Methods\<close>

definition same_intent :: "journal_op \<Rightarrow> prepared_op \<Rightarrow> bool outcome" where
  "same_intent existing p =
     (let q = (if jo_compacted existing then p\<lparr>jo_beforeSnapshot := JNull, jo_candidateSnapshot := JNull\<rparr> else p);
          value = \<lambda>p :: prepared_op. obj
            [(''id'', JStr (jo_id p)), (''kind'', JStr (jo_kind p)), (''fingerprint'', JStr (jo_fingerprint p)),
             (''beforeCommitment'', opt_str (jo_before p)), (''candidateCommitment'', opt_str (jo_candidate p)),
             (''beforeSnapshot'', jo_beforeSnapshot p), (''candidateSnapshot'', jo_candidateSnapshot p),
             (''expectedEffect'', jo_effect p)]
      in same_encoding (value (intent existing)) (value q))"

definition new_op :: "prepared_op \<Rightarrow> int \<Rightarrow> int \<Rightarrow> journal_op" where
  "new_op p sequence now =
     \<lparr>jo_id = jo_id p, jo_kind = jo_kind p, jo_fingerprint = jo_fingerprint p, jo_before = jo_before p,
      jo_candidate = jo_candidate p, jo_beforeSnapshot = jo_beforeSnapshot p,
      jo_candidateSnapshot = jo_candidateSnapshot p, jo_effect = jo_effect p, jo_sequence = sequence,
      jo_status = OpPrepared, jo_createdAt = now, jo_updatedAt = now, jo_acknowledged = False,
      jo_transactionId = None, jo_receipt = JNull, jo_compacted = False\<rparr>"

definition prepare ::
    "journal_scope \<Rightarrow> journal_env \<Rightarrow> prepared_op \<Rightarrow> journal_state \<Rightarrow> (journal_op \<times> journal_state) outcome" where
  "prepare scope e input st =
     bindS (assertSession (je_started e)) (\<lambda>_.
     bindS (normalizePrepared input) (\<lambda>p.
     bindS (getRecord scope e st) (\<lambda>(r, st1).
     case find_op (jo_id p) r of
       Some existing \<Rightarrow>
         bindS (same_intent existing p) (\<lambda>same.
         if \<not> same then conflict ''Operation ID was already used for a different intent.''
         else bindS (clone_op existing) (\<lambda>c. Inr (c, st1)))
     | None \<Rightarrow>
         if list_ex pending (jr_operations r)
         then conflict ''An earlier operation requires reconciliation before a new intent can be prepared.''
         else if jr_revision r = max_safe \<or> MAX_JOURNAL_OPERATIONS \<le> length (jr_operations r)
         then conflict ''Journal capacity exhausted; export and migrate verified history before proceeding.''
         else
           let q = new_op p (jr_revision r + 1) (je_now e);
               r1 = r\<lparr>jr_revision := jr_revision r + 1, jr_operations := jr_operations r @ [q]\<rparr>
           in bindS (write_journal scope e True r1 st1) (\<lambda>(r', st2).
              bindS (clone_op q) (\<lambda>c. Inr (c, st2))))))"

definition submit_update :: "jsstr set \<Rightarrow> jsstr option \<Rightarrow> journal_op \<Rightarrow> journal_op outcome" where
  "submit_update submitted tx p =
     (if jo_status p \<noteq> OpPrepared \<and> jo_status p \<noteq> OpSubmitting
      then conflict ''Only a prepared operation can enter submission; ambiguous operations cannot be retried.''
      else if jo_status p = OpSubmitting \<and> jo_id p \<notin> submitted
      then conflict ''A prior submitting operation is ambiguous and cannot be retried from another lease.''
      else case tx of
        None \<Rightarrow> Inr (p\<lparr>jo_status := OpSubmitting\<rparr>)
      | Some t \<Rightarrow>
          if \<not> validTx t \<or> (jo_transactionId p \<noteq> None \<and> jo_transactionId p \<noteq> Some t)
          then conflict ''Conflicting submission transaction ID.''
          else Inr (p\<lparr>jo_transactionId := Some t, jo_status := OpSubmitting\<rparr>))"

definition markSubmitting ::
    "journal_scope \<Rightarrow> journal_env \<Rightarrow> jsstr \<Rightarrow> jsstr option \<Rightarrow> journal_state \<Rightarrow> (journal_op \<times> journal_state) outcome" where
  "markSubmitting scope e i tx st =
     bindS (mutate scope e i True (submit_update (js_submitted st) tx) st) (\<lambda>(p, st1).
     Inr (p, st1\<lparr>js_submitted := insert i (js_submitted st1)\<rparr>))"

definition uncertain_update :: "journal_op \<Rightarrow> journal_op outcome" where
  "uncertain_update p =
     (if jo_status p \<noteq> OpSubmitting \<and> jo_status p \<noteq> OpUncertain
      then conflict ''Only submitted operations can become uncertain.''
      else Inr (p\<lparr>jo_status := OpUncertain\<rparr>))"

definition markUncertain ::
    "journal_scope \<Rightarrow> journal_env \<Rightarrow> jsstr \<Rightarrow> journal_state \<Rightarrow> (journal_op \<times> journal_state) outcome" where
  "markUncertain scope e i st = mutate scope e i False uncertain_update st"

text \<open>The three kinds of evidence of \<open>confirm\<close>\<close>

definition observed_candidate :: "jsval \<Rightarrow> journal_op \<Rightarrow> journal_op outcome" where
  "observed_candidate observed p =
     (if jo_effect p \<noteq> JNull \<and> effect_name (jo_effect p) \<in> {COMPENSATION, REFUND}
      then conflict ''Compensation requires its complete public effect, not a book commitment alone.''
      else case truthy (jo_candidate p) of
        None \<Rightarrow> conflict ''Observed public commitment does not match the prepared candidate.''
      | Some c \<Rightarrow>
          bindS (hex observed ''observed commitment'') (\<lambda>h.
          if h \<noteq> c then conflict ''Observed public commitment does not match the prepared candidate.''
          else Inr p))"

definition observed_effect :: "jsval \<Rightarrow> journal_op \<Rightarrow> journal_op outcome" where
  "observed_effect evidence p =
     (if jo_effect p = JNull
      then conflict ''Observed public effect does not match the prepared unique effect.''
      else bindS (normalizeEffect evidence) (\<lambda>n.
           bindS (same_encoding n (jo_effect p)) (\<lambda>same.
           if \<not> same then conflict ''Observed public effect does not match the prepared unique effect.''
           else Inr p)))"

definition definite_receipt :: "jsval \<Rightarrow> journal_op \<Rightarrow> journal_op outcome" where
  "definite_receipt receipt p =
     (if receipt = JUndefined then invalid ''A confirmed runtime receipt is required.'' else
      bindS (normalizeReceipt receipt) (\<lambda>rc.
      let txId = read_str (get_prop (entries_of rc) ''txId''); txHash = read_str (get_prop (entries_of rc) ''txHash'')
      in if txId \<noteq> None \<and> jo_transactionId p \<noteq> None \<and> jo_transactionId p \<noteq> txId
         then conflict ''Receipt transaction ID differs from prepared submission.''
         else bindS (if jo_receipt p = JNull then Inr True else same_encoding (jo_receipt p) rc) (\<lambda>same.
              if \<not> same then conflict ''Conflicting confirmed receipt metadata.''
              else Inr (p\<lparr>jo_receipt := rc,
                jo_transactionId := or_else (jo_transactionId p) (or_else txId txHash)\<rparr>))))"

definition confirm_update :: "journal_scope \<Rightarrow> confirm_evidence \<Rightarrow> journal_op \<Rightarrow> journal_op outcome" where
  "confirm_update scope ev p =
     bindS (assertEvidenceScope scope (ce_scope ev)) (\<lambda>_.
     if jo_status p \<notin> {OpSubmitting, OpUncertain, OpConfirmed}
     then conflict ''A saved candidate is not a confirmed submission.''
     else bindS (case ce_kind ev of
         ObservedCandidate c \<Rightarrow> observed_candidate c p
       | ObservedEffect v \<Rightarrow> observed_effect v p
       | DefiniteReceipt rc \<Rightarrow> definite_receipt rc p
       | OtherConfirmation \<Rightarrow> invalid ''A confirmed runtime receipt is required.'') (\<lambda>p1.
     case ce_transactionId ev of
       None \<Rightarrow> Inr (p1\<lparr>jo_status := OpConfirmed\<rparr>)
     | Some t \<Rightarrow>
         if \<not> validTx t \<or> (jo_transactionId p1 \<noteq> None \<and> jo_transactionId p1 \<noteq> Some t)
         then conflict ''Conflicting transaction receipt.''
         else Inr (p1\<lparr>jo_transactionId := Some t, jo_status := OpConfirmed\<rparr>)))"

definition confirm ::
    "journal_scope \<Rightarrow> journal_env \<Rightarrow> jsstr \<Rightarrow> confirm_evidence \<Rightarrow> journal_state \<Rightarrow> (journal_op \<times> journal_state) outcome" where
  "confirm scope e i ev st = mutate scope e i False (confirm_update scope ev) st"

definition reject_update :: "journal_scope \<Rightarrow> reject_evidence \<Rightarrow> journal_op \<Rightarrow> journal_op outcome" where
  "reject_update scope ev p =
     bindS (assertEvidenceScope scope (re_scope ev)) (\<lambda>_.
     if \<not> re_definite ev \<or> (case re_transactionId ev of Some t \<Rightarrow> \<not> validTx t | None \<Rightarrow> False)
     then conflict ''A definite runtime rejection is required.''
     else bindS (if re_lineCommitment ev = JUndefined then Inr True
                 else bindS (commitment (re_lineCommitment ev) ''observed commitment'') (\<lambda>c. Inr (c = jo_before p))) (\<lambda>unchanged.
     if \<not> unchanged then conflict ''A definite runtime rejection is required.''
     else if jo_status p \<noteq> OpSubmitting \<and> jo_status p \<noteq> OpUncertain
     then conflict ''Only a submitted operation can be rejected by transaction evidence.''
     else if re_transactionId ev \<noteq> None \<and> jo_transactionId p \<noteq> None \<and> jo_transactionId p \<noteq> re_transactionId ev
     then conflict ''Conflicting rejected transaction ID.''
     else Inr (p\<lparr>jo_status := OpRejected, jo_transactionId := or_else (re_transactionId ev) (jo_transactionId p)\<rparr>)))"

definition reject ::
    "journal_scope \<Rightarrow> journal_env \<Rightarrow> jsstr \<Rightarrow> reject_evidence \<Rightarrow> journal_state \<Rightarrow> (journal_op \<times> journal_state) outcome" where
  "reject scope e i ev st = mutate scope e i False (reject_update scope ev) st"

definition abandon_update :: "journal_op \<Rightarrow> journal_op outcome" where
  "abandon_update p =
     (if jo_status p \<noteq> OpPrepared
      then conflict ''A submitted operation cannot be abandoned from an unchanged public commitment alone.''
      else Inr (p\<lparr>jo_status := OpRejected\<rparr>))"

definition abandonPrepared ::
    "journal_scope \<Rightarrow> journal_env \<Rightarrow> jsstr \<Rightarrow> journal_state \<Rightarrow> (journal_op \<times> journal_state) outcome" where
  "abandonPrepared scope e i st = mutate scope e i True abandon_update st"

definition acknowledge_update :: "journal_op \<Rightarrow> journal_op outcome" where
  "acknowledge_update p =
     (if jo_status p \<noteq> OpConfirmed
      then conflict ''Only a confirmed recovery snapshot can be acknowledged.''
      else Inr (p\<lparr>jo_acknowledged := True\<rparr>))"

definition acknowledgeConfirmed ::
    "journal_scope \<Rightarrow> journal_env \<Rightarrow> jsstr \<Rightarrow> journal_state \<Rightarrow> (journal_op \<times> journal_state) outcome" where
  "acknowledgeConfirmed scope e i st = mutate scope e i True acknowledge_update st"

section \<open>Calls and leases\<close>

datatype journal_call =
    CRead
  | CPrepare prepared_op
  | CSubmit jsstr "jsstr option"
  | CUncertain jsstr
  | CConfirm jsstr confirm_evidence
  | CReject jsstr reject_evidence
  | CAbandon jsstr
  | CAcknowledge jsstr

text \<open>\<open>lease.read\<close> refreshes the cached record.\<close>

definition read_lease :: "journal_scope \<Rightarrow> journal_env \<Rightarrow> journal_state \<Rightarrow> (journal \<times> journal_state) outcome" where
  "read_lease scope e st =
     bindS (read_journal scope e st) (\<lambda>r. bindS (clone_record r) (\<lambda>c. Inr (c, st\<lparr>js_cached := Some c\<rparr>)))"

definition perform ::
    "journal_scope \<Rightarrow> journal_env \<Rightarrow> journal_call \<Rightarrow> journal_state \<Rightarrow> (journal_op option \<times> journal_state) outcome" where
  "perform scope e c st =
     (let some = \<lambda>m. bindS m (\<lambda>(p, st1). Inr (Some p, st1)) in
      case c of
        CRead \<Rightarrow> bindS (read_lease scope e st) (\<lambda>(r, st1). Inr (None, st1))
      | CPrepare i \<Rightarrow> some (prepare scope e i st)
      | CSubmit i tx \<Rightarrow> some (markSubmitting scope e i tx st)
      | CUncertain i \<Rightarrow> some (markUncertain scope e i st)
      | CConfirm i ev \<Rightarrow> some (confirm scope e i ev st)
      | CReject i ev \<Rightarrow> some (reject scope e i ev st)
      | CAbandon i \<Rightarrow> some (abandonPrepared scope e i st)
      | CAcknowledge i \<Rightarrow> some (acknowledgeConfirmed scope e i st))"

text \<open>A call that throws may still have filled the cache, which later calls of the lease then use.\<close>

definition after_failure :: "journal_scope \<Rightarrow> journal_env \<Rightarrow> journal_call \<Rightarrow> journal_state \<Rightarrow> journal_state" where
  "after_failure scope e c st =
     (let loaded = (case getRecord scope e st of Inr (r, st1) \<Rightarrow> st1 | Inl x \<Rightarrow> st) in
      case c of
        CRead \<Rightarrow> st
      | CPrepare i \<Rightarrow> if je_started e \<and> is_ok (normalizePrepared i) then loaded else st
      | _ \<Rightarrow> loaded)"

datatype journal_event = Begin | Call journal_call | End

text \<open>
  \<open>withExclusive\<close> waits while another lease runs, so it only begins when there is none. \<open>End\<close> is the
  \<open>finally\<close> block after the issued methods have drained, or a crash of the process that holds the lease.
\<close>

definition journal_exec :: "journal_scope \<Rightarrow> journal_env \<Rightarrow> journal_state \<Rightarrow> journal_event \<Rightarrow> journal_state outcome" where
  "journal_exec scope e st ev =
     (case ev of
        Begin \<Rightarrow>
          if js_lease st then conflict ''Waiting for the running lease.'' else
          bindS (assertSession (je_started e)) (\<lambda>_.
          Inr (st\<lparr>js_lease := True, js_cached := None, js_submitted := {}\<rparr>))
      | Call c \<Rightarrow>
          (case perform scope e c st of Inr (p, st1) \<Rightarrow> Inr st1 | Inl x \<Rightarrow> Inr (after_failure scope e c st))
      | End \<Rightarrow> Inr (st\<lparr>js_lease := False, js_cached := None\<rparr>))"

definition journal_start :: "jsval option \<Rightarrow> journal_state" where
  "journal_start stored = \<lparr>js_store = stored, js_lease = False, js_cached = None, js_submitted = {}\<rparr>"

end
