(* ===== verification/Vault_Facts.thy ===== *)
theory Vault_Facts
  imports Vault_Codec
begin

text \<open>
  When the codec accepts a value, and what a copy through it is: the size limits as two measures of a
  value, the copy as the identity, and copies of parts of an accepted value.
\<close>

section \<open>A copy is the original\<close>

lemma encode_decode_back:
  "encode_val c d v = Inr (t, c') \<Longrightarrow> decode_val c d t = Inr (w, c'') \<Longrightarrow> w = v \<and> c'' = c'"
  "encode_list c d vs = Inr (ts, c') \<Longrightarrow> decode_list c d ts = Inr (ws, c'') \<Longrightarrow> ws = vs \<and> c'' = c'"
  "encode_entries c d es = Inr (ts, c') \<Longrightarrow> decode_entries c d seen ts = Inr (fs, c'') \<Longrightarrow> fs = es \<and> c'' = c'"
proof (induction c d v and c d vs and c d es arbitrary: t c' w c'' and ts c' ws c'' and ts c' fs c'' seen
    rule: encode_val_encode_list_encode_entries.induct)
  case (1 c d v)
  have lim: "\<not> (c + 1 > MAX_NODES \<or> d > MAX_DEPTH)"
    using "1.prems"(1) by (auto simp: encode_val.simps split: if_splits)
  show ?case
  proof (cases v)
    case (JArr vs)
    with "1.prems" lim obtain ts where "encode_list (c + 1) (d + 1) vs = Inr (ts, c')" "t = node2 ''array'' (JArr ts)"
      by (auto simp: encode_val.simps bindS_Inr_iff)
    with "1.prems"(2) lim "1.IH"(1) [OF lim JArr] JArr show ?thesis
      by (auto simp: decode_val.simps node2_def bindS_Inr_iff)
  next
    case (JObj es)
    with "1.prems" lim obtain ts where "encode_entries (c + 1) (d + 1) es = Inr (ts, c')" "t = node2 ''object'' (JArr ts)"
      by (auto simp: encode_val.simps bindS_Inr_iff)
    with "1.prems"(2) lim "1.IH"(2) [OF lim JObj] JObj show ?thesis
      by (auto simp: decode_val.simps node2_def bindS_Inr_iff)
  qed (use "1.prems" lim in \<open>auto simp: encode_val.simps decode_val.simps node1_def node2_def
        parse_dec_int lower_hex_toHex split: if_splits\<close>)
next
  case (3 c d v vs)
  from "3.prems" obtain t c1 us w c2 xs where
    "encode_val c d v = Inr (t, c1)" "encode_list c1 d vs = Inr (us, c')" "ts = t # us"
    "decode_val c d t = Inr (w, c2)" "decode_list c2 d us = Inr (xs, c'')" "ws = w # xs"
    by (auto simp: bindS_Inr_iff)
  note parts = this
  from "3.IH"(1) [OF parts(1,4)] have "w = v" "c2 = c1" by simp_all
  with "3.IH"(2) parts show ?case by auto
next
  case (5 c d k v es)
  from "5.prems" obtain t c1 us w c2 xs where
    "encode_val c d v = Inr (t, c1)" "encode_entries c1 d es = Inr (us, c')" "ts = JArr [JStr k, t] # us"
    "decode_val c d t = Inr (w, c2)" "decode_entries c2 d (insert k seen) us = Inr (xs, c'')" "fs = (k, w) # xs"
    by (auto simp: bindS_Inr_iff bad_def split: if_splits)
  note parts = this
  from "5.IH"(1) [OF parts(1,4)] have "w = v" "c2 = c1" by simp_all
  with "5.IH"(2) parts show ?case by auto
qed auto

lemma dec_int_inject [simp]: "dec_int a = dec_int b \<longleftrightarrow> a = b"
  by (metis option.inject parse_dec_int)

lemma encode_val_within:
  "\<not> (c + 1 > MAX_NODES \<or> d > MAX_DEPTH) \<Longrightarrow> encode_val c d v =
     (case v of
        JNull \<Rightarrow> Inr (node1 ''null'', c + 1)
      | JUndefined \<Rightarrow> Inr (node1 ''undefined'', c + 1)
      | JStr s \<Rightarrow> Inr (node2 ''string'' (JStr s), c + 1)
      | JBool b \<Rightarrow> Inr (node2 ''boolean'' (JBool b), c + 1)
      | JNum n \<Rightarrow>
          if \<not> finite_num n then Inl (Throw (TypeError ''Non-finite vault number.''))
          else Inr (node2 ''number'' (if n = NNegZero then JStr (js ''-0'') else JNum n), c + 1)
      | JBig n \<Rightarrow> Inr (node2 ''bigint'' (JStr (dec_int n)), c + 1)
      | JBytes bs \<Rightarrow> Inr (node2 ''bytes'' (JStr (toHex bs)), c + 1)
      | JArr vs \<Rightarrow> bindS (encode_list (c + 1) (d + 1) vs) (\<lambda>(ts, c'). Inr (node2 ''array'' (JArr ts), c'))
      | JObj es \<Rightarrow> bindS (encode_entries (c + 1) (d + 1) es) (\<lambda>(ts, c'). Inr (node2 ''object'' (JArr ts), c'))
      | JOther \<Rightarrow> Inl (Throw (TypeError ''Unsupported vault value.'')))"
  by (subst encode_val.simps) simp

lemma encode_val_limits: "encode_val c d v = Inr r \<Longrightarrow> \<not> (c + 1 > MAX_NODES \<or> d > MAX_DEPTH)"
  by (auto simp: encode_val.simps split: if_splits)

lemma encode_array_back:
  assumes "encode_val c d w = Inr (node2 ''array'' (JArr ts), c')"
  obtains ws where "w = JArr ws" "encode_list (c + 1) (d + 1) ws = Inr (ts, c')"
  using assms encode_val_limits [OF assms]
  by (cases w) (auto simp: encode_val_within node1_def node2_def bindS_Inr_iff split: if_splits)

lemma encode_object_back:
  assumes "encode_val c d w = Inr (node2 ''object'' (JArr ts), c')"
  obtains es where "w = JObj es" "encode_entries (c + 1) (d + 1) es = Inr (ts, c')"
  using assms encode_val_limits [OF assms]
  by (cases w) (auto simp: encode_val_within node1_def node2_def bindS_Inr_iff split: if_splits)

lemma encode_val_inject:
  "encode_val c d v = Inr (t, c') \<Longrightarrow> encode_val c d w = Inr (t, c'') \<Longrightarrow> w = v \<and> c'' = c'"
  "encode_list c d vs = Inr (ts, c') \<Longrightarrow> encode_list c d ws = Inr (ts, c'') \<Longrightarrow> ws = vs \<and> c'' = c'"
  "encode_entries c d es = Inr (ts, c') \<Longrightarrow> encode_entries c d fs = Inr (ts, c'') \<Longrightarrow> fs = es \<and> c'' = c'"
proof (induction c d v and c d vs and c d es arbitrary: t c' w c'' and ts c' ws c'' and ts c' fs c''
    rule: encode_val_encode_list_encode_entries.induct)
  case (1 c d v)
  have lim: "\<not> (c + 1 > MAX_NODES \<or> d > MAX_DEPTH)"
    using "1.prems"(1) by (auto simp: encode_val.simps split: if_splits)
  show ?case
  proof (cases v)
    case (JArr vs)
    with "1.prems"(1) lim obtain ts where ts: "encode_list (c + 1) (d + 1) vs = Inr (ts, c')" "t = node2 ''array'' (JArr ts)"
      by (auto simp: encode_val_within bindS_Inr_iff)
    from "1.prems"(2) [unfolded ts(2)] obtain ws where
      "w = JArr ws" "encode_list (c + 1) (d + 1) ws = Inr (ts, c'')" by (rule encode_array_back)
    with "1.IH"(1) [OF lim JArr ts(1)] JArr show ?thesis by simp
  next
    case (JObj es)
    with "1.prems"(1) lim obtain ts where ts: "encode_entries (c + 1) (d + 1) es = Inr (ts, c')" "t = node2 ''object'' (JArr ts)"
      by (auto simp: encode_val_within bindS_Inr_iff)
    from "1.prems"(2) [unfolded ts(2)] obtain fs where
      "w = JObj fs" "encode_entries (c + 1) (d + 1) fs = Inr (ts, c'')" by (rule encode_object_back)
    with "1.IH"(2) [OF lim JObj ts(1)] JObj show ?thesis by simp
  qed (use "1.prems" lim in \<open>cases w; force simp: encode_val_within node1_def node2_def bindS_Inr_iff
        split: if_splits\<close>)+
next
  case (2 c d)
  then show ?case by (cases ws) (auto simp: bindS_Inr_iff)
next
  case (3 c d v vs)
  then obtain w us where w: "ws = w # us" by (cases ws) (auto simp: bindS_Inr_iff)
  from "3.prems" w obtain t c1 ts1 c2 where parts:
    "encode_val c d v = Inr (t, c1)" "encode_list c1 d vs = Inr (ts1, c')" "ts = t # ts1"
    "encode_val c d w = Inr (t, c2)" "encode_list c2 d us = Inr (ts1, c'')"
    by (auto simp: bindS_Inr_iff)
  from "3.IH"(1) [OF parts(1,4)] have "w = v" "c2 = c1" by simp_all
  with "3.IH"(2) [OF parts(2)] parts(5) w show ?case by simp
next
  case (4 c d)
  then show ?case by (cases fs) (auto simp: bindS_Inr_iff)
next
  case (5 c d k v es)
  from "5.prems" have "ts \<noteq> []" by (auto simp: bindS_Inr_iff)
  with "5.prems"(2) have "fs \<noteq> []" by (cases fs) simp_all
  then obtain k' w us where fs: "fs = (k', w) # us" by (cases fs) auto
  from "5.prems" have "k' = k" unfolding fs by (auto simp: bindS_Inr_iff)
  with fs have w: "fs = (k, w) # us" by simp
  from "5.prems" w obtain t c1 ts1 c2 where parts:
    "encode_val c d v = Inr (t, c1)" "encode_entries c1 d es = Inr (ts1, c')" "ts = JArr [JStr k, t] # ts1"
    "encode_val c d w = Inr (t, c2)" "encode_entries c2 d us = Inr (ts1, c'')"
    by (auto simp: bindS_Inr_iff)
  from "5.IH"(1) [OF parts(1,4)] have "w = v" "c2 = c1" by simp_all
  with "5.IH"(2) [OF parts(2)] parts(5) w show ?case by simp
qed

section \<open>What fits\<close>

fun val_nodes :: "jsval \<Rightarrow> nat" where
  "val_nodes (JArr vs) = 1 + sum_list (map val_nodes vs)"
| "val_nodes (JObj es) = 1 + sum_list (map (\<lambda>e. val_nodes (snd e)) es)"
| "val_nodes v = 1"

fun val_fits :: "nat \<Rightarrow> jsval \<Rightarrow> bool" where
  "val_fits d (JArr vs) = (d \<le> MAX_DEPTH \<and> list_all (val_fits (d + 1)) vs)"
| "val_fits d (JObj es) = (d \<le> MAX_DEPTH \<and> list_all (\<lambda>e. val_fits (d + 1) (snd e)) es)"
| "val_fits d (JNum n) = (d \<le> MAX_DEPTH \<and> finite_num n)"
| "val_fits d JOther = False"
| "val_fits d v = (d \<le> MAX_DEPTH)"

definition fits :: "jsval \<Rightarrow> bool" where
  "fits v \<longleftrightarrow> val_fits 0 v \<and> val_nodes v \<le> MAX_NODES"

lemma val_nodes_pos: "0 < val_nodes v"
  by (cases v) auto

lemma encode_iff_fits:
  "(\<exists>t. encode_val c d v = Inr (t, c')) \<longleftrightarrow> val_fits d v \<and> c' = c + val_nodes v \<and> c' \<le> MAX_NODES"
  "c \<le> MAX_NODES \<Longrightarrow> (\<exists>ts. encode_list c d vs = Inr (ts, c')) \<longleftrightarrow>
     list_all (val_fits d) vs \<and> c' = c + sum_list (map val_nodes vs) \<and> c' \<le> MAX_NODES"
  "c \<le> MAX_NODES \<Longrightarrow> (\<exists>ts. encode_entries c d es = Inr (ts, c')) \<longleftrightarrow>
     list_all (\<lambda>e. val_fits d (snd e)) es \<and> c' = c + sum_list (map (\<lambda>e. val_nodes (snd e)) es) \<and> c' \<le> MAX_NODES"
proof (induction c d v and c d vs and c d es arbitrary: c' and c' and c'
    rule: encode_val_encode_list_encode_entries.induct)
  case (1 c d v)
  show ?case
  proof (cases "c + 1 > MAX_NODES \<or> d > MAX_DEPTH")
    case True
    then show ?thesis using val_nodes_pos [of v] by (cases v) (auto simp: encode_val.simps)
  next
    case False
    then have "c + 1 \<le> MAX_NODES" "d \<le> MAX_DEPTH" by auto
    show ?thesis
    proof (cases v)
      case (JArr vs)
      with False \<open>d \<le> MAX_DEPTH\<close> "1.IH"(1) [OF False JArr \<open>c + 1 \<le> MAX_NODES\<close>]
      show ?thesis by (auto simp: encode_val.simps bindS_Inr_iff)
    next
      case (JObj es)
      with False \<open>d \<le> MAX_DEPTH\<close> "1.IH"(2) [OF False JObj \<open>c + 1 \<le> MAX_NODES\<close>]
      show ?thesis by (auto simp: encode_val.simps bindS_Inr_iff)
    qed (use False in \<open>auto simp: encode_val.simps\<close>)
  qed
next
  case (3 c d v vs)
  have "(\<exists>ts. encode_list c d (v # vs) = Inr (ts, c')) \<longleftrightarrow>
      (\<exists>c1. (\<exists>t. encode_val c d v = Inr (t, c1)) \<and> (\<exists>ts. encode_list c1 d vs = Inr (ts, c')))"
    by (auto simp: bindS_Inr_iff)
  also have "\<dots> \<longleftrightarrow> val_fits d v \<and> c + val_nodes v \<le> MAX_NODES \<and> (\<exists>ts. encode_list (c + val_nodes v) d vs = Inr (ts, c'))"
    using "3.IH"(1) by auto
  finally show ?case using "3.IH"(2) [of "c + val_nodes v" c'] by (auto simp: algebra_simps)
next
  case (5 c d k v es)
  have "(\<exists>ts. encode_entries c d ((k, v) # es) = Inr (ts, c')) \<longleftrightarrow>
      (\<exists>c1. (\<exists>t. encode_val c d v = Inr (t, c1)) \<and> (\<exists>ts. encode_entries c1 d es = Inr (ts, c')))"
    by (auto simp: bindS_Inr_iff)
  also have "\<dots> \<longleftrightarrow> val_fits d v \<and> c + val_nodes v \<le> MAX_NODES \<and> (\<exists>ts. encode_entries (c + val_nodes v) d es = Inr (ts, c'))"
    using "5.IH"(1) by auto
  finally show ?case using "5.IH"(2) [of "c + val_nodes v" c'] by (auto simp: algebra_simps)
qed auto

lemma encodeVaultJson_ok: "(\<exists>t. encodeVaultJson v = Inr t) \<longleftrightarrow> fits v"
proof -
  have "(\<exists>t. encodeVaultJson v = Inr t) \<longleftrightarrow> (\<exists>c t. encode_val 0 0 v = Inr (t, c))"
    by (auto simp: encodeVaultJson_def bindS_Inr_iff)
  also have "\<dots> \<longleftrightarrow> fits v" using encode_iff_fits(1) [of 0 0 v] by (auto simp: fits_def)
  finally show ?thesis .
qed

lemma encodeVaultJson_inject:
  "encodeVaultJson v = Inr t \<Longrightarrow> encodeVaultJson w = Inr t \<Longrightarrow> w = v"
  by (auto simp: encodeVaultJson_def bindS_Inr_iff dest: encode_val_inject(1))

lemma decode_encoded:
  assumes "encodeVaultJson v = Inr t" and "decodeVaultJson t = Inr w"
  shows "w = v \<and> wf_val v"
proof -
  from assms(1) obtain n c where n: "encode_val 0 0 v = Inr (n, c)"
    "t = JObj [(js ''format'', JStr (js VAULT_FORMAT)), (js ''payload'', n)]"
    by (auto simp: encodeVaultJson_def bindS_Inr_iff)
  with assms(2) obtain c' where d: "decode_val 0 0 n = Inr (w, c')"
    by (auto simp: decodeVaultJson_def get_prop_def starts_with_def VAULT_FORMAT_def js_def
        split: sum.splits prod.splits)
  from encode_decode_back(1) [OF n(1) d] decode_encode(1) [OF d] show ?thesis by simp
qed

text \<open>A copy through the codec, and the comparison of two encodings.\<close>

lemma copy_iff: "bindS (encodeVaultJson v) decodeVaultJson = Inr w \<longleftrightarrow> w = v \<and> wf_val v \<and> fits v"
  using encodeVaultJson_ok [of v] decode_encoded [of v] vault_encode_decode [of v]
  by (auto simp: bindS_Inr_iff)

lemma compare_iff:
  "bindS (encodeVaultJson a) (\<lambda>x. bindS (encodeVaultJson b) (\<lambda>y. Inr (x = y))) = Inr r \<longleftrightarrow>
     fits a \<and> fits b \<and> r = (a = b)"
  using encodeVaultJson_ok [of a] encodeVaultJson_ok [of b] encodeVaultJson_inject
  by (auto simp: bindS_Inr_iff)

section \<open>Parts of a value that fits\<close>

lemma val_fits_mono: "val_fits d v \<Longrightarrow> d' \<le> d \<Longrightarrow> val_fits d' v"
proof (induction d v arbitrary: d' rule: val_fits.induct)
  case (1 d vs)
  then show ?case by (auto simp: list_all_iff)
next
  case (2 d es)
  then show ?case by (auto simp: list_all_iff)
qed auto

lemma fits_element: "fits (JArr vs) \<Longrightarrow> v \<in> set vs \<Longrightarrow> fits v"
  using val_fits_mono [of 1 v 0] member_le_sum_list [of "val_nodes v" "map val_nodes vs"]
  by (auto simp: fits_def list_all_iff)

lemma fits_field: "fits (JObj es) \<Longrightarrow> (k, v) \<in> set es \<Longrightarrow> fits v"
  using val_fits_mono [of 1 v 0] member_le_sum_list [of "val_nodes v" "map (\<lambda>e. val_nodes (snd e)) es"]
  by (force simp: fits_def list_all_iff)

section \<open>Object literals\<close>

lemma js_inject: "js s = js t \<longleftrightarrow> s = t"
  by (metis js_eq_iff inj_map_eq_map inj_def of_char_eq_iff)

lemma get_prop_obj:
  "get_prop (js_entries es) k = (case map_of es k of Some v \<Rightarrow> v | None \<Rightarrow> JUndefined)"
  by (induction es) (auto simp: js_entries_def get_prop_def js_inject simp del: js_eq_iff split: option.splits)

end
