(* ===== verification/Journal_Facts.thy ===== *)
theory Journal_Facts
  imports Journal_Lease Vault_Facts
begin

text \<open>
  Facts about the journal: reading back a written record, the loop of \<open>validateRecord\<close> as a statement
  about the list, what compaction and an update do to a valid record, and the relation between the
  records before and after a call.
\<close>

declare js_eq_iff [simp del] js_inject [simp]

text \<open>A guard that throws.\<close>

lemma guard_throws [outcome_ok]:
  "(if b then invalid m else k) = Inr z \<longleftrightarrow> \<not> b \<and> k = Inr z"
  "(if b then conflict m else k) = Inr z \<longleftrightarrow> \<not> b \<and> k = Inr z"
  "(if b then tampered else k) = Inr z \<longleftrightarrow> \<not> b \<and> k = Inr z"
  "invalid m \<noteq> Inr z" "conflict m \<noteq> Inr z" "tampered \<noteq> Inr z"
  by (auto simp: invalid_def conflict_def tampered_def)

section \<open>Copies and comparisons\<close>

lemma clone_iff: "clone v = Inr w \<longleftrightarrow> w = v \<and> wf_val v \<and> fits v"
  unfolding clone_def by (rule copy_iff)

lemma same_encoding_iff: "same_encoding a b = Inr r \<longleftrightarrow> fits a \<and> fits b \<and> r = (a = b)"
  unfolding same_encoding_def by (rule compare_iff)

lemma clone_record_iff: "clone_record r = Inr s \<longleftrightarrow> s = r \<and> wf_val (record_val r) \<and> fits (record_val r)"
  by (auto simp: clone_record_def bindS_Inr_iff clone_iff)

lemma clone_op_iff: "clone_op p = Inr q \<longleftrightarrow> q = p \<and> wf_val (op_val p) \<and> fits (op_val p)"
  by (auto simp: clone_op_def bindS_Inr_iff clone_iff)

section \<open>Reading back a written record\<close>

lemma entries_obj [simp]: "entries_of (obj es) = js_entries es"
  by (simp add: obj_def entries_of_def props_of_def)

lemma exactKeys_obj: "map fst es = keys \<Longrightarrow> exactKeys (js_entries es) keys"
  by (auto simp: exactKeys_def js_entries_def list_all_iff image_iff split_def)

lemma read_leaf [simp]:
  "read_str (JStr s) = Some s" "read_opt (opt_str c) = Some c" "read_bool (JBool b) = Some b"
  "safe_num (num_val n) = (if isSafeInteger n then Some n else None)"
  by (simp_all add: read_str_def read_opt_def opt_str_def read_bool_def num_val_def safe_num_def split: option.splits)

lemma read_status_name [simp]: "read_status (JStr (js (status_name s))) = Some s"
  by (cases s) (simp_all add: read_status_def)

lemma read_scope_val: "read_scope (scope_val s) = Some s"
  by (simp add: read_scope_def scope_val_def Let_def exactKeys_obj SCOPE_KEYS_def get_prop_obj)

lemma read_op_val:
  assumes "isSafeInteger (jo_sequence p)" "isSafeInteger (jo_createdAt p)" "isSafeInteger (jo_updatedAt p)"
  shows "read_op (op_val p) = Some p"
proof -
  have keys: "exactKeys (entries_of (op_val p)) OPERATION_KEYS"
    by (simp add: op_val_def exactKeys_obj OPERATION_KEYS_def)
  show ?thesis
    unfolding read_op_def Let_def using keys assms
    by (simp add: op_val_def get_prop_obj)
qed

lemma those_map_Some: "(\<And>x. x \<in> set xs \<Longrightarrow> f x = Some (g x)) \<Longrightarrow> those (map f xs) = Some (map g xs)"
  by (induction xs) auto

section \<open>A valid record, as a statement about its list\<close>

definition op_ok :: "int \<Rightarrow> journal_op \<Rightarrow> bool" where
  "op_ok revision p \<longleftrightarrow>
     is_ok (normalizePrepared (intent p)) \<and> valid_effect (jo_effect p) \<and>
     (jo_receipt p = JNull \<or> is_ok (normalizeReceipt (jo_receipt p))) \<and>
     isSafeInteger (jo_sequence p) \<and> jo_sequence p \<le> revision \<and>
     isSafeInteger (jo_createdAt p) \<and> isSafeInteger (jo_updatedAt p) \<and>
     0 \<le> jo_createdAt p \<and> jo_createdAt p \<le> jo_updatedAt p \<and>
     (case jo_transactionId p of Some t \<Rightarrow> validTx t | None \<Rightarrow> True) \<and>
     (jo_acknowledged p \<longrightarrow> jo_status p = OpConfirmed) \<and>
     (jo_receipt p \<noteq> JNull \<longrightarrow> jo_status p = OpConfirmed) \<and>
     (jo_compacted p \<longrightarrow> settled p \<and> jo_beforeSnapshot p = JNull \<and> jo_candidateSnapshot p = JNull)"

lemma valid_op_iff:
  "valid_op revision s ids p \<longleftrightarrow> op_ok revision p \<and> jo_id p \<notin> ids \<and> s < jo_sequence p"
  by (auto simp: valid_op_def op_ok_def)

lemma valid_ops_iff:
  "valid_ops revision s ids ps = Some n \<longleftrightarrow>
     (\<forall>p \<in> set ps. op_ok revision p) \<and> sorted_wrt (<) (s # map jo_sequence ps) \<and>
     distinct (map jo_id ps) \<and> ids \<inter> jo_id ` set ps = {} \<and> n = length (filter pending ps)"
proof (induction revision s ids ps arbitrary: n rule: valid_ops.induct)
  case (2 revision s ids p ps)
  show ?case
  proof (cases "valid_op revision s ids p")
    case True
    then have p: "op_ok revision p" "jo_id p \<notin> ids" "s < jo_sequence p" by (simp_all add: valid_op_iff)
    have sorted: "sorted_wrt (<) (jo_sequence p # map jo_sequence ps) \<longleftrightarrow>
        sorted_wrt (<) (s # map jo_sequence (p # ps))" using p(3) by auto
    have "valid_ops revision s ids (p # ps) = Some n \<longleftrightarrow>
        (\<exists>m. valid_ops revision (jo_sequence p) (insert (jo_id p) ids) ps = Some m \<and>
             n = m + (if pending p then 1 else 0))"
      using True by (auto split: option.splits)
    with "2.IH" True p show ?thesis unfolding sorted [symmetric] by auto
  qed (auto simp: valid_op_iff)
qed simp

lemma valid_record_iff:
  "valid_record scope r \<longleftrightarrow>
     (\<exists>s. normalizeScope (jr_scope r) = Inr s \<and> sameScope s scope) \<and>
     isSafeInteger (jr_revision r) \<and> 0 \<le> jr_revision r \<and>
     length (jr_operations r) \<le> MAX_JOURNAL_OPERATIONS \<and>
     (\<forall>p \<in> set (jr_operations r). op_ok (jr_revision r) p) \<and>
     sorted_wrt (<) (0 # map jo_sequence (jr_operations r)) \<and> distinct (map jo_id (jr_operations r)) \<and>
     length (filter pending (jr_operations r)) \<le> 1 \<and>
     (\<forall>p. latestConfirmedOperation r = Some p \<longrightarrow> \<not> jo_compacted p)"
proof -
  have "(case valid_ops (jr_revision r) 0 {} (jr_operations r) of Some n \<Rightarrow> n \<le> 1 | None \<Rightarrow> False) \<longleftrightarrow>
      (\<exists>n. valid_ops (jr_revision r) 0 {} (jr_operations r) = Some n \<and> n \<le> 1)"
    by (simp split: option.splits)
  then show ?thesis
    unfolding valid_record_def valid_ops_iff by (auto split: sum.splits option.splits)
qed

lemma validateRecord_Inr: "validateRecord v scope = Inr r \<longleftrightarrow> read_record v = Some r \<and> valid_record scope r"
  by (auto simp: validateRecord_def tampered_def split: option.splits)

lemma validateRecord_Inl: "validateRecord v scope = Inl x \<Longrightarrow>
    x = Throw (NamedError ''VaultTamperedError'' ''Invalid or mismatched encrypted operation journal.'')"
  by (auto simp: validateRecord_def tampered_def split: option.splits if_splits)

lemma read_record_val:
  assumes "valid_record scope r"
  shows "read_record (record_val r) = Some r"
proof -
  have ops: "those (map read_op (map op_val (jr_operations r))) = Some (jr_operations r)"
    using assms unfolding map_map comp_def
    by (subst those_map_Some [where g = "\<lambda>p. p"]) (auto simp: valid_record_iff op_ok_def read_op_val)
  have keys: "exactKeys (entries_of (record_val r)) RECORD_KEYS"
    by (simp add: record_val_def exactKeys_obj RECORD_KEYS_def)
  show ?thesis
    unfolding read_record_def Let_def using keys assms ops
    by (simp add: record_val_def get_prop_obj read_scope_val valid_record_iff)
qed

lemma validate_written: "valid_record scope r \<Longrightarrow> validateRecord (record_val r) scope = Inr r"
  by (simp add: validateRecord_Inr read_record_val)

section \<open>Normalisation again\<close>

lemma lower_char_idem [simp]: "lower_char (lower_char c) = lower_char c"
proof (cases "65 \<le> unat c \<and> unat c \<le> 90")
  case True
  then have "unat (c + 32) = unat c + 32" by (simp add: unat_word_ariths)
  with True show ?thesis by (simp add: lower_char_def)
qed (simp add: lower_char_def)

lemma is_hex_lower_char: "is_hex c \<Longrightarrow> is_hex (lower_char c)"
proof (cases "65 \<le> unat c \<and> unat c \<le> 90")
  case True
  assume "is_hex c"
  from True have "unat (c + 32) = unat c + 32" by (simp add: unat_word_ariths)
  with True \<open>is_hex c\<close> show ?thesis by (auto simp: lower_char_def is_hex_def Let_def)
next
  case False
  then have "lower_char c = c" unfolding lower_char_def by (rule if_not_P)
  then show "is_hex c \<Longrightarrow> ?thesis" by simp
qed

lemma hex_Inr: "hex v label = Inr h \<longleftrightarrow>
    (\<exists>s. v = JStr s \<and> length (strip_0x s) = 64 \<and> list_all is_hex (strip_0x s) \<and> h = map lower_char (strip_0x s))"
  by (cases v) (auto simp: hex_def invalid_def)

lemma hex_again: "hex v label = Inr h \<Longrightarrow> hex (JStr h) label' = Inr h"
proof -
  assume "hex v label = Inr h"
  then have "list_all is_hex h" "length h = 64" "map lower_char h = h"
    by (auto simp: hex_Inr list_all_iff is_hex_lower_char)
  then show ?thesis by (simp add: hex_def strip_0x_hex)
qed

lemma opt_str_simps [simp]: "opt_str None = JNull" "opt_str (Some s) = JStr s"
  by (simp_all add: opt_str_def)

lemma commitment_again: "commitment v label = Inr c \<Longrightarrow> commitment (opt_str c) label' = Inr c"
  by (auto simp: commitment_def bindS_Inr_iff hex_again split: if_splits)

lemma normalizeScope_again: "normalizeScope s = Inr t \<Longrightarrow> normalizeScope t = Inr t"
  by (auto simp: normalizeScope_def invalid_def bindS_Inr_iff hex_again split: if_splits)

lemma effects_differ [simp]: "COMPENSATION \<noteq> REFUND" "REFUND \<noteq> COMPENSATION"
  by (simp_all add: COMPENSATION_def REFUND_def)

lemma known_effect_strings:
  "known_effect c e \<Longrightarrow> (\<exists>s. c = JStr s) \<and> (\<exists>s. e = JStr s)"
  by (auto simp: known_effect_def effect_circuits_def)

lemma valid_generation_string: "valid_generation v \<Longrightarrow> \<exists>s. v = JStr s"
  by (auto simp: valid_generation_def split: jsval.splits)

lemma normalizeEffect_cases:
  assumes "normalizeEffect v = Inr n"
  obtains (plain) c t d g e where "n = obj [(''circuit'', c), (''targetCommitment'', JStr t), (''contractDomain'', JStr d),
        (''lineGeneration'', g), (''effect'', e)]"
      "known_effect c e" "valid_generation g" "e \<noteq> COMPENSATION" "e \<noteq> REFUND"
      "\<And>l. hex (JStr t) l = Inr t" "\<And>l. hex (JStr d) l = Inr d"
  | (compensation) c t d g r b line where "n = obj [(''circuit'', c), (''targetCommitment'', JStr t), (''contractDomain'', JStr d),
        (''lineGeneration'', g), (''effect'', COMPENSATION), (''refundCommitment'', JStr r), (''cashRefundOwed'', JBool b),
        (''lineCommitment'', opt_str line)]"
      "known_effect c COMPENSATION" "valid_generation g"
      "\<And>l. hex (JStr t) l = Inr t" "\<And>l. hex (JStr d) l = Inr d" "\<And>l. hex (JStr r) l = Inr r"
      "\<And>l. commitment (opt_str line) l = Inr line"
  | (refund) c t d g r pn where "n = obj [(''circuit'', c), (''targetCommitment'', JStr t), (''contractDomain'', JStr d),
        (''lineGeneration'', g), (''effect'', REFUND), (''refundCommitment'', JStr r), (''cashRefundOwed'', JBool True),
        (''paymentNullifier'', JStr pn)]"
      "known_effect c REFUND" "valid_generation g"
      "\<And>l. hex (JStr t) l = Inr t" "\<And>l. hex (JStr d) l = Inr d" "\<And>l. hex (JStr r) l = Inr r"
      "\<And>l. hex (JStr pn) l = Inr pn"
proof -
  let ?e = "entries_of v"
  let ?eff = "get_prop ?e ''effect''" and ?c = "get_prop ?e ''circuit''" and ?g = "get_prop ?e ''lineGeneration''"
  let ?base = "\<lambda>t d. [(''circuit'', ?c), (''targetCommitment'', JStr t), (''contractDomain'', JStr d),
      (''lineGeneration'', ?g), (''effect'', ?eff)]"
  from assms have known: "known_effect ?c ?eff" "valid_generation ?g"
    by (auto simp: normalizeEffect_def Let_def invalid_def split: if_splits)
  with assms obtain t d where td: "hex (get_prop ?e ''targetCommitment'') ''effect target commitment'' = Inr t"
      "hex (get_prop ?e ''contractDomain'') ''effect contract domain'' = Inr d"
    and n: "(if ?eff = COMPENSATION \<or> ?eff = REFUND then compound_effect ?e ?eff (?base t d) else Inr (obj (?base t d))) = Inr n"
    by (auto simp: normalizeEffect_def Let_def bindS_Inr_iff)
  note td' = td [THEN hex_again]
  show thesis
  proof (cases "?eff = COMPENSATION \<or> ?eff = REFUND")
    case False
    with n known td' show ?thesis by (intro plain) auto
  next
    case True
    with n obtain r b where rb: "hex (get_prop ?e ''refundCommitment'') ''refund commitment'' = Inr r"
        "get_prop ?e ''cashRefundOwed'' = JBool b"
      by (fastforce simp: compound_effect_def Let_def invalid_def bindS_Inr_iff split: if_splits)
    note r' = hex_again [OF rb(1)]
    from True show ?thesis
    proof
      assume eff: "?eff = COMPENSATION"
      with n rb obtain line where line: "commitment (get_prop ?e ''lineCommitment'') ''compensation book commitment'' = Inr line"
          "n = obj (?base t d @ [(''refundCommitment'', JStr r), (''cashRefundOwed'', JBool b), (''lineCommitment'', opt_str line)])"
        by (auto simp: compound_effect_def Let_def bindS_Inr_iff)
      with known td' r' eff commitment_again [OF line(1)] show ?thesis by (intro compensation) auto
    next
      assume eff: "?eff = REFUND"
      with n rb have "b = True" by (auto simp: compound_effect_def Let_def invalid_def split: if_splits)
      with n rb eff obtain pn where pn: "hex (get_prop ?e ''paymentNullifier'') ''reported refund payment nullifier'' = Inr pn"
          "n = obj (?base t d @ [(''refundCommitment'', JStr r), (''cashRefundOwed'', JBool True), (''paymentNullifier'', JStr pn)])"
        by (auto simp: compound_effect_def Let_def bindS_Inr_iff)
      with known td' r' eff hex_again [OF pn(1)] show ?thesis by (intro refund) auto
    qed
  qed
qed

lemma normalizeEffect_again: "normalizeEffect v = Inr n \<Longrightarrow> normalizeEffect n = Inr n"
  by (erule normalizeEffect_cases) (simp_all add: normalizeEffect_def compound_effect_def get_prop_obj Let_def)

lemma effect_fits: "normalizeEffect v = Inr n \<Longrightarrow> fits n \<and> wf_val n"
  by (erule normalizeEffect_cases)
    (auto simp: fits_def obj_def js_entries_def MAX_NODES_def MAX_DEPTH_def opt_str_def COMPENSATION_def REFUND_def
      dest!: known_effect_strings valid_generation_string split: option.splits)

lemma valid_effect_normal: "normalizeEffect v = Inr n \<Longrightarrow> valid_effect n"
  using effect_fits [of v n] normalizeEffect_again [of v n]
  by (simp add: valid_effect_def same_encoding_iff)

lemma obj_not_null [simp]: "obj es \<noteq> JNull" "obj es \<noteq> JUndefined"
  by (simp_all add: obj_def)

lemma normalizeEffect_obj: "normalizeEffect v = Inr n \<Longrightarrow> n \<noteq> JNull \<and> n \<noteq> JUndefined"
  by (erule normalizeEffect_cases) simp_all

lemma normalizePrepared_Inr:
  "normalizePrepared i = Inr p \<longleftrightarrow>
     validId (jo_id i) \<and> jo_kind i \<in> js ` set OPERATION_KINDS \<and>
     (\<exists>f b c e. hex (JStr (jo_fingerprint i)) ''operation fingerprint'' = Inr f \<and>
        commitment (opt_str (jo_before i)) ''before commitment'' = Inr b \<and>
        commitment (opt_str (jo_candidate i)) ''candidate commitment'' = Inr c \<and>
        wf_val (jo_beforeSnapshot i) \<and> fits (jo_beforeSnapshot i) \<and>
        wf_val (jo_candidateSnapshot i) \<and> fits (jo_candidateSnapshot i) \<and>
        (if jo_effect i = JNull \<or> jo_effect i = JUndefined then e = JNull else normalizeEffect (jo_effect i) = Inr e) \<and>
        (e \<noteq> JNull \<longrightarrow> get_prop (entries_of e) ''circuit'' = JStr (jo_kind i)) \<and>
        (e \<noteq> JNull \<and> effect_name e = COMPENSATION \<longrightarrow>
           get_prop (entries_of e) ''lineCommitment'' = opt_str c \<and> (c = b \<longrightarrow> c = None)) \<and>
        (jo_kind i \<in> {js ''openLine'', js ''draw'', js ''acknowledgeRepayment''} \<longrightarrow> c \<noteq> None \<and> c \<noteq> b) \<and>
        p = \<lparr>jo_id = jo_id i, jo_kind = jo_kind i, jo_fingerprint = f, jo_before = b, jo_candidate = c,
             jo_beforeSnapshot = jo_beforeSnapshot i, jo_candidateSnapshot = jo_candidateSnapshot i, jo_effect = e\<rparr>)"
proof -
  have eff: "(if b1 then invalid m1 else if b2 then invalid m2 else if b3 then invalid m3
      else if b4 then invalid m4 else Inr q) = Inr p \<longleftrightarrow> \<not> b1 \<and> \<not> b2 \<and> \<not> b3 \<and> \<not> b4 \<and> p = q"
    for b1 b2 b3 b4 m1 m2 m3 m4 and q :: prepared_op
    by (auto simp: outcome_ok)
  have none: "(if b then Inr JNull else m) = Inr e \<longleftrightarrow> (if b then e = JNull else m = Inr e)" for b m e
    by auto
  show ?thesis
    unfolding normalizePrepared_def guard_throws bindS_Inr_iff clone_iff eff none
    by (simp only: de_Morgan_disj not_not conj_assoc) blast
qed

lemma normalizePrepared_effect:
  assumes "normalizePrepared i = Inr p"
  shows "valid_effect (jo_effect p) \<and> (jo_effect p = JNull \<or> jo_effect p \<noteq> JUndefined \<and> normalizeEffect (jo_effect p) = Inr (jo_effect p))"
proof -
  from assms obtain e where e: "jo_effect p = e"
      "if jo_effect i = JNull \<or> jo_effect i = JUndefined then e = JNull else normalizeEffect (jo_effect i) = Inr e"
    unfolding normalizePrepared_Inr by (elim conjE exE) simp
  show ?thesis
  proof (cases "jo_effect i = JNull \<or> jo_effect i = JUndefined")
    case True
    with e show ?thesis by (simp add: valid_effect_def)
  next
    case False
    with e have "normalizeEffect (jo_effect i) = Inr (jo_effect p)" by simp
    then show ?thesis using valid_effect_normal normalizeEffect_again normalizeEffect_obj by blast
  qed
qed

lemma normalizePrepared_again:
  assumes "normalizePrepared i = Inr p"
  shows "normalizePrepared p = Inr p"
proof -
  have eff: "if jo_effect p = JNull \<or> jo_effect p = JUndefined then jo_effect p = JNull
      else normalizeEffect (jo_effect p) = Inr (jo_effect p)"
    using normalizePrepared_effect [OF assms] by auto
  from assms obtain f b c e where p: "p = \<lparr>jo_id = jo_id i, jo_kind = jo_kind i, jo_fingerprint = f, jo_before = b,
      jo_candidate = c, jo_beforeSnapshot = jo_beforeSnapshot i, jo_candidateSnapshot = jo_candidateSnapshot i, jo_effect = e\<rparr>"
    and norm: "hex (JStr (jo_fingerprint i)) ''operation fingerprint'' = Inr f"
      "commitment (opt_str (jo_before i)) ''before commitment'' = Inr b"
      "commitment (opt_str (jo_candidate i)) ''candidate commitment'' = Inr c"
    and rest: "validId (jo_id i)" "jo_kind i \<in> js ` set OPERATION_KINDS"
      "wf_val (jo_beforeSnapshot i)" "fits (jo_beforeSnapshot i)"
      "wf_val (jo_candidateSnapshot i)" "fits (jo_candidateSnapshot i)"
      "e \<noteq> JNull \<longrightarrow> get_prop (entries_of e) ''circuit'' = JStr (jo_kind i)"
      "e \<noteq> JNull \<and> effect_name e = COMPENSATION \<longrightarrow>
         get_prop (entries_of e) ''lineCommitment'' = opt_str c \<and> (c = b \<longrightarrow> c = None)"
      "jo_kind i \<in> {js ''openLine'', js ''draw'', js ''acknowledgeRepayment''} \<longrightarrow> c \<noteq> None \<and> c \<noteq> b"
    unfolding normalizePrepared_Inr by (elim conjE exE) (rule that)
  note eff = eff [unfolded p prepared_op.simps]
  show ?thesis
    unfolding normalizePrepared_Inr p prepared_op.simps
    by (insert eff rest hex_again [OF norm(1)] commitment_again [OF norm(2)] commitment_again [OF norm(3)], rule conjI, assumption, rule conjI, assumption,
        rule exI [of _ f], rule exI [of _ b], rule exI [of _ c], rule exI [of _ e]) blast
qed

lemma fits_null [simp]: "fits JNull" "wf_val JNull"
  by (simp_all add: fits_def MAX_NODES_def MAX_DEPTH_def)

text \<open>Dropping the snapshots keeps an intent acceptable.\<close>

lemma normalizePrepared_compacted:
  assumes "is_ok (normalizePrepared p)"
  shows "is_ok (normalizePrepared (p\<lparr>jo_beforeSnapshot := JNull, jo_candidateSnapshot := JNull\<rparr>))"
proof -
  let ?q = "p\<lparr>jo_beforeSnapshot := JNull, jo_candidateSnapshot := JNull\<rparr>"
  have fields: "jo_id ?q = jo_id p" "jo_kind ?q = jo_kind p" "jo_fingerprint ?q = jo_fingerprint p"
    "jo_before ?q = jo_before p" "jo_candidate ?q = jo_candidate p" "jo_effect ?q = jo_effect p"
    "jo_beforeSnapshot ?q = JNull" "jo_candidateSnapshot ?q = JNull" by simp_all
  from assms obtain r where "normalizePrepared p = Inr r" unfolding is_ok_iff ..
  then show ?thesis
    unfolding is_ok_iff normalizePrepared_Inr fields using fits_null by (elim conjE exE) blast
qed

end
