(* ===== verification/Journal_Steps.thy ===== *)
theory Journal_Steps
  imports Journal_Facts
begin

text \<open>
  What a call can do to the journal: the updates of \<open>mutate\<close> one by one, compaction, the record a
  successful call leaves, and the order in which records of one journal can follow each other.
\<close>

section \<open>One operation\<close>

inductive status_le :: "op_status \<Rightarrow> op_status \<Rightarrow> bool" where
  same: "status_le s s"
| leave_prepared: "status_le OpPrepared t"
| submitted_settles: "s \<in> {OpSubmitting, OpUncertain} \<Longrightarrow> t \<in> {OpUncertain, OpConfirmed, OpRejected} \<Longrightarrow> status_le s t"

inductive_simps status_le_simps [simp]:
  "status_le OpPrepared t" "status_le OpSubmitting t" "status_le OpUncertain t"
  "status_le OpConfirmed t" "status_le OpRejected t"

lemma status_le_trans: "status_le s t \<Longrightarrow> status_le t u \<Longrightarrow> status_le s u"
  by (cases s; cases t) auto

text \<open>\<open>q\<close> is what \<open>p\<close> can have become: the intent and the sequence never change, snapshots can only
  be dropped, identifiers of transactions and receipts are never replaced.\<close>

definition op_le :: "journal_op \<Rightarrow> journal_op \<Rightarrow> bool" where
  "op_le p q \<longleftrightarrow>
     jo_id q = jo_id p \<and> jo_kind q = jo_kind p \<and> jo_fingerprint q = jo_fingerprint p \<and>
     jo_before q = jo_before p \<and> jo_candidate q = jo_candidate p \<and> jo_effect q = jo_effect p \<and>
     jo_sequence q = jo_sequence p \<and> jo_createdAt q = jo_createdAt p \<and>
     (jo_compacted q = jo_compacted p \<and> jo_beforeSnapshot q = jo_beforeSnapshot p \<and>
        jo_candidateSnapshot q = jo_candidateSnapshot p \<or>
      jo_compacted q \<and> settled q \<and> jo_beforeSnapshot q = JNull \<and> jo_candidateSnapshot q = JNull) \<and>
     status_le (jo_status p) (jo_status q) \<and>
     (jo_acknowledged p \<and> jo_status p = OpConfirmed \<longrightarrow> jo_acknowledged q) \<and>
     (jo_transactionId p \<noteq> None \<longrightarrow> jo_transactionId q = jo_transactionId p) \<and>
     (jo_receipt p \<noteq> JNull \<longrightarrow> jo_receipt q = jo_receipt p)"

lemma op_le_refl [simp]: "op_le p p"
  by (auto simp: op_le_def status_le.same)

lemma settled_le: "op_le p q \<Longrightarrow> settled p \<Longrightarrow> settled q"
  by (auto simp: op_le_def settled_def)

lemma op_le_trans:
  assumes "op_le p q" "op_le q s"
  shows "op_le p s"
proof -
  note a = assms(1) [unfolded op_le_def] and b = assms(2) [unfolded op_le_def]
  have status: "status_le (jo_status p) (jo_status s)" using a b status_le_trans by blast
  have snapshots: "jo_compacted s = jo_compacted p \<and> jo_beforeSnapshot s = jo_beforeSnapshot p \<and>
        jo_candidateSnapshot s = jo_candidateSnapshot p \<or>
      jo_compacted s \<and> settled s \<and> jo_beforeSnapshot s = JNull \<and> jo_candidateSnapshot s = JNull"
    using a b settled_le [OF assms(2)] by metis
  have acknowledged: "jo_acknowledged p \<and> jo_status p = OpConfirmed \<longrightarrow> jo_acknowledged s"
    using a b by (metis status_le_simps(4))
  show ?thesis
    unfolding op_le_def using a b status snapshots acknowledged by (intro conjI; metis)
qed

section \<open>Compaction\<close>

lemma compact_op_simps [simp]:
  "jo_id (compact_op p) = jo_id p" "jo_kind (compact_op p) = jo_kind p"
  "jo_fingerprint (compact_op p) = jo_fingerprint p" "jo_before (compact_op p) = jo_before p"
  "jo_candidate (compact_op p) = jo_candidate p" "jo_effect (compact_op p) = jo_effect p"
  "jo_sequence (compact_op p) = jo_sequence p" "jo_status (compact_op p) = jo_status p"
  "jo_createdAt (compact_op p) = jo_createdAt p" "jo_updatedAt (compact_op p) = jo_updatedAt p"
  "jo_acknowledged (compact_op p) = jo_acknowledged p" "jo_transactionId (compact_op p) = jo_transactionId p"
  "jo_receipt (compact_op p) = jo_receipt p" "pending (compact_op p) = pending p" "settled (compact_op p) = settled p"
  by (simp_all add: compact_op_def pending_def settled_def)

lemma op_le_compact: "op_le p (compact_op p)"
  by (simp add: op_le_def compact_op_def settled_def status_le.same)

lemma op_ok_compact: "op_ok revision p \<Longrightarrow> op_ok revision (compact_op p)"
proof (cases "settled p")
  case True
  assume ok: "op_ok revision p"
  have "intent (compact_op p) = (intent p)\<lparr>jo_beforeSnapshot := JNull, jo_candidateSnapshot := JNull\<rparr>"
    using True by (simp add: intent_def compact_op_def)
  with ok normalizePrepared_compacted [of "intent p"] True show ?thesis
    by (simp add: op_ok_def compact_op_def settled_def)
qed (simp add: compact_op_def)

lemma list_all2_member: "list_all2 P xs ys \<Longrightarrow> y \<in> set ys \<Longrightarrow> \<exists>x \<in> set xs. P x y"
  by (induction rule: list_all2_induct) auto

lemma compact_from_rel: "list_all2 (\<lambda>p q. q = p \<or> q = compact_op p) ps (compact_from seen ps)"
  by (induction seen ps rule: compact_from.induct) auto

lemma compact_rel: "list_all2 (\<lambda>p q. q = p \<or> q = compact_op p) ps (compact ps)"
  using compact_from_rel [of "rev ps" False] list_all2_rev [of _ "rev ps"] by (fastforce simp: compact_def)

lemma compact_le: "list_all2 op_le ps (compact ps)"
  using compact_rel [of ps] by (rule list_all2_mono) (auto simp: op_le_compact)

lemma compact_map: "(\<And>p. g (compact_op p) = g p) \<Longrightarrow> map g (compact ps) = map g ps"
proof -
  assume g: "\<And>p. g (compact_op p) = g p"
  have "list_all2 (\<lambda>a b. b = a) (map g ps) (map g (compact ps))"
    using compact_rel [of ps] g by (auto simp: list_all2_map1 list_all2_map2 elim!: list_all2_mono)
  then show ?thesis by (simp add: list_all2_eq [symmetric] list.rel_eq eq_commute)
qed

lemma find_confirmed_compact:
  "find (\<lambda>p. jo_status p = OpConfirmed) (compact_from False ps) = find (\<lambda>p. jo_status p = OpConfirmed) ps"
  by (induction ps) auto

lemma latest_compact:
  "latestConfirmedOperation (r\<lparr>jr_operations := compact (jr_operations r)\<rparr>) = latestConfirmedOperation r"
  by (simp add: latestConfirmedOperation_def compact_def find_confirmed_compact)

lemma valid_compact:
  assumes "valid_record scope r"
  shows "valid_record scope (r\<lparr>jr_operations := compact (jr_operations r)\<rparr>)"
proof -
  let ?ps = "jr_operations r"
  have "length (filter pending (compact ?ps)) = length (filter pending ?ps)"
    using arg_cong [OF compact_map [of pending ?ps], of "\<lambda>bs. length (filter (\<lambda>b. b) bs)"]
    by (simp add: filter_map comp_def)
  moreover have "op_ok (jr_revision r) q" if "q \<in> set (compact ?ps)" for q
  proof -
    from list_all2_member [OF compact_rel that] obtain p where "p \<in> set ?ps" "q = p \<or> q = compact_op p" by blast
    with assms op_ok_compact [of "jr_revision r" p] show ?thesis by (auto simp: valid_record_iff)
  qed
  ultimately show ?thesis
    using assms list_all2_lengthD [OF compact_rel [of ?ps]] compact_map [of jo_sequence ?ps] compact_map [of jo_id ?ps]
    unfolding valid_record_iff latest_compact by simp
qed

section \<open>The updates\<close>

text \<open>What the update of a method may do before \<open>mutate\<close> sets the time.\<close>

definition op_step :: "journal_op \<Rightarrow> journal_op \<Rightarrow> bool" where
  "op_step p q \<longleftrightarrow>
     intent q = intent p \<and> jo_sequence q = jo_sequence p \<and> jo_createdAt q = jo_createdAt p \<and>
     jo_compacted q = jo_compacted p \<and> jo_updatedAt q = jo_updatedAt p \<and>
     status_le (jo_status p) (jo_status q) \<and> jo_status q \<noteq> OpPrepared \<and>
     (jo_acknowledged q \<longleftrightarrow> jo_acknowledged p \<or> jo_status p = OpConfirmed \<and> jo_acknowledged q) \<and>
     (settled p \<longrightarrow> jo_status p = OpConfirmed) \<and>
     (jo_transactionId q = jo_transactionId p \<or>
        jo_transactionId p = None \<and> (\<exists>t. jo_transactionId q = Some t \<and> validTx t)) \<and>
     (jo_receipt q = jo_receipt p \<or>
        jo_receipt p = JNull \<and> is_ok (normalizeReceipt (jo_receipt q)) \<and> jo_status q = OpConfirmed)"

lemma op_stepD:
  assumes "op_step p q"
  shows "intent q = intent p" "jo_sequence q = jo_sequence p" "jo_createdAt q = jo_createdAt p"
    "jo_compacted q = jo_compacted p" "status_le (jo_status p) (jo_status q)" "jo_status q \<noteq> OpPrepared"
    "jo_acknowledged p \<Longrightarrow> jo_acknowledged q" "jo_acknowledged q \<Longrightarrow> jo_acknowledged p \<or> jo_status p = OpConfirmed"
    "settled p \<Longrightarrow> jo_status p = OpConfirmed"
    "jo_transactionId q = jo_transactionId p \<or>
        jo_transactionId p = None \<and> (\<exists>t. jo_transactionId q = Some t \<and> validTx t)"
    "jo_receipt q = jo_receipt p \<or>
        jo_receipt p = JNull \<and> is_ok (normalizeReceipt (jo_receipt q)) \<and> jo_status q = OpConfirmed"
    "jo_status p = OpConfirmed \<Longrightarrow> jo_status q = OpConfirmed"
  using assms status_le_simps(4) unfolding op_step_def by metis+

lemma intent_fields:
  assumes "intent q = intent p"
  shows "jo_id q = jo_id p" "jo_kind q = jo_kind p" "jo_fingerprint q = jo_fingerprint p"
    "jo_before q = jo_before p" "jo_candidate q = jo_candidate p" "jo_effect q = jo_effect p"
    "jo_beforeSnapshot q = jo_beforeSnapshot p" "jo_candidateSnapshot q = jo_candidateSnapshot p"
  using assms by (simp_all add: intent_def)

lemma op_okD:
  assumes "op_ok revision p"
  shows "is_ok (normalizePrepared (intent p))" "valid_effect (jo_effect p)"
     "jo_receipt p = JNull \<or> is_ok (normalizeReceipt (jo_receipt p))"
     "isSafeInteger (jo_sequence p)" "jo_sequence p \<le> revision"
     "isSafeInteger (jo_createdAt p)" "0 \<le> jo_createdAt p"
     "\<And>t. jo_transactionId p = Some t \<Longrightarrow> validTx t"
     "jo_acknowledged p \<Longrightarrow> jo_status p = OpConfirmed" "jo_receipt p \<noteq> JNull \<Longrightarrow> jo_status p = OpConfirmed"
     "jo_compacted p \<Longrightarrow> settled p" "jo_compacted p \<Longrightarrow> jo_beforeSnapshot p = JNull"
     "jo_compacted p \<Longrightarrow> jo_candidateSnapshot p = JNull"
  using assms unfolding op_ok_def by (simp_all split: option.splits)

lemma intent_update [simp]:
  "intent (p\<lparr>jo_status := s\<rparr>) = intent p" "intent (p\<lparr>jo_transactionId := t\<rparr>) = intent p"
  "intent (p\<lparr>jo_receipt := c\<rparr>) = intent p" "intent (p\<lparr>jo_acknowledged := a\<rparr>) = intent p"
  "intent (p\<lparr>jo_updatedAt := u\<rparr>) = intent p"
  by (simp_all add: intent_def)

lemma submit_step: "submit_update submitted tx p = Inr q \<Longrightarrow> op_step p q"
  by (auto simp: submit_update_def op_step_def outcome_ok settled_def split: option.splits)

lemma uncertain_step: "uncertain_update p = Inr q \<Longrightarrow> op_step p q"
  by (auto simp: uncertain_update_def op_step_def outcome_ok settled_def)

lemma abandon_step: "abandon_update p = Inr q \<Longrightarrow> op_step p q"
  by (auto simp: abandon_update_def op_step_def outcome_ok settled_def)

lemma acknowledge_step: "acknowledge_update p = Inr q \<Longrightarrow> op_step p q"
  by (auto simp: acknowledge_update_def op_step_def outcome_ok settled_def)

lemma reject_step: "reject_update scope ev p = Inr q \<Longrightarrow> op_step p q"
  by (auto simp: reject_update_def op_step_def outcome_ok settled_def or_else_def split: option.splits)

lemma receipt_tx:
  assumes "normalizeReceipt v = Inr rc"
  shows "rc = v \<and> (\<forall>t. read_str (get_prop (entries_of v) ''txId'') = Some t \<longrightarrow> validTx t) \<and>
    (\<forall>t. read_str (get_prop (entries_of v) ''txHash'') = Some t \<longrightarrow> validTx t)"
  using assms
  by (auto simp: normalizeReceipt_def Let_def outcome_ok clone_iff optional_tx_def read_str_def split: jsval.splits)

lemma receipt_step:
  assumes "definite_receipt v p = Inr q" "jo_status p \<in> {OpSubmitting, OpUncertain, OpConfirmed}"
  shows "op_step p (q\<lparr>jo_status := OpConfirmed\<rparr>)"
proof -
  from assms(1) obtain rc where rc: "normalizeReceipt v = Inr rc"
    and same: "jo_receipt p = JNull \<or> same_encoding (jo_receipt p) rc = Inr True"
    and q: "q = p\<lparr>jo_receipt := rc, jo_transactionId := or_else (jo_transactionId p)
        (or_else (read_str (get_prop (entries_of rc) ''txId'')) (read_str (get_prop (entries_of rc) ''txHash'')))\<rparr>"
    by (auto simp: definite_receipt_def Let_def outcome_ok split: if_splits)
  from receipt_tx [OF rc] rc same assms(2) show ?thesis
    unfolding q
    by (auto simp: op_step_def settled_def or_else_def same_encoding_iff is_ok_iff split: option.splits)
qed

lemma observed_same:
  "observed_candidate c p = Inr q \<Longrightarrow> q = p"
  "observed_effect v p = Inr q \<Longrightarrow> q = p"
  by (auto simp: observed_candidate_def observed_effect_def outcome_ok split: option.splits)

lemma op_step_tx:
  "op_step p (q\<lparr>jo_status := OpConfirmed\<rparr>) \<Longrightarrow> validTx t \<Longrightarrow> jo_transactionId q = None \<or> jo_transactionId q = Some t \<Longrightarrow>
     op_step p (q\<lparr>jo_transactionId := Some t, jo_status := OpConfirmed\<rparr>)"
  by (auto simp: op_step_def)

lemma confirm_step: "confirm_update scope ev p = Inr q \<Longrightarrow> op_step p q"
proof -
  assume "confirm_update scope ev p = Inr q"
  then obtain p1 where status: "jo_status p \<in> {OpSubmitting, OpUncertain, OpConfirmed}"
    and p1: "(case ce_kind ev of ObservedCandidate c \<Rightarrow> observed_candidate c p
       | ObservedEffect v \<Rightarrow> observed_effect v p | DefiniteReceipt rc \<Rightarrow> definite_receipt rc p
       | OtherConfirmation \<Rightarrow> invalid ''A confirmed runtime receipt is required.'') = Inr p1"
    and q: "(case ce_transactionId ev of None \<Rightarrow> q = p1\<lparr>jo_status := OpConfirmed\<rparr>
       | Some t \<Rightarrow> validTx t \<and> (jo_transactionId p1 = None \<or> jo_transactionId p1 = Some t) \<and>
           q = p1\<lparr>jo_transactionId := Some t, jo_status := OpConfirmed\<rparr>)"
    by (auto simp: confirm_update_def outcome_ok split: option.splits)
  have "op_step p (p\<lparr>jo_status := OpConfirmed\<rparr>)"
    using status by (auto simp: op_step_def settled_def)
  with p1 status have "op_step p (p1\<lparr>jo_status := OpConfirmed\<rparr>)"
    by (auto simp: outcome_ok dest: observed_same receipt_step split: confirm_kind.splits)
  with q op_step_tx show ?thesis by (auto split: option.splits)
qed

section \<open>The record after an update\<close>

definition journal_le :: "journal \<Rightarrow> journal \<Rightarrow> bool" where
  "journal_le r r' \<longleftrightarrow> jr_revision r \<le> jr_revision r' \<and>
     (\<exists>qs ns. jr_operations r' = qs @ ns \<and> list_all2 op_le (jr_operations r) qs \<and>
        (\<forall>n \<in> set ns. jr_revision r < jo_sequence n))"

lemma journal_le_refl [simp]: "journal_le r r"
  unfolding journal_le_def
  by (intro conjI order_refl, rule exI [of _ "jr_operations r"], rule exI [of _ "[]"]) (simp add: list_all2_same)

lemma journal_le_trans:
  assumes "journal_le r s" "journal_le s t"
  shows "journal_le r t"
proof -
  from assms obtain qs ns ps ms where
    s: "jr_operations s = qs @ ns" "list_all2 op_le (jr_operations r) qs" "\<forall>n \<in> set ns. jr_revision r < jo_sequence n"
      "jr_revision r \<le> jr_revision s" and
    t: "jr_operations t = ps @ ms" "list_all2 op_le (jr_operations s) ps" "\<forall>n \<in> set ms. jr_revision s < jo_sequence n"
      "jr_revision s \<le> jr_revision t"
    by (auto simp: journal_le_def)
  from t(2) [unfolded s(1)] obtain as bs where ps: "ps = as @ bs" "list_all2 op_le qs as" "list_all2 op_le ns bs"
    by (auto simp: list_all2_append1)
  have "list_all2 op_le (jr_operations r) as"
    using s(2) ps(2) by (rule list_all2_trans [rotated]) (rule op_le_trans)
  moreover have "jr_revision r < jo_sequence n" if "n \<in> set (bs @ ms)" for n
  proof (cases "n \<in> set bs")
    case True
    with list_all2_member [OF ps(3)] obtain m where "m \<in> set ns" "op_le m n" by blast
    with s(3) show ?thesis by (simp add: op_le_def)
  next
    case False
    with that t(3) s(4) show ?thesis by force
  qed
  ultimately show ?thesis
    using s(4) t(1,4) ps(1) unfolding journal_le_def by (intro conjI exI [of _ as] exI [of _ "bs @ ms"]) auto
qed

lemma find_update:
  assumes "find_op i r = Some p" "jo_id q = i"
  obtains ys zs where "jr_operations r = ys @ p # zs" "jo_id p = i" "jr_operations (set_op i q r) = ys @ q # zs"
    "i \<notin> jo_id ` set ys"
proof -
  from assms(1) [unfolded find_op_def] show thesis
    by (rule find_split) (rule that, auto simp: set_op_def)
qed

lemma op_step_le:
  assumes "op_step p q"
  shows "op_le p (q\<lparr>jo_updatedAt := u\<rparr>)"
proof -
  note a = op_stepD [OF assms]
  note fields = intent_fields [OF a(1)]
  show ?thesis unfolding op_le_def using a(10,11) by (auto simp: fields a(2-5,7))
qed

lemma op_step_ok:
  assumes "op_step p q" "op_ok revision p" "isSafeInteger now"
  shows "op_ok (revision + 1) (q\<lparr>jo_updatedAt := max (jo_createdAt q) now\<rparr>) \<and>
    (pending q \<longrightarrow> pending p) \<and> (jo_compacted q \<longrightarrow> jo_status p = OpConfirmed)"
proof -
  note a = op_stepD [OF assms(1)] and b = op_okD [OF assms(2)]
  note fields = intent_fields [OF a(1)]
  let ?q = "q\<lparr>jo_updatedAt := max (jo_createdAt q) now\<rparr>"
  have ack: "jo_acknowledged q \<longrightarrow> jo_status q = OpConfirmed" using a(8,12) b(9) by blast
  have settled: "settled p \<Longrightarrow> settled q" 
  proof -
    assume p: "settled p"
    then have "jo_status p = OpConfirmed" by (rule a(9))
    with p have "jo_acknowledged p" by (simp add: settled_def)
    with \<open>jo_status p = OpConfirmed\<close> a(7,12) show ?thesis by (simp add: settled_def)
  qed
  have receipt: "jo_receipt q = JNull \<or> is_ok (normalizeReceipt (jo_receipt q))"
    "jo_receipt q \<noteq> JNull \<longrightarrow> jo_status q = OpConfirmed"
    using a(11,12) b(3,10) by metis+
  have tx: "case jo_transactionId q of Some t \<Rightarrow> validTx t | None \<Rightarrow> True"
    using a(10) b(8) by (auto split: option.splits)
  have compacted: "jo_compacted q \<longrightarrow> settled q \<and> jo_beforeSnapshot q = JNull \<and> jo_candidateSnapshot q = JNull"
    using a(4) b(11-13) fields(7,8) settled by simp
  have time: "isSafeInteger (max (jo_createdAt q) now)" "jo_sequence q \<le> revision + 1"
    using a(2,3) b(5,6) assms(3) by (simp_all add: max_def)
  have "op_ok (revision + 1) ?q"
    using a(1,2,3) b(1,2,4,6,7) ack receipt tx compacted time fields(6)
    unfolding op_ok_def by (simp add: settled_def)
  moreover have "pending q \<longrightarrow> pending p"
  proof
    assume q: "pending q"
    show "pending p"
    proof (rule ccontr)
      assume "\<not> pending p"
      then have "settled p" by (cases "jo_status p") (simp_all add: pending_def settled_def)
      then have "settled q" by (rule settled)
      with q show False by (auto simp: pending_def settled_def)
    qed
  qed
  moreover have "jo_compacted q \<longrightarrow> jo_status p = OpConfirmed" using a(4,9) b(11) by simp
  ultimately show ?thesis by blast
qed

lemma latest_split:
  "latestConfirmedOperation (r\<lparr>jr_operations := ys @ p # zs\<rparr>) =
     (case find (\<lambda>p. jo_status p = OpConfirmed) (rev zs) of
        Some z \<Rightarrow> Some z
      | None \<Rightarrow> if jo_status p = OpConfirmed then Some p else find (\<lambda>p. jo_status p = OpConfirmed) (rev ys))"
proof -
  have "find P (as @ bs) = (case find P as of Some z \<Rightarrow> Some z | None \<Rightarrow> find P bs)" for P and as bs :: "journal_op list"
    by (induction as) auto
  then show ?thesis by (simp add: latestConfirmedOperation_def split: option.splits)
qed

text \<open>An update only moves the record forward.\<close>

lemma update_le:
  assumes "find_op i r = Some p" "op_step p q"
  shows "journal_le r (r\<lparr>jr_revision := jr_revision r + 1,
    jr_operations := compact (jr_operations (set_op i (q\<lparr>jo_updatedAt := u\<rparr>) r))\<rparr>)"
proof -
  let ?q = "q\<lparr>jo_updatedAt := u\<rparr>"
  have "jo_id ?q = i" using assms by (auto simp: find_op_def op_step_def intent_def dest: find_SomeD)
  with assms(1) obtain ys zs where split: "jr_operations r = ys @ p # zs" "jr_operations (set_op i ?q r) = ys @ ?q # zs"
    by (rule find_update)
  have "list_all2 op_le (ys @ p # zs) (ys @ ?q # zs)"
    using op_step_le [OF assms(2)] by (auto simp: list_all2_append list_all2_same)
  then have "list_all2 op_le (jr_operations r) (compact (ys @ ?q # zs))"
    unfolding split(1) using compact_le by (rule list_all2_trans [rotated]) (rule op_le_trans)
  then show ?thesis
    unfolding journal_le_def split(2)
    by (intro conjI, simp) (rule exI [of _ "compact (ys @ ?q # zs)"], rule exI [of _ "[]"], simp)
qed

text \<open>No update makes the record fail its own validation.\<close>

lemma update_valid:
  assumes valid: "valid_record scope r" and "find_op i r = Some p" "op_step p q" "isSafeInteger now"
    and "jr_revision r \<noteq> max_safe"
  defines "r1 \<equiv> (set_op i (q\<lparr>jo_updatedAt := max (jo_createdAt q) now\<rparr>) r)\<lparr>jr_revision := jr_revision r + 1\<rparr>"
  shows "valid_record scope (r1\<lparr>jr_operations := compact (jr_operations r1)\<rparr>)"
proof -
  let ?q = "q\<lparr>jo_updatedAt := max (jo_createdAt q) now\<rparr>"
  have id: "jo_id ?q = jo_id p" using assms(3) by (simp add: op_step_def intent_def)
  then have "jo_id ?q = i" using assms(2) by (auto simp: find_op_def dest: find_SomeD)
  with assms(2) obtain ys zs where split: "jr_operations r = ys @ p # zs" "jo_id p = i"
      "jr_operations (set_op i ?q r) = ys @ ?q # zs"
    by (rule find_update)
  have ok: "op_ok (jr_revision r) p" using valid split(1) by (auto simp: valid_record_iff)
  note step = op_step_ok [OF assms(3) ok assms(4)]
  have weaken: "op_ok (jr_revision r + 1) x" if "op_ok (jr_revision r) x" for x
    using that by (auto simp: op_ok_def)
  have seq: "jo_sequence ?q = jo_sequence p" using assms(3) by (simp add: op_step_def)
  have status: "jo_status p = OpConfirmed \<Longrightarrow> jo_status ?q = OpConfirmed" "jo_compacted ?q \<Longrightarrow> jo_status p = OpConfirmed"
    "jo_compacted ?q = jo_compacted p"
    using assms(3) step by (auto simp: op_step_def dest: status_le_simps(4) [THEN iffD1])
  have pending: "pending ?q \<Longrightarrow> pending p" using step by (simp add: pending_def)
  have r: "r = r\<lparr>jr_operations := ys @ p # zs\<rparr>" using split(1) by simp
  have r1: "r1 = r\<lparr>jr_operations := ys @ ?q # zs, jr_revision := jr_revision r + 1\<rparr>"
    using split(3) by (simp add: r1_def set_op_def)
  have "latestConfirmedOperation r1 = latestConfirmedOperation (r\<lparr>jr_operations := ys @ ?q # zs\<rparr>)"
    by (simp add: r1 latestConfirmedOperation_def)
  moreover have "\<not> jo_compacted x" if "latestConfirmedOperation (r\<lparr>jr_operations := ys @ ?q # zs\<rparr>) = Some x" for x
  proof -
    have old: "\<not> jo_compacted y" if "latestConfirmedOperation (r\<lparr>jr_operations := ys @ p # zs\<rparr>) = Some y" for y
      using valid that [folded r] unfolding valid_record_iff by blast
    show ?thesis
    proof (cases "find (\<lambda>p. jo_status p = OpConfirmed) (rev zs)")
      case (Some z)
      with that old [of z] show ?thesis by (simp add: latest_split)
    next
      case None
      show ?thesis
      proof (cases "jo_status p = OpConfirmed")
        case True
        with None old [of p] have "\<not> jo_compacted p" by (simp add: latest_split)
        with that None True status(1,3) show ?thesis by (simp add: latest_split)
      next
        case False
        with status(2,3) have "\<not> jo_compacted ?q" by blast
        with that None False old [of x] show ?thesis by (auto simp: latest_split split: if_splits)
      qed
    qed
  qed
  moreover have "length (filter pending (ys @ ?q # zs)) \<le> length (filter pending (jr_operations r))"
    using pending by (simp add: split(1))
  moreover have "isSafeInteger (jr_revision r + 1)" "0 \<le> jr_revision r"
    using valid assms(5) by (simp_all add: valid_record_iff isSafeInteger_def max_safe_def)
  moreover have "\<forall>x \<in> set (ys @ ?q # zs). op_ok (jr_revision r + 1) x"
    using valid step weaken unfolding valid_record_iff split(1) by auto
  moreover have "map jo_sequence (ys @ ?q # zs) = map jo_sequence (jr_operations r)"
      "map jo_id (ys @ ?q # zs) = map jo_id (jr_operations r)"
    using seq id by (simp_all add: split(1))
  moreover have "length (ys @ ?q # zs) = length (jr_operations r)" by (simp add: split(1))
  ultimately have "valid_record scope r1"
    using valid unfolding valid_record_iff r1 by (simp del: sorted_wrt.simps)
  then show ?thesis by (rule valid_compact)
qed

section \<open>Calls\<close>

lemma assert_Inr [simp]:
  "assertLease st = Inr u \<longleftrightarrow> js_lease st" "assertSession b = Inr u \<longleftrightarrow> b"
  by (auto simp: assertLease_def conflict_def assertSession_def session_lost_def)

text \<open>The record a lease works on.\<close>

definition current :: "journal_scope \<Rightarrow> journal_state \<Rightarrow> journal outcome" where
  "current scope st =
     (case js_store st of None \<Rightarrow> Inr (empty_record scope) | Some v \<Rightarrow> validateRecord v scope)"

text \<open>A cached record is the stored one.\<close>

definition cache_ok :: "journal_scope \<Rightarrow> journal_state \<Rightarrow> bool" where
  "cache_ok scope st \<longleftrightarrow> (\<forall>r. js_cached st = Some r \<longrightarrow> current scope st = Inr r)"

lemma empty_valid: "normalizeScope scope = Inr scope \<Longrightarrow> valid_record scope (empty_record scope)"
  by (simp add: valid_record_iff empty_record_def latestConfirmedOperation_def sameScope_def isSafeInteger_def
      max_safe_def)

lemma current_valid:
  "normalizeScope scope = Inr scope \<Longrightarrow> current scope st = Inr r \<Longrightarrow> valid_record scope r"
  by (auto simp: current_def empty_valid validateRecord_Inr split: option.splits)

lemma read_journal_current:
  "read_journal scope e st = Inr r \<Longrightarrow> current scope st = Inr r \<and> js_lease st"
  by (auto simp: read_journal_def current_def bindS_Inr_iff split: option.splits if_splits)

lemma getRecord_current:
  assumes "cache_ok scope st" "getRecord scope e st = Inr (r, st1)"
  shows "current scope st = Inr r \<and> js_lease st \<and> st1 = st\<lparr>js_cached := Some r\<rparr> \<and> cache_ok scope st1 \<and>
    current scope st1 = Inr r"
proof -
  from assms(2) obtain r0 where "js_lease st" and r0: "(case js_cached st of Some r \<Rightarrow> Inr r | None \<Rightarrow> read_journal scope e st) = Inr r0"
    and "r = r0" "st1 = st\<lparr>js_cached := Some r0\<rparr>"
    by (auto simp: getRecord_def bindS_Inr_iff clone_record_iff)
  moreover have "current scope st = Inr r0"
    using r0 assms(1) read_journal_current by (auto simp: cache_ok_def split: option.splits)
  ultimately show ?thesis by (simp add: cache_ok_def current_def)
qed

lemma write_journal_Inr:
  assumes "write_journal scope e requireSession r st = Inr (r', st')"
  shows "r' = r\<lparr>jr_operations := compact (jr_operations r)\<rparr> \<and> valid_record scope r' \<and>
    st' = st\<lparr>js_store := Some (record_val r'), js_cached := Some r'\<rparr> \<and> je_saved e \<and> js_lease st \<and>
    (requireSession \<longrightarrow> je_before_write e \<and> je_commit e)"
  using assms
  by (auto simp: write_journal_def Let_def bindS_Inr_iff clone_iff outcome_ok split: if_splits)

lemma written_current:
  "valid_record scope r' \<Longrightarrow> st' = st\<lparr>js_store := Some (record_val r'), js_cached := Some r'\<rparr> \<Longrightarrow>
     current scope st' = Inr r' \<and> cache_ok scope st'"
  by (simp add: current_def cache_ok_def validate_written)

text \<open>The one way a \<open>mutate\<close> succeeds.\<close>

lemma mutate_Inr:
  assumes "cache_ok scope st" "mutate scope e i requireSession update st = Inr (p', st')"
  obtains r p q where "current scope st = Inr r" "find_op i r = Some p" "update p = Inr q" "js_lease st"
    "find_op i (r\<lparr>jr_revision := jr_revision r + 1, jr_operations := compact (jr_operations
        (set_op i (q\<lparr>jo_updatedAt := max (jo_createdAt q) (je_now e)\<rparr>) r))\<rparr>) = Some p'"
    "current scope st' = Inr (r\<lparr>jr_revision := jr_revision r + 1, jr_operations := compact (jr_operations
        (set_op i (q\<lparr>jo_updatedAt := max (jo_createdAt q) (je_now e)\<rparr>) r))\<rparr>)"
    "cache_ok scope st'" "js_lease st'" "js_submitted st' = js_submitted st" "jr_revision r \<noteq> max_safe"
    "requireSession \<longrightarrow> je_before_write e \<and> je_commit e"
proof -
  from assms(2) obtain r st1 p q r' where g: "getRecord scope e st = Inr (r, st1)" and
      u: "find_op i r = Some p" "update p = Inr q" "jr_revision r \<noteq> max_safe" and
      w: "write_journal scope e requireSession
        ((set_op i (q\<lparr>jo_updatedAt := max (jo_createdAt q) (je_now e)\<rparr>) r)\<lparr>jr_revision := jr_revision r + 1\<rparr>) st1 = Inr (r', st')" and
      p': "find_op i r' = Some p'"
    by (auto simp: mutate_def Let_def bindS_Inr_iff clone_op_iff outcome_ok split: option.splits if_splits)
  note g' = getRecord_current [OF assms(1) g] and w' = write_journal_Inr [OF w]
  have r': "r' = r\<lparr>jr_revision := jr_revision r + 1, jr_operations := compact (jr_operations
        (set_op i (q\<lparr>jo_updatedAt := max (jo_createdAt q) (je_now e)\<rparr>) r))\<rparr>"
    using w' by (simp add: set_op_def)
  have "current scope st' = Inr r' \<and> cache_ok scope st'" using w' written_current by blast
  then show thesis
    using that [of r p q] g' w' u p' unfolding r' by simp
qed

end
