(* ===== verification/Journal_Machine.thy ===== *)
theory Journal_Machine
  imports Journal_Steps
begin

text \<open>
  The journal as a state machine: calls of leases, failed calls, and processes that begin, end or crash.
  The machine instantiates the shared contracts: the cache stays in step with the store, and the record
  only moves forward.
\<close>

section \<open>One call\<close>

definition journal_below :: "journal_scope \<Rightarrow> journal_state \<Rightarrow> journal_state \<Rightarrow> bool" where
  "journal_below scope s t \<longleftrightarrow>
     (case current scope s of
        Inr r \<Rightarrow> \<exists>r'. current scope t = Inr r' \<and> journal_le r r'
      | Inl x \<Rightarrow> js_store t = js_store s)"

lemma journal_below_trans: "journal_below scope s t \<Longrightarrow> journal_below scope t u \<Longrightarrow> journal_below scope s u"
  by (auto simp: journal_below_def current_def split: sum.splits option.splits dest: journal_le_trans)

lemma same_store_below: "js_store t = js_store s \<Longrightarrow> journal_below scope s t"
  by (auto simp: journal_below_def current_def split: sum.splits)

lemma same_store_cache: "js_store t = js_store s \<Longrightarrow> js_cached t = None \<or> js_cached t = js_cached s \<Longrightarrow>
    cache_ok scope s \<Longrightarrow> cache_ok scope t"
  by (auto simp: cache_ok_def current_def)

text \<open>What a successful call does to the record; the methods that update share one rule.\<close>

definition advances :: "journal_scope \<Rightarrow> journal_state \<Rightarrow> journal_state \<Rightarrow> bool" where
  "advances scope st st' \<longleftrightarrow> cache_ok scope st' \<and> journal_below scope st st' \<and> js_lease st'"

lemma mutate_advances:
  assumes "cache_ok scope st" "mutate scope e i requireSession update st = Inr (p', st')"
    and "\<And>p q. update p = Inr q \<Longrightarrow> op_step p q"
  shows "advances scope st st' \<and> js_submitted st' = js_submitted st"
proof (rule mutate_Inr [OF assms(1,2)])
  fix r p q
  assume *: "current scope st = Inr r" "find_op i r = Some p" "update p = Inr q" "cache_ok scope st'" "js_lease st'"
    "js_submitted st' = js_submitted st" and
    cur: "current scope st' = Inr (r\<lparr>jr_revision := jr_revision r + 1, jr_operations := compact (jr_operations
        (set_op i (q\<lparr>jo_updatedAt := max (jo_createdAt q) (je_now e)\<rparr>) r))\<rparr>)"
  show ?thesis
    using * update_le [OF *(2) assms(3) [OF *(3)], of "max (jo_createdAt q) (je_now e)"]
    by (simp add: advances_def journal_below_def cur)
qed

lemma prepare_Inr:
  assumes "cache_ok scope st" "prepare scope e input st = Inr (p', st')"
  obtains (existing) p r where "normalizePrepared input = Inr p" "current scope st = Inr r"
      "find_op (jo_id p) r = Some p'" "same_intent p' p = Inr True"
      "js_store st' = js_store st" "cache_ok scope st'" "js_lease st'" "js_submitted st' = js_submitted st"
  | (fresh) p r where "normalizePrepared input = Inr p" "current scope st = Inr r"
      "find_op (jo_id p) r = None" "\<not> list_ex pending (jr_operations r)" "jr_revision r \<noteq> max_safe"
      "p' = new_op p (jr_revision r + 1) (je_now e)" "je_before_write e" "je_commit e"
      "current scope st' = Inr (r\<lparr>jr_revision := jr_revision r + 1,
         jr_operations := compact (jr_operations r @ [p'])\<rparr>)"
      "cache_ok scope st'" "js_lease st'" "js_submitted st' = js_submitted st"
proof -
  from assms(2) obtain p r st1 where p: "normalizePrepared input = Inr p" and g: "getRecord scope e st = Inr (r, st1)"
    and rest: "(case find_op (jo_id p) r of
       Some existing \<Rightarrow>
         bindS (same_intent existing p) (\<lambda>same.
         if \<not> same then conflict ''Operation ID was already used for a different intent.''
         else bindS (clone_op existing) (\<lambda>c. Inr (c, st1)))
     | None \<Rightarrow>
         if list_ex pending (jr_operations r)
         then conflict ''An earlier operation requires reconciliation before a new intent can be prepared.''
         else if jr_revision r = max_safe \<or> MAX_JOURNAL_OPERATIONS \<le> length (jr_operations r)
         then conflict ''Journal capacity exhausted; export and migrate verified history before proceeding.''
         else
           let q = new_op p (jr_revision r + 1) (je_now e);
               r1 = r\<lparr>jr_revision := jr_revision r + 1, jr_operations := jr_operations r @ [q]\<rparr>
           in bindS (write_journal scope e True r1 st1) (\<lambda>(r', st2).
              bindS (clone_op q) (\<lambda>c. Inr (c, st2)))) = Inr (p', st')"
    by (auto simp: prepare_def bindS_Inr_iff)
  note g' = getRecord_current [OF assms(1) g]
  show thesis
  proof (cases "find_op (jo_id p) r")
    case (Some old)
    with rest have "same_intent old p = Inr True" "p' = old" "st' = st1"
      by (auto simp: bindS_Inr_iff clone_op_iff outcome_ok)
    moreover have "js_store st1 = js_store st" "js_submitted st1 = js_submitted st" "js_lease st1" "cache_ok scope st1"
      using g' by auto
    ultimately show thesis using existing [OF p, of r] Some g' by blast
  next
    case None
    with rest obtain r' where side: "\<not> list_ex pending (jr_operations r)" "jr_revision r \<noteq> max_safe"
        "p' = new_op p (jr_revision r + 1) (je_now e)"
      and w: "write_journal scope e True (r\<lparr>jr_revision := jr_revision r + 1, jr_operations := jr_operations r @ [p']\<rparr>) st1 = Inr (r', st')"
      by (auto simp: bindS_Inr_iff clone_op_iff outcome_ok Let_def)
    note w' = write_journal_Inr [OF w]
    have "current scope st' = Inr r' \<and> cache_ok scope st'" using w' written_current by blast
    with fresh [OF p, of r] None g' side w' show thesis by simp
  qed
qed

lemma prepare_advances:
  assumes "cache_ok scope st" "prepare scope e input st = Inr (p', st')"
  shows "advances scope st st' \<and> js_submitted st' = js_submitted st"
  using assms
proof (cases rule: prepare_Inr)
  case (existing p r)
  then show ?thesis by (simp add: advances_def same_store_below)
next
  case (fresh p r)
  have "list_all2 op_le (jr_operations r @ [p']) (compact (jr_operations r @ [p']))" by (rule compact_le)
  then obtain qs ns where split: "compact (jr_operations r @ [p']) = qs @ ns" "list_all2 op_le (jr_operations r) qs"
      "list_all2 op_le [p'] ns"
    by (auto simp: list_all2_append1)
  have "\<forall>n \<in> set ns. jr_revision r < jo_sequence n"
    using split(3) fresh(6) by (auto simp: list_all2_Cons1 op_le_def new_op_def)
  with split(1,2) have "journal_le r (r\<lparr>jr_revision := jr_revision r + 1, jr_operations := compact (jr_operations r @ [p'])\<rparr>)"
    unfolding journal_le_def by (intro conjI, simp) (rule exI [of _ qs], rule exI [of _ ns], simp)
  with fresh show ?thesis by (simp add: advances_def journal_below_def)
qed

section \<open>All calls\<close>

lemma submit_advances:
  assumes "cache_ok scope st" "markSubmitting scope e i tx st = Inr (p', st')"
  obtains st1 where "mutate scope e i True (submit_update (js_submitted st) tx) st = Inr (p', st1)"
    "st' = st1\<lparr>js_submitted := insert i (js_submitted st)\<rparr>" "advances scope st st'"
proof -
  from assms(2) obtain st1 where m: "mutate scope e i True (submit_update (js_submitted st) tx) st = Inr (p', st1)"
      and st': "st' = st1\<lparr>js_submitted := insert i (js_submitted st1)\<rparr>"
    by (auto simp: markSubmitting_def bindS_Inr_iff)
  have a: "advances scope st st1 \<and> js_submitted st1 = js_submitted st"
    by (rule mutate_advances [OF assms(1) m submit_step])
  then have "advances scope st st'"
    unfolding st' by (auto simp: advances_def journal_below_def cache_ok_def current_def split: sum.splits)
  with m st' a that show thesis by simp
qed

lemma read_advances:
  assumes "read_lease scope e st = Inr (r, st')"
  shows "advances scope st st' \<and> js_submitted st' = js_submitted st"
  using assms read_journal_current [of scope e st]
  by (auto simp: read_lease_def bindS_Inr_iff clone_record_iff advances_def cache_ok_def current_def
      intro!: same_store_below)

lemma perform_advances:
  assumes "cache_ok scope st" "perform scope e c st = Inr (p, st')"
  shows "advances scope st st' \<and> js_submitted st' \<subseteq> js_submitted st \<union> {i. \<exists>tx. c = CSubmit i tx}"
proof (cases c)
  case CRead
  with assms(2) read_advances show ?thesis by (fastforce simp: perform_def bindS_Inr_iff)
next
  case (CPrepare i)
  with assms(2) obtain q where "prepare scope e i st = Inr (q, st')" by (auto simp: perform_def Let_def bindS_Inr_iff)
  from prepare_advances [OF assms(1) this] show ?thesis by auto
next
  case (CSubmit i tx)
  with assms(2) obtain q where "markSubmitting scope e i tx st = Inr (q, st')" by (auto simp: perform_def Let_def bindS_Inr_iff)
  from submit_advances [OF assms(1) this] obtain st1 where
    "st' = st1\<lparr>js_submitted := insert i (js_submitted st)\<rparr>" "advances scope st st'" by blast
  then show ?thesis using CSubmit by auto
next
  case (CUncertain i)
  with assms(2) obtain q where "mutate scope e i False uncertain_update st = Inr (q, st')"
    by (auto simp: perform_def Let_def bindS_Inr_iff markUncertain_def)
  from mutate_advances [OF assms(1) this uncertain_step] show ?thesis by auto
next
  case (CConfirm i ev)
  with assms(2) obtain q where "mutate scope e i False (confirm_update scope ev) st = Inr (q, st')"
    by (auto simp: perform_def Let_def bindS_Inr_iff confirm_def)
  from mutate_advances [OF assms(1) this confirm_step] show ?thesis by auto
next
  case (CReject i ev)
  with assms(2) obtain q where "mutate scope e i False (reject_update scope ev) st = Inr (q, st')"
    by (auto simp: perform_def Let_def bindS_Inr_iff reject_def)
  from mutate_advances [OF assms(1) this reject_step] show ?thesis by auto
next
  case (CAbandon i)
  with assms(2) obtain q where "mutate scope e i True abandon_update st = Inr (q, st')"
    by (auto simp: perform_def Let_def bindS_Inr_iff abandonPrepared_def)
  from mutate_advances [OF assms(1) this abandon_step] show ?thesis by auto
next
  case (CAcknowledge i)
  with assms(2) obtain q where "mutate scope e i True acknowledge_update st = Inr (q, st')"
    by (auto simp: perform_def Let_def bindS_Inr_iff acknowledgeConfirmed_def)
  from mutate_advances [OF assms(1) this acknowledge_step] show ?thesis by auto
qed

lemma after_failure_same:
  assumes "cache_ok scope st"
  shows "cache_ok scope (after_failure scope e c st) \<and> js_store (after_failure scope e c st) = js_store st \<and>
    js_submitted (after_failure scope e c st) = js_submitted st \<and>
    js_lease (after_failure scope e c st) = js_lease st"
  using assms getRecord_current [OF assms, of e]
  by (auto simp: after_failure_def Let_def split: journal_call.splits sum.splits)

section \<open>The machine\<close>

lemma exec_step:
  assumes "cache_ok scope st" "journal_exec scope e st ev = Inr st'"
  shows "cache_ok scope st' \<and> journal_below scope st st'"
proof (cases ev)
  case Begin
  with assms have "js_store st' = js_store st" "js_cached st' = None"
    by (auto simp: journal_exec_def bindS_Inr_iff outcome_ok)
  then show ?thesis using assms(1) same_store_cache same_store_below by blast
next
  case End
  with assms have "js_store st' = js_store st" "js_cached st' = None" by (auto simp: journal_exec_def)
  then show ?thesis using assms(1) same_store_cache same_store_below by blast
next
  case (Call c)
  show ?thesis
  proof (cases "perform scope e c st")
    case (Inr r)
    then obtain p st1 where "perform scope e c st = Inr (p, st1)" by (cases r) auto
    with assms Call perform_advances [OF assms(1) this] show ?thesis by (auto simp: journal_exec_def advances_def)
  next
    case (Inl x)
    with assms Call have "st' = after_failure scope e c st" by (simp add: journal_exec_def)
    with after_failure_same [OF assms(1)] same_store_below show ?thesis by blast
  qed
qed

interpretation journal: growing_machine "journal_exec scope" "\<lambda>_. True" "cache_ok scope" "journal_below scope" for scope
  by unfold_locales (auto dest: exec_step intro: same_store_below journal_below_trans)

lemma journal_start_ok [simp]: "cache_ok scope (journal_start v)"
  by (simp add: cache_ok_def journal_start_def)

abbreviation journal_reach :: "journal_scope \<Rightarrow> journal_state \<Rightarrow> journal_state \<Rightarrow> bool" where
  "journal_reach scope \<equiv> reach (journal_exec scope) (\<lambda>_. True)"

end
