(* ===== verification/Journal_Demo.thy ===== *)
theory Journal_Demo
  imports Journal_Machine
begin

text \<open>A run of the journal on concrete values, on which the properties are applied.\<close>

section \<open>One operation from intent to confirmation\<close>

definition hex64 :: "nat \<Rightarrow> jsstr" where "hex64 c = replicate 64 (of_nat c)"

definition demo_scope :: journal_scope where
  "demo_scope = \<lparr>sc_networkId = js ''undeployed'', sc_contractAddress = hex64 97, sc_sourceFingerprint = hex64 98\<rparr>"

definition calm :: journal_env where
  "calm = \<lparr>je_now = 5, je_started = True, je_before_load = True, je_after_load = True, je_before_write = True,
     je_commit = True, je_load_error = None, je_saved = True\<rparr>"

definition demo_intent :: prepared_op where
  "demo_intent = \<lparr>jo_id = js ''op-1'', jo_kind = js ''fundReserve'', jo_fingerprint = hex64 99, jo_before = None,
     jo_candidate = None, jo_beforeSnapshot = JNull, jo_candidateSnapshot = obj [(''total'', num_val 7)], jo_effect = JNull\<rparr>"

definition demo_receipt :: jsval where
  "demo_receipt = obj [(''txId'', JStr (js ''tx-1'')), (''executionMode'', JStr (js ''local''))]"

definition demo_evidence :: confirm_evidence where
  "demo_evidence = \<lparr>ce_scope = demo_scope, ce_transactionId = None, ce_kind = DefiniteReceipt demo_receipt\<rparr>"

definition demo_op :: journal_op where
  "demo_op = new_op demo_intent 1 5"

lemma hex64_ok: "97 \<le> c \<Longrightarrow> c \<le> 102 \<Longrightarrow> hex (JStr (hex64 c)) l = Inr (hex64 c)"
proof -
  assume c: "97 \<le> c" "c \<le> 102"
  then have n: "unat (of_nat c :: 16 word) = c" by (simp add: unat_of_nat)
  with c have "list_all is_hex (hex64 c)" by (simp add: hex64_def list_all_iff is_hex_def Let_def)
  moreover have "map lower_char (hex64 c) = hex64 c" using n c by (simp add: hex64_def lower_char_def)
  ultimately show ?thesis by (simp add: hex_def strip_0x_hex) (simp add: hex64_def)
qed

lemma demo_scope_ok [simp]: "normalizeScope demo_scope = Inr demo_scope"
  by (simp add: normalizeScope_def demo_scope_def hex64_ok valid_network_def lower_alnum_def is_digit_def js_def)

lemmas small = fits_def MAX_NODES_def MAX_DEPTH_def obj_def js_entries_def num_val_def finite_num_def

lemma demo_intent_ok [simp]: "normalizePrepared demo_intent = Inr demo_intent"
  unfolding normalizePrepared_Inr
  by (simp add: demo_intent_def hex64_ok commitment_def validId_def id_char_def lower_alnum_def is_digit_def
      OPERATION_KINDS_def effect_name_def small)
    (simp add: js_def id_char_def lower_alnum_def is_digit_def)

definition op_id :: jsstr where "op_id = js ''op-1''"

definition submitted_op :: journal_op where "submitted_op = demo_op\<lparr>jo_status := OpSubmitting\<rparr>"

definition confirmed_op :: journal_op where
  "confirmed_op = submitted_op\<lparr>jo_status := OpConfirmed, jo_receipt := demo_receipt, jo_transactionId := Some (js ''tx-1'')\<rparr>"

lemmas ops_def = confirmed_op_def submitted_op_def demo_op_def new_op_def

lemma demo_op_fields [simp]:
  "jo_id demo_op = op_id" "intent demo_op = demo_intent" "jo_sequence demo_op = 1" "jo_createdAt demo_op = 5" "jo_updatedAt demo_op = 5"
  "demo_op\<lparr>jo_updatedAt := 5\<rparr> = demo_op" "jo_effect demo_op = JNull" "jo_compacted demo_op = False" "jo_acknowledged demo_op = False" "jo_status demo_op = OpPrepared"
  "jo_transactionId demo_op = None" "jo_receipt demo_op = JNull"
  by (simp_all add: ops_def intent_def demo_intent_def op_id_def)

lemma submitted_op_fields [simp]:
  "jo_id submitted_op = op_id" "intent submitted_op = demo_intent" "jo_sequence submitted_op = 1" "jo_createdAt submitted_op = 5" "jo_updatedAt submitted_op = 5"
  "submitted_op\<lparr>jo_updatedAt := 5\<rparr> = submitted_op" "jo_effect submitted_op = JNull" "jo_compacted submitted_op = False" "jo_acknowledged submitted_op = False" "jo_status submitted_op = OpSubmitting"
  "jo_transactionId submitted_op = None" "jo_receipt submitted_op = JNull"
  by (simp_all add: ops_def intent_def demo_intent_def op_id_def)

lemma confirmed_op_fields [simp]:
  "jo_id confirmed_op = op_id" "intent confirmed_op = demo_intent" "jo_sequence confirmed_op = 1" "jo_createdAt confirmed_op = 5" "jo_updatedAt confirmed_op = 5"
  "confirmed_op\<lparr>jo_updatedAt := 5\<rparr> = confirmed_op" "jo_effect confirmed_op = JNull" "jo_compacted confirmed_op = False" "jo_acknowledged confirmed_op = False" "jo_status confirmed_op = OpConfirmed"
  "jo_transactionId confirmed_op = Some (js ''tx-1'')" "jo_receipt confirmed_op = demo_receipt"
  by (simp_all add: ops_def intent_def demo_intent_def op_id_def)

lemma demo_receipt_ok [simp]: "normalizeReceipt demo_receipt = Inr demo_receipt"
proof -
  have "clone demo_receipt = Inr demo_receipt" by (simp add: clone_iff demo_receipt_def small)
  then show ?thesis
    by (simp add: normalizeReceipt_def demo_receipt_def get_prop_obj optional_tx_def)
      (simp add: js_entries_def optional_tx_def validTx_def id_char_def lower_alnum_def is_digit_def js_def)
qed

definition demo_record :: "journal_op \<Rightarrow> int \<Rightarrow> journal" where
  "demo_record q n = \<lparr>jr_scope = demo_scope, jr_revision = n, jr_operations = [q]\<rparr>"

lemma demo_valid:
  assumes "q = demo_op \<or> q = submitted_op \<or> q = confirmed_op" "1 \<le> n" "n \<le> 10"
  shows "valid_record demo_scope (demo_record q n)"
proof -
  have "validTx (js ''tx-1'')" by (simp add: validTx_def id_char_def lower_alnum_def is_digit_def js_def)
  with assms have "op_ok n q"
    by (elim disjE) (simp_all add: op_ok_def is_ok_iff valid_effect_def isSafeInteger_def max_safe_def)
  with assms show ?thesis
    by (auto simp: valid_record_iff demo_record_def sameScope_def isSafeInteger_def max_safe_def
        MAX_JOURNAL_OPERATIONS_def latestConfirmedOperation_def)
qed

lemma demo_fits:
  assumes "q = demo_op \<or> q = submitted_op \<or> q = confirmed_op"
  shows "fits (record_val (demo_record q n)) \<and> wf_val (record_val (demo_record q n)) \<and>
    fits (op_val q) \<and> wf_val (op_val q)"
  using assms
  by (elim disjE) (simp_all add: demo_record_def record_val_def op_val_def scope_val_def small ops_def demo_intent_def
      demo_receipt_def opt_str_def)

lemma demo_compact:
  "q = demo_op \<or> q = submitted_op \<or> q = confirmed_op \<Longrightarrow> compact [q] = [q]"
  by (elim disjE) (simp_all add: compact_def compact_op_def settled_def)

section \<open>The run\<close>

definition leased :: "journal_op option \<Rightarrow> int \<Rightarrow> jsstr set \<Rightarrow> journal_state" where
  "leased q n submitted =
     (case q of
        None \<Rightarrow> \<lparr>js_store = None, js_lease = True, js_cached = None, js_submitted = submitted\<rparr>
      | Some p \<Rightarrow> \<lparr>js_store = Some (record_val (demo_record p n)), js_lease = True,
          js_cached = Some (demo_record p n), js_submitted = submitted\<rparr>)"

lemma demo_begin: "journal_exec demo_scope calm (journal_start None) Begin = Inr (leased None 0 {})"
  by (simp add: journal_exec_def journal_start_def assertSession_def calm_def leased_def)

lemma demo_write:
  assumes "q = demo_op \<or> q = submitted_op \<or> q = confirmed_op" "1 \<le> n" "n \<le> 10" "js_lease st"
    "r = demo_record q n"
  shows "write_journal demo_scope calm b r st = Inr (r, st\<lparr>js_store := Some (record_val r), js_cached := Some r\<rparr>)"
proof -
  have "r\<lparr>jr_operations := compact (jr_operations r)\<rparr> = r"
    using assms(1,5) demo_compact by (simp add: demo_record_def)
  moreover have "clone (record_val r) = Inr (record_val r)" "valid_record demo_scope r"
    using assms demo_fits demo_valid by (auto simp: clone_iff)
  ultimately show ?thesis
    using assms(4) by (simp add: write_journal_def assertLease_def assertSession_def calm_def)
qed

lemma demo_clone:
  assumes "q = demo_op \<or> q = submitted_op \<or> q = confirmed_op"
  shows "clone_op q = Inr q" "clone_record (demo_record q n) = Inr (demo_record q n)"
  using demo_fits [OF assms] by (auto simp: clone_op_iff clone_record_iff)

lemma demo_prepared: "prepare demo_scope calm demo_intent (leased None 0 {}) = Inr (demo_op, leased (Some demo_op) 1 {})"
proof -
  have "clone_record (empty_record demo_scope) = Inr (empty_record demo_scope)"
    by (simp add: clone_record_iff empty_record_def record_val_def scope_val_def small)
  then have "getRecord demo_scope calm (leased None 0 {})
      = Inr (empty_record demo_scope, (leased None 0 {})\<lparr>js_cached := Some (empty_record demo_scope)\<rparr>)"
    by (simp add: getRecord_def read_journal_def assertLease_def assertSession_def calm_def leased_def)
  moreover have "(empty_record demo_scope)\<lparr>jr_revision := 1, jr_operations := [demo_op]\<rparr> = demo_record demo_op 1"
    by (simp add: empty_record_def demo_record_def)
  ultimately show ?thesis
    by (simp add: prepare_def assertSession_def calm_def [THEN arg_cong, of je_started]
        find_op_def empty_record_def [THEN arg_cong, of jr_operations] empty_record_def [THEN arg_cong, of jr_revision]
        max_safe_def MAX_JOURNAL_OPERATIONS_def demo_op_def [symmetric]
        calm_def [THEN arg_cong, of je_now] demo_write [of demo_op 1] demo_clone leased_def)
qed

lemma demo_mutate:
  assumes "q = demo_op \<or> q = submitted_op \<or> q = confirmed_op" "q' = demo_op \<or> q' = submitted_op \<or> q' = confirmed_op"
    "1 \<le> n" "n < 10" "update q = Inr q'"
  shows "mutate demo_scope calm op_id b update (leased (Some q) n sub) = Inr (q', leased (Some q') (n + 1) sub)"
proof -
  have id: "jo_id q = op_id" "jo_id q' = op_id" "jo_createdAt q' = 5"
    and upd: "q'\<lparr>jo_updatedAt := 5\<rparr> = q'"
    using assms(1,2) by auto
  have "(set_op op_id q' (demo_record q n))\<lparr>jr_revision := n + 1\<rparr> = demo_record q' (n + 1)"
    using id by (simp add: set_op_def demo_record_def)
  moreover have "find_op op_id (demo_record x m) = Some x" if "jo_id x = op_id" for x m
    using that by (simp add: find_op_def demo_record_def)
  ultimately show ?thesis
    using assms id upd demo_clone(1) [OF assms(2)] demo_clone(2) [OF assms(1)]
      demo_write [OF assms(2), of "n + 1"]
    by (simp add: mutate_def getRecord_def assertLease_def leased_def calm_def [THEN arg_cong, of je_now]
        demo_record_def [of q n, THEN arg_cong, of jr_revision] max_safe_def)
qed

lemma demo_submitted:
  "markSubmitting demo_scope calm op_id None (leased (Some demo_op) 1 {}) = Inr (submitted_op, leased (Some submitted_op) 2 {op_id})"
proof -
  have "submit_update {} None demo_op = Inr submitted_op"
    by (simp add: submit_update_def submitted_op_def)
  then have "mutate demo_scope calm op_id True (submit_update {} None) (leased (Some demo_op) 1 {})
      = Inr (submitted_op, leased (Some submitted_op) (1 + 1) {})"
    by (intro demo_mutate) simp_all
  then show ?thesis by (simp add: markSubmitting_def leased_def)
qed

lemma demo_confirm_update: "confirm_update demo_scope demo_evidence submitted_op = Inr confirmed_op"
proof -
  have "definite_receipt demo_receipt submitted_op
      = Inr (submitted_op\<lparr>jo_receipt := demo_receipt, jo_transactionId := Some (js ''tx-1'')\<rparr>)"
    by (simp add: definite_receipt_def Let_def) (simp add: demo_receipt_def get_prop_obj)
  then show ?thesis
    by (simp add: confirm_update_def demo_evidence_def assertEvidenceScope_def sameScope_def confirmed_op_def)
qed

lemma demo_confirmed:
  "confirm demo_scope calm op_id demo_evidence (leased (Some submitted_op) 2 sub) = Inr (confirmed_op, leased (Some confirmed_op) 3 sub)"
proof -
  have "mutate demo_scope calm op_id False (confirm_update demo_scope demo_evidence) (leased (Some submitted_op) 2 sub)
      = Inr (confirmed_op, leased (Some confirmed_op) (2 + 1) sub)"
    by (intro demo_mutate) (simp_all add: demo_confirm_update)
  then show ?thesis by (simp add: confirm_def)
qed

end
