(* ===== verification/Journal_Properties.thy ===== *)
theory Journal_Properties
  imports Journal_Demo
begin

text \<open>
  What the operation journal promises: its record stays valid, an intent is recorded once and for ever,
  nothing ambiguous is submitted twice, recovery data survives until it is replaced, and a confirmed
  outcome can be written down even after the vault has been locked.
\<close>

section \<open>Helpers\<close>

lemma guard_passes: "(if b then k else conflict m) = Inr z \<longleftrightarrow> b \<and> k = Inr z"
  by (auto simp: conflict_def)

lemma find_list_le:
  "list_all2 op_le ps qs \<Longrightarrow> find (\<lambda>p. jo_id p = i) ps = Some p \<Longrightarrow>
     \<exists>q. find (\<lambda>p. jo_id p = i) qs = Some q \<and> op_le p q"
  by (induction ps qs rule: list_all2_induct) (auto simp: op_le_def split: if_splits)

lemma find_journal_le:
  assumes "journal_le r r'" "find_op i r = Some p"
  obtains q where "find_op i r' = Some q" "op_le p q"
proof -
  from assms(1) obtain qs ns where split: "jr_operations r' = qs @ ns" "list_all2 op_le (jr_operations r) qs"
    by (auto simp: journal_le_def)
  from find_list_le [OF split(2) assms(2) [unfolded find_op_def]] that split(1) show thesis
    by (auto simp: find_op_def intro: find_Some_append)
qed

lemma reach_history:
  assumes "journal_reach scope s t" "cache_ok scope s" "current scope s = Inr r" "find_op i r = Some p"
  obtains r' q where "current scope t = Inr r'" "find_op i r' = Some q" "op_le p q"
proof -
  from journal.reach_below [OF assms(1,2)] assms(3) obtain r' where "current scope t = Inr r'" "journal_le r r'"
    by (auto simp: journal_below_def)
  with find_journal_le [OF this(2) assms(4)] that show thesis by blast
qed

lemma op_le_fields:
  assumes "op_le p q"
  shows "jo_id q = jo_id p" "jo_kind q = jo_kind p" "jo_fingerprint q = jo_fingerprint p" "jo_before q = jo_before p"
    "jo_candidate q = jo_candidate p" "jo_effect q = jo_effect p" "jo_sequence q = jo_sequence p"
    "status_le (jo_status p) (jo_status q)" "jo_transactionId p \<noteq> None \<longrightarrow> jo_transactionId q = jo_transactionId p"
    "jo_receipt p \<noteq> JNull \<longrightarrow> jo_receipt q = jo_receipt p"
    "\<not> jo_compacted q \<Longrightarrow> jo_beforeSnapshot q = jo_beforeSnapshot p \<and> jo_candidateSnapshot q = jo_candidateSnapshot p"
  using assms by (auto simp: op_le_def)

lemma find_op_member: "find_op i r = Some p \<Longrightarrow> p \<in> set (jr_operations r) \<and> jo_id p = i"
  by (auto simp: find_op_def dest: find_SomeD)

lemma find_op_unique: "distinct (map jo_id (jr_operations r)) \<Longrightarrow> p \<in> set (jr_operations r) \<Longrightarrow> find_op (jo_id p) r = Some p"
proof -
  assume d: "distinct (map jo_id (jr_operations r))" and p: "p \<in> set (jr_operations r)"
  then obtain q where q: "find_op (jo_id p) r = Some q"
    unfolding find_op_def by (metis (mono_tags, lifting) find_None_all not_None_eq)
  from find_op_member [OF q] d p have "q = p" by (simp add: distinct_map inj_on_def)
  with q show ?thesis by simp
qed

lemma find_compact:
  assumes "find_op i (r\<lparr>jr_operations := ps\<rparr>) = Some p"
  obtains q where "find_op i (r\<lparr>jr_operations := compact ps\<rparr>) = Some q" "q = p \<or> q = compact_op p"
proof -
  have "\<exists>q. find (\<lambda>p. jo_id p = i) qs = Some q \<and> (q = p \<or> q = compact_op p)"
    if "list_all2 (\<lambda>p q. q = p \<or> q = compact_op p) xs qs" "find (\<lambda>p. jo_id p = i) xs = Some p" for xs qs
    using that by (induction xs qs rule: list_all2_induct) (auto split: if_splits)
  from this [OF compact_rel] assms that show thesis by (auto simp: find_op_def)
qed

lemma record_op_fits:
  assumes "fits (record_val r)" "wf_val (record_val r)" "p \<in> set (jr_operations r)"
  shows "fits (op_val p) \<and> wf_val (op_val p)"
proof -
  have "fits (JArr (map op_val (jr_operations r)))"
    by (rule fits_field [of "js_entries [(''schema'', JStr (js OPERATION_JOURNAL_SCHEMA)), (''scope'', scope_val (jr_scope r)),
         (''revision'', num_val (jr_revision r)), (''operations'', JArr (map op_val (jr_operations r)))]" "js ''operations''"])
      (use assms(1) in \<open>simp_all add: record_val_def obj_def js_entries_def\<close>)
  then have "fits (op_val p)" by (rule fits_element) (use assms(3) in simp)
  moreover have "wf_val (op_val p)"
    using assms(2,3) by (auto simp: record_val_def obj_def js_entries_def list_all_iff)
  ultimately show ?thesis ..
qed

text \<open>The demonstration states are reachable.\<close>

lemma event_reach: "journal_exec scope e s ev = Inr t \<Longrightarrow> journal_reach scope s t"
  using reach.step [OF reach.start, of "journal_exec scope" e s ev t "\<lambda>_. True"] by simp

lemma demo_reach_prepared: "journal_reach demo_scope (journal_start None) (leased (Some demo_op) 1 {})"
proof -
  have "journal_exec demo_scope calm (leased None 0 {}) (Call (CPrepare demo_intent)) = Inr (leased (Some demo_op) 1 {})"
    by (simp add: journal_exec_def perform_def demo_prepared)
  with event_reach [OF demo_begin] show ?thesis by (metis event_reach reach_trans)
qed

lemma demo_reach_submitted: "journal_reach demo_scope (leased (Some demo_op) 1 {}) (leased (Some submitted_op) 2 {op_id})"
  by (rule event_reach [where e = calm and ev = "Call (CSubmit op_id None)"])
    (simp add: journal_exec_def perform_def demo_submitted)

lemma demo_reach_confirmed: "journal_reach demo_scope (leased (Some submitted_op) 2 s) (leased (Some confirmed_op) 3 s)"
  by (rule event_reach [where e = calm and ev = "Call (CConfirm op_id demo_evidence)"])
    (simp add: journal_exec_def perform_def demo_confirmed)

text \<open>The process stops after the submission, and another lease begins.\<close>

definition next_lease :: journal_state where
  "next_lease = \<lparr>js_store = Some (record_val (demo_record submitted_op 2)), js_lease = True, js_cached = None,
     js_submitted = {}\<rparr>"

lemma demo_reach_next: "journal_reach demo_scope (leased (Some submitted_op) 2 s) next_lease"
proof -
  let ?t = "\<lparr>js_store = Some (record_val (demo_record submitted_op 2)), js_lease = False, js_cached = None, js_submitted = s\<rparr>"
  have "journal_exec demo_scope calm (leased (Some submitted_op) 2 s) End = Inr ?t"
    by (simp add: journal_exec_def leased_def)
  moreover have "journal_exec demo_scope calm ?t Begin = Inr next_lease"
    by (simp add: journal_exec_def assertSession_def calm_def next_lease_def)
  ultimately show ?thesis by (metis event_reach reach_trans)
qed

lemma demo_current:
  "q = demo_op \<or> q = submitted_op \<or> q = confirmed_op \<Longrightarrow> 1 \<le> n \<Longrightarrow> n \<le> 10 \<Longrightarrow>
     current demo_scope (leased (Some q) n s) = Inr (demo_record q n) \<and> cache_ok demo_scope (leased (Some q) n s)"
  by (simp add: leased_def cache_ok_def current_def validate_written demo_valid)

lemma demo_find: "jo_id q = op_id \<Longrightarrow> find_op op_id (demo_record q n) = Some q"
  by (simp add: find_op_def demo_record_def)

section \<open>Properties\<close>

text \<open>
  C19. From any stored document on, in every state the journal can reach: if the document reads as a
  journal of this scope, operations are in the order of their sequence numbers, their identifiers are
  distinct, at most one is unsettled, and the latest confirmed one still has its recovery snapshots;
  and if the document does not, it is reported as \<open>VaultTamperedError\<close> and is never overwritten.\<close>
lemma journal_stays_valid:
  assumes "normalizeScope scope = Inr scope" "journal_reach scope (journal_start stored) t"
  shows "case current scope t of
      Inr r \<Rightarrow> sorted_wrt (<) (map jo_sequence (jr_operations r)) \<and> distinct (map jo_id (jr_operations r)) \<and>
        length (filter pending (jr_operations r)) \<le> 1 \<and>
        (\<forall>p. latestConfirmedOperation r = Some p \<longrightarrow> \<not> jo_compacted p)
    | Inl x \<Rightarrow> js_store t = stored \<and>
        x = Throw (NamedError ''VaultTamperedError'' ''Invalid or mismatched encrypted operation journal.'')"
proof (cases "current scope t")
  case (Inr r)
  with current_valid [OF assms(1)] have "valid_record scope r" by blast
  with Inr show ?thesis by (simp add: valid_record_iff)
next
  case (Inl x)
  have below: "journal_below scope (journal_start stored) t"
    by (rule journal.reach_below [OF assms(2) journal_start_ok])
  with Inl have "js_store t = stored"
    by (auto simp: journal_below_def journal_start_def split: sum.splits)
  with Inl show ?thesis by (auto simp: current_def dest: validateRecord_Inl split: option.splits)
qed

lemma journal_stays_valid_witness:
  "length (filter pending [submitted_op]) \<le> 1"
  using journal_stays_valid [OF demo_scope_ok reach_trans [OF demo_reach_prepared demo_reach_submitted]]
    demo_current [of submitted_op 2 "{op_id}"]
  by (simp add: demo_record_def)

text \<open>
  Once an operation is in the journal it stays there, under every later sequence of calls, failures,
  crashes and new leases: with the same kind, fingerprint, commitments, expected effect and sequence
  number; confirmed stays confirmed and rejected stays rejected, an operation that left
  \<open>prepared\<close> never returns to it, and a recorded transaction identifier or receipt is never replaced.\<close>
lemma operation_history:
  assumes "journal_reach scope (journal_start stored) s" "journal_reach scope s t"
    and "current scope s = Inr r" "find_op i r = Some p"
  shows "\<exists>r' q. current scope t = Inr r' \<and> find_op i r' = Some q \<and>
     jo_kind q = jo_kind p \<and> jo_fingerprint q = jo_fingerprint p \<and> jo_before q = jo_before p \<and>
     jo_candidate q = jo_candidate p \<and> jo_effect q = jo_effect p \<and> jo_sequence q = jo_sequence p \<and>
     (jo_status p \<in> {OpConfirmed, OpRejected} \<longrightarrow> jo_status q = jo_status p) \<and>
     (jo_status p \<noteq> OpPrepared \<longrightarrow> jo_status q \<noteq> OpPrepared) \<and>
     (jo_transactionId p \<noteq> None \<longrightarrow> jo_transactionId q = jo_transactionId p) \<and>
     (jo_receipt p \<noteq> JNull \<longrightarrow> jo_receipt q = jo_receipt p)"
proof -
  have "cache_ok scope s" by (rule journal.reach_inv [OF assms(1) journal_start_ok])
  from reach_history [OF assms(2) this assms(3,4)] obtain r' q
    where q: "current scope t = Inr r'" "find_op i r' = Some q" "op_le p q" .
  note f = op_le_fields [OF q(3)]
  have "jo_status p \<in> {OpConfirmed, OpRejected} \<longrightarrow> jo_status q = jo_status p"
    "jo_status p \<noteq> OpPrepared \<longrightarrow> jo_status q \<noteq> OpPrepared"
    using f(8) by (auto elim: status_le.cases)
  with q f show ?thesis by blast
qed

lemma operation_history_witness:
  "\<exists>r' q. current demo_scope (leased (Some confirmed_op) 3 {op_id}) = Inr r' \<and> find_op op_id r' = Some q \<and>
     jo_fingerprint q = jo_fingerprint submitted_op \<and> jo_status q \<noteq> OpPrepared"
  using operation_history [OF reach_trans [OF demo_reach_prepared demo_reach_submitted] demo_reach_confirmed,
      of "demo_record submitted_op 2" op_id submitted_op]
    demo_current [of submitted_op 2 "{op_id}"]
  by (simp add: demo_find) blast

lemma opt_str_inject [simp]: "opt_str a = opt_str b \<longleftrightarrow> a = b"
  by (cases a; cases b) simp_all

lemma same_intent_fields:
  assumes "same_intent q n = Inr True"
  shows "jo_kind n = jo_kind q \<and> jo_fingerprint n = jo_fingerprint q \<and> jo_before n = jo_before q \<and>
    jo_candidate n = jo_candidate q \<and> jo_effect n = jo_effect q \<and>
    (jo_compacted q \<or> jo_beforeSnapshot n = jo_beforeSnapshot q \<and> jo_candidateSnapshot n = jo_candidateSnapshot q)"
proof (cases "jo_compacted q")
  case True
  with assms show ?thesis
    by (simp add: same_intent_def same_encoding_iff Let_def) (simp add: obj_def js_entries_def intent_def)
next
  case False
  with assms show ?thesis
    by (simp add: same_intent_def same_encoding_iff Let_def) (simp add: obj_def js_entries_def intent_def)
qed

text \<open>Once submitted by an earlier lease, an operation stays out of reach of \<open>markSubmitting\<close>.\<close>

definition ambiguous :: "journal_scope \<Rightarrow> jsstr \<Rightarrow> journal_state \<Rightarrow> bool" where
  "ambiguous scope i st \<longleftrightarrow> cache_ok scope st \<and> i \<notin> js_submitted st \<and>
     (\<exists>r p. current scope st = Inr r \<and> find_op i r = Some p \<and> jo_status p \<noteq> OpPrepared)"

lemma ambiguous_not_submitted:
  assumes "ambiguous scope i st"
  shows "markSubmitting scope e i tx st \<noteq> Inr (p', st')"
proof
  assume "markSubmitting scope e i tx st = Inr (p', st')"
  moreover have c: "cache_ok scope st" using assms by (simp add: ambiguous_def)
  ultimately obtain st1 where "mutate scope e i True (submit_update (js_submitted st) tx) st = Inr (p', st1)"
    using submit_advances by blast
  from mutate_Inr [OF c this] obtain r p q where
    r: "current scope st = Inr r" "find_op i r = Some p" and q: "submit_update (js_submitted st) tx p = Inr q"
    .
  from assms r have "jo_status p \<noteq> OpPrepared" "i \<notin> js_submitted st" by (auto simp: ambiguous_def)
  moreover have "jo_id p = i" using find_op_member [OF r(2)] ..
  ultimately show False using q unfolding submit_update_def guard_throws by blast
qed

lemma ambiguous_step:
  assumes "ambiguous scope i st" "journal_exec scope e st ev = Inr st'"
  shows "ambiguous scope i st'"
proof -
  have c: "cache_ok scope st" using assms by (simp add: ambiguous_def)
  note step = exec_step [OF c assms(2)]
  from assms(1) obtain r p where r: "current scope st = Inr r" "find_op i r = Some p" "jo_status p \<noteq> OpPrepared"
    by (auto simp: ambiguous_def)
  from step have "journal_below scope st st'" ..
  with r(1) obtain r' where r': "current scope st' = Inr r'" "journal_le r r'" unfolding journal_below_def by auto
  from find_journal_le [OF r'(2) r(2)] obtain q where q: "find_op i r' = Some q" "op_le p q" .
  moreover from q(2) r(3) have "jo_status q \<noteq> OpPrepared" using op_le_fields(8) [of p q] by (auto elim: status_le.cases)
  moreover have "i \<notin> js_submitted st'"
  proof (cases ev)
    case (Call c')
    show ?thesis
    proof (cases "perform scope e c' st")
      case (Inr x)
      then obtain p1 st1 where x: "perform scope e c' st = Inr (p1, st1)" by (cases x) auto
      have "c' \<noteq> CSubmit i tx" for tx
        using x ambiguous_not_submitted [OF assms(1)] by (auto simp: perform_def Let_def bindS_Inr_iff)
      with perform_advances [OF c x] assms Call x show ?thesis by (auto simp: journal_exec_def ambiguous_def)
    next
      case (Inl x)
      with assms Call after_failure_same [OF c, of e c'] show ?thesis by (auto simp: journal_exec_def ambiguous_def)
    qed
  qed (use assms in \<open>auto simp: journal_exec_def ambiguous_def bindS_Inr_iff outcome_ok\<close>)
  ultimately show ?thesis using step r'(1) by (auto simp: ambiguous_def)
qed

lemma ambiguous_reach:
  assumes "journal_reach scope s t" "ambiguous scope i s"
  shows "ambiguous scope i t"
  using assms by (induction rule: reach.induct) (auto intro: ambiguous_step)

text \<open>
  C18. No operation is submitted twice by different leases: if an operation has left \<open>prepared\<close> and the
  running lease did not submit it itself (because the process that did has crashed or ended), then no
  later lease, whatever happens in between, can mark it as submitting again.\<close>
lemma no_resubmission:
  assumes "journal_reach scope (journal_start stored) s" "journal_reach scope s t"
    and "current scope s = Inr r" "find_op i r = Some p" "jo_status p \<noteq> OpPrepared" "i \<notin> js_submitted s"
  shows "markSubmitting scope e i tx t \<noteq> Inr (p', t')"
proof -
  have "cache_ok scope s" by (rule journal.reach_inv [OF assms(1) journal_start_ok])
  with assms have "ambiguous scope i s" by (auto simp: ambiguous_def)
  from ambiguous_not_submitted [OF ambiguous_reach [OF assms(2) this]] show ?thesis .
qed

lemma no_resubmission_witness:
  "markSubmitting demo_scope calm op_id None next_lease \<noteq> Inr (submitted_op, leased (Some submitted_op) 3 {op_id})"
proof -
  have "journal_reach demo_scope (journal_start None) next_lease"
    by (metis demo_reach_prepared demo_reach_submitted demo_reach_next reach_trans)
  moreover have "current demo_scope next_lease = Inr (demo_record submitted_op 2)"
    by (simp add: next_lease_def current_def validate_written demo_valid)
  ultimately show ?thesis
    using no_resubmission [of demo_scope None next_lease next_lease "demo_record submitted_op 2" op_id submitted_op, OF _ reach.start]
    by (simp add: demo_find next_lease_def)
qed

text \<open>
  While an operation is unsettled nothing else can be prepared: a \<open>prepare\<close> that succeeds then
  only returns the recorded operation of its identifier and leaves the record alone.\<close>
lemma pending_blocks_prepare:
  assumes "journal_reach scope (journal_start stored) s" "current scope s = Inr r"
    and "p \<in> set (jr_operations r)" "pending p" "prepare scope e input s = Inr (p', s')"
  shows "js_store s' = js_store s \<and> find_op (jo_id input) r = Some p'"
proof -
  have c: "cache_ok scope s" by (rule journal.reach_inv [OF assms(1) journal_start_ok])
  from c assms(5) show ?thesis
  proof (cases rule: prepare_Inr)
    case (existing q r0)
    moreover have "jo_id q = jo_id input" using existing(1) unfolding normalizePrepared_Inr by auto
    ultimately show ?thesis using assms(2) by simp
  next
    case (fresh q r0)
    with assms show ?thesis by (auto simp: list_ex_iff)
  qed
qed

lemma pending_blocks_prepare_witness:
  "\<exists>p' s'. prepare demo_scope calm demo_intent (leased (Some demo_op) 1 {}) = Inr (p', s') \<and>
     js_store s' = js_store (leased (Some demo_op) 1 {}) \<and> find_op (jo_id demo_intent) (demo_record demo_op 1) = Some p'"
proof -
  have id: "jo_id demo_intent = op_id" by (simp add: demo_intent_def op_id_def)
  have "same_intent demo_op demo_intent = Inr True"
    by (simp add: same_intent_def same_encoding_iff Let_def)
      (simp add: demo_intent_def small opt_str_def)
  then have "\<exists>s'. prepare demo_scope calm demo_intent (leased (Some demo_op) 1 {}) = Inr (demo_op, s')"
    by (simp add: prepare_def getRecord_def assertLease_def assertSession_def leased_def demo_clone demo_find id
        calm_def [THEN arg_cong, of je_started])
  then obtain s' where s': "prepare demo_scope calm demo_intent (leased (Some demo_op) 1 {}) = Inr (demo_op, s')" ..
  have "current demo_scope (leased (Some demo_op) 1 {}) = Inr (demo_record demo_op 1)" using demo_current by simp
  from pending_blocks_prepare [OF demo_reach_prepared this _ _ s', of demo_op] s' show ?thesis
    by (simp add: demo_record_def pending_def)
qed

text \<open>
  The private snapshots needed for recovery outlive everything that happens to other operations: as
  long as an operation is unsettled or is the latest confirmed one, its before and candidate snapshots
  are those it had when it was recorded.\<close>
lemma recovery_snapshots_kept:
  assumes "normalizeScope scope = Inr scope" "journal_reach scope (journal_start stored) s" "journal_reach scope s t"
    and "current scope s = Inr r" "find_op i r = Some p" "current scope t = Inr r'" "find_op i r' = Some q"
    and "pending q \<or> latestConfirmedOperation r' = Some q"
  shows "jo_beforeSnapshot q = jo_beforeSnapshot p \<and> jo_candidateSnapshot q = jo_candidateSnapshot p"
proof -
  have "cache_ok scope s" by (rule journal.reach_inv [OF assms(2) journal_start_ok])
  from reach_history [OF assms(3) this assms(4,5)] obtain r1 q1
    where q1: "current scope t = Inr r1" "find_op i r1 = Some q1" "op_le p q1" .
  with assms(6,7) have le: "op_le p q" by simp
  have valid: "valid_record scope r'" using current_valid [OF assms(1,6)] .
  have "\<not> jo_compacted q"
    using assms(8)
  proof
    assume "pending q"
    then have "\<not> settled q" by (auto simp: pending_def settled_def)
    moreover have "op_ok (jr_revision r') q"
      using valid find_op_member [OF assms(7)] unfolding valid_record_iff by blast
    ultimately show ?thesis using op_okD(11) by blast
  next
    assume "latestConfirmedOperation r' = Some q"
    with valid show ?thesis unfolding valid_record_iff by blast
  qed
  with op_le_fields(11) [OF le] show ?thesis by blast
qed

lemma recovery_snapshots_kept_witness:
  "jo_candidateSnapshot confirmed_op = obj [(''total'', num_val 7)]"
proof -
  have "latestConfirmedOperation (demo_record confirmed_op 3) = Some confirmed_op"
    by (simp add: latestConfirmedOperation_def demo_record_def)
  then have "jo_candidateSnapshot confirmed_op = jo_candidateSnapshot demo_op"
    using recovery_snapshots_kept [OF demo_scope_ok demo_reach_prepared
        reach_trans [OF demo_reach_submitted demo_reach_confirmed],
        of "demo_record demo_op 1" op_id demo_op "demo_record confirmed_op 3" confirmed_op]
      demo_current by (simp add: demo_find)
  then show ?thesis by (simp add: ops_def demo_intent_def)
qed

text \<open>
  An identifier never names two intents: if an operation is in the journal, then in every later state
  a \<open>prepare\<close> under the same identifier either throws or was given the same intent after
  normalisation, and returns the recorded operation, whatever has become of it.\<close>
lemma identifier_names_one_intent:
  assumes "journal_reach scope (journal_start stored) s" "journal_reach scope s t"
    and "current scope s = Inr r" "find_op (jo_id input) r = Some p" "prepare scope e input t = Inr (q, t')"
  shows "op_le p q \<and> (\<exists>n. normalizePrepared input = Inr n \<and> jo_kind n = jo_kind p \<and>
     jo_fingerprint n = jo_fingerprint p \<and> jo_before n = jo_before p \<and> jo_candidate n = jo_candidate p \<and>
     jo_effect n = jo_effect p \<and>
     (jo_compacted q \<or> jo_beforeSnapshot n = jo_beforeSnapshot p \<and> jo_candidateSnapshot n = jo_candidateSnapshot p))"
proof -
  have cs: "cache_ok scope s" by (rule journal.reach_inv [OF assms(1) journal_start_ok])
  from reach_history [OF assms(2) cs assms(3,4)] obtain r' q' where
    q': "current scope t = Inr r'" "find_op (jo_id input) r' = Some q'" "op_le p q'" .
  have ct: "cache_ok scope t" by (rule journal.reach_inv [OF assms(2) cs])
  have ids: "jo_id n = jo_id input" if "normalizePrepared input = Inr n" for n
    using that unfolding normalizePrepared_Inr by auto
  from ct assms(5) show ?thesis
  proof (cases rule: prepare_Inr)
    case (existing n r0)
    have q: "q = q'" using existing(2,3) q'(1,2) ids [OF existing(1)] by simp
    note f = op_le_fields [OF q'(3)]
    have "op_le p q" using q'(3) q by simp
    moreover have "jo_kind n = jo_kind q \<and> jo_fingerprint n = jo_fingerprint q \<and> jo_before n = jo_before q \<and>
        jo_candidate n = jo_candidate q \<and> jo_effect n = jo_effect q \<and>
        (jo_compacted q \<or> jo_beforeSnapshot n = jo_beforeSnapshot q \<and> jo_candidateSnapshot n = jo_candidateSnapshot q)"
      using existing(4) by (rule same_intent_fields)
    moreover have "jo_compacted q \<or> jo_beforeSnapshot q = jo_beforeSnapshot p \<and> jo_candidateSnapshot q = jo_candidateSnapshot p"
      using f(11) q by blast
    ultimately show ?thesis using existing(1) f(2-6) q by (intro conjI exI [of _ n]) auto
  next
    case (fresh n r0)
    then show ?thesis using q'(1,2) ids [OF fresh(1)] by simp
  qed
qed

lemma identifier_names_one_intent_witness:
  "\<not> (\<exists>q t'. prepare demo_scope calm (demo_intent\<lparr>jo_kind := js ''withdrawFees''\<rparr>) (leased (Some submitted_op) 2 {op_id}) = Inr (q, t'))"
proof (rule notI, elim exE)
  fix q t'
  let ?input = "demo_intent\<lparr>jo_kind := js ''withdrawFees''\<rparr>"
  assume "prepare demo_scope calm ?input (leased (Some submitted_op) 2 {op_id}) = Inr (q, t')"
  moreover have "find_op (jo_id ?input) (demo_record demo_op 1) = Some demo_op"
    using demo_find [of demo_op 1] by (simp add: demo_intent_def op_id_def)
  moreover have "current demo_scope (leased (Some demo_op) 1 {}) = Inr (demo_record demo_op 1)" using demo_current by simp
  ultimately obtain n where "normalizePrepared ?input = Inr n" "jo_kind n = jo_kind demo_op"
    using identifier_names_one_intent [OF demo_reach_prepared demo_reach_submitted] by blast
  then have "js ''withdrawFees'' = jo_kind demo_op" unfolding normalizePrepared_Inr by auto
  then show False by (simp add: demo_op_def new_op_def demo_intent_def)
qed

text \<open>
  A confirmed outcome can be written down after the vault was locked: once the lease has read the
  journal, \<open>confirm\<close> of a submitted operation with acceptable evidence needs no session, only a
  clock in range, a free revision, a record the codec can hold and a transaction that commits; the record
  it writes never fails its own validation.\<close>
lemma confirm_after_lock:
  assumes "normalizeScope scope = Inr scope" "cache_ok scope st" "js_lease st" "js_cached st = Some r"
    and "find_op i r = Some p" "confirm_update scope ev p = Inr q"
    and "isSafeInteger (je_now e)" "je_saved e" "jr_revision r \<noteq> max_safe"
    and "\<And>x. x = r \<or> x = r\<lparr>jr_revision := jr_revision r + 1, jr_operations := compact (jr_operations
        (set_op i (q\<lparr>jo_updatedAt := max (jo_createdAt q) (je_now e)\<rparr>) r))\<rparr> \<Longrightarrow> fits (record_val x) \<and> wf_val (record_val x)"
  shows "\<exists>p' st'. confirm scope e i ev st = Inr (p', st') \<and> jo_status p' = OpConfirmed \<and> js_store st' \<noteq> None"
proof -
  have step: "op_step p q" by (rule confirm_step [OF assms(6)])
  have valid: "valid_record scope r"
    using current_valid [OF assms(1)] assms(2,4) by (auto simp: cache_ok_def)
  let ?q = "q\<lparr>jo_updatedAt := max (jo_createdAt q) (je_now e)\<rparr>"
  let ?r1 = "(set_op i ?q r)\<lparr>jr_revision := jr_revision r + 1\<rparr>"
  let ?r' = "?r1\<lparr>jr_operations := compact (jr_operations ?r1)\<rparr>"
  have r': "?r' = r\<lparr>jr_revision := jr_revision r + 1, jr_operations := compact (jr_operations (set_op i ?q r))\<rparr>"
    by (simp add: set_op_def)
  have v': "valid_record scope ?r'" by (rule update_valid [OF valid assms(5) step assms(7,9)])
  have clones: "clone_record r = Inr r" "clone (record_val ?r') = Inr (record_val ?r')"
    using assms(10) [of r] assms(10) [OF disjI2 [OF r']] by (auto simp: clone_record_iff clone_iff)
  have id: "jo_id ?q = i" using assms(5) step by (auto simp: op_step_def intent_def dest: find_op_member)
  have "find_op i (?r1\<lparr>jr_operations := jr_operations ?r1\<rparr>) = Some ?q"
    using assms(5) id unfolding find_op_def set_op_def by (simp add: find_update_first_self)
  from find_compact [OF this] obtain p' where p': "find_op i ?r' = Some p'" "p' = ?q \<or> p' = compact_op ?q" .
  have "fits (record_val ?r') \<and> wf_val (record_val ?r')" using assms(10) [OF disjI2 [OF r']] .
  with record_op_fits [of ?r' p'] find_op_member [OF p'(1)] have "clone_op p' = Inr p'" by (auto simp: clone_op_iff)
  moreover have "write_journal scope e False ?r1 (st\<lparr>js_cached := Some r\<rparr>)
      = Inr (?r', st\<lparr>js_store := Some (record_val ?r'), js_cached := Some ?r'\<rparr>)"
    using clones(2) v' assms(3,8) by (simp add: write_journal_def assertLease_def assertSession_def Let_def)
  ultimately have "confirm scope e i ev st = Inr (p', st\<lparr>js_store := Some (record_val ?r'), js_cached := Some ?r'\<rparr>)"
    using clones(1) assms(3,4,5,6,9) p'(1)
    by (simp add: confirm_def mutate_def getRecord_def assertLease_def Let_def)
  moreover have "jo_status q = OpConfirmed"
    using assms(6) by (auto simp: confirm_update_def bindS_Inr_iff outcome_ok split: option.splits)
  ultimately show ?thesis using p'(2) by auto
qed

text \<open>The environment of a vault that is locked throughout.\<close>

definition locked :: journal_env where
  "locked = \<lparr>je_now = 5, je_started = False, je_before_load = False, je_after_load = False, je_before_write = False,
     je_commit = False, je_load_error = None, je_saved = True\<rparr>"

lemma confirm_after_lock_witness:
  "\<exists>p' st'. confirm demo_scope locked op_id demo_evidence (leased (Some submitted_op) 2 {op_id}) = Inr (p', st') \<and>
     jo_status p' = OpConfirmed \<and> js_store st' \<noteq> None"
proof (rule confirm_after_lock [OF demo_scope_ok, where r = "demo_record submitted_op 2" and p = submitted_op and q = confirmed_op])
  fix x
  assume x: "x = demo_record submitted_op 2 \<or> x = (demo_record submitted_op 2)\<lparr>jr_revision := jr_revision (demo_record submitted_op 2) + 1,
      jr_operations := compact (jr_operations (set_op op_id (confirmed_op\<lparr>jo_updatedAt := max (jo_createdAt confirmed_op) (je_now locked)\<rparr>)
        (demo_record submitted_op 2)))\<rparr>"
  have "(demo_record submitted_op 2)\<lparr>jr_revision := jr_revision (demo_record submitted_op 2) + 1,
      jr_operations := compact (jr_operations (set_op op_id (confirmed_op\<lparr>jo_updatedAt := max (jo_createdAt confirmed_op) (je_now locked)\<rparr>)
        (demo_record submitted_op 2)))\<rparr> = demo_record confirmed_op 3"
    by (simp add: demo_record_def set_op_def locked_def demo_compact)
  with x demo_fits show "fits (record_val x) \<and> wf_val (record_val x)" by auto
qed (use demo_current [of submitted_op 2 "{op_id}"] demo_confirm_update in
    \<open>simp_all add: leased_def demo_find locked_def isSafeInteger_def max_safe_def\<close>,
    simp_all add: demo_record_def)

text \<open>
  An operation is confirmed only on evidence about itself: after a successful \<open>confirm\<close> the
  evidence was for this scope, the operation had been submitted (or was confirmed before), and either
  the observed book commitment is the prepared candidate and the operation is no compensation or refund,
  or the observed public effect is exactly the prepared one, or a well-formed receipt does not contradict
  the recorded transaction identifier.\<close>
lemma confirm_needs_evidence:
  assumes "journal_reach scope (journal_start stored) s" "confirm scope e i ev s = Inr (p', s')"
  shows "\<exists>r p. current scope s = Inr r \<and> find_op i r = Some p \<and>
     jo_status p \<in> {OpSubmitting, OpUncertain, OpConfirmed} \<and>
     (\<exists>sc. normalizeScope (ce_scope ev) = Inr sc \<and> sameScope sc scope) \<and>
     (case ce_kind ev of
        ObservedCandidate v \<Rightarrow> (\<exists>c l. jo_candidate p = Some c \<and> hex v l = Inr c) \<and>
          (jo_effect p \<noteq> JNull \<longrightarrow> effect_name (jo_effect p) \<noteq> COMPENSATION \<and> effect_name (jo_effect p) \<noteq> REFUND)
      | ObservedEffect v \<Rightarrow> jo_effect p \<noteq> JNull \<and> normalizeEffect v = Inr (jo_effect p)
      | DefiniteReceipt v \<Rightarrow> normalizeReceipt v = Inr v \<and>
          (\<forall>t. read_str (get_prop (entries_of v) ''txId'') = Some t \<longrightarrow> jo_transactionId p \<in> {None, Some t})
      | OtherConfirmation \<Rightarrow> False) \<and>
     (\<forall>t. ce_transactionId ev = Some t \<longrightarrow> jo_transactionId p \<in> {None, Some t})"
proof -
  have c: "cache_ok scope s" by (rule journal.reach_inv [OF assms(1) journal_start_ok])
  from mutate_Inr [OF c assms(2) [unfolded confirm_def]] obtain r p q where
    r: "current scope s = Inr r" "find_op i r = Some p" and q: "confirm_update scope ev p = Inr q" .
  from q have scope: "\<exists>sc. normalizeScope (ce_scope ev) = Inr sc \<and> sameScope sc scope"
    by (auto simp: confirm_update_def assertEvidenceScope_def bindS_Inr_iff guard_passes)
  from q obtain p1 where status: "jo_status p \<in> {OpSubmitting, OpUncertain, OpConfirmed}"
    and p1: "(case ce_kind ev of ObservedCandidate c \<Rightarrow> observed_candidate c p
       | ObservedEffect v \<Rightarrow> observed_effect v p | DefiniteReceipt rc \<Rightarrow> definite_receipt rc p
       | OtherConfirmation \<Rightarrow> invalid ''A confirmed runtime receipt is required.'') = Inr p1"
    and tx: "\<forall>t. ce_transactionId ev = Some t \<longrightarrow> jo_transactionId p1 = None \<or> jo_transactionId p1 = Some t"
    by (auto simp: confirm_update_def outcome_ok split: option.splits)
  have evidence: "case ce_kind ev of
        ObservedCandidate v \<Rightarrow> (\<exists>c l. jo_candidate p = Some c \<and> hex v l = Inr c) \<and>
          (jo_effect p \<noteq> JNull \<longrightarrow> effect_name (jo_effect p) \<noteq> COMPENSATION \<and> effect_name (jo_effect p) \<noteq> REFUND)
      | ObservedEffect v \<Rightarrow> jo_effect p \<noteq> JNull \<and> normalizeEffect v = Inr (jo_effect p)
      | DefiniteReceipt v \<Rightarrow> normalizeReceipt v = Inr v \<and>
          (\<forall>t. read_str (get_prop (entries_of v) ''txId'') = Some t \<longrightarrow> jo_transactionId p \<in> {None, Some t})
      | OtherConfirmation \<Rightarrow> False"
  proof (cases "ce_kind ev")
    case (DefiniteReceipt v)
    with p1 have d: "definite_receipt v p = Inr p1" by simp
    then obtain rc where rc: "normalizeReceipt v = Inr rc" unfolding definite_receipt_def guard_throws bindS_Inr_iff by blast
    then have "rc = v" using receipt_tx by blast
    with d rc DefiniteReceipt show ?thesis
      unfolding definite_receipt_def guard_throws bindS_Inr_iff Let_def by auto
  qed (use p1 in \<open>auto simp: observed_candidate_def observed_effect_def outcome_ok truthy_def same_encoding_iff
      split: option.splits if_splits\<close>)
  have "jo_transactionId p = None \<or> jo_transactionId p1 = jo_transactionId p"
    using p1 by (cases "jo_transactionId p")
      (auto simp: outcome_ok definite_receipt_def Let_def dest: observed_same split: confirm_kind.splits)
  with tx have "\<forall>t. ce_transactionId ev = Some t \<longrightarrow> jo_transactionId p \<in> {None, Some t}" by auto
  with r status scope evidence show ?thesis by (intro exI [of _ r] exI [of _ p] conjI)
qed

lemma confirm_needs_evidence_witness:
  "(\<exists>sc. normalizeScope (ce_scope demo_evidence) = Inr sc \<and> sameScope sc demo_scope) \<and>
   normalizeReceipt demo_receipt = Inr demo_receipt"
  using confirm_needs_evidence [OF reach_trans [OF demo_reach_prepared demo_reach_submitted] demo_confirmed]
  by (auto simp: demo_evidence_def)

end
