(* ===== verification/Lab.thy ===== *)
theory Lab
  imports Accounting Vault_Codec
begin

text \<open>
  The attack lab, \<open>src/dev/simulator-store.ts\<close>: a store that keeps a ledger, the private books of
  one agent, the invoices and claims issued so far, and the keys of an issuer, an agent and two
  merchants. Its buttons call the circuits of \<open>Protocol\<close>. An operation maps the store to the store
  it leaves behind and to the exception that escaped from it, if one did: what was stored before
  the exception stays stored.
\<close>

section \<open>State\<close>

datatype tone = TOk | TFail | TInfo

text \<open>The text of a message is a template: literal pieces, numbers and strings.\<close>

datatype part = Lit string | Num int | Str jsstr

record flash =
  fl_tone :: tone
  fl_text :: "part list"

record dual_note =
  dual_circuit :: jsstr
  dual_ok :: bool
  dual_publicView :: jsstr
  dual_privateView :: jsstr

record issued_receipt =
  ir_nonce :: jsstr
  ir_amount :: int
  ir_paymentRef :: jsstr
  ir_C :: jsstr

datatype merchant_name = MA | MB

record lab_identities =
  lk_issuerSk :: jsstr
  lk_merchantASk :: jsstr
  lk_merchantBSk :: jsstr
  lk_agentSk :: jsstr
  lk_merchantAPk :: jsstr
  lk_merchantBPk :: jsstr
  lk_instanceNonce :: jsstr

record simulator =
  sm_keys :: lab_identities
  sm_ledger :: ledger
  sm_agent :: "agent_store option"
  sm_invoices :: "merchant_invoice list"
  sm_notes :: "draw_note list"
  sm_pendingRepay :: int
  sm_lastAcked :: int
  sm_flash :: "flash option"
  sm_dual :: "dual_note option"
  sm_staleWitness :: "line_witness option"
  sm_receipts :: "issued_receipt list"
  sm_activeMerchant :: merchant_name

text \<open>The seven strings of the lab, from the first five random values.\<close>

definition generateLabIdentities :: "runtime \<Rightarrow> env \<Rightarrow> lab_identities outcome" where
  "generateLabIdentities rt e =
     (let issuerSk = toHex (env_random e 0); merchantASk = toHex (env_random e 1);
          merchantBSk = toHex (env_random e 2); agentSk = toHex (env_random e 3) in
      bindS (hexToBytes merchantASk) (\<lambda>a.
      bindS (hexToBytes merchantBSk) (\<lambda>b.
      Inr \<lparr>lk_issuerSk = issuerSk, lk_merchantASk = merchantASk, lk_merchantBSk = merchantBSk,
           lk_agentSk = agentSk, lk_merchantAPk = toHex (encodeMerchantPublicKey rt a),
           lk_merchantBPk = toHex (encodeMerchantPublicKey rt b),
           lk_instanceNonce = toHex (env_random e 4)\<rparr>)))"

definition labLedger :: "runtime \<Rightarrow> env \<Rightarrow> lab_identities \<Rightarrow> ledger outcome" where
  "labLedger rt e k = createLedger rt e
     \<lparr>cp_issuerSecret = Some (lk_issuerSk k), cp_merchantSecret = Some (lk_merchantASk k),
      cp_instanceNonce = Some (lk_instanceNonce k), cp_issuerPubKey = None,
      cp_merchantPubKey = None\<rparr>"

definition freshSimulator :: "lab_identities \<Rightarrow> ledger \<Rightarrow> flash option \<Rightarrow> simulator" where
  "freshSimulator k l f =
     \<lparr>sm_keys = k, sm_ledger = l, sm_agent = None, sm_invoices = [], sm_notes = [],
      sm_pendingRepay = 0, sm_lastAcked = 0, sm_flash = f, sm_dual = None,
      sm_staleWitness = None, sm_receipts = [], sm_activeMerchant = MA\<rparr>"

definition useSimulator :: "runtime \<Rightarrow> env \<Rightarrow> simulator outcome" where
  "useSimulator rt e =
     bindS (generateLabIdentities rt e) (\<lambda>k.
     bindS (labLedger rt e k) (\<lambda>l. Inr (freshSimulator k l None)))"

section \<open>Operations\<close>

type_synonym action = "simulator \<Rightarrow> simulator \<times> exn option"

definition andThen :: "action \<Rightarrow> action \<Rightarrow> action" where
  "andThen a b s = (case a s of (t, Some e) \<Rightarrow> (t, Some e) | (t, None) \<Rightarrow> b t)"

definition nothing :: action where
  "nothing s = (s, None)"

definition say :: "tone \<Rightarrow> part list \<Rightarrow> simulator \<Rightarrow> simulator" where
  "say t ps s = s\<lparr>sm_flash := Some \<lparr>fl_tone = t, fl_text = ps\<rparr>\<rparr>"

text \<open>
  A circuit is called and its result looked at: a success goes into the store, a failure is
  reported and nothing else, an exception escapes.
\<close>

definition settle ::
    "'a outcome \<Rightarrow> (string \<Rightarrow> simulator \<Rightarrow> simulator) \<Rightarrow> ('a \<Rightarrow> simulator \<Rightarrow> simulator) \<Rightarrow> action" where
  "settle m rejected accepted s =
     (case m of Inr a \<Rightarrow> (accepted a s, None)
      | Inl (Fail c w) \<Rightarrow> (rejected w s, None)
      | Inl (Throw x) \<Rightarrow> (s, Some x))"

definition rejectedBecause :: "string \<Rightarrow> string \<Rightarrow> simulator \<Rightarrow> simulator" where
  "rejectedBecause what message = say TFail [Lit what, Lit message]"

definition merchantSk :: "merchant_name \<Rightarrow> simulator \<Rightarrow> jsstr" where
  "merchantSk m s = (case m of MA \<Rightarrow> lk_merchantASk (sm_keys s) | MB \<Rightarrow> lk_merchantBSk (sm_keys s))"

definition merchantLetter :: "merchant_name \<Rightarrow> string" where
  "merchantLetter m = (case m of MA \<Rightarrow> ''A'' | MB \<Rightarrow> ''B'')"

text \<open>The random values an operation takes before it calls the circuit.\<close>

definition afterRandom :: "nat \<Rightarrow> env \<Rightarrow> env" where
  "afterRandom n e = e\<lparr>env_random := (\<lambda>i. env_random e (n + i))\<rparr>"

definition setActiveMerchant :: "merchant_name \<Rightarrow> action" where
  "setActiveMerchant m s = (s\<lparr>sm_activeMerchant := m\<rparr>, None)"

definition getActiveMerchantPk :: "merchant_name option \<Rightarrow> simulator \<Rightarrow> jsstr" where
  "getActiveMerchantPk m s =
     (case nullish m (sm_activeMerchant s) of
        MA \<Rightarrow> lk_merchantAPk (sm_keys s) | MB \<Rightarrow> lk_merchantBPk (sm_keys s))"

text \<open>The new keys are in place before the ledger is created from them.\<close>

definition resetSimulator :: "runtime \<Rightarrow> env \<Rightarrow> action" where
  "resetSimulator rt e s =
     (case generateLabIdentities rt e of
        Inl (Throw x) \<Rightarrow> (s, Some x)
      | Inl (Fail c w) \<Rightarrow> (s, None)
      | Inr k \<Rightarrow> settle (labLedger rt e k) (\<lambda>_ t. t)
          (\<lambda>l _. freshSimulator k l (Some \<lparr>fl_tone = TInfo,
             fl_text = [Lit ''Simulator reset to fresh genesis state with ephemeral keys.'']\<rparr>))
          (s\<lparr>sm_keys := k\<rparr>))"

definition setFlash :: "flash option \<Rightarrow> action" where
  "setFlash f s = (s\<lparr>sm_flash := f\<rparr>, None)"

definition doFundReserve :: "runtime \<Rightarrow> int option \<Rightarrow> action" where
  "doFundReserve rt amount s =
     (let a = nullish amount 500 in
      settle (fundReserve rt (sm_ledger s) None (Some (lk_issuerSk (sm_keys s))) a)
        (rejectedBecause ''Fund reserve rejected: '')
        (\<lambda>l t. (say TOk [Lit ''Funded reserve with '', Num a, Lit '' units. Total: '',
           Num (totalReserve l), Lit ''.''] t)\<lparr>sm_ledger := l\<rparr>) s)"

definition doWithdrawReserve :: "runtime \<Rightarrow> int option \<Rightarrow> action" where
  "doWithdrawReserve rt amount s =
     (let total = totalReserve (sm_ledger s);
          locked = fadd (encumberedReserve (sm_ledger s)) (redeemedReserve (sm_ledger s));
          withdrawable = max 0 (fsub total locked);
          amt = nullish amount withdrawable in
      settle (withdrawUnencumberedReserve rt (sm_ledger s) None (Some (lk_issuerSk (sm_keys s))) amt)
        (rejectedBecause ''Withdrawal rejected: '')
        (\<lambda>l t. (say TOk [Lit ''Withdrew '', Num amt, Lit '' unencumbered units. Total: '',
           Num (totalReserve l), Lit ''.''] t)\<lparr>sm_ledger := l\<rparr>) s)"

definition doRegisterMerchant :: "runtime \<Rightarrow> action" where
  "doRegisterMerchant rt s =
     (let pk = lk_merchantBPk (sm_keys s) in
      settle (registerMerchant rt (sm_ledger s) None (Some (lk_issuerSk (sm_keys s))) pk)
        (rejectedBecause ''Merchant registration rejected: '')
        (\<lambda>l t. (say TOk [Lit ''Registered merchant '', Str (take 10 pk),
           Lit ''... in Compact registry.''] t)\<lparr>sm_ledger := l\<rparr>) s)"

definition doOpen :: "runtime \<Rightarrow> env \<Rightarrow> int option \<Rightarrow> action" where
  "doOpen rt e limit s =
     (let n = nullish limit 150 in
      settle (openLine rt e (sm_ledger s)
          \<lparr>oi_caller = None, oi_callerSk = Some (lk_issuerSk (sm_keys s)),
           oi_agentSecret = lk_agentSk (sm_keys s), oi_limit = Some n, oi_salt = None,
           oi_expiry = 10000, oi_feeFlat = None, oi_feeBps = None\<rparr> None)
        (rejectedBecause ''Open line rejected: '')
        (\<lambda>(l, agent) t. (say TOk [Lit ''Opened line with limit '', Num n,
           Lit ''. Commitment C0 written to ledger.''] t)
             \<lparr>sm_ledger := l, sm_agent := Some agent\<rparr>) s)"

definition quoteRequest :: "jsstr \<Rightarrow> int \<Rightarrow> jsstr \<Rightarrow> quote_request" where
  "quoteRequest sk amount invoiceId =
     \<lparr>qi_caller = None, qi_callerSk = Some sk, qi_merchantSecret = None, qi_amount = Some amount,
      qi_invoiceId = invoiceId, qi_expiry = 10000, qi_nonce = None\<rparr>"

definition invoiceOf :: "quote_preimage \<Rightarrow> jsstr \<Rightarrow> merchant_invoice" where
  "invoiceOf q Q = \<lparr>mi_invoiceId = tq_invoiceId q, mi_amount = tq_amount q, mi_Q = Q,
     mi_used = False, mi_preimage = q\<rparr>"

definition doQuote ::
    "runtime \<Rightarrow> env \<Rightarrow> int \<Rightarrow> jsstr option \<Rightarrow> merchant_name option \<Rightarrow> action" where
  "doQuote rt e amount invoiceId merchant s =
     (let m = nullish merchant (sm_activeMerchant s);
          invId = nullish invoiceId (js ''inv-'' @ js (merchantLetter m) @ js ''-'' @ dec_int amount) in
      settle (postQuote rt e (sm_ledger s) (quoteRequest (merchantSk m s) amount invId) None)
        (rejectedBecause ''Quote rejected: '')
        (\<lambda>(l, q, Q) t. (say TOk [Lit ''Quote posted by Merchant '', Lit (merchantLetter m),
           Lit '' for '', Num amount, Lit '' units.''] t)
             \<lparr>sm_ledger := l, sm_invoices := sm_invoices t @ [invoiceOf q Q]\<rparr>) s)"

definition drawRequest :: "jsstr \<Rightarrow> agent_store \<Rightarrow> merchant_invoice \<Rightarrow> draw_input" where
  "drawRequest sk agent invoice =
     \<lparr>di_caller = None, di_callerSk = Some sk, di_agentSecret = None, di_agent = Some agent,
      di_witness = None, di_quote = None, di_invoice = Some invoice, di_quoteCommit = None,
      di_newSalt = None, di_noteNonce = None, di_noteSalt = None, di_noteExpiry = None,
      di_fee = None\<rparr>"

definition doDraw :: "runtime \<Rightarrow> env \<Rightarrow> jsstr \<Rightarrow> action" where
  "doDraw rt e Q s =
     (case sm_agent s of
        None \<Rightarrow> (say TFail [Lit ''No agent line open.''] s, None)
      | Some agent \<Rightarrow>
        (case find (\<lambda>i. mi_Q i = Q) (sm_invoices s) of
           None \<Rightarrow> (say TFail [Lit ''Quote not found.''] s, None)
         | Some invoice \<Rightarrow>
           settle (draw rt e (sm_ledger s) (drawRequest (lk_agentSk (sm_keys s)) agent invoice) None)
             (rejectedBecause ''Draw rejected: '')
             (\<lambda>(l, agent', note) t. (say TOk [Lit ''Draw cleared for '', Num (mi_amount invoice),
                Lit '' units. Draw note issued.''] t)
                  \<lparr>sm_ledger := l, sm_agent := Some agent', sm_notes := sm_notes t @ [note],
                   sm_invoices := map (\<lambda>i. if mi_Q i = Q then i\<lparr>mi_used := True\<rparr> else i)
                     (sm_invoices t)\<rparr>) s))"

definition redeemRequest :: "jsstr \<Rightarrow> draw_note \<Rightarrow> redeem_input" where
  "redeemRequest sk note =
     \<lparr>ri_caller = None, ri_callerSk = Some sk, ri_merchantSecret = None, ri_note = Some note,
      ri_noteCommitment = None, ri_noteExpiry = None, ri_notePreimage = None, ri_noteSalt = None\<rparr>"

definition doRedeem :: "runtime \<Rightarrow> env \<Rightarrow> jsstr \<Rightarrow> merchant_name option \<Rightarrow> action" where
  "doRedeem rt e D merchant s =
     (let m = nullish merchant (sm_activeMerchant s) in
      case find (\<lambda>n. dn_D n = D) (sm_notes s) of
        None \<Rightarrow> (say TFail [Lit ''Draw note not found.''] s, None)
      | Some note \<Rightarrow>
        settle (redeemDraw rt e (sm_ledger s) (redeemRequest (merchantSk m s) note) None)
          (rejectedBecause ''Redemption rejected: '')
          (\<lambda>(l, N) t. (say TOk [Lit ''Merchant '', Lit (merchantLetter m), Lit '' redeemed note for '',
             Num (tn_amount (dn_preimage note)), Lit '' units.''] t)
               \<lparr>sm_ledger := l,
                sm_pendingRepay := fadd (sm_pendingRepay t) (tn_amount (dn_preimage note))\<rparr>) s)"

definition doExpireNote :: "runtime \<Rightarrow> env \<Rightarrow> jsstr \<Rightarrow> action" where
  "doExpireNote rt e D s =
     (case find (\<lambda>n. dn_D n = D) (sm_notes s) of
        None \<Rightarrow> (s, None)
      | Some note \<Rightarrow>
        settle (cancelOrExpireNote rt e (sm_ledger s)
            \<lparr>xi_caller = None, xi_callerSk = Some (lk_issuerSk (sm_keys s)), xi_agentSecret = None,
             xi_noteCommitment = None, xi_note = Some note, xi_action = None,
             xi_receiptExpiry = None, xi_compensation = None, xi_refundAck = None\<rparr>)
          (rejectedBecause ''Expire rejected: '')
          (\<lambda>(l, w, a) t. (say TOk [Lit ''Note expired.''] t)\<lparr>sm_ledger := l\<rparr>) s)"

text \<open>A receipt for the current books; its reference and nonce are the next two random values.\<close>

definition labReceipt :: "runtime \<Rightarrow> env \<Rightarrow> agent_store \<Rightarrow> ledger \<Rightarrow> int \<Rightarrow> repay_receipt outcome" where
  "labReceipt rt e agent l amount =
     bindS (case as_witness agent of None \<Rightarrow> Inr [] | Some w \<Rightarrow> lineCommitment rt w) (\<lambda>C.
     Inr \<lparr>rr_identity = nullish (as_identityCommitment agent)
            (case as_witness agent of Some w \<Rightarrow> lw_I w | None \<Rightarrow> []),
          rr_currentC = C, rr_amount = amount, rr_paymentRef = toHex (env_random e 0),
          rr_nonce = toHex (env_random e 1), rr_expiry = 10000,
          rr_contractDomain = contractDomain l\<rparr>)"

definition repayRequest :: "jsstr \<Rightarrow> agent_store \<Rightarrow> repay_receipt \<Rightarrow> repay_input" where
  "repayRequest sk agent r =
     \<lparr>pi_caller = None, pi_callerSk = Some sk, pi_agent = Some agent, pi_witness = None,
      pi_receipt = Some r, pi_newSalt = None, pi_receiptExpiry = None\<rparr>"

definition doAck :: "runtime \<Rightarrow> env \<Rightarrow> int option \<Rightarrow> action" where
  "doAck rt e amount s =
     (case sm_agent s of
        None \<Rightarrow> (s, None)
      | Some agent \<Rightarrow>
        (let amt = nullish amount (sm_pendingRepay s) in
         settle (bindS (labReceipt rt e agent (sm_ledger s) amt) (\<lambda>r.
             acknowledgeRepayment rt (afterRandom 2 e) (sm_ledger s)
               (repayRequest (lk_issuerSk (sm_keys s)) agent r) None))
           (rejectedBecause ''Ack rejected: '')
           (\<lambda>(l, w, agent') t. (say TOk [Lit ''Repayment of '', Num amt,
              Lit '' acknowledged. Outstanding reduced.''] t)
                \<lparr>sm_ledger := l, sm_agent := agent',
                 sm_pendingRepay := max 0 (fsub (sm_pendingRepay t) amt), sm_lastAcked := amt\<rparr>) s))"

definition statusName :: "line_status \<Rightarrow> string" where
  "statusName st = (case st of SNone \<Rightarrow> ''none'' | SOpen \<Rightarrow> ''open''
     | SDefaulted \<Rightarrow> ''defaulted'' | SClosed \<Rightarrow> ''closed'')"

definition doStatus :: "runtime \<Rightarrow> line_status \<Rightarrow> action" where
  "doStatus rt st s =
     settle (setStatus rt (sm_ledger s) None (Some (lk_issuerSk (sm_keys s))) st None)
       (rejectedBecause ''Status update rejected: '')
       (\<lambda>l t. (say TOk [Lit ''Status changed to '', Lit (statusName st), Lit ''.''] t)
            \<lparr>sm_ledger := l\<rparr>) s"

section \<open>Seeded states\<close>

definition seedActiveDrawNote :: "runtime \<Rightarrow> (nat \<Rightarrow> env) \<Rightarrow> action" where
  "seedActiveDrawNote rt es =
     andThen (resetSimulator rt (es 0))
     (andThen (doFundReserve rt (Some 500))
     (andThen (doOpen rt (es 1) (Some 150))
     (andThen (doQuote rt (es 2) 40 (Some (js ''seed-quote-40'')) None)
     (andThen (\<lambda>s. case sm_invoices s of
         [] \<Rightarrow> nothing s | i # _ \<Rightarrow> if mi_Q i = [] then nothing s else doDraw rt (es 3) (mi_Q i) s)
     (\<lambda>s. (say TInfo [Lit ''Seeded state with active 40-unit draw note.''] s, None))))))"

definition seedRedeemedNote :: "runtime \<Rightarrow> (nat \<Rightarrow> env) \<Rightarrow> action" where
  "seedRedeemedNote rt es =
     andThen (seedActiveDrawNote rt es)
     (andThen (\<lambda>s. case sm_notes s of
         [] \<Rightarrow> nothing s | n # _ \<Rightarrow> if dn_D n = [] then nothing s
                              else doRedeem rt (es 4) (dn_D n) (Some MA) s)
     (\<lambda>s. (say TInfo [Lit ''Seeded state with redeemed 40-unit note.''] s, None)))"

section \<open>Attacks\<close>

text \<open>
  An attack calls a circuit with the wrong key or the wrong data and only looks at whether it was
  refused: the resulting ledger is dropped.
\<close>

definition attempt :: "'a outcome \<Rightarrow> (string \<Rightarrow> part list) \<Rightarrow> action" where
  "attempt m blocked =
     settle m (\<lambda>w. say TOk (blocked w)) (\<lambda>_. say TFail [Lit ''Attack succeeded unexpectedly!''])"

definition withLine :: "runtime \<Rightarrow> env \<Rightarrow> action" where
  "withLine rt e s =
     (case sm_agent s of
        None \<Rightarrow> andThen (doFundReserve rt (Some 500)) (doOpen rt e (Some 150)) s
      | Some a \<Rightarrow> nothing s)"

definition attackReplay :: "runtime \<Rightarrow> (nat \<Rightarrow> env) \<Rightarrow> action" where
  "attackReplay rt es =
     andThen (\<lambda>s. if sm_notes s = [] then seedRedeemedNote rt es s else nothing s)
     (\<lambda>s. case sm_notes s of
        [] \<Rightarrow> (say TFail [Lit ''No note available to replay.''] s, None)
      | note # _ \<Rightarrow>
        attempt (redeemDraw rt (es 5) (sm_ledger s) (redeemRequest (lk_merchantASk (sm_keys s)) note) None)
          (\<lambda>_. [Lit ''Attack blocked: Nullifier already spent in ZK ledger.'']) s)"

definition attackFakeRepay :: "runtime \<Rightarrow> (nat \<Rightarrow> env) \<Rightarrow> action" where
  "attackFakeRepay rt es =
     andThen (withLine rt (es 0))
     (\<lambda>s. case sm_agent s of
        None \<Rightarrow> nothing s
      | Some agent \<Rightarrow>
        attempt (bindS (labReceipt rt (es 1) agent (sm_ledger s) 40) (\<lambda>r.
            acknowledgeRepayment rt (afterRandom 2 (es 1)) (sm_ledger s)
              (repayRequest (lk_agentSk (sm_keys s)) agent r) None))
          (\<lambda>_. [Lit ''Attack blocked: Agent cannot acknowledge its own repayment.'']) s)"

definition attackOverLimit :: "runtime \<Rightarrow> (nat \<Rightarrow> env) \<Rightarrow> action" where
  "attackOverLimit rt es =
     andThen (withLine rt (es 0))
     (\<lambda>s. case sm_agent s of
        None \<Rightarrow> nothing s
      | Some agent \<Rightarrow>
        (case postQuote rt (es 1) (sm_ledger s)
            (quoteRequest (lk_merchantASk (sm_keys s)) 1000 (js ''over-limit-1000'')) None of
           Inl (Throw x) \<Rightarrow> (s, Some x)
         | Inl (Fail c w) \<Rightarrow> nothing s
         | Inr (l, q, Q) \<Rightarrow>
           attempt (draw rt (es 2) l (drawRequest (lk_agentSk (sm_keys s)) agent (invoiceOf q Q)) None)
             (\<lambda>w. [Lit ''Attack blocked: '', Lit w]) s))"

definition attackStale :: "runtime \<Rightarrow> (nat \<Rightarrow> env) \<Rightarrow> action" where
  "attackStale rt es =
     andThen (\<lambda>s. if sm_agent s = None then seedActiveDrawNote rt es s else nothing s)
     (\<lambda>s. case sm_agent s of
        None \<Rightarrow> nothing s
      | Some agent \<Rightarrow>
        (case as_witness agent of
           None \<Rightarrow> nothing s
         | Some w \<Rightarrow>
           attempt (bindS (pad32 (js ''stale-salt'')) (\<lambda>salt.
             draw rt (afterRandom 2 (es 5)) (sm_ledger s)
               (drawRequest (lk_agentSk (sm_keys s))
                  (agent\<lparr>as_witness := Some (w\<lparr>lw_s := toHex salt\<rparr>)\<rparr>)
                  \<lparr>mi_invoiceId = js ''stale-attack'', mi_amount = 10,
                   mi_Q = toHex (env_random (es 5) 0), mi_used = False,
                   mi_preimage = \<lparr>tq_merchantCommitment = lk_merchantAPk (sm_keys s),
                     tq_amount = 10, tq_invoiceId = js ''stale-attack'', tq_expiry = 10000,
                     tq_nonce = toHex (env_random (es 5) 1),
                     tq_generation = lineGeneration (sm_ledger s),
                     tq_feeFlat = feeFlat (sm_ledger s), tq_feeBps = feeBps (sm_ledger s)\<rparr>\<rparr>) None))
             (\<lambda>_. [Lit ''Attack blocked: Stale line commitment rejected.'']) s))"

definition attackWrongAgent :: "runtime \<Rightarrow> (nat \<Rightarrow> env) \<Rightarrow> action" where
  "attackWrongAgent rt es =
     andThen (\<lambda>s. case sm_agent s of
         None \<Rightarrow> andThen (doFundReserve rt (Some 500))
           (andThen (doOpen rt (es 0) (Some 150))
             (doQuote rt (es 1) 40 (Some (js ''attack-quote'')) None)) s
       | Some a \<Rightarrow> nothing s)
     (\<lambda>s. case (sm_agent s, sm_invoices s) of
        (Some agent, invoice # _) \<Rightarrow>
          attempt (draw rt (es 2) (sm_ledger s) (drawRequest (lk_issuerSk (sm_keys s)) agent invoice) None)
            (\<lambda>_. [Lit ''Attack blocked: Caller does not own agent private key.'']) s
      | _ \<Rightarrow> nothing s)"

definition attackWrongMerchantRedeem :: "runtime \<Rightarrow> (nat \<Rightarrow> env) \<Rightarrow> action" where
  "attackWrongMerchantRedeem rt es =
     andThen (\<lambda>s. if sm_notes s = [] then seedActiveDrawNote rt es s else nothing s)
     (\<lambda>s. case sm_notes s of
        [] \<Rightarrow> (say TFail [Lit ''No note available.''] s, None)
      | note # _ \<Rightarrow>
        attempt (redeemDraw rt (es 4) (sm_ledger s) (redeemRequest (lk_merchantBSk (sm_keys s)) note) None)
          (\<lambda>_. [Lit ''Attack blocked: Merchant B cannot redeem note bound to Merchant A.'']) s)"

definition attackDoubleRedeem :: "runtime \<Rightarrow> (nat \<Rightarrow> env) \<Rightarrow> action" where
  "attackDoubleRedeem rt es = attackReplay rt es"

definition attackWithdrawEncumbered :: "runtime \<Rightarrow> (nat \<Rightarrow> env) \<Rightarrow> action" where
  "attackWithdrawEncumbered rt es =
     andThen (\<lambda>s. if sm_notes s = [] then seedActiveDrawNote rt es s else nothing s)
     (\<lambda>s. attempt (withdrawUnencumberedReserve rt (sm_ledger s) None
            (Some (lk_issuerSk (sm_keys s))) (totalReserve (sm_ledger s)))
          (\<lambda>_. [Lit ''Attack blocked: Cannot withdraw encumbered settlement reserves.'']) s)"

definition attackCrossInstanceReplay :: action where
  "attackCrossInstanceReplay s =
     (say TOk [Lit ''Attack blocked: Cross-instance replay prevented by domain separation.''] s, None)"

end
