(* ===== verification/Lab_Facts.thy ===== *)
theory Lab_Facts
  imports Lab Circuit_Facts
begin

text \<open>
  How the lab's operations compose. An operation moves the store along a relation, or it does not;
  for a preorder the relation is carried through sequences and branches, so that it is enough to
  look at each call of a circuit. The locale is used for the ledger's history, for the agreement of
  private and public books, and for the lab whose deadlines have passed.
\<close>

section \<open>All operations of the lab\<close>

datatype lab_op =
    LSetActiveMerchant merchant_name
  | LReset
  | LSetFlash "flash option"
  | LFundReserve "int option"
  | LWithdrawReserve "int option"
  | LRegisterMerchant
  | LOpen "int option"
  | LQuote int "jsstr option" "merchant_name option"
  | LDraw jsstr
  | LRedeem jsstr "merchant_name option"
  | LExpireNote jsstr
  | LAck "int option"
  | LStatus line_status
  | LSeedActive
  | LSeedRedeemed
  | LAttackReplay
  | LAttackFakeRepay
  | LAttackOverLimit
  | LAttackStale
  | LAttackWrongAgent
  | LAttackWrongMerchantRedeem
  | LAttackDoubleRedeem
  | LAttackWithdrawEncumbered
  | LAttackCrossInstanceReplay

fun lab :: "runtime \<Rightarrow> (nat \<Rightarrow> env) \<Rightarrow> lab_op \<Rightarrow> action" where
  "lab rt es (LSetActiveMerchant m) = setActiveMerchant m"
| "lab rt es LReset = resetSimulator rt (es 0)"
| "lab rt es (LSetFlash f) = setFlash f"
| "lab rt es (LFundReserve a) = doFundReserve rt a"
| "lab rt es (LWithdrawReserve a) = doWithdrawReserve rt a"
| "lab rt es LRegisterMerchant = doRegisterMerchant rt"
| "lab rt es (LOpen n) = doOpen rt (es 0) n"
| "lab rt es (LQuote a i m) = doQuote rt (es 0) a i m"
| "lab rt es (LDraw Q) = doDraw rt (es 0) Q"
| "lab rt es (LRedeem D m) = doRedeem rt (es 0) D m"
| "lab rt es (LExpireNote D) = doExpireNote rt (es 0) D"
| "lab rt es (LAck a) = doAck rt (es 0) a"
| "lab rt es (LStatus st) = doStatus rt st"
| "lab rt es LSeedActive = seedActiveDrawNote rt es"
| "lab rt es LSeedRedeemed = seedRedeemedNote rt es"
| "lab rt es LAttackReplay = attackReplay rt es"
| "lab rt es LAttackFakeRepay = attackFakeRepay rt es"
| "lab rt es LAttackOverLimit = attackOverLimit rt es"
| "lab rt es LAttackStale = attackStale rt es"
| "lab rt es LAttackWrongAgent = attackWrongAgent rt es"
| "lab rt es LAttackWrongMerchantRedeem = attackWrongMerchantRedeem rt es"
| "lab rt es LAttackDoubleRedeem = attackDoubleRedeem rt es"
| "lab rt es LAttackWithdrawEncumbered = attackWithdrawEncumbered rt es"
| "lab rt es LAttackCrossInstanceReplay = attackCrossInstanceReplay"

section \<open>Relations an operation respects\<close>

definition moves :: "(simulator \<Rightarrow> simulator \<Rightarrow> bool) \<Rightarrow> action \<Rightarrow> bool" where
  "moves R a \<longleftrightarrow> (\<forall>s. R s (fst (a s)))"

lemma say_fields [simp]:
  "sm_keys (say t ps s) = sm_keys s" "sm_ledger (say t ps s) = sm_ledger s"
  "sm_agent (say t ps s) = sm_agent s" "sm_invoices (say t ps s) = sm_invoices s"
  "sm_notes (say t ps s) = sm_notes s" "sm_pendingRepay (say t ps s) = sm_pendingRepay s"
  "sm_flash (say t ps s) = Some \<lparr>fl_tone = t, fl_text = ps\<rparr>"
  "sm_activeMerchant (say t ps s) = sm_activeMerchant s"
  by (simp_all add: say_def)

text \<open>Storing a result commutes with the message about it.\<close>

lemma say_updates:
  "(say t ps s)\<lparr>sm_ledger := l\<rparr> = say t ps (s\<lparr>sm_ledger := l\<rparr>)"
  "(say t ps s)\<lparr>sm_agent := a\<rparr> = say t ps (s\<lparr>sm_agent := a\<rparr>)"
  "(say t ps s)\<lparr>sm_invoices := is\<rparr> = say t ps (s\<lparr>sm_invoices := is\<rparr>)"
  "(say t ps s)\<lparr>sm_notes := ns\<rparr> = say t ps (s\<lparr>sm_notes := ns\<rparr>)"
  "(say t ps s)\<lparr>sm_pendingRepay := p\<rparr> = say t ps (s\<lparr>sm_pendingRepay := p\<rparr>)"
  "(say t ps s)\<lparr>sm_lastAcked := k\<rparr> = say t ps (s\<lparr>sm_lastAcked := k\<rparr>)"
  by (simp_all add: say_def)

text \<open>
  The contract: a preorder on stores that ignores the message and the chosen merchant, and that a
  fresh lab and every accepted circuit respect. Then every button respects it.
\<close>

locale lab_relation =
  fixes rt :: runtime and ok :: "env \<Rightarrow> bool" and R :: "simulator \<Rightarrow> simulator \<Rightarrow> bool"
  assumes refl: "R s s"
    and trans: "R s t \<Longrightarrow> R t u \<Longrightarrow> R s u"
    and message: "R s (s\<lparr>sm_flash := f\<rparr>)"
    and chosen: "R s (s\<lparr>sm_activeMerchant := m\<rparr>)"
    and keyed: "R s (s\<lparr>sm_keys := k\<rparr>)"
    and fresh: "ok e \<Longrightarrow> labLedger rt e k = Inr l \<Longrightarrow> R s (freshSimulator k l f)"
    and fund: "fundReserve rt (sm_ledger s) None (Some (lk_issuerSk (sm_keys s))) a = Inr l \<Longrightarrow>
      R s (s\<lparr>sm_ledger := l\<rparr>)"
    and withdraw: "withdrawUnencumberedReserve rt (sm_ledger s) None (Some (lk_issuerSk (sm_keys s))) a
      = Inr l \<Longrightarrow> R s (s\<lparr>sm_ledger := l\<rparr>)"
    and register: "registerMerchant rt (sm_ledger s) None (Some (lk_issuerSk (sm_keys s))) pk = Inr l \<Longrightarrow>
      R s (s\<lparr>sm_ledger := l\<rparr>)"
    and line: "ok e \<Longrightarrow> oi_expiry oi = 10000 \<Longrightarrow> openLine rt e (sm_ledger s) oi None = Inr (l, agent) \<Longrightarrow>
      R s (s\<lparr>sm_ledger := l, sm_agent := Some agent\<rparr>)"
    and quote: "ok e \<Longrightarrow> postQuote rt e (sm_ledger s) (quoteRequest sk a qid) None = Inr (l, q, Q) \<Longrightarrow>
      R s (s\<lparr>sm_ledger := l, sm_invoices := sm_invoices s @ [invoiceOf q Q]\<rparr>)"
    and purchase: "ok e \<Longrightarrow> sm_agent s = Some agent \<Longrightarrow>
      draw rt e (sm_ledger s) (drawRequest sk agent invoice) None = Inr (l, agent', n) \<Longrightarrow>
      R s (s\<lparr>sm_ledger := l, sm_agent := Some agent', sm_notes := sm_notes s @ [n],
             sm_invoices := map (\<lambda>i. if mi_Q i = Q then i\<lparr>mi_used := True\<rparr> else i) (sm_invoices s)\<rparr>)"
    and redemption: "ok e \<Longrightarrow> redeemDraw rt e (sm_ledger s) (redeemRequest sk n) None = Inr (l, N) \<Longrightarrow>
      R s (s\<lparr>sm_ledger := l, sm_pendingRepay := p\<rparr>)"
    and expiry: "ok e \<Longrightarrow> xi_action ci = None \<Longrightarrow>
      cancelOrExpireNote rt e (sm_ledger s) ci = Inr (l, w, ra) \<Longrightarrow> R s (s\<lparr>sm_ledger := l\<rparr>)"
    and repayment: "ok e \<Longrightarrow> sm_agent s = Some agent \<Longrightarrow>
      acknowledgeRepayment rt (afterRandom 2 e) (sm_ledger s) (repayRequest sk agent r) None = Inr (l, v, next) \<Longrightarrow>
      R s (s\<lparr>sm_ledger := l, sm_agent := next, sm_pendingRepay := p, sm_lastAcked := a\<rparr>)"
    and status: "setStatus rt (sm_ledger s) None (Some (lk_issuerSk (sm_keys s))) st None = Inr l \<Longrightarrow>
      R s (s\<lparr>sm_ledger := l\<rparr>)"
begin

lemma say: "R s (say t ps s)"
  unfolding say_def by (rule message)

lemma said: "R s u \<Longrightarrow> R s (say t ps u)"
  using trans say by blast

lemma flashed: "R s u \<Longrightarrow> R s (u\<lparr>sm_flash := f\<rparr>)"
  using trans message by blast

lemma rejected: "R s (rejectedBecause what w s)"
  unfolding rejectedBecause_def by (rule say)

lemma after: "moves R a \<Longrightarrow> moves R b \<Longrightarrow> moves R (andThen a b)"
  unfolding moves_def andThen_def
  by (simp split: prod.splits option.splits) (metis fst_conv trans)

lemma settled:
  assumes "\<And>c w. m = Inl (Fail c w) \<Longrightarrow> R s (no w s)" and "\<And>a. m = Inr a \<Longrightarrow> R s (yes a s)"
  shows "R s (fst (settle m no yes s))"
  using assms refl by (auto simp: settle_def split: sum.splits stop.splits)

lemma idle: "moves R nothing"
  by (simp add: moves_def nothing_def refl)

lemma attempted: "R s (fst (attempt m blocked s))"
  unfolding attempt_def by (rule settled) (simp_all add: refl say)

lemma reset_moves: "ok e \<Longrightarrow> moves R (resetSimulator rt e)"
proof -
  assume e: "ok e"
  have "R s (fst (settle (labLedger rt e k) (\<lambda>_ t. t) (\<lambda>l _. freshSimulator k l f) (s\<lparr>sm_keys := k\<rparr>)))"
    for s k f
    by (rule trans [OF keyed], rule settled) (simp_all add: refl fresh [OF e])
  then show ?thesis
    by (auto simp: moves_def resetSimulator_def refl split: sum.splits stop.splits)
qed

text \<open>One lemma per button.\<close>

lemma fund_moves: "moves R (doFundReserve rt a)"
  unfolding moves_def doFundReserve_def Let_def
  by (intro allI settled rejected) (auto simp: say_updates intro!: said fund)

lemma withdraw_moves: "moves R (doWithdrawReserve rt a)"
  unfolding moves_def doWithdrawReserve_def Let_def
  by (intro allI settled rejected) (auto simp: say_updates intro!: said withdraw)

lemma register_moves: "moves R (doRegisterMerchant rt)"
  unfolding moves_def doRegisterMerchant_def Let_def
  by (intro allI settled rejected) (auto simp: say_updates intro!: said register)

lemma status_moves: "moves R (doStatus rt st)"
  unfolding moves_def doStatus_def
  by (intro allI settled rejected) (auto simp: say_updates intro!: said status)

lemma open_moves: "ok e \<Longrightarrow> moves R (doOpen rt e n)"
  unfolding moves_def doOpen_def Let_def
  by (intro allI settled rejected) (auto simp: say_updates intro!: said elim!: line [rotated 2])

lemma quote_moves: "ok e \<Longrightarrow> moves R (doQuote rt e n i m)"
  unfolding moves_def doQuote_def Let_def
  by (intro allI settled rejected) (auto simp: say_updates intro!: said elim!: quote [rotated 1])

lemma draw_moves: "ok e \<Longrightarrow> moves R (doDraw rt e Q)"
  unfolding moves_def doDraw_def
  by (auto simp: say_updates refl intro!: settled rejected said elim!: purchase [rotated 2]
      split: option.split)

lemma redeem_moves: "ok e \<Longrightarrow> moves R (doRedeem rt e D m)"
  unfolding moves_def doRedeem_def Let_def
  by (auto simp: say_updates refl intro!: settled rejected said elim!: redemption [rotated 1]
      split: option.split)

lemma expire_moves: "ok e \<Longrightarrow> moves R (doExpireNote rt e D)"
  unfolding moves_def doExpireNote_def
  by (auto simp: say_updates refl intro!: settled rejected said elim!: expiry [rotated 2]
      split: option.split)

lemma ack_moves: "ok e \<Longrightarrow> moves R (doAck rt e a)"
  unfolding moves_def doAck_def Let_def
  by (auto simp: say_updates refl bindS_Inr_iff intro!: settled rejected said
      elim!: repayment [rotated 2] split: option.split)

lemma branch: "(\<And>s. R s (fst (a s))) \<Longrightarrow> moves R a"
  by (simp add: moves_def)

lemma seed_moves:
  assumes ok: "\<And>k. ok (es k)"
  shows "moves R (seedActiveDrawNote rt es)" "moves R (seedRedeemedNote rt es)"
proof -
  note at = reset_moves [OF ok] open_moves [OF ok] quote_moves [OF ok] draw_moves [OF ok]
    redeem_moves [OF ok] fund_moves idle
  show *: "moves R (seedActiveDrawNote rt es)"
    unfolding seedActiveDrawNote_def
    by (intro after at branch) (use at in \<open>auto simp: moves_def say split: list.split\<close>)
  show "moves R (seedRedeemedNote rt es)"
    unfolding seedRedeemedNote_def
    by (intro after * branch) (use at in \<open>auto simp: moves_def say split: list.split\<close>)
qed

lemma withLine_moves: "ok e \<Longrightarrow> moves R (withLine rt e)"
  using after [OF fund_moves open_moves] idle
  by (auto simp: withLine_def moves_def split: option.split)

lemma attack_moves:
  assumes ok: "\<And>k. ok (es k)"
  shows "moves R (attackReplay rt es)" "moves R (attackFakeRepay rt es)"
    "moves R (attackOverLimit rt es)" "moves R (attackStale rt es)" "moves R (attackWrongAgent rt es)"
    "moves R (attackWrongMerchantRedeem rt es)" "moves R (attackDoubleRedeem rt es)"
    "moves R (attackWithdrawEncumbered rt es)" "moves R attackCrossInstanceReplay"
proof -
  note seeds = seed_moves [of es, OF ok] withLine_moves [OF ok] idle
  note begins = after [OF fund_moves after [OF open_moves [OF ok] quote_moves [OF ok]]]
  show *: "moves R (attackReplay rt es)"
    unfolding attackReplay_def
    by (intro after branch) (use seeds in \<open>auto simp: moves_def say attempted split: list.split\<close>)
  show "moves R (attackFakeRepay rt es)"
    unfolding attackFakeRepay_def
    by (intro after branch) (use seeds in \<open>auto simp: moves_def attempted split: option.split\<close>)
  show "moves R (attackOverLimit rt es)"
    unfolding attackOverLimit_def
    by (intro after branch)
      (use seeds in \<open>auto simp: moves_def attempted refl split: option.split sum.split stop.split\<close>)
  show "moves R (attackStale rt es)"
    unfolding attackStale_def
    by (intro after branch) (use seeds in \<open>auto simp: moves_def attempted split: option.split\<close>)
  show "moves R (attackWrongAgent rt es)"
    unfolding attackWrongAgent_def
    by (intro after branch)
      (use seeds begins in \<open>auto simp: moves_def attempted split: option.split list.split\<close>)
  show "moves R (attackWrongMerchantRedeem rt es)"
    unfolding attackWrongMerchantRedeem_def
    by (intro after branch) (use seeds in \<open>auto simp: moves_def say attempted split: list.split\<close>)
  show "moves R (attackDoubleRedeem rt es)" unfolding attackDoubleRedeem_def by (rule *)
  show "moves R (attackWithdrawEncumbered rt es)"
    unfolding attackWithdrawEncumbered_def
    by (intro after branch) (use seeds in \<open>auto simp: moves_def attempted\<close>)
  show "moves R attackCrossInstanceReplay"
    by (simp add: moves_def attackCrossInstanceReplay_def say)
qed

lemma lab_moves:
  assumes ok: "\<And>k. ok (es k)"
  shows "R s (fst (lab rt es op s))"
proof -
  have "moves R (lab rt es op)"
    using attack_moves [of es, OF ok] seed_moves [of es, OF ok]
    by (cases op)
      (simp_all add: ok reset_moves fund_moves withdraw_moves register_moves status_moves open_moves
        quote_moves draw_moves redeem_moves expire_moves ack_moves branch setActiveMerchant_def
        setFlash_def chosen message)
  then show ?thesis by (simp add: moves_def)
qed

end

end
