(* ===== verification/Lab_Demo.thy ===== *)
theory Lab_Demo
  imports Lab_Facts Demo
begin

text \<open>
  A session of the lab on the concrete runtime, with a clock before the lab's deadlines: fund, open
  a line of 150, quote 40.
\<close>

definition lab_keys :: lab_identities where
  "lab_keys = \<lparr>lk_issuerSk = key 100, lk_merchantASk = key 101, lk_merchantBSk = key 102,
     lk_agentSk = key 103, lk_merchantAPk = toHex TAG_merchantPk, lk_merchantBPk = toHex TAG_merchantPk,
     lk_instanceNonce = key 104\<rparr>"

lemma clock_random [simp]: "env_random (clock t) i = rep32 (of_nat (100 + i))"
  by (simp add: clock_def)

lemma clock_reading [simp]: "env_clock (clock t) = t"
  by (simp add: clock_def)

lemma hexToBytes_key [simp]: "hexToBytes (key b) = Inr (rep32 b)"
  unfolding key_def by (rule hexToBytes_toHex)

lemma lab_keys: "generateLabIdentities demo (clock t) = Inr lab_keys"
  by (simp add: generateLabIdentities_def lab_keys_def demo_eval)

definition lab_created :: ledger where
  "lab_created = demo_created\<lparr>instanceNonce := key 104\<rparr>"

lemma lab_created: "labLedger demo e lab_keys = Inr lab_created"
  by (simp add: labLedger_def lab_created_def lab_keys_def createLedger_def demo_created_def
      key_param_def truthy_def demo_eval)

definition lab0 :: simulator where
  "lab0 = freshSimulator lab_keys lab_created None"

lemma lab0: "useSimulator demo (clock t) = Inr lab0"
  by (simp add: useSimulator_def lab_keys lab_created lab0_def)

definition lab_funded :: ledger where
  "lab_funded = pushEvent ((event ''fundReserve'' (PFunded 500 500))\<lparr>ev_amount := Some 500\<rparr>)
     (lab_created\<lparr>totalReserve := 500\<rparr>)"

definition lab1 :: simulator where
  "lab1 = (say TOk [Lit ''Funded reserve with '', Num 500, Lit '' units. Total: '', Num 500, Lit ''.'']
     lab0)\<lparr>sm_ledger := lab_funded\<rparr>"

lemma lab1: "doFundReserve demo None lab0 = (lab1, None)"
  by (simp add: doFundReserve_def lab0_def freshSimulator_def lab1_def settle_def fundReserve_def
      lab_funded_def lab_created_def demo_created_def lab_keys_def demo_eval fadd_def)

definition lab_books :: line_witness where
  "lab_books = \<lparr>lw_domain = toHex TAG_domain, lw_I = toHex TAG_id, lw_L = 150, lw_B = 0,
     lw_e = 0, lw_s = key 100\<rparr>"

definition lab_agent :: agent_store where
  "lab_agent = \<lparr>as_secret = key 103, as_witness = Some lab_books,
     as_identityCommitment = Some (toHex TAG_id)\<rparr>"

definition lab_opened :: ledger where
  "lab_opened = pushEvent ((event ''openLine''
       (PText ''Line opened. Commitment published. Limit is not on the ledger.''))
         \<lparr>ev_commitment := Some (key 100)\<rparr>)
     (lab_funded\<lparr>currentIdentity := Some (toHex TAG_id), currentCommitment := Some (key 100),
        lineExpiry := 10000, feeFlat := 0, feeBps := 0, status := SOpen, lineGeneration := 1\<rparr>)"

definition lab2 :: simulator where
  "lab2 = (say TOk [Lit ''Opened line with limit '', Num 150,
     Lit ''. Commitment C0 written to ledger.''] lab1)
       \<lparr>sm_ledger := lab_opened, sm_agent := Some lab_agent\<rparr>"

lemma lab2: "doOpen demo (clock 50) None lab1 = (lab2, None)"
  by (simp add: doOpen_def lab0_def freshSimulator_def lab1_def lab2_def settle_def openLine_def
      lab_opened_def lab_funded_def lab_created_def demo_created_def lab_keys_def demo_eval fadd_def
      lab_agent_def lab_books_def)

definition lab_quote :: quote_preimage where
  "lab_quote = \<lparr>tq_merchantCommitment = toHex TAG_merchantPk, tq_amount = 40,
     tq_invoiceId = key 20, tq_expiry = 10000, tq_nonce = key 100, tq_generation = 1,
     tq_feeFlat = 0, tq_feeBps = 0\<rparr>"

definition lab_quoted :: ledger where
  "lab_quoted = pushEvent ((event ''postQuote'' (PText ''Opaque quote commitment posted.''))
       \<lparr>ev_quote := Some (toHex TAG_quote)\<rparr>)
     (lab_opened\<lparr>quotes := [\<lparr>q_commitment = toHex TAG_quote, q_expiry = 10000,
        q_lineGeneration = 1, q_used = False\<rparr>]\<rparr>)"

definition lab3 :: simulator where
  "lab3 = (say TOk [Lit ''Quote posted by Merchant '', Lit ''A'', Lit '' for '', Num 40,
     Lit '' units.''] lab2)
       \<lparr>sm_ledger := lab_quoted, sm_invoices := [invoiceOf lab_quote (toHex TAG_quote)]\<rparr>"

lemma lab3: "doQuote demo (clock 50) 40 (Some (key 20)) None lab2 = (lab3, None)"
  by (simp add: doQuote_def quoteRequest_def lab0_def freshSimulator_def lab1_def lab2_def lab3_def
      settle_def postQuote_def lab_quoted_def lab_opened_def lab_funded_def lab_created_def
      demo_created_def lab_keys_def demo_eval merchantSk_def merchantLetter_def lab_quote_def
      fee_policy_ok_def say_def)

lemma asBytes32_Raw [simp]: "asBytes32 (Raw bs) = Inr bs"
  by (simp add: asBytes32_def)

text \<open>The agent's draw of this invoice is accepted.\<close>

lemma lab_draw:
  "is_ok (draw demo (clock 50) lab_quoted
     (drawRequest (key 103) lab_agent (invoiceOf lab_quote (toHex TAG_quote))) None)"
  by (simp add: draw_def drawAgent_def drawQuote_def drawPrice_def drawSettle_def drawRequest_def
      invoiceOf_def lab_quoted_def lab_opened_def lab_funded_def lab_created_def demo_created_def
      demo_eval lab_quote_def fee_policy_ok_def lab_agent_def lab_books_def fadd_def fsub_def
      requiredDrawFee_def lockedReserve_def)

end
