(* ===== verification/Lab_Properties.thy ===== *)
theory Lab_Properties
  imports Lab_Demo
begin

text \<open>
  What the lab guarantees about the ledger it shows: its buttons only ever run circuits, its private
  books stay in step with the public ledger, and its attacks are rehearsals that leave the ledger
  alone. And what it no longer does: its deadlines are absolute and lie in the past of every clock.
\<close>

section \<open>The ledger's history\<close>








section \<open>Private and public books\<close>

text \<open>
  A claim in the store is in the ledger with the same terms, and its opening is the store's; the
  agent's books open the public commitment; an invoice in the store is a quote of the ledger.
\<close>

definition backed :: "runtime \<Rightarrow> ledger \<Rightarrow> draw_note \<Rightarrow> bool" where
  "backed rt l n \<longleftrightarrow>
     (\<exists>r. findNote l (dn_D n) = Some r \<and> n_amount r = tn_amount (dn_preimage n) \<and>
        n_fee r = tn_fee (dn_preimage n) \<and>
        drawNoteCommitment rt (dn_preimage n) (dn_salt n) = Inr (dn_D n))"

definition agentInStep :: "runtime \<Rightarrow> ledger \<Rightarrow> agent_store option \<Rightarrow> bool" where
  "agentInStep rt l a \<longleftrightarrow>
     (case a of None \<Rightarrow> True
      | Some agent \<Rightarrow> (\<exists>w C. as_witness agent = Some w \<and> lineCommitment rt w = Inr C \<and>
          currentCommitment l = Some C \<and> currentIdentity l = Some (lw_I w)))"

definition posted :: "ledger \<Rightarrow> merchant_invoice \<Rightarrow> bool" where
  "posted l i \<longleftrightarrow> mi_Q i \<in> set (map q_commitment (quotes l))"

definition inStep :: "runtime \<Rightarrow> simulator \<Rightarrow> bool" where
  "inStep rt s \<longleftrightarrow> agentInStep rt (sm_ledger s) (sm_agent s) \<and>
     list_all (backed rt (sm_ledger s)) (sm_notes s) \<and> list_all (posted (sm_ledger s)) (sm_invoices s)"

lemma find_update_first:
  "(\<And>x. c (f x) = c x) \<Longrightarrow> find (\<lambda>x. c x = D) (update_first (\<lambda>x. c x = E) f xs) =
     (if D = E then map_option f (find (\<lambda>x. c x = D) xs) else find (\<lambda>x. c x = D) xs)"
  by (induction xs) auto

text \<open>What a circuit that changes only flags of one claim leaves in step.\<close>

definition sameTerms :: "ledger \<Rightarrow> ledger \<Rightarrow> bool" where
  "sameTerms l l' \<longleftrightarrow> currentCommitment l' = currentCommitment l \<and>
     currentIdentity l' = currentIdentity l \<and>
     set (map q_commitment (quotes l)) \<subseteq> set (map q_commitment (quotes l')) \<and>
     (\<forall>D r. findNote l D = Some r \<longrightarrow>
        (\<exists>r'. findNote l' D = Some r' \<and> n_amount r' = n_amount r \<and> n_fee r' = n_fee r))"

lemma backed_later: "sameTerms l l' \<Longrightarrow> backed rt l n \<Longrightarrow> backed rt l' n"
  unfolding backed_def sameTerms_def by metis

lemma posted_later: "sameTerms l l' \<Longrightarrow> posted l i \<Longrightarrow> posted l' i"
  unfolding posted_def sameTerms_def by blast

lemma inStep_terms:
  "inStep rt s \<Longrightarrow> sameTerms (sm_ledger s) l \<Longrightarrow> inStep rt (s\<lparr>sm_ledger := l\<rparr>)"
  using backed_later posted_later
  by (auto simp: inStep_def agentInStep_def list_all_iff sameTerms_def split: option.splits)

lemma inStep_pending: "inStep rt (s\<lparr>sm_ledger := l, sm_pendingRepay := p\<rparr>) = inStep rt (s\<lparr>sm_ledger := l\<rparr>)"
  by (simp add: inStep_def)

lemma sameTerms_frame:
  assumes "currentCommitment l' = currentCommitment l" and "currentIdentity l' = currentIdentity l"
    and "map q_commitment (quotes l') = map q_commitment (quotes l)" and "drawNotes l' = drawNotes l"
  shows "sameTerms l l'"
proof -
  have "set (map q_commitment (quotes l')) = set (map q_commitment (quotes l))" by (simp only: assms(3))
  then show ?thesis using assms(1,2,4) by (simp add: sameTerms_def findNote_def)
qed

lemma inStep_frame:
  assumes "inStep rt s" and "currentCommitment l = currentCommitment (sm_ledger s)"
    and "currentIdentity l = currentIdentity (sm_ledger s)" and "quotes l = quotes (sm_ledger s)"
    and "drawNotes l = drawNotes (sm_ledger s)"
  shows "inStep rt (s\<lparr>sm_ledger := l\<rparr>)"
  using assms by (intro inStep_terms sameTerms_frame) simp_all

lemma backed_frame: "drawNotes l' = drawNotes l \<Longrightarrow> backed rt l' = backed rt l"
  by (simp add: fun_eq_iff backed_def findNote_def)

lemma posted_frame: "map q_commitment (quotes l') = map q_commitment (quotes l) \<Longrightarrow> posted l' = posted l"
  by (simp only: fun_eq_iff posted_def simp_thms)

lemma sameTerms_setNote:
  assumes "\<And>n. n_commitment (f n) = n_commitment n" and "\<And>n. n_amount (f n) = n_amount n"
    and "\<And>n. n_fee (f n) = n_fee n" and "drawNotes l' = drawNotes (setNote D f l)"
    and "currentCommitment l' = currentCommitment l" and "currentIdentity l' = currentIdentity l"
    and "quotes l' = quotes l"
  shows "sameTerms l l'"
  using assms by (auto simp: sameTerms_def findNote_def setNote_def find_update_first)

lemma sameTerms_redeem: "redeemDraw rt e l i w = Inr (l', N) \<Longrightarrow> sameTerms l l'"
  by (drule redeemDraw_ok, elim exE conjE)
    (rule sameTerms_setNote [where f = "n_redeemed_update (\<lambda>_. True)"], simp_all)

lemma sameTerms_expire:
  assumes "xi_action i = None" and "cancelOrExpireNote rt e l i = Inr (l', w, a)"
  shows "sameTerms l l'"
proof -
  from cancelOrExpireNote_ok [OF assms(2)] assms(1) obtain live cost ev l1 where
    "cancelExpired e l live 0 cost = Inr l1" "l' = pushEvent ev l1" by auto
  then show ?thesis
    by (auto dest!: cancelExpired_ok
        intro!: sameTerms_setNote [where f = "n_cancelled_update (\<lambda>_. True)"])
qed

lemma sameTerms_quote:
  assumes "postQuote rt e l i w = Inr (l', q, Q)"
  shows "sameTerms l l'" "posted l' (invoiceOf q Q)"
  using assms by (auto elim!: postQuote_ok simp: sameTerms_def findNote_def posted_def invoiceOf_def)

lemma sameTerms_draw:
  assumes "draw rt e l (drawRequest sk agent i) None = Inr (l', agent', n)"
  shows "agentInStep rt l' (Some agent')" "backed rt l' n"
    "list_all (backed rt l) ns \<Longrightarrow> list_all (backed rt l') ns"
    "list_all (posted l) is \<Longrightarrow> list_all (posted l') is"
proof -
  from assms obtain a f cost nextB where
    agent: "drawAgent rt l (drawRequest sk agent i) None (env_clock e) =
      Inr (da_secret a, da_books a, da_I a)"
    and settled: "drawSettle rt e l (drawRequest sk agent i) a f nextB = Inr (l', agent', n)"
    by (rule draw_ok)
  from settled obtain ev N nonce salt D s C2 preimage nextW where
    pre: "preimage = \<lparr>tn_domain = contractDomain l, tn_lineGeneration = lineGeneration l,
       tn_identity = da_I a, tn_quoteCommit = da_Q a, tn_merchantPk = da_merchantPk a,
       tn_amount = da_amount a, tn_fee = f, tn_noteNonce = nonce,
       tn_expiry = q_expiry (da_live a)\<rparr>"
    and D: "drawNoteCommitment rt preimage salt = Inr D"
    and fresh: "\<forall>n \<in> set (drawNotes l). n_commitment n \<noteq> D"
    and W: "nextW = \<lparr>lw_domain = contractDomain l, lw_I = da_I a, lw_L = lw_L (da_books a),
       lw_B = nextB, lw_e = fadd (lw_e (da_books a)) 1, lw_s = s\<rparr>"
    and C2: "lineCommitment rt nextW = Inr C2" "as_witness agent' = Some nextW"
    and n: "n = \<lparr>dn_D = D, dn_preimage = preimage, dn_salt = salt\<rparr>"
    and l': "l' = pushEvent ev (l\<lparr>
       quotes := update_first (\<lambda>q. q_commitment q = da_Q a) (q_used_update (\<lambda>_. True)) (quotes l),
       currentCommitment := Some C2, nullifiers := nullifiers l @ [N],
       encumberedReserve := fadd (encumberedReserve l) (da_amount a),
       pendingFeeReserve := fadd (pendingFeeReserve l) f,
       drawNotes := drawNotes l @ [\<lparr>n_commitment = D, n_amount = da_amount a, n_fee = f,
         n_redeemed = False, n_cancelled = False, n_expiry = q_expiry (da_live a),
         n_lineGeneration = lineGeneration l, n_compensationAllocated = False,
         n_refundCommitment = toHex zeros32, n_cashRefundOwed = False,
         n_refundAcknowledged = False, n_refundPaymentNullifier = toHex zeros32\<rparr>]\<rparr>)"
    by (rule drawSettle_ok)
  have "currentIdentity l = Some (da_I a)" using agent by (auto elim: drawAgent_ok)
  with C2 W show "agentInStep rt l' (Some agent')" by (simp add: agentInStep_def l')
  have "find (\<lambda>n. n_commitment n = D) (drawNotes l) = None" using fresh by (auto simp: find_None_iff)
  then show "backed rt l' n"
    using D by (simp add: backed_def findNote_def n l' find_append_fresh pre)
  show "list_all (backed rt l') ns" if "list_all (backed rt l) ns"
    using that
    by (auto simp: list_all_iff backed_def findNote_def l' intro: find_Some_append dest!: bspec)
  show "list_all (posted l') is" if "list_all (posted l) is"
    using that posted_frame [of l' l] by (simp add: l' map_quotes_used)
qed

lemma inStep_draw:
  assumes "inStep rt s" and "draw rt e (sm_ledger s) (drawRequest sk agent i) None = Inr (l, agent', n)"
  shows "inStep rt (s\<lparr>sm_ledger := l, sm_agent := Some agent', sm_notes := sm_notes s @ [n],
     sm_invoices := map (\<lambda>i. if mi_Q i = Q then i\<lparr>mi_used := True\<rparr> else i) (sm_invoices s)\<rparr>)"
proof -
  have "posted l (if mi_Q i = Q then i\<lparr>mi_used := True\<rparr> else i) = posted l i" for i
    by (simp add: posted_def)
  then show ?thesis
    using assms(1) sameTerms_draw [OF assms(2)] by (simp add: inStep_def list.pred_map comp_def)
qed

lemma inStep_open:
  assumes "inStep rt s" and "openLine rt e (sm_ledger s) i w = Inr (l, agent)"
  shows "inStep rt (s\<lparr>sm_ledger := l, sm_agent := Some agent\<rparr>)"
proof -
  from assms(2) have "agentInStep rt l (Some agent)" "drawNotes l = drawNotes (sm_ledger s)"
    "quotes l = quotes (sm_ledger s)"
    by (auto elim!: openLine_ok simp: agentInStep_def)
  with assms(1) show ?thesis
    using backed_frame [of l "sm_ledger s" rt] posted_frame [of l "sm_ledger s"] by (simp add: inStep_def)
qed

lemma inStep_repay:
  assumes "inStep rt s" and "sm_agent s = Some agent"
    and "acknowledgeRepayment rt e (sm_ledger s) (repayRequest sk agent r) None = Inr (l, v, nxt)"
  shows "inStep rt (s\<lparr>sm_ledger := l, sm_agent := nxt, sm_pendingRepay := p, sm_lastAcked := a\<rparr>)"
proof -
  have nxt: "nxt = Some (agent\<lparr>as_witness := Some v, as_identityCommitment := Some (lw_I v)\<rparr>)"
    using assms(3) by (auto simp: acknowledgeRepayment_def outcome_unfold repayRequest_def)
  from acknowledgeRepayment_ok [OF assms(3)] obtain C2 ev ns where
    "lineCommitment rt v = Inr C2" "currentIdentity (sm_ledger s) = Some (lw_I v)"
    "l = pushEvent ev ((sm_ledger s)\<lparr>currentCommitment := Some C2, nullifiers := ns\<rparr>)"
    by auto
  then show ?thesis
    using assms(1) nxt backed_frame [of l "sm_ledger s" rt] posted_frame [of l "sm_ledger s"]
    by (simp add: inStep_def agentInStep_def)
qed

interpretation sync: lab_relation rt "\<lambda>_. True" "\<lambda>s t. inStep rt s \<longrightarrow> inStep rt t" for rt
proof (unfold_locales, goal_cases)
  case (6 e k l s f)
  then show ?case by (simp add: inStep_def freshSimulator_def agentInStep_def)
next
  case (7 s a l)
  then show ?case by (auto elim!: fundReserve_ok intro!: inStep_frame)
next
  case (8 s a l)
  then show ?case by (auto elim!: withdrawUnencumberedReserve_ok intro!: inStep_frame)
next
  case (9 s pk l)
  then show ?case by (auto elim!: registerMerchant_ok intro!: inStep_frame)
next
  case (10 e oi s l agent) then show ?case by (simp add: inStep_open)
next
  case (11 e s sk a qid l q Q)
  then show ?case
    using sameTerms_quote [OF 11(2)] inStep_terms [of rt s l]
    by (auto simp: inStep_def)
next
  case (12 e s agent sk invoice l agent' n Q) then show ?case by (simp add: inStep_draw)
next
  case (13 e s sk n l N p) then show ?case by (auto simp: inStep_pending intro: inStep_terms sameTerms_redeem)
next
  case (14 e ci s l w ra) then show ?case by (auto intro: inStep_terms sameTerms_expire)
next
  case (15 e s agent sk r l v nxt p a) then show ?case by (simp add: inStep_repay)
next
  case (16 s st l)
  then show ?case by (auto dest!: setStatus_ok intro!: inStep_frame)
qed (auto simp: inStep_def)

text \<open>The stores a session of the lab passes through, with a condition on the environments used.\<close>

inductive lab_reach :: "runtime \<Rightarrow> (env \<Rightarrow> bool) \<Rightarrow> simulator \<Rightarrow> simulator \<Rightarrow> bool"
  for rt ok s where
  lab_start: "lab_reach rt ok s s"
| lab_step: "lab_reach rt ok s t \<Longrightarrow> (\<And>k. ok (es k)) \<Longrightarrow> lab_reach rt ok s (fst (lab rt es op t))"

lemma lab_reach_keeps:
  assumes "lab_reach rt ok s t" and "P s"
    and "\<And>es op u. (\<And>k. ok (es k)) \<Longrightarrow> P u \<Longrightarrow> P (fst (lab rt es op u))"
  shows "P t"
  using assms by (induction rule: lab_reach.induct) auto

text \<open>
  Throughout a session the store's private data agrees with the public ledger: the agent's books
  open the published commitment and belong to the published identity, every claim the store holds is
  on the ledger with the amount and fee it was issued for and the store knows its opening, and every
  invoice is a posted quote.
\<close>
theorem lab_books_in_step:
  assumes "useSimulator rt e = Inr s" and "lab_reach rt (\<lambda>_. True) s t"
  shows "(\<forall>a. sm_agent t = Some a \<longrightarrow>
      (\<exists>w C. as_witness a = Some w \<and> lineCommitment rt w = Inr C \<and>
         currentCommitment (sm_ledger t) = Some C \<and> currentIdentity (sm_ledger t) = Some (lw_I w))) \<and>
    (\<forall>n \<in> set (sm_notes t). \<exists>r. findNote (sm_ledger t) (dn_D n) = Some r \<and>
       n_amount r = tn_amount (dn_preimage n) \<and> n_fee r = tn_fee (dn_preimage n) \<and>
       drawNoteCommitment rt (dn_preimage n) (dn_salt n) = Inr (dn_D n)) \<and>
    (\<forall>i \<in> set (sm_invoices t). \<exists>q \<in> set (quotes (sm_ledger t)). q_commitment q = mi_Q i)"
proof -
  have "inStep rt s"
    using assms(1) by (auto simp: useSimulator_def bindS_Inr_iff inStep_def freshSimulator_def agentInStep_def)
  then have "inStep rt t"
    by (rule lab_reach_keeps [OF assms(2)]) (use sync.lab_moves in blast)
  then have "agentInStep rt (sm_ledger t) (sm_agent t)"
    "\<forall>n \<in> set (sm_notes t). backed rt (sm_ledger t) n"
    "\<forall>i \<in> set (sm_invoices t). posted (sm_ledger t) i"
    by (simp_all add: inStep_def list_all_iff)
  then show ?thesis by (force simp: agentInStep_def backed_def posted_def)
qed

lemma lab_books_in_step_witness:
  "useSimulator demo (clock 0) = Inr lab0 \<and> lab_reach demo (\<lambda>_. True) lab0 lab3 \<and>
   (\<exists>w C. as_witness lab_agent = Some w \<and> lineCommitment demo w = Inr C \<and>
      currentCommitment (sm_ledger lab3) = Some C)"
proof -
  have "lab_reach demo (\<lambda>_. True) lab0 lab1"
    using lab_step [OF lab_start, of "\<lambda>_. True" "\<lambda>_. clock 50" demo lab0 "LFundReserve None"] by (simp add: lab1)
  from lab_step [OF this, of "\<lambda>_. clock 50" "LOpen None"] have "lab_reach demo (\<lambda>_. True) lab0 lab2"
    by (simp add: lab2)
  from lab_step [OF this, of "\<lambda>_. clock 50" "LQuote 40 (Some (key 20)) None"]
  have reach: "lab_reach demo (\<lambda>_. True) lab0 lab3" by (simp add: lab3)
  have "sm_agent lab3 = Some lab_agent" by (simp add: lab3_def lab2_def)
  with lab_books_in_step [OF lab0 reach] lab0 reach show ?thesis by blast
qed

section \<open>Attacks are rehearsals\<close>

definition talks :: "simulator \<Rightarrow> simulator \<Rightarrow> bool" where
  "talks s t \<longleftrightarrow> (\<exists>f. t = s\<lparr>sm_flash := f\<rparr>)"

lemma talks_simps [simp]: "talks s s" "talks s (say t ps s)" "talks s (fst (attempt m blocked s))"
proof -
  show 1: "talks s s" unfolding talks_def by (rule exI [of _ "sm_flash s"]) simp
  show 2: "talks s (say t ps s)" for t ps by (auto simp: talks_def say_def)
  show "talks s (fst (attempt m blocked s))"
    using 1 2 by (auto simp: attempt_def settle_def split: sum.split stop.split)
qed

text \<open>
  In a lab that has an open line, an invoice and a claim, an attack changes nothing but the
  message: the ledger an attack would have produced is never stored.
\<close>
theorem attacks_only_talk:
  assumes "op \<in> {LAttackReplay, LAttackFakeRepay, LAttackOverLimit, LAttackStale, LAttackWrongAgent,
      LAttackWrongMerchantRedeem, LAttackDoubleRedeem, LAttackWithdrawEncumbered,
      LAttackCrossInstanceReplay}"
    and "sm_agent s \<noteq> None" and "sm_notes s \<noteq> []"
  shows "\<exists>f. fst (lab rt es op s) = s\<lparr>sm_flash := f\<rparr>"
proof -
  obtain a n ns where "sm_agent s = Some a" "sm_notes s = n # ns"
    using assms(2,3) by (cases "sm_notes s") auto
  then have "talks s (fst (lab rt es op s))"
    using assms(1)
    by (auto simp: attackReplay_def attackDoubleRedeem_def attackFakeRepay_def attackOverLimit_def
        attackStale_def attackWrongAgent_def attackWrongMerchantRedeem_def
        attackWithdrawEncumbered_def attackCrossInstanceReplay_def andThen_def nothing_def
        withLine_def split: option.splits list.splits sum.splits stop.splits)
  then show ?thesis by (simp add: talks_def)
qed

lemma attacks_only_talk_witness:
  "\<exists>f. fst (lab demo (\<lambda>_. clock 60) LAttackStale (lab3\<lparr>sm_notes := [demo_note]\<rparr>)) =
     (lab3\<lparr>sm_notes := [demo_note]\<rparr>)\<lparr>sm_flash := f\<rparr>"
  by (rule attacks_only_talk) (simp_all add: lab3_def lab2_def)

text \<open>
  The draw of an agent whose store is passed along ignores the key of the caller, so that
  \<open>attackWrongAgent\<close> is the honest draw.
\<close>

lemma draw_ignores_callerSk:
  "draw rt e l (drawRequest sk agent i) w = draw rt e l (drawRequest sk' agent i) w"
  by (simp add: draw_def drawAgent_def drawQuote_def drawPrice_def drawSettle_def drawRequest_def
      cong: if_cong option.case_cong)

text \<open>
  The wrong-agent attack is the honest draw of the first invoice: it hands the circuit the
  agent's own secret, which \<open>draw\<close> prefers to the caller's key, so that it reports success whenever
  the agent itself could draw.
\<close>
theorem wrong_agent_attack_is_honest:
  assumes "sm_agent s = Some agent" and "sm_invoices s = i # is"
  shows "attackWrongAgent rt es s =
    (case draw rt (es 2) (sm_ledger s) (drawRequest (lk_agentSk (sm_keys s)) agent i) None of
       Inr _ \<Rightarrow> (say TFail [Lit ''Attack succeeded unexpectedly!''] s, None)
     | Inl (Fail _ _) \<Rightarrow> (say TOk [Lit ''Attack blocked: Caller does not own agent private key.''] s, None)
     | Inl (Throw x) \<Rightarrow> (s, Some x))"
  using assms
    draw_ignores_callerSk [of rt "es 2" "sm_ledger s" "lk_issuerSk (sm_keys s)" agent i None
      "lk_agentSk (sm_keys s)"]
  by (simp add: attackWrongAgent_def andThen_def nothing_def attempt_def settle_def
      split: sum.split stop.split)

lemma wrong_agent_attack_is_honest_witness:
  "attackWrongAgent demo (\<lambda>_. clock 50) lab3 =
     (say TFail [Lit ''Attack succeeded unexpectedly!''] lab3, None)"
proof -
  have "sm_agent lab3 = Some lab_agent" "sm_invoices lab3 = [invoiceOf lab_quote (toHex TAG_quote)]"
    "sm_ledger lab3 = lab_quoted" "lk_agentSk (sm_keys lab3) = key 103"
    by (simp_all add: lab3_def lab2_def lab1_def lab0_def freshSimulator_def lab_keys_def)
  then show ?thesis
    using wrong_agent_attack_is_honest [of lab3 lab_agent "invoiceOf lab_quote (toHex TAG_quote)" "[]" demo
        "\<lambda>_. clock 50"] lab_draw
    by (auto simp: is_ok_iff)
qed

text \<open>
  The lab's status button never closes a line: it passes no closing books, which the circuit
  demands, so the ledger stays what it was whatever the state of the line.
\<close>
theorem lab_never_closes: "sm_ledger (fst (doStatus rt SClosed s)) = sm_ledger s"
  by (auto simp: doStatus_def settle_def rejectedBecause_def dest: setStatus_ok
      split: sum.split stop.split)

section \<open>Deadlines that have passed\<close>

text \<open>
  The store asks for lines, quotes and receipts that expire at Unix second 10000. Once the clock is
  past it, no line opens, no quote is posted and nothing can be drawn.
\<close>

definition dark :: "simulator \<Rightarrow> bool" where
  "dark s \<longleftrightarrow> sm_agent s = None \<and> sm_invoices s = [] \<and> sm_notes s = [] \<and> status (sm_ledger s) = SNone"

lemma dark_ledger: "dark s \<Longrightarrow> status l = status (sm_ledger s) \<Longrightarrow> dark (s\<lparr>sm_ledger := l\<rparr>)"
  by (simp add: dark_def)

interpretation unlit: lab_relation rt "\<lambda>e. 10000 \<le> env_clock e" "\<lambda>s t. dark s \<longrightarrow> dark t" for rt
proof (unfold_locales, goal_cases)
  case (6 e k l s f)
  then show ?case by (auto simp: dark_def freshSimulator_def labLedger_def createLedger_def bindS_Inr_iff)
next
  case (7 s a l) then show ?case by (auto elim!: fundReserve_ok intro!: dark_ledger)
next
  case (8 s a l) then show ?case by (auto elim!: withdrawUnencumberedReserve_ok intro!: dark_ledger)
next
  case (9 s pk l) then show ?case by (auto elim!: registerMerchant_ok intro!: dark_ledger)
next
  case (10 e oi s l agent) then show ?case by (auto elim!: openLine_ok)
next
  case (11 e s sk a qid l q Q) then show ?case by (auto elim!: postQuote_ok simp: quoteRequest_def)
next
  case (12 e s agent sk invoice l agent' n Q) then show ?case by (simp add: dark_def)
next
  case (13 e s sk n l N p)
  then show ?case by (auto dest!: redeemDraw_ok simp: dark_def)
next
  case (14 e ci s l w ra)
  then show ?case
    by (auto dest!: cancelOrExpireNote_ok cancelExpired_ok simp: dark_def)
next
  case (15 e s agent sk r l v nxt p a) then show ?case by (simp add: dark_def)
next
  case (16 s st l) then show ?case by (auto dest!: setStatus_ok simp: dark_def)
qed (auto simp: dark_def)

text \<open>
  In a session whose clock reads 10000 or later - every wall clock since 1970-01-01 02:46:40 -
  the lab never has an agent, an invoice or a claim, and its ledger never has a line: opening a line
  or posting a quote is always refused, whatever was clicked before.
\<close>
theorem lab_deadlines_have_passed:
  assumes "useSimulator rt e = Inr s" and "lab_reach rt (\<lambda>e. 10000 \<le> env_clock e) s t"
  shows "sm_agent t = None \<and> sm_invoices t = [] \<and> sm_notes t = [] \<and> status (sm_ledger t) = SNone"
proof -
  have "dark s"
    using assms(1)
    by (auto simp: useSimulator_def bindS_Inr_iff dark_def freshSimulator_def labLedger_def createLedger_def)
  then have "dark t"
    by (rule lab_reach_keeps [OF assms(2)]) (use unlit.lab_moves in blast)
  then show ?thesis by (simp add: dark_def)
qed

lemma lab_deadlines_have_passed_witness:
  "sm_agent (fst (lab demo (\<lambda>_. clock 20000) LSeedActive lab0)) = None"
proof -
  have "lab_reach demo (\<lambda>e. 10000 \<le> env_clock e) lab0 (fst (lab demo (\<lambda>_. clock 20000) LSeedActive lab0))"
    by (intro lab_step lab_start) simp
  with lab_deadlines_have_passed [OF lab0] show ?thesis by blast
qed

text \<open>A freshly keyed lab: its issuer and its first merchant are the ones of its ledger.\<close>

lemma fresh_lab:
  assumes "\<And>i. length (env_random e i) = 32"
  obtains k l m where "generateLabIdentities rt e = Inr k" "labLedger rt e k = Inr l"
    "issuerPublicKey rt (lk_issuerSk k) = Inr (issuerPubKey l)"
    "merchantPublicKey rt (lk_merchantASk k) = Inr m" "registeredMerchants l m = Some True"
    "status l = SNone" "totalReserve l = 0" "lockedReserve l = 0"
proof -
  let ?sk = "\<lambda>i. toHex (env_random e i)" and ?pk = "\<lambda>i. encodeMerchantPublicKey rt (env_random e i)"
  define k where "k = \<lparr>lk_issuerSk = ?sk 0, lk_merchantASk = ?sk 1, lk_merchantBSk = ?sk 2,
    lk_agentSk = ?sk 3, lk_merchantAPk = toHex (?pk 1), lk_merchantBPk = toHex (?pk 2),
    lk_instanceNonce = ?sk 4\<rparr>"
  have "env_random e i \<noteq> []" for i using assms [of i] by auto
  then obtain l where l: "labLedger rt e k = Inr l"
    "issuerPubKey l = toHex (encodeIssuerPublicKey rt (env_random e 0))"
    "registeredMerchants l = [toHex (?pk 1) \<mapsto> True]" "status l = SNone" "totalReserve l = 0"
    "lockedReserve l = 0"
    by (simp add: labLedger_def createLedger_def key_param_def truthy_def k_def assms
        lockedReserve_def fadd_def)
  show thesis
    by (rule that [of k l "toHex (?pk 1)"])
      (use l in \<open>simp_all add: generateLabIdentities_def k_def issuerPublicKey_def
        merchantPublicKey_def assms\<close>)
qed

lemma open_expired:
  assumes "10000 \<le> env_clock e" "env_clock e \<le> max_safe"
    and "issuerPublicKey rt (lk_issuerSk (sm_keys s)) = Inr (issuerPubKey (sm_ledger s))"
  shows "doOpen rt e (Some 150) s =
    (rejectedBecause ''Open line rejected: '' ''expiry is not in the future'' s, None)"
  using assms
  by (simp add: doOpen_def openLine_def isIssuer_def getCaller_def executionUnixSeconds_def
      assertSafeUint_iff isSafeInteger_def max_safe_def settle_def Let_def)

lemma quote_unopened:
  assumes "merchantPublicKey rt (merchantSk MA s) = Inr m" "sm_activeMerchant s = MA"
    and "registeredMerchants (sm_ledger s) m = Some True" "status (sm_ledger s) = SNone"
  shows "doQuote rt e 40 (Some i) None s =
    (rejectedBecause ''Quote rejected: '' ''line status does not allow this circuit'' s, None)"
  using assms by (simp add: doQuote_def quoteRequest_def postQuote_def settle_def Let_def)

lemma fund_accepted:
  assumes "issuerPublicKey rt (lk_issuerSk (sm_keys s)) = Inr (issuerPubKey (sm_ledger s))"
    and "totalReserve (sm_ledger s) = 0"
  obtains t l ev where "doFundReserve rt (Some 500) s = (t, None)" "sm_keys t = sm_keys s"
    "sm_ledger t = pushEvent ev ((sm_ledger s)\<lparr>totalReserve := 500\<rparr>)"
    "sm_invoices t = sm_invoices s" "sm_notes t = sm_notes s"
    "sm_activeMerchant t = sm_activeMerchant s"
  using assms
  by (simp add: doFundReserve_def fundReserve_def isIssuer_def getCaller_def settle_def Let_def
      fadd_def assertSafeUint_iff max_safe_def uint64_max_def)

text \<open>Seeding a lab whose deadlines have passed leaves a funded ledger without a line.\<close>

lemma seed_expired:
  assumes "\<And>k. 10000 \<le> env_clock (es k)" and "\<And>k. env_clock (es k) \<le> max_safe"
    and "\<And>k i. length (env_random (es k) i) = 32"
  obtains t where "seedActiveDrawNote rt es s = (t, None)" "sm_notes t = []"
    "issuerPublicKey rt (lk_issuerSk (sm_keys t)) = Inr (issuerPubKey (sm_ledger t))"
    "totalReserve (sm_ledger t) = 500" "lockedReserve (sm_ledger t) = 0"
proof -
  from fresh_lab [of "es 0" rt] assms(3) obtain k l m where
    kl: "generateLabIdentities rt (es 0) = Inr k" "labLedger rt (es 0) k = Inr l"
    and I: "issuerPublicKey rt (lk_issuerSk k) = Inr (issuerPubKey l)"
    and M: "merchantPublicKey rt (lk_merchantASk k) = Inr m" "registeredMerchants l m = Some True"
    and L: "status l = SNone" "totalReserve l = 0" "lockedReserve l = 0"
    by metis
  let ?f = "Some \<lparr>fl_tone = TInfo,
    fl_text = [Lit ''Simulator reset to fresh genesis state with ephemeral keys.'']\<rparr>"
  have reset: "resetSimulator rt (es 0) s = (freshSimulator k l ?f, None)"
    by (simp add: resetSimulator_def kl settle_def)
  have "issuerPublicKey rt (lk_issuerSk (sm_keys (freshSimulator k l ?f))) =
      Inr (issuerPubKey (sm_ledger (freshSimulator k l ?f)))"
    "totalReserve (sm_ledger (freshSimulator k l ?f)) = 0"
    by (simp_all add: freshSimulator_def I L)
  then obtain t ev where fund: "doFundReserve rt (Some 500) (freshSimulator k l ?f) = (t, None)"
    and t: "sm_keys t = k" "sm_ledger t = pushEvent ev (l\<lparr>totalReserve := 500\<rparr>)"
      "sm_invoices t = []" "sm_notes t = []" "sm_activeMerchant t = MA"
    by (rule fund_accepted) (simp add: freshSimulator_def)
  let ?u = "rejectedBecause ''Open line rejected: '' ''expiry is not in the future'' t"
  have opened: "doOpen rt (es 1) (Some 150) t = (?u, None)"
    by (rule open_expired) (simp_all add: assms t I)
  let ?v = "rejectedBecause ''Quote rejected: '' ''line status does not allow this circuit'' ?u"
  have quoted: "doQuote rt (es 2) 40 (Some i) None ?u = (?v, None)" for i
    by (rule quote_unopened [of _ _ m]) (simp_all add: rejectedBecause_def t M L merchantSk_def)
  let ?w = "say TInfo [Lit ''Seeded state with active 40-unit draw note.''] ?v"
  have kept: "sm_invoices ?v = []" "sm_notes ?w = []" "sm_keys ?w = k" "sm_ledger ?w = sm_ledger t"
    by (simp_all add: rejectedBecause_def t)
  have seeded: "seedActiveDrawNote rt es s = (?w, None)"
    unfolding seedActiveDrawNote_def andThen_def reset fund prod.case option.case opened quoted
    by (simp add: kept nothing_def)
  have "lockedReserve (sm_ledger ?w) = 0"
    unfolding kept t using L(3) by (simp add: lockedReserve_def)
  then show thesis by (intro that [OF seeded]) (simp_all add: rejectedBecause_def t I)
qed

text \<open>
  Consequently the withdrawal attack reports that it succeeded. On a lab without claims it first
  seeds a state with an encumbered claim; the seeding resets and funds the ledger and then fails
  silently, so that the whole reserve is free and the circuit lets the issuer withdraw it.
\<close>
theorem withdraw_attack_reports_success:
  assumes "sm_notes s = []" and "\<And>k. 10000 \<le> env_clock (es k)" and "\<And>k. env_clock (es k) \<le> max_safe"
    and "\<And>k i. length (env_random (es k) i) = 32"
  shows "snd (attackWithdrawEncumbered rt es s) = None \<and>
    sm_flash (fst (attackWithdrawEncumbered rt es s)) =
      Some \<lparr>fl_tone = TFail, fl_text = [Lit ''Attack succeeded unexpectedly!'']\<rparr> \<and>
    sm_notes (fst (attackWithdrawEncumbered rt es s)) = []"
proof -
  obtain t where seed: "seedActiveDrawNote rt es s = (t, None)" and t: "sm_notes t = []"
    "issuerPublicKey rt (lk_issuerSk (sm_keys t)) = Inr (issuerPubKey (sm_ledger t))"
    "totalReserve (sm_ledger t) = 500" "lockedReserve (sm_ledger t) = 0"
    using seed_expired [of es rt s] assms(2-4) by metis
  have "is_ok (withdrawUnencumberedReserve rt (sm_ledger t) None (Some (lk_issuerSk (sm_keys t))) 500)"
    by (simp add: withdrawUnencumberedReserve_def isIssuer_def getCaller_def t Let_def fsub_def
        assertSafeUint_iff max_safe_def)
  then show ?thesis
    using assms(1) t
    by (auto simp: attackWithdrawEncumbered_def andThen_def seed attempt_def settle_def is_ok_iff)
qed

lemma withdraw_attack_reports_success_witness:
  "sm_flash (fst (attackWithdrawEncumbered demo (\<lambda>_. clock 20000) lab0)) =
     Some \<lparr>fl_tone = TFail, fl_text = [Lit ''Attack succeeded unexpectedly!'']\<rparr>"
  using withdraw_attack_reports_success [of lab0 "\<lambda>_. clock 20000" demo]
  by (simp add: lab0_def freshSimulator_def max_safe_def)

end
