(* ===== verification/Compact_Harness.thy ===== *)
theory Compact_Harness
  imports Ledger
begin

text \<open>
  \<open>src/lib/line/compact-harness.ts\<close>: the private state the generated contract reads its witnesses
  from, the calls of its circuits and the session a caller threads through them. The generated
  contract itself (\<open>contracts/managed/line\<close>) is the output of the Compact compiler and is a parameter:
  its initial state, its circuits and its ledger reader.
\<close>

record private_state =
  ps_callerSecret :: bytes
  ps_agentSecret :: bytes
  ps_salt :: bytes
  ps_newSalt :: bytes
  ps_invoiceId :: bytes
  ps_quoteNonce :: bytes
  ps_receiptNonce :: bytes
  ps_paymentRef :: bytes
  ps_noteNonce :: bytes
  ps_noteSalt :: bytes
  ps_noteIdentity :: bytes
  ps_noteQuoteCommit :: bytes
  ps_lineLimit :: int
  ps_lineOutstanding :: int
  ps_lineEpoch :: int
  ps_quoteAmount :: int
  ps_drawAmount :: int
  ps_redeemAmount :: int
  ps_repayAmount :: int
  ps_quoteMerchantPk :: bytes

text \<open>\<open>blankPrivate(overrides)\<close> is an update of this record.\<close>

definition blankPrivate :: private_state where
  "blankPrivate =
     \<lparr>ps_callerSecret = zeros32, ps_agentSecret = zeros32, ps_salt = zeros32, ps_newSalt = zeros32,
      ps_invoiceId = zeros32, ps_quoteNonce = zeros32, ps_receiptNonce = zeros32,
      ps_paymentRef = zeros32, ps_noteNonce = zeros32, ps_noteSalt = zeros32,
      ps_noteIdentity = zeros32, ps_noteQuoteCommit = zeros32, ps_lineLimit = 0,
      ps_lineOutstanding = 0, ps_lineEpoch = 0, ps_quoteAmount = 0, ps_drawAmount = 0,
      ps_redeemAmount = 0, ps_repayAmount = 0, ps_quoteMerchantPk = zeros32\<rparr>"

datatype circuit_call =
    CRegisterMerchant bytes
  | CFundReserve int
  | CWithdrawUnencumbered int
  | COpenLine int "int option" "int option"
  | CPostQuote int
  | CDraw bytes int int
  | CRedeemDraw bytes int
  | CCancelOrExpire bytes "int option" "int option"
  | CDisableMerchant bytes
  | CWithdrawFees
  | CAcknowledge int
  | CSetStatus line_status

text \<open>What the generated ledger reader shows of a claim and of the ledger.\<close>

record compact_note =
  cn_amount :: int
  cn_fee :: int
  cn_redeemed :: bool
  cn_cancelled :: bool
  cn_expiry :: int
  cn_lineGeneration :: int
  cn_compensationAllocated :: bool
  cn_refundCommitment :: bytes
  cn_cashRefundOwed :: bool
  cn_refundAcknowledged :: bool
  cn_refundPaymentNullifier :: bytes

record compact_ledger =
  cl_contractDomain :: bytes
  cl_totalReserve :: int
  cl_encumberedReserve :: int
  cl_redeemedReserve :: int
  cl_feeReserve :: int
  cl_pendingFeeReserve :: int
  cl_refundReserve :: int
  cl_reportedRefundReserve :: int
  cl_feeFlat :: int
  cl_feeBps :: int
  cl_lineCommit :: bytes
  cl_lineGeneration :: int
  cl_notes :: "bytes \<rightharpoonup> compact_note"
  cl_nullifiers :: "bytes list"

text \<open>
  The generated contract over its own state type: the constructor, the circuits (\<open>None\<close> when an
  assertion fails or the call throws) and the reader. A circuit call sees the state, the witnesses,
  the block time when the session has a clock, and its name and arguments; absent optional
  arguments are zero.
\<close>

datatype generated_call =
    GRegisterMerchant bytes
  | GFundReserve int
  | GWithdrawUnencumbered int
  | GOpenLine int int int
  | GPostQuote int
  | GDraw bytes int int
  | GRedeemDraw bytes int
  | GCancelOrExpire bytes int int
  | GDisableMerchant bytes
  | GWithdrawFees
  | GAcknowledge int
  | GSetStatus line_status

record 's compact_contract =
  k_initial :: "bytes \<Rightarrow> bytes \<Rightarrow> bytes \<Rightarrow> 's"
  k_circuit :: "'s \<Rightarrow> private_state \<Rightarrow> int option \<Rightarrow> generated_call \<Rightarrow> 's option"
  k_ledger :: "'s \<Rightarrow> compact_ledger"

text \<open>The dispatch of \<open>call\<close>: \<open>?? 0n\<close> for the optional arguments.\<close>

fun dispatch :: "circuit_call \<Rightarrow> generated_call" where
  "dispatch (CRegisterMerchant pk) = GRegisterMerchant pk"
| "dispatch (CFundReserve a) = GFundReserve a"
| "dispatch (CWithdrawUnencumbered a) = GWithdrawUnencumbered a"
| "dispatch (COpenLine e flat bps) = GOpenLine e (nullish flat 0) (nullish bps 0)"
| "dispatch (CPostQuote e) = GPostQuote e"
| "dispatch (CDraw Q e f) = GDraw Q e f"
| "dispatch (CRedeemDraw D e) = GRedeemDraw D e"
| "dispatch (CCancelOrExpire D m e) = GCancelOrExpire D (nullish m 0) (nullish e 0)"
| "dispatch (CDisableMerchant pk) = GDisableMerchant pk"
| "dispatch CWithdrawFees = GWithdrawFees"
| "dispatch (CAcknowledge e) = GAcknowledge e"
| "dispatch (CSetStatus s) = GSetStatus s"

text \<open>The contract object and the clock of a session never change; the state and the witnesses do.\<close>

record 's session =
  ss_state :: 's
  ss_private :: private_state

definition bootWithPk ::
    "'s compact_contract \<Rightarrow> bytes \<Rightarrow> bytes \<Rightarrow> bytes \<Rightarrow> private_state option \<Rightarrow> 's session" where
  "bootWithPk k issuerPk merchantPk nonce ps =
     \<lparr>ss_state = k_initial k issuerPk merchantPk nonce, ss_private = nullish ps blankPrivate\<rparr>"

definition boot ::
    "runtime \<Rightarrow> 's compact_contract \<Rightarrow> bytes \<Rightarrow> bytes \<Rightarrow> bytes \<Rightarrow> private_state option \<Rightarrow> 's session" where
  "boot rt k issuerSk merchantSk nonce ps =
     bootWithPk k (encodeIssuerPublicKey rt issuerSk) (encodeMerchantPublicKey rt merchantSk) nonce
       (Some (nullish ps (blankPrivate\<lparr>ps_callerSecret := issuerSk\<rparr>)))"

definition readLedger :: "'s compact_contract \<Rightarrow> 's session \<Rightarrow> compact_ledger" where
  "readLedger k s = k_ledger k (ss_state s)"

text \<open>
  \<open>call\<close>: the reading of the session's clock is checked outside the \<open>try\<close>; inside it every failure
  of the circuit becomes \<open>ok: false\<close> with the session unchanged. The witness functions return the
  private state they were given, so the next session holds it.
\<close>

definition call ::
    "'s compact_contract \<Rightarrow> int option \<Rightarrow> 's session \<Rightarrow> private_state \<Rightarrow> circuit_call \<Rightarrow> 's session option outcome"
where
  "call k time s ps c =
     (case time of
        Some t \<Rightarrow>
          if \<not> isSafeInteger t \<or> t < 0 then Inl (Throw (Error ''Invalid trusted execution time.''))
          else Inr (map_option (\<lambda>st. \<lparr>ss_state = st, ss_private = ps\<rparr>)
                 (k_circuit k (ss_state s) ps time (dispatch c)))
      | None \<Rightarrow> Inr (map_option (\<lambda>st. \<lparr>ss_state = st, ss_private = ps\<rparr>)
                 (k_circuit k (ss_state s) ps None (dispatch c))))"

end
