(* ===== verification/Checkout.thy ===== *)
theory Checkout
  imports Compact_Harness Records
begin

text \<open>
  The local checkout evaluation, \<open>server/checkout-engine.ts\<close>: an issuer opens a line and funds a
  reserve, an agent buys catalogue services, and each order walks from an intention over an
  authorised claim to a delivery or a compensation, with a checkpoint after every step. Operations
  are functions on the engine's state that return a result or an error together with the state they
  leave behind: an error does not undo what was assigned before it. The promise queue runs one
  operation at a time, so an operation is atomic; what the outside world decides (clock readings,
  random bytes, whether a checkpoint is written, the contract) is a parameter.
\<close>

section \<open>Catalogue and orders\<close>

datatype service = TextAnalysis | CostReport

primrec service_id :: "service \<Rightarrow> string" where
  "service_id TextAnalysis = ''text-analysis''"
| "service_id CostReport = ''cost-report''"

primrec service_merchant :: "service \<Rightarrow> string" where
  "service_merchant TextAnalysis = ''Merchant A''"
| "service_merchant CostReport = ''Merchant B''"

primrec service_price :: "service \<Rightarrow> int" where
  "service_price TextAnalysis = 25"
| "service_price CostReport = 20"

definition CATALOG :: "service list" where
  "CATALOG = [TextAnalysis, CostReport]"

text \<open>\<open>CATALOG.find(item => item.id === value)\<close>\<close>

definition findService :: "jsval \<Rightarrow> service option" where
  "findService v = find (\<lambda>s. v = JStr (js (service_id s))) CATALOG"

datatype phase = Prepared | Quoted | Authorized | Redeemed | Delivered | Declined | Expired | Compensated

datatype order_outcome = OPending | ODelivered | ODeclined | OExpired | OCompensated

datatype service_output =
    Analysis nat nat "(jsstr \<times> nat) list"
  | Estimate nat nat

record order_receipt =
  rc_orderId :: jsstr
  rc_service :: service
  rc_merchant :: string
  rc_amount :: int
  rc_quote :: jsstr
  rc_note :: "jsstr option"
  rc_outcome :: order_outcome
  rc_stages :: "string list"
  rc_message :: "string option"
  rc_output :: "service_output option"

record order_compensation =
  oc_amount :: int
  oc_credit :: int
  oc_salt :: bytes
  oc_commitment :: bytes
  oc_reportedReference :: "jsstr option"

record order =
  od_document :: jsstr
  od_service :: service
  od_receipt :: order_receipt
  od_phase :: phase
  od_invoiceId :: bytes
  od_quoteNonce :: bytes
  od_Q :: bytes
  od_expiry :: int
  od_noteNonce :: bytes
  od_noteSalt :: bytes
  od_D :: "bytes option"
  od_noteExpiry :: "int option"
  od_compensation :: "order_compensation option"

section \<open>State\<close>

text \<open>
  What a checkpoint carries. The two maps are in insertion order, as the source serialises them.
\<close>

record 's books =
  bk_id :: jsstr
  bk_issuerToken :: jsstr
  bk_agentToken :: jsstr
  bk_createdAt :: int
  bk_issuerKey :: bytes
  bk_agentKey :: bytes
  bk_merchantA :: bytes
  bk_merchantB :: bytes
  bk_session :: "'s session"
  bk_limit :: int
  bk_outstanding :: int
  bk_epoch :: int
  bk_salt :: bytes
  bk_opened :: bool
  bk_fundedReserve :: int
  bk_orders :: "(jsstr \<times> order) list"
  bk_repayments :: "(jsstr \<times> int) list"
  bk_deliveries :: int

record 's saved_books = "'s books" +
  sn_version :: int
  sn_deadlineUnits :: string
  sn_settlement :: string

text \<open>
  The running engine: the books, the two flags, whether it has a store and what that holds, and how
  many clock readings, random values and writes it has used.
\<close>

record 's engine = "'s books" +
  eg_failed :: bool
  eg_checkpointing :: bool
  eg_storage :: bool
  eg_disk :: "'s saved_books option"
  eg_reads :: nat
  eg_draws :: nat
  eg_saves :: nat

text \<open>
  The world: successive readings of the trusted clock and of \<open>Date.now()\<close>, random bytes and UUIDs, and
  whether a checkpoint is written; the generated contract; the Unicode tables and the collation
  behind \<open>toLowerCase\<close>, \<open>\p{L}\<close>, \<open>\p{N}\<close> and \<open>localeCompare\<close>.
\<close>

record 's world =
  wd_clock :: "nat \<Rightarrow> int"
  wd_wall :: "nat \<Rightarrow> int"
  wd_random :: "nat \<Rightarrow> bytes"
  wd_uuid :: "nat \<Rightarrow> jsstr"
  wd_save :: "nat \<Rightarrow> bool"
  wd_runtime :: runtime
  wd_contract :: "'s compact_contract"
  wd_words :: "jsstr \<Rightarrow> jsstr list"
  wd_collate :: "jsstr \<Rightarrow> jsstr \<Rightarrow> bool"

section \<open>Operations that can fail half-way\<close>

datatype co_error = CheckoutError int string | Escaped exn

type_synonym ('s, 'a) co = "'s engine \<Rightarrow> (co_error + 'a) \<times> 's engine"

definition ret :: "'a \<Rightarrow> ('s, 'a) co" where
  "ret a e = (Inr a, e)"

definition fail :: "int \<Rightarrow> string \<Rightarrow> ('s, 'a) co" where
  "fail st msg e = (Inl (CheckoutError st msg), e)"

definition bindE :: "('s, 'a) co \<Rightarrow> ('a \<Rightarrow> ('s, 'b) co) \<Rightarrow> ('s, 'b) co" where
  "bindE m f e = (case m e of (Inl x, e') \<Rightarrow> (Inl x, e') | (Inr a, e') \<Rightarrow> f a e')"

definition get :: "('s engine \<Rightarrow> 'a) \<Rightarrow> ('s, 'a) co" where
  "get f e = (Inr (f e), e)"

definition modify :: "('s engine \<Rightarrow> 's engine) \<Rightarrow> ('s, unit) co" where
  "modify f e = (Inr (), f e)"

definition liftE :: "'a outcome \<Rightarrow> ('s, 'a) co" where
  "liftE m e = (case m of Inr a \<Rightarrow> (Inr a, e) | Inl (Throw x) \<Rightarrow> (Inl (Escaped x), e)
     | Inl (Fail c w) \<Rightarrow> (Inl (Escaped (Error w)), e))"

definition demand :: "bool \<Rightarrow> int \<Rightarrow> string \<Rightarrow> ('s, unit) co" where
  "demand b st msg = (if b then ret () else fail st msg)"

section \<open>Inputs\<close>

definition units :: "jsval \<Rightarrow> string \<Rightarrow> ('s, int) co" where
  "units v label =
     (case safe_num v of
        Some n \<Rightarrow> if n < 1 \<or> n > 1000000
          then fail 400 (label @ '' must be an integer from 1 to 1000000 evaluation units.'') else ret n
      | None \<Rightarrow> fail 400 (label @ '' must be an integer from 1 to 1000000 evaluation units.''))"

definition intent_char :: "16 word \<Rightarrow> bool" where
  "intent_char c = (let n = unat c in
     (97 \<le> n \<and> n \<le> 122) \<or> (65 \<le> n \<and> n \<le> 90) \<or> (48 \<le> n \<and> n \<le> 57) \<or> n = 95 \<or> n = 45)"

definition valid_intent :: "jsstr \<Rightarrow> bool" where
  "valid_intent s \<longleftrightarrow> 8 \<le> length s \<and> length s \<le> 80 \<and> list_all intent_char s"

definition requestIntent :: "jsval \<Rightarrow> ('s, jsstr) co" where
  "requestIntent v = (case v of JStr s \<Rightarrow> if valid_intent s then ret s else fail 400 ''A stable request ID is required.''
     | _ \<Rightarrow> fail 400 ''A stable request ID is required.'')"

section \<open>Services\<close>

text \<open>The matches of \<open>/[^.!?]+[.!?]?/g\<close>: maximal runs, each with the mark that ends it.\<close>

definition ends_sentence :: "16 word \<Rightarrow> bool" where
  "ends_sentence c \<longleftrightarrow> c \<in> set (js ''.!?'')"

function sentence_runs :: "jsstr \<Rightarrow> jsstr list" where
  "sentence_runs s =
     (case dropWhile ends_sentence s of
        [] \<Rightarrow> []
      | c # cs \<Rightarrow>
        (let run = takeWhile (\<lambda>c. \<not> ends_sentence c) (c # cs);
             rest = dropWhile (\<lambda>c. \<not> ends_sentence c) (c # cs) in
         (run @ take 1 rest) # sentence_runs (drop 1 rest)))"
  by pat_completeness auto
termination
proof (relation "measure length", goal_cases)
  case (2 s c cs run rest)
  have "length (c # cs) \<le> length s" using 2(1) length_dropWhile_le [of ends_sentence s] by simp
  moreover have "\<not> ends_sentence c" using 2(1) by (metis dropWhile_eq_Cons_conv)
  then have "length rest \<le> length cs" using 2(3) length_dropWhile_le [of _ cs] by simp
  ultimately show ?case by simp
qed simp

declare sentence_runs.simps [simp del]

text \<open>\<open>counts.set(word, (counts.get(word) ?? 0) + 1)\<close> on a map in insertion order.\<close>

fun count_word :: "(jsstr \<times> nat) list \<Rightarrow> jsstr \<Rightarrow> (jsstr \<times> nat) list" where
  "count_word [] w = [(w, 1)]"
| "count_word ((v, n) # cs) w = (if v = w then (v, n + 1) # cs else (v, n) # count_word cs w)"

text \<open>A stable sort by a comparison that says whether \<open>a\<close> may stand before \<open>b\<close>.\<close>

fun insert_stable :: "('a \<Rightarrow> 'a \<Rightarrow> bool) \<Rightarrow> 'a \<Rightarrow> 'a list \<Rightarrow> 'a list" where
  "insert_stable le a [] = [a]"
| "insert_stable le a (b # bs) = (if le a b then a # b # bs else b # insert_stable le a bs)"

definition sort_stable :: "('a \<Rightarrow> 'a \<Rightarrow> bool) \<Rightarrow> 'a list \<Rightarrow> 'a list" where
  "sort_stable le xs = foldr (insert_stable le) xs []"

text \<open>\<open>b[1] - a[1] || a[0].localeCompare(b[0])\<close> is not positive.\<close>

definition term_before :: "'s world \<Rightarrow> jsstr \<times> nat \<Rightarrow> jsstr \<times> nat \<Rightarrow> bool" where
  "term_before w a b \<longleftrightarrow> snd b < snd a \<or> (snd b = snd a \<and> wd_collate w (fst a) (fst b))"

definition deliver :: "'s world \<Rightarrow> service \<Rightarrow> jsstr \<Rightarrow> service_output" where
  "deliver w s document =
     (case s of
        TextAnalysis \<Rightarrow>
          (let words = wd_words w document; counts = foldl count_word [] words in
           Analysis (length words)
             (length (filter (\<lambda>s. trim s \<noteq> []) (sentence_runs document)))
             (take 5 (sort_stable (term_before w) counts)))
      | CostReport \<Rightarrow> Estimate (length (utf8 document)) ((length document + 3) div 4))"

section \<open>Availability, time and durability\<close>

definition ensureAvailable :: "('s, unit) co" where
  "ensureAvailable =
     bindE (get eg_failed) (\<lambda>failed.
     if failed then fail 503 ''Checkout session requires server restart and recovery.'' else
     bindE (get eg_checkpointing) (\<lambda>busy.
     if busy then fail 503 ''Checkout checkpoint is still committing. Retry this read.'' else ret ()))"

definition exclusive :: "('s, 'a) co \<Rightarrow> ('s, 'a) co" where
  "exclusive m = bindE ensureAvailable (\<lambda>_. m)"

definition random :: "'s world \<Rightarrow> ('s, bytes) co" where
  "random w = bindE (get eg_draws) (\<lambda>n. bindE (modify (eg_draws_update Suc)) (\<lambda>_. ret (wd_random w n)))"

definition reading :: "'s world \<Rightarrow> ('s, int) co" where
  "reading w = bindE (get eg_reads) (\<lambda>n. bindE (modify (eg_reads_update Suc)) (\<lambda>_. ret (wd_clock w n)))"

definition now :: "'s world \<Rightarrow> ('s, int) co" where
  "now w = bindE (reading w) (\<lambda>t.
     if \<not> isSafeInteger t \<or> t < 0 then fail 503 ''Trusted execution time is unavailable.'' else ret t)"

definition snapshot :: "'s engine \<Rightarrow> 's saved_books" where
  "snapshot e = books.extend (books.truncate e)
     \<lparr>sn_version = 4, sn_deadlineUnits = ''unix-seconds'', sn_settlement = ''private-compensation-v1''\<rparr>"

definition checkpoint :: "'s world \<Rightarrow> ('s, unit) co" where
  "checkpoint w =
     bindE (get eg_storage) (\<lambda>stored.
     if \<not> stored then ret () else
     bindE (modify (eg_checkpointing_update (\<lambda>_. True))) (\<lambda>_.
     bindE (get eg_saves) (\<lambda>n.
     bindE (modify (eg_saves_update Suc)) (\<lambda>_.
     if wd_save w n then
       bindE (modify (\<lambda>e. e\<lparr>eg_disk := Some (snapshot e)\<rparr>)) (\<lambda>_.
         modify (eg_checkpointing_update (\<lambda>_. False)))
     else
       bindE (modify (\<lambda>e. e\<lparr>eg_failed := True, eg_checkpointing := False\<rparr>)) (\<lambda>_.
         fail 503 ''Checkout checkpoint failed. Restart the server and recover this session before retrying.'')))))"

text \<open>A circuit call on the engine's session: the next session, if the circuit accepted.\<close>

definition attemptCall ::
    "'s world \<Rightarrow> private_state \<Rightarrow> circuit_call \<Rightarrow> ('s, 's session option) co" where
  "attemptCall w ps c =
     bindE (reading w) (\<lambda>t. bindE (get bk_session) (\<lambda>s. liftE (call (wd_contract w) (Some t) s ps c)))"

definition transition :: "'s world \<Rightarrow> private_state \<Rightarrow> circuit_call \<Rightarrow> ('s, compact_ledger) co" where
  "transition w ps c =
     bindE (attemptCall w ps c) (\<lambda>r.
     case r of
       None \<Rightarrow> fail 409 (case c of CDraw _ _ _ \<Rightarrow> ''Clearance could not be proven.''
                          | _ \<Rightarrow> ''Contract transition rejected.'')
     | Some s \<Rightarrow> bindE (modify (bk_session_update (\<lambda>_. s))) (\<lambda>_. ret (readLedger (wd_contract w) s)))"

text \<open>The witnesses every call on the credit book needs.\<close>

definition engineBooks :: "'s engine \<Rightarrow> private_state" where
  "engineBooks e = blankPrivate\<lparr>ps_agentSecret := bk_agentKey e, ps_lineLimit := bk_limit e,
     ps_lineOutstanding := bk_outstanding e, ps_lineEpoch := bk_epoch e, ps_salt := bk_salt e\<rparr>"

definition merchantKey :: "service \<Rightarrow> 's engine \<Rightarrow> bytes" where
  "merchantKey s e = (case s of TextAnalysis \<Rightarrow> bk_merchantA e | CostReport \<Rightarrow> bk_merchantB e)"

text \<open>The map keeps the position of a key that is set again.\<close>

fun assoc_set :: "'k \<Rightarrow> 'v \<Rightarrow> ('k \<times> 'v) list \<Rightarrow> ('k \<times> 'v) list" where
  "assoc_set k v [] = [(k, v)]"
| "assoc_set k v ((k', v') # es) = (if k' = k then (k, v) # es else (k', v') # assoc_set k v es)"

definition getOrder :: "jsstr \<Rightarrow> 's engine \<Rightarrow> order option" where
  "getOrder r e = map_of (bk_orders e) r"

text \<open>An order is an object in the map; assigning its fields changes it there.\<close>

definition setOrder :: "jsstr \<Rightarrow> (order \<Rightarrow> order) \<Rightarrow> 's engine \<Rightarrow> 's engine" where
  "setOrder r f e = e\<lparr>bk_orders := map (\<lambda>(k, x). (k, if k = r then f x else x)) (bk_orders e)\<rparr>"

definition addStages :: "string list \<Rightarrow> order_receipt \<Rightarrow> order_receipt" where
  "addStages ss r = r\<lparr>rc_stages := rc_stages r @ ss\<rparr>"

end
