(* ===== verification/Checkout_Steps.thy ===== *)
theory Checkout_Steps
  imports Checkout
begin

text \<open>
  The operations of the checkout evaluation: creation, configuration, purchases and their
  resumption, acknowledgements, refund reports and the views. Each is the source's method with its
  statements in order; the early returns of \<open>resume\<close> end the whole method.
\<close>

section \<open>Views\<close>

record checkout_public_view =
  cv_durable :: bool
  cv_opened :: bool
  cv_domain :: jsstr
  cv_lineCommit :: jsstr
  cv_reserves :: "int list"
  cv_deliveries :: int
  cv_orders :: "order_receipt list"

definition publicView :: "'s world \<Rightarrow> ('s, checkout_public_view) co" where
  "publicView w =
     bindE ensureAvailable (\<lambda>_.
     get (\<lambda>e. let l = readLedger (wd_contract w) (bk_session e) in
       \<lparr>cv_durable = eg_storage e, cv_opened = bk_opened e, cv_domain = toHex (cl_contractDomain l),
        cv_lineCommit = toHex (cl_lineCommit l),
        cv_reserves = [cl_totalReserve l, cl_encumberedReserve l, cl_redeemedReserve l,
          cl_feeReserve l, cl_pendingFeeReserve l, cl_refundReserve l, cl_reportedRefundReserve l],
        cv_deliveries = bk_deliveries e,
        cv_orders = map (\<lambda>(k, x). (od_receipt x)\<lparr>rc_output := None\<rparr>) (bk_orders e)\<rparr>))"

record checkout_issuer_view =
  iv_public :: checkout_public_view
  iv_limit :: int
  iv_outstanding :: int
  iv_remaining :: int
  iv_refunds :: "(jsstr \<times> int \<times> int \<times> bool) list"

definition issuerView :: "'s world \<Rightarrow> ('s, checkout_issuer_view) co" where
  "issuerView w =
     bindE (publicView w) (\<lambda>v.
     get (\<lambda>e. \<lparr>iv_public = v, iv_limit = bk_limit e, iv_outstanding = bk_outstanding e,
       iv_remaining = bk_limit e - bk_outstanding e,
       iv_refunds = List.map_filter (\<lambda>(k, x). map_option (\<lambda>c. (rc_orderId (od_receipt x), oc_credit c,
         oc_amount c, truthy (oc_reportedReference c) \<noteq> None)) (od_compensation x)) (bk_orders e)\<rparr>))"

definition hasOutstandingObligations :: "'s world \<Rightarrow> ('s, bool) co" where
  "hasOutstandingObligations w =
     bindE ensureAvailable (\<lambda>_.
     get (\<lambda>e. bk_outstanding e > 0 \<or>
       cl_reportedRefundReserve (readLedger (wd_contract w) (bk_session e)) > 0 \<or>
       list_ex (\<lambda>(k, x). od_phase x = Authorized \<or>
         (case od_compensation x of None \<Rightarrow> False
          | Some c \<Rightarrow> oc_amount c > 0 \<and> truthy (oc_reportedReference c) = None)) (bk_orders e)))"

section \<open>Creation and configuration\<close>

text \<open>The fields of a new evaluation, from its tokens, keys and first salt.\<close>

definition newEngine :: "'s world \<Rightarrow> bool \<Rightarrow> 's engine" where
  "newEngine w stored =
     (let r = wd_random w; issuer = r 2 in
      \<lparr>bk_id = wd_uuid w 0, bk_issuerToken = toHex (r 0), bk_agentToken = toHex (r 1),
       bk_createdAt = wd_wall w 0, bk_issuerKey = issuer, bk_agentKey = r 3, bk_merchantA = r 4,
       bk_merchantB = r 5,
       bk_session = boot (wd_runtime w) (wd_contract w) issuer (r 4) (r 7) None,
       bk_limit = 0, bk_outstanding = 0, bk_epoch = 0, bk_salt = r 6, bk_opened = False,
       bk_fundedReserve = 0, bk_orders = [], bk_repayments = [], bk_deliveries = 0,
       eg_failed = False, eg_checkpointing = False, eg_storage = stored, eg_disk = None,
       eg_reads = 0, eg_draws = 8, eg_saves = 0\<rparr>)"

definition create :: "'s world \<Rightarrow> ('s, unit) co" where
  "create w =
     bindE (get (\<lambda>e. (bk_issuerKey e, bk_merchantB e))) (\<lambda>(issuer, merchantB).
     bindE (transition w (blankPrivate\<lparr>ps_callerSecret := issuer\<rparr>)
        (CRegisterMerchant (encodeMerchantPublicKey (wd_runtime w) merchantB))) (\<lambda>_.
     checkpoint w))"

text \<open>Funding, once; a retry must name the original terms.\<close>

definition fundFacility :: "'s world \<Rightarrow> int \<Rightarrow> int \<Rightarrow> 's engine \<Rightarrow> ('s, unit) co" where
  "fundFacility w credit backing e =
     bindE (demand (\<not> (bk_fundedReserve e \<noteq> 0 \<and> (bk_fundedReserve e \<noteq> backing \<or> bk_limit e \<noteq> credit)))
       409 ''Retry the original facility terms.'') (\<lambda>_.
     if bk_fundedReserve e = 0 then
       bindE (transition w (blankPrivate\<lparr>ps_callerSecret := bk_issuerKey e\<rparr>) (CFundReserve backing)) (\<lambda>_.
       bindE (modify (\<lambda>e. e\<lparr>bk_fundedReserve := backing, bk_limit := credit\<rparr>)) (\<lambda>_.
       checkpoint w))
     else ret ())"

definition openFacility :: "'s world \<Rightarrow> int \<Rightarrow> 's engine \<Rightarrow> ('s, checkout_issuer_view) co" where
  "openFacility w credit e =
     bindE (modify (bk_limit_update (\<lambda>_. credit))) (\<lambda>_.
     bindE (get engineBooks) (\<lambda>ps.
     bindE (now w) (\<lambda>t.
     bindE (transition w (ps\<lparr>ps_callerSecret := bk_issuerKey e\<rparr>)
       (COpenLine (t + 10000) (Some 0) (Some 0))) (\<lambda>_.
     bindE (modify (bk_opened_update (\<lambda>_. True))) (\<lambda>_.
     bindE (checkpoint w) (\<lambda>_. issuerView w))))))"

definition configure :: "'s world \<Rightarrow> jsval \<Rightarrow> jsval \<Rightarrow> ('s, checkout_issuer_view) co" where
  "configure w limit reserve =
     bindE (units limit ''Credit limit'') (\<lambda>credit.
     bindE (units reserve ''Reserve'') (\<lambda>backing.
     exclusive (
       bindE (get (\<lambda>e. e)) (\<lambda>e.
       if bk_opened e then
         (if credit = bk_limit e \<and> backing = bk_fundedReserve e then issuerView w
          else fail 409 ''This evaluation already has an open line.'')
       else bindE (fundFacility w credit backing e) (\<lambda>_. openFacility w credit e)))))"

section \<open>What a step records in its order\<close>

definition expireOrder :: "order \<Rightarrow> order" where
  "expireOrder x = x\<lparr>od_phase := Expired, od_receipt :=
     (addStages [''quote-expired-before-authorization''] (od_receipt x))
       \<lparr>rc_outcome := OExpired, rc_message := Some ''The quote expired before authorization. No debt or merchant claim was created; a new purchase requires a new request ID.''\<rparr>\<rparr>"

definition quoteOrder :: "order \<Rightarrow> order" where
  "quoteOrder x = x\<lparr>od_phase := Quoted, od_receipt := addStages [''merchant-quote-posted''] (od_receipt x)\<rparr>"

definition declineOrder :: "order \<Rightarrow> order" where
  "declineOrder x = x\<lparr>od_phase := Declined, od_receipt :=
     (addStages [''authorization-declined''] (od_receipt x))
       \<lparr>rc_outcome := ODeclined, rc_message := Some ''Clearance could not be proven.''\<rparr>\<rparr>"

definition authorizeOrder :: "bytes \<Rightarrow> order \<Rightarrow> order" where
  "authorizeOrder D x = x\<lparr>od_D := Some D, od_noteExpiry := Some (od_expiry x), od_phase := Authorized,
     od_receipt := (addStages [''authorization-accepted'', ''reserve-encumbered''] (od_receipt x))
       \<lparr>rc_note := Some (toHex D)\<rparr>\<rparr>"

definition compensateOrder :: "order_compensation \<Rightarrow> order \<Rightarrow> order" where
  "compensateOrder c x = x\<lparr>od_compensation := Some c, od_phase := Compensated, od_receipt :=
     (addStages ([''claim-expired'', ''evaluation-compensation-recorded''] @
         (if oc_amount c > 0 then [''cash-refund-obligation-recorded''] else [])) (od_receipt x))
       \<lparr>rc_outcome := OCompensated, rc_message := Some ''Expired claim compensation recorded. No service was delivered and no cash refund was paid.''\<rparr>\<rparr>"

definition redeemOrder :: "order \<Rightarrow> order" where
  "redeemOrder x = x\<lparr>od_phase := Redeemed, od_receipt := addStages [''merchant-claim-redeemed''] (od_receipt x)\<rparr>"

definition deliverOrder :: "service_output \<Rightarrow> order \<Rightarrow> order" where
  "deliverOrder out x = x\<lparr>od_phase := Delivered, od_receipt :=
     (addStages [''service-delivered''] (od_receipt x))
       \<lparr>rc_output := Some out, rc_outcome := ODelivered\<rparr>\<rparr>"

definition reportOrder :: "jsstr \<Rightarrow> order \<Rightarrow> order" where
  "reportOrder reference x = x\<lparr>od_compensation := map_option
       (oc_reportedReference_update (\<lambda>_. Some reference)) (od_compensation x),
     od_receipt := addStages [''issuer-reported-refund-acknowledgment''] (od_receipt x)\<rparr>"

section \<open>Resuming an order\<close>

text \<open>A quote that has expired before authorisation ends the order.\<close>

definition resumeExpiry :: "'s world \<Rightarrow> jsstr \<Rightarrow> order \<Rightarrow> ('s, unit) co" where
  "resumeExpiry w r x =
     (if od_phase x = Prepared \<or> od_phase x = Quoted then
        bindE (now w) (\<lambda>t.
        if od_expiry x \<le> t then
          bindE (modify (setOrder r expireOrder)) (\<lambda>_. checkpoint w)
        else ret ())
      else ret ())"

definition resumeQuote :: "'s world \<Rightarrow> jsstr \<Rightarrow> order \<Rightarrow> ('s, unit) co" where
  "resumeQuote w r x =
     (if od_phase x = Prepared then
        bindE (get (merchantKey (od_service x))) (\<lambda>key.
        bindE (transition w (blankPrivate\<lparr>ps_callerSecret := key, ps_invoiceId := od_invoiceId x,
            ps_quoteNonce := od_quoteNonce x, ps_quoteAmount := rc_amount (od_receipt x)\<rparr>)
          (CPostQuote (od_expiry x))) (\<lambda>_.
        bindE (modify (setOrder r quoteOrder)) (\<lambda>_. checkpoint w)))
      else ret ())"

text \<open>The draw; a refusal ends the method, which is the result \<open>True\<close>.\<close>

definition resumeDraw :: "'s world \<Rightarrow> jsstr \<Rightarrow> order \<Rightarrow> ('s, bool) co" where
  "resumeDraw w r x =
     (if od_phase x \<noteq> Quoted then ret False else
      bindE (random w) (\<lambda>newSalt.
      bindE (get (\<lambda>e. (encodeMerchantPublicKey (wd_runtime w) (merchantKey (od_service x) e), engineBooks e)))
        (\<lambda>(merchantPk, ps).
      bindE (attemptCall w (ps\<lparr>ps_invoiceId := od_invoiceId x, ps_quoteNonce := od_quoteNonce x,
          ps_quoteMerchantPk := merchantPk, ps_drawAmount := rc_amount (od_receipt x),
          ps_newSalt := newSalt, ps_noteNonce := od_noteNonce x, ps_noteSalt := od_noteSalt x\<rparr>)
        (CDraw (od_Q x) (od_expiry x) 0)) (\<lambda>result.
      case result of
        None \<Rightarrow>
          bindE (modify (setOrder r declineOrder)) (\<lambda>_. bindE (checkpoint w) (\<lambda>_. ret True))
      | Some s \<Rightarrow>
          bindE (modify (\<lambda>e. e\<lparr>bk_session := s, bk_outstanding := bk_outstanding e + rc_amount (od_receipt x),
            bk_epoch := bk_epoch e + 1, bk_salt := newSalt\<rparr>)) (\<lambda>_.
          bindE (get (\<lambda>e. let l = readLedger (wd_contract w) s in
            drawNoteCommit (wd_runtime w) \<lparr>np_domain = cl_contractDomain l,
              np_lineGeneration = cl_lineGeneration l, np_identity = agentId (wd_runtime w) (bk_agentKey e),
              np_quoteCommit = od_Q x, np_merchantPk = merchantPk, np_amount = rc_amount (od_receipt x),
              np_fee = Some 0, np_noteNonce = od_noteNonce x, np_expiry = od_expiry x\<rparr> (od_noteSalt x)))
            (\<lambda>D.
          bindE (modify (setOrder r (authorizeOrder D))) (\<lambda>_.
          bindE (checkpoint w) (\<lambda>_. ret False))))))))"

text \<open>
  An authorised claim is compensated when it has expired, which ends the method, and redeemed
  otherwise. An order in this phase has a claim and its expiry.
\<close>

definition resumeCompensate :: "'s world \<Rightarrow> jsstr \<Rightarrow> order \<Rightarrow> ('s, bool) co" where
  "resumeCompensate w r x =
     bindE (random w) (\<lambda>newSalt.
     bindE (get (\<lambda>e. e)) (\<lambda>e.
     (let amount = rc_amount (od_receipt x);
          credit = (if bk_outstanding e < amount then bk_outstanding e else amount);
          refund = amount - credit; me = agentId (wd_runtime w) (bk_agentKey e);
          D = nullish (od_D x) [] in
      bindE (transition w ((engineBooks e)\<lparr>ps_callerSecret := bk_agentKey e, ps_newSalt := newSalt,
          ps_quoteMerchantPk := encodeMerchantPublicKey (wd_runtime w) (merchantKey (od_service x) e),
          ps_noteIdentity := me, ps_noteQuoteCommit := od_Q x, ps_noteNonce := od_noteNonce x,
          ps_noteSalt := od_noteSalt x\<rparr>) (CCancelOrExpire D (Some 1) (Some 0))) (\<lambda>l.
      bindE (modify (\<lambda>e. e\<lparr>bk_outstanding := bk_outstanding e - credit, bk_epoch := bk_epoch e + 1,
          bk_salt := newSalt\<rparr>)) (\<lambda>_.
      bindE (liftE (case cl_notes l D of Some n \<Rightarrow> Inr (cn_refundCommitment n)
          | None \<Rightarrow> Inl (Throw (Error ''lookup'')))) (\<lambda>R.
      bindE (modify (setOrder r (compensateOrder \<lparr>oc_amount = refund, oc_credit = credit,
             oc_salt = newSalt, oc_commitment = R, oc_reportedReference = None\<rparr>))) (\<lambda>_. bindE (checkpoint w) (\<lambda>_. ret True))))))))"

definition resumeRedeem :: "'s world \<Rightarrow> jsstr \<Rightarrow> order \<Rightarrow> ('s, bool) co" where
  "resumeRedeem w r x =
     bindE (get (\<lambda>e. e)) (\<lambda>e.
     bindE (transition w (blankPrivate\<lparr>ps_callerSecret := merchantKey (od_service x) e,
         ps_noteIdentity := agentId (wd_runtime w) (bk_agentKey e), ps_noteQuoteCommit := od_Q x,
         ps_noteNonce := od_noteNonce x, ps_noteSalt := od_noteSalt x,
         ps_redeemAmount := rc_amount (od_receipt x)\<rparr>)
       (CRedeemDraw (nullish (od_D x) []) (nullish (od_noteExpiry x) 0))) (\<lambda>_.
     bindE (modify (setOrder r redeemOrder)) (\<lambda>_.
     bindE (checkpoint w) (\<lambda>_. ret False))))"

definition resumeClaim :: "'s world \<Rightarrow> jsstr \<Rightarrow> order \<Rightarrow> ('s, bool) co" where
  "resumeClaim w r x =
     (if od_phase x \<noteq> Authorized then ret False else
      bindE (now w) (\<lambda>t.
      if (case od_noteExpiry x of Some expiry \<Rightarrow> expiry \<le> t | None \<Rightarrow> False)
      then resumeCompensate w r x else resumeRedeem w r x))"

definition resumeDeliver :: "'s world \<Rightarrow> jsstr \<Rightarrow> order \<Rightarrow> ('s, unit) co" where
  "resumeDeliver w r x =
     (if od_phase x \<noteq> Redeemed then ret () else
      bindE (modify (\<lambda>e. setOrder r (deliverOrder (deliver w (od_service x) (od_document x)))
          (e\<lparr>bk_deliveries := bk_deliveries e + 1\<rparr>))) (\<lambda>_.
      checkpoint w))"

text \<open>The order object named by a request; it is in the map while it is resumed.\<close>

definition theOrder :: "jsstr \<Rightarrow> ('s, order) co" where
  "theOrder r = bindE (get (getOrder r)) (\<lambda>x. case x of Some x \<Rightarrow> ret x
     | None \<Rightarrow> fail 409 ''unreachable'')"

definition resume :: "'s world \<Rightarrow> jsstr \<Rightarrow> ('s, order_receipt) co" where
  "resume w r =
     bindE (theOrder r) (\<lambda>x.
     bindE (resumeExpiry w r x) (\<lambda>_.
     bindE (theOrder r) (\<lambda>x.
     bindE (resumeQuote w r x) (\<lambda>_.
     bindE (theOrder r) (\<lambda>x.
     bindE (resumeDraw w r x) (\<lambda>declined.
     bindE (theOrder r) (\<lambda>x.
     if declined then ret (od_receipt x) else
     bindE (resumeClaim w r x) (\<lambda>compensated.
     bindE (theOrder r) (\<lambda>x.
     if compensated then ret (od_receipt x) else
     bindE (resumeDeliver w r x) (\<lambda>_.
     bindE (theOrder r) (\<lambda>x. ret (od_receipt x))))))))))))"

section \<open>Purchases\<close>

text \<open>The immutable intention of a new order: its quote, its openings and a pending receipt.\<close>

definition newOrder :: "'s world \<Rightarrow> service \<Rightarrow> jsstr \<Rightarrow> jsstr \<Rightarrow> ('s, order) co" where
  "newOrder w s document requestId =
     bindE (get (merchantKey s)) (\<lambda>key.
     bindE (get eg_draws) (\<lambda>n.
     bindE (liftE (pad32 (filter (\<lambda>c. c \<noteq> of_nat 45) (wd_uuid w n)))) (\<lambda>invoiceId.
     bindE (random w) (\<lambda>quoteNonce.
     bindE (get (\<lambda>e. readLedger (wd_contract w) (bk_session e))) (\<lambda>before.
     bindE (now w) (\<lambda>t.
     bindE (liftE (encodeQuoteCommit (wd_runtime w)
        \<lparr>qp_merchantPk = encodeMerchantPublicKey (wd_runtime w) key, qp_invoiceId = invoiceId,
         qp_amount = service_price s, qp_expiry = t + 600, qp_nonce = quoteNonce,
         qp_generation = cl_lineGeneration before, qp_domain = cl_contractDomain before,
         qp_feeFlat = Some (cl_feeFlat before), qp_feeBps = Some (cl_feeBps before)\<rparr>)) (\<lambda>Q.
     bindE (random w) (\<lambda>noteNonce.
     bindE (random w) (\<lambda>noteSalt.
     ret \<lparr>od_document = document, od_service = s,
          od_receipt = \<lparr>rc_orderId = requestId, rc_service = s, rc_merchant = service_merchant s,
            rc_amount = service_price s, rc_quote = toHex Q, rc_note = None, rc_outcome = OPending,
            rc_stages = [], rc_message = None, rc_output = None\<rparr>,
          od_phase = Prepared, od_invoiceId = invoiceId, od_quoteNonce = quoteNonce, od_Q = Q,
          od_expiry = t + 600, od_noteNonce = noteNonce, od_noteSalt = noteSalt, od_D = None,
          od_noteExpiry = None, od_compensation = None\<rparr>)))))))))"

text \<open>The checks of a new request, and its first checkpoint before any circuit.\<close>

definition placeOrder ::
    "'s world \<Rightarrow> int \<Rightarrow> service \<Rightarrow> jsstr \<Rightarrow> jsstr \<Rightarrow> 's engine \<Rightarrow> ('s, order_receipt) co" where
  "placeOrder w wall s document requestId e =
     bindE (demand (bk_opened e) 409 ''Issuer must open the evaluation line first.'') (\<lambda>_.
     bindE (demand (\<not> wall - bk_createdAt e > 30 * 60 * 1000) 410
       ''New purchases are closed for this evaluation. Exact retries and issuer reconciliation remain available.'') (\<lambda>_.
     bindE (demand (\<not> length (bk_orders e) \<ge> 100) 409
       ''Evaluation order limit reached. Start a new session.'') (\<lambda>_.
     bindE (newOrder w s document requestId) (\<lambda>x.
     bindE (modify (bk_orders_update (assoc_set requestId x))) (\<lambda>_.
     bindE (checkpoint w) (\<lambda>_. resume w requestId))))))"

definition serveOrder ::
    "'s world \<Rightarrow> int \<Rightarrow> service \<Rightarrow> jsstr \<Rightarrow> jsstr \<Rightarrow> ('s, order_receipt) co" where
  "serveOrder w wall s document requestId =
     bindE (get (\<lambda>e. e)) (\<lambda>e.
     case getOrder requestId e of
       Some prior \<Rightarrow>
         if od_service prior \<noteq> s \<or> od_document prior \<noteq> document
         then fail 409 ''Request ID was already used for different purchase terms.''
         else resume w requestId
     | None \<Rightarrow> placeOrder w wall s document requestId e)"

definition purchase :: "'s world \<Rightarrow> int \<Rightarrow> jsval \<Rightarrow> jsval \<Rightarrow> jsval \<Rightarrow> ('s, order_receipt) co" where
  "purchase w wall serviceValue documentValue requestValue =
     (case findService serviceValue of
        None \<Rightarrow> fail 400 ''Unknown service.''
      | Some s \<Rightarrow>
     (case documentValue of
        JStr document \<Rightarrow>
          if trim document = [] \<or> length document > 8000
          then fail 400 ''Supply a document of 1 to 8000 characters.''
          else bindE (requestIntent requestValue) (\<lambda>requestId. exclusive (serveOrder w wall s document requestId))
      | _ \<Rightarrow> fail 400 ''Supply a document of 1 to 8000 characters.''))"

section \<open>Acknowledgements and refund reports\<close>

definition reported :: "jsstr \<Rightarrow> order \<Rightarrow> bool" where
  "reported reference x \<longleftrightarrow> Option.bind (od_compensation x) oc_reportedReference = Some reference"

definition acknowledge :: "'s world \<Rightarrow> jsval \<Rightarrow> jsval \<Rightarrow> ('s, checkout_issuer_view) co" where
  "acknowledge w amountValue referenceValue =
     bindE (units amountValue ''Acknowledgement'') (\<lambda>amount.
     bindE (requestIntent referenceValue) (\<lambda>reference.
     exclusive (
       bindE (get (\<lambda>e. e)) (\<lambda>e.
       case map_of (bk_repayments e) reference of
         Some previous \<Rightarrow>
           if previous \<noteq> amount then fail 409 ''Receipt reference was already used with another amount.''
           else issuerView w
       | None \<Rightarrow>
           bindE (demand (\<not> (\<not> bk_opened e \<or> amount > bk_outstanding e)) 409
             ''Acknowledgement exceeds outstanding evaluation debt.'') (\<lambda>_.
           bindE (demand (\<not> length (bk_repayments e) \<ge> 1000) 409
             ''Evaluation acknowledgement limit reached.'') (\<lambda>_.
           bindE (random w) (\<lambda>newSalt.
           bindE (demand (\<not> list_ex (\<lambda>(k, x). reported reference x) (bk_orders e)) 409
             ''Receipt reference already reported a refund.'') (\<lambda>_.
           bindE (liftE (canonicalPaymentReferenceBytes (wd_runtime w) reference)) (\<lambda>ref.
           bindE (random w) (\<lambda>nonce.
           bindE (now w) (\<lambda>t.
           bindE (transition w ((engineBooks e)\<lparr>ps_callerSecret := bk_issuerKey e,
               ps_newSalt := newSalt, ps_repayAmount := amount, ps_paymentRef := ref,
               ps_receiptNonce := nonce\<rparr>) (CAcknowledge (t + 600))) (\<lambda>_.
           bindE (modify (\<lambda>e. e\<lparr>bk_outstanding := bk_outstanding e - amount,
               bk_epoch := bk_epoch e + 1, bk_salt := newSalt,
               bk_repayments := assoc_set reference amount (bk_repayments e)\<rparr>)) (\<lambda>_.
           bindE (checkpoint w) (\<lambda>_. issuerView w))))))))))))))"

definition reportCashRefund :: "'s world \<Rightarrow> jsval \<Rightarrow> jsval \<Rightarrow> ('s, checkout_issuer_view) co" where
  "reportCashRefund w orderIdValue referenceValue =
     bindE (requestIntent orderIdValue) (\<lambda>orderId.
     bindE (requestIntent referenceValue) (\<lambda>reference.
     exclusive (
       bindE (get (\<lambda>e. e)) (\<lambda>e.
       case Option.bind (getOrder orderId e) (\<lambda>x. map_option (Pair x) (od_compensation x)) of
         None \<Rightarrow> fail 409 ''No cash refund obligation exists for that order.''
       | Some (x, c) \<Rightarrow>
         if oc_amount c = 0 then fail 409 ''No cash refund obligation exists for that order.'' else
         (case truthy (oc_reportedReference c) of
            Some previous \<Rightarrow>
              if previous \<noteq> reference then fail 409 ''Refund was already reported with another reference.''
              else issuerView w
          | None \<Rightarrow>
              bindE (demand (\<not> (map_of (bk_repayments e) reference \<noteq> None \<or>
                 list_ex (\<lambda>(k, x). reported reference x) (bk_orders e))) 409
                ''Receipt reference was already allocated.'') (\<lambda>_.
              bindE (liftE (canonicalPaymentReferenceBytes (wd_runtime w) reference)) (\<lambda>ref.
              bindE (now w) (\<lambda>t.
              bindE (transition w (blankPrivate\<lparr>ps_callerSecret := bk_issuerKey e,
                  ps_noteIdentity := agentId (wd_runtime w) (bk_agentKey e),
                  ps_repayAmount := oc_amount c, ps_salt := oc_salt c, ps_paymentRef := ref\<rparr>)
                (CCancelOrExpire (nullish (od_D x) []) (Some 2) (Some (t + 600)))) (\<lambda>_.
              bindE (modify (setOrder orderId (reportOrder reference))) (\<lambda>_.
              bindE (checkpoint w) (\<lambda>_. issuerView w)))))))))))"

end
