(* ===== verification/Checkout_Recovery.thy ===== *)
theory Checkout_Recovery
  imports Checkout_Steps
begin

text \<open>
  \<open>CheckoutEvaluation.recover\<close>: a checkpoint is checked field by field, against the catalogue, and
  against the ledger it carries, before an engine is built from it. A snapshot is typed here, so the
  source's tests of types hold by construction and its tests of values remain; the serialised
  contract state is the state itself.
\<close>

definition in_class :: "string \<Rightarrow> 16 word \<Rightarrow> bool" where
  "in_class cs c \<longleftrightarrow> c \<in> set (js cs)"

definition lower_hex_id :: "jsstr \<Rightarrow> bool" where
  "lower_hex_id s \<longleftrightarrow> length s = 36 \<and> list_all (in_class ''0123456789abcdef-'') s"

definition token :: "jsstr \<Rightarrow> bool" where
  "token s \<longleftrightarrow> length s = 64 \<and> list_all (in_class ''abcdef0123456789'') s"

definition refuse :: "string \<Rightarrow> 'a outcome" where
  "refuse msg = Inl (Throw (Error msg))"

definition require :: "bool \<Rightarrow> string \<Rightarrow> unit outcome" where
  "require b msg = (if b then Inr () else refuse msg)"

definition recoverHeader :: "'s saved_books \<Rightarrow> unit outcome" where
  "recoverHeader s =
     bindS (require (sn_version s = 4 \<and> sn_deadlineUnits s = ''unix-seconds'' \<and>
        sn_settlement s = ''private-compensation-v1'' \<and> lower_hex_id (bk_id s) \<and>
        token (bk_issuerToken s) \<and> token (bk_agentToken s) \<and> isSafeInteger (bk_createdAt s) \<and>
        length (bk_orders s) \<le> 100) ''Invalid checkout snapshot.'') (\<lambda>_.
     bindS (require (\<forall>bs \<in> set [bk_issuerKey s, bk_agentKey s, bk_salt s, bk_merchantA s, bk_merchantB s].
        length bs = 32) ''Invalid checkout secret opening.'') (\<lambda>_.
     bindS (require (\<forall>n \<in> set [bk_limit s, bk_outstanding s, bk_epoch s, bk_fundedReserve s]. 0 \<le> n)
        ''Invalid checkout private book.'') (\<lambda>_.
     bindS (require (\<not> bk_outstanding s > bk_limit s \<and> isSafeInteger (bk_deliveries s) \<and>
        \<not> bk_deliveries s < 0) ''Invalid checkout accounting.'') (\<lambda>_.
     bindS (require (distinct (map fst (bk_orders s)) \<and> distinct (map fst (bk_repayments s)) \<and>
        \<not> length (bk_repayments s) > 1000) ''Invalid duplicate checkout records.'') (\<lambda>_.
     require (list_all (\<lambda>(r, a). valid_intent r \<and> isSafeInteger a \<and> \<not> a < 1) (bk_repayments s))
        ''Invalid checkout receipt record.'')))))"

definition recoverLedger :: "'s world \<Rightarrow> 's saved_books \<Rightarrow> compact_ledger \<Rightarrow> unit outcome" where
  "recoverLedger w s l =
     bindS (require (cl_totalReserve l = bk_fundedReserve s \<and>
        \<not> cl_encumberedReserve l + cl_redeemedReserve l + cl_feeReserve l + cl_pendingFeeReserve l +
          cl_refundReserve l + cl_reportedRefundReserve l > cl_totalReserve l \<and>
        cl_feeFlat l = 0 \<and> cl_feeBps l = 0) ''Checkout ledger does not match its checkpoint.'') (\<lambda>_.
     require (\<not> (bk_opened s \<and> lineStateCommit (wd_runtime w) \<lparr>lp_domain = cl_contractDomain l,
          lp_identity = agentId (wd_runtime w) (bk_agentKey s), lp_limit = bk_limit s,
          lp_outstanding = bk_outstanding s, lp_epoch = bk_epoch s\<rparr> (bk_salt s) \<noteq> cl_lineCommit l))
        ''Checkout private book does not match its checkpoint.'')"

definition claimed :: "phase \<Rightarrow> bool" where
  "claimed p \<longleftrightarrow> p \<in> {Authorized, Redeemed, Delivered, Compensated}"

text \<open>An order that has a claim: the commitment is recomputed and compared with the ledger's note.\<close>

definition recoverClaim ::
    "'s world \<Rightarrow> 's saved_books \<Rightarrow> compact_ledger \<Rightarrow> order \<Rightarrow> bytes \<Rightarrow> unit outcome" where
  "recoverClaim w s l x merchantPk =
     (let D = drawNoteCommit (wd_runtime w) \<lparr>np_domain = cl_contractDomain l,
            np_lineGeneration = cl_lineGeneration l, np_identity = agentId (wd_runtime w) (bk_agentKey s),
            np_quoteCommit = od_Q x, np_merchantPk = merchantPk,
            np_amount = service_price (od_service x), np_fee = Some 0,
            np_noteNonce = od_noteNonce x, np_expiry = od_expiry x\<rparr> (od_noteSalt x) in
      bindS (require (od_D x = Some D \<and> rc_note (od_receipt x) = Some (toHex D) \<and>
          od_noteExpiry x = Some (od_expiry x) \<and> cl_notes l D \<noteq> None)
        ''Checkout note does not match its checkpoint.'') (\<lambda>_.
      case cl_notes l D of
        None \<Rightarrow> refuse ''lookup''
      | Some note \<Rightarrow>
        require ((od_phase x = Redeemed \<or> od_phase x = Delivered) = cn_redeemed note \<and>
          (od_phase x = Compensated) = cn_cancelled note)
          ''Checkout note phase does not match its checkpoint.''))"

definition recoverCompensation ::
    "'s world \<Rightarrow> 's saved_books \<Rightarrow> compact_ledger \<Rightarrow> order \<Rightarrow> unit outcome" where
  "recoverCompensation w s l x =
     (case (od_compensation x, od_D x) of
        (Some c, Some D) \<Rightarrow>
          bindS (require (\<not> oc_amount c < 0 \<and> \<not> oc_credit c < 0 \<and>
              oc_amount c + oc_credit c = rc_amount (od_receipt x) \<and> length (oc_salt c) = 32)
            ''Invalid checkout compensation checkpoint.'') (\<lambda>_.
          case cl_notes l D of
            None \<Rightarrow> refuse ''lookup''
          | Some note \<Rightarrow>
            (let R = refundCommit (wd_runtime w) \<lparr>rp_domain = cl_contractDomain l,
                   rp_lineGeneration = cn_lineGeneration note,
                   rp_identity = agentId (wd_runtime w) (bk_agentKey s), rp_noteCommit = D,
                   rp_amount = oc_amount c\<rparr> (oc_salt c) in
             bindS (require (cn_cancelled note \<and> cn_compensationAllocated note \<and>
                 cn_cashRefundOwed note = (oc_amount c > 0) \<and> cn_refundCommitment note = R \<and>
                 oc_commitment c = R \<and>
                 cn_refundAcknowledged note = (truthy (oc_reportedReference c) \<noteq> None))
               ''Checkout compensation opening does not match its checkpoint.'') (\<lambda>_.
             bindS (case truthy (oc_reportedReference c) of
                 Some reference \<Rightarrow>
                   bindS (require (valid_intent reference) ''A stable request ID is required.'') (\<lambda>_.
                   bindS (canonicalPaymentReferenceBytes (wd_runtime w) reference) (\<lambda>ref.
                     Inr (encodePaymentNullifier (wd_runtime w) (bk_issuerKey s) ref (cl_contractDomain l))))
               | None \<Rightarrow> Inr zeros32) (\<lambda>receipt.
             require (cn_refundPaymentNullifier note = receipt \<and>
                 \<not> (truthy (oc_reportedReference c) \<noteq> None \<and> receipt \<notin> set (cl_nullifiers l)))
               ''Checkout refund receipt does not match its checkpoint.'')))
          )
      | _ \<Rightarrow> refuse ''Invalid checkout compensation checkpoint.'')"

definition recoverOrder ::
    "'s world \<Rightarrow> 's saved_books \<Rightarrow> compact_ledger \<Rightarrow> jsstr \<Rightarrow> order \<Rightarrow> unit outcome" where
  "recoverOrder w s l requestId x =
     (let price = service_price (od_service x);
          merchantPk = encodeMerchantPublicKey (wd_runtime w)
            (case od_service x of TextAnalysis \<Rightarrow> bk_merchantA s | CostReport \<Rightarrow> bk_merchantB s) in
      bindS (require (valid_intent requestId) ''A stable request ID is required.'') (\<lambda>_.
      bindS (require (requestId = rc_orderId (od_receipt x) \<and>
          rc_service (od_receipt x) = od_service x \<and> rc_amount (od_receipt x) = price \<and>
          trim (od_document x) \<noteq> [] \<and> length (od_document x) \<le> 8000 \<and> \<not> od_expiry x < 0)
        ''Invalid checkout order checkpoint.'') (\<lambda>_.
      bindS (require (\<forall>bs \<in> set [od_invoiceId x, od_quoteNonce x, od_Q x, od_noteNonce x, od_noteSalt x].
          length bs = 32) ''Invalid checkout order opening.'') (\<lambda>_.
      bindS (encodeQuoteCommit (wd_runtime w) \<lparr>qp_merchantPk = merchantPk, qp_invoiceId = od_invoiceId x,
          qp_amount = price, qp_expiry = od_expiry x, qp_nonce = od_quoteNonce x,
          qp_generation = cl_lineGeneration l, qp_domain = cl_contractDomain l,
          qp_feeFlat = Some (cl_feeFlat l), qp_feeBps = Some (cl_feeBps l)\<rparr>) (\<lambda>Q.
      bindS (require (Q = od_Q x \<and> rc_quote (od_receipt x) = toHex Q)
        ''Checkout quote does not match its checkpoint.'') (\<lambda>_.
      bindS (if claimed (od_phase x) then recoverClaim w s l x merchantPk else Inr ()) (\<lambda>_.
      if od_phase x = Compensated then recoverCompensation w s l x else Inr ())))))))"

fun recoverOrders ::
    "'s world \<Rightarrow> 's saved_books \<Rightarrow> compact_ledger \<Rightarrow> (jsstr \<times> order) list \<Rightarrow> unit outcome" where
  "recoverOrders w s l [] = Inr ()"
| "recoverOrders w s l ((r, x) # xs) = bindS (recoverOrder w s l r x) (\<lambda>_. recoverOrders w s l xs)"

definition restored :: "'s saved_books \<Rightarrow> 's engine" where
  "restored s = books.extend (books.truncate s)
     \<lparr>eg_failed = False, eg_checkpointing = False, eg_storage = True, eg_disk = Some s,
      eg_reads = 0, eg_draws = 0, eg_saves = 0\<rparr>"

definition recover :: "'s world \<Rightarrow> 's saved_books \<Rightarrow> 's engine outcome" where
  "recover w s =
     bindS (recoverHeader s) (\<lambda>_.
     (let l = readLedger (wd_contract w) (bk_session s) in
      bindS (recoverLedger w s l) (\<lambda>_.
      bindS (recoverOrders w s l (bk_orders s)) (\<lambda>_. Inr (restored s)))))"

end
