(* ===== verification/Checkout_Machine.thy ===== *)
theory Checkout_Machine
  imports Checkout_Recovery Outcome_Machine
begin

text \<open>
  The abstract checkout desk: orders, the outstanding debt, the acknowledged receipts and the number
  of deliveries, with ten kinds of steps. The engine's operations implement it (proved in
  \<open>Checkout_Refinement\<close>); the invariants and the growth of the desk are proved here, by induction
  over its steps.
\<close>

section \<open>The desk\<close>

record desk =
  dk_orders :: "(jsstr \<times> order) list"
  dk_outstanding :: int
  dk_repayments :: "(jsstr \<times> int) list"
  dk_deliveries :: int

definition desk :: "('s, 'z) books_scheme \<Rightarrow> desk" where
  "desk e = \<lparr>dk_orders = bk_orders e, dk_outstanding = bk_outstanding e,
     dk_repayments = bk_repayments e, dk_deliveries = bk_deliveries e\<rparr>"

definition updOrder :: "jsstr \<Rightarrow> (order \<Rightarrow> order) \<Rightarrow> (jsstr \<times> order) list \<Rightarrow> (jsstr \<times> order) list" where
  "updOrder r f os = map (\<lambda>(k, x). (k, if k = r then f x else x)) os"

text \<open>The terms of an order: what is fixed when it is placed.\<close>

definition terms_ok :: "jsstr \<Rightarrow> order \<Rightarrow> bool" where
  "terms_ok r x \<longleftrightarrow> valid_intent r \<and> trim (od_document x) \<noteq> [] \<and> length (od_document x) \<le> 8000 \<and>
     rc_orderId (od_receipt x) = r \<and> rc_service (od_receipt x) = od_service x \<and>
     rc_merchant (od_receipt x) = service_merchant (od_service x) \<and>
     rc_amount (od_receipt x) = service_price (od_service x) \<and> rc_quote (od_receipt x) = toHex (od_Q x)"

definition pristine :: "jsstr \<Rightarrow> order \<Rightarrow> bool" where
  "pristine r x \<longleftrightarrow> terms_ok r x \<and> od_phase x = Prepared \<and> od_D x = None \<and> od_noteExpiry x = None \<and>
     od_compensation x = None \<and> rc_note (od_receipt x) = None \<and> rc_outcome (od_receipt x) = OPending \<and>
     rc_stages (od_receipt x) = [] \<and> rc_output (od_receipt x) = None"

definition settledBy :: "jsstr \<Rightarrow> desk \<Rightarrow> bool" where
  "settledBy ref d \<longleftrightarrow> map_of (dk_repayments d) ref \<noteq> None \<or> list_ex (\<lambda>(k, x). reported ref x) (dk_orders d)"

inductive desk_step :: "desk \<Rightarrow> desk \<Rightarrow> bool" where
  place: "map_of (dk_orders d) r = None \<Longrightarrow> pristine r x \<Longrightarrow>
    desk_step d (d\<lparr>dk_orders := dk_orders d @ [(r, x)]\<rparr>)"
| expire: "map_of (dk_orders d) r = Some x \<Longrightarrow> od_phase x = Prepared \<or> od_phase x = Quoted \<Longrightarrow>
    desk_step d (d\<lparr>dk_orders := updOrder r expireOrder (dk_orders d)\<rparr>)"
| quote: "map_of (dk_orders d) r = Some x \<Longrightarrow> od_phase x = Prepared \<Longrightarrow>
    desk_step d (d\<lparr>dk_orders := updOrder r quoteOrder (dk_orders d)\<rparr>)"
| decline: "map_of (dk_orders d) r = Some x \<Longrightarrow> od_phase x = Quoted \<Longrightarrow>
    desk_step d (d\<lparr>dk_orders := updOrder r declineOrder (dk_orders d)\<rparr>)"
| authorize: "map_of (dk_orders d) r = Some x \<Longrightarrow> od_phase x = Quoted \<Longrightarrow>
    desk_step d (d\<lparr>dk_orders := updOrder r (authorizeOrder D) (dk_orders d),
      dk_outstanding := dk_outstanding d + rc_amount (od_receipt x)\<rparr>)"
| compensate: "map_of (dk_orders d) r = Some x \<Longrightarrow> od_phase x = Authorized \<Longrightarrow>
    oc_credit c = (if dk_outstanding d < rc_amount (od_receipt x) then dk_outstanding d
                   else rc_amount (od_receipt x)) \<Longrightarrow>
    oc_amount c = rc_amount (od_receipt x) - oc_credit c \<Longrightarrow> oc_reportedReference c = None \<Longrightarrow>
    desk_step d (d\<lparr>dk_orders := updOrder r (compensateOrder c) (dk_orders d),
      dk_outstanding := dk_outstanding d - oc_credit c\<rparr>)"
| redeem: "map_of (dk_orders d) r = Some x \<Longrightarrow> od_phase x = Authorized \<Longrightarrow>
    desk_step d (d\<lparr>dk_orders := updOrder r redeemOrder (dk_orders d)\<rparr>)"
| deliver: "map_of (dk_orders d) r = Some x \<Longrightarrow> od_phase x = Redeemed \<Longrightarrow>
    desk_step d (d\<lparr>dk_orders := updOrder r (deliverOrder out) (dk_orders d),
      dk_deliveries := dk_deliveries d + 1\<rparr>)"
| acknowledge: "valid_intent ref \<Longrightarrow> 1 \<le> a \<Longrightarrow> a \<le> dk_outstanding d \<Longrightarrow> \<not> settledBy ref d \<Longrightarrow>
    desk_step d (d\<lparr>dk_outstanding := dk_outstanding d - a,
      dk_repayments := dk_repayments d @ [(ref, a)]\<rparr>)"
| report: "map_of (dk_orders d) r = Some x \<Longrightarrow> od_compensation x = Some c \<Longrightarrow> oc_amount c \<noteq> 0 \<Longrightarrow>
    truthy (oc_reportedReference c) = None \<Longrightarrow> valid_intent ref \<Longrightarrow> \<not> settledBy ref d \<Longrightarrow>
    desk_step d (d\<lparr>dk_orders := updOrder r (reportOrder ref) (dk_orders d)\<rparr>)"

inductive_cases desk_stepE: "desk_step d d'"

section \<open>Orders\<close>

text \<open>What an order's phase says about the rest of it; the stages are the phase's history.\<close>

definition stages_ok :: "order \<Rightarrow> bool" where
  "stages_ok x \<longleftrightarrow>
     (let drawn = [''merchant-quote-posted'', ''authorization-accepted'', ''reserve-encumbered''];
          s = rc_stages (od_receipt x) in
      case od_phase x of
        Prepared \<Rightarrow> s = []
      | Quoted \<Rightarrow> s = [''merchant-quote-posted'']
      | Authorized \<Rightarrow> s = drawn
      | Redeemed \<Rightarrow> s = drawn @ [''merchant-claim-redeemed'']
      | Delivered \<Rightarrow> s = drawn @ [''merchant-claim-redeemed'', ''service-delivered'']
      | Declined \<Rightarrow> s = [''merchant-quote-posted'', ''authorization-declined'']
      | Expired \<Rightarrow> s = [''quote-expired-before-authorization''] \<or>
          s = [''merchant-quote-posted'', ''quote-expired-before-authorization'']
      | Compensated \<Rightarrow> (case od_compensation x of None \<Rightarrow> False | Some c \<Rightarrow>
          s = drawn @ [''claim-expired'', ''evaluation-compensation-recorded''] @
            (if oc_amount c > 0 then [''cash-refund-obligation-recorded''] else []) @
            (if oc_reportedReference c \<noteq> None then [''issuer-reported-refund-acknowledgment''] else [])))"

primrec phase_outcome :: "phase \<Rightarrow> order_outcome" where
  "phase_outcome Prepared = OPending"
| "phase_outcome Quoted = OPending"
| "phase_outcome Authorized = OPending"
| "phase_outcome Redeemed = OPending"
| "phase_outcome Delivered = ODelivered"
| "phase_outcome Declined = ODeclined"
| "phase_outcome Expired = OExpired"
| "phase_outcome Compensated = OCompensated"

definition compensation_ok :: "order \<Rightarrow> bool" where
  "compensation_ok x \<longleftrightarrow>
     (case od_compensation x of
        None \<Rightarrow> od_phase x \<noteq> Compensated
      | Some c \<Rightarrow> od_phase x = Compensated \<and> 0 \<le> oc_amount c \<and> 0 \<le> oc_credit c \<and>
          oc_amount c + oc_credit c = rc_amount (od_receipt x) \<and>
          (\<forall>ref. oc_reportedReference c = Some ref \<longrightarrow> oc_amount c > 0 \<and> valid_intent ref))"

definition order_ok :: "jsstr \<Rightarrow> order \<Rightarrow> bool" where
  "order_ok r x \<longleftrightarrow> terms_ok r x \<and> stages_ok x \<and> compensation_ok x \<and>
     rc_outcome (od_receipt x) = phase_outcome (od_phase x) \<and>
     (od_D x \<noteq> None \<longleftrightarrow> claimed (od_phase x)) \<and> rc_note (od_receipt x) = map_option toHex (od_D x) \<and>
     od_noteExpiry x = (if claimed (od_phase x) then Some (od_expiry x) else None) \<and>
     (rc_output (od_receipt x) \<noteq> None \<longleftrightarrow> od_phase x = Delivered)"

text \<open>What an order adds to the debt, and the refund references it has used.\<close>

definition order_debt :: "order \<Rightarrow> int" where
  "order_debt x = (if claimed (od_phase x)
     then rc_amount (od_receipt x) - (case od_compensation x of Some c \<Rightarrow> oc_credit c | None \<Rightarrow> 0) else 0)"

definition order_refs :: "order \<Rightarrow> jsstr list" where
  "order_refs x = (case Option.bind (od_compensation x) oc_reportedReference of
     Some ref \<Rightarrow> [ref] | None \<Rightarrow> [])"

definition desk_refs :: "desk \<Rightarrow> jsstr list" where
  "desk_refs d = map fst (dk_repayments d) @ concat (map (\<lambda>(r, x). order_refs x) (dk_orders d))"

definition desk_ok :: "desk \<Rightarrow> bool" where
  "desk_ok d \<longleftrightarrow> distinct (map fst (dk_orders d)) \<and> list_all (\<lambda>(r, x). order_ok r x) (dk_orders d) \<and>
     dk_outstanding d = (\<Sum>(r, x) \<leftarrow> dk_orders d. order_debt x) - (\<Sum>(ref, a) \<leftarrow> dk_repayments d. a) \<and>
     0 \<le> dk_outstanding d \<and>
     dk_deliveries d = int (length (filter (\<lambda>(r, x). od_phase x = Delivered) (dk_orders d))) \<and>
     list_all (\<lambda>(ref, a). valid_intent ref \<and> 1 \<le> a) (dk_repayments d) \<and>
     distinct (desk_refs d)"

section \<open>Every step keeps the desk in order\<close>

lemmas order_steps = expireOrder_def quoteOrder_def declineOrder_def authorizeOrder_def
  compensateOrder_def redeemOrder_def deliverOrder_def reportOrder_def

text \<open>The fields of an order after a step.\<close>

lemma phase_steps [simp]:
  "od_phase (expireOrder x) = Expired"
  "od_phase (quoteOrder x) = Quoted"
  "od_phase (declineOrder x) = Declined"
  "od_phase (authorizeOrder D x) = Authorized"
  "od_phase (compensateOrder c x) = Compensated"
  "od_phase (redeemOrder x) = Redeemed"
  "od_phase (deliverOrder out x) = Delivered"
  "od_phase (reportOrder ref x) = od_phase x"
  by (simp_all add: order_steps addStages_def)

lemma stages_steps [simp]:
  "rc_stages (od_receipt (expireOrder x)) = rc_stages (od_receipt x) @ [''quote-expired-before-authorization'']"
  "rc_stages (od_receipt (quoteOrder x)) = rc_stages (od_receipt x) @ [''merchant-quote-posted'']"
  "rc_stages (od_receipt (declineOrder x)) = rc_stages (od_receipt x) @ [''authorization-declined'']"
  "rc_stages (od_receipt (authorizeOrder D x)) = rc_stages (od_receipt x) @ [''authorization-accepted'', ''reserve-encumbered'']"
  "rc_stages (od_receipt (compensateOrder c x)) = rc_stages (od_receipt x) @ ([''claim-expired'', ''evaluation-compensation-recorded''] @
       (if oc_amount c > 0 then [''cash-refund-obligation-recorded''] else []))"
  "rc_stages (od_receipt (redeemOrder x)) = rc_stages (od_receipt x) @ [''merchant-claim-redeemed'']"
  "rc_stages (od_receipt (deliverOrder out x)) = rc_stages (od_receipt x) @ [''service-delivered'']"
  "rc_stages (od_receipt (reportOrder ref x)) = rc_stages (od_receipt x) @ [''issuer-reported-refund-acknowledgment'']"
  by (simp_all add: order_steps addStages_def)

lemma outcome_steps [simp]:
  "rc_outcome (od_receipt (expireOrder x)) = OExpired"
  "rc_outcome (od_receipt (quoteOrder x)) = rc_outcome (od_receipt x)"
  "rc_outcome (od_receipt (declineOrder x)) = ODeclined"
  "rc_outcome (od_receipt (authorizeOrder D x)) = rc_outcome (od_receipt x)"
  "rc_outcome (od_receipt (compensateOrder c x)) = OCompensated"
  "rc_outcome (od_receipt (redeemOrder x)) = rc_outcome (od_receipt x)"
  "rc_outcome (od_receipt (deliverOrder out x)) = ODelivered"
  "rc_outcome (od_receipt (reportOrder ref x)) = rc_outcome (od_receipt x)"
  by (simp_all add: order_steps addStages_def)

lemma claim_steps [simp]:
  "od_D (expireOrder x) = od_D x"
  "od_D (quoteOrder x) = od_D x"
  "od_D (declineOrder x) = od_D x"
  "od_D (authorizeOrder D x) = Some D"
  "od_D (compensateOrder c x) = od_D x"
  "od_D (redeemOrder x) = od_D x"
  "od_D (deliverOrder out x) = od_D x"
  "od_D (reportOrder ref x) = od_D x"
  "od_noteExpiry (expireOrder x) = od_noteExpiry x"
  "od_noteExpiry (quoteOrder x) = od_noteExpiry x"
  "od_noteExpiry (declineOrder x) = od_noteExpiry x"
  "od_noteExpiry (authorizeOrder D x) = Some (od_expiry x)"
  "od_noteExpiry (compensateOrder c x) = od_noteExpiry x"
  "od_noteExpiry (redeemOrder x) = od_noteExpiry x"
  "od_noteExpiry (deliverOrder out x) = od_noteExpiry x"
  "od_noteExpiry (reportOrder ref x) = od_noteExpiry x"
  "rc_note (od_receipt (expireOrder x)) = rc_note (od_receipt x)"
  "rc_note (od_receipt (quoteOrder x)) = rc_note (od_receipt x)"
  "rc_note (od_receipt (declineOrder x)) = rc_note (od_receipt x)"
  "rc_note (od_receipt (authorizeOrder D x)) = Some (toHex D)"
  "rc_note (od_receipt (compensateOrder c x)) = rc_note (od_receipt x)"
  "rc_note (od_receipt (redeemOrder x)) = rc_note (od_receipt x)"
  "rc_note (od_receipt (deliverOrder out x)) = rc_note (od_receipt x)"
  "rc_note (od_receipt (reportOrder ref x)) = rc_note (od_receipt x)"
  by (simp_all add: order_steps addStages_def)

lemma result_steps [simp]:
  "rc_output (od_receipt (expireOrder x)) = rc_output (od_receipt x)"
  "rc_output (od_receipt (quoteOrder x)) = rc_output (od_receipt x)"
  "rc_output (od_receipt (declineOrder x)) = rc_output (od_receipt x)"
  "rc_output (od_receipt (authorizeOrder D x)) = rc_output (od_receipt x)"
  "rc_output (od_receipt (compensateOrder c x)) = rc_output (od_receipt x)"
  "rc_output (od_receipt (redeemOrder x)) = rc_output (od_receipt x)"
  "rc_output (od_receipt (deliverOrder out x)) = Some out"
  "rc_output (od_receipt (reportOrder ref x)) = rc_output (od_receipt x)"
  "od_compensation (expireOrder x) = od_compensation x"
  "od_compensation (quoteOrder x) = od_compensation x"
  "od_compensation (declineOrder x) = od_compensation x"
  "od_compensation (authorizeOrder D x) = od_compensation x"
  "od_compensation (redeemOrder x) = od_compensation x"
  "od_compensation (deliverOrder out x) = od_compensation x"
  "od_compensation (compensateOrder c x) = Some c"
  "od_compensation (reportOrder ref x) =
     map_option (oc_reportedReference_update (\<lambda>_. Some ref)) (od_compensation x)"
  by (simp_all add: order_steps addStages_def)

lemma fixed_steps [simp]:
  "od_document (expireOrder x) = od_document x"
  "od_document (quoteOrder x) = od_document x"
  "od_document (declineOrder x) = od_document x"
  "od_document (authorizeOrder D x) = od_document x"
  "od_document (compensateOrder c x) = od_document x"
  "od_document (redeemOrder x) = od_document x"
  "od_document (deliverOrder out x) = od_document x"
  "od_document (reportOrder ref x) = od_document x"
  "od_service (expireOrder x) = od_service x"
  "od_service (quoteOrder x) = od_service x"
  "od_service (declineOrder x) = od_service x"
  "od_service (authorizeOrder D x) = od_service x"
  "od_service (compensateOrder c x) = od_service x"
  "od_service (redeemOrder x) = od_service x"
  "od_service (deliverOrder out x) = od_service x"
  "od_service (reportOrder ref x) = od_service x"
  "od_expiry (expireOrder x) = od_expiry x"
  "od_expiry (quoteOrder x) = od_expiry x"
  "od_expiry (declineOrder x) = od_expiry x"
  "od_expiry (authorizeOrder D x) = od_expiry x"
  "od_expiry (compensateOrder c x) = od_expiry x"
  "od_expiry (redeemOrder x) = od_expiry x"
  "od_expiry (deliverOrder out x) = od_expiry x"
  "od_expiry (reportOrder ref x) = od_expiry x"
  "od_Q (expireOrder x) = od_Q x"
  "od_Q (quoteOrder x) = od_Q x"
  "od_Q (declineOrder x) = od_Q x"
  "od_Q (authorizeOrder D x) = od_Q x"
  "od_Q (compensateOrder c x) = od_Q x"
  "od_Q (redeemOrder x) = od_Q x"
  "od_Q (deliverOrder out x) = od_Q x"
  "od_Q (reportOrder ref x) = od_Q x"
  by (simp_all add: order_steps addStages_def)

lemma fixed_receipt_steps [simp]:
  "rc_orderId (od_receipt (expireOrder x)) = rc_orderId (od_receipt x)"
  "rc_orderId (od_receipt (quoteOrder x)) = rc_orderId (od_receipt x)"
  "rc_orderId (od_receipt (declineOrder x)) = rc_orderId (od_receipt x)"
  "rc_orderId (od_receipt (authorizeOrder D x)) = rc_orderId (od_receipt x)"
  "rc_orderId (od_receipt (compensateOrder c x)) = rc_orderId (od_receipt x)"
  "rc_orderId (od_receipt (redeemOrder x)) = rc_orderId (od_receipt x)"
  "rc_orderId (od_receipt (deliverOrder out x)) = rc_orderId (od_receipt x)"
  "rc_orderId (od_receipt (reportOrder ref x)) = rc_orderId (od_receipt x)"
  "rc_service (od_receipt (expireOrder x)) = rc_service (od_receipt x)"
  "rc_service (od_receipt (quoteOrder x)) = rc_service (od_receipt x)"
  "rc_service (od_receipt (declineOrder x)) = rc_service (od_receipt x)"
  "rc_service (od_receipt (authorizeOrder D x)) = rc_service (od_receipt x)"
  "rc_service (od_receipt (compensateOrder c x)) = rc_service (od_receipt x)"
  "rc_service (od_receipt (redeemOrder x)) = rc_service (od_receipt x)"
  "rc_service (od_receipt (deliverOrder out x)) = rc_service (od_receipt x)"
  "rc_service (od_receipt (reportOrder ref x)) = rc_service (od_receipt x)"
  "rc_merchant (od_receipt (expireOrder x)) = rc_merchant (od_receipt x)"
  "rc_merchant (od_receipt (quoteOrder x)) = rc_merchant (od_receipt x)"
  "rc_merchant (od_receipt (declineOrder x)) = rc_merchant (od_receipt x)"
  "rc_merchant (od_receipt (authorizeOrder D x)) = rc_merchant (od_receipt x)"
  "rc_merchant (od_receipt (compensateOrder c x)) = rc_merchant (od_receipt x)"
  "rc_merchant (od_receipt (redeemOrder x)) = rc_merchant (od_receipt x)"
  "rc_merchant (od_receipt (deliverOrder out x)) = rc_merchant (od_receipt x)"
  "rc_merchant (od_receipt (reportOrder ref x)) = rc_merchant (od_receipt x)"
  "rc_amount (od_receipt (expireOrder x)) = rc_amount (od_receipt x)"
  "rc_amount (od_receipt (quoteOrder x)) = rc_amount (od_receipt x)"
  "rc_amount (od_receipt (declineOrder x)) = rc_amount (od_receipt x)"
  "rc_amount (od_receipt (authorizeOrder D x)) = rc_amount (od_receipt x)"
  "rc_amount (od_receipt (compensateOrder c x)) = rc_amount (od_receipt x)"
  "rc_amount (od_receipt (redeemOrder x)) = rc_amount (od_receipt x)"
  "rc_amount (od_receipt (deliverOrder out x)) = rc_amount (od_receipt x)"
  "rc_amount (od_receipt (reportOrder ref x)) = rc_amount (od_receipt x)"
  "rc_quote (od_receipt (expireOrder x)) = rc_quote (od_receipt x)"
  "rc_quote (od_receipt (quoteOrder x)) = rc_quote (od_receipt x)"
  "rc_quote (od_receipt (declineOrder x)) = rc_quote (od_receipt x)"
  "rc_quote (od_receipt (authorizeOrder D x)) = rc_quote (od_receipt x)"
  "rc_quote (od_receipt (compensateOrder c x)) = rc_quote (od_receipt x)"
  "rc_quote (od_receipt (redeemOrder x)) = rc_quote (od_receipt x)"
  "rc_quote (od_receipt (deliverOrder out x)) = rc_quote (od_receipt x)"
  "rc_quote (od_receipt (reportOrder ref x)) = rc_quote (od_receipt x)"
  by (simp_all add: order_steps addStages_def)

lemma opening_steps [simp]:
  "od_invoiceId (expireOrder x) = od_invoiceId x"
  "od_invoiceId (quoteOrder x) = od_invoiceId x"
  "od_invoiceId (declineOrder x) = od_invoiceId x"
  "od_invoiceId (authorizeOrder D x) = od_invoiceId x"
  "od_invoiceId (compensateOrder c x) = od_invoiceId x"
  "od_invoiceId (redeemOrder x) = od_invoiceId x"
  "od_invoiceId (deliverOrder out x) = od_invoiceId x"
  "od_invoiceId (reportOrder ref x) = od_invoiceId x"
  "od_quoteNonce (expireOrder x) = od_quoteNonce x"
  "od_quoteNonce (quoteOrder x) = od_quoteNonce x"
  "od_quoteNonce (declineOrder x) = od_quoteNonce x"
  "od_quoteNonce (authorizeOrder D x) = od_quoteNonce x"
  "od_quoteNonce (compensateOrder c x) = od_quoteNonce x"
  "od_quoteNonce (redeemOrder x) = od_quoteNonce x"
  "od_quoteNonce (deliverOrder out x) = od_quoteNonce x"
  "od_quoteNonce (reportOrder ref x) = od_quoteNonce x"
  "od_noteNonce (expireOrder x) = od_noteNonce x"
  "od_noteNonce (quoteOrder x) = od_noteNonce x"
  "od_noteNonce (declineOrder x) = od_noteNonce x"
  "od_noteNonce (authorizeOrder D x) = od_noteNonce x"
  "od_noteNonce (compensateOrder c x) = od_noteNonce x"
  "od_noteNonce (redeemOrder x) = od_noteNonce x"
  "od_noteNonce (deliverOrder out x) = od_noteNonce x"
  "od_noteNonce (reportOrder ref x) = od_noteNonce x"
  "od_noteSalt (expireOrder x) = od_noteSalt x"
  "od_noteSalt (quoteOrder x) = od_noteSalt x"
  "od_noteSalt (declineOrder x) = od_noteSalt x"
  "od_noteSalt (authorizeOrder D x) = od_noteSalt x"
  "od_noteSalt (compensateOrder c x) = od_noteSalt x"
  "od_noteSalt (redeemOrder x) = od_noteSalt x"
  "od_noteSalt (deliverOrder out x) = od_noteSalt x"
  "od_noteSalt (reportOrder ref x) = od_noteSalt x"
  by (simp_all add: order_steps addStages_def)

lemma terms_ok_steps [simp]:
  "terms_ok r (expireOrder x) = terms_ok r x" "terms_ok r (quoteOrder x) = terms_ok r x"
  "terms_ok r (declineOrder x) = terms_ok r x" "terms_ok r (authorizeOrder D x) = terms_ok r x"
  "terms_ok r (compensateOrder c x) = terms_ok r x" "terms_ok r (redeemOrder x) = terms_ok r x"
  "terms_ok r (deliverOrder out x) = terms_ok r x" "terms_ok r (reportOrder ref x) = terms_ok r x"
  by (simp_all add: terms_ok_def)

lemma order_ok_place: "pristine r x \<Longrightarrow> order_ok r x"
  by (simp add: order_ok_def pristine_def stages_ok_def compensation_ok_def claimed_def)

lemma no_compensation: "order_ok r x \<Longrightarrow> od_phase x \<noteq> Compensated \<Longrightarrow> od_compensation x = None"
  by (auto simp: order_ok_def compensation_ok_def split: option.splits)

lemma order_ok_steps:
  assumes "order_ok r x"
  shows "od_phase x = Prepared \<or> od_phase x = Quoted \<Longrightarrow> order_ok r (expireOrder x)"
    "od_phase x = Prepared \<Longrightarrow> order_ok r (quoteOrder x)"
    "od_phase x = Quoted \<Longrightarrow> order_ok r (declineOrder x)"
    "od_phase x = Quoted \<Longrightarrow> order_ok r (authorizeOrder D x)"
    "od_phase x = Authorized \<Longrightarrow> order_ok r (redeemOrder x)"
    "od_phase x = Redeemed \<Longrightarrow> order_ok r (deliverOrder out x)"
  using assms no_compensation [OF assms]
  by (auto simp: order_ok_def stages_ok_def compensation_ok_def claimed_def)

lemma order_ok_compensate:
  assumes "order_ok r x" and "od_phase x = Authorized" and "0 \<le> oc_credit c"
    and "oc_credit c \<le> rc_amount (od_receipt x)"
    and "oc_amount c = rc_amount (od_receipt x) - oc_credit c" and "oc_reportedReference c = None"
  shows "order_ok r (compensateOrder c x)"
  using assms no_compensation [OF assms(1)]
  by (simp add: order_ok_def stages_ok_def compensation_ok_def claimed_def)

lemma truthy_None: "truthy r = None \<longleftrightarrow> r = None \<or> r = Some []"
  by (auto simp: truthy_def split: option.splits)

lemma order_ok_report:
  assumes "order_ok r x" and "od_compensation x = Some c" and "oc_amount c \<noteq> 0"
    and "truthy (oc_reportedReference c) = None" and "valid_intent ref"
  shows "order_ok r (reportOrder ref x)" "oc_reportedReference c = None"
proof -
  show new: "oc_reportedReference c = None"
    using assms(1,2,4) by (auto simp: order_ok_def compensation_ok_def truthy_None valid_intent_def)
  show "order_ok r (reportOrder ref x)"
    using assms(1-3,5) new
    by (auto simp: order_ok_def stages_ok_def compensation_ok_def claimed_def)
qed

lemma updOrder_split:
  assumes "distinct (map fst os)" and "map_of os r = Some x"
  obtains ys zs where "os = ys @ (r, x) # zs" and "\<And>f. updOrder r f os = ys @ (r, f x) # zs"
proof -
  obtain ys zs where os: "os = ys @ (r, x) # zs"
    using map_of_SomeD [OF assms(2)] by (meson split_list)
  with assms(1) have "r \<notin> fst ` set ys" "r \<notin> fst ` set zs" by auto
  then have "map (\<lambda>(k, x). (k, if k = r then f x else x)) ys = ys"
    "map (\<lambda>(k, x). (k, if k = r then f x else x)) zs = zs" for f
    by (force intro!: map_idI)+
  then show thesis using that [OF os] by (simp add: updOrder_def os)
qed

lemma settledBy_refs: "settledBy ref d \<longleftrightarrow> ref \<in> set (desk_refs d)"
proof -
  have "reported ref y \<longleftrightarrow> ref \<in> set (order_refs y)" for y
    by (auto simp: reported_def order_refs_def split: option.splits)
  moreover have "map_of rs ref \<noteq> None \<longleftrightarrow> ref \<in> fst ` set rs" for rs :: "(jsstr \<times> int) list"
    by (metis map_of_eq_None_iff)
  ultimately show ?thesis
    by (simp add: settledBy_def desk_refs_def list_ex_iff case_prod_beta)
qed

lemma distinct_insert_refs:
  "distinct n \<Longrightarrow> distinct (a @ b @ c @ e) \<Longrightarrow> \<forall>r \<in> set n. r \<notin> set (a @ b @ c @ e) \<Longrightarrow>
     distinct (a @ b @ (c @ n) @ e)"
  by auto

text \<open>
  One order changes: the debt, the references and the deliveries move by what the order
  contributes.
\<close>

lemma desk_ok_update:
  assumes ok: "desk_ok d" and find: "map_of (dk_orders d) r = Some x"
    and new: "order_ok r x \<Longrightarrow> order_ok r (f x)"
    and refs: "order_refs (f x) = order_refs x @ new_refs" "\<forall>ref \<in> set new_refs. \<not> settledBy ref d"
      "distinct new_refs"
    and debt: "d' = d\<lparr>dk_orders := updOrder r f (dk_orders d),
      dk_outstanding := dk_outstanding d + order_debt (f x) - order_debt x,
      dk_deliveries := dk_deliveries d + (if od_phase (f x) = Delivered then 1 else 0) -
        (if od_phase x = Delivered then 1 else 0)\<rparr>"
    and "0 \<le> dk_outstanding d'"
  shows "desk_ok d'"
proof -
  have "distinct (map fst (dk_orders d))" using ok by (simp add: desk_ok_def)
  then obtain ys zs where os: "dk_orders d = ys @ (r, x) # zs"
    and upd: "\<And>g. updOrder r g (dk_orders d) = ys @ (r, g x) # zs"
    using find by (rule updOrder_split) blast
  have orders: "dk_orders d' = ys @ (r, f x) # zs" by (simp add: debt upd)
  define refs where "refs os = concat (map (\<lambda>(r, x). order_refs x) os)" for os :: "(jsstr \<times> order) list"
  have R: "desk_refs d = map fst (dk_repayments d) @ refs ys @ order_refs x @ refs zs"
    "desk_refs d' = map fst (dk_repayments d) @ refs ys @ (order_refs x @ new_refs) @ refs zs"
    using orders by (simp_all add: desk_refs_def refs_def os refs(1) debt)
  have "\<forall>ref \<in> set new_refs. ref \<notin> set (desk_refs d)" using refs(2) by (simp add: settledBy_refs)
  moreover have "distinct (desk_refs d)" using ok by (simp add: desk_ok_def)
  ultimately have D: "distinct (desk_refs d')"
    unfolding R using refs(3) by (intro distinct_insert_refs)
  have rest: "dk_repayments d' = dk_repayments d"
    "dk_outstanding d' = dk_outstanding d + order_debt (f x) - order_debt x"
    "dk_deliveries d' = dk_deliveries d + (if od_phase (f x) = Delivered then 1 else 0) -
        (if od_phase x = Delivered then 1 else 0)"
    by (simp_all add: debt)
  show ?thesis
    using ok new assms(8) D unfolding desk_ok_def orders rest os by simp
qed

lemma desk_ok_acknowledge:
  assumes "desk_ok d" and "valid_intent ref" and "1 \<le> a" and "a \<le> dk_outstanding d" and "\<not> settledBy ref d"
  shows "desk_ok (d\<lparr>dk_outstanding := dk_outstanding d - a, dk_repayments := dk_repayments d @ [(ref, a)]\<rparr>)"
  using assms by (auto simp: settledBy_refs desk_ok_def desk_refs_def)

lemma debt_uncompensated:
  "order_ok r x \<Longrightarrow> od_phase x \<noteq> Compensated \<Longrightarrow>
     order_debt x = (if claimed (od_phase x) then rc_amount (od_receipt x) else 0) \<and> order_refs x = []"
  by (simp add: order_debt_def order_refs_def no_compensation)

lemma desk_order_ok: "desk_ok d \<Longrightarrow> map_of (dk_orders d) r = Some x \<Longrightarrow> order_ok r x"
  by (auto simp: desk_ok_def list_all_iff dest!: map_of_SomeD)

lemma order_price: "order_ok r x \<Longrightarrow> 0 < rc_amount (od_receipt x)"
  by (cases "od_service x") (auto simp: order_ok_def terms_ok_def)

text \<open>A move between phases that are not compensations.\<close>

lemma desk_ok_move:
  assumes "desk_ok d" and "map_of (dk_orders d) r = Some x" and "order_ok r x \<Longrightarrow> order_ok r (f x)"
    and "od_phase x \<noteq> Compensated" "od_phase (f x) \<noteq> Compensated" "od_phase x \<noteq> Delivered"
    and "rc_amount (od_receipt (f x)) = rc_amount (od_receipt x)"
    and "claimed (od_phase x) \<longrightarrow> claimed (od_phase (f x))"
    and d': "d' = d\<lparr>dk_orders := updOrder r f (dk_orders d),
      dk_outstanding := dk_outstanding d +
        (if claimed (od_phase (f x)) \<and> \<not> claimed (od_phase x) then rc_amount (od_receipt x) else 0),
      dk_deliveries := dk_deliveries d + (if od_phase (f x) = Delivered then 1 else 0)\<rparr>"
  shows "desk_ok d'"
proof -
  note ok = desk_order_ok [OF assms(1,2)]
  show ?thesis
    using assms(1,4-8) debt_uncompensated [OF ok] debt_uncompensated [OF assms(3) [OF ok]] order_price [OF ok]
    by (intro desk_ok_update [where f = f and new_refs = "[]", OF assms(1-3)])
      (auto simp: d' desk_ok_def)
qed

lemma desk_ok_compensate:
  assumes "desk_ok d" and "map_of (dk_orders d) r = Some x" and "od_phase x = Authorized"
    and "oc_credit c = (if dk_outstanding d < rc_amount (od_receipt x) then dk_outstanding d
                   else rc_amount (od_receipt x))"
    and "oc_amount c = rc_amount (od_receipt x) - oc_credit c" and "oc_reportedReference c = None"
  shows "desk_ok (d\<lparr>dk_orders := updOrder r (compensateOrder c) (dk_orders d),
      dk_outstanding := dk_outstanding d - oc_credit c\<rparr>)"
proof -
  note ok = desk_order_ok [OF assms(1,2)]
  have c: "0 \<le> oc_credit c" "oc_credit c \<le> rc_amount (od_receipt x)" "oc_credit c \<le> dk_outstanding d"
    using assms(4) order_price [OF ok] assms(1) by (auto simp: desk_ok_def)
  have new: "order_debt (compensateOrder c x) = rc_amount (od_receipt x) - oc_credit c"
    "order_refs (compensateOrder c x) = []"
    by (simp_all add: order_debt_def order_refs_def claimed_def assms(6))
  show ?thesis
    using assms(3,5,6) debt_uncompensated [OF ok] c new
    by (intro desk_ok_update [where f = "compensateOrder c" and new_refs = "[]", OF assms(1,2)]
        order_ok_compensate) (auto simp: claimed_def)
qed

lemma desk_ok_report:
  assumes "desk_ok d" and "map_of (dk_orders d) r = Some x" and "od_compensation x = Some c"
    and "oc_amount c \<noteq> 0" and "truthy (oc_reportedReference c) = None" and "valid_intent ref"
    and "\<not> settledBy ref d"
  shows "desk_ok (d\<lparr>dk_orders := updOrder r (reportOrder ref) (dk_orders d)\<rparr>)"
proof -
  note ok = desk_order_ok [OF assms(1,2)]
  note new = order_ok_report [OF ok assms(3-6)]
  have phase: "od_phase x = Compensated"
    using ok assms(3) by (auto simp: order_ok_def compensation_ok_def)
  have "order_refs x = []" "order_refs (reportOrder ref x) = [ref]"
    "order_debt (reportOrder ref x) = order_debt x"
    by (simp_all add: order_refs_def order_debt_def assms(3) new(2))
  then show ?thesis
    using assms(7) phase new(1) assms(1)
    by (intro desk_ok_update [where f = "reportOrder ref" and new_refs = "[ref]", OF assms(1,2)])
      (auto simp: desk_ok_def)
qed

lemma desk_ok_place:
  assumes "desk_ok d" and "map_of (dk_orders d) r = None" and "pristine r x"
  shows "desk_ok (d\<lparr>dk_orders := dk_orders d @ [(r, x)]\<rparr>)"
proof -
  have "order_refs x = []" "order_debt x = 0" "od_phase x = Prepared"
    using assms(3) by (simp_all add: pristine_def order_refs_def order_debt_def claimed_def)
  moreover have "r \<notin> fst ` set (dk_orders d)" using assms(2) by (simp add: map_of_eq_None_iff)
  ultimately show ?thesis
    using assms(1) order_ok_place [OF assms(3)] by (simp add: desk_ok_def desk_refs_def)
qed

lemma desk_step_ok:
  assumes "desk_ok d" and "desk_step d d'"
  shows "desk_ok d'"
  using assms(2)
proof (cases rule: desk_step.cases)
  case (place r x)
  then show ?thesis using desk_ok_place [OF assms(1)] by simp
next
  case (expire r x)
  show ?thesis
    by (rule desk_ok_move [OF assms(1) expire(2) order_ok_steps(1)]) (use expire in \<open>auto simp: claimed_def\<close>)
next
  case (quote r x)
  show ?thesis
    by (rule desk_ok_move [OF assms(1) quote(2) order_ok_steps(2)]) (use quote in \<open>auto simp: claimed_def\<close>)
next
  case (decline r x)
  show ?thesis
    by (rule desk_ok_move [OF assms(1) decline(2) order_ok_steps(3)]) (use decline in \<open>auto simp: claimed_def\<close>)
next
  case (authorize r x D)
  show ?thesis
    by (rule desk_ok_move [OF assms(1) authorize(2) order_ok_steps(4) [where D = D]])
      (use authorize in \<open>auto simp: claimed_def\<close>)
next
  case (compensate r x c)
  then show ?thesis using desk_ok_compensate [OF assms(1)] by simp
next
  case (redeem r x)
  show ?thesis
    by (rule desk_ok_move [OF assms(1) redeem(2) order_ok_steps(5)]) (use redeem in \<open>auto simp: claimed_def\<close>)
next
  case (deliver r x out)
  show ?thesis
    by (rule desk_ok_move [OF assms(1) deliver(2) order_ok_steps(6) [where out = out]])
      (use deliver in \<open>auto simp: claimed_def\<close>)
next
  case (acknowledge ref a)
  then show ?thesis using desk_ok_acknowledge [OF assms(1)] by simp
next
  case (report r x c ref)
  then show ?thesis using desk_ok_report [OF assms(1)] by simp
qed

section \<open>Orders only move forward\<close>

primrec next_phases :: "phase \<Rightarrow> phase list" where
  "next_phases Prepared = [Quoted, Expired]"
| "next_phases Quoted = [Authorized, Declined, Expired]"
| "next_phases Authorized = [Redeemed, Compensated]"
| "next_phases Redeemed = [Delivered]"
| "next_phases Delivered = []"
| "next_phases Declined = []"
| "next_phases Expired = []"
| "next_phases Compensated = []"

definition phase_le :: "phase \<Rightarrow> phase \<Rightarrow> bool" where
  "phase_le = (\<lambda>p q. q \<in> set (next_phases p))\<^sup>*\<^sup>*"

definition same_terms :: "order \<Rightarrow> order \<Rightarrow> bool" where
  "same_terms x y \<longleftrightarrow> od_document y = od_document x \<and> od_service y = od_service x \<and>
     od_invoiceId y = od_invoiceId x \<and> od_quoteNonce y = od_quoteNonce x \<and> od_Q y = od_Q x \<and>
     od_expiry y = od_expiry x \<and> od_noteNonce y = od_noteNonce x \<and> od_noteSalt y = od_noteSalt x \<and>
     rc_orderId (od_receipt y) = rc_orderId (od_receipt x) \<and>
     rc_amount (od_receipt y) = rc_amount (od_receipt x) \<and> rc_quote (od_receipt y) = rc_quote (od_receipt x)"

definition comp_below :: "order_compensation option \<Rightarrow> order_compensation option \<Rightarrow> bool" where
  "comp_below a b \<longleftrightarrow> (case a of None \<Rightarrow> True
     | Some c \<Rightarrow> (case b of None \<Rightarrow> False
         | Some c' \<Rightarrow> oc_amount c' = oc_amount c \<and> oc_credit c' = oc_credit c \<and>
             oc_commitment c' = oc_commitment c \<and>
             (oc_reportedReference c \<noteq> None \<longrightarrow> oc_reportedReference c' = oc_reportedReference c)))"

definition order_below :: "order \<Rightarrow> order \<Rightarrow> bool" where
  "order_below x y \<longleftrightarrow> same_terms x y \<and> phase_le (od_phase x) (od_phase y) \<and>
     (\<exists>ss. rc_stages (od_receipt y) = rc_stages (od_receipt x) @ ss) \<and>
     (od_D x \<noteq> None \<longrightarrow> od_D y = od_D x) \<and>
     comp_below (od_compensation x) (od_compensation y)"

definition desk_below :: "desk \<Rightarrow> desk \<Rightarrow> bool" where
  "desk_below d d' \<longleftrightarrow>
     (\<forall>r x. map_of (dk_orders d) r = Some x \<longrightarrow>
        (\<exists>y. map_of (dk_orders d') r = Some y \<and> order_below x y)) \<and>
     (\<exists>rs. dk_repayments d' = dk_repayments d @ rs) \<and> dk_deliveries d \<le> dk_deliveries d'"

lemma phase_le_refl [simp]: "phase_le p p"
  by (simp add: phase_le_def)

lemma phase_le_step: "q \<in> set (next_phases p) \<Longrightarrow> phase_le p q"
  by (auto simp: phase_le_def)

lemma comp_below_refl [simp]: "comp_below a a"
  by (simp add: comp_below_def split: option.split)

lemma comp_below_trans: "comp_below a b \<Longrightarrow> comp_below b c \<Longrightarrow> comp_below a c"
  by (auto simp: comp_below_def split: option.splits)

lemma order_below_refl [simp]: "order_below x x"
  by (simp add: order_below_def same_terms_def)

lemma order_below_trans:
  assumes "order_below x y" and "order_below y z"
  shows "order_below x z"
proof -
  have "same_terms x z" using assms by (simp add: order_below_def same_terms_def)
  moreover have "phase_le (od_phase x) (od_phase z)"
    using assms unfolding order_below_def phase_le_def by (meson rtranclp_trans)
  moreover have "\<exists>ss. rc_stages (od_receipt z) = rc_stages (od_receipt x) @ ss"
    using assms by (auto simp: order_below_def)
  moreover have "od_D x \<noteq> None \<longrightarrow> od_D z = od_D x" using assms by (auto simp: order_below_def)
  moreover have "comp_below (od_compensation x) (od_compensation z)"
    using assms comp_below_trans unfolding order_below_def by blast
  ultimately show ?thesis unfolding order_below_def by blast
qed

lemma desk_below_refl: "desk_below d d"
  by (auto simp: desk_below_def)

lemma desk_below_trans:
  assumes "desk_below d d'" and "desk_below d' d''"
  shows "desk_below d d''"
proof -
  have "\<exists>y. map_of (dk_orders d'') r = Some y \<and> order_below x y" if "map_of (dk_orders d) r = Some x" for r x
    using assms that order_below_trans unfolding desk_below_def by meson
  then show ?thesis using assms by (auto simp: desk_below_def)
qed

lemma map_of_updOrder:
  "map_of (updOrder r f os) k = (if k = r then map_option f (map_of os k) else map_of os k)"
  by (induction os) (auto simp: updOrder_def)

lemma desk_below_update:
  assumes "map_of (dk_orders d) r = Some x" and "order_below x (f x)"
    and "dk_orders d' = updOrder r f (dk_orders d)" and "dk_repayments d' = dk_repayments d"
    and "dk_deliveries d \<le> dk_deliveries d'"
  shows "desk_below d d'"
  using assms by (auto simp: desk_below_def map_of_updOrder)

text \<open>Every transformer moves its order forward.\<close>

lemma order_below_steps:
  assumes "order_ok r x"
  shows "od_phase x = Prepared \<or> od_phase x = Quoted \<Longrightarrow> order_below x (expireOrder x)"
    "od_phase x = Prepared \<Longrightarrow> order_below x (quoteOrder x)"
    "od_phase x = Quoted \<Longrightarrow> order_below x (declineOrder x)"
    "od_phase x = Quoted \<Longrightarrow> order_below x (authorizeOrder D x)"
    "od_phase x = Authorized \<Longrightarrow> order_below x (compensateOrder c x)"
    "od_phase x = Authorized \<Longrightarrow> order_below x (redeemOrder x)"
    "od_phase x = Redeemed \<Longrightarrow> order_below x (deliverOrder out x)"
  using assms no_compensation [OF assms]
  by (auto simp: order_below_def same_terms_def order_ok_def claimed_def comp_below_def
      intro!: phase_le_step)

lemma order_below_report:
  "od_compensation x = Some c \<Longrightarrow> oc_reportedReference c = None \<Longrightarrow> order_below x (reportOrder ref x)"
  by (simp add: order_below_def same_terms_def comp_below_def)

lemma desk_step_below:
  assumes "desk_ok d" and "desk_step d d'"
  shows "desk_below d d'"
  using assms(2)
proof (cases rule: desk_step.cases)
  case (place r x)
  then show ?thesis by (auto simp: desk_below_def map_add_def)
next
  case (acknowledge ref a)
  then show ?thesis by (auto simp: desk_below_def)
next
  case (report r x c ref)
  note ok = desk_order_ok [OF assms(1) report(2)]
  show ?thesis
    using report order_below_report [OF report(3) order_ok_report(2) [OF ok report(3-6)]]
    by (intro desk_below_update [of d r x "reportOrder ref"]) simp_all
next
  case (expire r x)
  show ?thesis
    by (rule desk_below_update [where f = expireOrder, OF expire(2) order_below_steps(1) [OF desk_order_ok [OF assms(1) expire(2)] expire(3)]])
      (simp_all add: expire(1))
next
  case (quote r x)
  show ?thesis
    by (rule desk_below_update [where f = quoteOrder, OF quote(2) order_below_steps(2) [OF desk_order_ok [OF assms(1) quote(2)] quote(3)]])
      (simp_all add: quote(1))
next
  case (decline r x)
  show ?thesis
    by (rule desk_below_update [where f = declineOrder, OF decline(2) order_below_steps(3) [OF desk_order_ok [OF assms(1) decline(2)] decline(3)]])
      (simp_all add: decline(1))
next
  case (authorize r x D)
  show ?thesis
    by (rule desk_below_update [where f = "authorizeOrder D", OF authorize(2) order_below_steps(4) [OF desk_order_ok [OF assms(1) authorize(2)] authorize(3)]])
      (simp_all add: authorize(1))
next
  case (compensate r x c)
  show ?thesis
    by (rule desk_below_update [where f = "compensateOrder c", OF compensate(2) order_below_steps(5) [OF desk_order_ok [OF assms(1) compensate(2)] compensate(3)]])
      (simp_all add: compensate(1))
next
  case (redeem r x)
  show ?thesis
    by (rule desk_below_update [where f = redeemOrder, OF redeem(2) order_below_steps(6) [OF desk_order_ok [OF assms(1) redeem(2)] redeem(3)]])
      (simp_all add: redeem(1))
next
  case (deliver r x out)
  show ?thesis
    by (rule desk_below_update [where f = "deliverOrder out", OF deliver(2) order_below_steps(7) [OF desk_order_ok [OF assms(1) deliver(2)] deliver(3)]])
      (simp_all add: deliver(1))
qed

interpretation desk: step_machine desk_step desk_ok desk_below
  by unfold_locales (fact desk_step_ok desk_below_refl desk_below_trans desk_step_below)+

lemma desk_empty: "desk_ok \<lparr>dk_orders = [], dk_outstanding = 0, dk_repayments = [], dk_deliveries = 0\<rparr>"
  by (simp add: desk_ok_def desk_refs_def)

end
