(* ===== verification/Checkout_Refinement.thy ===== *)
theory Checkout_Refinement
  imports Checkout_Machine
begin

text \<open>
  The engine's operations implement the desk. A program logic for operations that can fail half-way:
  \<open>runs A m B\<close> says that from a desk satisfying \<open>A\<close> the operation \<open>m\<close> only takes steps of the desk,
  however it ends, and that its result satisfies \<open>B\<close> when it has one.
\<close>

section \<open>A logic of desk steps\<close>

abbreviation desk_steps :: "desk \<Rightarrow> desk \<Rightarrow> bool" where
  "desk_steps \<equiv> desk_step\<^sup>*\<^sup>*"

text \<open>A checkpoint that is on disk afterwards was there before or holds a desk passed through.\<close>

definition disk_from :: "'s engine \<Rightarrow> 's engine \<Rightarrow> bool" where
  "disk_from e e' \<longleftrightarrow> (\<forall>s. eg_disk e' = Some s \<longrightarrow> eg_disk e = Some s \<or> desk_steps (desk e) (desk s))"

definition goes :: "'s engine \<Rightarrow> 's engine \<Rightarrow> bool" where
  "goes e e' \<longleftrightarrow> desk_steps (desk e) (desk e') \<and> disk_from e e'"

definition runs :: "(desk \<Rightarrow> bool) \<Rightarrow> ('s, 'a) co \<Rightarrow> ('a \<Rightarrow> desk \<Rightarrow> bool) \<Rightarrow> bool" where
  "runs A m B \<longleftrightarrow> (\<forall>e. A (desk e) \<longrightarrow> goes e (snd (m e)) \<and>
     (\<forall>a. fst (m e) = Inr a \<longrightarrow> B a (desk (snd (m e)))))"

lemma goes_refl [simp]: "goes e e"
  by (simp add: goes_def disk_from_def)

lemma goes_trans: "goes e e' \<Longrightarrow> goes e' e'' \<Longrightarrow> goes e e''"
  unfolding goes_def disk_from_def by (metis rtranclp_trans)

lemma goes_step: "desk_step (desk e) (desk e') \<Longrightarrow> eg_disk e' = eg_disk e \<Longrightarrow> goes e e'"
  by (auto simp: goes_def disk_from_def)

lemma goes_same: "desk e' = desk e \<Longrightarrow> eg_disk e' = eg_disk e \<Longrightarrow> goes e e'"
  by (simp add: goes_def disk_from_def)

lemma runs_bind:
  assumes "runs A m C" and "\<And>a. runs (C a) (f a) B"
  shows "runs A (bindE m f) B"
  unfolding runs_def
proof (intro allI impI)
  fix e :: "'a engine"
  assume "A (desk e)"
  then have m: "goes e (snd (m e))" "\<And>a. fst (m e) = Inr a \<Longrightarrow> C a (desk (snd (m e)))"
    using assms(1) by (auto simp: runs_def)
  show "goes e (snd (bindE m f e)) \<and>
    (\<forall>a. fst (bindE m f e) = Inr a \<longrightarrow> B a (desk (snd (bindE m f e))))"
  proof (cases "fst (m e)")
    case (Inl x)
    then show ?thesis using m(1) by (auto simp: bindE_def split: prod.splits)
  next
    case (Inr a)
    then have "bindE m f e = f a (snd (m e))" by (auto simp: bindE_def split: prod.splits)
    then show ?thesis
      using assms(2) [of a] m(1) m(2) [OF Inr] unfolding runs_def by (metis goes_trans)
  qed
qed

lemma runs_ret: "(\<And>d. A d \<Longrightarrow> B a d) \<Longrightarrow> runs A (ret a) B"
  by (simp add: runs_def ret_def)

lemma runs_fail: "runs A (fail st msg) B"
  by (simp add: runs_def fail_def)

lemma runs_get: "(\<And>e. A (desk e) \<Longrightarrow> B (f e) (desk e)) \<Longrightarrow> runs A (get f) B"
  by (simp add: runs_def get_def)

lemma runs_modify:
  "(\<And>e. A (desk e) \<Longrightarrow> goes e (f e) \<and> B () (desk (f e))) \<Longrightarrow> runs A (modify f) B"
  by (simp add: runs_def modify_def)

lemma runs_lift: "(\<And>a d. m = Inr a \<Longrightarrow> A d \<Longrightarrow> B a d) \<Longrightarrow> runs A (liftE m) B"
  by (auto simp: runs_def liftE_def split: sum.splits stop.splits)

lemma runs_check: "(\<And>d. b \<Longrightarrow> A d \<Longrightarrow> B () d) \<Longrightarrow> runs A (demand b st msg) B"
  by (simp add: demand_def runs_ret runs_fail)

lemma runs_if: "(b \<Longrightarrow> runs A m B) \<Longrightarrow> (\<not> b \<Longrightarrow> runs A n B) \<Longrightarrow> runs A (if b then m else n) B"
  by simp

lemma runs_option:
  "(r = None \<Longrightarrow> runs A m B) \<Longrightarrow> (\<And>s. r = Some s \<Longrightarrow> runs A (f s) B) \<Longrightarrow>
     runs A (case r of None \<Rightarrow> m | Some s \<Rightarrow> f s) B"
  by (simp split: option.split)

lemma runs_pre: "(\<And>d. A d \<Longrightarrow> A' d) \<Longrightarrow> runs A' m B \<Longrightarrow> runs A m B"
  by (simp add: runs_def)

lemma runs_assume: "(P \<Longrightarrow> runs A m B) \<Longrightarrow> runs (\<lambda>d. P \<and> A d) m B"
  by (auto simp: runs_def)

text \<open>What does not touch the desk keeps everything known about it.\<close>

definition quiet :: "('s, 'a) co \<Rightarrow> bool" where
  "quiet m \<longleftrightarrow> (\<forall>e. desk (snd (m e)) = desk e \<and> disk_from e (snd (m e)))"

lemma runs_quiet: "quiet m \<Longrightarrow> runs A m (\<lambda>_. A)"
  by (simp add: runs_def quiet_def goes_def)

lemma quiet_bind:
  assumes "quiet m" and "\<And>a. quiet (f a)"
  shows "quiet (bindE m f)"
  unfolding quiet_def
proof
  fix e :: "'a engine"
  obtain r e' where m: "m e = (r, e')" by force
  then have e': "desk e' = desk e" "disk_from e e'" using assms(1) by (auto simp: quiet_def dest: spec [of _ e])
  show "desk (snd (bindE m f e)) = desk e \<and> disk_from e (snd (bindE m f e))"
  proof (cases r)
    case (Inr a)
    have "desk (snd (f a e')) = desk e'" "disk_from e' (snd (f a e'))"
      using assms(2) by (auto simp: quiet_def)
    then show ?thesis using Inr m e' by (auto simp: bindE_def disk_from_def)
  qed (simp add: bindE_def m e')
qed

lemma quiet_simps [simp]:
  "quiet (ret a)" "quiet (fail st msg)" "quiet (get f)" "quiet (liftE m)" "quiet (demand b st msg)"
  by (auto simp: quiet_def disk_from_def ret_def fail_def get_def liftE_def demand_def split: sum.splits stop.splits)

lemma quiet_if [simp]: "quiet m \<Longrightarrow> quiet n \<Longrightarrow> quiet (if b then m else n)"
  by simp

lemma quiet_modify: "(\<And>e. desk (f e) = desk e \<and> eg_disk (f e) = eg_disk e) \<Longrightarrow> quiet (modify f)"
  by (simp add: quiet_def disk_from_def modify_def)

lemma desk_updates [simp]:
  "desk (e\<lparr>eg_failed := b\<rparr>) = desk e" "desk (e\<lparr>eg_checkpointing := b\<rparr>) = desk e"
  "desk (e\<lparr>eg_disk := k\<rparr>) = desk e" "desk (eg_reads_update g e) = desk e"
  "desk (eg_draws_update g e) = desk e" "desk (eg_saves_update g e) = desk e"
  "desk (eg_checkpointing_update h e) = desk e"
  "desk (bk_session_update i u) = desk u" "desk (u\<lparr>bk_limit := n\<rparr>) = desk u"
  "desk (u\<lparr>bk_opened := b\<rparr>) = desk u" "desk (u\<lparr>bk_fundedReserve := n\<rparr>) = desk u"
  "desk (u\<lparr>bk_epoch := n\<rparr>) = desk u" "desk (u\<lparr>bk_salt := z\<rparr>) = desk u"
  by (simp_all add: desk_def)

lemma quiet_world [simp]:
  "quiet (random w)" "quiet (reading w)" "quiet (now w)" "quiet ensureAvailable" "quiet (checkpoint w)"
  "quiet (attemptCall w ps c)" "quiet (transition w ps c)"
proof -
  show 1: "quiet (random w)" and 2: "quiet (reading w)" and 4: "quiet ensureAvailable"
    unfolding random_def reading_def ensureAvailable_def
    by (intro quiet_bind quiet_modify quiet_if quiet_simps; simp)+
  show "quiet (now w)"
    unfolding now_def by (intro quiet_bind 2 quiet_if quiet_simps)
  have save: "quiet (modify (\<lambda>e. e\<lparr>eg_disk := Some (snapshot e)\<rparr>))"
    by (simp add: quiet_def disk_from_def modify_def) (simp add: desk_def snapshot_def books.defs)
  show "quiet (checkpoint w)"
    unfolding checkpoint_def by (intro quiet_bind save quiet_modify quiet_if quiet_simps; simp)
  show 3: "quiet (attemptCall w ps c)"
    unfolding attemptCall_def by (intro quiet_bind 2 quiet_simps)
  show "quiet (transition w ps c)"
    unfolding transition_def
    by (intro quiet_bind 3) (simp split: option.split, intro impI allI quiet_bind quiet_modify quiet_simps, simp)
qed

lemma quiet_views [simp]: "quiet (publicView w)" "quiet (issuerView w)"
  unfolding issuerView_def publicView_def by (intro quiet_bind quiet_world quiet_simps)+

section \<open>Combinations of assignments\<close>

text \<open>
  Between two assignments of one step nothing can fail, so they are one step of the desk.
\<close>

lemma runs_modify_get:
  assumes "\<And>e. A (desk e) \<Longrightarrow> goes e (h (g (f e)) (f e))" and "\<And>D. runs (\<lambda>_. True) (k D) B"
  shows "runs A (bindE (modify f) (\<lambda>_. bindE (get g) (\<lambda>D. bindE (modify (h D)) (\<lambda>_. k D)))) B"
proof -
  have "bindE (modify f) (\<lambda>_. bindE (get g) (\<lambda>D. bindE (modify (h D)) (\<lambda>_. k D))) e =
      k (g (f e)) (h (g (f e)) (f e))" for e
    by (simp add: bindE_def modify_def get_def)
  moreover have "goes e (snd (k (g (f e)) (h (g (f e)) (f e)))) \<and>
      (\<forall>a. fst (k (g (f e)) (h (g (f e)) (f e))) = Inr a \<longrightarrow>
         B a (desk (snd (k (g (f e)) (h (g (f e)) (f e))))))" if "A (desk e)" for e
    using assms(2) [of "g (f e)"] goes_trans [OF assms(1) [OF that]] by (simp add: runs_def)
  ultimately show ?thesis by (simp add: runs_def)
qed

lemma runs_modify_lift:
  assumes "m = Inr R" and "\<And>e. A (desk e) \<Longrightarrow> goes e (h R (f e))" and "runs (\<lambda>_. True) k B"
  shows "runs A (bindE (modify f) (\<lambda>_. bindE (liftE m) (\<lambda>R. bindE (modify (h R)) (\<lambda>_. k)))) B"
proof -
  have "bindE (modify f) (\<lambda>_. bindE (liftE m) (\<lambda>R. bindE (modify (h R)) (\<lambda>_. k))) e = k (h R (f e))" for e
    by (simp add: bindE_def modify_def liftE_def assms(1))
  then show ?thesis
    using assms(2,3) by (auto simp: runs_def intro: goes_trans)
qed

lemma disk_setOrder [simp]: "eg_disk (setOrder r f e) = eg_disk e"
  by (simp add: setOrder_def)

lemma desk_setOrder [simp]: "desk (setOrder r f e) = (desk e)\<lparr>dk_orders := updOrder r f (dk_orders (desk e))\<rparr>"
  by (simp add: desk_def setOrder_def updOrder_def)

lemma desk_assignments [simp]:
  "desk (e\<lparr>bk_outstanding := n\<rparr>) = (desk e)\<lparr>dk_outstanding := n\<rparr>"
  "desk (e\<lparr>bk_deliveries := n\<rparr>) = (desk e)\<lparr>dk_deliveries := n\<rparr>"
  "desk (e\<lparr>bk_orders := os\<rparr>) = (desk e)\<lparr>dk_orders := os\<rparr>"
  "desk (e\<lparr>bk_repayments := rs\<rparr>) = (desk e)\<lparr>dk_repayments := rs\<rparr>"
  by (simp_all add: desk_def)

lemma desk_order [simp]:
  "d\<lparr>dk_outstanding := n, dk_orders := os\<rparr> = d\<lparr>dk_orders := os, dk_outstanding := n\<rparr>"
  "d\<lparr>dk_deliveries := n, dk_orders := os\<rparr> = d\<lparr>dk_orders := os, dk_deliveries := n\<rparr>"
  by simp_all

lemma desk_fields:
  "dk_orders (desk e) = bk_orders e" "dk_outstanding (desk e) = bk_outstanding e"
  "dk_repayments (desk e) = bk_repayments e" "dk_deliveries (desk e) = bk_deliveries e"
  by (simp_all add: desk_def)

abbreviation has :: "jsstr \<Rightarrow> order \<Rightarrow> desk \<Rightarrow> bool" where
  "has r x d \<equiv> map_of (dk_orders d) r = Some x"

lemma runs_order: "runs A (theOrder r) (\<lambda>x d. A d \<and> has r x d)"
  unfolding theOrder_def
  by (rule runs_bind [where C = "\<lambda>x d. A d \<and> map_of (dk_orders d) r = x"])
    (auto intro!: runs_get runs_ret runs_fail simp: getOrder_def desk_fields split: option.split)

text \<open>A step of the desk, then a checkpoint.\<close>

lemma runs_step:
  "(\<And>e. A (desk e) \<Longrightarrow> desk_step (desk e) (desk (f e)) \<and> eg_disk (f e) = eg_disk e) \<Longrightarrow> quiet k \<Longrightarrow>
     runs A (bindE (modify f) (\<lambda>_. k)) (\<lambda>_ _. True)"
  by (rule runs_bind [where C = "\<lambda>_ _. True"]) (auto intro!: runs_modify runs_quiet goes_step)

lemma runs_quietly: "quiet m \<Longrightarrow> (\<And>a. runs A (f a) B) \<Longrightarrow> runs A (bindE m f) B"
  by (rule runs_bind [where C = "\<lambda>_. A"]) (auto intro: runs_quiet)

lemma runs_true: "quiet m \<Longrightarrow> runs A m (\<lambda>_ _. True)"
  by (simp add: runs_def quiet_def goes_def)

section \<open>Resuming\<close>

lemma resumeExpiry_runs: "runs (has r x) (resumeExpiry w r x) (\<lambda>_ _. True)"
  unfolding resumeExpiry_def
  by (intro runs_if runs_step runs_quietly quiet_world runs_true quiet_simps)
    (simp add: desk_step.expire)

lemma resumeQuote_runs: "runs (has r x) (resumeQuote w r x) (\<lambda>_ _. True)"
  unfolding resumeQuote_def
  by (intro runs_if runs_step runs_quietly quiet_world runs_true quiet_simps)
    (simp add: desk_step.quote)

lemma resumeDeliver_runs: "runs (has r x) (resumeDeliver w r x) (\<lambda>_ _. True)"
  unfolding resumeDeliver_def
proof (intro runs_if runs_step runs_true quiet_simps quiet_world)
  fix e :: "'a engine"
  let ?out = "deliver w (od_service x) (od_document x)"
  assume "\<not> od_phase x \<noteq> Redeemed" and "has r x (desk e)"
  then have "desk_step (desk e) ((desk e)\<lparr>dk_orders := updOrder r (deliverOrder ?out) (dk_orders (desk e)),
      dk_deliveries := dk_deliveries (desk e) + 1\<rparr>)"
    by (intro desk_step.deliver) simp_all
  then show "desk_step (desk e) (desk (setOrder r (deliverOrder ?out)
      (e\<lparr>bk_deliveries := bk_deliveries e + 1\<rparr>))) \<and>
    eg_disk (setOrder r (deliverOrder ?out) (e\<lparr>bk_deliveries := bk_deliveries e + 1\<rparr>)) = eg_disk e"
    by (simp add: desk_fields)
qed

lemma resumeRedeem_runs: "od_phase x = Authorized \<Longrightarrow> runs (has r x) (resumeRedeem w r x) (\<lambda>_ _. True)"
  unfolding resumeRedeem_def
  by (intro runs_step runs_quietly quiet_bind quiet_world quiet_simps) (simp add: desk_step.redeem)

lemma resumeDraw_runs: "runs (has r x) (resumeDraw w r x) (\<lambda>_ _. True)"
  unfolding resumeDraw_def
proof (intro runs_if runs_quietly quiet_world quiet_simps, goal_cases)
  case 1
  show ?case by (rule runs_ret) simp
next
  case (2 newSalt keys)
  obtain merchantPk ps where keys: "keys = (merchantPk, ps)" by force
  have step: "desk_step d (d\<lparr>dk_outstanding := dk_outstanding d + rc_amount (od_receipt x),
      dk_orders := updOrder r (authorizeOrder D) (dk_orders d)\<rparr>)" if "has r x d" for d D
    using desk_step.authorize [OF that, of D] 2 by simp
  show ?case
    unfolding keys prod.case
  proof (rule runs_quietly [OF quiet_world(6)], rule runs_option)
    show "runs (has r x) (bindE (modify (setOrder r declineOrder)) (\<lambda>_. bindE (checkpoint w) (\<lambda>_. ret True)))
      (\<lambda>_ _. True)"
      using 2 by (intro runs_step quiet_bind quiet_world quiet_simps) (simp add: desk_step.decline)
  next
    fix s :: "'a session"
    show "runs (has r x) (bindE (modify (\<lambda>e. e\<lparr>bk_session := s,
          bk_outstanding := bk_outstanding e + rc_amount (od_receipt x),
          bk_epoch := bk_epoch e + 1, bk_salt := newSalt\<rparr>)) (\<lambda>_.
        bindE (get (\<lambda>e. let l = readLedger (wd_contract w) s in
            drawNoteCommit (wd_runtime w) \<lparr>np_domain = cl_contractDomain l,
              np_lineGeneration = cl_lineGeneration l, np_identity = agentId (wd_runtime w) (bk_agentKey e),
              np_quoteCommit = od_Q x, np_merchantPk = merchantPk, np_amount = rc_amount (od_receipt x),
              np_fee = Some 0, np_noteNonce = od_noteNonce x, np_expiry = od_expiry x\<rparr> (od_noteSalt x)))
          (\<lambda>D. bindE (modify (setOrder r (authorizeOrder D))) (\<lambda>_.
            bindE (checkpoint w) (\<lambda>_. ret False))))) (\<lambda>_ _. True)"
      using step [of "desk _"] by (intro runs_modify_get runs_true quiet_bind quiet_world quiet_simps)
        (intro goes_step, simp_all add: desk_fields)
  qed
qed

text \<open>
  The contract keeps a claim it has cancelled on its ledger: \<open>cancelOrExpireNote\<close> asserts that the
  claim is a member of \<open>notes\<close> and inserts its new state (\<open>contracts/line.compact\<close>).
\<close>

definition keeps_claims :: "'s compact_contract \<Rightarrow> bool" where
  "keeps_claims k \<longleftrightarrow> (\<forall>s ps t D m e s'. k_circuit k s ps t (GCancelOrExpire D m e) = Some s' \<longrightarrow>
     cl_notes (k_ledger k s') D \<noteq> None)"

definition accepted :: "'s compact_contract \<Rightarrow> private_state \<Rightarrow> circuit_call \<Rightarrow> 's \<Rightarrow> bool" where
  "accepted k ps c st \<longleftrightarrow> (\<exists>s t. k_circuit k s ps t (dispatch c) = Some st)"

lemma call_accepted:
  assumes "call k t s ps c = Inr (Some u)"
  shows "accepted k ps c (ss_state u)"
proof -
  have "k_circuit k (ss_state s) ps t (dispatch c) = Some (ss_state u)"
    using assms by (auto simp: call_def split: option.splits if_splits)
  then show ?thesis unfolding accepted_def by blast
qed

lemma runs_transition:
  "runs A (transition w ps c)
     (\<lambda>l d. A d \<and> (\<exists>st. l = k_ledger (wd_contract w) st \<and> accepted (wd_contract w) ps c st))"
  unfolding transition_def
proof (rule runs_bind [where C = "\<lambda>r d. A d \<and> (\<forall>u. r = Some u \<longrightarrow> accepted (wd_contract w) ps c (ss_state u))"])
  show "runs A (attemptCall w ps c)
      (\<lambda>r d. A d \<and> (\<forall>u. r = Some u \<longrightarrow> accepted (wd_contract w) ps c (ss_state u)))"
    unfolding attemptCall_def
    by (intro runs_quietly quiet_world quiet_simps runs_lift) (auto dest: call_accepted)
next
  fix r :: "'a session option"
  show "runs (\<lambda>d. A d \<and> (\<forall>u. r = Some u \<longrightarrow> accepted (wd_contract w) ps c (ss_state u)))
    (case r of None \<Rightarrow> fail 409 (case c of CDraw _ _ _ \<Rightarrow> ''Clearance could not be proven.''
        | _ \<Rightarrow> ''Contract transition rejected.'')
     | Some s \<Rightarrow> bindE (modify (bk_session_update (\<lambda>_. s))) (\<lambda>_. ret (readLedger (wd_contract w) s)))
    (\<lambda>l d. A d \<and> (\<exists>st. l = k_ledger (wd_contract w) st \<and> accepted (wd_contract w) ps c st))"
    by (intro runs_option runs_fail runs_quietly quiet_modify runs_ret) (auto simp: readLedger_def)
qed

lemma cancel_keeps: "keeps_claims k \<Longrightarrow> accepted k ps (CCancelOrExpire D m e) st \<Longrightarrow> cl_notes (k_ledger k st) D \<noteq> None"
  unfolding keeps_claims_def accepted_def dispatch.simps by metis

lemma resumeCompensate_runs:
  assumes "keeps_claims (wd_contract w)" and "od_phase x = Authorized"
  shows "runs (has r x) (resumeCompensate w r x) (\<lambda>_ _. True)"
  unfolding resumeCompensate_def Let_def
proof (rule runs_quietly, rule quiet_world, rule runs_bind [where C = "\<lambda>e d. has r x d \<and> bk_outstanding e = dk_outstanding d"],
    goal_cases)
  case 1
  then show ?case by (intro runs_get) (simp add: desk_fields)
next
  case (2 newSalt e)
  define credit where "credit = (if bk_outstanding e < rc_amount (od_receipt x) then bk_outstanding e
    else rc_amount (od_receipt x))"
  have step: "desk_step d (d\<lparr>dk_outstanding := dk_outstanding d - credit,
      dk_orders := updOrder r (compensateOrder \<lparr>oc_amount = rc_amount (od_receipt x) - credit,
        oc_credit = credit, oc_salt = newSalt, oc_commitment = R, oc_reportedReference = None\<rparr>)
        (dk_orders d)\<rparr>)"
    if "has r x d" "bk_outstanding e = dk_outstanding d" for d R
  proof -
    have "credit = (if dk_outstanding d < rc_amount (od_receipt x) then dk_outstanding d
      else rc_amount (od_receipt x))" using that(2) by (simp add: credit_def)
    then have "desk_step d (d\<lparr>dk_orders := updOrder r (compensateOrder
        \<lparr>oc_amount = rc_amount (od_receipt x) - credit, oc_credit = credit, oc_salt = newSalt,
         oc_commitment = R, oc_reportedReference = None\<rparr>) (dk_orders d),
        dk_outstanding := dk_outstanding d - oc_credit
          \<lparr>oc_amount = rc_amount (od_receipt x) - credit, oc_credit = credit, oc_salt = newSalt,
           oc_commitment = R, oc_reportedReference = None\<rparr>\<rparr>)"
      by (intro desk_step.compensate [OF that(1) assms(2)]) simp_all
    then show ?thesis by (simp only: desk_order order_compensation.select_convs)
  qed
  show ?case
    unfolding credit_def [symmetric]
  proof (rule runs_bind [OF runs_transition], goal_cases)
    case (1 l)
    show ?case
    proof (cases "cl_notes l (nullish (od_D x) [])")
      case None
      with assms(1) show ?thesis by (auto simp: runs_def dest: cancel_keeps)
    next
      case (Some n)
      then show ?thesis
        by (intro runs_modify_lift [where R = "cn_refundCommitment n"] runs_true quiet_bind)
          (auto simp: desk_fields intro!: goes_step step [of "desk _", unfolded desk_fields desk_order])
    qed
  qed
qed

lemma resumeClaim_runs:
  assumes "keeps_claims (wd_contract w)"
  shows "runs (has r x) (resumeClaim w r x) (\<lambda>_ _. True)"
  unfolding resumeClaim_def
  by (intro runs_if runs_quietly quiet_world runs_true quiet_simps resumeCompensate_runs resumeRedeem_runs assms)
    simp_all

text \<open>Between two parts of \<open>resume\<close> the order object is read again.\<close>

lemma runs_then_order:
  assumes "runs (has r x) m (\<lambda>_ _. True)" and "\<And>a y. runs (has r y) (k a y) (\<lambda>_ _. True)"
  shows "runs (has r x) (bindE m (\<lambda>a. bindE (theOrder r) (k a))) (\<lambda>_ _. True)"
  by (rule runs_bind [OF assms(1)], rule runs_bind [OF runs_order])
    (rule runs_pre [OF _ assms(2)], simp)

lemma resume_runs:
  assumes "keeps_claims (wd_contract w)"
  shows "runs (\<lambda>_. True) (resume w r) (\<lambda>_ _. True)"
  unfolding resume_def
  by (rule runs_bind [OF runs_order], rule runs_pre [where A' = "has r _"], simp)
    (intro runs_then_order runs_if resumeExpiry_runs resumeQuote_runs resumeDraw_runs
      resumeClaim_runs resumeDeliver_runs assms runs_true quiet_simps)

section \<open>Placing an order\<close>

lemma newOrder_runs:
  assumes "valid_intent r" and "trim doc \<noteq> []" and "length doc \<le> 8000"
  shows "runs A (newOrder w s doc r) (\<lambda>x d. A d \<and> pristine r x)"
  unfolding newOrder_def
  by (intro runs_quietly quiet_world quiet_simps runs_ret) (simp add: pristine_def terms_ok_def assms)

lemma assoc_set_new: "map_of os k = None \<Longrightarrow> assoc_set k v os = os @ [(k, v)]"
  by (induction os rule: assoc_set.induct [of _ k v]) (auto split: if_splits)

lemma place_runs:
  assumes "keeps_claims (wd_contract w)" and "pristine r x"
  shows "runs (\<lambda>d. map_of (dk_orders d) r = None)
    (bindE (modify (bk_orders_update (assoc_set r x))) (\<lambda>_. bindE (checkpoint w) (\<lambda>_. resume w r))) (\<lambda>_ _. True)"
proof (rule runs_bind [where C = "\<lambda>_ _. True"], rule runs_modify)
  fix e :: "'a engine"
  assume fresh: "map_of (dk_orders (desk e)) r = None"
  have "bk_orders_update (assoc_set r x) e = e\<lparr>bk_orders := assoc_set r x (bk_orders e)\<rparr>" by simp
  then have "desk (bk_orders_update (assoc_set r x) e) = (desk e)\<lparr>dk_orders := dk_orders (desk e) @ [(r, x)]\<rparr>"
    using fresh by (simp only: desk_assignments desk_fields assoc_set_new)
  then show "goes e (bk_orders_update (assoc_set r x) e) \<and> True"
    using desk_step.place [OF fresh assms(2)] by (auto intro!: goes_step)
next
  show "runs (\<lambda>_. True) (bindE (checkpoint w) (\<lambda>_. resume w r)) (\<lambda>_ _. True)" for a :: unit
    by (intro runs_quietly quiet_world resume_runs assms)
qed

lemma runs_engine: "(\<And>e. runs (\<lambda>d. A d \<and> d = desk e) (f e) B) \<Longrightarrow> runs A (bindE (get (\<lambda>e. e)) f) B"
  by (rule runs_bind [where C = "\<lambda>e d. A d \<and> d = desk e"]) (auto intro: runs_get)

lemma runs_exclusive: "runs A m B \<Longrightarrow> runs A (exclusive m) B"
  unfolding exclusive_def by (intro runs_quietly quiet_world)

lemma runs_intent: "(\<And>r. v = JStr r \<Longrightarrow> valid_intent r \<Longrightarrow> runs A (k r) B) \<Longrightarrow> runs A (bindE (requestIntent v) k) B"
  by (rule runs_bind [where C = "\<lambda>r d. A d \<and> (v = JStr r \<and> valid_intent r)"])
    (auto simp: requestIntent_def runs_def ret_def fail_def split: jsval.splits)

lemma placeOrder_runs:
  assumes "keeps_claims (wd_contract w)" and "valid_intent r" and "trim doc \<noteq> []" and "length doc \<le> 8000"
    and "map_of (bk_orders e) r = None"
  shows "runs (\<lambda>d. d = desk e) (placeOrder w wall s doc r e) (\<lambda>_ _. True)"
proof -
  have place: "runs (\<lambda>d. d = desk e \<and> pristine r x)
    (bindE (modify (bk_orders_update (assoc_set r x))) (\<lambda>_. bindE (checkpoint w) (\<lambda>_. resume w r)))
    (\<lambda>_ _. True)" for x
  proof (cases "pristine r x")
    case True
    then show ?thesis
      using assms(5) by (intro runs_pre [OF _ place_runs [OF assms(1)]]) (auto simp: desk_fields)
  qed (simp add: runs_def)
  show ?thesis
    unfolding placeOrder_def
    by (intro place runs_bind [OF newOrder_runs [OF assms(2-4)]] runs_quietly quiet_simps)
qed

lemma serveOrder_runs:
  assumes "keeps_claims (wd_contract w)" and "valid_intent r" and "trim doc \<noteq> []" and "length doc \<le> 8000"
  shows "runs (\<lambda>_. True) (serveOrder w wall s doc r) (\<lambda>_ _. True)"
  unfolding serveOrder_def
proof (intro runs_engine runs_option runs_if runs_fail, goal_cases)
  case (1 e)
  show ?case
    by (rule runs_pre [OF _ placeOrder_runs [OF assms]]) (use 1 in \<open>simp_all add: getOrder_def\<close>)
next
  case (2 e prior)
  show ?case by (rule runs_pre [OF _ resume_runs [OF assms(1)]]) simp
qed

lemma purchase_runs:
  assumes "keeps_claims (wd_contract w)"
  shows "runs (\<lambda>_. True) (purchase w wall sv dv rv) (\<lambda>_ _. True)"
  by (auto simp: purchase_def runs_fail split: option.split jsval.split
      intro!: runs_intent runs_exclusive serveOrder_runs assms)

section \<open>Receipts\<close>

lemma runs_units: "(\<And>n. 1 \<le> n \<Longrightarrow> runs A (k n) B) \<Longrightarrow> runs A (bindE (units v l) k) B"
  by (rule runs_bind [where C = "\<lambda>n d. A d \<and> 1 \<le> n"])
    (auto simp: units_def runs_def ret_def fail_def split: option.splits if_splits)

lemma runs_checked: "(b \<Longrightarrow> runs A (k ()) B) \<Longrightarrow> runs A (bindE (demand b st msg) k) B"
  by (rule runs_bind [where C = "\<lambda>_ d. A d \<and> b"]) (auto simp: runs_def demand_def ret_def fail_def)

lemma desk_acknowledge:
  assumes "valid_intent r" and "1 \<le> n" and "n \<le> bk_outstanding e" and "map_of (bk_repayments e) r = None"
    and "\<not> list_ex (\<lambda>(k, y). reported r y) (bk_orders e)" and "desk e' = desk e"
  shows "desk_step (desk e) ((desk e)\<lparr>dk_outstanding := bk_outstanding e' - n,
    dk_repayments := assoc_set r n (bk_repayments e')\<rparr>)"
proof -
  have eqs: "bk_repayments e' = bk_repayments e" "bk_outstanding e' = bk_outstanding e"
    using assms(6) by (simp_all add: desk_def)
  have "desk_step (desk e) ((desk e)\<lparr>dk_outstanding := dk_outstanding (desk e) - n,
      dk_repayments := dk_repayments (desk e) @ [(r, n)]\<rparr>)"
    by (intro desk_step.acknowledge) (use assms in \<open>auto simp: desk_fields settledBy_def\<close>)
  then show ?thesis
    using assms(4) eqs by (simp add: desk_fields assoc_set_new)
qed

lemma acknowledge_runs: "runs (\<lambda>_. True) (acknowledge w av rv) (\<lambda>_ _. True)"
  unfolding acknowledge_def
proof (intro runs_units runs_intent runs_exclusive runs_engine runs_option, goal_cases)
  case (1 n r e)
  then show ?case
    by (intro runs_checked runs_step runs_quietly quiet_simps quiet_world quiet_bind quiet_views)
      (auto intro!: desk_acknowledge)
next
  case (2 n r e s)
  then show ?case by (intro runs_if runs_fail runs_true quiet_views)
qed

lemma desk_report:
  assumes "map_of (bk_orders e) r = Some x" and "od_compensation x = Some c" and "oc_amount c \<noteq> 0"
    and "truthy (oc_reportedReference c) = None" and "valid_intent ref" and "map_of (bk_repayments e) ref = None"
    and "\<not> list_ex (\<lambda>p. reported ref (snd p)) (bk_orders e)"
  shows "desk_step (desk e) ((desk e)\<lparr>dk_orders := updOrder r (reportOrder ref) (dk_orders (desk e))\<rparr>)"
  by (rule desk_step.report) (use assms in \<open>auto simp: desk_fields settledBy_def split_def\<close>)

lemma reportCashRefund_runs: "runs (\<lambda>_. True) (reportCashRefund w ov rv) (\<lambda>_ _. True)"
  unfolding reportCashRefund_def
proof (intro runs_intent runs_exclusive runs_engine runs_option runs_fail, simp only: split_def,
    intro runs_if runs_fail runs_option, goal_cases)
  case (1 r ref e p)
  then show ?case
    by (intro runs_checked runs_step runs_quietly quiet_simps quiet_world quiet_bind quiet_views)
      (auto intro: desk_report simp: bind_eq_Some_conv getOrder_def)
next
  case 2
  show ?case by (rule runs_true) simp
qed

end
