(* ===== verification/Checkout_Durability.thy ===== *)
theory Checkout_Durability
  imports Checkout_Refinement
begin

text \<open>
  Sessions of the evaluation, and what is on disk. An operation assigns to the engine and then writes
  a checkpoint; a rule for each way an operation is put together shows that after every operation,
  however it ends, either the engine has failed or its checkpoint holds exactly its books.
\<close>

section \<open>Sessions\<close>

text \<open>The operations the server calls, and a restart that recovers the last checkpoint.\<close>

datatype co_op =
    Configure jsval jsval
  | Purchase int jsval jsval jsval
  | Acknowledge jsval jsval
  | ReportRefund jsval jsval
  | PublicView
  | IssuerView
  | Obligations
  | Restart

definition afterwards :: "('s, 'a) co \<Rightarrow> 's engine \<Rightarrow> 's engine" where
  "afterwards m e = snd (m e)"

fun serve :: "'s world \<Rightarrow> co_op \<Rightarrow> 's engine \<Rightarrow> 's engine" where
  "serve w (Configure l r) e = afterwards (configure w l r) e"
| "serve w (Purchase wall s d r) e = afterwards (purchase w wall s d r) e"
| "serve w (Acknowledge a r) e = afterwards (acknowledge w a r) e"
| "serve w (ReportRefund x r) e = afterwards (reportCashRefund w x r) e"
| "serve w PublicView e = afterwards (publicView w) e"
| "serve w IssuerView e = afterwards (issuerView w) e"
| "serve w Obligations e = afterwards (hasOutstandingObligations w) e"
| "serve w Restart e = (case eg_disk e of
     Some s \<Rightarrow> (case recover w s of Inr e' \<Rightarrow> e' | Inl _ \<Rightarrow> e)
   | None \<Rightarrow> e)"

definition served :: "'s world \<Rightarrow> co_op list \<Rightarrow> 's engine \<Rightarrow> 's engine" where
  "served w ops e = foldl (\<lambda>e a. serve w a e) e ops"

lemma served_simps [simp]:
  "served w [] e = e" "served w (op # ops) e = served w ops (serve w op e)"
  by (simp_all add: served_def)

lemma served_append: "served w (as @ bs) e = served w bs (served w as e)"
  by (simp add: served_def)

section \<open>A logic of checkpoints\<close>

text \<open>
  Between a change and its checkpoint the engine is only \<open>unwritten\<close>: no write is in progress. An
  operation must not end there with an error.
\<close>

definition unwritten :: "'s engine \<Rightarrow> bool" where
  "unwritten e \<longleftrightarrow> \<not> eg_checkpointing e"

definition durable :: "'s engine \<Rightarrow> bool" where
  "durable e \<longleftrightarrow> unwritten e \<and> (eg_storage e \<longrightarrow> eg_failed e \<or> eg_disk e = Some (snapshot e))"

definition triple :: "('s engine \<Rightarrow> bool) \<Rightarrow> ('s, 'a) co \<Rightarrow> ('a \<Rightarrow> 's engine \<Rightarrow> bool) \<Rightarrow> bool" where
  "triple A m B \<longleftrightarrow> (\<forall>e. A e \<longrightarrow>
     (case m e of (Inr a, e') \<Rightarrow> B a e' | (Inl _, e') \<Rightarrow> durable e'))"

abbreviation keeps_durable :: "('s, 'a) co \<Rightarrow> bool" where
  "keeps_durable m \<equiv> triple durable m (\<lambda>_. durable)"

lemma triple_bind:
  assumes "triple A m C" and "\<And>a. triple (C a) (f a) B"
  shows "triple A (bindE m f) B"
  unfolding triple_def
proof (intro allI impI)
  fix e :: "'a engine"
  assume "A e"
  obtain r e' where m: "m e = (r, e')" by force
  show "case bindE m f e of (Inr b, e') \<Rightarrow> B b e' | (Inl _, e') \<Rightarrow> durable e'"
  proof (cases r)
    case (Inl x)
    then show ?thesis using assms(1) \<open>A e\<close> m by (auto simp: triple_def bindE_def)
  next
    case (Inr a)
    then have "C a e'" using assms(1) \<open>A e\<close> m by (auto simp: triple_def)
    then show ?thesis using assms(2) [of a] m Inr by (simp add: triple_def bindE_def)
  qed
qed

lemma triple_pre: "(\<And>e. A e \<Longrightarrow> A' e) \<Longrightarrow> triple A' m B \<Longrightarrow> triple A m B"
  by (simp add: triple_def)

lemma triple_ret: "(\<And>e. A e \<Longrightarrow> B a e) \<Longrightarrow> triple A (ret a) B"
  by (simp add: triple_def ret_def)

lemma triple_fail: "(\<And>e. A e \<Longrightarrow> durable e) \<Longrightarrow> triple A (fail st msg) B"
  by (simp add: triple_def fail_def)

lemma triple_get: "(\<And>e. A e \<Longrightarrow> B (f e) e) \<Longrightarrow> triple A (get f) B"
  by (simp add: triple_def get_def)

lemma triple_modify: "(\<And>e. A e \<Longrightarrow> B () (f e)) \<Longrightarrow> triple A (modify f) B"
  by (simp add: triple_def modify_def)

lemma triple_if: "(b \<Longrightarrow> triple A m B) \<Longrightarrow> (\<not> b \<Longrightarrow> triple A n B) \<Longrightarrow> triple A (if b then m else n) B"
  by simp

lemma triple_option:
  "(r = None \<Longrightarrow> triple A m B) \<Longrightarrow> (\<And>s. r = Some s \<Longrightarrow> triple A (f s) B) \<Longrightarrow>
     triple A (case r of None \<Rightarrow> m | Some s \<Rightarrow> f s) B"
  by (simp split: option.split)

text \<open>Reading the engine, the clock, random bytes or an outcome leaves the books alone.\<close>

definition same_books :: "'s engine \<Rightarrow> 's engine \<Rightarrow> bool" where
  "same_books e e' \<longleftrightarrow> books.truncate e' = books.truncate e \<and> eg_failed e' = eg_failed e \<and>
     eg_checkpointing e' = eg_checkpointing e \<and> eg_storage e' = eg_storage e \<and> eg_disk e' = eg_disk e"

definition still :: "('s, 'a) co \<Rightarrow> bool" where
  "still m \<longleftrightarrow> (\<forall>e. same_books e (snd (m e)))"

lemma same_books_refl [simp]: "same_books e e"
  by (simp add: same_books_def)

lemma same_books_trans: "same_books e e' \<Longrightarrow> same_books e' e'' \<Longrightarrow> same_books e e''"
  by (simp add: same_books_def)

lemma same_books_durable: "same_books e e' \<Longrightarrow> durable e' = durable e"
  by (simp add: same_books_def durable_def unwritten_def snapshot_def)

lemma still_bind:
  assumes "still m" and "\<And>a. still (f a)"
  shows "still (bindE m f)"
  unfolding still_def
proof
  fix e :: "'a engine"
  obtain r e' where m: "m e = (r, e')" by force
  then have e': "same_books e e'" using assms(1) by (auto simp: still_def dest: spec [of _ e])
  show "same_books e (snd (bindE m f e))"
  proof (cases r)
    case (Inr a)
    then show ?thesis
      using same_books_trans [OF e'] assms(2) [of a] m by (simp add: still_def bindE_def)
  qed (simp add: bindE_def m e')
qed

lemma still_simps [simp]:
  "still (ret a)" "still (fail st msg)" "still (get f)" "still (liftE m)" "still (demand b st msg)"
  by (auto simp: still_def ret_def fail_def get_def liftE_def demand_def split: sum.splits stop.splits)

lemma still_if [simp]: "still m \<Longrightarrow> still n \<Longrightarrow> still (if b then m else n)"
  by simp

lemma still_counters: "still (modify (eg_draws_update f))" "still (modify (eg_reads_update f))"
  by (simp_all add: still_def modify_def same_books_def books.defs)

lemma still_world [simp]:
  "still (random w)" "still (reading w)" "still (now w)" "still ensureAvailable" "still (attemptCall w ps c)"
  unfolding random_def reading_def now_def ensureAvailable_def attemptCall_def
  by (intro still_bind still_counters still_if still_simps)+

lemma still_views [simp]:
  "still (publicView w)" "still (issuerView w)" "still (hasOutstandingObligations w)"
  unfolding issuerView_def publicView_def hasOutstandingObligations_def
  by (intro still_bind still_world still_simps)+

lemma triple_still:
  assumes "still m"
  shows "keeps_durable m"
  unfolding triple_def
proof (intro allI impI)
  fix e :: "'a engine"
  assume "durable e"
  then have "durable (snd (m e))" using assms same_books_durable by (auto simp: still_def)
  then show "case m e of (Inr _, e') \<Rightarrow> durable e' | (Inl _, e') \<Rightarrow> durable e'"
    by (cases "m e") (auto split: sum.split)
qed

lemma triple_checkpoint: "triple unwritten (checkpoint w) (\<lambda>_. durable)"
  unfolding checkpoint_def
  by (auto simp: triple_def bindE_def get_def modify_def ret_def fail_def durable_def unwritten_def snapshot_def
      books.defs)

lemma triple_checkpointed:
  "triple durable k B \<Longrightarrow> triple unwritten (bindE (checkpoint w) (\<lambda>_. k)) B"
  by (rule triple_bind [OF triple_checkpoint]) simp

lemma triple_assign:
  "(\<And>e. unwritten (f e) = unwritten e) \<Longrightarrow> triple unwritten k B \<Longrightarrow> triple unwritten (bindE (modify f) (\<lambda>_. k)) B"
  by (rule triple_bind [where C = "\<lambda>_. unwritten"]) (auto intro: triple_modify)

lemma triple_read: "(\<And>a. triple A (f a) B) \<Longrightarrow> triple A (bindE (get g) f) B"
  by (rule triple_bind [where C = "\<lambda>_. A"]) (auto intro: triple_get)

lemma triple_quiet: "still m \<Longrightarrow> (\<And>a. triple durable (f a) B) \<Longrightarrow> triple durable (bindE m f) B"
  by (rule triple_bind [OF triple_still])

lemma durable_idle: "durable e \<Longrightarrow> unwritten e"
  by (simp add: durable_def)

lemma triple_idle: "triple unwritten m B \<Longrightarrow> triple durable m B"
  by (rule triple_pre [OF durable_idle])

lemma idle_updates [simp]:
  "unwritten (bk_session_update a e) = unwritten e" "unwritten (bk_limit_update b e) = unwritten e"
  "unwritten (bk_outstanding_update b e) = unwritten e" "unwritten (bk_epoch_update b e) = unwritten e"
  "unwritten (bk_salt_update c e) = unwritten e" "unwritten (bk_opened_update d e) = unwritten e"
  "unwritten (bk_fundedReserve_update b e) = unwritten e" "unwritten (bk_orders_update f e) = unwritten e"
  "unwritten (bk_repayments_update g e) = unwritten e" "unwritten (bk_deliveries_update b e) = unwritten e"
  "unwritten (setOrder r h e) = unwritten e"
  by (simp_all add: unwritten_def setOrder_def)

text \<open>A circuit that is accepted changes the session; a checkpoint must follow.\<close>

lemma triple_lift: "(\<And>a e. m = Inr a \<Longrightarrow> durable e \<Longrightarrow> B a e) \<Longrightarrow> triple durable (liftE m) B"
  by (auto simp: triple_def liftE_def split: sum.splits stop.splits)

lemma triple_known: "(P \<Longrightarrow> triple A m B) \<Longrightarrow> triple (\<lambda>e. A e \<and> P) m B"
  by (auto simp: triple_def)

lemma triple_attempt:
  "triple durable (attemptCall w ps c)
     (\<lambda>r e. durable e \<and> (\<forall>u. r = Some u \<longrightarrow> accepted (wd_contract w) ps c (ss_state u)))"
  unfolding attemptCall_def
  by (intro triple_quiet still_world still_simps triple_lift) (auto dest: call_accepted)

lemma triple_transition:
  assumes "\<And>l st. l = k_ledger (wd_contract w) st \<Longrightarrow> accepted (wd_contract w) ps c st \<Longrightarrow> triple unwritten (k l) B"
  shows "triple durable (bindE (transition w ps c) k) B"
  unfolding transition_def
proof (rule triple_bind [where C = "\<lambda>l e. unwritten e \<and>
    (\<exists>st. l = k_ledger (wd_contract w) st \<and> accepted (wd_contract w) ps c st)"], rule triple_bind [OF triple_attempt])
  fix r :: "'a session option"
  show "triple (\<lambda>e. durable e \<and> (\<forall>u. r = Some u \<longrightarrow> accepted (wd_contract w) ps c (ss_state u)))
    (case r of None \<Rightarrow> fail 409 (case c of CDraw _ _ _ \<Rightarrow> ''Clearance could not be proven.''
        | _ \<Rightarrow> ''Contract transition rejected.'')
     | Some s \<Rightarrow> bindE (modify (bk_session_update (\<lambda>_. s))) (\<lambda>_. ret (readLedger (wd_contract w) s)))
    (\<lambda>l e. unwritten e \<and> (\<exists>st. l = k_ledger (wd_contract w) st \<and> accepted (wd_contract w) ps c st))"
    by (intro triple_option triple_fail triple_known triple_idle triple_assign triple_ret)
      (auto simp: readLedger_def)
next
  fix l
  show "triple (\<lambda>e. unwritten e \<and> (\<exists>st. l = k_ledger (wd_contract w) st \<and> accepted (wd_contract w) ps c st)) (k l) B"
    by (rule triple_known) (auto intro: assms)
qed

section \<open>The operations\<close>

lemma triple_assigned:
  "(\<And>e. unwritten (f e) = unwritten e) \<Longrightarrow> triple unwritten k B \<Longrightarrow> triple durable (bindE (modify f) (\<lambda>_. k)) B"
  by (intro triple_idle triple_assign)

lemmas triple_reads = triple_quiet [OF still_world(1)] triple_quiet [OF still_world(2)]
  triple_quiet [OF still_world(3)] triple_quiet [OF still_world(4)] triple_quiet [OF still_simps(4)]
  triple_quiet [OF still_simps(5)] triple_quiet [OF still_views(1)]

text \<open>The rules by which an operation is taken apart.\<close>

lemmas durably = triple_if triple_transition triple_assigned triple_assign triple_checkpointed
  triple_checkpoint triple_reads triple_read triple_ret triple_option

lemma theOrder_still: "still (theOrder r)"
  unfolding theOrder_def by (intro still_bind still_simps) (simp split: option.split)

lemma resumeExpiry_durable: "keeps_durable (resumeExpiry w r x)"
  unfolding resumeExpiry_def by (intro durably) simp_all

lemma resumeQuote_durable: "keeps_durable (resumeQuote w r x)"
  unfolding resumeQuote_def by (intro durably) simp_all

lemma resumeRedeem_durable: "keeps_durable (resumeRedeem w r x)"
  unfolding resumeRedeem_def by (intro durably) simp_all

lemma resumeDeliver_durable: "keeps_durable (resumeDeliver w r x)"
  unfolding resumeDeliver_def by (intro durably) simp_all

lemma resumeDraw_durable: "keeps_durable (resumeDraw w r x)"
  unfolding resumeDraw_def
proof (intro triple_if triple_reads triple_read triple_ret, assumption, unfold split_def,
    intro triple_quiet [OF still_world(5)] durably, goal_cases)
qed simp_all

lemma ret_bind: "bindE (ret a) f = f a"
  by (simp add: fun_eq_iff bindE_def ret_def)

lemma resumeCompensate_durable:
  assumes "keeps_claims (wd_contract w)"
  shows "keeps_durable (resumeCompensate w r x)"
  unfolding resumeCompensate_def Let_def
proof (intro triple_reads triple_read triple_transition, goal_cases)
  case (1 newSalt e l st)
  then obtain n where "cl_notes l (nullish (od_D x) []) = Some n"
    using cancel_keeps [OF assms] by blast
  then have lift: "liftE (case cl_notes l (nullish (od_D x) []) of Some n \<Rightarrow> Inr (cn_refundCommitment n)
      | None \<Rightarrow> Inl (Throw (Error ''lookup''))) = ret (cn_refundCommitment n)"
    by (simp add: fun_eq_iff liftE_def ret_def)
  show ?case
    unfolding lift ret_bind by (intro durably) simp_all
qed

lemma resumeClaim_durable: "keeps_claims (wd_contract w) \<Longrightarrow> keeps_durable (resumeClaim w r x)"
  unfolding resumeClaim_def
  by (intro triple_if triple_reads triple_ret resumeCompensate_durable resumeRedeem_durable)

lemma resume_durable:
  assumes "keeps_claims (wd_contract w)"
  shows "keeps_durable (resume w r)"
  unfolding resume_def
  by (intro triple_quiet [OF theOrder_still] triple_if triple_ret
      triple_bind [OF resumeExpiry_durable] triple_bind [OF resumeQuote_durable]
      triple_bind [OF resumeDraw_durable] triple_bind [OF resumeClaim_durable [OF assms]]
      triple_bind [OF resumeDeliver_durable]) assumption+

lemma newOrder_still: "still (newOrder w s doc r)"
  unfolding newOrder_def by (intro still_bind still_world still_simps)

lemma triple_exclusive: "triple durable m B \<Longrightarrow> triple durable (exclusive m) B"
  unfolding exclusive_def by (intro triple_reads)

lemma still_inputs [simp]: "still (units v l)" "still (requestIntent v)"
  by (simp_all add: units_def requestIntent_def split: option.split jsval.split)

lemma triple_refused: "triple durable (fail st msg) B"
  by (rule triple_fail)

lemma purchase_durable:
  assumes "keeps_claims (wd_contract w)"
  shows "keeps_durable (purchase w wall sv dv rv)"
proof -
  have "keeps_durable (placeOrder w wall s doc r e)" for s doc r e
    unfolding placeOrder_def
    by (intro triple_reads triple_quiet [OF newOrder_still] triple_assigned triple_checkpointed
        resume_durable assms) simp
  then have "keeps_durable (serveOrder w wall s doc r)" for s doc r
    unfolding serveOrder_def
    by (intro triple_read triple_option triple_if triple_refused resume_durable assms)
  then show ?thesis
    by (auto simp: purchase_def triple_refused split: option.split jsval.split
        intro!: triple_quiet [OF still_inputs(2)] triple_exclusive)
qed

lemma acknowledge_durable: "keeps_durable (acknowledge w av rv)"
  unfolding acknowledge_def
  by (intro triple_quiet [OF still_inputs(1)] triple_quiet [OF still_inputs(2)] triple_exclusive
      triple_refused triple_still [OF still_views(2)] durably) simp_all

lemma reportCashRefund_durable: "keeps_durable (reportCashRefund w ov rv)"
  unfolding reportCashRefund_def split_def
  by (intro triple_quiet [OF still_inputs(2)] triple_exclusive
      triple_refused triple_still [OF still_views(2)] durably) simp_all

text \<open>
  \<open>configure\<close> assigns the limit before a circuit that may be refused; the books have that limit
  already, from the funding or by the check of a retry.
\<close>

definition limited :: "int \<Rightarrow> 's engine \<Rightarrow> bool" where
  "limited credit e \<longleftrightarrow> durable e \<and> bk_limit e = credit"

lemma checkpoint_limited: "triple (\<lambda>e. unwritten e \<and> bk_limit e = credit) (checkpoint w) (\<lambda>_. limited credit)"
  unfolding checkpoint_def
  by (auto simp: triple_def bindE_def get_def modify_def ret_def fail_def durable_def unwritten_def snapshot_def
      books.defs limited_def)

lemma limited_assign:
  assumes "triple durable k B"
  shows "triple (limited credit) (bindE (modify (bk_limit_update (\<lambda>_. credit))) (\<lambda>_. k)) B"
proof (rule triple_bind [where C = "\<lambda>_. durable"], rule triple_modify)
  fix e :: "'a engine"
  assume "limited credit e"
  then have "bk_limit_update (\<lambda>_. credit) e = e" and d: "durable e"
    by (cases e, simp add: limited_def)+
  with d show "durable (bk_limit_update (\<lambda>_. credit) e)" by (simp only:)
qed (use assms in simp)

lemma openFacility_durable: "triple (limited credit) (openFacility w credit e) (\<lambda>_. durable)"
  unfolding openFacility_def
  by (rule limited_assign, intro triple_still [OF still_views(2)] durably) simp_all

lemma fundFacility_limited: "triple (\<lambda>d. durable d \<and> d = e) (fundFacility w credit backing e) (\<lambda>_. limited credit)"
proof (cases "bk_fundedReserve e = 0")
  case True
  have "triple durable (bindE (transition w (blankPrivate\<lparr>ps_callerSecret := bk_issuerKey e\<rparr>) (CFundReserve backing)) (\<lambda>_.
       bindE (modify (\<lambda>e. e\<lparr>bk_fundedReserve := backing, bk_limit := credit\<rparr>)) (\<lambda>_. checkpoint w)))
     (\<lambda>_. limited credit)"
    by (rule triple_transition, rule triple_bind [OF triple_modify checkpoint_limited]) (simp add: unwritten_def)
  then show ?thesis
    using True by (simp add: fundFacility_def demand_def ret_bind) (rule triple_pre, simp_all)
next
  case False
  then show ?thesis
    by (simp add: fundFacility_def triple_def demand_def ret_def fail_def bindE_def limited_def)
qed

lemma configure_durable: "keeps_durable (configure w lv rv)"
  unfolding configure_def
proof (intro triple_quiet [OF still_inputs(1)] triple_exclusive
    triple_bind [where C = "\<lambda>e d. durable d \<and> d = e"] triple_get triple_if, simp, goal_cases)
  case 1
  show ?case by (rule triple_pre [OF _ triple_still]) simp_all
next
  case 2
  show ?case by (rule triple_fail) simp
next
  case (3 credit backing e)
  show ?case by (rule triple_bind [OF fundFacility_limited openFacility_durable])
qed

section \<open>Whole sessions\<close>

lemma create_runs: "runs (\<lambda>_. True) (create w) (\<lambda>_ _. True)"
  unfolding create_def split_def by (intro runs_quietly runs_true quiet_simps quiet_world)

lemma configure_runs: "runs (\<lambda>_. True) (configure w lv rv) (\<lambda>_ _. True)"
proof (rule runs_true)
  have "quiet (fundFacility w credit backing e)" "quiet (openFacility w credit e)" for credit backing e
    unfolding fundFacility_def openFacility_def
    by (intro quiet_bind quiet_if quiet_simps quiet_world quiet_views quiet_modify; simp)+
  moreover have "quiet (units v l)" for v l
    by (simp add: units_def split: option.split)
  ultimately show "quiet (configure w lv rv)"
    unfolding configure_def exclusive_def
    by (intro quiet_bind quiet_if quiet_simps quiet_world quiet_views)
qed

lemma runs_goes: "runs (\<lambda>_. True) m B \<Longrightarrow> goes e (afterwards m e)"
  by (simp add: runs_def afterwards_def)

lemma serve_goes: "keeps_claims (wd_contract w) \<Longrightarrow> op \<noteq> Restart \<Longrightarrow> goes e (serve w op e)"
  by (cases op) (auto intro!: runs_goes configure_runs purchase_runs acknowledge_runs reportCashRefund_runs
      runs_true [where A = "\<lambda>_. True"] simp: hasOutstandingObligations_def quiet_bind)

lemma served_desk:
  assumes "keeps_claims (wd_contract w)" and "Restart \<notin> set ops"
  shows "desk_steps (desk e) (desk (served w ops e))"
  using assms(2)
proof (induction ops arbitrary: e)
  case (Cons a ops)
  then have "desk_steps (desk e) (desk (serve w a e))" using serve_goes [OF assms(1)] by (auto simp: goes_def)
  moreover have "desk_steps (desk (serve w a e)) (desk (served w ops (serve w a e)))" using Cons by simp
  ultimately show ?case by simp
qed simp

text \<open>Recovery builds the engine of its checkpoint, or none.\<close>

lemma bindS_Inr: "bindS m f = Inr b \<longleftrightarrow> (\<exists>a. m = Inr a \<and> f a = Inr b)"
  by (cases m) auto

lemma require_Inr [simp]: "require b msg = Inr () \<longleftrightarrow> b"
  by (simp add: require_def refuse_def)

lemma recover_restored:
  assumes "recover w s = Inr e"
  shows "e = restored s" and "snapshot (restored s) = s"
proof -
  show "e = restored s" using assms by (auto simp: recover_def bindS_Inr Let_def)
  have "sn_version s = 4 \<and> sn_deadlineUnits s = ''unix-seconds'' \<and> sn_settlement s = ''private-compensation-v1''"
    using assms by (auto simp: recover_def recoverHeader_def bindS_Inr Let_def)
  then show "snapshot (restored s) = s"
    by (cases s) (simp add: restored_def snapshot_def books.defs)
qed

lemma restored_fields [simp]:
  "desk (restored s) = desk s" "eg_disk (restored s) = Some s" "eg_storage (restored s)"
  "\<not> eg_failed (restored s)" "\<not> eg_checkpointing (restored s)" "books.truncate (restored s) = books.truncate s"
  by (simp_all add: restored_def desk_def books.defs)

lemma snapshot_fields [simp]:
  "desk (snapshot e) = desk e" "books.truncate (snapshot e) = books.truncate e"
  by (simp_all add: snapshot_def desk_def books.defs)

definition sound :: "'s engine \<Rightarrow> bool" where
  "sound e \<longleftrightarrow> desk_ok (desk e) \<and> (\<forall>s. eg_disk e = Some s \<longrightarrow> desk_ok (desk s))"

lemma goes_sound: "goes e e' \<Longrightarrow> sound e \<Longrightarrow> sound e'"
  unfolding goes_def disk_from_def sound_def using desk.steps_inv by metis

lemma serve_sound:
  assumes "keeps_claims (wd_contract w)" and "sound e"
  shows "sound (serve w op e)"
proof (cases "op = Restart")
  case True
  then show ?thesis
    using assms(2) by (auto simp: sound_def split: option.split sum.split dest!: recover_restored(1))
qed (use goes_sound serve_goes [OF assms(1)] assms(2) in blast)

lemma served_sound: "keeps_claims (wd_contract w) \<Longrightarrow> sound e \<Longrightarrow> sound (served w ops e)"
  by (induction ops arbitrary: e) (simp_all add: serve_sound)

lemma created_sound: "sound (afterwards (create w) (newEngine w stored))"
proof (rule goes_sound [OF runs_goes [OF create_runs]])
  show "sound (newEngine w stored)"
    using desk_empty by (simp add: sound_def newEngine_def Let_def desk_def)
qed

lemma triple_after: "triple A m (\<lambda>_. durable) \<Longrightarrow> A e \<Longrightarrow> durable (afterwards m e)"
  by (cases "m e") (auto simp: triple_def afterwards_def split: sum.splits dest!: spec [of _ e])

lemma recovered_durable:
  assumes "recover w s = Inr e"
  shows "durable e"
  unfolding recover_restored(1) [OF assms]
  by (simp add: durable_def unwritten_def recover_restored(2) [OF assms])

lemma serve_durable:
  assumes "keeps_claims (wd_contract w)" and "durable e"
  shows "durable (serve w op e)"
proof (cases "op = Restart")
  case True
  then show ?thesis
    using assms(2) by (auto split: option.split sum.split dest: recover_restored intro: recovered_durable)
next
  case False
  then show ?thesis
    by (cases op) (simp_all add: triple_after [where A = durable] assms configure_durable purchase_durable
        acknowledge_durable reportCashRefund_durable triple_still)
qed

lemma served_durable: "keeps_claims (wd_contract w) \<Longrightarrow> durable e \<Longrightarrow> durable (served w ops e)"
  by (induction ops arbitrary: e) (simp_all add: serve_durable)

lemma transition_idle: "unwritten (snd (transition w ps c e)) = unwritten e"
proof -
  obtain r e' where m: "attemptCall w ps c e = (r, e')" by force
  then have "same_books e e'" using still_world(5) [of w ps c] by (auto simp: still_def dest: spec [of _ e])
  then have "unwritten e' = unwritten e" by (simp add: same_books_def unwritten_def)
  then show ?thesis
    by (simp add: transition_def bindE_def m modify_def ret_def fail_def split: sum.split option.split)
qed

lemma created_durable:
  assumes "fst (create w (newEngine w stored)) = Inr ()"
  shows "durable (afterwards (create w) (newEngine w stored))"
proof -
  let ?e = "newEngine w stored :: 'a engine"
  let ?t = "transition w (blankPrivate\<lparr>ps_callerSecret := bk_issuerKey ?e\<rparr>)
    (CRegisterMerchant (encodeMerchantPublicKey (wd_runtime w) (bk_merchantB ?e))) ?e"
  obtain l where l: "fst ?t = Inr l"
    using assms by (cases "fst ?t") (auto simp: create_def bindE_def get_def split: prod.splits)
  then have created: "create w ?e = checkpoint w (snd ?t)"
    by (auto simp: create_def bindE_def get_def split: prod.splits)
  have "unwritten (snd ?t)" by (simp add: transition_idle) (simp add: unwritten_def newEngine_def Let_def)
  then show ?thesis
    using triple_after [OF triple_checkpoint [of w]] created by (simp add: afterwards_def)
qed

end
