(* ===== verification/Checkout_Settling.thy ===== *)
theory Checkout_Settling
  imports Checkout_Durability
begin

text \<open>
  A retry finishes an order. Total correctness of \<open>resume\<close> in a world that cooperates: the clock is
  readable, checkpoints are written, and the contract accepts every call except that it may refuse a
  draw. \<open>wins A m B\<close> says that \<open>m\<close> returns a result in every engine satisfying \<open>A\<close>.
\<close>

definition wins :: "('s engine \<Rightarrow> bool) \<Rightarrow> ('s, 'a) co \<Rightarrow> ('a \<Rightarrow> 's engine \<Rightarrow> bool) \<Rightarrow> bool" where
  "wins A m B \<longleftrightarrow> (\<forall>e. A e \<longrightarrow> (\<exists>a e'. m e = (Inr a, e') \<and> B a e'))"

lemma wins_bind:
  assumes "wins A m C" and "\<And>a. wins (C a) (f a) B"
  shows "wins A (bindE m f) B"
  unfolding wins_def
proof (intro allI impI)
  fix e :: "'a engine"
  assume "A e"
  then obtain a e' where "m e = (Inr a, e')" "C a e'" using assms(1) by (auto simp: wins_def)
  then show "\<exists>b e''. bindE m f e = (Inr b, e'') \<and> B b e''"
    using assms(2) [of a] by (auto simp: wins_def bindE_def)
qed

lemma wins_ret: "(\<And>e. A e \<Longrightarrow> B a e) \<Longrightarrow> wins A (ret a) B"
  by (simp add: wins_def ret_def)

lemma wins_if: "(b \<Longrightarrow> wins A m B) \<Longrightarrow> (\<not> b \<Longrightarrow> wins A n B) \<Longrightarrow> wins A (if b then m else n) B"
  by simp

lemma wins_option:
  "(r = None \<Longrightarrow> wins A m B) \<Longrightarrow> (\<And>s. r = Some s \<Longrightarrow> wins A (f s) B) \<Longrightarrow>
     wins A (case r of None \<Rightarrow> m | Some s \<Rightarrow> f s) B"
  by (simp split: option.split)

lemma wins_pre: "(\<And>e. A e \<Longrightarrow> A' e) \<Longrightarrow> wins A' m B \<Longrightarrow> wins A m B"
  by (simp add: wins_def)

lemma wins_post: "(\<And>a e. B a e \<Longrightarrow> B' a e) \<Longrightarrow> wins A m B \<Longrightarrow> wins A m B'"
  unfolding wins_def by blast

section \<open>A world that cooperates\<close>

definition cooperates :: "'s world \<Rightarrow> bool" where
  "cooperates w \<longleftrightarrow> keeps_claims (wd_contract w) \<and>
     (\<forall>n. isSafeInteger (wd_clock w n) \<and> 0 \<le> wd_clock w n \<and> wd_save w n) \<and>
     (\<forall>s ps t c. (\<forall>Q e f. c \<noteq> GDraw Q e f) \<longrightarrow> k_circuit (wd_contract w) s ps t c \<noteq> None)"

lemma cooperates_world:
  assumes "cooperates w"
  shows "isSafeInteger (wd_clock w n)" "\<not> wd_clock w n < 0" "wd_save w n"
  using assms by (simp_all add: cooperates_def not_less)

text \<open>The engine runs, and its order \<open>r\<close> is in one of the phases \<open>ps\<close>.\<close>

definition stands :: "jsstr \<Rightarrow> phase set \<Rightarrow> 's engine \<Rightarrow> bool" where
  "stands r ps e \<longleftrightarrow> \<not> eg_failed e \<and> \<not> eg_checkpointing e \<and>
     (\<exists>x. map_of (bk_orders e) r = Some x \<and> od_phase x \<in> ps)"

abbreviation holds :: "jsstr \<Rightarrow> order \<Rightarrow> 's engine \<Rightarrow> bool" where
  "holds r x e \<equiv> \<not> eg_failed e \<and> \<not> eg_checkpointing e \<and> map_of (bk_orders e) r = Some x"

lemma stands_weaken: "stands r ps e \<Longrightarrow> ps \<subseteq> qs \<Longrightarrow> stands r qs e"
  by (auto simp: stands_def)

lemma wins_get: "wins A (get f) (\<lambda>a e. A e \<and> a = f e)"
  by (simp add: wins_def get_def)

lemma wins_modify: "(\<And>e. A e \<Longrightarrow> B () (f e)) \<Longrightarrow> wins A (modify f) B"
  by (simp add: wins_def modify_def)

lemma wins_theOrder: "wins (stands r ps) (theOrder r) (\<lambda>x e. holds r x e \<and> od_phase x \<in> ps)"
  by (auto simp: wins_def theOrder_def bindE_def get_def getOrder_def ret_def stands_def)

text \<open>Phases only depend on the order and the two flags.\<close>

lemma wins_random: "wins (holds r x) (random w) (\<lambda>_. holds r x)"
  by (simp add: wins_def random_def bindE_def get_def modify_def ret_def)

lemma wins_reading: "wins (holds r x) (reading w) (\<lambda>t e. holds r x e \<and> (\<exists>n. t = wd_clock w n))"
  by (auto simp: wins_def reading_def bindE_def get_def modify_def ret_def)

lemma wins_now: "cooperates w \<Longrightarrow> wins (holds r x) (now w) (\<lambda>_. holds r x)"
  unfolding now_def
  by (rule wins_bind [OF wins_reading])
    (auto simp: cooperates_world wins_def ret_def fail_def)

lemma wins_checkpoint: "cooperates w \<Longrightarrow> wins (stands r ps) (checkpoint w) (\<lambda>_. stands r ps)"
  by (simp add: wins_def checkpoint_def bindE_def get_def modify_def ret_def cooperates_def stands_def)

lemma acceptedI: "k_circuit k s ps t (dispatch c) = Some z \<Longrightarrow> accepted k ps c z"
  unfolding accepted_def by blast

lemma wins_attempt:
  assumes "cooperates w"
  shows "wins (holds r x) (attemptCall w ps c) (\<lambda>a e. holds r x e \<and>
    ((\<forall>Q t f. dispatch c \<noteq> GDraw Q t f) \<longrightarrow> a \<noteq> None) \<and>
    (\<forall>s. a = Some s \<longrightarrow> accepted (wd_contract w) ps c (ss_state s)))"
  unfolding attemptCall_def
proof (rule wins_bind [OF wins_reading], rule wins_bind [OF wins_get])
  fix t s
  show "wins (\<lambda>e. (holds r x e \<and> (\<exists>n. t = wd_clock w n)) \<and> s = bk_session e)
    (liftE (call (wd_contract w) (Some t) s ps c)) (\<lambda>a e. holds r x e \<and>
    ((\<forall>Q t f. dispatch c \<noteq> GDraw Q t f) \<longrightarrow> a \<noteq> None) \<and>
    (\<forall>s. a = Some s \<longrightarrow> accepted (wd_contract w) ps c (ss_state s)))"
  proof (cases "\<exists>n. t = wd_clock w n")
    case True
    then have "call (wd_contract w) (Some t) s ps c = Inr (map_option (\<lambda>st. \<lparr>ss_state = st, ss_private = ps\<rparr>)
        (k_circuit (wd_contract w) (ss_state s) ps (Some t) (dispatch c)))"
      using assms by (auto simp: call_def cooperates_world)
    then show ?thesis
      using assms by (auto simp: wins_def liftE_def cooperates_def intro: acceptedI)
  qed (simp add: wins_def)
qed

lemma wins_transition:
  assumes "cooperates w" and "\<And>Q t f. dispatch c \<noteq> GDraw Q t f"
  shows "wins (holds r x) (transition w ps c)
    (\<lambda>l e. holds r x e \<and> (\<exists>st. l = k_ledger (wd_contract w) st \<and> accepted (wd_contract w) ps c st))"
  unfolding transition_def
proof (rule wins_bind [OF wins_attempt [OF assms(1)]])
  fix a :: "'a session option"
  show "wins (\<lambda>e. holds r x e \<and> ((\<forall>Q t f. dispatch c \<noteq> GDraw Q t f) \<longrightarrow> a \<noteq> None) \<and>
      (\<forall>s. a = Some s \<longrightarrow> accepted (wd_contract w) ps c (ss_state s)))
    (case a of None \<Rightarrow> fail 409 (case c of CDraw _ _ _ \<Rightarrow> ''Clearance could not be proven.''
        | _ \<Rightarrow> ''Contract transition rejected.'')
     | Some s \<Rightarrow> bindE (modify (bk_session_update (\<lambda>_. s))) (\<lambda>_. ret (readLedger (wd_contract w) s)))
    (\<lambda>l e. holds r x e \<and> (\<exists>st. l = k_ledger (wd_contract w) st \<and> accepted (wd_contract w) ps c st))"
    using assms(2) by (cases a) (auto simp: wins_def bindE_def modify_def ret_def readLedger_def)
qed

section \<open>Every part of resume\<close>

lemma holds_setOrder: "holds r x e \<Longrightarrow> od_phase (f x) \<in> ps \<Longrightarrow> stands r ps (setOrder r f e)"
  using map_of_updOrder [of r f "bk_orders e" r] by (simp add: stands_def setOrder_def updOrder_def)

lemma wins_record:
  assumes "cooperates w" and "\<And>e. holds r x e \<Longrightarrow> stands r ps (f e)"
  shows "wins (holds r x) (bindE (modify f) (\<lambda>_. checkpoint w)) (\<lambda>_. stands r ps)"
  by (rule wins_bind [OF wins_modify wins_checkpoint [OF assms(1)]]) (rule assms(2))

lemma wins_record_ret:
  assumes "cooperates w" and "\<And>e. holds r x e \<Longrightarrow> stands r ps (f e)"
  shows "wins (holds r x) (bindE (modify f) (\<lambda>_. bindE (checkpoint w) (\<lambda>_. ret b))) (\<lambda>a e. a = b \<and> stands r ps e)"
  by (rule wins_bind [OF wins_modify], rule assms(2), assumption, rule wins_bind [OF wins_checkpoint [OF assms(1)]])
    (simp add: wins_ret)

lemma holds_stands: "holds r x e \<Longrightarrow> od_phase x \<in> ps \<Longrightarrow> stands r ps e"
  by (simp add: stands_def)

lemma resumeExpiry_wins: "cooperates w \<Longrightarrow> wins (holds r x) (resumeExpiry w r x) (\<lambda>_. stands r UNIV)"
  unfolding resumeExpiry_def
  by (intro wins_if wins_bind [OF wins_now] wins_record wins_ret) (auto intro: holds_setOrder holds_stands)

lemma wins_read: "(\<And>a. wins A (f a) B) \<Longrightarrow> wins A (bindE (get g) f) B"
  by (simp add: wins_def bindE_def get_def)

lemma wins_known: "(P \<Longrightarrow> wins A m B) \<Longrightarrow> wins (\<lambda>e. A e \<and> P) m B"
  by (auto simp: wins_def)

lemma wins_call:
  assumes "cooperates w" and "\<And>Q t f. dispatch c \<noteq> GDraw Q t f"
    and "\<And>l st. l = k_ledger (wd_contract w) st \<Longrightarrow> accepted (wd_contract w) ps c st \<Longrightarrow> wins (holds r x) (k l) B"
  shows "wins (holds r x) (bindE (transition w ps c) k) B"
  by (rule wins_bind [OF wins_transition [OF assms(1,2)]], rule wins_known) (auto intro: assms(3))

lemma resumeQuote_wins: "cooperates w \<Longrightarrow> wins (holds r x) (resumeQuote w r x) (\<lambda>_. stands r (- {Prepared}))"
  unfolding resumeQuote_def
  by (intro wins_if wins_ret wins_read wins_call wins_record)
    (auto intro: holds_setOrder holds_stands)

lemma resumeDeliver_wins:
  "cooperates w \<Longrightarrow> od_phase x \<in> ps \<Longrightarrow>
     wins (holds r x) (resumeDeliver w r x) (\<lambda>_. stands r (ps - {Redeemed} \<union> {Delivered}))"
  unfolding resumeDeliver_def
  by (intro wins_if wins_ret wins_record)
    (auto intro!: holds_setOrder intro: holds_stands)

lemma resumeDraw_wins:
  assumes "cooperates w" and "od_phase x \<noteq> Prepared"
  shows "wins (holds r x) (resumeDraw w r x)
    (\<lambda>declined. stands r (if declined then {Declined} else - {Prepared, Quoted}))"
  unfolding resumeDraw_def
proof (intro wins_if, rule wins_ret, goal_cases)
  case 1
  then show ?case using assms(2) by (auto intro: holds_stands)
next
  case 2
  have declined: "wins (holds r x) (bindE (modify (setOrder r declineOrder)) (\<lambda>_. bindE (checkpoint w) (\<lambda>_. ret True)))
    (\<lambda>declined. stands r (if declined then {Declined} else - {Prepared, Quoted}))"
    by (rule wins_post [OF _ wins_record_ret [OF assms(1), of r x "{Declined}"]]) (auto intro: holds_setOrder)
  have authorized: "wins (holds r x) (bindE (modify (setOrder r (authorizeOrder D))) (\<lambda>_. bindE (checkpoint w) (\<lambda>_. ret False)))
    (\<lambda>declined. stands r (if declined then {Declined} else - {Prepared, Quoted}))" for D
    by (rule wins_post [OF _ wins_record_ret [OF assms(1), of r x "- {Prepared, Quoted}"]]) (auto intro: holds_setOrder)
  show ?case
  proof (rule wins_bind [OF wins_random], rule wins_read, unfold split_def,
      rule wins_bind [OF wins_attempt [OF assms(1)]], rule wins_known, rule wins_option)
    fix newSalt a and s :: "'a session"
    show "wins (holds r x) (bindE (modify (setOrder r declineOrder)) (\<lambda>_. bindE (checkpoint w) (\<lambda>_. ret True)))
      (\<lambda>declined. stands r (if declined then {Declined} else - {Prepared, Quoted}))" by (rule declined)
    show "wins (holds r x) (bindE (modify (\<lambda>e. e\<lparr>bk_session := s,
        bk_outstanding := bk_outstanding e + rc_amount (od_receipt x),
        bk_epoch := bk_epoch e + 1, bk_salt := newSalt\<rparr>)) (\<lambda>_.
      bindE (get (\<lambda>e. let l = readLedger (wd_contract w) s in
          drawNoteCommit (wd_runtime w) \<lparr>np_domain = cl_contractDomain l,
            np_lineGeneration = cl_lineGeneration l, np_identity = agentId (wd_runtime w) (bk_agentKey e),
            np_quoteCommit = od_Q x, np_merchantPk = fst a, np_amount = rc_amount (od_receipt x),
            np_fee = Some 0, np_noteNonce = od_noteNonce x, np_expiry = od_expiry x\<rparr> (od_noteSalt x)))
        (\<lambda>D. bindE (modify (setOrder r (authorizeOrder D))) (\<lambda>_.
          bindE (checkpoint w) (\<lambda>_. ret False)))))
      (\<lambda>declined. stands r (if declined then {Declined} else - {Prepared, Quoted}))"
      by (rule wins_bind [OF wins_modify [where B = "\<lambda>_. holds r x"]], simp) (intro wins_read authorized)
  qed
qed

lemma resumeRedeem_wins:
  assumes "cooperates w"
  shows "wins (holds r x) (resumeRedeem w r x) (\<lambda>b e. b = False \<and> stands r {Redeemed} e)"
  unfolding resumeRedeem_def
  by (intro wins_read wins_call wins_record_ret assms) (auto intro: holds_setOrder)

lemma resumeCompensate_wins:
  assumes "cooperates w"
  shows "wins (holds r x) (resumeCompensate w r x) (\<lambda>b e. b = True \<and> stands r {Compensated} e)"
  unfolding resumeCompensate_def Let_def
proof (intro wins_bind [OF wins_random] wins_read wins_call assms, simp, goal_cases)
  case (1 newSalt e l st)
  then obtain n where "cl_notes l (nullish (od_D x) []) = Some n"
    using cancel_keeps [OF _ 1(2)] assms unfolding cooperates_def by blast
  then have lift: "liftE (case cl_notes l (nullish (od_D x) []) of Some n \<Rightarrow> Inr (cn_refundCommitment n)
      | None \<Rightarrow> Inl (Throw (Error ''lookup''))) = ret (cn_refundCommitment n)"
    by (simp add: fun_eq_iff liftE_def ret_def)
  show ?case
    unfolding lift ret_bind
    by (rule wins_bind [OF wins_modify [where B = "\<lambda>_. holds r x"]], simp)
      (intro wins_record_ret assms, auto intro: holds_setOrder)
qed

lemma resumeClaim_wins:
  assumes "cooperates w" and "od_phase x \<notin> {Prepared, Quoted}"
  shows "wins (holds r x) (resumeClaim w r x)
    (\<lambda>b. stands r (if b then {Compensated} else - {Prepared, Quoted, Authorized}))"
proof -
  have c: "wins (holds r x) (resumeCompensate w r x) (\<lambda>b. stands r (if b then {Compensated} else - {Prepared, Quoted, Authorized}))"
    and d: "wins (holds r x) (resumeRedeem w r x) (\<lambda>b. stands r (if b then {Compensated} else - {Prepared, Quoted, Authorized}))"
    by (rule wins_post [OF _ resumeCompensate_wins [OF assms(1)]], simp)
      (rule wins_post [OF _ resumeRedeem_wins [OF assms(1)]], auto intro: stands_weaken)
  show ?thesis
    unfolding resumeClaim_def
    by (intro wins_if wins_ret wins_bind [OF wins_now [OF assms(1)]] c d)
      (use assms(2) in \<open>auto intro: holds_stands\<close>)
qed

definition terminal :: "phase \<Rightarrow> bool" where
  "terminal p \<longleftrightarrow> p \<in> {Delivered, Declined, Expired, Compensated}"

text \<open>Reading the order again between the parts.\<close>

lemma wins_order:
  assumes "\<And>x. od_phase x \<in> ps \<Longrightarrow> wins (holds r x) (g x) B"
  shows "wins (stands r ps) (bindE (theOrder r) g) B"
proof (rule wins_bind [OF wins_theOrder], rule wins_known)
  fix x :: order
  assume "od_phase x \<in> ps"
  then show "wins (holds r x) (g x) B" by (rule assms)
qed

definition settled_receipt :: "jsstr \<Rightarrow> order_receipt \<Rightarrow> 's engine \<Rightarrow> bool" where
  "settled_receipt r rc e \<longleftrightarrow>
     (\<exists>x. map_of (bk_orders e) r = Some x \<and> od_receipt x = rc \<and> terminal (od_phase x))"

lemma wins_receipt: "terminal (od_phase x) \<Longrightarrow> wins (holds r x) (ret (od_receipt x)) (settled_receipt r)"
  by (rule wins_ret) (auto simp: settled_receipt_def)

lemma wins_terminal:
  "(\<And>p. p \<in> ps \<Longrightarrow> terminal p) \<Longrightarrow> wins (stands r ps) (bindE (theOrder r) (\<lambda>x. ret (od_receipt x))) (settled_receipt r)"
  by (intro wins_order wins_receipt)

lemma terminal_iff: "terminal p \<longleftrightarrow> p \<notin> {Prepared, Quoted, Authorized, Redeemed}"
  by (cases p) (simp_all add: terminal_def)

lemma deliver_wins:
  assumes "cooperates w" and "od_phase x \<in> - {Prepared, Quoted, Authorized}"
  shows "wins (holds r x) (bindE (resumeDeliver w r x) (\<lambda>_. bindE (theOrder r) (\<lambda>x. ret (od_receipt x))))
    (settled_receipt r)"
  by (rule wins_bind [OF resumeDeliver_wins [OF assms]], rule wins_terminal)
    (auto simp: terminal_iff)

lemma claim_wins:
  assumes "cooperates w" and "od_phase x \<in> - {Prepared, Quoted}"
  shows "wins (holds r x) (bindE (resumeClaim w r x) (\<lambda>compensated. bindE (theOrder r) (\<lambda>x.
     if compensated then ret (od_receipt x) else
     bindE (resumeDeliver w r x) (\<lambda>_. bindE (theOrder r) (\<lambda>x. ret (od_receipt x))))))
    (settled_receipt r)"
proof (rule wins_bind [OF resumeClaim_wins [OF assms(1)]], goal_cases)
  case 1
  show ?case using assms(2) by simp
next
  case (2 compensated)
  show ?case
    by (intro wins_order wins_if wins_receipt deliver_wins assms(1)) (auto simp: terminal_def)
qed

lemma resume_wins:
  assumes "cooperates w"
  shows "wins (stands r UNIV) (resume w r) (settled_receipt r)"
  unfolding resume_def
proof (intro wins_order wins_bind [OF resumeExpiry_wins [OF assms]] wins_bind [OF resumeQuote_wins [OF assms]], goal_cases)
  case (1 x a y b z)
  show ?case
  proof (rule wins_bind [OF resumeDraw_wins [OF assms]], goal_cases)
    case 1
    then show ?case using \<open>od_phase z \<in> - {Prepared}\<close> by simp
  next
    case (2 declined)
    show ?case
      by (intro wins_order wins_if wins_receipt claim_wins assms) (auto simp: terminal_def)
  qed
qed

section \<open>A failed engine\<close>

text \<open>In the engine \<open>e\<close> the operation \<open>m\<close> has no effect.\<close>

definition inert :: "'s engine \<Rightarrow> ('s, 'a) co \<Rightarrow> bool" where
  "inert e m \<longleftrightarrow> snd (m e) = e"

lemma inert_bind: "inert e m \<Longrightarrow> (\<And>a. inert e (f a)) \<Longrightarrow> inert e (bindE m f)"
  by (cases "m e") (auto simp: inert_def bindE_def split: sum.split)

lemma inert_simps [simp]:
  "inert e (ret a)" "inert e (fail st msg)" "inert e (units v l)" "inert e (requestIntent v)"
  by (simp_all add: inert_def ret_def fail_def units_def requestIntent_def split: option.split jsval.split)

lemma failed_ensure: "eg_failed e \<Longrightarrow> ensureAvailable e =
    (Inl (CheckoutError 503 ''Checkout session requires server restart and recovery.''), e)"
  by (simp add: ensureAvailable_def bindE_def get_def fail_def)

lemma failed_bind: "eg_failed e \<Longrightarrow> bindE ensureAvailable f e =
    (Inl (CheckoutError 503 ''Checkout session requires server restart and recovery.''), e)"
  by (simp add: bindE_def [of ensureAvailable] failed_ensure)

lemma failed_exclusive: "eg_failed e \<Longrightarrow> inert e (exclusive m)"
  by (simp add: inert_def exclusive_def failed_bind)

lemma failed_publicView: "eg_failed e \<Longrightarrow> publicView w e =
    (Inl (CheckoutError 503 ''Checkout session requires server restart and recovery.''), e)"
  by (simp add: publicView_def failed_bind)

lemma failed_operations:
  assumes "eg_failed e"
  shows "inert e (configure w l v)" "inert e (purchase w wall sv dv rv)" "inert e (acknowledge w av rv)"
    "inert e (reportCashRefund w ov rv)" "inert e (publicView w)" "inert e (issuerView w)"
    "inert e (hasOutstandingObligations w)"
proof -
  show "inert e (configure w l v)"
    unfolding configure_def by (intro inert_bind inert_simps failed_exclusive assms)
  show "inert e (purchase w wall sv dv rv)"
    unfolding purchase_def
    by (simp split: option.split jsval.split add: inert_bind failed_exclusive assms)
  show "inert e (acknowledge w av rv)"
    unfolding acknowledge_def by (intro inert_bind inert_simps failed_exclusive assms)
  show "inert e (reportCashRefund w ov rv)"
    unfolding reportCashRefund_def by (intro inert_bind inert_simps failed_exclusive assms)
  show "inert e (publicView w)" "inert e (issuerView w)" "inert e (hasOutstandingObligations w)"
    by (simp_all add: inert_def failed_publicView issuerView_def bindE_def [of "publicView w"]
        hasOutstandingObligations_def failed_bind assms)
qed

lemma failed_serve: "eg_failed e \<Longrightarrow> op \<noteq> Restart \<Longrightarrow> serve w op e = e"
  using failed_operations [of e w] by (cases op) (simp_all add: inert_def afterwards_def)

section \<open>Retries\<close>

lemma findService_id: "findService (JStr (js (service_id s))) = Some s"
  by (cases s) (simp_all add: findService_def CATALOG_def js_def)

text \<open>A request whose identifier is known resumes its order, or is refused when its document differs.\<close>

lemma purchase_retry:
  assumes "map_of (bk_orders e) r = Some x" and "valid_intent r"
    and "\<not> eg_failed e" and "\<not> eg_checkpointing e" and "trim d \<noteq> []" and "length d \<le> 8000"
  shows "purchase w wall (JStr (js (service_id (od_service x)))) (JStr d) (JStr r) e =
    (if d = od_document x then resume w r e
     else (Inl (CheckoutError 409 ''Request ID was already used for different purchase terms.''), e))"
  using assms
  by (simp add: purchase_def findService_id requestIntent_def exclusive_def ensureAvailable_def serveOrder_def
      bindE_def ret_def get_def fail_def getOrder_def)

text \<open>An order that is finished has nothing left to resume.\<close>

lemma theOrder_returns: "map_of (bk_orders e) r = Some x \<Longrightarrow> theOrder r e = (Inr x, e)"
  by (simp add: theOrder_def bindE_def get_def getOrder_def ret_def)

lemma resume_terminal:
  assumes "map_of (bk_orders e) r = Some x" and "terminal (od_phase x)"
  shows "resume w r e = (Inr (od_receipt x), e)"
proof -
  have "od_phase x \<noteq> Prepared" "od_phase x \<noteq> Quoted" "od_phase x \<noteq> Authorized" "od_phase x \<noteq> Redeemed"
    using assms(2) by (auto simp: terminal_iff)
  then have "resumeExpiry w r x = ret ()" "resumeQuote w r x = ret ()" "resumeDraw w r x = ret False"
    "resumeClaim w r x = ret False" "resumeDeliver w r x = ret ()"
    by (simp_all add: resumeExpiry_def resumeQuote_def resumeDraw_def resumeClaim_def resumeDeliver_def)
  then show ?thesis
    by (simp add: resume_def bindE_def [of "theOrder r"] theOrder_returns [OF assms(1)] ret_bind ret_def)
qed

section \<open>What recovery checks\<close>

lemma recoverOrders_each: "recoverOrders w s l xs = Inr () \<Longrightarrow> (r, x) \<in> set xs \<Longrightarrow> recoverOrder w s l r x = Inr ()"
  by (induction xs) (auto simp: bindS_Inr)

lemma recoverClaim_ledger:
  assumes "recoverClaim w s l x pk = Inr ()"
  shows "\<exists>D n. od_D x = Some D \<and> cl_notes l D = Some n \<and> rc_note (od_receipt x) = Some (toHex D) \<and>
    (od_phase x \<in> {Redeemed, Delivered}) = cn_redeemed n \<and> (od_phase x = Compensated) = cn_cancelled n"
  using assms by (auto simp: recoverClaim_def Let_def bindS_Inr split: option.splits)

lemma recoverCompensation_split:
  assumes "recoverCompensation w s l x = Inr ()"
  shows "\<exists>c. od_compensation x = Some c \<and> 0 \<le> oc_amount c \<and> 0 \<le> oc_credit c \<and>
    oc_amount c + oc_credit c = rc_amount (od_receipt x)"
  using assms by (auto simp: recoverCompensation_def bindS_Inr refuse_def split: option.splits)

lemma recoverOrder_checks:
  assumes "recoverOrder w s l r x = Inr ()"
  shows "rc_amount (od_receipt x) = service_price (od_service x)"
    and "claimed (od_phase x) \<Longrightarrow> \<exists>pk. recoverClaim w s l x pk = Inr ()"
    and "od_phase x = Compensated \<Longrightarrow> recoverCompensation w s l x = Inr ()"
  using assms by (auto simp: recoverOrder_def Let_def bindS_Inr split: if_splits)

end
