(* ===== verification/Checkout_Demo.thy ===== *)
theory Checkout_Demo
  imports Checkout_Settling Demo
begin

text \<open>
  A session on a concrete world: a readable clock, checkpoints that are written, a contract that
  accepts every call and keeps the claims it is asked about.
\<close>

definition demo_claim :: compact_note where
  "demo_claim = \<lparr>cn_amount = 25, cn_fee = 0, cn_redeemed = False, cn_cancelled = False, cn_expiry = 1600,
     cn_lineGeneration = 1, cn_compensationAllocated = False, cn_refundCommitment = zeros32,
     cn_cashRefundOwed = False, cn_refundAcknowledged = False, cn_refundPaymentNullifier = zeros32\<rparr>"

definition demo_ledger :: compact_ledger where
  "demo_ledger = \<lparr>cl_contractDomain = zeros32, cl_totalReserve = 500, cl_encumberedReserve = 0,
     cl_redeemedReserve = 0, cl_feeReserve = 0, cl_pendingFeeReserve = 0, cl_refundReserve = 0,
     cl_reportedRefundReserve = 0, cl_feeFlat = 0, cl_feeBps = 0, cl_lineCommit = zeros32,
     cl_lineGeneration = 1, cl_notes = (\<lambda>_. Some demo_claim), cl_nullifiers = []\<rparr>"

definition demo_contract :: "nat compact_contract" where
  "demo_contract = \<lparr>k_initial = (\<lambda>_ _ _. 0), k_circuit = (\<lambda>n _ _ _. Some (n + 1)),
     k_ledger = (\<lambda>_. demo_ledger)\<rparr>"

definition demo_world :: "nat world" where
  "demo_world = \<lparr>wd_clock = (\<lambda>_. 1000), wd_wall = (\<lambda>_. 5), wd_random = (\<lambda>_. zeros32),
     wd_uuid = (\<lambda>_. js ''00000000-0000-4000-8000-000000000000''), wd_save = (\<lambda>_. True),
     wd_runtime = demo, wd_contract = demo_contract, wd_words = (\<lambda>_. []), wd_collate = (\<lambda>_ _. True)\<rparr>"

lemma demo_keeps_claims: "keeps_claims demo_contract"
  by (simp add: keeps_claims_def demo_contract_def demo_ledger_def)

lemma demo_cooperates: "cooperates demo_world"
  by (simp add: cooperates_def demo_world_def demo_keeps_claims isSafeInteger_def max_safe_def)
    (simp add: demo_contract_def)

lemma demo_contract [simp]: "wd_contract demo_world = demo_contract"
  by (simp add: demo_world_def)

lemma demo_creates: "fst (create demo_world (newEngine demo_world stored)) = Inr ()"
  and demo_stored: "eg_storage (afterwards (create demo_world) (newEngine demo_world stored)) = stored"
  and demo_running: "\<not> eg_failed (afterwards (create demo_world) (newEngine demo_world stored))"
  by (simp_all add: afterwards_def create_def transition_def attemptCall_def reading_def checkpoint_def bindE_def get_def
      modify_def ret_def liftE_def call_def newEngine_def demo_world_def demo_contract_def
      isSafeInteger_def max_safe_def Let_def)

text \<open>An engine with one order, quoted and not yet authorised.\<close>

definition demo_request :: jsstr where
  "demo_request = js ''request-1''"

definition demo_order :: order where
  "demo_order = \<lparr>od_document = js ''One. Two!'', od_service = TextAnalysis,
     od_receipt = \<lparr>rc_orderId = demo_request, rc_service = TextAnalysis, rc_merchant = ''Merchant A'',
       rc_amount = 25, rc_quote = toHex zeros32, rc_note = None, rc_outcome = OPending, rc_stages = [],
       rc_message = None, rc_output = None\<rparr>,
     od_phase = Prepared, od_invoiceId = zeros32, od_quoteNonce = zeros32, od_Q = zeros32,
     od_expiry = 1600, od_noteNonce = zeros32, od_noteSalt = zeros32, od_D = None,
     od_noteExpiry = None, od_compensation = None\<rparr>"

definition demo_engine :: "(order \<Rightarrow> order) \<Rightarrow> nat engine" where
  "demo_engine f = (newEngine demo_world True)\<lparr>bk_opened := True, bk_limit := 100,
     bk_fundedReserve := 500, bk_orders := [(demo_request, f demo_order)]\<rparr>"

definition demo_purchase :: co_op where
  "demo_purchase = Purchase 10 (JStr (js ''text-analysis'')) (JStr (js ''One. Two!'')) (JStr demo_request)"

lemma demo_request_valid: "valid_intent demo_request"
  by (simp add: valid_intent_def demo_request_def js_def intent_char_def)

lemma demo_document: "trim (js ''One. Two!'') \<noteq> []" "length (js ''One. Two!'') \<le> 8000"
  by (simp_all add: trim_def js_def is_space_def)

lemma demo_order_ok: "order_ok demo_request demo_order"
  by (simp add: order_ok_def terms_ok_def demo_order_def stages_ok_def compensation_ok_def claimed_def
      demo_request_valid demo_document)

lemma demo_flags:
  "\<not> eg_failed (demo_engine f)" "\<not> eg_checkpointing (demo_engine f)" "eg_storage (demo_engine f)"
  by (simp_all add: demo_engine_def newEngine_def Let_def)

end
