(* ===== verification/Checkout_Services.thy ===== *)
theory Checkout_Services
  imports Checkout
begin

text \<open>
  The deterministic services: sentences, word counts and the most frequent terms. Only the order of
  equally frequent terms depends on the collation.
\<close>

section \<open>Sentences\<close>

definition words_of :: "jsstr \<Rightarrow> jsstr" where
  "words_of s = filter (\<lambda>c. \<not> ends_sentence c) s"

lemma words_of_takeWhile: "words_of (takeWhile (\<lambda>c. \<not> ends_sentence c) s) = takeWhile (\<lambda>c. \<not> ends_sentence c) s"
  by (induction s) (auto simp: words_of_def)

lemma words_of_append [simp]: "words_of (a @ b) = words_of a @ words_of b"
  by (simp add: words_of_def)

lemma words_of_dropWhile: "words_of (dropWhile ends_sentence s) = words_of s"
  by (induction s) (auto simp: words_of_def)

lemma sentence_runs_Nil:
  assumes "dropWhile ends_sentence s = []"
  shows "sentence_runs s = []"
  by (subst sentence_runs.simps) (simp only: assms list.case)

lemma sentence_runs_Cons:
  assumes "dropWhile ends_sentence s = c # cs"
  shows "sentence_runs s =
    (takeWhile (\<lambda>c. \<not> ends_sentence c) (c # cs) @ take 1 (dropWhile (\<lambda>c. \<not> ends_sentence c) (c # cs))) #
      sentence_runs (drop 1 (dropWhile (\<lambda>c. \<not> ends_sentence c) (c # cs)))"
  by (subst sentence_runs.simps) (simp only: assms list.case Let_def)

text \<open>A run is nonempty text with at most one mark, at its end.\<close>

definition sentence_run :: "jsstr \<Rightarrow> bool" where
  "sentence_run s \<longleftrightarrow> (\<exists>t m. s = t @ m \<and> t \<noteq> [] \<and> list_all (\<lambda>c. \<not> ends_sentence c) t \<and>
     (m = [] \<or> (\<exists>c. m = [c] \<and> ends_sentence c)))"

lemma sentence_runI:
  assumes "t \<noteq> []" and "list_all (\<lambda>c. \<not> ends_sentence c) t" and "m = [] \<or> (\<exists>c. m = [c] \<and> ends_sentence c)"
  shows "sentence_run (t @ m)"
  unfolding sentence_run_def by (rule exI [of _ t], rule exI [of _ m]) (simp only: assms simp_thms)

lemma list_all_takeWhile: "list_all P (takeWhile P xs)"
  by (induction xs) auto

lemma dropWhile_stop: "dropWhile P xs = a # l \<Longrightarrow> \<not> P a"
  by (metis dropWhile_eq_Cons_conv)

lemma take_mark:
  "take 1 (dropWhile (\<lambda>c. \<not> ends_sentence c) xs) = [] \<or>
     (\<exists>d. take 1 (dropWhile (\<lambda>c. \<not> ends_sentence c) xs) = [d] \<and> ends_sentence d)"
proof (cases "dropWhile (\<lambda>c. \<not> ends_sentence c) xs")
  case (Cons d ds)
  then show ?thesis using dropWhile_stop [OF Cons] by simp
qed simp

lemma sentence_runs_shape: "list_all sentence_run (sentence_runs s)"
proof (induction s rule: sentence_runs.induct)
  case (1 s)
  show ?case
  proof (cases "dropWhile ends_sentence s")
    case Nil
    then show ?thesis by (simp add: sentence_runs_Nil)
  next
    case (Cons c cs)
    let ?P = "\<lambda>c. \<not> ends_sentence c"
    have c: "?P c" using Cons by (metis dropWhile_eq_Cons_conv)
    have mark: "take 1 (dropWhile ?P (c # cs)) = [] \<or> (\<exists>d. take 1 (dropWhile ?P (c # cs)) = [d] \<and> ends_sentence d)"
      by (rule take_mark)
    have "sentence_run (takeWhile ?P (c # cs) @ take 1 (dropWhile ?P (c # cs)))"
      by (rule sentence_runI [OF _ list_all_takeWhile mark]) (simp add: c)
    then show ?thesis
      unfolding sentence_runs_Cons [OF Cons] using 1 [OF Cons refl refl] by simp
  qed
qed

text \<open>No character of the text is lost, only marks between runs.\<close>

lemma sentence_runs_words: "words_of (concat (sentence_runs s)) = words_of s"
proof (induction s rule: sentence_runs.induct)
  case (1 s)
  let ?P = "\<lambda>c. \<not> ends_sentence c"
  show ?case
  proof (cases "dropWhile ends_sentence s")
    case Nil
    then have "words_of s = []" using words_of_dropWhile [of s] by (simp add: words_of_def)
    then show ?thesis using Nil by (simp add: sentence_runs_Nil words_of_def)
  next
    case (Cons c cs)
    let ?rest = "dropWhile ?P (c # cs)"
    have "words_of (concat (sentence_runs (drop 1 ?rest))) = words_of (drop 1 ?rest)"
      by (rule 1 [OF Cons refl refl])
    moreover have "takeWhile ?P (c # cs) @ take 1 ?rest @ drop 1 ?rest = c # cs"
      by (metis append_take_drop_id takeWhile_dropWhile_id)
    then have "words_of (takeWhile ?P (c # cs)) @ words_of (take 1 ?rest) @ words_of (drop 1 ?rest) = words_of (c # cs)"
      by (simp only: words_of_append [symmetric])
    then have "words_of s = words_of (takeWhile ?P (c # cs)) @ words_of (take 1 ?rest) @ words_of (drop 1 ?rest)"
      using words_of_dropWhile [of s] by (simp only: Cons)
    ultimately show ?thesis
      unfolding sentence_runs_Cons [OF Cons] concat.simps words_of_append by (simp only: append_assoc)
  qed
qed

section \<open>Counts\<close>

text \<open>The map holds, for each word seen, how often it was seen.\<close>

definition counts_ok :: "(jsstr \<times> nat) list \<Rightarrow> jsstr list \<Rightarrow> bool" where
  "counts_ok cs ws \<longleftrightarrow> distinct (map fst cs) \<and>
     map_of cs = (\<lambda>v. if v \<in> set ws then Some (count_list ws v) else None)"

lemma count_word_fst: "map fst (count_word cs w) = (if w \<in> fst ` set cs then map fst cs else map fst cs @ [w])"
  by (induction cs w rule: count_word.induct) auto

lemma map_of_count_word: "map_of (count_word cs w) =
    (map_of cs)(w \<mapsto> (case map_of cs w of None \<Rightarrow> 1 | Some n \<Rightarrow> n + 1))"
  by (induction cs w rule: count_word.induct) (auto simp: fun_eq_iff split: option.split)

lemma count_word_ok:
  assumes "counts_ok cs ws"
  shows "counts_ok (count_word cs w) (ws @ [w])"
proof -
  have "w \<notin> set ws \<Longrightarrow> count_list ws w = 0" by (simp add: count_list_0_iff)
  then have "map_of (count_word cs w) =
      (\<lambda>v. if v \<in> set (ws @ [w]) then Some (count_list (ws @ [w]) v) else None)"
    using assms by (auto simp: counts_ok_def map_of_count_word fun_eq_iff)
  moreover have "distinct (map fst (count_word cs w))"
    using assms by (auto simp: counts_ok_def count_word_fst)
  ultimately show ?thesis by (simp add: counts_ok_def)
qed

lemma count_words_ok: "counts_ok (foldl count_word [] ws) ws"
proof (induction ws rule: rev_induct)
  case Nil
  then show ?case by (simp add: counts_ok_def)
next
  case (snoc w ws)
  then show ?case using count_word_ok by simp
qed

section \<open>The most frequent terms\<close>

definition descending :: "(jsstr \<times> nat) list \<Rightarrow> bool" where
  "descending cs \<longleftrightarrow> sorted_wrt (\<lambda>a b. snd b \<le> snd a) cs"

lemma insert_stable_set [simp]: "set (insert_stable le a bs) = insert a (set bs)"
  by (induction le a bs rule: insert_stable.induct) auto

lemma sort_stable_set [simp]: "set (sort_stable le xs) = set xs"
  by (induction xs) (simp_all add: sort_stable_def)

lemma insert_stable_length [simp]: "length (insert_stable le a bs) = Suc (length bs)"
  by (induction le a bs rule: insert_stable.induct) auto

lemma sort_stable_length [simp]: "length (sort_stable le xs) = length xs"
  by (induction xs) (simp_all add: sort_stable_def)

lemma insert_descending: "descending bs \<Longrightarrow> descending (insert_stable (term_before w) a bs)"
  by (induction "term_before w" a bs rule: insert_stable.induct)
    (auto simp: descending_def term_before_def dest: order_trans)

lemma sort_descending: "descending (sort_stable (term_before w) cs)"
  by (induction cs) (simp_all add: sort_stable_def insert_descending, simp add: descending_def)

lemma descending_take:
  assumes "descending cs" and "a \<in> set (take k cs)" and "b \<in> set (drop k cs)"
  shows "snd b \<le> snd a"
  using assms by (metis append_take_drop_id descending_def sorted_wrt_append)

text \<open>The table of counts, and its five first entries in falling order.\<close>

lemma counts_entry:
  assumes "counts_ok cs ws"
  shows "(v, n) \<in> set cs \<longleftrightarrow> v \<in> set ws \<and> n = count_list ws v"
proof -
  have "(v, n) \<in> set cs \<longleftrightarrow> map_of cs v = Some n"
    using assms map_of_eq_Some_iff [of cs v n] by (simp only: counts_ok_def)
  also have "\<dots> \<longleftrightarrow> (if v \<in> set ws then Some (count_list ws v) else None) = Some n"
    using assms by (simp only: counts_ok_def)
  finally show ?thesis by auto
qed

lemma counts_length:
  assumes "counts_ok cs ws"
  shows "length cs = card (set ws)"
proof -
  have "fst ` set cs = set ws" using counts_entry [OF assms] by force
  moreover have "card (fst ` set cs) = length (map fst cs)"
    using assms distinct_card [of "map fst cs"] by (simp add: counts_ok_def)
  ultimately show ?thesis by simp
qed

lemma top_terms:
  fixes w :: "'s world" and ws :: "jsstr list" and k :: nat
  defines "ranked \<equiv> sort_stable (term_before w) (foldl count_word [] ws)"
  defines "ts \<equiv> take k ranked"
  shows "length ts = min k (card (set ws))" and "descending ts"
    and "(v, n) \<in> set ts \<Longrightarrow> n = count_list ws v \<and> v \<in> set ws"
    and "v \<in> set ws \<Longrightarrow> v \<notin> fst ` set ts \<Longrightarrow> (u, n) \<in> set ts \<Longrightarrow> count_list ws v \<le> n"
proof -
  note counts = count_words_ok [of ws]
  have entry: "(v, n) \<in> set ranked \<longleftrightarrow> v \<in> set ws \<and> n = count_list ws v" for v n
    using counts_entry [OF counts] by (simp add: ranked_def)
  show "length ts = min k (card (set ws))"
    using counts_length [OF counts] by (simp add: ts_def ranked_def)
  have falling: "descending ranked" unfolding ranked_def by (rule sort_descending)
  then show "descending ts"
    unfolding ts_def descending_def by (metis append_take_drop_id sorted_wrt_append)
  show "(v, n) \<in> set ts \<Longrightarrow> n = count_list ws v \<and> v \<in> set ws"
    using entry in_set_takeD unfolding ts_def by fast
  assume v: "v \<in> set ws" "v \<notin> fst ` set ts" and u: "(u, n) \<in> set ts"
  have "(v, count_list ws v) \<in> set ranked" using entry v(1) by blast
  moreover have "(v, count_list ws v) \<notin> set (take k ranked)" using v(2) unfolding ts_def by force
  ultimately have "(v, count_list ws v) \<in> set (drop k ranked)"
    by (metis Un_iff append_take_drop_id set_append)
  from descending_take [OF falling u [unfolded ts_def] this] show "count_list ws v \<le> n" by simp
qed

end
