(* ===== verification/Checkout_Properties.thy ===== *)
theory Checkout_Properties
  imports Checkout_Demo Checkout_Services
begin

text \<open>
  Properties of the checkout evaluation. The contract behind it is a parameter of which one law is
  used: a claim it has cancelled stays on its ledger.
\<close>

text \<open>
  C8. The engine implements the desk: whatever an operation is asked and however it ends, with a
  result, a refusal, an exception or a failed checkpoint, the orders, the debt, the receipts and the
  number of deliveries only change by steps of the desk, and a checkpoint it leaves on disk was
  there before or is one of the desks passed through.
\<close>

theorem checkout_refines_desk:
  assumes "keeps_claims (wd_contract w)" and "op \<noteq> Restart"
  shows "desk_steps (desk e) (desk (serve w op e)) \<and>
    (\<forall>s. eg_disk (serve w op e) = Some s \<and> eg_disk e \<noteq> Some s \<longrightarrow> desk_steps (desk e) (desk s))"
  using serve_goes [OF assms, of e] by (auto simp: goes_def disk_from_def)

theorem checkout_refines_desk_witness:
  "desk_steps (desk (demo_engine id)) (desk (serve demo_world demo_purchase (demo_engine id)))"
  using checkout_refines_desk [of demo_world demo_purchase "demo_engine id"]
  by (simp add: demo_keeps_claims demo_purchase_def)

text \<open>
  In every session, with restarts from the checkpoint at any point, the debt is what the
  authorised claims cost less the credit given back and less the receipts acknowledged, and is never
  negative; the delivery counter counts the delivered orders; each order carries the stages, the
  outcome and the claim its phase stands for; and no payment reference settles two things.
\<close>

theorem checkout_books_balance:
  assumes "keeps_claims (wd_contract w)"
    and "e = served w ops (afterwards (create w) (newEngine w stored))"
  shows "bk_outstanding e = (\<Sum>(r, x) \<leftarrow> bk_orders e. order_debt x) - (\<Sum>(ref, a) \<leftarrow> bk_repayments e. a) \<and>
    0 \<le> bk_outstanding e \<and>
    bk_deliveries e = int (length (filter (\<lambda>(r, x). od_phase x = Delivered) (bk_orders e))) \<and>
    list_all (\<lambda>(r, x). order_ok r x) (bk_orders e) \<and> distinct (map fst (bk_orders e)) \<and>
    distinct (map fst (bk_repayments e) @ concat (map (\<lambda>(r, x). order_refs x) (bk_orders e)))"
proof -
  have "desk_ok (desk e)"
    using served_sound [OF assms(1) created_sound] by (simp add: assms(2) sound_def)
  then show ?thesis by (simp add: desk_ok_def desk_refs_def desk_fields)
qed

theorem checkout_books_balance_witness:
  "0 \<le> bk_outstanding (served demo_world [demo_purchase, Restart]
     (afterwards (create demo_world) (newEngine demo_world True)))"
  using checkout_books_balance [of demo_world _ "[demo_purchase, Restart]" True, OF _ refl]
  by (simp add: demo_keeps_claims)

text \<open>
  An order never changes its terms (document, service, price, quote, openings), its phase only
  moves along the allowed transitions, its stages are only appended, and its claim and the amounts
  of its compensation never change once they are set, whatever requests are served.
\<close>

theorem checkout_orders_progress:
  assumes "keeps_claims (wd_contract w)" and "Restart \<notin> set ops" and "desk_ok (desk e)"
    and "map_of (bk_orders e) r = Some x"
  shows "\<exists>y. map_of (bk_orders (served w ops e)) r = Some y \<and> same_terms x y \<and>
    (\<lambda>p q. q \<in> set (next_phases p))\<^sup>*\<^sup>* (od_phase x) (od_phase y) \<and>
    (\<exists>ss. rc_stages (od_receipt y) = rc_stages (od_receipt x) @ ss) \<and>
    (od_D x \<noteq> None \<longrightarrow> od_D y = od_D x) \<and> comp_below (od_compensation x) (od_compensation y)"
proof -
  have "desk_below (desk e) (desk (served w ops e))"
    using desk.steps_below [OF served_desk [OF assms(1,2)] assms(3)] .
  then obtain y where "map_of (bk_orders (served w ops e)) r = Some y" "order_below x y"
    using assms(4) by (auto simp: desk_below_def desk_fields)
  then show ?thesis unfolding order_below_def phase_le_def by blast
qed

lemma demo_desk_ok: "desk_ok (desk (demo_engine id))"
  using demo_order_ok
  by (simp add: desk_ok_def demo_engine_def desk_def desk_refs_def newEngine_def Let_def order_debt_def
      claimed_def order_refs_def demo_order_def)

lemma demo_engine_order: "map_of (bk_orders (demo_engine f)) demo_request = Some (f demo_order)"
  by (simp add: demo_engine_def)

theorem checkout_orders_progress_witness:
  "\<exists>y. map_of (bk_orders (served demo_world [demo_purchase, demo_purchase] (demo_engine id))) demo_request = Some y \<and>
     same_terms demo_order y"
  using checkout_orders_progress [of demo_world "[demo_purchase, demo_purchase]" "demo_engine id" demo_request demo_order]
    demo_desk_ok demo_engine_order [of id]
  by (auto simp: demo_keeps_claims demo_purchase_def)

text \<open>
  C9. After every operation of a session with a store, successful or not, either the engine has
  failed or its checkpoint holds exactly its books: nothing that was answered can be lost, and
  nothing that is only half done is on disk.
\<close>

theorem checkpoint_current:
  assumes "keeps_claims (wd_contract w)" and "fst (create w (newEngine w True)) = Inr ()"
    and "e = served w ops (afterwards (create w) (newEngine w True))" and "eg_storage e"
  shows "eg_failed e \<or> eg_disk e = Some (snapshot e)"
  using served_durable [OF assms(1) created_durable [OF assms(2)], of ops] assms(3,4)
  by (simp add: durable_def)

theorem checkpoint_current_witness:
  "let e = afterwards (create demo_world) (newEngine demo_world True) in eg_disk e = Some (snapshot e)"
  using checkpoint_current [OF _ demo_creates refl, of "[]"]
  by (simp add: demo_keeps_claims demo_stored demo_running Let_def)




text \<open>
  An exact retry of a finished purchase returns its receipt and changes nothing; the same request
  identifier with another document is refused with 409 and changes nothing.
\<close>

theorem exact_retry_is_idempotent:
  assumes "map_of (bk_orders e) r = Some x" and "order_ok r x" and "terminal (od_phase x)"
    and "\<not> eg_failed e" and "\<not> eg_checkpointing e"
    and "trim d \<noteq> []" and "length d \<le> 8000"
  shows "purchase w wall (JStr (js (service_id (od_service x)))) (JStr d) (JStr r) e =
    (if d = od_document x then Inr (od_receipt x)
     else Inl (CheckoutError 409 ''Request ID was already used for different purchase terms.''), e)"
  using assms resume_terminal [OF assms(1,3)]
  by (simp add: purchase_retry order_ok_def terms_ok_def)

theorem exact_retry_is_idempotent_witness:
  "purchase demo_world 10 (JStr (js ''text-analysis'')) (JStr (js ''One. Two!'')) (JStr demo_request)
     (demo_engine expireOrder) = (Inr (od_receipt (expireOrder demo_order)), demo_engine expireOrder)"
proof -
  have "order_ok demo_request (expireOrder demo_order)"
    by (rule order_ok_steps(1) [OF demo_order_ok]) (simp add: demo_order_def)
  then show ?thesis
    using exact_retry_is_idempotent [of "demo_engine expireOrder" demo_request "expireOrder demo_order"
        "js ''One. Two!''" demo_world 10, OF demo_engine_order] demo_document
    by (simp add: terminal_def demo_flags) (simp add: demo_order_def)
qed



text \<open>
  A checkpoint is only recovered when it is consistent with the catalogue and with the ledger it
  carries: the engine has exactly its books, the debt is within the limit, the reserve is the one
  that was funded and covers every bucket, every order has the catalogue's price, and every claim is
  on the ledger under its recomputed commitment, redeemed or cancelled exactly as the order's phase
  says.
\<close>

theorem recovered_consistent:
  assumes "recover w s = Inr e"
  shows "books.truncate e = books.truncate s \<and> 0 \<le> bk_outstanding e \<and> bk_outstanding e \<le> bk_limit e \<and>
    (let l = readLedger (wd_contract w) (bk_session e) in
     cl_totalReserve l = bk_fundedReserve e \<and>
     cl_encumberedReserve l + cl_redeemedReserve l + cl_feeReserve l + cl_pendingFeeReserve l +
       cl_refundReserve l + cl_reportedRefundReserve l \<le> cl_totalReserve l \<and>
     (\<forall>(r, x) \<in> set (bk_orders e). rc_amount (od_receipt x) = service_price (od_service x) \<and>
        (claimed (od_phase x) \<longrightarrow> (\<exists>D n. od_D x = Some D \<and> cl_notes l D = Some n \<and>
          rc_note (od_receipt x) = Some (toHex D) \<and>
          (od_phase x \<in> {Redeemed, Delivered}) = cn_redeemed n \<and>
          (od_phase x = Compensated) = cn_cancelled n)) \<and>
        (od_phase x = Compensated \<longrightarrow> (\<exists>c. od_compensation x = Some c \<and>
          oc_amount c + oc_credit c = rc_amount (od_receipt x)))))"
proof -
  let ?l = "readLedger (wd_contract w) (bk_session s)"
  have e: "e = restored s" by (rule recover_restored(1) [OF assms])
  have header: "recoverHeader s = Inr ()" and ledger: "recoverLedger w s ?l = Inr ()"
    and orders: "recoverOrders w s ?l (bk_orders s) = Inr ()"
    using assms by (auto simp: recover_def bindS_Inr Let_def)
  have books: "0 \<le> bk_outstanding s" "bk_outstanding s \<le> bk_limit s"
    using header by (auto simp: recoverHeader_def bindS_Inr)
  have order: "rc_amount (od_receipt x) = service_price (od_service x) \<and>
      (claimed (od_phase x) \<longrightarrow> (\<exists>D n. od_D x = Some D \<and> cl_notes ?l D = Some n \<and>
        rc_note (od_receipt x) = Some (toHex D) \<and> (od_phase x \<in> {Redeemed, Delivered}) = cn_redeemed n \<and>
        (od_phase x = Compensated) = cn_cancelled n)) \<and>
      (od_phase x = Compensated \<longrightarrow> (\<exists>c. od_compensation x = Some c \<and>
        oc_amount c + oc_credit c = rc_amount (od_receipt x)))" if "(r, x) \<in> set (bk_orders s)" for r x
    using recoverOrder_checks [OF recoverOrders_each [OF orders that]] recoverClaim_ledger
      recoverCompensation_split by blast
  have "bk_orders e = bk_orders s" "bk_outstanding e = bk_outstanding s" "bk_limit e = bk_limit s"
    "bk_session e = bk_session s" "bk_fundedReserve e = bk_fundedReserve s"
    by (simp_all add: e restored_def books.defs)
  then show ?thesis
    using books ledger order by (auto simp: e recoverLedger_def bindS_Inr Let_def)
qed

text \<open>
  A checkpoint of the demo engine with an authorised order.
\<close>

definition demo_authorized :: "order \<Rightarrow> order" where
  "demo_authorized x = authorizeOrder zeros32 (x\<lparr>od_Q := TAG_quote,
     od_receipt := (od_receipt x)\<lparr>rc_quote := toHex TAG_quote\<rparr>\<rparr>)"

definition demo_checkpoint :: "nat saved_books" where
  "demo_checkpoint = snapshot ((demo_engine demo_authorized)\<lparr>bk_outstanding := 25\<rparr>)"

lemma demo_token: "token (toHex zeros32)"
  by code_simp

lemma demo_id: "lower_hex_id (js ''00000000-0000-4000-8000-000000000000'')"
  by code_simp

lemma demo_header: "recoverHeader demo_checkpoint = Inr ()"
  by (simp add: recoverHeader_def demo_checkpoint_def snapshot_def books.defs demo_engine_def newEngine_def
      Let_def demo_world_def require_def demo_token demo_id isSafeInteger_def max_safe_def)

lemma demo_recovered_ledger: "recoverLedger demo_world demo_checkpoint demo_ledger = Inr ()"
  by (simp add: recoverLedger_def demo_checkpoint_def snapshot_def books.defs demo_engine_def newEngine_def
      Let_def demo_world_def require_def demo_ledger_def lineStateCommit_def)

lemma demo_recovered_orders: "recoverOrders demo_world demo_checkpoint demo_ledger (bk_orders demo_checkpoint) = Inr ()"
  by (simp add: recoverOrder_def demo_checkpoint_def snapshot_def books.defs demo_engine_def newEngine_def
      Let_def demo_world_def require_def demo_ledger_def demo_authorized_def demo_order_def demo_request_valid
      demo_document recoverClaim_def demo_claim_def demo_eval authorizeOrder_def addStages_def claimed_def)

lemma demo_recovers: "recover demo_world demo_checkpoint = Inr (restored demo_checkpoint)"
proof -
  have "readLedger demo_contract (bk_session demo_checkpoint) = demo_ledger"
    by (simp add: readLedger_def demo_contract_def)
  then show ?thesis
    using demo_header demo_recovered_ledger demo_recovered_orders by (simp add: recover_def)
qed

theorem recovered_consistent_witness:
  "bk_outstanding (restored demo_checkpoint) = 25 \<and>
   bk_outstanding (restored demo_checkpoint) \<le> bk_limit (restored demo_checkpoint)"
  using recovered_consistent [OF demo_recovers]
  by (simp add: demo_checkpoint_def snapshot_def restored_def books.defs)


text \<open>
  The document analysis is exact: it reports the number of words; each reported term with the
  number of its occurrences; five terms, or all when there are fewer, by falling frequency; and no
  word left out is more frequent than one reported, whatever the collation does.
\<close>

theorem text_analysis_exact:
  "\<exists>m ts. deliver w TextAnalysis document = Analysis (length (wd_words w document)) m ts \<and>
     length ts = min 5 (card (set (wd_words w document))) \<and> descending ts \<and>
     (\<forall>(v, n) \<in> set ts. n = count_list (wd_words w document) v \<and> v \<in> set (wd_words w document)) \<and>
     (\<forall>v \<in> set (wd_words w document) - fst ` set ts. \<forall>(u, n) \<in> set ts.
        count_list (wd_words w document) v \<le> n)"
proof -
  let ?ts = "take 5 (sort_stable (term_before w) (foldl count_word [] (wd_words w document)))"
  note top = top_terms [where k = 5 and w = w and ws = "wd_words w document"]
  obtain m where m: "deliver w TextAnalysis document = Analysis (length (wd_words w document)) m ?ts"
    by (simp add: deliver_def Let_def)
  have counts: "\<forall>(v, n) \<in> set ?ts. n = count_list (wd_words w document) v \<and> v \<in> set (wd_words w document)"
  proof (rule ballI, clarify)
    fix v n
    assume "(v, n) \<in> set ?ts"
    then show "n = count_list (wd_words w document) v \<and> v \<in> set (wd_words w document)" by (rule top(3))
  qed
  have rest: "\<forall>v \<in> set (wd_words w document) - fst ` set ?ts. \<forall>(u, n) \<in> set ?ts.
      count_list (wd_words w document) v \<le> n"
  proof (intro ballI, clarify)
    fix v u n
    assume "v \<in> set (wd_words w document)" "v \<notin> fst ` set ?ts" "(u, n) \<in> set ?ts"
    then show "count_list (wd_words w document) v \<le> n" by (rule top(4))
  qed
  show ?thesis
    by (rule exI [of _ m], rule exI [of _ ?ts], intro conjI m top(1,2) counts rest)
qed

theorem text_analysis_exact_witness:
  "\<exists>m ts. deliver (demo_world\<lparr>wd_words := \<lambda>_. [js ''a'', js ''b'', js ''a'']\<rparr>) TextAnalysis [] = Analysis 3 m ts \<and>
     descending ts \<and> length ts \<le> 5"
  using text_analysis_exact [of "demo_world\<lparr>wd_words := \<lambda>_. [js ''a'', js ''b'', js ''a'']\<rparr>" "[]"]
  by fastforce

text \<open>
  Splitting a document into sentences always ends, each sentence is nonempty text with at most one
  closing mark, and together they contain every character of the document that is not a mark, in
  order.
\<close>

theorem sentences_cover_document:
  "list_all sentence_run (sentence_runs document) \<and>
   filter (\<lambda>c. \<not> ends_sentence c) (concat (sentence_runs document)) =
     filter (\<lambda>c. \<not> ends_sentence c) document"
  by (rule conjI [OF sentence_runs_shape sentence_runs_words [unfolded words_of_def]])

end
