(* ===== verification/Vault.thy ===== *)
theory Vault
  imports Vault_Facts "HOL-Library.AList"
begin

text \<open>
  The encrypted store, \<open>src/lib/security/vault.ts\<close>: envelopes of AES-GCM under a PBKDF2 key, kept by
  identifier in IndexedDB or, outside a browser, in a map of the process. The platform is a
  parameter: random bytes, the clock, key derivation, the cipher, \<open>TextDecoder\<close>, \<open>JSON\<close>, and what
  becomes of a database transaction. An operation maps the store to its result and the store it
  leaves behind.
\<close>

section \<open>The platform\<close>

text \<open>
  The cipher takes the key, the nonce, the additional data (none is the empty string) and the text.
  \<open>pf_locks\<close> is how often the vault session is locked while a transaction is in progress.
\<close>

record 'k platform =
  pf_random :: "nat \<Rightarrow> nat \<Rightarrow> bytes"
  pf_now :: int
  pf_derive :: "bytes \<Rightarrow> bytes \<Rightarrow> 'k"
  pf_seal :: "'k \<Rightarrow> bytes \<Rightarrow> bytes \<Rightarrow> bytes \<Rightarrow> bytes"
  pf_unseal :: "'k \<Rightarrow> bytes \<Rightarrow> bytes \<Rightarrow> bytes \<Rightarrow> bytes option"
  pf_decode :: "bytes \<Rightarrow> jsstr"
  pf_stringify :: "jsval \<Rightarrow> jsstr"
  pf_parse :: "jsstr \<Rightarrow> jsval option"
  pf_indexedDB :: bool
  pf_window :: bool
  pf_opens :: bool
  pf_commits :: bool
  pf_locks :: nat

text \<open>
  What the code relies on: random arrays have the length asked for; the cipher decrypts exactly what
  it encrypted under the same key, nonce and additional data, and appends a tag of 16 bytes;
  \<open>TextDecoder\<close> undoes \<open>TextEncoder\<close> on well-formed strings that do not start with a byte order mark.
\<close>

definition BOM :: "16 word" where
  "BOM = 0xFEFF"

definition platform_ok :: "'k platform \<Rightarrow> bool" where
  "platform_ok p \<longleftrightarrow> (\<forall>i n. length (pf_random p i n) = n) \<and>
     (\<forall>k iv aad t c. pf_unseal p k iv aad c = Some t \<longleftrightarrow> c = pf_seal p k iv aad t) \<and>
     (\<forall>k iv aad t. length (pf_seal p k iv aad t) = length t + 16) \<and>
     (\<forall>s. well_formed s \<and> take 1 s \<noteq> [BOM] \<longrightarrow> pf_decode p (utf8 s) = s)"

section \<open>Envelopes\<close>

record envelope =
  ev_version :: "int option"
  ev_id :: jsstr
  ev_saltHex :: jsstr
  ev_ivHex :: jsstr
  ev_ciphertextHex :: jsstr
  ev_updatedAt :: int

definition vault_error :: "string \<Rightarrow> string \<Rightarrow> 'a outcome" where
  "vault_error name message = Inl (Throw (NamedError name message))"

text \<open>\<open>VaultPersistenceError\<close>, \<open>src/lib/runtime/errors.ts\<close>.\<close>

definition persistence_error :: "string \<Rightarrow> 'a outcome" where
  "persistence_error message =
     vault_error ''VaultPersistenceError'' (''Encrypted vault persistence failed: '' @ message)"

definition bufferToHex :: "bytes \<Rightarrow> jsstr" where
  "bufferToHex buf = concat (map hex_byte buf)"

definition hexToBuffer :: "jsstr \<Rightarrow> bytes outcome" where
  "hexToBuffer hex =
     (if hex = [] \<or> odd (length hex) \<or> \<not> list_all is_hex hex
      then vault_error ''VaultTamperedError'' ''Malformed encrypted envelope.''
      else Inr (parse_hex_pairs (strip_0x hex)))"

definition deriveKey :: "'k platform \<Rightarrow> jsstr \<Rightarrow> bytes \<Rightarrow> 'k" where
  "deriveKey p passphrase salt = pf_derive p (utf8 passphrase) salt"

definition encryptSecret :: "'k platform \<Rightarrow> jsstr \<Rightarrow> jsstr \<Rightarrow> jsstr \<Rightarrow> envelope" where
  "encryptSecret p i plaintext passphrase =
     (let salt = pf_random p 0 16; iv = pf_random p 1 12; k = deriveKey p passphrase salt;
          ciphertext = pf_seal p k iv (utf8 i) (utf8 plaintext) in
      \<lparr>ev_version = Some 2, ev_id = i, ev_saltHex = bufferToHex salt, ev_ivHex = bufferToHex iv,
       ev_ciphertextHex = bufferToHex ciphertext, ev_updatedAt = pf_now p\<rparr>)"

definition decryptSecret :: "'k platform \<Rightarrow> envelope \<Rightarrow> jsstr \<Rightarrow> jsstr outcome" where
  "decryptSecret p ev passphrase =
     (if ev_version ev \<noteq> None \<and> ev_version ev \<noteq> Some 2
      then vault_error ''VaultTamperedError'' ''Malformed encrypted envelope.'' else
      bindS (hexToBuffer (ev_saltHex ev)) (\<lambda>salt.
      bindS (hexToBuffer (ev_ivHex ev)) (\<lambda>iv.
      bindS (hexToBuffer (ev_ciphertextHex ev)) (\<lambda>ciphertext.
      if length salt \<noteq> 16 \<or> length iv \<noteq> 12 \<or> length ciphertext < 16
      then vault_error ''VaultTamperedError'' ''Malformed encrypted envelope.'' else
      (case pf_unseal p (deriveKey p passphrase salt) iv
          (if ev_version ev = Some 2 then utf8 (ev_id ev) else []) ciphertext of
         Some t \<Rightarrow> Inr (pf_decode p t)
       | None \<Rightarrow> vault_error ''VaultPassphraseError'' ''Ciphertext MAC authentication failed: Incorrect vault passphrase or corrupted ciphertext.'')))))"

section \<open>Transactions\<close>

type_synonym vault_store = "(jsstr \<times> envelope) list"

text \<open>The caller's check before a write, by the number of the call; without one every call passes.\<close>

type_synonym write_guard = "nat \<Rightarrow> exn option"

definition passes :: "write_guard \<Rightarrow> nat \<Rightarrow> unit outcome" where
  "passes g n = (case find (\<lambda>i. g i \<noteq> None) [0..<n] of
     None \<Rightarrow> Inr ()
   | Some i \<Rightarrow> (case g i of Some x \<Rightarrow> Inl (Throw x) | None \<Rightarrow> Inr ()))"

definition no_guard :: write_guard where
  "no_guard i = None"

definition assertNonBrowserFallback :: "'k platform \<Rightarrow> unit outcome" where
  "assertNonBrowserFallback p =
     (if pf_window p then persistence_error ''Browser encrypted storage is unavailable.''
      else Inr ())"

text \<open>
  \<open>transact\<close>: the check runs once the database is open, at every call the operation makes (\<open>calls\<close>)
  and whenever the session is locked before the transaction completes; a failed check aborts the
  transaction, and only a completed one counts.
\<close>

definition transact ::
    "'k platform \<Rightarrow> write_guard \<Rightarrow> nat \<Rightarrow> (vault_store \<Rightarrow> 'a \<times> vault_store) \<Rightarrow>
       vault_store \<Rightarrow> 'a outcome \<times> vault_store" where
  "transact p g calls run s =
     (if \<not> pf_opens p then (persistence_error ''Cannot open encrypted storage.'', s) else
      case passes g (1 + calls + pf_locks p) of
        Inl e \<Rightarrow> (Inl e, s)
      | Inr u \<Rightarrow>
        if pf_commits p then (case run s of (a, s') \<Rightarrow> (Inr a, s'))
        else (persistence_error ''Encrypted storage transaction did not commit.'', s))"

text \<open>The store outside a browser: one check, then the change.\<close>

definition fallback ::
    "'k platform \<Rightarrow> write_guard \<Rightarrow> (vault_store \<Rightarrow> 'a \<times> vault_store) \<Rightarrow>
       vault_store \<Rightarrow> 'a outcome \<times> vault_store" where
  "fallback p g run s =
     (case bindS (assertNonBrowserFallback p) (\<lambda>_. passes g 1) of
        Inl e \<Rightarrow> (Inl e, s)
      | Inr u \<Rightarrow> (case run s of (a, s') \<Rightarrow> (Inr a, s')))"

section \<open>Operations\<close>

definition saveEncryptedSecret ::
    "'k platform \<Rightarrow> write_guard \<Rightarrow> jsstr \<Rightarrow> jsstr \<Rightarrow> jsstr \<Rightarrow> vault_store \<Rightarrow> unit outcome \<times> vault_store"
where
  "saveEncryptedSecret p g i plaintext passphrase s =
     (let ev = encryptSecret p i plaintext passphrase; run = (\<lambda>s. ((), AList.update i ev s)) in
      if \<not> pf_indexedDB p then fallback p g run s else transact p g 0 run s)"

definition loadEncryptedSecret ::
    "'k platform \<Rightarrow> jsstr \<Rightarrow> jsstr \<Rightarrow> vault_store \<Rightarrow> jsstr option outcome" where
  "loadEncryptedSecret p i passphrase s =
     (let run = (\<lambda>s. (map_of s i, s)) in
      bindS (fst (if \<not> pf_indexedDB p then fallback p no_guard run s else transact p no_guard 0 run s)) (\<lambda>r.
      case r of
        None \<Rightarrow> Inr None
      | Some ev \<Rightarrow>
        if ev_id ev \<noteq> i
        then vault_error ''VaultTamperedError'' ''Encrypted record identity does not match its storage key.''
        else bindS (decryptSecret p ev passphrase) (\<lambda>t. Inr (Some t))))"

definition saveEncryptedJson ::
    "'k platform \<Rightarrow> write_guard \<Rightarrow> jsstr \<Rightarrow> jsval \<Rightarrow> jsstr \<Rightarrow> vault_store \<Rightarrow> unit outcome \<times> vault_store"
where
  "saveEncryptedJson p g i v passphrase s =
     (case encodeVaultJson v of
        Inl e \<Rightarrow> (Inl e, s)
      | Inr t \<Rightarrow> saveEncryptedSecret p g i (pf_stringify p t) passphrase s)"

definition loadEncryptedJson ::
    "'k platform \<Rightarrow> jsstr \<Rightarrow> jsstr \<Rightarrow> vault_store \<Rightarrow> jsval option outcome" where
  "loadEncryptedJson p i passphrase s =
     bindS (loadEncryptedSecret p i passphrase s) (\<lambda>r.
     case r of
       None \<Rightarrow> Inr None
     | Some text \<Rightarrow>
       (case pf_parse p text of
          None \<Rightarrow> vault_error ''VaultTamperedError'' ''Vault JSON payload is malformed or unsupported.''
        | Some t \<Rightarrow> bindS (decodeVaultJson t) (\<lambda>v. Inr (Some v))))"

definition removeEncryptedSecret ::
    "'k platform \<Rightarrow> write_guard \<Rightarrow> jsstr \<Rightarrow> vault_store \<Rightarrow> unit outcome \<times> vault_store" where
  "removeEncryptedSecret p g i s =
     (let run = (\<lambda>s. ((), AList.delete i s)) in
      if \<not> pf_indexedDB p then fallback p g run s else transact p g 0 run s)"

text \<open>In a browser the check runs again before every record that is deleted.\<close>

definition removeEncryptedPrefix ::
    "'k platform \<Rightarrow> write_guard \<Rightarrow> jsstr \<Rightarrow> vault_store \<Rightarrow> nat outcome \<times> vault_store" where
  "removeEncryptedPrefix p g prefix s =
     (let matching = (\<lambda>s. filter (\<lambda>(i, e). starts_with i prefix) s);
          run = (\<lambda>s. (length (matching s), filter (\<lambda>(i, e). \<not> starts_with i prefix) s)) in
      if \<not> pf_indexedDB p then fallback p g run s else transact p g (length (matching s)) run s)"

definition listEncryptedKeys :: "'k platform \<Rightarrow> jsstr option \<Rightarrow> vault_store \<Rightarrow> jsstr list outcome" where
  "listEncryptedKeys p prefix s =
     (let run = (\<lambda>s. (filter (\<lambda>i. case prefix of None \<Rightarrow> True | Some q \<Rightarrow> q = [] \<or> starts_with i q) (map fst s), s)) in
      fst (if \<not> pf_indexedDB p then fallback p no_guard run s else transact p no_guard 0 run s))"

section \<open>Legacy storage\<close>

definition contains :: "jsstr \<Rightarrow> string \<Rightarrow> bool" where
  "contains s t \<longleftrightarrow> list_ex (\<lambda>i. starts_with (drop i s) (js t)) [0..<Suc (length s)]"

definition legacy_key :: "jsstr \<Rightarrow> bool" where
  "legacy_key k \<longleftrightarrow> k \<noteq> [] \<and> (starts_with k (js ''line.protocol'') \<or> contains k ''line:store'' \<or>
     contains k ''line.state'' \<or> contains k ''agent-secret'' \<or> contains k ''witness'')"

definition purgeLegacyPlaintextStorage :: "(jsstr \<times> jsstr) list \<Rightarrow> (jsstr \<times> jsstr) list" where
  "purgeLegacyPlaintextStorage local =
     (let toRemove = filter legacy_key (map fst local) in
      filter (\<lambda>(k, v). k \<notin> set toRemove) local)"

end
