(* ===== verification/Vault_Session.thy ===== *)
theory Vault_Session
  imports Vault Outcome_Machine
begin

text \<open>
  The unlocked session of the vault, \<open>src/lib/security/vault.ts\<close>: the passphrase in memory, its
  deadline, the timer that ends it, the revision other components compare, and the listeners that
  are told of every lock. Readings of \<open>Date.now()\<close> are arguments; the minutes of a session are an
  integer, the only kind of number its callers pass.
\<close>

section \<open>State\<close>

text \<open>\<open>vs_notified\<close> records the listeners that were called, in order.\<close>

record vault_session =
  vs_passphrase :: "jsstr option"
  vs_expiresAt :: int
  vs_timer :: "int option"
  vs_revision :: nat
  vs_listeners :: "nat list"
  vs_notified :: "nat list"

definition fresh_session :: vault_session where
  "fresh_session = \<lparr>vs_passphrase = None, vs_expiresAt = 0, vs_timer = None, vs_revision = 0,
     vs_listeners = [], vs_notified = []\<rparr>"

section \<open>Operations\<close>

text \<open>A listener that throws does not stop the others: each of them is called.\<close>

definition lockVaultSession :: "vault_session \<Rightarrow> vault_session" where
  "lockVaultSession s = s\<lparr>vs_revision := vs_revision s + 1, vs_passphrase := None, vs_expiresAt := 0,
     vs_timer := None, vs_notified := vs_notified s @ vs_listeners s\<rparr>"

definition onVaultSessionLock :: "nat \<Rightarrow> vault_session \<Rightarrow> vault_session" where
  "onVaultSessionLock l s = s\<lparr>vs_listeners := List.insert l (vs_listeners s)\<rparr>"

definition stopVaultListener :: "nat \<Rightarrow> vault_session \<Rightarrow> vault_session" where
  "stopVaultListener l s = s\<lparr>vs_listeners := removeAll l (vs_listeners s)\<rparr>"

text \<open>The three readings are those of the check, of the deadline and of the timer.\<close>

definition unlockVaultSession ::
    "(nat \<Rightarrow> int) \<Rightarrow> jsstr \<Rightarrow> int \<Rightarrow> int option \<Rightarrow> vault_session \<Rightarrow> unit outcome \<times> vault_session" where
  "unlockVaultSession now passphrase minutes deadline s =
     (if passphrase = [] \<or> minutes \<le> 0 \<or> minutes * 60000 > 2147483647 \<or>
         (case deadline of None \<Rightarrow> False | Some d \<Rightarrow> \<not> isSafeInteger d \<or> d \<le> now 0)
      then (Inl (Throw (TypeError ''A passphrase and a valid positive vault timeout are required.'')), s)
      else
        (let s1 = lockVaultSession s;
             ends = now 1 + minutes * 60 * 1000;
             expiresAt = (case deadline of None \<Rightarrow> ends | Some d \<Rightarrow> min ends d) in
         (Inr (), s1\<lparr>vs_revision := vs_revision s1 + 1, vs_passphrase := Some passphrase,
            vs_expiresAt := expiresAt, vs_timer := Some (now 2 + max 0 (expiresAt - now 2))\<rparr>)))"

definition isVaultSessionUnlocked :: "int \<Rightarrow> vault_session \<Rightarrow> bool \<times> vault_session" where
  "isVaultSessionUnlocked now s =
     (let s' = (if vs_passphrase s \<noteq> None \<and> now \<ge> vs_expiresAt s then lockVaultSession s else s) in
      (vs_passphrase s' \<noteq> None, s'))"

definition getVaultSessionPassphrase :: "int \<Rightarrow> vault_session \<Rightarrow> jsstr option \<times> vault_session" where
  "getVaultSessionPassphrase now s =
     (case isVaultSessionUnlocked now s of
        (unlocked, s') \<Rightarrow> if \<not> unlocked then (None, s') else (vs_passphrase s', s'))"

definition getVaultSessionExpiresAt :: "int \<Rightarrow> vault_session \<Rightarrow> int \<times> vault_session" where
  "getVaultSessionExpiresAt now s =
     (case isVaultSessionUnlocked now s of
        (unlocked, s') \<Rightarrow> (if unlocked then vs_expiresAt s' else 0, s'))"

text \<open>The timer: it locks the session when it is due.\<close>

definition sessionTimer :: "int \<Rightarrow> vault_session \<Rightarrow> vault_session" where
  "sessionTimer now s = (case vs_timer s of
     Some due \<Rightarrow> if due \<le> now then lockVaultSession s else s
   | None \<Rightarrow> s)"

text \<open>\<open>clearVaultState\<close>: lock, purge what older versions left in plain text, empty the store.\<close>

definition clearVaultState ::
    "'k platform \<Rightarrow> vault_session \<Rightarrow> (jsstr \<times> jsstr) list \<Rightarrow> vault_store \<Rightarrow>
       unit outcome \<times> vault_session \<times> (jsstr \<times> jsstr) list \<times> vault_store" where
  "clearVaultState p s local store =
     (case (if \<not> pf_indexedDB p then fallback p no_guard (\<lambda>_. ((), [])) store
            else transact p no_guard 0 (\<lambda>_. ((), [])) store) of
        (r, store') \<Rightarrow> (r, lockVaultSession s, purgeLegacyPlaintextStorage local, store'))"

section \<open>Histories\<close>

datatype session_op =
    Unlock "nat \<Rightarrow> int" jsstr int "int option"
  | Lock
  | Read int
  | Expiry int
  | Tick int
  | Listen nat
  | Unlisten nat

fun session_step :: "session_op \<Rightarrow> vault_session \<Rightarrow> vault_session" where
  "session_step (Unlock now p m d) s = snd (unlockVaultSession now p m d s)"
| "session_step Lock s = lockVaultSession s"
| "session_step (Read t) s = snd (getVaultSessionPassphrase t s)"
| "session_step (Expiry t) s = snd (getVaultSessionExpiresAt t s)"
| "session_step (Tick t) s = sessionTimer t s"
| "session_step (Listen l) s = onVaultSessionLock l s"
| "session_step (Unlisten l) s = stopVaultListener l s"

definition session_run :: "session_op list \<Rightarrow> vault_session \<Rightarrow> vault_session" where
  "session_run ops s = fold session_step ops s"

text \<open>
  The session is either locked, with nothing left of it, or holds a nonempty passphrase whose timer
  is not due before the deadline.
\<close>

definition session_ok :: "vault_session \<Rightarrow> bool" where
  "session_ok s \<longleftrightarrow> distinct (vs_listeners s) \<and>
     (case vs_passphrase s of
        None \<Rightarrow> vs_expiresAt s = 0 \<and> vs_timer s = None
      | Some p \<Rightarrow> p \<noteq> [] \<and> (\<exists>t. vs_timer s = Some t \<and> vs_expiresAt s \<le> t))"

text \<open>Between two states with the same revision nothing was locked or unlocked.\<close>

definition session_le :: "vault_session \<Rightarrow> vault_session \<Rightarrow> bool" where
  "session_le s s' \<longleftrightarrow> vs_revision s \<le> vs_revision s' \<and>
     (vs_revision s' = vs_revision s \<longrightarrow> vs_passphrase s' = vs_passphrase s \<and>
        vs_expiresAt s' = vs_expiresAt s \<and> vs_timer s' = vs_timer s)"

lemma session_le_refl: "session_le s s"
  by (simp add: session_le_def)

lemma session_le_trans: "session_le s s' \<Longrightarrow> session_le s' s'' \<Longrightarrow> session_le s s''"
  by (auto simp: session_le_def)

lemma lock_le: "session_le s (lockVaultSession s)" and lock_ok: "session_ok s \<Longrightarrow> session_ok (lockVaultSession s)"
  by (simp_all add: session_le_def lockVaultSession_def session_ok_def split: option.split)

lemma unlocked_state: "snd (isVaultSessionUnlocked t s) = s \<or> snd (isVaultSessionUnlocked t s) = lockVaultSession s"
  by (simp add: isVaultSessionUnlocked_def Let_def)

lemma reading_state:
  "snd (getVaultSessionPassphrase t s) = snd (isVaultSessionUnlocked t s)"
  "snd (getVaultSessionExpiresAt t s) = snd (isVaultSessionUnlocked t s)"
  by (simp_all add: getVaultSessionPassphrase_def getVaultSessionExpiresAt_def split: prod.split)

lemma unlock_le: "session_le s (snd (unlockVaultSession now p m d s))"
  and unlock_ok: "session_ok s \<Longrightarrow> session_ok (snd (unlockVaultSession now p m d s))"
  by (auto simp: unlockVaultSession_def Let_def session_le_def lockVaultSession_def session_ok_def split: option.split)

lemma session_step_le: "session_step op s = s' \<Longrightarrow> session_le s s'"
proof -
  have "session_le s (session_step op s)"
  proof (cases op)
    case (Read t)
    then show ?thesis using unlocked_state [of t s] lock_le session_le_refl by (auto simp: reading_state)
  next
    case (Expiry t)
    then show ?thesis using unlocked_state [of t s] lock_le session_le_refl by (auto simp: reading_state)
  next
    case (Listen l)
    then show ?thesis by (simp add: onVaultSessionLock_def session_le_def)
  next
    case (Unlisten l)
    then show ?thesis by (simp add: stopVaultListener_def session_le_def)
  qed (use unlock_le lock_le session_le_refl in \<open>auto simp: sessionTimer_def split: option.split\<close>)
  then show "session_step op s = s' \<Longrightarrow> session_le s s'" by blast
qed

lemma session_step_ok: "session_ok s \<Longrightarrow> session_step op s = s' \<Longrightarrow> session_ok s'"
proof -
  have "session_ok (session_step op s)" if "session_ok s"
  proof (cases op)
    case (Read t)
    then show ?thesis using unlocked_state [of t s] that lock_ok [OF that] by (auto simp: reading_state)
  next
    case (Expiry t)
    then show ?thesis using unlocked_state [of t s] that lock_ok [OF that] by (auto simp: reading_state)
  next
    case (Listen l)
    then show ?thesis using that by (simp add: onVaultSessionLock_def session_ok_def split: option.splits)
  next
    case (Unlisten l)
    then show ?thesis using that by (simp add: stopVaultListener_def session_ok_def distinct_removeAll split: option.splits)
  qed (use that unlock_ok lock_ok in \<open>auto simp: sessionTimer_def split: option.split\<close>)
  then show "session_ok s \<Longrightarrow> session_step op s = s' \<Longrightarrow> session_ok s'" by blast
qed

interpretation session: step_machine "\<lambda>s s'. \<exists>op. session_step op s = s'" session_ok session_le
  by unfold_locales (auto intro: session_step_ok session_step_le session_le_refl session_le_trans)

lemma session_run_steps: "(\<lambda>s s'. \<exists>op. session_step op s = s')\<^sup>*\<^sup>* s (session_run ops s)"
proof (induction ops arbitrary: s)
  case (Cons op ops)
  then show ?case by (auto simp: session_run_def intro: converse_rtranclp_into_rtranclp)
qed (simp add: session_run_def)

end
