(* ===== verification/Vault_Demo.thy ===== *)
theory Vault_Demo
  imports Vault_Session
begin

text \<open>
  A concrete platform: a decoder of UTF-8, a cipher whose tag is computed from the key, the nonce and
  the additional data, and a store outside a browser.
\<close>

section \<open>Reading UTF-8\<close>

definition point_units :: "nat \<Rightarrow> jsstr" where
  "point_units n = (if n < 65536 then [of_nat n]
     else [of_nat (55296 + (n - 65536) div 1024), of_nat (56320 + (n - 65536) mod 1024)])"

lemma of_nat_unat_u16: "(of_nat (unat c) :: 16 word) = c"
  by simp

lemma point_units_pair:
  assumes "is_high c" and "is_low d"
  shows "point_units (pair_point c d) = [c, d]"
proof -
  have c: "unat c = 55296 + (unat c - 55296)" and d: "unat d = 56320 + (unat d - 56320)"
    and low: "unat d - 56320 < 1024"
    using assms by (auto simp: is_high_def is_low_def)
  have "pair_point c d - 65536 = (unat c - 55296) * 1024 + (unat d - 56320)"
    by (simp add: pair_point_def)
  then have "(pair_point c d - 65536) div 1024 = unat c - 55296" "(pair_point c d - 65536) mod 1024 = unat d - 56320"
    using low by simp_all
  then show ?thesis
    using pair_point_bounds [OF assms] c d
    unfolding point_units_def by (simp del: of_nat_add)
qed

lemma point_units_single: "point_units (unat c) = [c]" for c :: "16 word"
  using unat_u16 [of c] by (simp add: point_units_def)

lemma units_points: "well_formed s \<Longrightarrow> concat (map point_units (code_points s)) = s"
  by (induction s rule: code_points.induct) (auto simp: point_units_pair point_units_single)

function read_points :: "nat list \<Rightarrow> nat list" where
  "read_points [] = []"
| "read_points (a # bs) =
     (if a < 128 then a # read_points bs
      else if a < 224 then ((a - 192) * 64 + (hd bs - 128)) # read_points (drop 1 bs)
      else if a < 240 then
        ((a - 224) * 4096 + (hd bs - 128) * 64 + (bs ! 1 - 128)) # read_points (drop 2 bs)
      else ((a - 240) * 262144 + (hd bs - 128) * 4096 + (bs ! 1 - 128) * 64 + (bs ! 2 - 128)) #
        read_points (drop 3 bs))"
  by pat_completeness auto
termination by (relation "measure length") auto

lemma unat_byte: "n < 256 \<Longrightarrow> unat (of_nat n :: 8 word) = n"
  by (simp add: unat_of_nat)

lemma read_point:
  assumes "n < 1114112"
  shows "read_points (map unat (utf8_point n) @ rest) = n # read_points rest"
proof -
  consider "n < 128" | "128 \<le> n" "n < 2048" | "2048 \<le> n" "n < 65536" | "65536 \<le> n" by linarith
  then show ?thesis
  proof cases
    case 1
    then show ?thesis by (simp add: utf8_point_def unat_byte)
  next
    case 2
    then have "n div 64 < 32" by simp
    with 2 show ?thesis by (simp add: utf8_point_def unat_byte del: of_nat_add)
  next
    case 3
    then have "n div 4096 < 16" by simp
    moreover have "n = n div 4096 * 4096 + n div 64 mod 64 * 64 + n mod 64"
      using div_mult_mod_eq [of n 64] div_mult_mod_eq [of "n div 64" 64] div_mult2_eq [of n 64 64, simplified] by linarith
    ultimately show ?thesis using 3 by (simp add: utf8_point_def unat_byte del: of_nat_add)
  next
    case 4
    then have "n div 262144 < 5" using assms by simp
    moreover have "n = n div 262144 * 262144 + n div 4096 mod 64 * 4096 + n div 64 mod 64 * 64 + n mod 64"
      using div_mult_mod_eq [of n 64] div_mult_mod_eq [of "n div 64" 64] div_mult_mod_eq [of "n div 4096" 64]
        div_mult2_eq [of n 64 64, simplified] div_mult2_eq [of n 4096 64, simplified] by linarith
    ultimately show ?thesis using 4 by (simp add: utf8_point_def unat_byte del: of_nat_add)
  qed
qed

lemma read_utf8: "\<forall>n \<in> set ps. n < 1114112 \<Longrightarrow> read_points (map unat (concat (map utf8_point ps))) = ps"
  by (induction ps) (auto simp: read_point)

definition decode_utf8 :: "bytes \<Rightarrow> jsstr" where
  "decode_utf8 bs = (let s = concat (map point_units (read_points (map unat bs))) in
     if take 1 s = [BOM] then drop 1 s else s)"

lemma decode_utf8: "well_formed s \<Longrightarrow> take 1 s \<noteq> [BOM] \<Longrightarrow> decode_utf8 (utf8 s) = s"
  using code_points_bound by (simp add: decode_utf8_def utf8_def read_utf8 units_points Let_def)

section \<open>The platform\<close>

definition demo_tag :: "bytes \<Rightarrow> bytes \<Rightarrow> bytes \<Rightarrow> bytes" where
  "demo_tag k iv aad = take 16 (aad @ k @ iv @ replicate 16 0)"

text \<open>The stored form of \<open>null\<close>, and a \<open>JSON\<close> that knows no other value.\<close>

definition stored_null :: jsval where
  "stored_null = JObj [(js ''format'', JStr (js VAULT_FORMAT)), (js ''payload'', JArr [JStr (js ''null'')])]"

definition demo_platform :: "bytes platform" where
  "demo_platform = \<lparr>pf_random = (\<lambda>i n. replicate n (of_nat i)), pf_now = 7,
     pf_derive = (\<lambda>p s. p @ s), pf_seal = (\<lambda>k iv aad t. t @ demo_tag k iv aad),
     pf_unseal = (\<lambda>k iv aad c. let n = length c - 16 in
        if 16 \<le> length c \<and> drop n c = demo_tag k iv aad then Some (take n c) else None),
     pf_decode = decode_utf8, pf_stringify = (\<lambda>t. if t = stored_null then js ''1'' else js ''2''),
     pf_parse = (\<lambda>s. if s = js ''1'' then Some stored_null else None),
     pf_indexedDB = False, pf_window = False, pf_opens = True, pf_commits = True, pf_locks = 0\<rparr>"

lemma length_demo_tag [simp]: "length (demo_tag k iv aad) = 16"
  by (simp add: demo_tag_def)

lemma demo_unseal: "(let n = length c - 16 in
    if 16 \<le> length c \<and> drop n c = demo_tag k iv aad then Some (take n c) else None) = Some t \<longleftrightarrow>
    c = t @ demo_tag k iv aad"
  by (auto simp: Let_def) (metis append_take_drop_id)+

lemma demo_platform_ok: "platform_ok demo_platform"
  unfolding platform_ok_def by (simp add: demo_platform_def demo_unseal decode_utf8 del: Let_def)

lemma stored_null: "encodeVaultJson JNull = Inr stored_null"
  by (simp add: encodeVaultJson_def stored_null_def encode_val.simps node1_def MAX_NODES_def MAX_DEPTH_def)

lemma demo_json: "pf_stringify demo_platform stored_null = js ''1''" "pf_parse demo_platform (js ''1'') = Some stored_null"
  by (simp_all add: demo_platform_def)

lemma plain_text:
  "well_formed (js ''1'')" "take 1 (js ''1'') \<noteq> [BOM]"
  "well_formed (js ''secret'')" "take 1 (js ''secret'') \<noteq> [BOM]"
  by (simp_all add: js_def BOM_def is_high_def is_low_def)

lemma different_identifiers: "js ''b'' \<noteq> js ''a''"
  by (simp add: js_def)

end
