(* ===== verification/Vault_Properties.thy ===== *)
theory Vault_Properties
  imports Vault_Demo
begin

text \<open>Properties of the encrypted store and of the unlocked session.\<close>

section \<open>Facts about envelopes\<close>

lemma bufferToHex_toHex: "bufferToHex bs = toHex bs"
  by (induction bs) (simp_all add: bufferToHex_def)

lemma hexToBuffer_toHex:
  assumes "bs \<noteq> []"
  shows "hexToBuffer (bufferToHex bs) = Inr bs"
proof -
  have "hexToBytes (toHex bs) = Inr bs" by (rule hexToBytes_toHex)
  moreover have hex: "list_all is_hex (toHex bs)" using lower_hex_toHex [of bs]
    by (auto simp: list_all_iff is_hex_def is_lower_hex_def Let_def)
  ultimately show ?thesis
    using assms by (simp add: hexToBuffer_def bufferToHex_toHex hexToBytes_def strip_0x_hex Let_def split: if_splits)
      (cases bs; simp add: hex_byte_def)
qed

lemma decrypt_encrypted:
  assumes "platform_ok p" and "well_formed t" and "take 1 t \<noteq> [BOM]"
  shows "decryptSecret p (encryptSecret p i t passphrase) passphrase = Inr t"
proof -
  have len: "length (pf_random p j n) = n" "length (pf_seal p k iv aad x) = length x + 16" for j n k iv aad x
    using assms(1) by (simp_all add: platform_ok_def)
  have ne: "0 < n \<Longrightarrow> pf_random p j n \<noteq> []" "pf_seal p k iv aad x \<noteq> []" for j n k iv aad x
    using len(1) [of j n] len(2) [of k iv aad x] by auto
  have "pf_unseal p k iv aad (pf_seal p k iv aad x) = Some x" for k iv aad x
    using assms(1) by (simp add: platform_ok_def)
  moreover have "pf_decode p (utf8 t) = t" using assms by (simp add: platform_ok_def)
  ultimately show ?thesis
    by (simp add: decryptSecret_def encryptSecret_def Let_def hexToBuffer_toHex ne len)
qed

text \<open>When the store works: outside a browser, or with a database that opens and commits.\<close>

definition storage_works :: "'k platform \<Rightarrow> bool" where
  "storage_works p \<longleftrightarrow> (if pf_indexedDB p then pf_opens p \<and> pf_commits p else \<not> pf_window p)"

lemma demo_storage_works: "storage_works demo_platform"
  by (simp add: storage_works_def demo_platform_def)

lemma passes_no_guard [simp]: "passes no_guard n = Inr ()"
proof -
  have "find (\<lambda>i. no_guard i \<noteq> None) [0..<n] = None" by (simp add: find_None_iff no_guard_def)
  then show ?thesis by (simp only: passes_def option.case)
qed

lemma failed_write:
  "fst (fallback p g run s) = Inl e \<Longrightarrow> snd (fallback p g run s) = s"
  "fst (transact p g n run s) = Inl e \<Longrightarrow> snd (transact p g n run s) = s"
  by (auto simp: fallback_def transact_def split: sum.splits prod.splits if_splits)

lemma stored:
  assumes "storage_works p"
  shows "(if \<not> pf_indexedDB p then fallback p no_guard run s else transact p no_guard n run s) =
    (Inr (fst (run s)), snd (run s))"
  using assms
  by (auto simp: fallback_def transact_def assertNonBrowserFallback_def storage_works_def split: prod.splits if_splits)

section \<open>Properties\<close>

text \<open>
  C30. What is saved under an identifier and a passphrase is read back under them, as the same value,
  by any platform whose cipher and encoders keep their contract; the other identifiers keep their
  records; and once removed it is gone.
\<close>

theorem vault_save_load:
  assumes "platform_ok p" and "storage_works p" and "encodeVaultJson v = Inr t" and "wf_val v"
    and "pf_parse p (pf_stringify p t) = Some t" and "well_formed (pf_stringify p t)"
    and "take 1 (pf_stringify p t) \<noteq> [BOM]"
  shows "\<exists>s'. saveEncryptedJson p no_guard i v passphrase s = (Inr (), s') \<and>
    loadEncryptedJson p i passphrase s' = Inr (Some v) \<and>
    (\<forall>j. j \<noteq> i \<longrightarrow> loadEncryptedJson p j passphrase s' = loadEncryptedJson p j passphrase s) \<and>
    (\<exists>s''. removeEncryptedSecret p no_guard i s' = (Inr (), s'') \<and> loadEncryptedJson p i passphrase s'' = Inr None)"
proof -
  let ?ev = "encryptSecret p i (pf_stringify p t) passphrase"
  let ?s = "AList.update i ?ev s"
  have id: "ev_id ?ev = i" by (simp add: encryptSecret_def Let_def)
  have "loadEncryptedJson p i passphrase ?s = Inr (Some v)"
    using vault_encode_decode [OF assms(3,4)] decrypt_encrypted [OF assms(1,6,7), of i passphrase]
    by (simp add: loadEncryptedJson_def loadEncryptedSecret_def stored assms(2,5) Let_def update_conv id)
  moreover have "loadEncryptedJson p j passphrase ?s = loadEncryptedJson p j passphrase s" if "j \<noteq> i" for j
    using that by (simp add: loadEncryptedJson_def loadEncryptedSecret_def stored assms(2) Let_def update_conv)
  moreover have "loadEncryptedJson p i passphrase (AList.delete i ?s) = Inr None"
    by (simp add: loadEncryptedJson_def loadEncryptedSecret_def stored assms(2) Let_def delete_conv)
  ultimately show ?thesis
    by (simp add: saveEncryptedJson_def saveEncryptedSecret_def removeEncryptedSecret_def stored assms(2,3) Let_def)
qed

lemma vault_save_load_witness:
  "\<exists>s'. saveEncryptedJson demo_platform no_guard (js ''a'') JNull (js ''pw'') [] = (Inr (), s') \<and>
     loadEncryptedJson demo_platform (js ''a'') (js ''pw'') s' = Inr (Some JNull) \<and>
     loadEncryptedJson demo_platform (js ''b'') (js ''pw'') s' = loadEncryptedJson demo_platform (js ''b'') (js ''pw'') []"
  using vault_save_load [OF demo_platform_ok demo_storage_works stored_null, where i = "js ''a''" and
      passphrase = "js ''pw''" and s = "[]", unfolded demo_json, OF _ refl plain_text(1,2)] different_identifiers
  by auto



text \<open>
  A refused or failed write changes nothing: when saving or removing reports an error, because the
  caller's check failed at any moment before the commit, or the database did not open or commit,
  the stored records are those from before; and a check that fails before the write always stops it.
\<close>

theorem vault_write_atomic:
  assumes "op = saveEncryptedSecret p g i text passphrase \<or> op = removeEncryptedSecret p g i"
  shows "(fst (op s) = Inr () \<or> snd (op s) = s) \<and> (g 0 \<noteq> None \<longrightarrow> snd (op s) = s)"
proof -
  have "find (\<lambda>i. g i \<noteq> None) [0..<Suc n] = Some 0" if "g 0 \<noteq> None" for n
    using that by (simp add: upt_conv_Cons del: upt_Suc)
  then have first: "\<exists>x. passes g (Suc n) = Inl (Throw x)" if "g 0 \<noteq> None" for n
    using that by (auto simp: passes_def)
  have "snd (fallback p g run s) = s" "snd (transact p g n run s) = s" if "g 0 \<noteq> None"
    for n and run :: "vault_store \<Rightarrow> unit \<times> vault_store"
    using first [OF that, of 0] first [OF that, of "n + pf_locks p"]
    by (auto simp: fallback_def transact_def split: sum.splits)
  moreover have "fst (fallback p g run s) = Inr () \<or> snd (fallback p g run s) = s"
    "fst (transact p g n run s) = Inr () \<or> snd (transact p g n run s) = s"
    for n and run :: "vault_store \<Rightarrow> unit \<times> vault_store"
    using failed_write [where p = p and g = g and run = run and s = s]
    by (cases "fst (fallback p g run s)"; cases "fst (transact p g n run s)"; simp)+
  ultimately have atomic: "(fst (fallback p g run s) = Inr () \<or> snd (fallback p g run s) = s) \<and>
      (g 0 \<noteq> None \<longrightarrow> snd (fallback p g run s) = s)"
    "(fst (transact p g n run s) = Inr () \<or> snd (transact p g n run s) = s) \<and>
      (g 0 \<noteq> None \<longrightarrow> snd (transact p g n run s) = s)"
    for n and run :: "vault_store \<Rightarrow> unit \<times> vault_store"
    by blast+
  have "op s = (let run = (if op = saveEncryptedSecret p g i text passphrase
      then (\<lambda>s. ((), AList.update i (encryptSecret p i text passphrase) s)) else (\<lambda>s. ((), AList.delete i s))) in
      if \<not> pf_indexedDB p then fallback p g run s else transact p g 0 run s)"
    using assms by (auto simp: saveEncryptedSecret_def removeEncryptedSecret_def Let_def)
  then show ?thesis using atomic by (simp only: Let_def split: if_split) blast
qed

lemma vault_write_atomic_witness:
  "snd (saveEncryptedSecret demo_platform (\<lambda>n. Some (Error ''Locked.'')) (js ''a'') (js ''secret'') (js ''pw'') []) = []"
  using vault_write_atomic [OF disjI1 [OF refl], of demo_platform "\<lambda>n. Some (Error ''Locked.'')" "js ''a''" "js ''secret''" "js ''pw''" "[]"]
  by blast

section \<open>The session\<close>

definition unlock_deadline :: "(nat \<Rightarrow> int) \<Rightarrow> int \<Rightarrow> int option \<Rightarrow> int" where
  "unlock_deadline now m d = (case d of None \<Rightarrow> now 1 + m * 60 * 1000 | Some dl \<Rightarrow> min (now 1 + m * 60 * 1000) dl)"

lemma unlock_passphrase:
  assumes "vs_passphrase (snd (unlockVaultSession now p m d s)) = Some q"
  shows "snd (unlockVaultSession now p m d s) = s \<or>
    p = q \<and> q \<noteq> [] \<and> 0 < m \<and> vs_expiresAt (snd (unlockVaultSession now p m d s)) = unlock_deadline now m d"
  using assms by (auto simp: unlockVaultSession_def Let_def unlock_deadline_def split: option.splits)

lemma lock_passphrase [simp]: "vs_passphrase (lockVaultSession s) = None"
  by (simp add: lockVaultSession_def)

lemma step_passphrase:
  assumes "vs_passphrase (session_step op s) = Some q"
  shows "(op \<noteq> Lock \<and> vs_passphrase s = Some q \<and> vs_expiresAt (session_step op s) = vs_expiresAt s) \<or>
    (\<exists>now m d. op = Unlock now q m d \<and> q \<noteq> [] \<and> 0 < m \<and>
       vs_expiresAt (session_step op s) = unlock_deadline now m d)"
proof (cases op)
  case (Unlock now p m d)
  then show ?thesis using assms unlock_passphrase [of now p m d s q] by auto
next
  case (Read t)
  then show ?thesis using assms unlocked_state [of t s] by (auto simp: reading_state)
next
  case (Expiry t)
  then show ?thesis using assms unlocked_state [of t s] by (auto simp: reading_state)
qed (use assms in \<open>auto simp: sessionTimer_def onVaultSessionLock_def stopVaultListener_def split: option.splits if_splits\<close>)

lemma session_run_snoc: "session_run (ops @ [op]) s = session_step op (session_run ops s)"
  by (simp add: session_run_def)

lemma passphrase_source:
  "vs_passphrase (session_run ops fresh_session) = Some q \<Longrightarrow>
   \<exists>before now m d since. ops = before @ Unlock now q m d # since \<and> Lock \<notin> set since \<and> q \<noteq> [] \<and> 0 < m \<and>
     vs_expiresAt (session_run ops fresh_session) = unlock_deadline now m d"
proof (induction ops rule: rev_induct)
  case Nil
  then show ?case by (simp add: session_run_def fresh_session_def)
next
  case (snoc op ops)
  let ?s = "session_run ops fresh_session"
  consider (kept) "op \<noteq> Lock" "vs_passphrase ?s = Some q" "vs_expiresAt (session_step op ?s) = vs_expiresAt ?s"
    | (opened) now m d where "op = Unlock now q m d" "q \<noteq> []" "0 < m"
      "vs_expiresAt (session_step op ?s) = unlock_deadline now m d"
    using step_passphrase snoc.prems unfolding session_run_snoc by blast
  then show ?case
  proof cases
    case kept
    from snoc.IH [OF kept(2)] obtain before now m d since where "ops = before @ Unlock now q m d # since"
      "Lock \<notin> set since" "q \<noteq> []" "0 < m" "vs_expiresAt ?s = unlock_deadline now m d" by blast
    with kept show ?thesis
      unfolding session_run_snoc
      by (intro exI [of _ before] exI [of _ now] exI [of _ m] exI [of _ d] exI [of _ "since @ [op]"]) simp
  next
    case opened
    then show ?thesis
      unfolding session_run_snoc
      by (intro exI [of _ ops] exI [of _ now] exI [of _ m] exI [of _ d] exI [of _ "[]"]) simp
  qed
qed

text \<open>
  C32. The passphrase is only ever released between the unlocking that supplied it and its deadline:
  a read at any moment of any history returns the passphrase of an accepted unlocking with no lock
  since, and only before the minutes it was unlocked for and the deadline it was given have passed.
\<close>

theorem passphrase_until_deadline:
  assumes "s = session_run ops fresh_session" and "fst (getVaultSessionPassphrase t s) = Some q"
  shows "\<exists>before now m d since. ops = before @ Unlock now q m d # since \<and> Lock \<notin> set since \<and> q \<noteq> [] \<and>
    0 < m \<and> t < now 1 + m * 60 * 1000 \<and> (\<forall>dl. d = Some dl \<longrightarrow> t < dl)"
proof -
  have q: "vs_passphrase s = Some q" "t < vs_expiresAt s"
    using assms(2) by (auto simp: getVaultSessionPassphrase_def isVaultSessionUnlocked_def Let_def
        lockVaultSession_def split: if_splits)
  obtain before now m d since where *: "ops = before @ Unlock now q m d # since" "Lock \<notin> set since" "q \<noteq> []"
    "0 < m" "vs_expiresAt s = unlock_deadline now m d"
    using passphrase_source [OF q(1) [unfolded assms(1)]] assms(1) by blast
  then have "t < now 1 + m * 60 * 1000 \<and> (\<forall>dl. d = Some dl \<longrightarrow> t < dl)"
    using q(2) by (auto simp: unlock_deadline_def split: option.splits)
  then show ?thesis using * by blast
qed

lemma passphrase_until_deadline_witness:
  "\<exists>before now m d since. [Unlock (\<lambda>_. 0) (js ''pw'') 1 None] = before @ Unlock now (js ''pw'') m d # since \<and>
     Lock \<notin> set since \<and> 0 < m \<and> 59999 < now 1 + m * 60 * 1000"
proof -
  have "fst (getVaultSessionPassphrase 59999 (session_run [Unlock (\<lambda>_. 0) (js ''pw'') 1 None] fresh_session)) = Some (js ''pw'')"
    by (simp add: session_run_def unlockVaultSession_def fresh_session_def lockVaultSession_def js_def Let_def
        getVaultSessionPassphrase_def isVaultSessionUnlocked_def)
  from passphrase_until_deadline [OF refl this] show ?thesis by blast
qed

text \<open>
  The revision identifies an unlocked session: it never decreases, and as long as it is the same,
  passphrase, deadline and timer are those it had, so comparing revisions detects every lock and
  unlock in between; and the session is always either locked, with nothing left of it, or has a
  passphrase and a timer that is not due before the deadline.
\<close>

theorem revision_identifies_session:
  assumes "s = session_run as fresh_session" and "s' = session_run bs s"
  shows "vs_revision s \<le> vs_revision s' \<and>
    (vs_revision s' = vs_revision s \<longrightarrow> vs_passphrase s' = vs_passphrase s \<and>
       vs_expiresAt s' = vs_expiresAt s \<and> vs_timer s' = vs_timer s) \<and> session_ok s'"
proof -
  have fresh: "session_ok fresh_session" by (simp add: session_ok_def fresh_session_def)
  have ok: "session_ok s" using session.steps_inv [OF session_run_steps fresh] by (simp add: assms(1))
  have "session_le s s'" using session.steps_below [OF session_run_steps ok] by (simp add: assms(2))
  moreover have "session_ok s'" using session.steps_inv [OF session_run_steps ok] by (simp add: assms(2))
  ultimately show ?thesis by (simp add: session_le_def)
qed

lemma revision_identifies_session_witness:
  "vs_revision fresh_session \<le> vs_revision (session_run [Lock] fresh_session) \<and> session_ok (session_run [Lock] fresh_session)"
  using revision_identifies_session [where as = "[]" and s = fresh_session and bs = "[Lock]", OF _ refl]
  by (simp add: session_run_def)

end
