(* ===== verification/Effects.thy ===== *)
theory Effects
  imports Line_Prelude
begin

text \<open>
  Stateful programs that can stop: a step of the program takes the state to a result, or a reason to
  stop, and the state it leaves behind. The asynchronous providers are written with these
  combinators, and their proofs with the two kinds of contract below: what a program does to the
  state however it ends, and a triple of a precondition, what holds of a result, and what holds of a
  stop.
\<close>

section \<open>Programs\<close>

type_synonym ('s, 'e, 'a) effect = "'s \<Rightarrow> ('e + 'a) \<times> 's"

definition pureM :: "'a \<Rightarrow> ('s, 'e, 'a) effect" where
  "pureM a s = (Inr a, s)"

definition stopM :: "'e \<Rightarrow> ('s, 'e, 'a) effect" where
  "stopM e s = (Inl e, s)"

definition bindM :: "('s, 'e, 'a) effect \<Rightarrow> ('a \<Rightarrow> ('s, 'e, 'b) effect) \<Rightarrow> ('s, 'e, 'b) effect" where
  "bindM m f s = (case m s of (Inl e, t) \<Rightarrow> (Inl e, t) | (Inr a, t) \<Rightarrow> f a t)"

text \<open>\<open>try { m } catch (error) { h(error) }\<close>\<close>

definition catchM :: "('s, 'e, 'a) effect \<Rightarrow> ('e \<Rightarrow> ('s, 'e, 'a) effect) \<Rightarrow> ('s, 'e, 'a) effect" where
  "catchM m h s = (case m s of (Inl e, t) \<Rightarrow> h e t | (Inr a, t) \<Rightarrow> (Inr a, t))"

definition getM :: "('s \<Rightarrow> 'a) \<Rightarrow> ('s, 'e, 'a) effect" where
  "getM f s = (Inr (f s), s)"

definition updateM :: "('s \<Rightarrow> 's) \<Rightarrow> ('s, 'e, unit) effect" where
  "updateM f s = (Inr (), f s)"

definition liftM :: "('e + 'a) \<Rightarrow> ('s, 'e, 'a) effect" where
  "liftM r s = (r, s)"

definition unlessM :: "bool \<Rightarrow> 'e \<Rightarrow> ('s, 'e, unit) effect" where
  "unlessM b e = (if b then pureM () else stopM e)"

fun eachM :: "('x \<Rightarrow> ('s, 'e, unit) effect) \<Rightarrow> 'x list \<Rightarrow> ('s, 'e, unit) effect" where
  "eachM f [] = pureM ()"
| "eachM f (x # xs) = bindM (f x) (\<lambda>_. eachM f xs)"

lemmas effect_defs = pureM_def stopM_def bindM_def catchM_def getM_def updateM_def liftM_def unlessM_def

section \<open>Failing effects\<close>

text \<open>
  An effect on the world outside happens, fails without or after happening, or the process dies before or after it.
\<close>

datatype fate = Done | Failed | FailedAfter | CrashBefore | CrashAfter

datatype halt = Threw string | Crashed

definition throw :: "string \<Rightarrow> ('s, halt, 'a) effect" where
  "throw m = stopM (Threw m)"

text \<open>\<open>catch\<close> and \<open>finally\<close>: a dead process runs neither.\<close>

definition handleM :: "('s, halt, 'a) effect \<Rightarrow> (string \<Rightarrow> ('s, halt, 'a) effect) \<Rightarrow> ('s, halt, 'a) effect" where
  "handleM m h = catchM m (\<lambda>e. case e of Crashed \<Rightarrow> stopM Crashed | Threw x \<Rightarrow> h x)"

definition finallyM :: "('s, halt, 'a) effect \<Rightarrow> ('s, halt, unit) effect \<Rightarrow> ('s, halt, 'a) effect" where
  "finallyM m f = bindM (handleM m (\<lambda>x. bindM f (\<lambda>_. throw x))) (\<lambda>a. bindM f (\<lambda>_. pureM a))"

section \<open>What a program does to the state\<close>

definition moves :: "('s \<Rightarrow> 's \<Rightarrow> bool) \<Rightarrow> ('s, 'e, 'a) effect \<Rightarrow> bool" where
  "moves rel m \<longleftrightarrow> (\<forall>s. rel s (snd (m s)))"

lemma movesD: "moves rel m \<Longrightarrow> m s = (r, t) \<Longrightarrow> rel s t"
  unfolding moves_def by (metis snd_conv)

text \<open>A preorder on states is respected by a program when it is by its parts.\<close>

locale state_order =
  fixes rel :: "'s \<Rightarrow> 's \<Rightarrow> bool"
  assumes rel_refl: "rel s s" and rel_trans: "rel s t \<Longrightarrow> rel t u \<Longrightarrow> rel s u"
begin

lemma moves_pure: "moves rel (pureM a)"
  and moves_stop: "moves rel (stopM e)"
  and moves_get: "moves rel (getM f)"
  and moves_lift: "moves rel (liftM r)"
  by (simp_all add: moves_def effect_defs rel_refl)

lemma moves_unless: "moves rel (unlessM b e)"
  by (simp add: unlessM_def moves_pure moves_stop)

lemma moves_update: "(\<And>s. rel s (f s)) \<Longrightarrow> moves rel (updateM f)"
  by (simp add: moves_def effect_defs)

lemma moves_bind: "moves rel m \<Longrightarrow> (\<And>a. moves rel (f a)) \<Longrightarrow> moves rel (bindM m f)"
  by (auto simp: moves_def bindM_def split: prod.split sum.split)
    (metis rel_trans snd_conv)+

lemma moves_catch: "moves rel m \<Longrightarrow> (\<And>e. moves rel (h e)) \<Longrightarrow> moves rel (catchM m h)"
  by (auto simp: moves_def catchM_def split: prod.split sum.split)
    (metis rel_trans snd_conv)+

lemma moves_each: "(\<And>x. moves rel (f x)) \<Longrightarrow> moves rel (eachM f xs)"
  by (induction xs) (auto intro: moves_pure moves_bind)

lemma moves_if: "moves rel m \<Longrightarrow> moves rel m' \<Longrightarrow> moves rel (if b then m else m')"
  by simp

lemma moves_option: "moves rel m \<Longrightarrow> (\<And>x. moves rel (f x)) \<Longrightarrow> moves rel (case v of None \<Rightarrow> m | Some x \<Rightarrow> f x)"
  by (simp split: option.split)

lemmas moves_rules = moves_pure moves_stop moves_get moves_lift moves_unless moves_bind moves_catch
  moves_each moves_if moves_option

end

section \<open>Triples\<close>

definition hoare ::
    "('s \<Rightarrow> bool) \<Rightarrow> ('s, 'e, 'a) effect \<Rightarrow> ('a \<Rightarrow> 's \<Rightarrow> bool) \<Rightarrow> ('e \<Rightarrow> 's \<Rightarrow> bool) \<Rightarrow> bool" where
  "hoare P m Q E \<longleftrightarrow> (\<forall>s. P s \<longrightarrow> (case m s of (Inl e, t) \<Rightarrow> E e t | (Inr a, t) \<Rightarrow> Q a t))"

lemma hoareI: "(\<And>s e t. P s \<Longrightarrow> m s = (Inl e, t) \<Longrightarrow> E e t) \<Longrightarrow> (\<And>s a t. P s \<Longrightarrow> m s = (Inr a, t) \<Longrightarrow> Q a t) \<Longrightarrow>
    hoare P m Q E"
  by (simp add: hoare_def split: prod.split sum.split)

lemma hoare_result: "hoare P m Q E \<Longrightarrow> P s \<Longrightarrow> m s = (Inr a, t) \<Longrightarrow> Q a t"
  and hoare_stopped: "hoare P m Q E \<Longrightarrow> P s \<Longrightarrow> m s = (Inl e, t) \<Longrightarrow> E e t"
  by (auto simp: hoare_def split: prod.splits sum.splits)

lemma hoare_pure: "(\<And>s. P s \<Longrightarrow> Q a s) \<Longrightarrow> hoare P (pureM a) Q E"
  and hoare_stop: "(\<And>s. P s \<Longrightarrow> E e s) \<Longrightarrow> hoare P (stopM e) Q E"
  and hoare_get: "(\<And>s. P s \<Longrightarrow> Q (f s) s) \<Longrightarrow> hoare P (getM f) Q E"
  and hoare_update: "(\<And>s. P s \<Longrightarrow> Q () (f s)) \<Longrightarrow> hoare P (updateM f) Q E"
  by (simp_all add: hoare_def effect_defs)

lemma hoare_lift:
  "(\<And>s a. P s \<Longrightarrow> r = Inr a \<Longrightarrow> Q a s) \<Longrightarrow> (\<And>s e. P s \<Longrightarrow> r = Inl e \<Longrightarrow> E e s) \<Longrightarrow> hoare P (liftM r) Q E"
  by (auto simp: hoare_def liftM_def split: sum.split)

lemma hoare_unless:
  "(\<And>s. P s \<Longrightarrow> b \<Longrightarrow> Q () s) \<Longrightarrow> (\<And>s. P s \<Longrightarrow> \<not> b \<Longrightarrow> E e s) \<Longrightarrow> hoare P (unlessM b e) Q E"
  by (simp add: hoare_def effect_defs)

lemma hoare_bind: "hoare P m R E \<Longrightarrow> (\<And>a. hoare (R a) (f a) Q E) \<Longrightarrow> hoare P (bindM m f) Q E"
  by (fastforce simp: hoare_def bindM_def split: prod.splits sum.splits)

lemma hoare_catch: "hoare P m Q R \<Longrightarrow> (\<And>e. hoare (R e) (h e) Q E) \<Longrightarrow> hoare P (catchM m h) Q E"
  by (fastforce simp: hoare_def catchM_def split: prod.splits sum.splits)

lemma hoare_if: "(b \<Longrightarrow> hoare P m Q E) \<Longrightarrow> (\<not> b \<Longrightarrow> hoare P m' Q E) \<Longrightarrow> hoare P (if b then m else m') Q E"
  by simp

lemma hoare_option:
  "(v = None \<Longrightarrow> hoare P m Q E) \<Longrightarrow> (\<And>x. v = Some x \<Longrightarrow> hoare P (f x) Q E) \<Longrightarrow>
   hoare P (case v of None \<Rightarrow> m | Some x \<Rightarrow> f x) Q E"
  by (simp split: option.split)

lemma hoare_each: "(\<And>x. hoare P (f x) (\<lambda>_. P) E) \<Longrightarrow> hoare P (eachM f xs) (\<lambda>_. P) E"
proof (induction xs)
  case Nil
  then show ?case by (simp add: hoare_def pureM_def)
next
  case (Cons x xs)
  then show ?case by (auto intro: hoare_bind)
qed

lemma hoare_weaken:
  "hoare P' m Q' E' \<Longrightarrow> (\<And>s. P s \<Longrightarrow> P' s) \<Longrightarrow> (\<And>a s. Q' a s \<Longrightarrow> Q a s) \<Longrightarrow> (\<And>e s. E' e s \<Longrightarrow> E e s) \<Longrightarrow>
   hoare P m Q E"
  by (fastforce simp: hoare_def split: prod.splits sum.splits)

lemma hoare_assume: "(\<And>s. P s \<Longrightarrow> hoare (\<lambda>t. t = s \<and> P t) m Q E) \<Longrightarrow> hoare P m Q E"
  by (simp add: hoare_def)

text \<open>What the steps of a preorder keep is kept by a program that respects it.\<close>

lemma hoare_moves:
  assumes "moves rel m" and "\<And>s t. rel s t \<Longrightarrow> P s \<Longrightarrow> P t"
  shows "hoare P m (\<lambda>_. P) (\<lambda>_. P)"
proof -
  have "P t" if "P s" and "m s = (r, t)" for s r t
    using assms(1) [unfolded moves_def, rule_format, of s] assms(2) that by simp
  then show ?thesis by (intro hoareI) blast+
qed

lemma bindM_lift: "bindM (liftM (Inr a)) f = f a" and bindM_pure: "bindM (pureM a) f = f a"
  by (simp_all add: fun_eq_iff effect_defs)

end
