(* ===== verification/Private_State.thy ===== *)
theory Private_State
  imports Vault_Session Effects
begin

text \<open>
  The encrypted private-state provider, \<open>src/lib/runtime/vault-provider.ts\<close>: private states and
  signing keys of a contract, kept in the vault under keys scoped by account, network and contract.
  Every \<open>await\<close> is a moment at which the rest of the program may run: it may lock or unlock the
  vault session, choose another contract or dispose of the provider. What happens there, the clock,
  the password callback and the fate of each transaction are the world, a parameter.
\<close>

section \<open>Storage keys\<close>

text \<open>\<open>encodeURIComponent\<close> of the standard library: letters, digits and \<open>-_.!~*'()\<close> stay.\<close>

definition unescaped :: "8 word \<Rightarrow> bool" where
  "unescaped b = (let n = unat b in (48 \<le> n \<and> n \<le> 57) \<or> (65 \<le> n \<and> n \<le> 90) \<or> (97 \<le> n \<and> n \<le> 122) \<or>
     n \<in> {45, 95, 46, 33, 126, 42, 39, 40, 41})"

definition upper_digit :: "nat \<Rightarrow> 16 word" where
  "upper_digit n = (if n < 10 then of_nat (48 + n) else of_nat (55 + n))"

definition escape_byte :: "8 word \<Rightarrow> jsstr" where
  "escape_byte b = (if unescaped b then [of_nat (unat b)]
     else [37, upper_digit (unat b div 16), upper_digit (unat b mod 16)])"

definition encodeURIComponent :: "jsstr \<Rightarrow> jsstr outcome" where
  "encodeURIComponent s = (if well_formed s then Inr (concat (map escape_byte (utf8 s)))
     else Inl (Throw (NamedError ''URIError'' ''URI malformed'')))"

section \<open>State\<close>

record provider =
  pv_session :: vault_session
  pv_store :: vault_store
  pv_clock :: nat
  pv_contract :: "jsstr option"
  pv_ephemeral :: vault_store
  pv_asks :: bool
  pv_network :: jsstr
  pv_account :: "jsstr option"
  pv_listener :: "nat option"
  pv_disposed :: bool
  pv_fallback :: bool

record authorization =
  au_passphrase :: jsstr
  au_revision :: nat
  au_sessionBound :: bool

datatype outside = Session session_op | Dispose | Choose jsstr

record 'k provider_world =
  pw_base :: "'k platform"
  pw_random :: "nat \<Rightarrow> nat \<Rightarrow> nat \<Rightarrow> bytes"
  pw_opens :: "nat \<Rightarrow> bool"
  pw_commits :: "nat \<Rightarrow> bool"
  pw_locks :: "nat \<Rightarrow> nat"
  pw_now :: "nat \<Rightarrow> int"
  pw_password :: "nat \<Rightarrow> jsstr outcome"
  pw_outside :: "nat \<Rightarrow> outside list"

type_synonym 'a pv = "(provider, stop, 'a) effect"

definition platform_at :: "'k provider_world \<Rightarrow> nat \<Rightarrow> 'k platform" where
  "platform_at w n = (pw_base w)\<lparr>pf_random := pw_random w n, pf_now := pw_now w n, pf_opens := pw_opens w n,
     pf_commits := pw_commits w n, pf_locks := pw_locks w n\<rparr>"

definition vault_locked :: "string \<Rightarrow> stop" where
  "vault_locked message = Throw (NamedError ''VaultLockedError'' message)"

definition not_configured :: "string \<Rightarrow> stop" where
  "not_configured message = Throw (NamedError ''ContractNotConfiguredError'' message)"

text \<open>A new session state; the lock listener of the provider empties the volatile store.\<close>

definition heard :: "provider \<Rightarrow> vault_session \<Rightarrow> bool" where
  "heard p s' = (case pv_listener p of
     None \<Rightarrow> False
   | Some l \<Rightarrow> l \<in> set (drop (length (vs_notified (pv_session p))) (vs_notified s')))"

definition with_session :: "vault_session \<Rightarrow> provider \<Rightarrow> provider" where
  "with_session s' p = p\<lparr>pv_session := s', pv_ephemeral := (if heard p s' then [] else pv_ephemeral p)\<rparr>"

text \<open>The constructor; \<open>l\<close> is the listener it registers, if it registers one.\<close>

definition newProvider ::
    "bool \<Rightarrow> jsstr option \<Rightarrow> jsstr option \<Rightarrow> bool option \<Rightarrow> nat \<Rightarrow> vault_session \<Rightarrow> vault_store \<Rightarrow> provider outcome"
where
  "newProvider asks networkId accountId allow l s store =
     (let account = nullish accountId (js ''default''); fallback = nullish allow False in
      bindS (encodeURIComponent (nullish networkId (js ''preprod''))) (\<lambda>network.
      bindS (if account = js ''default'' then Inr None
             else bindS (encodeURIComponent account) (\<lambda>a. Inr (Some a))) (\<lambda>scope.
      Inr \<lparr>pv_session = (if fallback then onVaultSessionLock l s else s), pv_store = store, pv_clock = 0,
        pv_contract = None, pv_ephemeral = [], pv_asks = asks, pv_network = network, pv_account = scope,
        pv_listener = (if fallback then Some l else None), pv_disposed = False, pv_fallback = fallback\<rparr>)))"

definition disposeProvider :: "provider \<Rightarrow> provider" where
  "disposeProvider p = p\<lparr>pv_disposed := True, pv_ephemeral := [],
     pv_session := (case pv_listener p of None \<Rightarrow> pv_session p | Some l \<Rightarrow> stopVaultListener l (pv_session p))\<rparr>"

definition setContractAddress :: "jsstr \<Rightarrow> unit pv" where
  "setContractAddress address =
     (if trim address = []
      then stopM (not_configured ''Contract address is not configured. Set MIDNIGHT_CONTRACT_ADDRESS or deploy/join a contract.'')
      else updateM (\<lambda>p. p\<lparr>pv_contract := Some address\<rparr>))"

fun outside_step :: "outside \<Rightarrow> provider \<Rightarrow> provider" where
  "outside_step (Session op) p = with_session (session_step op (pv_session p)) p"
| "outside_step Dispose p = disposeProvider p"
| "outside_step (Choose a) p = snd (setContractAddress a p)"

text \<open>An \<open>await\<close>: time passes and the rest of the program runs.\<close>

definition paused :: "'k provider_world \<Rightarrow> provider \<Rightarrow> provider" where
  "paused w p = fold outside_step (pw_outside w (pv_clock p)) (p\<lparr>pv_clock := pv_clock p + 1\<rparr>)"

definition pause :: "'k provider_world \<Rightarrow> unit pv" where
  "pause w = updateM (paused w)"

section \<open>Authorization\<close>

definition assertAuthorized :: "'k provider_world \<Rightarrow> authorization \<Rightarrow> unit pv" where
  "assertAuthorized w auth p =
     (if pv_disposed p then (Inl (vault_locked ''Private storage provider was revoked.''), p)
      else if \<not> au_sessionBound auth then (Inr (), p)
      else case isVaultSessionUnlocked (pw_now w (pv_clock p)) (pv_session p) of (unlocked, s') \<Rightarrow>
        if \<not> unlocked \<or> vs_revision s' \<noteq> au_revision auth
        then (Inl (vault_locked ''Vault session changed while private storage was in use. Unlock and retry.''),
              with_session s' p)
        else (Inr (), with_session s' p))"

definition lockedDefault :: stop where
  "lockedDefault = vault_locked ''Private state storage locked: Passphrase or active vault session required.''"

definition sessionUnlocked :: "'k provider_world \<Rightarrow> bool pv" where
  "sessionUnlocked w p = (case isVaultSessionUnlocked (pw_now w (pv_clock p)) (pv_session p) of
     (unlocked, s') \<Rightarrow> (Inr unlocked, with_session s' p))"

definition askPassphrase :: "'k provider_world \<Rightarrow> jsstr option pv" where
  "askPassphrase w p =
     (if pv_asks p then
        (case paused w p of q \<Rightarrow>
           (case pw_password w (pv_clock p) of Inl e \<Rightarrow> (Inl e, q) | Inr t \<Rightarrow> (Inr (Some t), q)))
      else (case getVaultSessionPassphrase (pw_now w (pv_clock p)) (pv_session p) of
              (r, s') \<Rightarrow> (Inr r, with_session s' p)))"

definition authorize :: "'k provider_world \<Rightarrow> authorization pv" where
  "authorize w =
     bindM (getM pv_disposed) (\<lambda>disposed.
     bindM (unlessM (\<not> disposed) (vault_locked ''Private storage provider was revoked.'')) (\<lambda>_.
     bindM (sessionUnlocked w) (\<lambda>unlocked.
     bindM (unlessM (\<not> (pf_window (pw_base w) \<and> \<not> unlocked)) lockedDefault) (\<lambda>_.
     bindM (getM (\<lambda>p. vs_revision (pv_session p))) (\<lambda>revision.
     bindM (askPassphrase w) (\<lambda>answer.
     bindM (unlessM (answer \<noteq> None \<and> answer \<noteq> Some []) lockedDefault) (\<lambda>_.
     (let auth = \<lparr>au_passphrase = nullish answer [], au_revision = revision,
            au_sessionBound = unlocked \<or> pf_window (pw_base w)\<rparr> in
      bindM (assertAuthorized w auth) (\<lambda>_. bindM (pause w) (\<lambda>_. pureM auth)))))))))) "

section \<open>Scopes\<close>

definition ensureContractConfigured :: "jsstr pv" where
  "ensureContractConfigured =
     bindM (getM pv_contract) (\<lambda>c.
     case c of
       None \<Rightarrow> stopM (not_configured ''setContractAddress must be called before accessing private state.'')
     | Some address \<Rightarrow> pureM address)"

definition scopePrefix :: "string \<Rightarrow> jsstr option \<Rightarrow> jsstr \<Rightarrow> jsstr" where
  "scopePrefix kind account network =
     (case account of
        None \<Rightarrow> js ''midnight:'' @ js kind @ js '':''
      | Some a \<Rightarrow> js ''midnight:'' @ js kind @ js ''-account:'' @ a @ js '':'') @ network @ js '':''"

definition storagePrefix :: "string \<Rightarrow> jsstr pv" where
  "storagePrefix kind = getM (\<lambda>p. scopePrefix kind (pv_account p) (pv_network p))"

definition statePrefix :: "jsstr pv" where
  "statePrefix =
     bindM (storagePrefix ''ps'') (\<lambda>prefix.
     bindM ensureContractConfigured (\<lambda>address.
     bindM (liftM (encodeURIComponent address)) (\<lambda>a. pureM (prefix @ a @ js '':''))))"

definition stateKey :: "jsstr \<Rightarrow> jsstr pv" where
  "stateKey i =
     bindM statePrefix (\<lambda>prefix. bindM (liftM (encodeURIComponent i)) (\<lambda>a. pureM (prefix @ a)))"

definition signingPrefix :: "jsstr pv" where
  "signingPrefix = storagePrefix ''sk''"

definition signingKey :: "jsstr \<Rightarrow> jsstr pv" where
  "signingKey address =
     bindM signingPrefix (\<lambda>prefix. bindM (liftM (encodeURIComponent address)) (\<lambda>a. pureM (prefix @ a)))"

section \<open>Storage\<close>

text \<open>A read of the vault, between two moments.\<close>

definition consult :: "'k provider_world \<Rightarrow> ('k platform \<Rightarrow> vault_store \<Rightarrow> 'a outcome) \<Rightarrow> 'a pv" where
  "consult w f p = (let q = paused w p in (f (platform_at w (pv_clock q)) (pv_store q), paused w q))"

text \<open>
  A write of the vault under the check of the authorization. The check runs at the moments the vault
  asks for it, until it fails once.
\<close>

fun checks :: "'k provider_world \<Rightarrow> authorization \<Rightarrow> nat \<Rightarrow> provider \<Rightarrow> exn option list \<times> provider" where
  "checks w auth 0 p = ([], p)"
| "checks w auth (Suc n) p =
     (case assertAuthorized w auth (paused w p) of
        (Inl (Throw x), q) \<Rightarrow> ([Some x], q)
      | (_, q) \<Rightarrow> (case checks w auth n q of (l, r) \<Rightarrow> (None # l, r)))"

definition rounds :: "'k platform \<Rightarrow> nat \<Rightarrow> nat" where
  "rounds pf calls = (if \<not> pf_indexedDB pf then 1 else if pf_opens pf then 1 + calls + pf_locks pf else 0)"

definition guarded ::
    "'k provider_world \<Rightarrow> authorization \<Rightarrow> (vault_store \<Rightarrow> nat) \<Rightarrow>
       ('k platform \<Rightarrow> write_guard \<Rightarrow> vault_store \<Rightarrow> 'a outcome \<times> vault_store) \<Rightarrow> 'a pv" where
  "guarded w auth calls op p =
     (let pf = platform_at w (pv_clock p) in
      case checks w auth (rounds pf (calls (pv_store p))) p of (l, q) \<Rightarrow>
        (case op pf (\<lambda>i. if i < length l then l ! i else None) (pv_store q) of
           (r, st) \<Rightarrow> (r, paused w (q\<lparr>pv_store := st\<rparr>))))"

definition canFallback :: "bool \<Rightarrow> stop \<Rightarrow> bool" where
  "canFallback allow e \<longleftrightarrow> allow \<and> (\<exists>message. e = Throw (NamedError ''VaultPersistenceError'' message))"

definition decodeText :: "'k platform \<Rightarrow> jsstr \<Rightarrow> jsval outcome" where
  "decodeText pf text = (case pf_parse pf text of
     None \<Rightarrow> vault_error ''VaultTamperedError'' ''Vault JSON payload is malformed or unsupported.''
   | Some t \<Rightarrow> decodeVaultJson t)"

text \<open>A missing record reads as \<open>null\<close>.\<close>

definition readAs :: "'k provider_world \<Rightarrow> authorization \<Rightarrow> jsstr \<Rightarrow> jsval pv" where
  "readAs w auth key =
     bindM (catchM
       (bindM (consult w (\<lambda>pf. loadEncryptedJson pf key (au_passphrase auth))) (\<lambda>v.
        bindM (assertAuthorized w auth) (\<lambda>_. pureM (nullish v JNull))))
       (\<lambda>e. bindM (assertAuthorized w auth) (\<lambda>_.
            bindM (getM pv_fallback) (\<lambda>allow.
            if canFallback allow e then pureM JNull else stopM e)))) (\<lambda>durable.
     bindM (getM (\<lambda>p. map_of (pv_ephemeral p) key)) (\<lambda>envelope.
     case envelope of
       None \<Rightarrow> pureM durable
     | Some ev \<Rightarrow>
       bindM (consult w (\<lambda>pf _. decryptSecret pf ev (au_passphrase auth))) (\<lambda>text.
       bindM (liftM (decodeText (pw_base w) text)) (\<lambda>v.
       bindM (assertAuthorized w auth) (\<lambda>_. pureM v)))))"

definition checkEphemeral :: "'k provider_world \<Rightarrow> authorization \<Rightarrow> jsstr \<Rightarrow> unit pv" where
  "checkEphemeral w auth key =
     bindM (getM (\<lambda>p. map_of (pv_ephemeral p) key)) (\<lambda>existing.
     case existing of
       None \<Rightarrow> pureM ()
     | Some ev \<Rightarrow> bindM (consult w (\<lambda>pf _. decryptSecret pf ev (au_passphrase auth))) (\<lambda>_. pureM ()))"

definition dropEphemeral :: "jsstr \<Rightarrow> unit pv" where
  "dropEphemeral key = updateM (\<lambda>p. p\<lparr>pv_ephemeral := AList.delete key (pv_ephemeral p)\<rparr>)"

definition writeAs :: "'k provider_world \<Rightarrow> authorization \<Rightarrow> jsstr \<Rightarrow> jsval \<Rightarrow> unit pv" where
  "writeAs w auth key v =
     bindM (liftM (encodeVaultJson v)) (\<lambda>t.
     (let serialized = pf_stringify (pw_base w) t in
      bindM (checkEphemeral w auth key) (\<lambda>_.
      bindM (assertAuthorized w auth) (\<lambda>_.
      catchM
        (bindM (consult w (\<lambda>pf. loadEncryptedSecret pf key (au_passphrase auth))) (\<lambda>_.
         bindM (assertAuthorized w auth) (\<lambda>_.
         bindM (guarded w auth (\<lambda>_. 0) (\<lambda>pf g. saveEncryptedSecret pf g key serialized (au_passphrase auth))) (\<lambda>_.
         bindM (assertAuthorized w auth) (\<lambda>_.
         dropEphemeral key)))))
        (\<lambda>e. bindM (assertAuthorized w auth) (\<lambda>_.
             bindM (getM pv_fallback) (\<lambda>allow.
             if canFallback allow e then
               bindM (consult w (\<lambda>pf _. Inr (encryptSecret pf key serialized (au_passphrase auth)))) (\<lambda>ev.
               bindM (assertAuthorized w auth) (\<lambda>_.
               updateM (\<lambda>p. p\<lparr>pv_ephemeral := AList.update key ev (pv_ephemeral p)\<rparr>)))
             else stopM e)))))))"

definition deleteAs :: "'k provider_world \<Rightarrow> authorization \<Rightarrow> jsstr \<Rightarrow> unit pv" where
  "deleteAs w auth key =
     bindM (consult w (\<lambda>pf. loadEncryptedSecret pf key (au_passphrase auth))) (\<lambda>_.
     bindM (checkEphemeral w auth key) (\<lambda>_.
     bindM (assertAuthorized w auth) (\<lambda>_.
     bindM (guarded w auth (\<lambda>_. 0) (\<lambda>pf g. removeEncryptedSecret pf g key)) (\<lambda>_.
     bindM (assertAuthorized w auth) (\<lambda>_.
     dropEphemeral key)))))"

definition matching :: "jsstr \<Rightarrow> vault_store \<Rightarrow> vault_store" where
  "matching prefix s = filter (\<lambda>(i, e). starts_with i prefix) s"

definition deletePrefixAs :: "'k provider_world \<Rightarrow> authorization \<Rightarrow> jsstr \<Rightarrow> unit pv" where
  "deletePrefixAs w auth prefix =
     bindM (consult w (\<lambda>pf. listEncryptedKeys pf (Some prefix))) (\<lambda>keys.
     bindM (eachM (\<lambda>key.
       bindM (consult w (\<lambda>pf. loadEncryptedSecret pf key (au_passphrase auth))) (\<lambda>_.
       assertAuthorized w auth)) keys) (\<lambda>_.
     bindM (getM pv_ephemeral) (\<lambda>entries.
     bindM (eachM (\<lambda>(key, ev).
       bindM (getM (\<lambda>p. map_of (pv_ephemeral p) key)) (\<lambda>still.
       if still = None then pureM () else
       bindM (if starts_with key prefix then checkEphemeral w auth key else pureM ()) (\<lambda>_.
       assertAuthorized w auth))) entries) (\<lambda>_.
     bindM (assertAuthorized w auth) (\<lambda>_.
     bindM (guarded w auth (\<lambda>s. length (matching prefix s)) (\<lambda>pf g. removeEncryptedPrefix pf g prefix)) (\<lambda>_.
     bindM (assertAuthorized w auth) (\<lambda>_.
     updateM (\<lambda>p. p\<lparr>pv_ephemeral := filter (\<lambda>(i, e). \<not> starts_with i prefix) (pv_ephemeral p)\<rparr>))))))))"

section \<open>The provider's operations\<close>

definition getState :: "'k provider_world \<Rightarrow> jsstr \<Rightarrow> jsval pv" where
  "getState w i = bindM (stateKey i) (\<lambda>key. bindM (authorize w) (\<lambda>auth. readAs w auth key))"

definition setState :: "'k provider_world \<Rightarrow> jsstr \<Rightarrow> jsval \<Rightarrow> unit pv" where
  "setState w i v = bindM (stateKey i) (\<lambda>key. bindM (authorize w) (\<lambda>auth. writeAs w auth key v))"

definition removeState :: "'k provider_world \<Rightarrow> jsstr \<Rightarrow> unit pv" where
  "removeState w i = bindM (stateKey i) (\<lambda>key. bindM (authorize w) (\<lambda>auth. deleteAs w auth key))"

definition clearStates :: "'k provider_world \<Rightarrow> unit pv" where
  "clearStates w = bindM statePrefix (\<lambda>prefix. bindM (authorize w) (\<lambda>auth. deletePrefixAs w auth prefix))"

definition setSigningKey :: "'k provider_world \<Rightarrow> jsstr \<Rightarrow> jsstr \<Rightarrow> unit pv" where
  "setSigningKey w address k =
     bindM (signingKey address) (\<lambda>key. bindM (authorize w) (\<lambda>auth. writeAs w auth key (JStr k)))"

definition getSigningKey :: "'k provider_world \<Rightarrow> jsstr \<Rightarrow> jsval pv" where
  "getSigningKey w address =
     bindM (signingKey address) (\<lambda>key. bindM (authorize w) (\<lambda>auth. readAs w auth key))"

definition removeSigningKey :: "'k provider_world \<Rightarrow> jsstr \<Rightarrow> unit pv" where
  "removeSigningKey w address =
     bindM (signingKey address) (\<lambda>key. bindM (authorize w) (\<lambda>auth. deleteAs w auth key))"

definition clearSigningKeys :: "'k provider_world \<Rightarrow> unit pv" where
  "clearSigningKeys w = bindM signingPrefix (\<lambda>prefix. bindM (authorize w) (\<lambda>auth. deletePrefixAs w auth prefix))"

text \<open>\<open>exportPrivateStates\<close>, \<open>importPrivateStates\<close>, \<open>exportSigningKeys\<close> and \<open>importSigningKeys\<close>.\<close>

definition unsupported :: "string \<Rightarrow> 'a pv" where
  "unsupported operation = stopM (Throw (NamedError ''UnsupportedOperationError''
     (''Operation '' @ [CHR 0x27] @ operation @ [CHR 0x27] @ '' is not supported in this runtime environment.'')))"

end
