(* ===== verification/Private_State_Facts.thy ===== *)
theory Private_State_Facts
  imports Private_State Vault_Demo
begin

text \<open>
  Facts about the private-state provider: its storage keys determine their parts, what the moments
  of an operation can do to the state, and what a revoked authorization is still good for.
\<close>

section \<open>Storage keys\<close>

lemma upper_digit_inject: "a < 16 \<Longrightarrow> b < 16 \<Longrightarrow> upper_digit a = upper_digit b \<longleftrightarrow> a = b"
  by (auto simp: upper_digit_def word_unat_eq_iff unat_of_nat split: if_splits simp del: of_nat_add)

lemma byte_unit [simp]: "unat (ucast (b :: 8 word) :: 16 word) = unat b"
  using unat_u8 [of b] by (simp add: unsigned_ucast_eq take_bit_nat_eq_self)

lemma escape_byte_prefix:
  assumes "escape_byte a @ xs = escape_byte b @ ys"
  shows "a = b \<and> xs = ys"
proof (cases "unescaped a \<or> unescaped b")
  case True
  have eq: "(of_nat (unat a) :: 16 word) = of_nat (unat b) \<longleftrightarrow> a = b"
    by (simp add: word_unat_eq_iff)
  have "(of_nat (unat a) :: 16 word) \<noteq> 37" if "unescaped a" for a :: "8 word"
    using that unat_u8 [of a] by (auto simp: unescaped_def word_unat_eq_iff unat_of_nat Let_def)
  then show ?thesis using True assms eq by (auto simp: escape_byte_def split: if_splits)
next
  case False
  then have "unat a div 16 = unat b div 16" "unat a mod 16 = unat b mod 16" "xs = ys"
    using assms by (auto simp: escape_byte_def upper_digit_inject unat_byte_div16)
  moreover from this have "unat a = unat b" by (metis div_mult_mod_eq)
  ultimately show ?thesis by (simp add: word_unat_eq_iff)
qed

lemma escape_byte_Nil [simp]: "escape_byte b \<noteq> []"
  by (simp add: escape_byte_def)

lemma escape_bytes_inject: "concat (map escape_byte xs) = concat (map escape_byte ys) \<longleftrightarrow> xs = ys"
proof (induction xs arbitrary: ys)
  case Nil
  then show ?case by (cases ys) auto
next
  case (Cons x xs)
  then show ?case by (cases ys) (auto dest: escape_byte_prefix)
qed

lemma escape_inject: "encodeURIComponent s = Inr u \<Longrightarrow> encodeURIComponent t = Inr u \<Longrightarrow> s = t"
  by (auto simp: encodeURIComponent_def escape_bytes_inject utf8_inject split: if_splits)

definition colon_free :: "jsstr \<Rightarrow> bool" where
  "colon_free s \<longleftrightarrow> 58 \<notin> set s"

lemma escape_colon_free: "encodeURIComponent s = Inr u \<Longrightarrow> colon_free u"
proof -
  have "58 \<notin> set (escape_byte b)" for b
    using unat_u8 [of b]
    by (auto simp: escape_byte_def unescaped_def upper_digit_def word_unat_eq_iff unat_of_nat Let_def
        simp del: of_nat_add)
  then show "encodeURIComponent s = Inr u \<Longrightarrow> colon_free u"
    by (auto simp: encodeURIComponent_def colon_free_def split: if_splits)
qed

lemma colon_split: "colon_free u \<Longrightarrow> colon_free v \<Longrightarrow> u @ 58 # x = v @ 58 # y \<longleftrightarrow> u = v \<and> x = y"
proof (induction u arbitrary: v)
  case Nil
  then show ?case by (cases v) (auto simp: colon_free_def)
next
  case (Cons a u)
  then show ?case by (cases v) (auto simp: colon_free_def)
qed

lemma starts_with_iff: "starts_with s p \<longleftrightarrow> (\<exists>r. s = p @ r)"
  by (auto simp: starts_with_def) (metis append_take_drop_id)

text \<open>A scope: the colon-free words that end in colons.\<close>

definition kind_word :: "string \<Rightarrow> jsstr option \<Rightarrow> jsstr" where
  "kind_word kind account = js kind @ (if account = None then [] else js ''-account'')"

lemma js_append [simp]: "js (s @ t) = js s @ js t" and js_Nil [simp]: "js [] = []"
  by (simp_all add: js_def)

lemma scopePrefix_words: "scopePrefix kind account network =
    js ''midnight'' @ 58 # kind_word kind account @ 58 #
      (case account of None \<Rightarrow> [] | Some a \<Rightarrow> a @ [58]) @ network @ [58]"
proof -
  have "js ''midnight:'' = js ''midnight'' @ [58]" "js ''-account:'' = js ''-account'' @ [58]" "js '':'' = [58]"
    by (simp_all add: js_def)
  then show ?thesis by (simp add: scopePrefix_def kind_word_def split: option.split)
qed

definition account_free :: "jsstr option \<Rightarrow> bool" where
  "account_free account \<longleftrightarrow> (case account of None \<Rightarrow> True | Some a \<Rightarrow> colon_free a)"

lemma kind_words:
  "colon_free (kind_word ''ps'' a)" "colon_free (kind_word ''sk'' a)"
  "kind_word ''ps'' a \<noteq> kind_word ''sk'' b"
  "kind_word ''ps'' a = kind_word ''ps'' b \<longleftrightarrow> (a = None \<longleftrightarrow> b = None)"
  by (auto simp: kind_word_def colon_free_def js_def)

lemma midnight_free [simp]: "colon_free (js ''midnight'')"
  by (simp add: colon_free_def js_def)

text \<open>The state key of an escaped contract and identifier, and when it lies under a prefix.\<close>

lemma state_key_under:
  assumes "account_free a" "account_free b" "colon_free n" "colon_free m" "colon_free c" "colon_free d"
  shows "scopePrefix ''ps'' a n @ c @ 58 # x = scopePrefix ''ps'' b m @ d @ 58 # y \<longleftrightarrow>
      a = b \<and> n = m \<and> c = d \<and> x = y"
    and "scopePrefix ''ps'' a n @ x \<noteq> scopePrefix ''sk'' b m @ y"
  using assms
  by (auto simp: scopePrefix_words colon_split kind_words account_free_def split: option.splits)

lemma stateKey_result:
  "fst (stateKey i (p\<lparr>pv_contract := Some c\<rparr>)) = Inr k \<longleftrightarrow>
   (\<exists>c' i'. encodeURIComponent c = Inr c' \<and> encodeURIComponent i = Inr i' \<and>
      k = scopePrefix ''ps'' (pv_account p) (pv_network p) @ c' @ 58 # i')"
  by (auto simp: stateKey_def statePrefix_def storagePrefix_def ensureContractConfigured_def effect_defs js_def
      split: sum.splits)

lemma statePrefix_result:
  "fst (statePrefix (p\<lparr>pv_contract := Some c\<rparr>)) = Inr k \<longleftrightarrow>
   (\<exists>c'. encodeURIComponent c = Inr c' \<and> k = scopePrefix ''ps'' (pv_account p) (pv_network p) @ c' @ [58])"
  by (auto simp: statePrefix_def storagePrefix_def ensureContractConfigured_def effect_defs js_def
      split: sum.splits)

lemma newProvider_scope:
  assumes "newProvider asks n a al l s st = Inr p"
  shows "encodeURIComponent (nullish n (js ''preprod'')) = Inr (pv_network p)"
    and "(if nullish a (js ''default'') = js ''default'' then pv_account p = None
      else \<exists>u. encodeURIComponent (nullish a (js ''default'')) = Inr u \<and> pv_account p = Some u)"
    and "account_free (pv_account p)" and "colon_free (pv_network p)"
  using assms escape_colon_free
  by (auto simp: newProvider_def Let_def bindS_Inr_iff account_free_def split: if_splits)

section \<open>Moments\<close>

text \<open>What time can do to a provider.\<close>

definition later :: "provider \<Rightarrow> provider \<Rightarrow> bool" where
  "later p q \<longleftrightarrow> (pv_disposed p \<longrightarrow> pv_disposed q) \<and> vs_revision (pv_session p) \<le> vs_revision (pv_session q) \<and>
     pv_account q = pv_account p \<and> pv_network q = pv_network p \<and> pv_asks q = pv_asks p \<and>
     pv_fallback q = pv_fallback p"

text \<open>What it cannot: the rest of the program does not write to the vault, and only empties the volatile store.\<close>

definition undisturbed :: "provider \<Rightarrow> provider \<Rightarrow> bool" where
  "undisturbed p q \<longleftrightarrow> later p q \<and> pv_store q = pv_store p \<and>
     (pv_ephemeral q = pv_ephemeral p \<or> pv_ephemeral q = [])"

interpretation later: state_order later
  by unfold_locales (auto simp: later_def)

interpretation undisturbed: state_order undisturbed
  by unfold_locales (auto simp: undisturbed_def later_def)

lemma session_revision: "session_le (pv_session p) s' \<Longrightarrow> undisturbed p (with_session s' p)"
  by (simp add: undisturbed_def later_def with_session_def session_le_def)

lemma undisturbed_outside: "undisturbed p (outside_step x p)"
proof (cases x)
  case (Session op)
  then show ?thesis using session_step_le [of op "pv_session p"] session_revision by simp
next
  case Dispose
  then show ?thesis
    by (simp add: undisturbed_def later_def disposeProvider_def stopVaultListener_def split: option.split)
next
  case (Choose a)
  then show ?thesis by (simp add: undisturbed_def later_def setContractAddress_def effect_defs)
qed

lemma undisturbed_outsides: "undisturbed p (fold outside_step xs p)"
  by (induction xs arbitrary: p) (auto intro: undisturbed.rel_refl undisturbed.rel_trans undisturbed_outside)

lemma undisturbed_paused: "undisturbed p (paused w p)"
proof -
  have "undisturbed p (p\<lparr>pv_clock := pv_clock p + 1\<rparr>)" by (simp add: undisturbed_def later_def)
  then show ?thesis unfolding paused_def using undisturbed_outsides undisturbed.rel_trans by blast
qed

lemma undisturbed_unlocked: "undisturbed p (with_session (snd (isVaultSessionUnlocked t (pv_session p))) p)"
  using unlocked_state [of t "pv_session p"] lock_le [of "pv_session p"] session_le_refl [of "pv_session p"]
  by (intro session_revision) auto

lemma undisturbed_assert: "moves undisturbed (assertAuthorized w auth)"
  unfolding moves_def
proof
  fix p
  show "undisturbed p (snd (assertAuthorized w auth p))"
    using undisturbed_unlocked [of p "pw_now w (pv_clock p)"]
    by (auto simp: assertAuthorized_def undisturbed.rel_refl split: prod.split)
qed

lemma undisturbed_consult: "moves undisturbed (consult w f)"
  using undisturbed_paused undisturbed.rel_trans by (simp add: moves_def consult_def Let_def) blast

section \<open>Revocation\<close>

definition revoked :: "authorization \<Rightarrow> provider \<Rightarrow> bool" where
  "revoked auth p \<longleftrightarrow> pv_disposed p \<or>
     (au_sessionBound auth \<and> au_revision auth < vs_revision (pv_session p))"

lemma revoked_later: "undisturbed p q \<Longrightarrow> revoked auth p \<Longrightarrow> revoked auth q"
  by (auto simp: revoked_def undisturbed_def later_def)

lemma assert_result:
  "assertAuthorized w auth p = (Inr u, q) \<Longrightarrow> \<not> revoked auth q"
  by (auto simp: assertAuthorized_def revoked_def with_session_def split: if_splits prod.splits)

lemma assert_revoked: "revoked auth p \<Longrightarrow> assertAuthorized w auth p \<noteq> (Inr u, q)"
  using undisturbed_assert [of w auth] assert_result revoked_later
  unfolding moves_def by (metis snd_conv)

text \<open>Under a revoked authorization every program below keeps \<open>dead\<close> until it stops.\<close>

definition dead :: "authorization \<Rightarrow> vault_store \<Rightarrow> provider \<Rightarrow> bool" where
  "dead auth st p \<longleftrightarrow> revoked auth p \<and> pv_store p = st"

lemma dead_undisturbed: "dead auth st p \<Longrightarrow> undisturbed p q \<Longrightarrow> dead auth st q"
  using revoked_later by (auto simp: dead_def undisturbed_def)

lemma dead_moves: "moves undisturbed m \<Longrightarrow> hoare (dead auth st) m (\<lambda>_. dead auth st) (\<lambda>_. dead auth st)"
  by (rule hoare_moves [where rel = undisturbed]) (auto intro: dead_undisturbed)

lemma dead_assert: "hoare (dead auth st) (assertAuthorized w auth) (\<lambda>_ _. False) (\<lambda>_. dead auth st)"
  using dead_moves [OF undisturbed_assert] assert_revoked
  by (fastforce simp: hoare_def dead_def split: prod.splits sum.splits)

lemma undisturbed_checkEphemeral: "moves undisturbed (checkEphemeral w auth key)"
  unfolding checkEphemeral_def by (intro undisturbed.moves_rules undisturbed_consult)

lemma hoare_False: "hoare (\<lambda>_. False) m Q E"
  by (simp add: hoare_def)

lemma alive_assert: "hoare P (assertAuthorized w auth) (\<lambda>_ p. \<not> revoked auth p) (\<lambda>_ _. True)"
  using assert_result by (auto simp: hoare_def split: prod.split sum.split)

end
