(* ===== verification/Private_State_Properties.thy ===== *)
theory Private_State_Properties
  imports Private_State_Facts Vault_Properties
begin

text \<open>Properties of the private-state provider over the vault and its session.\<close>

section \<open>Namespaces\<close>

lemma newProvider_same_scope:
  assumes "newProvider asks n a al l s st = Inr p" and "newProvider asks' n' a' al' l' s' st' = Inr q"
  shows "pv_network p = pv_network q \<longleftrightarrow> nullish n (js ''preprod'') = nullish n' (js ''preprod'')"
    and "pv_account p = pv_account q \<longleftrightarrow> nullish a (js ''default'') = nullish a' (js ''default'')"
  using newProvider_scope [OF assms(1)] newProvider_scope [OF assms(2)]
  by (auto split: if_splits dest: escape_inject)

text \<open>
  Storage keys are namespaces: two state keys are equal exactly for the same account, network,
  contract and identifier; the prefix that clears a contract covers exactly the keys of that account,
  network and contract; and clearing signing keys never touches a private state.
\<close>

theorem storage_keys_separate:
  assumes "newProvider asks n a al l s st = Inr p" and "newProvider asks' n' a' al' l' s' st' = Inr q"
    and "fst (stateKey i (p\<lparr>pv_contract := Some c\<rparr>)) = Inr k"
    and "fst (stateKey j (q\<lparr>pv_contract := Some d\<rparr>)) = Inr k'"
    and "fst (statePrefix (q\<lparr>pv_contract := Some d\<rparr>)) = Inr pre" and "fst (signingPrefix q) = Inr sk"
  shows "(k = k' \<longleftrightarrow> nullish n (js ''preprod'') = nullish n' (js ''preprod'') \<and>
        nullish a (js ''default'') = nullish a' (js ''default'') \<and> c = d \<and> i = j) \<and>
     (starts_with k pre \<longleftrightarrow> nullish n (js ''preprod'') = nullish n' (js ''preprod'') \<and>
        nullish a (js ''default'') = nullish a' (js ''default'') \<and> c = d) \<and>
     \<not> starts_with k sk"
proof -
  note p = newProvider_scope(3,4) [OF assms(1)] and q = newProvider_scope(3,4) [OF assms(2)]
  obtain c' i' where c: "encodeURIComponent c = Inr c'" and i: "encodeURIComponent i = Inr i'"
    and k: "k = scopePrefix ''ps'' (pv_account p) (pv_network p) @ c' @ 58 # i'"
    using assms(3) by (auto simp: stateKey_result)
  obtain d' j' where d: "encodeURIComponent d = Inr d'" and j: "encodeURIComponent j = Inr j'"
    and k': "k' = scopePrefix ''ps'' (pv_account q) (pv_network q) @ d' @ 58 # j'"
    using assms(4) by (auto simp: stateKey_result)
  have pre: "pre = scopePrefix ''ps'' (pv_account q) (pv_network q) @ d' @ [58]"
    using assms(5) d by (auto simp: statePrefix_result)
  have sk: "sk = scopePrefix ''sk'' (pv_account q) (pv_network q)"
    using assms(6) by (simp add: signingPrefix_def storagePrefix_def getM_def)
  note free = p(1) q(1) p(2) q(2) escape_colon_free [OF c] escape_colon_free [OF d]
  have "c' = d' \<longleftrightarrow> c = d" "i' = j' \<longleftrightarrow> i = j" using escape_inject c d i j by auto
  moreover have "starts_with k pre \<longleftrightarrow> pv_account p = pv_account q \<and> pv_network p = pv_network q \<and> c' = d'"
    using state_key_under(1) [OF free, of i'] by (auto simp: starts_with_iff k pre)
  moreover have "\<not> starts_with k sk"
    using state_key_under(2) [OF free] unfolding starts_with_iff k sk by auto
  ultimately show ?thesis
    using state_key_under(1) [OF free, of i' j'] newProvider_same_scope [OF assms(1,2)] by (auto simp: k k')
qed

text \<open>A provider with nothing stored, for the witnesses: it asks for its password.\<close>

definition demo_provider :: provider where
  "demo_provider = \<lparr>pv_session = fresh_session, pv_store = [], pv_clock = 0, pv_contract = Some (js ''c''),
     pv_ephemeral = [], pv_asks = True, pv_network = js ''preprod'', pv_account = None, pv_listener = None,
     pv_disposed = False, pv_fallback = False\<rparr>"


lemma demo_escapes:
  "encodeURIComponent (js ''preprod'') = Inr (js ''preprod'')" "encodeURIComponent (js ''c'') = Inr (js ''c'')"
  "encodeURIComponent (js ''i'') = Inr (js ''i'')"
  by (simp_all add: encodeURIComponent_def js_def is_high_def is_low_def utf8_def utf8_point_def escape_byte_def
      unescaped_def)

lemma demo_provider_new:
  "newProvider True None None None 0 fresh_session [] = Inr (demo_provider\<lparr>pv_contract := None\<rparr>)"
  by (simp add: newProvider_def demo_escapes demo_provider_def Let_def)

lemma storage_keys_separate_witness:
  "\<exists>k pre. fst (stateKey (js ''i'') demo_provider) = Inr k \<and> starts_with k pre \<and> k \<noteq> pre"
proof -
  let ?p = "demo_provider\<lparr>pv_contract := None\<rparr>"
  have set: "?p\<lparr>pv_contract := Some (js ''c'')\<rparr> = demo_provider" by (simp add: demo_provider_def)
  obtain k where k: "fst (stateKey (js ''i'') (?p\<lparr>pv_contract := Some (js ''c'')\<rparr>)) = Inr k"
    by (simp add: stateKey_result demo_escapes)
  obtain pre where pre: "fst (statePrefix (?p\<lparr>pv_contract := Some (js ''c'')\<rparr>)) = Inr pre"
    by (simp add: statePrefix_result demo_escapes)
  have sk: "fst (signingPrefix ?p) = Inr (scopePrefix ''sk'' (pv_account ?p) (pv_network ?p))"
    by (simp add: signingPrefix_def storagePrefix_def getM_def)
  have "js ''i'' \<noteq> []" by (simp add: js_def)
  then have "k \<noteq> pre" using k pre by (auto simp: stateKey_result statePrefix_result demo_escapes)
  then show ?thesis
    using storage_keys_separate [OF demo_provider_new demo_provider_new k k pre sk] k unfolding set by blast
qed

section \<open>Revocation\<close>

















section \<open>Reading back\<close>








































end
