(* ===== verification/Native_Journal.thy ===== *)
theory Native_Journal
  imports Effects Js_Strings
begin

text \<open>
  The durable submission journal of the supplier and Preprod services,
  \<open>server/native-operation-journal.mjs\<close>: one pending operation, saved before anything is sent, its
  transaction kept in a file, and its fate decided by independent finality alone. The state of the
  process is separate from the control store, the files and the network, so that a crash or a
  failed write at any effect leaves exactly what had been written. The ledger library's transaction
  is a parameter, given by what its accessors return.
\<close>

section \<open>Transactions and records\<close>

datatype native_action =
    ContractDeploy (action_address: jsstr)
  | ContractCall (action_address: jsstr) (entry_point: jsstr)
  | MaintenanceUpdate (action_address: jsstr)

record native_tx =
  nx_identifiers :: "jsstr list"
  nx_actions :: "native_action list"
  nx_hash :: jsstr

text \<open>The kinds the journal distinguishes; every other kind is a maintenance update.\<close>

datatype native_kind = KDeploy | KCall | KOther jsstr

datatype disposition = RowPrepared | RowAttempted | RowSubmitted

record native_row =
  nr_id :: jsstr
  nr_kind :: native_kind
  nr_name :: jsstr
  nr_contractAddress :: jsstr
  nr_txId :: jsstr
  nr_txHash :: jsstr
  nr_disposition :: disposition
  nr_createdAt :: int
  nr_extrinsicHash :: "jsstr option"
  nr_submissionError :: "(int option \<times> jsstr) option"

record native_receipt =
  nt_row :: native_row
  nt_blockHeight :: nat
  nt_finalizedHead :: nat
  nt_feePaid :: "int option"
  nt_verifiedAt :: int

text \<open>The application's own part of the state is \<open>'x\<close>.\<close>

record 'x application =
  na_contractAddress :: "jsstr option"
  na_rest :: 'x

record 'x native_pending =
  np_id :: jsstr
  np_kind :: native_kind
  np_name :: jsstr
  np_after :: "'x application"
  np_record :: "native_row option"

record 'x native_state =
  ns_app :: "'x application"
  ns_pending :: "'x native_pending option"
  ns_receipts :: "native_receipt list"

section \<open>Process, disk and network\<close>

text \<open>
  A transaction file holds its transaction, or nothing readable when its writing was cut short;
  of the journal's report files only the existence matters to the code. \<open>nj_sent\<close> is what reached
  the network, with the operation it was sent for.
\<close>

record 'x native =
  nj_state :: "'x native_state"
  nj_uncertain :: bool
  nj_application :: "'x native_state"
  nj_bins :: "(jsstr \<times> native_tx option) list"
  nj_reports :: "jsstr list"
  nj_sent :: "(jsstr \<times> native_tx) list"
  nj_clock :: nat

datatype response = NotOk | Rejected "(int option \<times> jsstr)" | Hash jsstr

record observation =
  ob_height :: nat
  ob_finalizedHead :: nat
  ob_fees :: "int option"

record native_world =
  nw_fate :: "nat \<Rightarrow> fate"
  nw_torn :: "nat \<Rightarrow> bool"
  nw_response :: "nat \<Rightarrow> response"
  nw_observe :: "nat \<Rightarrow> native_row \<Rightarrow> observation option"
  nw_now :: "nat \<Rightarrow> int"
  nw_sanitize :: "string \<Rightarrow> string"

type_synonym ('x, 'a) nj = "('x native, halt, 'a) effect"

definition effectM :: "native_world \<Rightarrow> (nat \<Rightarrow> bool \<Rightarrow> 'x native \<Rightarrow> 'x native) \<Rightarrow> ('x, nat) nj" where
  "effectM w change s =
     (let n = nj_clock s; t = s\<lparr>nj_clock := n + 1\<rparr> in
      case nw_fate w n of
        Done \<Rightarrow> (Inr n, change n True t)
      | Failed \<Rightarrow> (Inl (Threw ''effect failed''), t)
      | FailedAfter \<Rightarrow> (Inl (Threw ''effect failed''), change n False t)
      | CrashBefore \<Rightarrow> (Inl Crashed, t)
      | CrashAfter \<Rightarrow> (Inl Crashed, change n False t))"

definition clockM :: "native_world \<Rightarrow> ('x, int) nj" where
  "clockM w = bindM (getM nj_clock) (\<lambda>n. pureM (nw_now w n))"

section \<open>The journal\<close>

definition assertJournalWritable :: "('x, unit) nj" where
  "assertJournalWritable =
     bindM (getM nj_uncertain) (\<lambda>uncertain.
     unlessM (\<not> uncertain)
       (Threw ''Supplier storage is uncertain. Stop and reopen its retained state before continuing.''))"

definition changeState :: "('x native_state \<Rightarrow> 'x native_state) \<Rightarrow> ('x, unit) nj" where
  "changeState f = updateM (\<lambda>s. s\<lparr>nj_state := f (nj_state s)\<rparr>)"

definition setPending :: "('x native_pending \<Rightarrow> 'x native_pending) \<Rightarrow> ('x, unit) nj" where
  "setPending f = changeState (\<lambda>a. a\<lparr>ns_pending := map_option f (ns_pending a)\<rparr>)"

definition saveCandidate :: "native_world \<Rightarrow> 'x native_state \<Rightarrow> ('x, unit) nj" where
  "saveCandidate w candidate =
     bindM assertJournalWritable (\<lambda>_.
     handleM (bindM (effectM w (\<lambda>n ok s. s\<lparr>nj_application := candidate\<rparr>)) (\<lambda>_. pureM ()))
       (\<lambda>x. bindM (updateM (\<lambda>s. s\<lparr>nj_uncertain := True\<rparr>)) (\<lambda>_. throw x)))"

definition save :: "native_world \<Rightarrow> ('x, unit) nj" where
  "save w = bindM (getM nj_state) (saveCandidate w)"

text \<open>\<open>writeFileSync\<close>, with and without the flag \<open>wx\<close>.\<close>

definition writeBin :: "native_world \<Rightarrow> jsstr \<Rightarrow> native_tx \<Rightarrow> ('x, unit) nj" where
  "writeBin w i tx =
     bindM (getM (\<lambda>s. i \<in> fst ` set (nj_bins s))) (\<lambda>present.
     if present then throw ''EEXIST'' else
     bindM (effectM w (\<lambda>n ok s. s\<lparr>nj_bins := (i, if ok \<or> \<not> nw_torn w n then Some tx else None) # nj_bins s\<rparr>))
       (\<lambda>_. pureM ()))"

definition createReport :: "native_world \<Rightarrow> jsstr \<Rightarrow> ('x, unit) nj" where
  "createReport w i =
     bindM (getM (\<lambda>s. i \<in> set (nj_reports s))) (\<lambda>present.
     if present then throw ''EEXIST'' else
     bindM (effectM w (\<lambda>n ok s. s\<lparr>nj_reports := List.insert i (nj_reports s)\<rparr>)) (\<lambda>_. pureM ()))"

definition writeReport :: "native_world \<Rightarrow> jsstr \<Rightarrow> ('x, unit) nj" where
  "writeReport w i =
     bindM (effectM w (\<lambda>n ok s. s\<lparr>nj_reports := List.insert i (nj_reports s)\<rparr>)) (\<lambda>_. pureM ())"

definition action_matches :: "native_kind \<Rightarrow> native_action \<Rightarrow> bool" where
  "action_matches k a = (case k of
     KDeploy \<Rightarrow> (case a of ContractDeploy _ \<Rightarrow> True | _ \<Rightarrow> False)
   | KCall \<Rightarrow> (case a of ContractCall _ _ \<Rightarrow> True | _ \<Rightarrow> False)
   | KOther _ \<Rightarrow> (case a of MaintenanceUpdate _ \<Rightarrow> True | _ \<Rightarrow> False))"

definition setAddress :: "jsstr \<Rightarrow> 'x native_pending \<Rightarrow> 'x native_pending" where
  "setAddress a p = p\<lparr>np_after := (np_after p)\<lparr>na_contractAddress := Some a\<rparr>\<rparr>"

text \<open>\<open>transactionRecord\<close>: a deployment fixes the address of the state after it.\<close>

definition transactionRecord :: "native_world \<Rightarrow> 'x native_pending \<Rightarrow> native_tx \<Rightarrow> ('x, native_row) nj" where
  "transactionRecord w p tx =
     (case nx_actions tx of
        [action] \<Rightarrow>
          bindM (unlessM (action_matches (np_kind p) action) (Threw ''Saved transaction action mismatch.'')) (\<lambda>_.
          bindM (unlessM (np_kind p = KCall \<longrightarrow> entry_point action = np_name p)
            (Threw ''Saved transaction circuit mismatch.'')) (\<lambda>_.
          bindM (getM (\<lambda>s. na_contractAddress (ns_app (nj_state s)))) (\<lambda>current.
          bindM (if np_kind p = KDeploy then setPending (setAddress (action_address action))
                 else unlessM (current = Some (action_address action))
                   (Threw ''Saved transaction targets another contract.'')) (\<lambda>_.
          bindM (unlessM (nx_identifiers tx \<noteq> [] \<and> last (nx_identifiers tx) \<noteq> [])
            (Threw ''Saved transaction identifier is missing.'')) (\<lambda>_.
          bindM (clockM w) (\<lambda>t.
          pureM \<lparr>nr_id = np_id p, nr_kind = np_kind p, nr_name = np_name p,
            nr_contractAddress = action_address action, nr_txId = last (nx_identifiers tx),
            nr_txHash = nx_hash tx, nr_disposition = RowPrepared, nr_createdAt = t,
            nr_extrinsicHash = None, nr_submissionError = None\<rparr>))))))
      | _ \<Rightarrow> throw ''Saved transaction action mismatch.'')"

definition setRow :: "(native_row \<Rightarrow> native_row) \<Rightarrow> ('x, unit) nj" where
  "setRow f = setPending (\<lambda>p. p\<lparr>np_record := map_option f (np_record p)\<rparr>)"

definition same_row :: "native_row \<Rightarrow> native_row \<Rightarrow> bool" where
  "same_row a b \<longleftrightarrow> nr_id a = nr_id b \<and> nr_kind a = nr_kind b \<and> nr_name a = nr_name b \<and>
     nr_contractAddress a = nr_contractAddress b \<and> nr_txId a = nr_txId b \<and> nr_txHash a = nr_txHash b"

text \<open>The node's answer, and the sending itself: uncertainty is saved before the network call.\<close>

definition answered :: "native_world \<Rightarrow> jsstr \<Rightarrow> response \<Rightarrow> ('x, unit) nj" where
  "answered w i r = (case r of
     NotOk \<Rightarrow> throw ''Submission result is uncertain. Reconcile the saved transaction.''
   | Rejected e \<Rightarrow>
       bindM (setRow (\<lambda>r. r\<lparr>nr_submissionError := Some e\<rparr>)) (\<lambda>_.
       bindM (save w) (\<lambda>_.
       bindM (writeReport w i) (\<lambda>_.
       throw ''RPC rejected the submission. Reconcile the saved transaction.'')))
   | Hash h \<Rightarrow>
       bindM (setRow (\<lambda>r. r\<lparr>nr_extrinsicHash := Some h, nr_disposition := RowSubmitted\<rparr>)) (\<lambda>_.
       bindM (save w) (\<lambda>_.
       writeReport w i)))"

definition sendPrepared :: "native_world \<Rightarrow> jsstr \<Rightarrow> native_tx \<Rightarrow> ('x, unit) nj" where
  "sendPrepared w i tx =
     bindM (setRow (\<lambda>r. r\<lparr>nr_disposition := RowAttempted\<rparr>)) (\<lambda>_.
     bindM (save w) (\<lambda>_.
     bindM (writeReport w i) (\<lambda>_.
     bindM (effectM w (\<lambda>n ok s. s\<lparr>nj_sent := nj_sent s @ [(i, tx)]\<rparr>)) (\<lambda>n.
     answered w i (nw_response w n)))))"

definition submitPrepared :: "native_world \<Rightarrow> native_tx \<Rightarrow> ('x, unit) nj" where
  "submitPrepared w tx =
     bindM assertJournalWritable (\<lambda>_.
     bindM (getM (\<lambda>s. ns_pending (nj_state s))) (\<lambda>pending.
     case Option.bind pending (\<lambda>p. map_option (\<lambda>row. (p, row)) (np_record p)) of
       None \<Rightarrow> throw ''Only a provably unsubmitted transaction can be submitted.''
     | Some (p, row) \<Rightarrow>
       bindM (unlessM (nr_disposition row = RowPrepared)
         (Threw ''Only a provably unsubmitted transaction can be submitted.'')) (\<lambda>_.
       bindM (transactionRecord w p tx) (\<lambda>actual.
       bindM (unlessM (same_row actual row) (Threw ''Saved transaction journal mismatch.'')) (\<lambda>_.
       sendPrepared w (np_id p) tx)))))"

text \<open>The transaction and its record are on disk before anything is sent.\<close>

definition journalRow :: "native_world \<Rightarrow> jsstr \<Rightarrow> native_tx \<Rightarrow> native_row \<Rightarrow> ('x, unit) nj" where
  "journalRow w i tx row =
     bindM (writeBin w i tx) (\<lambda>_.
     bindM (createReport w i) (\<lambda>_.
     bindM (setPending (\<lambda>p. p\<lparr>np_record := Some row\<rparr>)) (\<lambda>_.
     bindM (save w) (\<lambda>_.
     submitPrepared w tx))))"

definition journalAndSubmit :: "native_world \<Rightarrow> native_tx \<Rightarrow> ('x, jsstr) nj" where
  "journalAndSubmit w tx =
     bindM assertJournalWritable (\<lambda>_.
     bindM (getM (\<lambda>s. ns_pending (nj_state s))) (\<lambda>pending.
     case pending of
       None \<Rightarrow> throw ''Submission has no durable operation context.''
     | Some p \<Rightarrow>
       bindM (unlessM (nx_identifiers tx \<noteq> [] \<and> last (nx_identifiers tx) \<noteq> []) (Threw ''Transaction has no identifier.'')) (\<lambda>_.
       bindM (unlessM (length (nx_actions tx) = 1) (Threw ''Expected one contract action.'')) (\<lambda>_.
       (let address = action_address (hd (nx_actions tx)) in
        bindM (getM (\<lambda>s. na_contractAddress (ns_app (nj_state s)))) (\<lambda>current.
        bindM (if np_kind p = KDeploy then setPending (setAddress address)
               else unlessM (current = Some address) (Threw ''Transaction targets another contract.'')) (\<lambda>_.
        bindM (transactionRecord w p tx) (\<lambda>row.
        bindM (journalRow w (np_id p) tx row) (\<lambda>_.
        pureM (last (nx_identifiers tx)))))))))))"

text \<open>The state after a confirmed operation, and its publication.\<close>

definition confirmedState :: "'x native_state \<Rightarrow> 'x native_pending \<Rightarrow> native_receipt \<Rightarrow> 'x native_state" where
  "confirmedState state p receipt = \<lparr>ns_app = np_after p, ns_pending = None,
     ns_receipts = filter (\<lambda>x. nr_id (nt_row x) \<noteq> nr_id (nt_row receipt)) (ns_receipts state) @ [receipt]\<rparr>"

definition publishReceipt ::
    "native_world \<Rightarrow> 'x native_state \<Rightarrow> native_receipt \<Rightarrow> ('x, native_receipt option) nj" where
  "publishReceipt w followed receipt =
     bindM (saveCandidate w followed) (\<lambda>_.
     bindM (changeState (\<lambda>_. followed)) (\<lambda>_.
     bindM (writeReport w (nr_id (nt_row receipt))) (\<lambda>_.
     pureM (Some receipt))))"

definition reconcile :: "native_world \<Rightarrow> ('x, native_receipt option) nj" where
  "reconcile w =
     bindM assertJournalWritable (\<lambda>_.
     bindM (getM nj_state) (\<lambda>state.
     case Option.bind (ns_pending state) (\<lambda>p. map_option (\<lambda>row. (p, row)) (np_record p)) of
       None \<Rightarrow> pureM None
     | Some (p, row) \<Rightarrow>
       bindM (effectM w (\<lambda>n ok s. s)) (\<lambda>n.
       case nw_observe w n row of
         None \<Rightarrow> throw ''not final''
       | Some ob \<Rightarrow>
         bindM (clockM w) (\<lambda>t.
         (let receipt = \<lparr>nt_row = row, nt_blockHeight = ob_height ob, nt_finalizedHead = ob_finalizedHead ob,
                nt_feePaid = ob_fees ob, nt_verifiedAt = t\<rparr> in
          publishReceipt w (confirmedState state p receipt) receipt)))))"

text \<open>A prepared operation is submitted from its file; one that may have been sent is not.\<close>

definition resubmitPending ::
    "native_world \<Rightarrow> 'x native_pending \<Rightarrow> native_tx option option \<Rightarrow> ('x, unit) nj" where
  "resubmitPending w p bin =
     (if np_record p = None \<or> map_option nr_disposition (np_record p) = Some RowPrepared
      then (case bin of
          None \<Rightarrow> throw ''ENOENT''
        | Some None \<Rightarrow> throw ''deserialization failed''
        | Some (Some tx) \<Rightarrow>
            bindM (case np_record p of
                Some row \<Rightarrow> pureM row
              | None \<Rightarrow> transactionRecord w p tx) (\<lambda>row.
            bindM (setPending (\<lambda>p. p\<lparr>np_record := Some row\<rparr>)) (\<lambda>_.
            bindM (save w) (\<lambda>_.
            submitPrepared w tx))))
      else pureM ())"

definition recoverPending :: "native_world \<Rightarrow> ('x, native_receipt option) nj" where
  "recoverPending w =
     bindM assertJournalWritable (\<lambda>_.
     bindM (getM (\<lambda>s. ns_pending (nj_state s))) (\<lambda>pending.
     case pending of
       None \<Rightarrow> pureM None
     | Some p \<Rightarrow>
       bindM (getM (\<lambda>s. map_of (nj_bins s) (np_id p))) (\<lambda>bin.
       if np_record p = None \<and> bin = None
       then bindM (changeState (\<lambda>a. a\<lparr>ns_pending := None\<rparr>)) (\<lambda>_. bindM (save w) (\<lambda>_. pureM None))
       else bindM (resubmitPending w p bin) (\<lambda>_. reconcile w))))"

definition operation_id :: "jsstr \<Rightarrow> bool" where
  "operation_id i \<longleftrightarrow> 1 \<le> length i \<and> length i \<le> 100 \<and>
     list_all (\<lambda>c. let n = unat c in (97 \<le> n \<and> n \<le> 122) \<or> (48 \<le> n \<and> n \<le> 57) \<or> n = 45) i"

text \<open>
  What the caller's \<open>execute\<close> does to the journal: it has transactions submitted, in turn, until one
  fails, and reports whether the last one succeeded entirely.
\<close>

definition execute :: "native_world \<Rightarrow> native_tx list \<Rightarrow> bool \<Rightarrow> ('x, unit) nj" where
  "execute w txs ok =
     bindM (eachM (\<lambda>tx. bindM (journalAndSubmit w tx) (\<lambda>_. pureM ())) txs) (\<lambda>_.
     unlessM ok (Threw ''Transaction did not succeed entirely.''))"

definition persistWallet :: "native_world \<Rightarrow> ('x, unit) nj" where
  "persistWallet w = bindM (effectM w (\<lambda>n ok s. s)) (\<lambda>_. pureM ())"

text \<open>The body of an operation, and what becomes of an operation that failed before anything was sent.\<close>

definition abandonUnsent :: "native_world \<Rightarrow> jsstr \<Rightarrow> string \<Rightarrow> ('x, 'a) nj" where
  "abandonUnsent w i x =
     bindM (getM (\<lambda>s. Option.bind (ns_pending (nj_state s)) np_record = None \<and> i \<notin> fst ` set (nj_bins s))) (\<lambda>unsent.
     bindM (if unsent then bindM (changeState (\<lambda>a. a\<lparr>ns_pending := None\<rparr>)) (\<lambda>_. save w) else pureM ()) (\<lambda>_.
     throw (nw_sanitize w x)))"

definition performOperation ::
    "native_world \<Rightarrow> jsstr \<Rightarrow> native_tx list \<Rightarrow> bool \<Rightarrow> ('x, native_receipt option) nj" where
  "performOperation w i txs ok =
     finallyM (handleM (bindM (execute w txs ok) (\<lambda>_. reconcile w)) (abandonUnsent w i)) (persistWallet w)"

definition runOperation ::
    "native_world \<Rightarrow> jsstr \<Rightarrow> native_kind \<Rightarrow> jsstr \<Rightarrow> 'x application \<Rightarrow> native_tx list \<Rightarrow> bool \<Rightarrow>
       ('x, native_receipt option) nj" where
  "runOperation w i kind name after txs ok =
     bindM assertJournalWritable (\<lambda>_.
     bindM (unlessM (operation_id i) (Threw ''Invalid operation identifier.'')) (\<lambda>_.
     bindM (getM nj_state) (\<lambda>state.
     bindM (unlessM (ns_pending state = None)
       (Threw ''Reconcile the pending transaction before preparing another operation.'')) (\<lambda>_.
     case find (\<lambda>x. nr_id (nt_row x) = i) (ns_receipts state) of
       Some retained \<Rightarrow>
         bindM (effectM w (\<lambda>n ok s. s)) (\<lambda>n.
         if nw_observe w n (nt_row retained) = None then throw ''not final'' else pureM (Some retained))
     | None \<Rightarrow>
         bindM (changeState (\<lambda>a. a\<lparr>ns_pending := Some \<lparr>np_id = i, np_kind = kind, np_name = name,
           np_after = after, np_record = None\<rparr>\<rparr>)) (\<lambda>_.
         bindM (save w) (\<lambda>_.
         performOperation w i txs ok))))))"

section \<open>Histories\<close>

text \<open>A restart: the memory is read back from the control store.\<close>

definition restarted :: "'x native \<Rightarrow> 'x native" where
  "restarted s = s\<lparr>nj_state := nj_application s, nj_uncertain := False\<rparr>"

datatype 'x native_call =
    NOperation jsstr native_kind jsstr "'x application" "native_tx list" bool
  | NRecover
  | NReconcile
  | NRestart

fun native_run :: "native_world \<Rightarrow> 'x native_call \<Rightarrow> ('x, unit) nj" where
  "native_run w (NOperation i k name after txs ok) = bindM (runOperation w i k name after txs ok) (\<lambda>_. pureM ())"
| "native_run w NRecover = bindM (recoverPending w) (\<lambda>_. pureM ())"
| "native_run w NReconcile = bindM (reconcile w) (\<lambda>_. pureM ())"
| "native_run w NRestart = updateM restarted"

text \<open>A process that dies is started again.\<close>

definition native_step :: "native_world \<Rightarrow> 'x native_call \<Rightarrow> 'x native \<Rightarrow> 'x native" where
  "native_step w c s = (case native_run w c s of
     (Inl Crashed, t) \<Rightarrow> restarted t
   | (_, t) \<Rightarrow> t)"

definition native_history :: "(native_world \<times> 'x native_call) list \<Rightarrow> 'x native \<Rightarrow> 'x native" where
  "native_history cs s = fold (\<lambda>(w, c). native_step w c) cs s"

definition freshNative :: "'x application \<Rightarrow> 'x native" where
  "freshNative app = (let st = \<lparr>ns_app = app, ns_pending = None, ns_receipts = []\<rparr> in
     \<lparr>nj_state = st, nj_uncertain = False, nj_application = st, nj_bins = [], nj_reports = [],
      nj_sent = [], nj_clock = 0\<rparr>)"

end
