(* ===== verification/Native_Journal_Facts.thy ===== *)
theory Native_Journal_Facts
  imports Native_Journal
begin

text \<open>
  The invariant of the submission journal. What matters of a state is its core: the pending
  operation with its record, and the operations that have a receipt. An operation that was sent is
  settled in the core on disk, and in the core in memory as long as memory may be written.
\<close>

section \<open>The core\<close>

type_synonym core = "(jsstr \<times> native_row option) option \<times> jsstr list"

definition core :: "'x native_state \<Rightarrow> core" where
  "core a = (map_option (\<lambda>p. (np_id p, np_record p)) (ns_pending a), map (\<lambda>r. nr_id (nt_row r)) (ns_receipts a))"

definition settled_in :: "core \<Rightarrow> jsstr \<Rightarrow> bool" where
  "settled_in c i \<longleftrightarrow> (\<exists>row. fst c = Some (i, Some row) \<and> nr_disposition row \<noteq> RowPrepared) \<or> i \<in> set (snd c)"

definition core_ok :: "core \<Rightarrow> bool" where
  "core_ok c \<longleftrightarrow> (\<forall>i row. fst c = Some (i, Some row) \<longrightarrow> nr_id row = i) \<and>
     (\<forall>i r. fst c = Some (i, r) \<longrightarrow> i \<notin> set (snd c))"

definition knows :: "core \<Rightarrow> (jsstr \<times> native_tx) list \<Rightarrow> bool" where
  "knows c sent \<longleftrightarrow> core_ok c \<and> (\<forall>i \<in> fst ` set sent. settled_in c i)"

definition native_inv :: "'x native \<Rightarrow> bool" where
  "native_inv s \<longleftrightarrow> distinct (map fst (nj_sent s)) \<and>
     (\<forall>(i, tx) \<in> set (nj_sent s). map_of (nj_bins s) i = Some (Some tx)) \<and>
     knows (core (nj_application s)) (nj_sent s) \<and>
     (\<not> nj_uncertain s \<longrightarrow> knows (core (nj_state s)) (nj_sent s))"

text \<open>A state of the process that may write, with its core, files and messages.\<close>

definition here ::
    "core \<Rightarrow> (jsstr \<times> native_tx option) list \<Rightarrow> (jsstr \<times> native_tx) list \<Rightarrow> 'x native \<Rightarrow> bool" where
  "here c b sent s \<longleftrightarrow> native_inv s \<and> \<not> nj_uncertain s \<and> core (nj_state s) = c \<and> nj_bins s = b \<and> nj_sent s = sent"

lemma hereD:
  assumes "here c b sent s"
  shows "native_inv s" and "core (nj_state s) = c" and "knows c sent" and "nj_bins s = b" and "nj_sent s = sent"
    and "distinct (map fst sent)" and "\<forall>(i, tx) \<in> set sent. map_of b i = Some (Some tx)"
  using assms by (auto simp: here_def native_inv_def)

lemma native_inv_here: "native_inv s \<Longrightarrow> \<not> nj_uncertain s \<Longrightarrow> here (core (nj_state s)) (nj_bins s) (nj_sent s) s"
  by (simp add: here_def)

section \<open>Rules\<close>

abbreviation (input) safe ::
    "('x native \<Rightarrow> bool) \<Rightarrow> ('x, 'a) nj \<Rightarrow> ('a \<Rightarrow> 'x native \<Rightarrow> bool) \<Rightarrow> bool" where
  "safe P m Q \<equiv> hoare P m Q (\<lambda>_. native_inv)"

lemma safe_effect:
  assumes "\<And>s k. P s \<Longrightarrow> native_inv (s\<lparr>nj_clock := k\<rparr>)"
    and "\<And>s n ok k. P s \<Longrightarrow> native_inv (change n ok (s\<lparr>nj_clock := k\<rparr>))"
    and "\<And>s n k. P s \<Longrightarrow> Q n (change n True (s\<lparr>nj_clock := k\<rparr>))"
  shows "safe P (effectM w change) Q"
  using assms by (auto simp: hoare_def effectM_def Let_def split: fate.split)

lemma safe_throw: "(\<And>s. P s \<Longrightarrow> native_inv s) \<Longrightarrow> safe P (throw m) Q"
  by (simp add: hoare_def throw_def stopM_def)

lemma safe_unless: "(\<And>s. P s \<Longrightarrow> native_inv s) \<Longrightarrow> safe P (unlessM b e) (\<lambda>_ s. b \<and> P s)"
  by (auto intro: hoare_unless)

lemma safe_get: "safe P (getM f) (\<lambda>a s. P s \<and> a = f s)"
  by (simp add: hoare_def getM_def)

lemma safe_handle:
  assumes "safe P m Q" and "\<And>x. hoare native_inv (h x) Q (\<lambda>_. native_inv)"
  shows "safe P (handleM m h) Q"
proof -
  have "hoare native_inv (case e of Crashed \<Rightarrow> stopM Crashed | Threw x \<Rightarrow> h x) Q (\<lambda>_. native_inv)" for e
    using assms(2) by (cases e) (simp_all add: hoare_def stopM_def)
  then show ?thesis unfolding handleM_def by (rule hoare_catch [OF assms(1)])
qed

lemma safe_finally:
  assumes "safe P m (\<lambda>_. native_inv)" and "safe native_inv f (\<lambda>_. native_inv)"
  shows "safe P (finallyM m f) (\<lambda>_. native_inv)"
  unfolding finallyM_def
  by (rule hoare_bind, rule safe_handle [OF assms(1)], rule hoare_bind [OF assms(2)], rule safe_throw, assumption,
      rule hoare_bind [OF assms(2)]) (simp add: hoare_def pureM_def)

lemma safe_clock: "(\<And>s. P s \<Longrightarrow> native_inv s) \<Longrightarrow> safe P (clockM w) (\<lambda>_. P)"
  by (simp add: hoare_def clockM_def effect_defs)

lemma clock_irrelevant [simp]:
  "native_inv (s\<lparr>nj_clock := k\<rparr>) = native_inv s" "here c b sent (s\<lparr>nj_clock := k\<rparr>) = here c b sent s"
  "native_inv (s\<lparr>nj_reports := rs\<rparr>) = native_inv s" "here c b sent (s\<lparr>nj_reports := rs\<rparr>) = here c b sent s"
  by (simp_all add: native_inv_def here_def)

lemma safe_idle: "(\<And>s k. P s \<Longrightarrow> P (s\<lparr>nj_clock := k\<rparr>)) \<Longrightarrow> (\<And>s. P s \<Longrightarrow> native_inv s) \<Longrightarrow>
    safe P (effectM w (\<lambda>n ok s. s)) (\<lambda>_. P)"
  by (rule safe_effect) simp_all

text \<open>Memory changes that keep what the journal knows.\<close>

lemma safe_changeState:
  assumes "\<And>a. core a = c \<Longrightarrow> core (f a) = c'" and "knows c' sent"
  shows "safe (here c b sent) (changeState f) (\<lambda>_. here c' b sent)"
  using assms by (auto simp: hoare_def changeState_def updateM_def here_def native_inv_def)

lemma safe_assert: "safe native_inv assertJournalWritable (\<lambda>_ s. native_inv s \<and> \<not> nj_uncertain s)"
  by (simp add: hoare_def assertJournalWritable_def effect_defs)

lemma safe_assert_here: "safe (here c b sent) assertJournalWritable (\<lambda>_. here c b sent)"
  by (simp add: hoare_def assertJournalWritable_def effect_defs here_def)

lemma safe_here: "(knows c sent \<Longrightarrow> safe (here c b sent) m Q) \<Longrightarrow> safe (here c b sent) m Q"
  by (cases "knows c sent") (auto simp: hoare_def dest: hereD)

lemma safe_given:
  assumes "\<And>s. P s \<Longrightarrow> C \<and> P' s" and "C \<Longrightarrow> safe P' m Q"
  shows "safe P m Q"
  using assms hoare_result [OF assms(2)] hoare_stopped [OF assms(2)] by (intro hoareI) blast+

text \<open>A save, whatever becomes of it, leaves a disk that knows what was sent.\<close>

lemma safe_saveCandidate:
  assumes "knows (core a) sent"
  shows "safe (here c b sent) (saveCandidate w a) (\<lambda>_ s. here c b sent s \<and> core (nj_application s) = core a)"
proof -
  let ?saved = "\<lambda>_ s. here c b sent s \<and> core (nj_application s) = core a"
  have "safe (here c b sent) (effectM w (\<lambda>n ok s. s\<lparr>nj_application := a\<rparr>)) ?saved"
    by (rule safe_effect) (use assms in \<open>auto simp: here_def native_inv_def\<close>)
  then have written: "safe (here c b sent) (bindM (effectM w (\<lambda>n ok s. s\<lparr>nj_application := a\<rparr>)) (\<lambda>_. pureM ())) ?saved"
    by (rule hoare_bind) (simp add: hoare_def pureM_def)
  have "safe native_inv (bindM (updateM (\<lambda>s. s\<lparr>nj_uncertain := True\<rparr>)) (\<lambda>_. throw x)) Q" for x Q
    by (simp add: hoare_def effect_defs throw_def native_inv_def)
  then show ?thesis
    unfolding saveCandidate_def by (intro hoare_bind [OF safe_assert_here] safe_handle [OF written])
qed

lemma safe_save: "safe (here c b sent) (save w) (\<lambda>_ s. here c b sent s \<and> core (nj_application s) = c)"
proof -
  have "safe (\<lambda>s. here c b sent s \<and> a = nj_state s) (saveCandidate w a)
      (\<lambda>_ s. here c b sent s \<and> core (nj_application s) = c)" for a
    using safe_saveCandidate [of a sent c b w]
    by (cases "core a = c \<and> knows c sent") (auto simp: hoare_def dest: hereD split: prod.splits sum.splits)
  then show ?thesis unfolding save_def by (intro hoare_bind [OF safe_get])
qed

section \<open>The methods\<close>

lemma core_setAddress [simp]: "core (a\<lparr>ns_pending := map_option (setAddress x) (ns_pending a)\<rparr>) = core a"
  by (simp add: core_def setAddress_def option.map_comp comp_def)

lemma core_pending:
  "core a = c \<Longrightarrow> ns_pending a = Some p \<Longrightarrow> c = (Some (np_id p, np_record p), snd c)"
  "core a = c \<Longrightarrow> ns_pending a = None \<Longrightarrow> fst c = None"
  by (auto simp: core_def)

lemma core_read: "ns_pending a = Some p \<Longrightarrow> fst (core a) = Some (np_id p, np_record p)"
  by (simp add: core_def)

lemma safe_setAddress: "safe (here c b sent) (setPending (setAddress x)) (\<lambda>_. here c b sent)"
  unfolding setPending_def by (auto simp: hoare_def changeState_def updateM_def here_def native_inv_def)

lemma safe_address:
  "safe (here c b sent) (if k then setPending (setAddress x) else unlessM ok e) (\<lambda>_. here c b sent)"
  by (rule hoare_if, rule safe_setAddress, rule hoare_unless) (auto dest: hereD)

lemma safe_transactionRecord:
  "safe (here c b sent) (transactionRecord w p tx)
     (\<lambda>row s. here c b sent s \<and> nr_id row = np_id p \<and> nr_disposition row = RowPrepared)"
proof (cases "\<exists>a. nx_actions tx = [a]")
  case True
  then obtain a where a: "nx_actions tx = [a]" by blast
  have unless: "safe (here c b sent) (unlessM q e) (\<lambda>_. here c b sent)" for q e
    by (rule hoare_unless) (auto dest: hereD)
  have get: "safe (here c b sent) (getM f) (\<lambda>_. here c b sent)" for f
    by (simp add: hoare_def getM_def)
  show ?thesis
    unfolding transactionRecord_def a list.case
    by (rule hoare_bind [OF unless], rule hoare_bind [OF unless], rule hoare_bind [OF get], rule hoare_bind [OF safe_address],
        rule hoare_bind [OF unless], rule hoare_bind [OF safe_clock], erule hereD(1)) (simp add: hoare_def pureM_def)
next
  case False
  then have "transactionRecord w p tx = throw ''Saved transaction action mismatch.''"
    by (auto simp: transactionRecord_def split: list.split)
  then show ?thesis by (simp add: safe_throw hereD(1))
qed

text \<open>A record that leaves its prepared state, or changes within a later one.\<close>

lemma knows_row:
  "knows (Some (i, Some row), rs) sent \<Longrightarrow> nr_id row' = nr_id row \<Longrightarrow> nr_disposition row' \<noteq> RowPrepared \<Longrightarrow>
   knows (Some (i, Some row'), rs) sent"
  by (auto simp: knows_def core_ok_def settled_in_def)

lemma safe_setRow:
  assumes "nr_id (f row) = nr_id row" and "nr_disposition (f row) \<noteq> RowPrepared"
  shows "safe (here (Some (i, Some row), rs) b sent) (setRow f) (\<lambda>_. here (Some (i, Some (f row)), rs) b sent)"
proof -
  have change: "core (a\<lparr>ns_pending := map_option (\<lambda>p. p\<lparr>np_record := map_option f (np_record p)\<rparr>) (ns_pending a)\<rparr>) =
      (Some (i, Some (f row)), rs)" if "core a = (Some (i, Some row), rs)" for a :: "'x native_state"
    using that by (auto simp: core_def)
  show ?thesis
  proof (rule safe_here)
    assume "knows (Some (i, Some row), rs) sent"
    then have "knows (Some (i, Some (f row)), rs) sent" using assms by (rule knows_row)
    then show "safe (here (Some (i, Some row), rs) b sent) (setRow f) (\<lambda>_. here (Some (i, Some (f row)), rs) b sent)"
      unfolding setRow_def setPending_def by (intro safe_changeState change)
  qed
qed

text \<open>A prepared record was not sent.\<close>

lemma prepared_unsent:
  "knows (Some (i, Some row), rs) sent \<Longrightarrow> nr_disposition row = RowPrepared \<Longrightarrow> i \<notin> fst ` set sent"
  by (auto simp: knows_def core_ok_def settled_in_def)

lemma safe_report: "safe (\<lambda>s. here c b sent s \<and> Q (core (nj_application s))) (writeReport w i)
    (\<lambda>_ s. here c b sent s \<and> Q (core (nj_application s)))"
  unfolding writeReport_def
  by (rule hoare_bind, rule safe_effect [where Q = "\<lambda>_ s. here c b sent s \<and> Q (core (nj_application s))"])
    (auto simp: hoare_def pureM_def dest: hereD)

lemma safe_send:
  assumes "i \<notin> fst ` set sent" and "map_of b i = Some (Some tx)" and "settled_in c i"
  shows "safe (\<lambda>s. here c b sent s \<and> core (nj_application s) = c)
    (effectM w (\<lambda>n ok s. s\<lparr>nj_sent := nj_sent s @ [(i, tx)]\<rparr>)) (\<lambda>_. here c b (sent @ [(i, tx)]))"
  using assms by (intro safe_effect) (auto simp: here_def native_inv_def knows_def)

lemma safe_stop: "safe (here c b sent) (throw m) Q"
  by (rule safe_throw) (rule hereD)

lemma safe_reported: "safe (\<lambda>s. here c b sent s \<and> core (nj_application s) = c) (writeReport w i) (\<lambda>_. native_inv)"
  by (rule hoare_weaken [OF safe_report [where Q = "\<lambda>x. x = c" and c = c and b = b and sent = sent]]) (auto dest: hereD)

lemma safe_answered:
  assumes "nr_disposition row \<noteq> RowPrepared"
  shows "safe (here (Some (i, Some row), rs) b sent) (answered w i r) (\<lambda>_. native_inv)"
proof (cases r)
  case (Rejected e)
  show ?thesis
    unfolding Rejected answered_def response.case
    by (rule hoare_bind [OF safe_setRow], simp, simp add: assms, rule hoare_bind [OF safe_save],
        rule hoare_bind [OF safe_reported], rule safe_throw)
next
  case (Hash h)
  show ?thesis
    unfolding Hash answered_def response.case
    by (rule hoare_bind [OF safe_setRow], simp, simp, rule hoare_bind [OF safe_save], rule safe_reported)
qed (simp add: answered_def safe_stop)

lemma safe_sendPrepared:
  assumes "nr_disposition row = RowPrepared" and "map_of b i = Some (Some tx)"
  shows "safe (here (Some (i, Some row), rs) b sent) (sendPrepared w i tx) (\<lambda>_. native_inv)"
proof (rule safe_here)
  let ?c = "(Some (i, Some (row\<lparr>nr_disposition := RowAttempted\<rparr>)), rs)"
  assume "knows (Some (i, Some row), rs) sent"
  note unsent = prepared_unsent [OF this assms(1)]
  have settled: "settled_in ?c i" by (simp add: settled_in_def)
  show "safe (here (Some (i, Some row), rs) b sent) (sendPrepared w i tx) (\<lambda>_. native_inv)"
    unfolding sendPrepared_def
    by (rule hoare_bind [OF safe_setRow], simp, simp, rule hoare_bind [OF safe_save],
        rule hoare_bind [OF safe_report [where Q = "\<lambda>x. x = ?c"]],
        rule hoare_bind [OF safe_send [OF unsent assms(2) settled]], rule safe_answered) simp
qed

lemma safe_submitPrepared:
  assumes "\<And>i r. fst c = Some (i, r) \<Longrightarrow> map_of b i = Some (Some tx)"
  shows "safe (here c b sent) (submitPrepared w tx) (\<lambda>_. native_inv)"
proof -
  have send: "safe (here c b sent) (bindM (unlessM (nr_disposition row = RowPrepared) e) (\<lambda>_.
      bindM (transactionRecord w p tx) (\<lambda>actual. bindM (unlessM (same_row actual row) e') (\<lambda>_. sendPrepared w (np_id p) tx))))
      (\<lambda>_. native_inv)" if "c = (Some (np_id p, Some row), rs)" for row rs e e' and p :: "'x native_pending"
    by (rule hoare_bind [OF safe_unless], erule hereD, rule safe_given [where P' = "here c b sent"], assumption,
        rule hoare_bind [OF safe_transactionRecord], rule hoare_bind [OF safe_unless], blast dest: hereD,
        rule safe_given [where P' = "here c b sent"], blast)
      (use that assms in \<open>auto intro: safe_sendPrepared\<close>)
  show ?thesis
    unfolding submitPrepared_def
  proof (rule hoare_bind [OF safe_assert_here], rule hoare_bind [OF safe_get],
      rule safe_given [where P' = "here c b sent"])
    fix pending :: "'x native_pending option" and s
    assume "here c b sent s \<and> pending = ns_pending (nj_state s)"
    then show "(\<forall>p. pending = Some p \<longrightarrow> c = (Some (np_id p, np_record p), snd c)) \<and> here c b sent s"
      by (auto dest: hereD core_pending)
  next
    fix pending :: "'x native_pending option"
    assume "\<forall>p. pending = Some p \<longrightarrow> c = (Some (np_id p, np_record p), snd c)"
    then show "safe (here c b sent) (case Option.bind pending (\<lambda>p. map_option (Pair p) (np_record p)) of
        None \<Rightarrow> throw ''Only a provably unsubmitted transaction can be submitted.''
      | Some (p, row) \<Rightarrow> bindM (unlessM (nr_disposition row = RowPrepared)
          (Threw ''Only a provably unsubmitted transaction can be submitted.'')) (\<lambda>_.
        bindM (transactionRecord w p tx) (\<lambda>actual.
        bindM (unlessM (same_row actual row) (Threw ''Saved transaction journal mismatch.'')) (\<lambda>_.
        sendPrepared w (np_id p) tx)))) (\<lambda>_. native_inv)"
      by (auto split: option.split bind_splits intro: safe_stop send [of _ _ "snd c"])
  qed
qed

lemma safe_enter:
  assumes "\<And>c b sent. safe (here c b sent) m Q"
  shows "safe native_inv (bindM assertJournalWritable (\<lambda>_. m)) Q"
proof (rule hoare_bind [OF safe_assert], rule hoareI)
  fix s e t
  assume "native_inv s \<and> \<not> nj_uncertain s" and "m s = (Inl e, t)"
  then show "native_inv t" using native_inv_here hoare_stopped [OF assms] by blast
next
  fix s a t
  assume "native_inv s \<and> \<not> nj_uncertain s" and "m s = (Inr a, t)"
  then show "Q a t" using native_inv_here hoare_result [OF assms] by blast
qed

text \<open>The pending operation that was read is the one in the core.\<close>

lemma safe_pending:
  fixes m :: "('x, 'a) nj"
  assumes "fst c = None \<Longrightarrow> safe (here c b sent) m Q"
    and "\<And>p rs. c = (Some (np_id p, np_record p), rs) \<Longrightarrow> safe (here c b sent) (f p) Q"
  shows "safe (here c b sent) (bindM (getM (\<lambda>s. ns_pending (nj_state s))) (\<lambda>pending.
    case pending of None \<Rightarrow> m | Some p \<Rightarrow> f p)) Q"
proof (rule hoare_bind [OF safe_get], rule hoare_option)
  fix pending :: "'x native_pending option"
  assume none: "pending = None"
  show "safe (\<lambda>s. here c b sent s \<and> pending = ns_pending (nj_state s)) m Q"
    by (rule safe_given [where C = "fst c = None" and P' = "here c b sent"], use none in \<open>auto simp: core_def dest!: hereD(2)\<close>)
      (rule assms(1))
next
  fix pending :: "'x native_pending option" and p
  assume some: "pending = Some p"
  show "safe (\<lambda>s. here c b sent s \<and> pending = ns_pending (nj_state s)) (f p) Q"
    by (rule safe_given [where C = "fst c = Some (np_id p, np_record p)" and P' = "here c b sent"],
        metis core_read some hereD(2))
      (rule assms(2) [where rs = "snd c"], simp add: prod_eq_iff)
qed

lemma safe_ignore_get: "(\<And>a. safe P (f a) Q) \<Longrightarrow> safe P (bindM (getM g) f) Q"
  by (simp add: hoare_def effect_defs)

lemma safe_check: "safe P m Q \<Longrightarrow> (\<And>s. P s \<Longrightarrow> native_inv s) \<Longrightarrow> safe P (bindM (unlessM b e) (\<lambda>_. m)) Q"
  by (rule hoare_bind [OF safe_unless]) (auto simp: hoare_def)

text \<open>A record for an operation that was not sent.\<close>

lemma knows_new_row:
  assumes "knows (Some (i, r), rs) sent" and "r = None \<or> i \<notin> fst ` set sent" and "nr_id row = i"
  shows "knows (Some (i, Some row), rs) sent"
  using assms by (auto simp: knows_def core_ok_def settled_in_def)

lemma safe_setRecord:
  assumes "r = None \<or> i \<notin> fst ` set sent" and "nr_id row = i"
  shows "safe (here (Some (i, r), rs) b sent) (setPending (\<lambda>p. p\<lparr>np_record := Some row\<rparr>))
    (\<lambda>_. here (Some (i, Some row), rs) b sent)"
proof (rule safe_here)
  assume "knows (Some (i, r), rs) sent"
  then have "knows (Some (i, Some row), rs) sent" using assms by (rule knows_new_row)
  then show "safe (here (Some (i, r), rs) b sent) (setPending (\<lambda>p. p\<lparr>np_record := Some row\<rparr>))
      (\<lambda>_. here (Some (i, Some row), rs) b sent)"
    unfolding setPending_def by (rule safe_changeState [rotated]) (auto simp: core_def)
qed

lemma safe_writeBin:
  "safe (here c b sent) (writeBin w i tx) (\<lambda>_ s. i \<notin> fst ` set sent \<and> here c ((i, Some tx) # b) sent s)"
proof -
  have fresh: "native_inv (s\<lparr>nj_clock := k, nj_bins := (i, x) # b\<rparr>) \<and> i \<notin> fst ` set sent"
    if "here c b sent s" and "i \<notin> fst ` set b" for s :: "'x native" and k x
  proof -
    have "\<forall>(j, t) \<in> set sent. j \<noteq> i \<and> map_of b j = Some (Some t)"
      using hereD(7) [OF that(1)] that(2) by (fastforce dest: map_of_SomeD simp: image_iff)
    then show ?thesis using that by (auto simp: here_def native_inv_def)
  qed
  have effect: "safe (here c b sent) (effectM w (\<lambda>n ok s. s\<lparr>nj_bins := (i, if ok \<or> \<not> nw_torn w n then Some tx else None) # nj_bins s\<rparr>))
      (\<lambda>_ s. i \<notin> fst ` set sent \<and> here c ((i, Some tx) # b) sent s)" if "i \<notin> fst ` set b"
    by (rule safe_effect) (use fresh that in \<open>auto simp: here_def\<close>)
  show ?thesis
    unfolding writeBin_def
    by (rule hoare_bind [OF safe_get], rule hoare_if, rule safe_throw, blast dest: hereD,
        rule safe_given [where P' = "here c b sent" and C = "i \<notin> fst ` set b"], auto dest: hereD,
        rule hoare_bind [OF effect]) (simp_all add: hoare_def pureM_def)
qed

lemma safe_createReport: "safe (here c b sent) (createReport w i) (\<lambda>_. here c b sent)"
  unfolding createReport_def
  by (rule safe_ignore_get, rule hoare_if, rule safe_stop,
      rule hoare_bind [OF safe_effect [where Q = "\<lambda>_. here c b sent"]])
    (auto simp: hoare_def pureM_def dest: hereD)

lemma safe_journalRow:
  assumes "nr_id row = i"
  shows "safe (here (Some (i, r), rs) b sent) (journalRow w i tx row) (\<lambda>_. native_inv)"
proof -
  have fresh: "safe (\<lambda>s. i \<notin> fst ` set sent \<and> here (Some (i, r), rs) b sent s) m Q"
    if "i \<notin> fst ` set sent \<Longrightarrow> safe (here (Some (i, r), rs) b sent) m Q" for b m and Q :: "unit \<Rightarrow> 'x native \<Rightarrow> bool"
    by (rule safe_given [OF _ that]) auto
  show ?thesis
    unfolding journalRow_def
    by (rule hoare_bind [OF safe_writeBin], rule fresh, rule hoare_bind [OF safe_createReport],
        rule hoare_bind [OF safe_setRecord], blast, rule assms, rule hoare_bind [OF safe_save],
        rule hoare_weaken [OF safe_submitPrepared]) (auto split: if_splits)
qed

lemma safe_journalAndSubmit: "safe native_inv (journalAndSubmit w tx) (\<lambda>_. native_inv)"
proof -
  have "safe (here (Some (np_id p, r), rs) b sent) (bindM (transactionRecord w p tx) (\<lambda>row.
      bindM (journalRow w (np_id p) tx row) (\<lambda>_. pureM a))) (\<lambda>_. native_inv)"
    for p :: "'x native_pending" and r rs b sent and a :: jsstr
  proof (rule hoare_bind [OF safe_transactionRecord])
    fix row :: native_row
    show "safe (\<lambda>s. here (Some (np_id p, r), rs) b sent s \<and> nr_id row = np_id p \<and> nr_disposition row = RowPrepared)
        (bindM (journalRow w (np_id p) tx row) (\<lambda>_. pureM a)) (\<lambda>_. native_inv)"
      by (rule safe_given [where C = "nr_id row = np_id p" and P' = "here (Some (np_id p, r), rs) b sent"], blast,
          rule hoare_bind [OF safe_journalRow]) (simp_all add: hoare_def pureM_def)
  qed
  then show ?thesis
    unfolding journalAndSubmit_def Let_def
    by (intro safe_enter safe_pending safe_stop safe_check safe_ignore_get hoare_bind [OF safe_address])
      (auto dest: hereD)
qed

lemma knows_receipt:
  assumes "knows (core state) sent" and "ns_pending state = Some p" and "np_record p = Some (nt_row x)"
  shows "knows (core (confirmedState state p x)) sent"
proof -
  have "core (confirmedState state p x) =
      (None, filter (\<lambda>i. i \<noteq> nr_id (nt_row x)) (snd (core state)) @ [nr_id (nt_row x)])"
    by (simp add: core_def confirmedState_def filter_map comp_def)
  moreover have "fst (core state) = Some (np_id p, Some (nt_row x))" using assms(2,3) by (simp add: core_def)
  ultimately show ?thesis using assms(1) by (auto simp: knows_def core_ok_def settled_in_def)
qed

lemma safe_reportHere: "safe (here c b sent) (writeReport w i) (\<lambda>_. native_inv)"
  unfolding writeReport_def
  by (rule hoare_bind, rule safe_effect [where Q = "\<lambda>_. native_inv"]) (auto simp: hoare_def pureM_def dest: hereD)

lemma safe_publish:
  assumes "knows (core a) sent"
  shows "safe (here c b sent) (publishReceipt w a x) (\<lambda>_. native_inv)"
  unfolding publishReceipt_def
  by (rule hoare_bind [OF safe_saveCandidate [OF assms]],
      rule hoare_bind [OF hoare_weaken [OF safe_changeState [OF refl assms]]], blast, assumption, assumption,
      rule hoare_bind [OF safe_reportHere]) (simp add: hoare_def pureM_def)

lemma safe_idleHere: "safe (here c b sent) (effectM w (\<lambda>n ok s. s)) (\<lambda>_. here c b sent)"
  by (rule safe_idle) (auto dest: hereD)

lemma safe_clockHere: "safe (here c b sent) (clockM w) (\<lambda>_. here c b sent)"
  by (rule safe_clock) (rule hereD)

lemma safe_pureHere: "safe (here c b sent) (pureM a) (\<lambda>_. native_inv)"
  by (auto simp: hoare_def pureM_def dest: hereD)

text \<open>The state that was read is the state in memory.\<close>

lemma safe_read:
  assumes "\<And>a. core a = c \<Longrightarrow> knows c sent \<Longrightarrow> safe (here c b sent) (f a) Q"
  shows "safe (here c b sent) (bindM (getM nj_state) f) Q"
proof (rule hoare_bind [OF safe_get])
  fix a
  show "safe (\<lambda>s. here c b sent s \<and> a = nj_state s) (f a) Q"
    by (rule safe_given [where C = "core a = c \<and> knows c sent" and P' = "here c b sent"], blast dest: hereD)
      (rule assms; blast)
qed

lemma safe_reconcile: "safe native_inv (reconcile w) (\<lambda>_. native_inv)"
  unfolding reconcile_def Let_def
  by (rule safe_enter, rule safe_read)
    (auto split: option.split bind_splits intro!: safe_pureHere safe_stop safe_publish knows_receipt
      hoare_bind [OF safe_idleHere] hoare_bind [OF safe_clockHere])

text \<open>Dropping a pending operation that has no record.\<close>

lemma knows_drop: "knows (Some (i, None), rs) sent \<Longrightarrow> knows (None, rs) sent"
  by (auto simp: knows_def core_ok_def settled_in_def)

lemma safe_saveAny: "safe native_inv (save w) (\<lambda>_. native_inv)"
proof -
  have "safe (\<lambda>s. native_inv s \<and> a = nj_state s) (saveCandidate w a) (\<lambda>_. native_inv)" for a :: "'x native_state"
  proof (rule hoareI)
    fix s e t
    assume s: "native_inv s \<and> a = nj_state s" and run: "saveCandidate w a s = (Inl e, t)"
    show "native_inv t"
    proof (cases "nj_uncertain s")
      case True
      then have "t = s" using run by (simp add: saveCandidate_def assertJournalWritable_def effect_defs)
      then show ?thesis using s by simp
    next
      case False
      then have "here (core a) (nj_bins s) (nj_sent s) s" using s native_inv_here by blast
      then show ?thesis using hoare_stopped [OF safe_saveCandidate _ run] hereD(3) by blast
    qed
  next
    fix s u t
    assume s: "native_inv s \<and> a = nj_state s" and run: "saveCandidate w a s = (Inr u, t)"
    then have "\<not> nj_uncertain s" by (auto simp: saveCandidate_def assertJournalWritable_def effect_defs)
    then have "here (core a) (nj_bins s) (nj_sent s) s" using s native_inv_here by blast
    then show "native_inv t" using hoare_result [OF safe_saveCandidate _ run] hereD(1,3) by blast
  qed
  then show ?thesis unfolding save_def by (intro hoare_bind [OF safe_get])
qed

lemma safe_dropPending:
  "safe (\<lambda>s. native_inv s \<and> Option.bind (ns_pending (nj_state s)) np_record = None)
     (changeState (\<lambda>a. a\<lparr>ns_pending := None\<rparr>)) (\<lambda>_. native_inv)"
proof -
  have "knows (core (a\<lparr>ns_pending := None\<rparr>)) sent"
    if "knows (core a) sent" and "Option.bind (ns_pending a) np_record = None" for a :: "'x native_state" and sent
    using that by (cases "ns_pending a") (auto simp: core_def intro: knows_drop)
  then show ?thesis by (auto simp: hoare_def changeState_def updateM_def native_inv_def)
qed

lemma safe_resubmit:
  assumes "r = None \<or> r = Some row \<and> nr_disposition row = RowPrepared" and "nr_id row = i"
    and "map_of b i = Some (Some tx)"
  shows "safe (here (Some (i, r), rs) b sent) (bindM (setPending (\<lambda>p. p\<lparr>np_record := Some row\<rparr>)) (\<lambda>_.
      bindM (save w) (\<lambda>_. submitPrepared w tx))) (\<lambda>_. native_inv)"
proof (rule safe_here)
  assume "knows (Some (i, r), rs) sent"
  then have unsent: "r = None \<or> i \<notin> fst ` set sent" using assms(1) prepared_unsent by blast
  show "safe (here (Some (i, r), rs) b sent) (bindM (setPending (\<lambda>p. p\<lparr>np_record := Some row\<rparr>)) (\<lambda>_.
      bindM (save w) (\<lambda>_. submitPrepared w tx))) (\<lambda>_. native_inv)"
    by (rule hoare_bind [OF safe_setRecord [OF unsent assms(2)]], rule hoare_bind [OF safe_save],
        rule hoare_weaken [OF safe_submitPrepared]) (use assms(3) in auto)
qed

lemma safe_resubmitPending:
  assumes bin: "bin = map_of b (np_id p)"
  shows "safe (here (Some (np_id p, np_record p), rs) b sent) (resubmitPending w p bin) (\<lambda>_. native_inv)"
proof (cases "bin")
  case None
  then show ?thesis unfolding resubmitPending_def by (auto intro: safe_stop safe_pureHere)
next
  case (Some content)
  have torn: ?thesis if "content = None"
    using Some that unfolding resubmitPending_def by (auto intro: safe_stop safe_pureHere)
  have readable: ?thesis if "content = Some tx" for tx
  proof (cases "np_record p")
    case None
    show ?thesis
      unfolding resubmitPending_def Some that None option.case
    proof (simp, rule hoare_bind [OF safe_transactionRecord])
      fix row
      show "safe (\<lambda>s. here (Some (np_id p, None), rs) b sent s \<and> nr_id row = np_id p \<and> nr_disposition row = RowPrepared)
        (bindM (setPending (np_record_update (\<lambda>_. Some row))) (\<lambda>_. bindM (save w) (\<lambda>_. submitPrepared w tx))) (\<lambda>_. native_inv)"
        by (rule safe_given [where C = "nr_id row = np_id p" and P' = "here (Some (np_id p, None), rs) b sent"], blast,
            rule safe_resubmit) (use bin Some that in auto)
    qed
  next
    case (Some row)
    show ?thesis
    proof (rule safe_here)
      assume "knows (Some (np_id p, np_record p), rs) sent"
      then have "nr_id row = np_id p" using Some by (simp add: knows_def core_ok_def)
      then show "safe (here (Some (np_id p, np_record p), rs) b sent) (resubmitPending w p bin) (\<lambda>_. native_inv)"
        unfolding resubmitPending_def \<open>bin = Some content\<close> that Some option.case bindM_pure
        using bin \<open>bin = Some content\<close> that
        by (auto intro!: safe_pureHere safe_resubmit)
    qed
  qed
  show ?thesis using torn readable by (cases content) blast+
qed

lemma safe_dropNone:
  "safe (here (Some (i, None), rs) b sent) (bindM (changeState (\<lambda>a. a\<lparr>ns_pending := None\<rparr>)) (\<lambda>_.
     bindM (save w) (\<lambda>_. pureM x))) (\<lambda>_. native_inv)"
proof (rule safe_here)
  assume "knows (Some (i, None), rs) sent"
  then have drop: "safe (here (Some (i, None), rs) b sent) (changeState (\<lambda>a. a\<lparr>ns_pending := None\<rparr>)) (\<lambda>_. here (None, rs) b sent)"
    by (intro safe_changeState knows_drop) (auto simp: core_def)
  show "safe (here (Some (i, None), rs) b sent) (bindM (changeState (\<lambda>a. a\<lparr>ns_pending := None\<rparr>)) (\<lambda>_.
      bindM (save w) (\<lambda>_. pureM x))) (\<lambda>_. native_inv)"
    by (rule hoare_bind [OF drop], rule hoare_bind [OF safe_save]) (auto simp: hoare_def pureM_def dest: hereD)
qed

lemma safe_recoverPending: "safe native_inv (recoverPending w) (\<lambda>_. native_inv)"
proof -
  have recover: "safe (here (Some (np_id p, np_record p), rs) b sent) (bindM (getM (\<lambda>s. map_of (nj_bins s) (np_id p))) (\<lambda>bin.
      if np_record p = None \<and> bin = None
      then bindM (changeState (\<lambda>a. a\<lparr>ns_pending := None\<rparr>)) (\<lambda>_. bindM (save w) (\<lambda>_. pureM None))
      else bindM (resubmitPending w p bin) (\<lambda>_. reconcile w))) (\<lambda>_. native_inv)"
    for p :: "'x native_pending" and rs b sent
  proof (rule hoare_bind [OF safe_get], rule safe_given)
    fix bin s
    assume "here (Some (np_id p, np_record p), rs) b sent s \<and> bin = map_of (nj_bins s) (np_id p)"
    then show "bin = map_of b (np_id p) \<and> here (Some (np_id p, np_record p), rs) b sent s" by (auto simp: here_def)
  next
    fix bin
    assume "bin = map_of b (np_id p)"
    then show "safe (here (Some (np_id p, np_record p), rs) b sent) (if np_record p = None \<and> bin = None
      then bindM (changeState (\<lambda>a. a\<lparr>ns_pending := None\<rparr>)) (\<lambda>_. bindM (save w) (\<lambda>_. pureM None))
      else bindM (resubmitPending w p bin) (\<lambda>_. reconcile w)) (\<lambda>_. native_inv)"
      by (auto intro: safe_dropNone intro!: hoare_bind [OF safe_resubmitPending safe_reconcile])
  qed
  show ?thesis
    unfolding recoverPending_def
    by (rule safe_enter, rule safe_pending) (auto intro: safe_pureHere recover)
qed

lemma safe_pureAny: "safe native_inv (pureM a) (\<lambda>_. native_inv)"
  by (simp add: hoare_def pureM_def)

lemma safe_execute: "safe native_inv (execute w txs ok) (\<lambda>_. native_inv)"
  unfolding execute_def
  by (rule hoare_bind [OF hoare_each], rule hoare_bind [OF safe_journalAndSubmit], rule safe_pureAny,
      rule hoare_unless) auto

lemma safe_abandonUnsent: "safe native_inv (abandonUnsent w i x) Q"
proof -
  have drop: "safe (\<lambda>s. native_inv s \<and> unsent = (Option.bind (ns_pending (nj_state s)) np_record = None \<and> i \<notin> fst ` set (nj_bins s)))
      (if unsent then bindM (changeState (\<lambda>a. a\<lparr>ns_pending := None\<rparr>)) (\<lambda>_. save w) else pureM ()) (\<lambda>_. native_inv)" for unsent
  proof (rule hoare_if)
    assume unsent
    then show "safe (\<lambda>s. native_inv s \<and> unsent = (Option.bind (ns_pending (nj_state s)) np_record = None \<and> i \<notin> fst ` set (nj_bins s)))
        (bindM (changeState (\<lambda>a. a\<lparr>ns_pending := None\<rparr>)) (\<lambda>_. save w)) (\<lambda>_. native_inv)"
      by (intro hoare_bind [OF _ safe_saveAny] hoare_weaken [OF safe_dropPending]) auto
  qed (simp add: hoare_def pureM_def)
  show ?thesis
    unfolding abandonUnsent_def
    by (rule hoare_bind [OF safe_get], rule hoare_bind [OF drop], rule safe_throw)
qed

lemma safe_persistWallet: "safe native_inv (persistWallet w) (\<lambda>_. native_inv)"
  unfolding persistWallet_def by (rule hoare_bind [OF safe_idle], simp, assumption, rule safe_pureAny)

lemma safe_performOperation: "safe native_inv (performOperation w i txs ok) (\<lambda>_. native_inv)"
  unfolding performOperation_def
  by (intro safe_finally safe_handle hoare_bind [OF safe_execute safe_reconcile] safe_abandonUnsent safe_persistWallet)

lemma safe_runOperation: "safe native_inv (runOperation w i k name after txs ok) (\<lambda>_. native_inv)"
proof -
  have started: "safe (here c b sent) (bindM (changeState (\<lambda>a. a\<lparr>ns_pending := Some p\<rparr>)) (\<lambda>_. bindM (save w) (\<lambda>_.
      performOperation w i txs ok))) (\<lambda>_. native_inv)"
    if "fst c = None" and "np_id p \<notin> set (snd c)" and "np_record p = None" and "knows c sent" for c b sent p
  proof -
    have "knows (Some (np_id p, None), snd c) sent"
      using that by (auto simp: knows_def core_ok_def settled_in_def)
    then have open_pending: "safe (here c b sent) (changeState (\<lambda>a. a\<lparr>ns_pending := Some p\<rparr>)) (\<lambda>_. here (Some (np_id p, None), snd c) b sent)"
      using that by (intro safe_changeState) (auto simp: core_def)
    show ?thesis
      by (rule hoare_bind [OF open_pending], rule hoare_bind [OF safe_save],
          rule hoare_weaken [OF safe_performOperation]) (auto dest: hereD)
  qed
  have body: "safe (here c b sent) (case find (\<lambda>x. nr_id (nt_row x) = i) (ns_receipts a) of
      Some retained \<Rightarrow> bindM (effectM w (\<lambda>n ok s. s)) (\<lambda>n.
        if nw_observe w n (nt_row retained) = None then throw ''not final'' else pureM (Some retained))
    | None \<Rightarrow> bindM (changeState (\<lambda>a. a\<lparr>ns_pending := Some \<lparr>np_id = i, np_kind = k, np_name = name,
        np_after = after, np_record = None\<rparr>\<rparr>)) (\<lambda>_. bindM (save w) (\<lambda>_. performOperation w i txs ok))) (\<lambda>_. native_inv)"
    if "core a = c" and "knows c sent" and "ns_pending a = None" for a :: "'x native_state" and c b sent
  proof (rule hoare_option)
    assume "find (\<lambda>x. nr_id (nt_row x) = i) (ns_receipts a) = None"
    then have "i \<notin> set (snd c)" and "fst c = None"
      using that(1,3) by (auto simp: core_def find_None_iff)
    then show "safe (here c b sent) (bindM (changeState (\<lambda>a. a\<lparr>ns_pending := Some \<lparr>np_id = i, np_kind = k, np_name = name,
        np_after = after, np_record = None\<rparr>\<rparr>)) (\<lambda>_. bindM (save w) (\<lambda>_. performOperation w i txs ok))) (\<lambda>_. native_inv)"
      using that(2) by (intro started) simp_all
  qed (auto intro!: hoare_bind [OF safe_idleHere] safe_stop safe_pureHere)
  show ?thesis
    unfolding runOperation_def
    by (rule safe_enter, rule safe_check [OF safe_read], rule hoare_bind [OF safe_unless], erule hereD,
        rule safe_given [where P' = "here c b sent" for c b sent], assumption, rule body) (auto dest: hereD)
qed

section \<open>Histories\<close>

lemma native_inv_restarted: "native_inv s \<Longrightarrow> native_inv (restarted s)"
  by (simp add: native_inv_def restarted_def)

lemma safe_native_run: "safe native_inv (native_run w c) (\<lambda>_. native_inv)"
proof (cases c)
  case (NOperation i k name after txs ok)
  then show ?thesis by (simp add: hoare_bind [OF safe_runOperation safe_pureAny])
next
  case NRecover
  then show ?thesis by (simp add: hoare_bind [OF safe_recoverPending safe_pureAny])
next
  case NReconcile
  then show ?thesis by (simp add: hoare_bind [OF safe_reconcile safe_pureAny])
next
  case NRestart
  then show ?thesis by (simp add: hoare_def updateM_def native_inv_restarted)
qed

lemma native_inv_step: "native_inv s \<Longrightarrow> native_inv (native_step w c s)"
proof -
  assume s: "native_inv s"
  obtain r t where run: "native_run w c s = (r, t)" by fastforce
  have "native_inv t"
    using hoare_result [OF safe_native_run s] hoare_stopped [OF safe_native_run s] run by (cases r) blast+
  then show ?thesis
    using run native_inv_restarted by (auto simp: native_step_def split: sum.split halt.split)
qed

lemma native_inv_history: "native_inv s \<Longrightarrow> native_inv (native_history cs s)"
  by (induction cs arbitrary: s) (auto simp: native_history_def native_inv_step)

lemma native_inv_fresh: "native_inv (freshNative app)"
  by (simp add: native_inv_def freshNative_def knows_def core_ok_def core_def Let_def)

end
