(* ===== verification/Native_Journal_Properties.thy ===== *)
theory Native_Journal_Properties
  imports Native_Journal_Facts
begin

text \<open>Properties of the submission journal across crashes, failed writes and restarts.\<close>

section \<open>Concrete histories\<close>

text \<open>A call of a circuit, its transaction, and worlds in which effects succeed or stop at a given one.\<close>

definition demo_app :: "unit application" where
  "demo_app = \<lparr>na_contractAddress = Some (js ''c''), na_rest = ()\<rparr>"

definition demo_call_tx :: native_tx where
  "demo_call_tx = \<lparr>nx_identifiers = [js ''t''], nx_actions = [ContractCall (js ''c'') (js ''draw'')], nx_hash = js ''h''\<rparr>"

definition demo_native_world :: "(nat \<Rightarrow> fate) \<Rightarrow> native_world" where
  "demo_native_world f = \<lparr>nw_fate = f, nw_torn = (\<lambda>_. True), nw_response = (\<lambda>_. Hash (js ''x'')),
     nw_observe = (\<lambda>_ _. Some \<lparr>ob_height = 1, ob_finalizedHead = 2, ob_fees = None\<rparr>), nw_now = int,
     nw_sanitize = (\<lambda>x. x)\<rparr>"

definition demo_operation :: "unit native_call" where
  "demo_operation = NOperation (js ''a'') KCall (js ''draw'') demo_app [demo_call_tx] True"

lemmas demo_eval = demo_operation_def demo_native_world_def demo_app_def demo_call_tx_def freshNative_def
  native_step_def effect_defs effectM_def handleM_def finallyM_def throw_def runOperation_def performOperation_def
  execute_def journalAndSubmit_def journalRow_def submitPrepared_def sendPrepared_def answered_def
  transactionRecord_def assertJournalWritable_def changeState_def setPending_def setRow_def save_def saveCandidate_def
  writeBin_def createReport_def writeReport_def action_matches_def clockM_def same_row_def reconcile_def
  publishReceipt_def confirmedState_def persistWallet_def abandonUnsent_def restarted_def operation_id_def
  recoverPending_def resubmitPending_def

lemma demo_sent:
  "nj_sent (native_step (demo_native_world (\<lambda>_. Done)) demo_operation (freshNative demo_app)) = [(js ''a'', demo_call_tx)]"
  by (simp add: demo_eval js_def Let_def)

section \<open>Properties\<close>

text \<open>
  C20. At most once: in every history of operations, recoveries and reconciliations, with a crash, a
  failed write or a lost answer at any effect and restarts at any point, no operation's transaction
  is handed to the network twice; and each transaction that was sent is the one in the operation's file.
\<close>

theorem native_sent_once:
  assumes "s = native_history cs (freshNative app)"
  shows "distinct (map fst (nj_sent s)) \<and> (\<forall>(i, tx) \<in> set (nj_sent s). map_of (nj_bins s) i = Some (Some tx))"
  using native_inv_history [OF native_inv_fresh, of cs app] by (simp add: native_inv_def assms)

lemma native_sent_once_witness:
  "map_of (nj_bins (native_history [(demo_native_world (\<lambda>_. Done), demo_operation)] (freshNative demo_app))) (js ''a'') =
     Some (Some demo_call_tx)"
  using native_sent_once [OF refl, of "[(demo_native_world (\<lambda>_. Done), demo_operation)]" demo_app] demo_sent
  by (simp add: native_history_def)

text \<open>
  C21. Nothing that may have been sent is forgotten: whatever happened, for every transaction handed to
  the network the control store, from which a restart reads its memory, has the operation pending with
  an attempted or submitted record, or a finalized receipt of it.
\<close>

theorem native_sent_recorded:
  assumes "(i, tx) \<in> set (nj_sent (native_history cs (freshNative app)))"
  shows "(\<exists>p row. ns_pending (nj_application (native_history cs (freshNative app))) = Some p \<and> np_id p = i \<and>
      np_record p = Some row \<and> nr_disposition row \<noteq> RowPrepared) \<or>
    (\<exists>r \<in> set (ns_receipts (nj_application (native_history cs (freshNative app)))). nr_id (nt_row r) = i)"
proof -
  have "settled_in (core (nj_application (native_history cs (freshNative app)))) i"
    using native_inv_history [OF native_inv_fresh, of cs app] assms by (force simp: native_inv_def knows_def)
  then show ?thesis by (auto simp: settled_in_def core_def)
qed

lemma native_sent_recorded_witness:
  "\<exists>r \<in> set (ns_receipts (nj_application (native_history [(demo_native_world (\<lambda>_. Done), demo_operation)]
     (freshNative demo_app)))). nr_id (nt_row r) = js ''a''"
proof -
  have "ns_pending (nj_application (native_history [(demo_native_world (\<lambda>_. Done), demo_operation)]
     (freshNative demo_app))) = None"
    by (simp add: native_history_def demo_eval js_def Let_def)
  then show ?thesis
    using native_sent_recorded [of "js ''a''" demo_call_tx "[(demo_native_world (\<lambda>_. Done), demo_operation)]" demo_app]
      demo_sent by (simp add: native_history_def)
qed





section \<open>A torn file\<close>

definition blocked :: "jsstr \<Rightarrow> 'x native \<Rightarrow> bool" where
  "blocked i s \<longleftrightarrow> map_of (nj_bins s) i = Some None \<and>
     (\<forall>a \<in> {nj_state s, nj_application s}. \<exists>p. ns_pending a = Some p \<and> np_id p = i \<and> np_record p = None)"

lemma blocked_step:
  assumes "blocked i s"
  shows "blocked i (native_step w c s) \<and> nj_sent (native_step w c s) = nj_sent s"
proof -
  obtain p where "ns_pending (nj_state s) = Some p" "np_id p = i" "np_record p = None" "map_of (nj_bins s) i = Some None"
    using assms by (auto simp: blocked_def)
  then show ?thesis
    using assms
    by (cases c) (simp_all add: native_step_def effect_defs runOperation_def recoverPending_def reconcile_def
        resubmitPending_def assertJournalWritable_def throw_def restarted_def blocked_def)
qed

text \<open>
  C23. A transaction file whose writing was cut short blocks the journal for good: its operation was
  never recorded, let alone sent, but no recovery, reconciliation, operation or restart ever gets rid
  of it, because the file exists and cannot be read; and no other operation is admitted.
\<close>

theorem torn_file_blocks:
  assumes "blocked i s"
  shows "blocked i (native_history cs s) \<and> nj_sent (native_history cs s) = nj_sent s"
  using assms
proof (induction cs arbitrary: s)
  case (Cons c cs)
  then show ?case using blocked_step [of i s "fst c" "snd c"] by (simp add: native_history_def case_prod_unfold)
qed (simp add: native_history_def)

text \<open>The crash while the file is written, from a fresh journal.\<close>

definition demo_torn :: "unit native" where
  "demo_torn = native_step (demo_native_world (\<lambda>n. if n = 1 then CrashAfter else Done)) demo_operation (freshNative demo_app)"

lemma torn_file_blocks_witness:
  "blocked (js ''a'') (native_history [(demo_native_world (\<lambda>_. Done), NRestart), (demo_native_world (\<lambda>_. Done), NRecover)] demo_torn)"
proof -
  have "blocked (js ''a'') demo_torn"
    by (simp add: blocked_def demo_torn_def demo_eval js_def Let_def)
  then show ?thesis using torn_file_blocks by blast
qed

end
