(* ===== verification/Approval_Encoding.thy ===== *)
theory Approval_Encoding
  imports Vault_Codec
begin

text \<open>
  What the approval signers sign: \<open>scripts/signed-pool-signers.mjs\<close>,
  \<open>scripts/private-offer-encoding.mjs\<close> and \<open>scripts/address-bound-approval.mjs\<close>. An action of one of
  the twelve circuits is hashed to a body, the body to a message, and the message to the challenge
  of a Schnorr signature over the Jubjub curve. The curve and the conversions between hashes and
  field elements belong to the Compact runtime and are parameters.
\<close>

section \<open>The runtime\<close>

text \<open>
  \<^verbatim>\<open>pointHash\<close> is \<open>upgradeFromTransient(transientHash(CompactTypeJubjubPoint, pk))\<close>, and \<^verbatim>\<open>pointVal\<close>
  the point as the value that is stored and sent.
\<close>

record 'g jubjub = runtime +
  ecMulGenerator :: "int \<Rightarrow> 'g"
  pointHash :: "'g \<Rightarrow> bytes"
  pointVal :: "'g \<Rightarrow> jsval"
  degradeToTransient :: "bytes \<Rightarrow> int"

definition ORDER :: int where
  "ORDER = 6554484396890773809930967563523245729705921265872317281365359162392183254199"

definition RADIX :: int where "RADIX = 2 ^ 128"

definition words :: "int \<Rightarrow> int \<times> int" where
  "words n = (n mod RADIX, n div RADIX)"

definition field_bytes :: "('g, 'z) jubjub_scheme \<Rightarrow> int \<Rightarrow> bytes" where
  "field_bytes rt n = convertFieldToBytes rt 32 n"

section \<open>Requests\<close>

datatype approval_role = RIssuer | RAgent | RMerchant | RPermissionless

datatype approval_op = RegisterMerchant | DisableMerchant | FundReserve | WithdrawUnencumberedReserve
  | WithdrawFees | OpenLine | PostQuote | Draw | RedeemDraw | CancelOrExpireNote | AcknowledgeRepayment
  | SetStatus

definition OPERATIONS :: "(string \<times> approval_op) list" where
  "OPERATIONS = [(''registerMerchant'', RegisterMerchant), (''disableMerchant'', DisableMerchant),
     (''fundReserve'', FundReserve), (''withdrawUnencumberedReserve'', WithdrawUnencumberedReserve),
     (''withdrawFees'', WithdrawFees), (''openLine'', OpenLine), (''postQuote'', PostQuote), (''draw'', Draw),
     (''redeemDraw'', RedeemDraw), (''cancelOrExpireNote'', CancelOrExpireNote),
     (''acknowledgeRepayment'', AcknowledgeRepayment), (''setStatus'', SetStatus)]"

definition operation_of :: "jsval \<Rightarrow> approval_op option" where
  "operation_of name = (case name of
     JStr n \<Rightarrow> map_option snd (find (\<lambda>(k, _). js k = n) OPERATIONS)
   | _ \<Rightarrow> None)"

text \<open>Reading a property, of an object and of an array.\<close>

definition propOf :: "jsval \<Rightarrow> string \<Rightarrow> jsval" where
  "propOf v k = (case v of JObj es \<Rightarrow> get_prop es k | _ \<Rightarrow> JUndefined)"

definition item :: "jsval \<Rightarrow> nat \<Rightarrow> jsval" where
  "item v n = (case v of JArr vs \<Rightarrow> if n < length vs then vs ! n else JUndefined | _ \<Rightarrow> JUndefined)"

definition truthy_bool :: "jsval \<Rightarrow> bool" where
  "truthy_bool v \<longleftrightarrow> v = JBool True"

text \<open>A value where the runtime expects 32 bytes, and a value converted by \<open>BigInt\<close>; anything else throws.\<close>

definition the_bytes :: "jsval \<Rightarrow> bytes option" where
  "the_bytes v = (case v of JBytes b \<Rightarrow> Some b | _ \<Rightarrow> None)"

definition the_int :: "jsval \<Rightarrow> int option" where
  "the_int v = (case v of JBig n \<Rightarrow> Some n | JNum (NInt n) \<Rightarrow> Some n | JNum NNegZero \<Rightarrow> Some 0 | _ \<Rightarrow> None)"

definition field_of :: "('g, 'z) jubjub_scheme \<Rightarrow> jsval \<Rightarrow> bytes option" where
  "field_of rt v = map_option (field_bytes rt) (the_int v)"

definition hash_of :: "('g, 'z) jubjub_scheme \<Rightarrow> bytes option list \<Rightarrow> bytes option" where
  "hash_of rt xs = map_option (persistentHash rt) (those xs)"

section \<open>Roles, books and notes\<close>

definition roleHash :: "('g, 'z) jubjub_scheme \<Rightarrow> approval_role \<Rightarrow> 'g \<Rightarrow> bytes \<Rightarrow> bytes" where
  "roleHash rt role pk domain = (case role of
     RAgent \<Rightarrow> persistentHash rt [TAG ''line:id'', domain, pointHash rt pk]
   | RIssuer \<Rightarrow> persistentHash rt [TAG ''line:issuer:pk'', pointHash rt pk]
   | RMerchant \<Rightarrow> persistentHash rt [TAG ''line:merchant:pk'', pointHash rt pk]
   | RPermissionless \<Rightarrow> persistentHash rt [TAG ''line:permissionless:pk'', pointHash rt pk])"

text \<open>\<open>commit(book, salt)\<close>: the fields of a book in their order.\<close>

definition book_alignment :: "align list" where
  "book_alignment = [BYTES32, BYTES32] @ replicate 7 UINT64 @ [AUint 1]"

definition book_atoms :: "jsval \<Rightarrow> atom list option" where
  "book_atoms book = those (map (\<lambda>k. map_option VBytes (the_bytes (propOf book k))) [''domain'', ''identity''] @
     map (\<lambda>k. map_option VUint (the_int (propOf book k)))
       [''limit'', ''outstanding'', ''epoch'', ''generation'', ''expiry'', ''flatFee'', ''basisPoints'', ''status''])"

definition commit_book :: "('g, 'z) jubjub_scheme \<Rightarrow> jsval \<Rightarrow> jsval \<Rightarrow> bytes option" where
  "commit_book rt book salt = Option.bind (book_atoms book) (\<lambda>atoms.
     map_option (persistentCommit rt book_alignment atoms) (the_bytes salt))"

definition commit_note :: "('g, 'z) jubjub_scheme \<Rightarrow> bytes \<Rightarrow> jsval \<Rightarrow> jsval \<Rightarrow> bytes option" where
  "commit_note rt domain args v =
     Option.bind (the_int (propOf (propOf v ''bookOpening'') ''generation'')) (\<lambda>generation.
     Option.bind (the_bytes (propOf (propOf v ''bookOpening'') ''identity'')) (\<lambda>identity.
     Option.bind (the_bytes (item args 0)) (\<lambda>quote.
     Option.bind (the_bytes (propOf v ''quoteMerchantPk'')) (\<lambda>merchant.
     Option.bind (the_int (propOf v ''drawAmount'')) (\<lambda>amount.
     Option.bind (the_int (item args 2)) (\<lambda>fee.
     Option.bind (the_bytes (propOf v ''noteNonce'')) (\<lambda>nonce.
     Option.bind (the_int (item args 1)) (\<lambda>expiry.
     map_option (persistentCommit rt note_alignment (note_toValue \<lparr>np_domain = domain, np_lineGeneration = generation,
       np_identity = identity, np_quoteCommit = quote, np_merchantPk = merchant, np_amount = amount,
       np_fee = Some fee, np_noteNonce = nonce, np_expiry = expiry\<rparr>))
       (the_bytes (propOf v ''noteSalt''))))))))))"

section \<open>Actions\<close>

text \<open>The request of an enrollment: the new book, and the one it replaces.\<close>

definition fresh_book :: "('g, 'z) jubjub_scheme \<Rightarrow> 'g \<Rightarrow> bytes \<Rightarrow> jsval \<Rightarrow> jsval \<Rightarrow> jsval" where
  "fresh_book rt pk domain args v = obj
     [(''domain'', JBytes domain),
      (''identity'', if item args 0 = JBig 0 then JBytes (roleHash rt RAgent pk domain) else propOf v ''enrollmentIdentity''),
      (''limit'', propOf v ''lineLimit''), (''outstanding'', JBig 0), (''epoch'', JBig 0),
      (''generation'', if truthy_bool (propOf v ''hasPreviousBook'')
         then (case propOf (propOf v ''bookOpening'') ''generation'' of JBig g \<Rightarrow> JBig (g + 1) | _ \<Rightarrow> JOther)
         else JBig 1),
      (''expiry'', item args 1), (''flatFee'', item args 2), (''basisPoints'', item args 3), (''status'', JNum (NInt 1))]"

definition enrollment :: "('g, 'z) jubjub_scheme \<Rightarrow> 'g \<Rightarrow> bytes \<Rightarrow> jsval \<Rightarrow> jsval \<Rightarrow> bytes option" where
  "enrollment rt pk domain args v = hash_of rt
     [Some (TAG ''line:pool:enroll''), Some domain, commit_book rt (fresh_book rt pk domain args v) (propOf v ''newSalt''),
      if truthy_bool (propOf v ''hasPreviousBook'') then commit_book rt (propOf v ''bookOpening'') (propOf v ''salt'')
      else Some zeros32,
      the_bytes (propOf v ''acceptedTerms'')]"

text \<open>With private finance the reserve commitment is hashed with the amount.\<close>

definition finance_body :: "('g, 'z) jubjub_scheme \<Rightarrow> jsval \<Rightarrow> jsval \<Rightarrow> bytes option" where
  "finance_body rt request amount =
     (if truthy_bool (propOf request ''privateFinance'')
      then hash_of rt [the_bytes (propOf request ''reserveCommit''), field_of rt amount]
      else field_of rt amount)"

definition cancel_body :: "('g, 'z) jubjub_scheme \<Rightarrow> jsval \<Rightarrow> jsval \<Rightarrow> bytes option" where
  "cancel_body rt args v =
     (if item args 1 = JBig 1
      then hash_of rt [the_bytes (item args 0), field_of rt (item args 1),
        commit_book rt (propOf v ''bookOpening'') (propOf v ''salt''), the_bytes (propOf v ''newSalt''), field_of rt (item args 2)]
      else hash_of rt [the_bytes (item args 0), field_of rt (item args 1), field_of rt (item args 2),
        field_of rt (propOf v ''repayAmount''), the_bytes (propOf v ''paymentRef'')])"

definition quote_body :: "('g, 'z) jubjub_scheme \<Rightarrow> 'g \<Rightarrow> bytes \<Rightarrow> jsval \<Rightarrow> jsval \<Rightarrow> bytes option" where
  "quote_body rt pk domain args v = hash_of rt
     [Some (TAG ''line:pool:quote''), Some (roleHash rt RMerchant pk domain), the_bytes (propOf v ''quoteBuyer''),
      the_bytes (propOf v ''invoiceId''), field_of rt (propOf v ''quoteAmount''), field_of rt (item args 0),
      the_bytes (propOf v ''quoteNonce''), field_of rt (propOf v ''quoteGeneration''), Some domain,
      field_of rt (propOf v ''quoteFlatFee''), field_of rt (propOf v ''quoteBasisPoints'')]"

text \<open>
  \<open>actionBody\<close>: the number and body of an action. \<open>None\<close> is an exception, \<open>Some None\<close> the action
  that needs no approval.
\<close>

definition actionBody :: "('g, 'z) jubjub_scheme \<Rightarrow> 'g \<Rightarrow> jsval \<Rightarrow> (int \<times> bytes) option option" where
  "actionBody rt pk request =
     (let args = propOf request ''args''; v = propOf request ''values'';
          old = commit_book rt (propOf v ''bookOpening'') (propOf v ''salt'');
          action = (\<lambda>n body. map_option (\<lambda>b. Some (n, b)) body) in
      Option.bind (the_bytes (propOf request ''domain'')) (\<lambda>domain.
      case operation_of (propOf request ''name'') of
        None \<Rightarrow> None
      | Some RegisterMerchant \<Rightarrow> action 1 (the_bytes (item args 0))
      | Some DisableMerchant \<Rightarrow> action 2 (the_bytes (item args 0))
      | Some FundReserve \<Rightarrow> action 3 (finance_body rt request (item args 0))
      | Some WithdrawUnencumberedReserve \<Rightarrow> action 4 (finance_body rt request (item args 0))
      | Some WithdrawFees \<Rightarrow> action 5 (finance_body rt request (propOf request ''feeReserve''))
      | Some OpenLine \<Rightarrow> action 6 (hash_of rt [enrollment rt pk domain args v, field_of rt (item args 0)])
      | Some PostQuote \<Rightarrow> action 7 (quote_body rt pk domain args v)
      | Some Draw \<Rightarrow> action 8 (hash_of rt [the_bytes (item args 0), old, the_bytes (propOf v ''newSalt''),
          commit_note rt domain args v, field_of rt (propOf v ''drawAmount''), field_of rt (item args 2), field_of rt (item args 1)])
      | Some RedeemDraw \<Rightarrow> action 9 (hash_of rt [the_bytes (item args 0), field_of rt (item args 1), field_of rt (propOf v ''redeemAmount'')])
      | Some CancelOrExpireNote \<Rightarrow>
          (if item args 1 = JBig 0
           then (if truthy_bool (propOf request ''privateFinance'') then action 10 (the_bytes (item args 0)) else Some None)
           else action 10 (cancel_body rt args v))
      | Some AcknowledgeRepayment \<Rightarrow> action 11 (hash_of rt [old, field_of rt (propOf v ''repayAmount''), field_of rt (item args 0),
          the_bytes (propOf v ''paymentRef''), the_bytes (propOf v ''receiptNonce''), the_bytes (propOf v ''newSalt'')])
      | Some SetStatus \<Rightarrow> action 12 (hash_of rt [old, field_of rt (item args 0), the_bytes (propOf v ''newSalt'')])))"

definition offerCommit :: "('g, 'z) jubjub_scheme \<Rightarrow> 'g \<Rightarrow> jsval \<Rightarrow> bytes option" where
  "offerCommit rt pk request = (let v = propOf request ''values'' in
     Option.bind (the_bytes (propOf request ''domain'')) (\<lambda>domain.
     hash_of rt [Some (TAG ''line:offer:quote''), Some (roleHash rt RMerchant pk domain),
       the_bytes (propOf v ''quoteFacilityBinding''), the_bytes (propOf v ''invoiceId''), field_of rt (propOf v ''quoteAmount''),
       field_of rt (item (propOf request ''args'') 0), the_bytes (propOf v ''quoteNonce''), Some domain]))"

section \<open>Messages and challenges\<close>

definition approvalMessage :: "('g, 'z) jubjub_scheme \<Rightarrow> bytes \<Rightarrow> int \<Rightarrow> bytes \<Rightarrow> bytes \<Rightarrow> bytes" where
  "approvalMessage rt domain n body nonce =
     persistentHash rt [TAG ''line:signed:approval'', domain, field_bytes rt n, body, nonce]"

text \<open>\<open>/^[0-9a-f]{64}$/\<close>\<close>

definition isContractAddress :: "jsval \<Rightarrow> bool" where
  "isContractAddress v = (case v of JStr s \<Rightarrow> length s = 64 \<and> list_all is_lower_hex s | _ \<Rightarrow> False)"

definition addressedApprovalMessage ::
    "('g, 'z) jubjub_scheme \<Rightarrow> bytes \<Rightarrow> jsval \<Rightarrow> int \<Rightarrow> bytes \<Rightarrow> bytes \<Rightarrow> bytes option" where
  "addressedApprovalMessage rt domain address n body nonce = (case address of
     JStr a \<Rightarrow>
       if isContractAddress address \<and> length domain = 32 \<and> length body = 32 \<and> length nonce = 32 \<and> 1 \<le> n \<and> n \<le> 12
       then Some (persistentHash rt [TAG ''line:signed:approval:v2'', domain, parse_hex_pairs a, field_bytes rt n, body, nonce])
       else None
   | _ \<Rightarrow> None)"

definition challenge :: "('g, 'z) jubjub_scheme \<Rightarrow> bytes \<Rightarrow> 'g \<Rightarrow> 'g \<Rightarrow> int" where
  "challenge rt message pk announcement =
     degradeToTransient rt (persistentHash rt [message, pointHash rt pk, pointHash rt announcement])"

section \<open>Signatures\<close>

record 'g approval =
  ap_rolePublicKey :: 'g
  ap_announcement :: 'g
  ap_response :: "int \<times> int"
  ap_authorizationNonce :: bytes
  ap_challengeQuotient :: int
  ap_challengeRemainder :: "int \<times> int"
  ap_challengeWords :: "int \<times> int"
  ap_challengeCarry :: int

text \<open>The signature of a message under the scalar \<open>k\<close>, with the random scalar \<open>r\<close>.\<close>

definition signApproval :: "('g, 'z) jubjub_scheme \<Rightarrow> int \<Rightarrow> int \<Rightarrow> bytes \<Rightarrow> bytes \<Rightarrow> 'g approval" where
  "signApproval rt k r nonce message =
     (let pk = ecMulGenerator rt k; announcement = ecMulGenerator rt r;
          h = challenge rt message pk announcement; remainder = h mod ORDER; quotient = h div ORDER in
      \<lparr>ap_rolePublicKey = pk, ap_announcement = announcement,
       ap_response = words ((r + remainder * k) mod ORDER), ap_authorizationNonce = nonce,
       ap_challengeQuotient = quotient, ap_challengeRemainder = words remainder, ap_challengeWords = words h,
       ap_challengeCarry = (quotient * (ORDER mod RADIX) + remainder mod RADIX) div RADIX\<rparr>)"

definition words_val :: "int \<times> int \<Rightarrow> jsval" where
  "words_val w = obj [(''lo'', JBig (fst w)), (''hi'', JBig (snd w))]"

definition approval_val :: "('g, 'z) jubjub_scheme \<Rightarrow> 'g approval \<Rightarrow> jsval" where
  "approval_val rt a = obj
     [(''rolePublicKey'', pointVal rt (ap_rolePublicKey a)),
      (''roleApproval'', obj [(''announcement'', pointVal rt (ap_announcement a)), (''response'', words_val (ap_response a))]),
      (''authorizationNonce'', JBytes (ap_authorizationNonce a)),
      (''challengeQuotient'', JBig (ap_challengeQuotient a)),
      (''challengeRemainder'', words_val (ap_challengeRemainder a)),
      (''challengeWords'', words_val (ap_challengeWords a)), (''challengeCarry'', JBig (ap_challengeCarry a))]"

end
