(* ===== verification/Approval_Signer.thy ===== *)
theory Approval_Signer
  imports Approval_Encoding Effects "HOL-Library.List_Lexorder"
begin

text \<open>
  \<open>scripts/durable-approval-signer.mjs\<close>: the encrypted software signer. A signer holds one role's
  scalar, approves the actions its owner's policy allows up to a total cost, and commits each
  approval to its journal before it answers. The model has the processes, the directory with its
  journal file and lock, and a fate for every replacement of the file, so that a crash or an error
  leaves exactly what was written. JSON text, the cipher, the digests, the random source, the clock
  and the policy are parameters.
\<close>

section \<open>Requests\<close>

datatype approval_abi = LegacyABI | OfferABI | AddressBoundABI

definition abi_name :: "approval_abi \<Rightarrow> string" where
  "abi_name a = (case a of LegacyABI \<Rightarrow> ''line-private-enrollment/v1'' | OfferABI \<Rightarrow> ''line-private-offer/v1''
     | AddressBoundABI \<Rightarrow> ''line-private-offer/v2'')"

definition role_name :: "approval_role \<Rightarrow> string" where
  "role_name r = (case r of RIssuer \<Rightarrow> ''issuer'' | RAgent \<Rightarrow> ''agent'' | RMerchant \<Rightarrow> ''merchant''
     | RPermissionless \<Rightarrow> ''permissionless'')"

definition byte32 :: "jsval \<Rightarrow> bool" where
  "byte32 v = (case v of JBytes b \<Rightarrow> length b = 32 | _ \<Rightarrow> False)"

definition uint64 :: "jsval \<Rightarrow> bool" where
  "uint64 v = (case v of JBig n \<Rightarrow> 0 \<le> n \<and> n \<le> 18446744073709551615 | _ \<Rightarrow> False)"

definition status_value :: "jsval \<Rightarrow> bool" where
  "status_value v = (case v of JNum (NInt n) \<Rightarrow> 0 \<le> n \<and> n \<le> 3 | JNum NNegZero \<Rightarrow> True | _ \<Rightarrow> False)"

fun ARG_TYPES :: "approval_op \<Rightarrow> (jsval \<Rightarrow> bool) list" where
  "ARG_TYPES RegisterMerchant = [byte32]"
| "ARG_TYPES DisableMerchant = [byte32]"
| "ARG_TYPES FundReserve = [uint64]"
| "ARG_TYPES WithdrawUnencumberedReserve = [uint64]"
| "ARG_TYPES WithdrawFees = []"
| "ARG_TYPES OpenLine = [uint64, uint64, uint64, uint64]"
| "ARG_TYPES PostQuote = [uint64]"
| "ARG_TYPES Draw = [byte32, uint64, uint64]"
| "ARG_TYPES RedeemDraw = [byte32, uint64]"
| "ARG_TYPES CancelOrExpireNote = [byte32, uint64, uint64]"
| "ARG_TYPES AcknowledgeRepayment = [uint64]"
| "ARG_TYPES SetStatus = [status_value]"

definition UINT_VALUES :: "string list" where
  "UINT_VALUES = [''lineLimit'', ''quoteAmount'', ''quoteGeneration'', ''quoteFlatFee'', ''quoteBasisPoints'',
     ''drawAmount'', ''redeemAmount'', ''repayAmount'']"

definition forbidden :: "string list" where
  "forbidden = [''callerSecret'', ''agentSecret'', ''reserveOpening'', ''reserveSalt'', ''newReserveSalt'', ''nullifierKey'']"

definition BOOK_FIELDS :: "string list" where
  "BOOK_FIELDS = [''domain'', ''identity'', ''limit'', ''outstanding'', ''epoch'', ''generation'', ''expiry'',
     ''flatFee'', ''basisPoints'', ''status'']"

fun ROLE_OPERATIONS :: "approval_role \<Rightarrow> approval_op list" where
  "ROLE_OPERATIONS RIssuer = [RegisterMerchant, DisableMerchant, FundReserve, WithdrawUnencumberedReserve,
     WithdrawFees, OpenLine, CancelOrExpireNote, AcknowledgeRepayment, SetStatus]"
| "ROLE_OPERATIONS RAgent = [OpenLine, Draw, CancelOrExpireNote]"
| "ROLE_OPERATIONS RMerchant = [PostQuote, RedeemDraw, CancelOrExpireNote]"
| "ROLE_OPERATIONS RPermissionless = [CancelOrExpireNote]"

definition BOOK_CHANGE :: "string list" where
  "BOOK_CHANGE = [''bookOpening'', ''salt'', ''newSalt'']"

fun VALUE_FIELDS :: "approval_op \<Rightarrow> string list" where
  "VALUE_FIELDS OpenLine = [''enrollmentIdentity'', ''acceptedTerms'', ''hasPreviousBook'', ''lineLimit'', ''newSalt'',
     ''bookOpening'', ''salt'']"
| "VALUE_FIELDS PostQuote = [''quoteBuyer'', ''invoiceId'', ''quoteAmount'', ''quoteNonce'', ''quoteGeneration'',
     ''quoteFlatFee'', ''quoteBasisPoints'']"
| "VALUE_FIELDS Draw = [''bookOpening'', ''salt'', ''newSalt'', ''quoteMerchantPk'', ''drawAmount'', ''noteNonce'', ''noteSalt'']"
| "VALUE_FIELDS RedeemDraw = [''redeemAmount'']"
| "VALUE_FIELDS AcknowledgeRepayment = [''bookOpening'', ''salt'', ''newSalt'', ''repayAmount'', ''paymentRef'', ''receiptNonce'']"
| "VALUE_FIELDS SetStatus = [''bookOpening'', ''salt'', ''newSalt'']"
| "VALUE_FIELDS _ = []"

text \<open>The keys of an object, and \<open>Object.hasOwn\<close>.\<close>

definition keys_of :: "jsval \<Rightarrow> jsstr list" where
  "keys_of v = (case v of JObj es \<Rightarrow> map fst es | _ \<Rightarrow> [])"

definition has_own :: "jsval \<Rightarrow> string \<Rightarrow> bool" where
  "has_own v k \<longleftrightarrow> js k \<in> set (keys_of v)"

definition only_keys :: "jsval \<Rightarrow> string list \<Rightarrow> bool" where
  "only_keys v allowed \<longleftrightarrow> list_all (\<lambda>k. k \<in> set (map js allowed)) (keys_of v)"

definition is_record :: "jsval \<Rightarrow> bool" where
  "is_record v = (case v of JObj es \<Rightarrow> True | _ \<Rightarrow> False)"

definition args_valid :: "approval_op \<Rightarrow> jsval \<Rightarrow> bool" where
  "args_valid op args = (case args of
     JArr vs \<Rightarrow> length vs = length (ARG_TYPES op) \<and> list_all (\<lambda>(t, v). t v) (zip (ARG_TYPES op) vs)
   | _ \<Rightarrow> False)"

definition allowed_values :: "approval_abi \<Rightarrow> approval_op \<Rightarrow> jsval \<Rightarrow> string list" where
  "allowed_values abi op args =
     (if op = PostQuote \<and> abi \<noteq> LegacyABI then [''quoteFacilityBinding'', ''invoiceId'', ''quoteAmount'', ''quoteNonce'']
      else if op = CancelOrExpireNote
      then (if item args 1 = JBig 0 then [] else if item args 1 = JBig 1 then BOOK_CHANGE
            else [''repayAmount'', ''paymentRef''])
      else VALUE_FIELDS op)"

definition value_valid :: "jsstr \<times> jsval \<Rightarrow> bool" where
  "value_valid e = (case e of (k, v) \<Rightarrow>
     if k = js ''bookOpening'' then True
     else if k = js ''hasPreviousBook'' then (case v of JBool b \<Rightarrow> True | _ \<Rightarrow> False)
     else if k \<in> set (map js UINT_VALUES) then uint64 v
     else byte32 v)"

definition book_valid :: "jsval \<Rightarrow> bool" where
  "book_valid book \<longleftrightarrow> is_record book \<and> only_keys book BOOK_FIELDS \<and>
     list_all (\<lambda>k. let v = propOf book k in
       if k = ''domain'' \<or> k = ''identity'' then byte32 v else if k = ''status'' then status_value v else uint64 v) BOOK_FIELDS"

definition values_valid :: "approval_abi \<Rightarrow> approval_op \<Rightarrow> jsval \<Rightarrow> jsval \<Rightarrow> bool" where
  "values_valid abi op args values = (case values of
     JObj es \<Rightarrow> only_keys values (allowed_values abi op args) \<and> list_all value_valid es \<and>
       (has_own values ''bookOpening'' \<longrightarrow> book_valid (propOf values ''bookOpening''))
   | _ \<Rightarrow> False)"

definition top_fields :: "approval_abi \<Rightarrow> approval_op \<Rightarrow> string list" where
  "top_fields abi op = [''name'', ''args'', ''domain'', ''privateFinance'', ''values''] @
     (if abi = AddressBoundABI then [''contractAddress''] else []) @
     (if op \<in> {FundReserve, WithdrawUnencumberedReserve, WithdrawFees} then [''reserveCommit''] else []) @
     (if op = WithdrawFees then [''feeReserve''] else [])"

text \<open>Who may ask for what: the issuer opens and offers, the agent accepts and draws.\<close>

definition role_valid :: "approval_role \<Rightarrow> approval_op \<Rightarrow> jsval \<Rightarrow> bool" where
  "role_valid role op args \<longleftrightarrow> op \<in> set (ROLE_OPERATIONS role) \<and>
     (op = OpenLine \<longrightarrow> (role = RIssuer \<longrightarrow> item args 0 = JBig 1) \<and> (role = RAgent \<longrightarrow> item args 0 = JBig 0)) \<and>
     (op = CancelOrExpireNote \<longrightarrow> item args 1 = JBig 0 \<or>
        (role = RIssuer \<and> (item args 1 = JBig 1 \<or> item args 1 = JBig 2)) \<or> (role = RAgent \<and> item args 1 = JBig 1))"

text \<open>
  The conditions under which \<open>approve\<close> goes on to the policy; every other request gets the same
  refusal. A present key whose value is undefined counts as absent for the two test-only fields.
\<close>

definition valid_request :: "approval_abi \<Rightarrow> approval_role \<Rightarrow> jsval \<Rightarrow> jsval \<Rightarrow> bool" where
  "valid_request abi role config request = (case operation_of (propOf request ''name'') of
     None \<Rightarrow> False
   | Some op \<Rightarrow>
       propOf request ''privateFinance'' = JBool True \<and>
       the_bytes (propOf request ''domain'') \<noteq> None \<and> propOf request ''domain'' = propOf config ''domain'' \<and>
       propOf request ''authorizationNonce'' = JUndefined \<and> propOf request ''challengeLiftForTest'' = JUndefined \<and>
       (abi = AddressBoundABI \<longrightarrow> isContractAddress (propOf request ''contractAddress'') \<and>
          propOf request ''contractAddress'' = propOf config ''contractAddress'') \<and>
       list_all (\<lambda>k. \<not> has_own (propOf request ''values'') k) forbidden \<and>
       args_valid op (propOf request ''args'') \<and>
       (has_own request ''reserveCommit'' \<longrightarrow> byte32 (propOf request ''reserveCommit'')) \<and>
       (has_own request ''feeReserve'' \<longrightarrow> uint64 (propOf request ''feeReserve'')) \<and>
       only_keys request (top_fields abi op) \<and>
       values_valid abi op (propOf request ''args'') (propOf request ''values'') \<and>
       role_valid role op (propOf request ''args''))"

section \<open>The journal's contents\<close>

record signer_binding =
  sb_config :: jsval
  sb_policyCode :: jsstr
  sb_policyModule :: "jsstr option"

record signer_operation =
  so_request :: jsstr
  so_response :: jsval

record signer_state =
  ss_role :: approval_role
  ss_custodyId :: jsstr
  ss_scalar :: int
  ss_binding :: "signer_binding option"
  ss_approvedCost :: int
  ss_operations :: "(jsstr \<times> signer_operation) list"

definition binding_val :: "signer_binding \<Rightarrow> jsval" where
  "binding_val b = obj ([(''config'', sb_config b), (''policyCodeSha256'', JStr (sb_policyCode b))] @
     (case sb_policyModule b of None \<Rightarrow> [] | Some h \<Rightarrow> [(''policyModuleSha256'', JStr h)]))"

definition operation_val :: "signer_operation \<Rightarrow> jsval" where
  "operation_val r = obj [(''requestSha256'', JStr (so_request r)), (''response'', so_response r)]"

definition state_val :: "signer_state \<Rightarrow> jsval" where
  "state_val st = obj
     [(''version'', JNum (NInt 1)), (''role'', JStr (js (role_name (ss_role st)))), (''custodyId'', JStr (ss_custodyId st)),
      (''scalar'', JBig (ss_scalar st)),
      (''binding'', case ss_binding st of None \<Rightarrow> JNull | Some b \<Rightarrow> binding_val b),
      (''approvedCost'', JBig (ss_approvedCost st)),
      (''operations'', JObj (map (\<lambda>(i, r). (i, operation_val r)) (ss_operations st)))]"

text \<open>Reading it back; a document of another shape is not a journal.\<close>

definition the_str :: "jsval \<Rightarrow> jsstr option" where
  "the_str v = (case v of JStr s \<Rightarrow> Some s | _ \<Rightarrow> None)"

definition val_binding :: "jsval \<Rightarrow> signer_binding option option" where
  "val_binding v = (if v = JNull then Some None else
     map_option (\<lambda>code. Some \<lparr>sb_config = propOf v ''config'', sb_policyCode = code,
       sb_policyModule = the_str (propOf v ''policyModuleSha256'')\<rparr>) (the_str (propOf v ''policyCodeSha256'')))"

definition val_operation :: "jsstr \<times> jsval \<Rightarrow> (jsstr \<times> signer_operation) option" where
  "val_operation e = map_option (\<lambda>h. (fst e, \<lparr>so_request = h, so_response = propOf (snd e) ''response''\<rparr>))
     (the_str (propOf (snd e) ''requestSha256''))"

definition val_role :: "jsval \<Rightarrow> approval_role option" where
  "val_role v = find (\<lambda>r. v = JStr (js (role_name r))) [RIssuer, RAgent, RMerchant, RPermissionless]"

definition val_state :: "jsval \<Rightarrow> signer_state option" where
  "val_state v = (case (val_role (propOf v ''role''), propOf v ''custodyId'', propOf v ''scalar'',
       val_binding (propOf v ''binding''), propOf v ''approvedCost'', propOf v ''operations'', propOf v ''version'') of
     (Some role, JStr c, JBig x, Some b, JBig cost, JObj es, JNum (NInt n)) \<Rightarrow>
       if n = 1 then map_option (\<lambda>ops. \<lparr>ss_role = role, ss_custodyId = c, ss_scalar = x, ss_binding = b,
         ss_approvedCost = cost, ss_operations = ops\<rparr>) (those (map val_operation es)) else None
   | _ \<Rightarrow> None)"

section \<open>World and system\<close>

text \<open>
  \<^verbatim>\<open>sw_seal\<close> and \<^verbatim>\<open>sw_open\<close> are AES-256-GCM over the JSON text of a document under a key, a nonce
  and associated data; \<^verbatim>\<open>sw_size\<close> is the length of the resulting envelope, \<^verbatim>\<open>sw_byteLength\<close> that of a
  document's text, \<^verbatim>\<open>sw_digest\<close> its SHA-256. The random scalar is the first draw in range.
\<close>

record ('g, 'c) signer_world = "'g jubjub" +
  sw_fate :: "nat \<Rightarrow> fate"
  sw_random :: "nat \<Rightarrow> bytes"
  sw_draws :: "nat \<Rightarrow> int list"
  sw_clock :: "nat \<Rightarrow> int"
  sw_seal :: "bytes \<Rightarrow> bytes \<Rightarrow> jsstr \<Rightarrow> jsval \<Rightarrow> 'c"
  sw_open :: "bytes \<Rightarrow> bytes \<Rightarrow> jsstr \<Rightarrow> 'c \<Rightarrow> jsval option"
  sw_size :: "'c \<Rightarrow> nat"
  sw_byteLength :: "jsval \<Rightarrow> nat"
  sw_digest :: "jsval \<Rightarrow> jsstr"

record 'c signer_envelope =
  se_iv :: bytes
  se_sealed :: 'c

record signer_config =
  sc_key :: bytes
  sc_custodyId :: jsstr
  sc_role :: approval_role
  sc_abi :: approval_abi

record 'g policy_context =
  pc_publicKey :: 'g
  pc_role :: approval_role
  pc_config :: jsval
  pc_clock :: int

text \<open>The owner's policy may throw, which is \<open>None\<close>.\<close>

type_synonym 'g policy = "nat \<Rightarrow> jsval \<Rightarrow> 'g policy_context \<Rightarrow> jsval option"

record 'g signer =
  sg_authorize :: "'g policy"
  sg_policyCode :: jsstr
  sg_policyModule :: "jsstr option"
  sg_state :: signer_state
  sg_uncertain :: bool
  sg_closed :: bool

text \<open>
  The directory, the processes, and two logs the program does not keep: what became durable, and
  what was answered.
\<close>

record signer_commit =
  cm_id :: jsstr
  cm_request :: jsval
  cm_sha :: jsstr
  cm_cost :: int
  cm_response :: jsval

record ('g, 'c) signer_system =
  sy_file :: "'c signer_envelope option"
  sy_lock :: "nat option"
  sy_alive :: "nat set"
  sy_handles :: "nat \<Rightarrow> 'g signer option"
  sy_clock :: nat
  sy_commits :: "signer_commit list"
  sy_issued :: "(jsstr \<times> jsval \<times> jsval) list"

type_synonym ('g, 'c, 'a) sg = "(('g, 'c) signer_system, halt, 'a) effect"

definition refuseApproval :: "('s, halt, 'a) effect" where
  "refuseApproval = throw ''Approval could not be authorized.''"

definition requireM :: "bool \<Rightarrow> ('s, halt, unit) effect" where
  "requireM b = (if b then pureM () else refuseApproval)"

definition assertM :: "bool \<Rightarrow> ('s, halt, unit) effect" where
  "assertM b = unlessM b (Threw ''AssertionError'')"

definition codecM :: "'a outcome \<Rightarrow> ('s, halt, 'a) effect" where
  "codecM r = (case r of Inl e \<Rightarrow> throw ''codec'' | Inr a \<Rightarrow> pureM a)"

definition tickM :: "('g, 'c, nat) sg" where
  "tickM s = (Inr (sy_clock s), s\<lparr>sy_clock := sy_clock s + 1\<rparr>)"

text \<open>\<open>scalar()\<close>: a source without a draw in range keeps the program waiting for ever.\<close>

definition scalar :: "('g, 'c) signer_world \<Rightarrow> nat \<Rightarrow> ('g, 'c, int) sg" where
  "scalar w n = (case find (\<lambda>v. 0 < v \<and> v < ORDER) (sw_draws w n) of None \<Rightarrow> stopM Crashed | Some v \<Rightarrow> pureM v)"

fun canonical :: "jsval \<Rightarrow> jsval" where
  "canonical (JArr vs) = JArr (map canonical vs)"
| "canonical (JObj es) = JObj (sort_key fst (map (\<lambda>e. (fst e, canonical (snd e))) es))"
| "canonical v = v"

definition fingerprint :: "('g, 'c) signer_world \<Rightarrow> jsval \<Rightarrow> jsstr outcome" where
  "fingerprint w v = bindS (encodeVaultJson (canonical v)) (\<lambda>t. Inr (sw_digest w t))"

definition cloneValue :: "jsval \<Rightarrow> jsval outcome" where
  "cloneValue v = bindS (encodeVaultJson v) decodeVaultJson"

section \<open>Persistence\<close>

definition MAX_FILE_BYTES :: nat where "MAX_FILE_BYTES = 4 * 1024 * 1024"
definition MAX_OPERATIONS :: nat where "MAX_OPERATIONS = 256"

definition signer_aad :: "signer_config \<Rightarrow> jsstr" where
  "signer_aad c = js ''line:software-approval-store/v1:'' @ js (role_name (sc_role c)) @ js '':'' @ sc_custodyId c @
     (if sc_abi c = LegacyABI then [] else js '':'' @ js (abi_name (sc_abi c)))"

text \<open>The rename of a complete temporary file: it happens, or does not, whatever is reported.\<close>

definition replaceFile ::
    "fate \<Rightarrow> (('g, 'c) signer_system \<Rightarrow> ('g, 'c) signer_system) \<Rightarrow> ('g, 'c, unit) sg" where
  "replaceFile f change s = (case f of
     Done \<Rightarrow> (Inr (), change s)
   | Failed \<Rightarrow> (Inl (Threw ''storage''), s)
   | FailedAfter \<Rightarrow> (Inl (Threw ''storage''), change s)
   | CrashBefore \<Rightarrow> (Inl Crashed, s)
   | CrashAfter \<Rightarrow> (Inl Crashed, change s))"

definition persistState ::
    "('g, 'c) signer_world \<Rightarrow> signer_config \<Rightarrow> signer_state \<Rightarrow> signer_commit list \<Rightarrow> ('g, 'c, unit) sg" where
  "persistState w c st logged =
     bindM tickM (\<lambda>n.
     bindM (codecM (encodeVaultJson (state_val st))) (\<lambda>doc.
     (let e = \<lparr>se_iv = sw_random w n, se_sealed = sw_seal w (sc_key c) (sw_random w n) (signer_aad c) doc\<rparr> in
      bindM (assertM (sw_size w (se_sealed e) \<le> MAX_FILE_BYTES)) (\<lambda>_.
      replaceFile (sw_fate w n) (\<lambda>s. s\<lparr>sy_file := Some e, sy_commits := sy_commits s @ logged\<rparr>)))))"

definition setSigner :: "nat \<Rightarrow> ('g signer \<Rightarrow> 'g signer) \<Rightarrow> ('g, 'c, unit) sg" where
  "setSigner p f = updateM (\<lambda>s. s\<lparr>sy_handles := (sy_handles s)(p := map_option f (sy_handles s p))\<rparr>)"

definition commitState ::
    "('g, 'c) signer_world \<Rightarrow> signer_config \<Rightarrow> nat \<Rightarrow> signer_state \<Rightarrow> signer_commit list \<Rightarrow> ('g, 'c, unit) sg" where
  "commitState w c p st logged =
     bindM (handleM (persistState w c st logged)
       (\<lambda>x. bindM (setSigner p (sg_uncertain_update (\<lambda>_. True))) (\<lambda>_. throw x))) (\<lambda>_.
     setSigner p (sg_state_update (\<lambda>_. st)))"

definition envelopeState :: "('g, 'c) signer_world \<Rightarrow> signer_config \<Rightarrow> 'c signer_envelope \<Rightarrow> signer_state option" where
  "envelopeState w c e =
     (if sw_size w (se_sealed e) > MAX_FILE_BYTES then None else
      (case sw_open w (sc_key c) (se_iv e) (signer_aad c) (se_sealed e) of
         None \<Rightarrow> None
       | Some doc \<Rightarrow> (case decodeVaultJson doc of Inl _ \<Rightarrow> None | Inr v \<Rightarrow> val_state v)))"

definition readState :: "('g, 'c) signer_world \<Rightarrow> signer_config \<Rightarrow> ('g, 'c, signer_state) sg" where
  "readState w c =
     bindM (getM sy_file) (\<lambda>f.
     case Option.bind f (envelopeState w c) of
       None \<Rightarrow> throw ''Signer storage could not be authenticated.''
     | Some st \<Rightarrow> pureM st)"

section \<open>Opening and closing\<close>

text \<open>\<open>/^[a-zA-Z0-9][a-zA-Z0-9:._-]{0,127}$/\<close>\<close>

definition alnum :: "16 word \<Rightarrow> bool" where
  "alnum c = (let n = unat c in (48 \<le> n \<and> n \<le> 57) \<or> (65 \<le> n \<and> n \<le> 90) \<or> (97 \<le> n \<and> n \<le> 122))"

definition identifier_text :: "jsstr \<Rightarrow> bool" where
  "identifier_text s = (case s of [] \<Rightarrow> False
     | c # cs \<Rightarrow> alnum c \<and> length cs \<le> 127 \<and> list_all (\<lambda>d. alnum d \<or> unat d \<in> {58, 46, 95, 45}) cs)"

definition policy_hash :: "jsstr \<Rightarrow> bool" where
  "policy_hash s \<longleftrightarrow> length s = 64 \<and> list_all is_lower_hex s"

definition valid_config :: "signer_config \<Rightarrow> bool" where
  "valid_config c \<longleftrightarrow> length (sc_key c) = 32 \<and> identifier_text (sc_custodyId c)"

definition freshState :: "signer_config \<Rightarrow> int \<Rightarrow> signer_state" where
  "freshState c x = \<lparr>ss_role = sc_role c, ss_custodyId = sc_custodyId c, ss_scalar = x, ss_binding = None,
     ss_approvedCost = 0, ss_operations = []\<rparr>"

definition loadState :: "('g, 'c) signer_world \<Rightarrow> signer_config \<Rightarrow> bool \<Rightarrow> ('g, 'c, signer_state) sg" where
  "loadState w c create =
     (if create
      then bindM (getM sy_file) (\<lambda>f.
           bindM (assertM (f = None)) (\<lambda>_.
           bindM tickM (\<lambda>n.
           bindM (scalar w n) (\<lambda>x.
           bindM (persistState w c (freshState c x) []) (\<lambda>_. pureM (freshState c x))))))
      else readState w c)"

definition binding_matches :: "jsstr \<Rightarrow> jsstr option \<Rightarrow> signer_binding option \<Rightarrow> bool" where
  "binding_matches code module b = (case b of None \<Rightarrow> True
     | Some b \<Rightarrow> sb_policyCode b = code \<and> sb_policyModule b = module)"

text \<open>The constructor, in process \<open>p\<close>; whatever fails after the lock was taken releases it.\<close>

definition newSigner ::
    "('g, 'c) signer_world \<Rightarrow> signer_config \<Rightarrow> nat \<Rightarrow> bool \<Rightarrow> 'g policy \<Rightarrow> jsstr \<Rightarrow> jsstr option \<Rightarrow> ('g, 'c, unit) sg" where
  "newSigner w c p create authorize code module =
     bindM (assertM (valid_config c \<and> (case module of None \<Rightarrow> True | Some h \<Rightarrow> policy_hash h))) (\<lambda>_.
     bindM (getM sy_lock) (\<lambda>lock.
     if lock \<noteq> None then throw ''EEXIST'' else
     bindM (updateM (\<lambda>s. s\<lparr>sy_lock := Some p\<rparr>)) (\<lambda>_.
     handleM
       (bindM (loadState w c create) (\<lambda>st.
        bindM (assertM (ss_role st = sc_role c \<and> ss_custodyId st = sc_custodyId c)) (\<lambda>_.
        bindM (assertM (0 < ss_scalar st \<and> ss_scalar st < ORDER)) (\<lambda>_.
        bindM (assertM (binding_matches code module (ss_binding st))) (\<lambda>_.
        updateM (\<lambda>s. s\<lparr>sy_handles := (sy_handles s)(p := Some \<lparr>sg_authorize = authorize, sg_policyCode = code,
          sg_policyModule = module, sg_state = st, sg_uncertain = False, sg_closed = False\<rparr>)\<rparr>))))))
       (\<lambda>x. bindM (updateM (\<lambda>s. s\<lparr>sy_lock := None\<rparr>)) (\<lambda>_. throw x)))))"

definition closeSigner :: "nat \<Rightarrow> ('g, 'c, unit) sg" where
  "closeSigner p =
     bindM (getM (\<lambda>s. sy_handles s p)) (\<lambda>h.
     case h of
       None \<Rightarrow> pureM ()
     | Some g \<Rightarrow>
         if sg_closed g then pureM () else
         bindM (setSigner p (sg_closed_update (\<lambda>_. True))) (\<lambda>_.
         updateM (\<lambda>s. s\<lparr>sy_lock := None\<rparr>)))"

text \<open>\<open>recoverStoppedSignerLease\<close>: only the lock of a process that is gone is removed.\<close>

definition recoverStoppedSignerLease :: "nat \<Rightarrow> ('g, 'c, unit) sg" where
  "recoverStoppedSignerLease expectedPid =
     bindM (assertM (0 < expectedPid)) (\<lambda>_.
     bindM (getM (\<lambda>s. (sy_lock s, sy_alive s))) (\<lambda>(lock, alive).
     bindM (assertM (lock = Some expectedPid)) (\<lambda>_.
     bindM (assertM (expectedPid \<notin> alive)) (\<lambda>_.
     updateM (\<lambda>s. s\<lparr>sy_lock := None\<rparr>)))))"

section \<open>Binding a policy\<close>

definition liveSigner :: "nat \<Rightarrow> ('g, 'c, 'g signer) sg" where
  "liveSigner p =
     bindM (getM (\<lambda>s. sy_handles s p)) (\<lambda>h.
     case h of
       None \<Rightarrow> throw ''no signer''
     | Some g \<Rightarrow> if sg_closed g \<or> sg_uncertain g
         then throw ''Signer must be reopened after closure or uncertain persistence.'' else pureM g)"

definition valid_policy_config :: "approval_abi \<Rightarrow> jsval \<Rightarrow> bool" where
  "valid_policy_config abi config \<longleftrightarrow> byte32 (propOf config ''domain'') \<and>
     (abi = AddressBoundABI \<longrightarrow> isContractAddress (propOf config ''contractAddress'')) \<and>
     uint64 (propOf config ''maxAuthorizedCost'')"

definition bindPolicy :: "('g, 'c) signer_world \<Rightarrow> signer_config \<Rightarrow> nat \<Rightarrow> jsval \<Rightarrow> ('g, 'c, unit) sg" where
  "bindPolicy w c p config =
     bindM (liveSigner p) (\<lambda>g.
     bindM (assertM (valid_policy_config (sc_abi c) config)) (\<lambda>_.
     bindM (codecM (cloneValue config)) (\<lambda>copy.
     (let b = \<lparr>sb_config = copy, sb_policyCode = sg_policyCode g, sb_policyModule = sg_policyModule g\<rparr> in
      case ss_binding (sg_state g) of
        Some old \<Rightarrow>
          bindM (codecM (fingerprint w (binding_val b))) (\<lambda>h.
          bindM (codecM (fingerprint w (binding_val old))) (\<lambda>h'.
          assertM (h = h')))
      | None \<Rightarrow> commitState w c p ((sg_state g)\<lparr>ss_binding := Some b\<rparr>) []))))"

section \<open>Approving\<close>

definition maxAuthorizedCost :: "signer_binding \<Rightarrow> int" where
  "maxAuthorizedCost b = (case propOf (sb_config b) ''maxAuthorizedCost'' of JBig n \<Rightarrow> n | _ \<Rightarrow> 0)"

text \<open>The policy's decision; for a draw its cost must be the amount and the fee.\<close>

definition draw_cost :: "jsval \<Rightarrow> int option" where
  "draw_cost request = (case (propOf (propOf request ''values'') ''drawAmount'', item (propOf request ''args'') 2) of
     (JBig amount, JBig fee) \<Rightarrow> if 0 < amount \<and> 0 \<le> fee then Some (amount + fee) else None
   | _ \<Rightarrow> None)"

definition decision_cost :: "approval_role \<Rightarrow> jsval \<Rightarrow> jsval option \<Rightarrow> int option" where
  "decision_cost role request decision = (case decision of
     None \<Rightarrow> None
   | Some d \<Rightarrow>
       (case (propOf d ''allowed'', propOf d ''reservationCost'') of
          (JBool True, JBig cost) \<Rightarrow>
            if cost < 0 then None
            else if role = RAgent \<and> operation_of (propOf request ''name'') = Some Draw \<and> draw_cost request \<noteq> Some cost then None
            else Some cost
        | _ \<Rightarrow> None))"

definition operationBody :: "('g, 'c) signer_world \<Rightarrow> approval_abi \<Rightarrow> 'g \<Rightarrow> jsval \<Rightarrow> (int \<times> bytes) option" where
  "operationBody w abi pk request =
     (if operation_of (propOf request ''name'') = Some PostQuote \<and> abi \<noteq> LegacyABI
      then map_option (Pair 7) (offerCommit w pk request)
      else Option.bind (actionBody w pk request) id)"

definition messageOf :: "('g, 'c) signer_world \<Rightarrow> approval_abi \<Rightarrow> jsval \<Rightarrow> int \<Rightarrow> bytes \<Rightarrow> bytes \<Rightarrow> bytes option" where
  "messageOf w abi request n body nonce = Option.bind (the_bytes (propOf request ''domain'')) (\<lambda>domain.
     if abi = AddressBoundABI then addressedApprovalMessage w domain (propOf request ''contractAddress'') n body nonce
     else Some (approvalMessage w domain n body nonce))"

definition signRequest ::
    "('g, 'c) signer_world \<Rightarrow> signer_config \<Rightarrow> int \<Rightarrow> jsval \<Rightarrow> ('g, 'c, jsval) sg" where
  "signRequest w c k request =
     (case operationBody w (sc_abi c) (ecMulGenerator w k) request of
        None \<Rightarrow> refuseApproval
      | Some (n, body) \<Rightarrow>
          bindM tickM (\<lambda>t.
          (let nonce = sw_random w t in
           case messageOf w (sc_abi c) request n body nonce of
             None \<Rightarrow> throw ''AssertionError''
           | Some message \<Rightarrow>
               bindM (scalar w t) (\<lambda>r. pureM (approval_val w (signApproval w k r nonce message))))))"

definition answerApproval :: "jsstr \<Rightarrow> jsval \<Rightarrow> jsval \<Rightarrow> ('g, 'c, jsval) sg" where
  "answerApproval i request response =
     bindM (updateM (\<lambda>s. s\<lparr>sy_issued := sy_issued s @ [(i, request, response)]\<rparr>)) (\<lambda>_. pureM response)"

text \<open>A new operation: within the limits, signed, committed, and only then answered.\<close>

definition approveNew ::
    "('g, 'c) signer_world \<Rightarrow> signer_config \<Rightarrow> nat \<Rightarrow> signer_state \<Rightarrow> signer_binding \<Rightarrow> jsstr \<Rightarrow> jsval \<Rightarrow> jsstr \<Rightarrow> int \<Rightarrow>
       ('g, 'c, jsval) sg" where
  "approveNew w c p st b i request sha cost =
     bindM (requireM (length (ss_operations st) < MAX_OPERATIONS \<and> ss_approvedCost st + cost \<le> maxAuthorizedCost b)) (\<lambda>_.
     bindM (signRequest w c (ss_scalar st) request) (\<lambda>response.
     bindM (commitState w c p
       (st\<lparr>ss_approvedCost := ss_approvedCost st + cost,
           ss_operations := ss_operations st @ [(i, \<lparr>so_request = sha, so_response = response\<rparr>)]\<rparr>)
       [\<lparr>cm_id = i, cm_request = request, cm_sha = sha, cm_cost = cost, cm_response = response\<rparr>]) (\<lambda>_.
     answerApproval i request response)))"

definition approveRequest ::
    "('g, 'c) signer_world \<Rightarrow> signer_config \<Rightarrow> nat \<Rightarrow> 'g signer \<Rightarrow> signer_binding \<Rightarrow> jsstr \<Rightarrow> jsval \<Rightarrow> ('g, 'c, jsval) sg" where
  "approveRequest w c p g b i request =
     (let st = sg_state g; saved = map_of (ss_operations st) i in
      bindM (requireM (valid_request (sc_abi c) (ss_role st) (sb_config b) request)) (\<lambda>_.
      bindM (codecM (fingerprint w request)) (\<lambda>sha.
      bindM (requireM (case saved of None \<Rightarrow> True | Some r \<Rightarrow> so_request r = sha)) (\<lambda>_.
      bindM tickM (\<lambda>n.
      case decision_cost (ss_role st) request (sg_authorize g n request
          \<lparr>pc_publicKey = ecMulGenerator w (ss_scalar st), pc_role = ss_role st, pc_config = sb_config b, pc_clock = sw_clock w n\<rparr>) of
        None \<Rightarrow> refuseApproval
      | Some cost \<Rightarrow>
          (case saved of
             Some r \<Rightarrow> answerApproval i request (so_response r)
           | None \<Rightarrow> approveNew w c p st b i request sha cost))))))"

definition approve ::
    "('g, 'c) signer_world \<Rightarrow> signer_config \<Rightarrow> nat \<Rightarrow> jsval \<Rightarrow> jsval \<Rightarrow> ('g, 'c, jsval) sg" where
  "approve w c p operationId descriptor =
     bindM (liveSigner p) (\<lambda>g.
     case (ss_binding (sg_state g), operationId) of
       (Some b, JStr i) \<Rightarrow>
         bindM (requireM (identifier_text i)) (\<lambda>_.
         bindM (codecM (encodeVaultJson descriptor)) (\<lambda>encoded.
         bindM (requireM (sw_byteLength w encoded \<le> 128 * 1024)) (\<lambda>_.
         bindM (codecM (decodeVaultJson encoded)) (\<lambda>request.
         approveRequest w c p g b i request))))
     | _ \<Rightarrow> refuseApproval)"

section \<open>Histories\<close>

text \<open>
  Processes start and die, and call the signer; a lease is recovered from outside. Every call of one
  directory is made with the owner's configuration \<open>c\<close>.
\<close>

datatype 'g signer_event =
    Spawn nat
  | Kill nat
  | Construct nat bool "'g policy" jsstr "jsstr option"
  | BindPolicy nat jsval
  | Approve nat jsval jsval
  | CloseSigner nat
  | RecoverLease nat

definition killed :: "nat \<Rightarrow> ('g, 'c) signer_system \<Rightarrow> ('g, 'c) signer_system" where
  "killed p s = s\<lparr>sy_alive := sy_alive s - {p}, sy_handles := (sy_handles s)(p := None)\<rparr>"

definition inProcess :: "nat \<Rightarrow> ('g, 'c, 'a) sg \<Rightarrow> ('g, 'c) signer_system \<Rightarrow> ('g, 'c) signer_system" where
  "inProcess p m s = (if p \<notin> sy_alive s then s else
     (case m s of (Inl Crashed, t) \<Rightarrow> killed p t | (_, t) \<Rightarrow> t))"

fun signer_step :: "('g, 'c) signer_world \<Rightarrow> signer_config \<Rightarrow> 'g signer_event \<Rightarrow> ('g, 'c) signer_system \<Rightarrow> ('g, 'c) signer_system" where
  "signer_step w c (Spawn p) s = (if p \<in> sy_alive s then s else s\<lparr>sy_alive := insert p (sy_alive s)\<rparr>)"
| "signer_step w c (Kill p) s = killed p s"
| "signer_step w c (Construct p create authorize code module) s = inProcess p (newSigner w c p create authorize code module) s"
| "signer_step w c (BindPolicy p config) s = inProcess p (bindPolicy w c p config) s"
| "signer_step w c (Approve p i d) s = inProcess p (approve w c p i d) s"
| "signer_step w c (CloseSigner p) s = inProcess p (closeSigner p) s"
| "signer_step w c (RecoverLease expectedPid) s = snd (recoverStoppedSignerLease expectedPid s)"

definition signer_history ::
    "('g, 'c) signer_world \<Rightarrow> signer_config \<Rightarrow> 'g signer_event list \<Rightarrow> ('g, 'c) signer_system \<Rightarrow> ('g, 'c) signer_system" where
  "signer_history w c es s = fold (signer_step w c) es s"

definition emptyDirectory :: "('g, 'c) signer_system" where
  "emptyDirectory = \<lparr>sy_file = None, sy_lock = None, sy_alive = {}, sy_handles = (\<lambda>_. None), sy_clock = 0,
     sy_commits = [], sy_issued = []\<rparr>"

end
