(* ===== verification/Approval_Signer_Facts.thy ===== *)
theory Approval_Signer_Facts
  imports Approval_Signer Vault_Facts
begin

text \<open>
  The invariant of the signer's directory across processes, failures and crashes: one lock, one
  signer that can still approve, whose memory is what the file says, and a file whose books are
  those of the approvals that became durable.
\<close>

section \<open>Storage\<close>

definition signer_world_ok :: "('g, 'c) signer_world \<Rightarrow> bool" where
  "signer_world_ok w \<longleftrightarrow> (\<forall>k iv a d. sw_open w k iv a (sw_seal w k iv a d) = Some d) \<and> (\<forall>g. wf_val (pointVal w g))"

lemma propOf_obj: "propOf (obj es) k = (case map_of es k of Some v \<Rightarrow> v | None \<Rightarrow> JUndefined)"
  by (simp add: propOf_def obj_def get_prop_obj)

lemma val_binding_val: "val_binding (binding_val b) = Some (Some b)"
proof -
  have "binding_val b \<noteq> JNull" by (simp add: binding_val_def obj_def)
  then show ?thesis
    by (cases b) (simp add: val_binding_def binding_val_def the_str_def propOf_obj split: option.split)
qed

lemma val_operation_val: "val_operation (i, operation_val r) = Some (i, r)"
  by (cases r) (simp add: val_operation_def operation_val_def the_str_def propOf_obj)

lemma val_role_name: "val_role (JStr (js (role_name r))) = Some r"
  by (cases r) (simp_all add: val_role_def role_name_def js_inject del: js_eq_iff)

lemma those_Some: "(\<And>x. x \<in> set xs \<Longrightarrow> f (g x) = Some x) \<Longrightarrow> those (map f (map g xs)) = Some xs"
  by (induction xs) auto

lemma val_state_val: "val_state (state_val st) = Some st"
proof -
  have "those (map val_operation (map (\<lambda>(i, r). (i, operation_val r)) (ss_operations st))) = Some (ss_operations st)"
    by (rule those_Some) (auto simp: val_operation_val)
  moreover have "val_binding (case ss_binding st of None \<Rightarrow> JNull | Some b \<Rightarrow> binding_val b) = Some (ss_binding st)"
    by (cases "ss_binding st") (simp_all add: val_binding_val, simp add: val_binding_def)
  ultimately show ?thesis
    by (simp add: val_state_def state_val_def propOf_obj val_role_name comp_def)
qed

text \<open>A journal whose values are proper can be read back from its envelope.\<close>

lemma envelope_read:
  assumes "signer_world_ok w" and "encodeVaultJson (state_val st) = Inr doc" and "wf_val (state_val st)"
    and "sw_size w (sw_seal w (sc_key c) iv (signer_aad c) doc) \<le> MAX_FILE_BYTES"
  shows "envelopeState w c \<lparr>se_iv = iv, se_sealed = sw_seal w (sc_key c) iv (signer_aad c) doc\<rparr> = Some st"
  using assms by (simp add: envelopeState_def signer_world_ok_def vault_encode_decode val_state_val)

lemma wf_obj: "wf_val (obj es) \<longleftrightarrow> distinct (map fst es) \<and> list_all (\<lambda>e. wf_val (snd e)) es"
proof -
  have "distinct (map fst (js_entries es)) \<longleftrightarrow> distinct (map fst es)"
    using distinct_map [of js "map fst es"]
    by (simp add: js_entries_def comp_def split_def inj_on_def js_inject del: js_eq_iff)
  then show ?thesis by (simp add: obj_def) (simp add: js_entries_def list_all_iff split_def)
qed

lemma wf_approval: "signer_world_ok w \<Longrightarrow> wf_val (approval_val w a)"
  by (simp add: approval_val_def wf_obj words_val_def signer_world_ok_def)

lemma wf_clone: "cloneValue v = Inr v' \<Longrightarrow> v' = v \<and> wf_val v"
  by (simp add: cloneValue_def copy_iff)

section \<open>Books\<close>

text \<open>A response that is the signature of its request's message.\<close>

definition signs_request :: "('g, 'c) signer_world \<Rightarrow> signer_config \<Rightarrow> int \<Rightarrow> jsval \<Rightarrow> jsval \<Rightarrow> bool" where
  "signs_request w c k request response \<longleftrightarrow> (\<exists>n body nonce message r.
     operationBody w (sc_abi c) (ecMulGenerator w k) request = Some (n, body) \<and>
     messageOf w (sc_abi c) request n body nonce = Some message \<and> 0 < r \<and> r < ORDER \<and>
     response = approval_val w (signApproval w k r nonce message))"

definition commit_ok :: "('g, 'c) signer_world \<Rightarrow> signer_config \<Rightarrow> signer_state \<Rightarrow> signer_binding \<Rightarrow> signer_commit \<Rightarrow> bool" where
  "commit_ok w c st b m \<longleftrightarrow>
     0 \<le> cm_cost m \<and> valid_request (sc_abi c) (sc_role c) (sb_config b) (cm_request m) \<and>
     fingerprint w (cm_request m) = Inr (cm_sha m) \<and> signs_request w c (ss_scalar st) (cm_request m) (cm_response m) \<and>
     (sc_role c = RAgent \<and> operation_of (propOf (cm_request m) ''name'') = Some Draw \<longrightarrow>
        draw_cost (cm_request m) = Some (cm_cost m))"

definition accounted :: "('g, 'c) signer_world \<Rightarrow> signer_config \<Rightarrow> signer_state \<Rightarrow> signer_commit list \<Rightarrow> bool" where
  "accounted w c st ms \<longleftrightarrow>
     wf_val (state_val st) \<and> ss_role st = sc_role c \<and> ss_custodyId st = sc_custodyId c \<and>
     0 < ss_scalar st \<and> ss_scalar st < ORDER \<and> distinct (map cm_id ms) \<and>
     ss_operations st = map (\<lambda>m. (cm_id m, \<lparr>so_request = cm_sha m, so_response = cm_response m\<rparr>)) ms \<and>
     ss_approvedCost st = sum_list (map cm_cost ms) \<and>
     (case ss_binding st of
        None \<Rightarrow> ms = []
      | Some b \<Rightarrow> valid_policy_config (sc_abi c) (sb_config b) \<and> ss_approvedCost st \<le> maxAuthorizedCost b \<and>
          (\<forall>m \<in> set ms. commit_ok w c st b m))"

definition issued_ok :: "('g, 'c) signer_world \<Rightarrow> signer_commit list \<Rightarrow> (jsstr \<times> jsval \<times> jsval) list \<Rightarrow> bool" where
  "issued_ok w ms is \<longleftrightarrow> (\<forall>(i, request, response) \<in> set is. \<exists>m \<in> set ms.
     cm_id m = i \<and> cm_response m = response \<and> fingerprint w request = Inr (cm_sha m))"

text \<open>What a signer in a process may be relied on for.\<close>

definition signer_here ::
    "('g, 'c) signer_world \<Rightarrow> signer_config \<Rightarrow> nat option \<Rightarrow> nat set \<Rightarrow> 'c signer_envelope option \<Rightarrow> nat \<Rightarrow> 'g signer \<Rightarrow> bool" where
  "signer_here w c lock alive file p g \<longleftrightarrow> sg_closed g \<or>
     (lock = Some p \<and> p \<in> alive \<and> (\<not> sg_uncertain g \<longrightarrow> Option.bind file (envelopeState w c) = Some (sg_state g)))"

definition stored :: "('g, 'c) signer_world \<Rightarrow> signer_config \<Rightarrow> 'c signer_envelope option \<Rightarrow> signer_commit list \<Rightarrow> bool" where
  "stored w c file ms \<longleftrightarrow> (case file of
     None \<Rightarrow> ms = []
   | Some e \<Rightarrow> \<exists>st. envelopeState w c e = Some st \<and> accounted w c st ms)"

definition signer_inv :: "('g, 'c) signer_world \<Rightarrow> signer_config \<Rightarrow> ('g, 'c) signer_system \<Rightarrow> bool" where
  "signer_inv w c s \<longleftrightarrow> stored w c (sy_file s) (sy_commits s) \<and> issued_ok w (sy_commits s) (sy_issued s) \<and>
     (\<forall>p g. sy_handles s p = Some g \<longrightarrow> signer_here w c (sy_lock s) (sy_alive s) (sy_file s) p g)"

lemma signer_inv_empty: "signer_inv w c emptyDirectory"
  by (simp add: signer_inv_def emptyDirectory_def stored_def issued_ok_def)

lemma issued_more: "issued_ok w ms is \<Longrightarrow> issued_ok w (ms @ ms') is"
  by (fastforce simp: issued_ok_def)

lemma issued_member: "issued_ok w ms is \<Longrightarrow> (i, request, response) \<in> set is \<Longrightarrow>
    \<exists>m \<in> set ms. cm_id m = i \<and> cm_response m = response \<and> fingerprint w request = Inr (cm_sha m)"
  unfolding issued_ok_def by (drule (1) bspec) simp

lemma issued_append: "issued_ok w ms (is @ [(i, request, response)]) \<longleftrightarrow> issued_ok w ms is \<and>
    (\<exists>m \<in> set ms. cm_id m = i \<and> cm_response m = response \<and> fingerprint w request = Inr (cm_sha m))"
  by (auto simp: issued_ok_def)

text \<open>Simple steps.\<close>

lemma inv_killed: "signer_inv w c s \<Longrightarrow> signer_inv w c (killed p s)"
  by (auto simp: signer_inv_def killed_def signer_here_def)

lemma inv_tick: "signer_inv w c (s\<lparr>sy_clock := n\<rparr>) \<longleftrightarrow> signer_inv w c s"
  by (simp add: signer_inv_def)

lemma killed_tick: "killed p (s\<lparr>sy_clock := n\<rparr>) = (killed p s)\<lparr>sy_clock := n\<rparr>"
  by (simp add: killed_def)

text \<open>The one signer that is not closed holds the lock; a change of the file and of it is all that matters.\<close>

lemma others_closed:
  assumes "signer_inv w c s" and "sy_lock s = Some p \<or> sy_lock s = None" and "q \<noteq> p" and "sy_handles s q = Some g"
  shows "sg_closed g"
proof -
  have "signer_here w c (sy_lock s) (sy_alive s) (sy_file s) q g" using assms by (simp add: signer_inv_def)
  then show ?thesis using assms by (auto simp: signer_here_def)
qed

lemma inv_changed:
  assumes "signer_inv w c s" and "sy_lock s = Some p \<or> sy_lock s = None"
    and "sy_handles t = (sy_handles s)(p := h)"
    and "stored w c (sy_file t) (sy_commits t)" and "issued_ok w (sy_commits t) (sy_issued t)"
    and "\<And>g. h = Some g \<Longrightarrow> signer_here w c (sy_lock t) (sy_alive t) (sy_file t) p g"
  shows "signer_inv w c t"
proof -
  have "signer_here w c (sy_lock t) (sy_alive t) (sy_file t) q g" if "sy_handles t q = Some g" for q g
  proof (cases "q = p")
    case False
    then have "sg_closed g" using others_closed [OF assms(1,2)] that assms(3) by auto
    then show ?thesis by (simp add: signer_here_def)
  qed (use that assms(3,6) in simp)
  then show ?thesis using assms(4,5) by (simp add: signer_inv_def)
qed

lemma inv_parts:
  assumes "signer_inv w c s"
  shows "stored w c (sy_file s) (sy_commits s)" and "issued_ok w (sy_commits s) (sy_issued s)"
    and "sy_handles s p = Some g \<Longrightarrow> signer_here w c (sy_lock s) (sy_alive s) (sy_file s) p g"
  using assms by (simp_all add: signer_inv_def)

lemma stored_new: "envelopeState w c e = Some st \<Longrightarrow> accounted w c st ms \<Longrightarrow> stored w c (Some e) ms"
  by (simp add: stored_def)

lemma inv_unlock:
  assumes "signer_inv w c s" and "\<And>p g. sy_handles s p = Some g \<Longrightarrow> sg_closed g"
  shows "signer_inv w c (s\<lparr>sy_lock := l\<rparr>)"
  using assms by (auto simp: signer_inv_def signer_here_def)

section \<open>Commits\<close>

definition signer_stop :: "('g, 'c) signer_world \<Rightarrow> signer_config \<Rightarrow> nat \<Rightarrow> halt \<Rightarrow> ('g, 'c) signer_system \<Rightarrow> bool" where
  "signer_stop w c p e t = (case e of Crashed \<Rightarrow> signer_inv w c (killed p t) | Threw _ \<Rightarrow> signer_inv w c t)"

definition open_signer :: "nat \<Rightarrow> 'g signer \<Rightarrow> ('g, 'c) signer_system \<Rightarrow> bool" where
  "open_signer p g s \<longleftrightarrow> sy_handles s p = Some g \<and> \<not> sg_closed g \<and> \<not> sg_uncertain g"

lemma open_signer_holds:
  assumes "signer_inv w c s" and "open_signer p g s"
  shows "sy_lock s = Some p" and "p \<in> sy_alive s" and "\<exists>e. sy_file s = Some e \<and> envelopeState w c e = Some (sg_state g)"
    and "accounted w c (sg_state g) (sy_commits s)"
proof -
  have h: "signer_here w c (sy_lock s) (sy_alive s) (sy_file s) p g" and "\<not> sg_closed g" "\<not> sg_uncertain g"
    using assms inv_parts(3) by (auto simp: open_signer_def)
  then show "sy_lock s = Some p" "p \<in> sy_alive s"
    and e: "\<exists>e. sy_file s = Some e \<and> envelopeState w c e = Some (sg_state g)"
    by (auto simp: signer_here_def bind_eq_Some_conv)
  show "accounted w c (sg_state g) (sy_commits s)"
    using inv_parts(1) [OF assms(1)] e by (auto simp: stored_def)
qed

text \<open>Persisting a journal changes nothing but the clock, or makes it durable as a whole.\<close>

lemma persist_run:
  assumes "signer_world_ok w" and "wf_val (state_val st)" and "persistState w c st ms s = (r, t)"
  shows "(\<exists>e. r = Inl e \<and> t = s\<lparr>sy_clock := sy_clock s + 1\<rparr>) \<or>
    (\<exists>e. envelopeState w c e = Some st \<and> t = s\<lparr>sy_clock := sy_clock s + 1, sy_file := Some e, sy_commits := sy_commits s @ ms\<rparr>)"
proof (cases "encodeVaultJson (state_val st)")
  case (Inl e)
  then show ?thesis using assms(3) by (auto simp: persistState_def tickM_def codecM_def throw_def effect_defs)
next
  case (Inr doc)
  let ?iv = "sw_random w (sy_clock s)"
  let ?sealed = "sw_seal w (sc_key c) ?iv (signer_aad c) doc"
  show ?thesis
  proof (cases "sw_size w ?sealed \<le> MAX_FILE_BYTES")
    case True
    then show ?thesis
      using assms(3) Inr envelope_read [OF assms(1) Inr assms(2) True]
      by (auto simp: persistState_def tickM_def codecM_def assertM_def replaceFile_def effect_defs Let_def split: fate.splits)
  next
    case False
    then show ?thesis
      using assms(3) Inr by (auto simp: persistState_def tickM_def codecM_def assertM_def effect_defs Let_def)
  qed
qed

lemma commit_run:
  assumes w: "signer_world_ok w" and inv: "signer_inv w c s" and g: "open_signer p g s"
    and acc: "accounted w c st (sy_commits s @ ms)" and run: "commitState w c p st ms s = (r, t)"
  shows "case r of Inl e \<Rightarrow> signer_stop w c p e t | Inr _ \<Rightarrow> signer_inv w c t \<and> sy_commits t = sy_commits s @ ms"
proof -
  note lock = open_signer_holds(1,2) [OF inv g] and handle = g [unfolded open_signer_def]
  have wf: "wf_val (state_val st)" using acc by (simp add: accounted_def)
  obtain r' u where u: "persistState w c st ms s = (r', u)" by fastforce
  have t: "case r' of
      Inr _ \<Rightarrow> r = Inr () \<and> t = u\<lparr>sy_handles := (sy_handles s)(p := Some (g\<lparr>sg_state := st\<rparr>))\<rparr>
    | Inl Crashed \<Rightarrow> r = Inl Crashed \<and> t = u
    | Inl (Threw x) \<Rightarrow> r = Inl (Threw x) \<and> t = u\<lparr>sy_handles := (sy_handles s)(p := Some (g\<lparr>sg_uncertain := True\<rparr>))\<rparr>"
    and frame: "sy_handles u = sy_handles s" "sy_lock u = sy_lock s" "sy_alive u = sy_alive s" "sy_issued u = sy_issued s"
    using persist_run [OF w wf u] run u handle
    by (auto simp: commitState_def handleM_def setSigner_def throw_def effect_defs split: sum.split halt.split)
  have stored: "stored w c (sy_file u) (sy_commits u) \<and> issued_ok w (sy_commits u) (sy_issued u) \<and>
      (r' = Inr () \<longrightarrow> Option.bind (sy_file u) (envelopeState w c) = Some st \<and> sy_commits u = sy_commits s @ ms)"
    using persist_run [OF w wf u] acc inv_parts(1,2) [OF inv] issued_more stored_new by auto
  have keep: "signer_inv w c v" if "sy_handles v = (sy_handles s)(p := h)" "sy_file v = sy_file u" "sy_commits v = sy_commits u"
    "sy_issued v = sy_issued u" "\<And>g'. h = Some g' \<Longrightarrow> signer_here w c (sy_lock v) (sy_alive v) (sy_file v) p g'" for v h
    by (rule inv_changed [OF inv _ that(1)]) (use lock that stored in auto)
  show ?thesis
  proof (cases r')
    case (Inl e)
    then show ?thesis
      using t lock frame keep [of "killed p t" None] keep [of t "Some (g\<lparr>sg_uncertain := True\<rparr>)"]
      by (cases e) (simp_all add: signer_stop_def killed_def signer_here_def)
  next
    case (Inr x)
    then show ?thesis
      using t lock frame stored keep [of t "Some (g\<lparr>sg_state := st\<rparr>)"] by (simp add: signer_here_def)
  qed
qed

section \<open>Guards\<close>

text \<open>The steps before a commit: whatever they refuse, the invariant stands.\<close>

lemma stop_threw: "signer_inv w c s \<Longrightarrow> signer_stop w c p (Threw m) s"
  by (simp add: signer_stop_def)

lemma guard_require:
  "(\<And>s. P s \<Longrightarrow> signer_inv w c s) \<Longrightarrow> (b \<Longrightarrow> hoare P (f ()) Q (signer_stop w c p)) \<Longrightarrow>
     hoare P (bindM (requireM b) f) Q (signer_stop w c p)"
  and guard_assert:
  "(\<And>s. P s \<Longrightarrow> signer_inv w c s) \<Longrightarrow> (b \<Longrightarrow> hoare P (f ()) Q (signer_stop w c p)) \<Longrightarrow>
     hoare P (bindM (assertM b) f) Q (signer_stop w c p)"
  by (cases b; simp add: requireM_def assertM_def refuseApproval_def throw_def hoare_def effect_defs stop_threw)+

lemma guard_codec:
  "(\<And>s. P s \<Longrightarrow> signer_inv w c s) \<Longrightarrow> (\<And>a. r = Inr a \<Longrightarrow> hoare P (f a) Q (signer_stop w c p)) \<Longrightarrow>
     hoare P (bindM (codecM r) f) Q (signer_stop w c p)"
  by (cases r; simp add: codecM_def throw_def hoare_def effect_defs stop_threw)

lemma guard_throw: "(\<And>s. P s \<Longrightarrow> signer_inv w c s) \<Longrightarrow> hoare P (throw m) Q (signer_stop w c p)"
  and guard_refuse: "(\<And>s. P s \<Longrightarrow> signer_inv w c s) \<Longrightarrow> hoare P refuseApproval Q (signer_stop w c p)"
  by (simp_all add: refuseApproval_def throw_def hoare_def effect_defs stop_threw)

text \<open>A process with the signer \<open>g\<close>, at some moment.\<close>

definition at_signer :: "('g, 'c) signer_world \<Rightarrow> signer_config \<Rightarrow> nat \<Rightarrow> 'g signer \<Rightarrow> ('g, 'c) signer_system \<Rightarrow> bool" where
  "at_signer w c p g s \<longleftrightarrow> signer_inv w c s \<and> open_signer p g s"

lemma at_signer_inv: "at_signer w c p g s \<Longrightarrow> signer_inv w c s"
  by (simp add: at_signer_def)

lemma at_tick: "at_signer w c p g s \<Longrightarrow> at_signer w c p g (s\<lparr>sy_clock := n\<rparr>)"
  by (simp add: at_signer_def inv_tick open_signer_def)

lemma guard_tick:
  "(\<And>n. hoare (at_signer w c p g) (f n) Q (signer_stop w c p)) \<Longrightarrow>
     hoare (at_signer w c p g) (bindM tickM f) Q (signer_stop w c p)"
  by (simp add: hoare_def bindM_def tickM_def at_tick)

lemma guard_scalar:
  "(\<And>r. 0 < r \<Longrightarrow> r < ORDER \<Longrightarrow> hoare (at_signer w c p g) (f r) Q (signer_stop w c p)) \<Longrightarrow>
     hoare (at_signer w c p g) (bindM (scalar w n) f) Q (signer_stop w c p)"
proof (cases "find (\<lambda>v. 0 < v \<and> v < ORDER) (sw_draws w n)")
  case None
  then show ?thesis by (simp add: scalar_def hoare_def effect_defs signer_stop_def inv_killed at_signer_inv)
next
  case (Some r)
  then have "0 < r \<and> r < ORDER" by (auto simp: find_Some_iff)
  moreover assume "\<And>r. 0 < r \<Longrightarrow> r < ORDER \<Longrightarrow> hoare (at_signer w c p g) (f r) Q (signer_stop w c p)"
  ultimately show ?thesis using Some by (simp add: scalar_def bindM_pure)
qed

lemmas guards = guard_require [OF at_signer_inv] guard_assert [OF at_signer_inv] guard_codec [OF at_signer_inv]
  guard_throw [OF at_signer_inv] guard_refuse [OF at_signer_inv] guard_tick guard_scalar

lemma commit_safe:
  assumes "signer_world_ok w"
    and "\<And>s. at_signer w c p g s \<Longrightarrow> accounted w c st (sy_commits s @ ms)"
  shows "hoare (at_signer w c p g) (commitState w c p st ms)
    (\<lambda>_ t. signer_inv w c t \<and> set ms \<subseteq> set (sy_commits t)) (signer_stop w c p)"
proof (rule hoareI)
  fix s e t assume "at_signer w c p g s" and "commitState w c p st ms s = (Inl e, t)"
  then show "signer_stop w c p e t" using commit_run assms unfolding at_signer_def by fastforce
next
  fix s a t assume "at_signer w c p g s" and "commitState w c p st ms s = (Inr a, t)"
  then show "signer_inv w c t \<and> set ms \<subseteq> set (sy_commits t)" using commit_run assms unfolding at_signer_def by fastforce
qed

lemma live_safe:
  assumes "\<And>g. hoare (at_signer w c p g) (f g) (\<lambda>_. signer_inv w c) (signer_stop w c p)"
  shows "hoare (signer_inv w c) (bindM (liveSigner p) f) (\<lambda>_. signer_inv w c) (signer_stop w c p)"
proof (rule hoare_assume)
  fix s :: "('a, 'b) signer_system" assume inv: "signer_inv w c s"
  show "hoare (\<lambda>t. t = s \<and> signer_inv w c t) (bindM (liveSigner p) f) (\<lambda>_. signer_inv w c) (signer_stop w c p)"
  proof (cases "\<exists>g. open_signer p g s")
    case True
    then obtain g where g: "open_signer p g s" by blast
    then have "bindM (liveSigner p) f s = f g s"
      by (simp add: liveSigner_def effect_defs open_signer_def)
    moreover have "at_signer w c p g s" using inv g by (simp add: at_signer_def)
    ultimately show ?thesis using assms [of g] by (simp add: hoare_def)
  next
    case False
    then have "\<exists>m. bindM (liveSigner p) f s = (Inl (Threw m), s)"
      by (auto simp: liveSigner_def effect_defs open_signer_def throw_def split: option.split)
    then show ?thesis using inv by (auto simp: hoare_def stop_threw)
  qed
qed

section \<open>The operations\<close>

lemma answer_safe:
  "hoare (\<lambda>s. signer_inv w c s \<and> (\<exists>m \<in> set (sy_commits s). cm_id m = i \<and> cm_response m = response \<and>
      fingerprint w request = Inr (cm_sha m)))
    (answerApproval i request response) (\<lambda>_. signer_inv w c) (signer_stop w c p)"
  by (simp add: answerApproval_def hoare_def effect_defs signer_inv_def issued_append)

lemma hoare_fact: "(A \<Longrightarrow> hoare P m Q E) \<Longrightarrow> hoare (\<lambda>s. P s \<and> A) m Q E"
  by (simp add: hoare_def)

lemma sign_safe:
  "hoare (at_signer w c p g) (signRequest w c k request)
     (\<lambda>response s. at_signer w c p g s \<and> signs_request w c k request response) (signer_stop w c p)"
proof (cases "operationBody w (sc_abi c) (ecMulGenerator w k) request")
  case None
  then show ?thesis by (simp add: signRequest_def guards)
next
  case (Some x)
  obtain n body where x: "x = (n, body)" by fastforce
  have "hoare (at_signer w c p g)
       (case messageOf w (sc_abi c) request n body (sw_random w t) of
          None \<Rightarrow> throw ''AssertionError''
        | Some message \<Rightarrow> bindM (scalar w t) (\<lambda>r. pureM (approval_val w (signApproval w k r (sw_random w t) message))))
       (\<lambda>response s. at_signer w c p g s \<and> signs_request w c k request response) (signer_stop w c p)" for t
    by (intro hoare_option guards hoare_pure) (use Some x in \<open>auto simp: hoare_def pureM_def signs_request_def\<close>)
  then show ?thesis using Some x by (simp add: signRequest_def Let_def guards)
qed

text \<open>Reading the accounts of the signer at hand.\<close>

lemma at_signer_accounted:
  "at_signer w c p g s \<Longrightarrow> accounted w c (sg_state g) (sy_commits s)"
  using open_signer_holds(4) by (auto simp: at_signer_def)

lemma wf_state: "wf_val (state_val st) \<longleftrightarrow> distinct (map fst (ss_operations st)) \<and>
    (\<forall>(i, r) \<in> set (ss_operations st). wf_val (so_response r)) \<and>
    (case ss_binding st of None \<Rightarrow> True | Some b \<Rightarrow> wf_val (sb_config b))"
  by (auto simp: state_val_def wf_obj operation_val_def binding_val_def list_all_iff comp_def split_def split: option.split)

lemma accounted_new:
  assumes "signer_world_ok w" and "accounted w c st ms" and "ss_binding st = Some b"
    and "map_of (ss_operations st) (cm_id m) = None" and "commit_ok w c st b m"
    and "ss_approvedCost st + cm_cost m \<le> maxAuthorizedCost b"
  shows "accounted w c (st\<lparr>ss_approvedCost := ss_approvedCost st + cm_cost m,
    ss_operations := ss_operations st @ [(cm_id m, \<lparr>so_request = cm_sha m, so_response = cm_response m\<rparr>)]\<rparr>) (ms @ [m])"
proof -
  have "wf_val (cm_response m)" using assms(5) wf_approval [OF assms(1)] by (auto simp: commit_ok_def signs_request_def)
  moreover have "cm_id m \<notin> cm_id ` set ms" "cm_id m \<notin> fst ` set (ss_operations st)"
    using assms(2,4) by (auto simp: accounted_def map_of_eq_None_iff image_image)
  ultimately show ?thesis
    using assms(2,3,5,6) by (simp add: accounted_def wf_state commit_ok_def comp_def)
qed

lemma approveNew_safe:
  assumes w: "signer_world_ok w" and b: "ss_binding (sg_state g) = Some b"
    and new: "map_of (ss_operations (sg_state g)) i = None" and sha: "fingerprint w request = Inr sha"
    and cost: "decision_cost (sc_role c) request d = Some cost"
    and valid: "valid_request (sc_abi c) (sc_role c) (sb_config b) request"
  shows "hoare (at_signer w c p g) (approveNew w c p (sg_state g) b i request sha cost) (\<lambda>_. signer_inv w c) (signer_stop w c p)"
  unfolding approveNew_def
proof (rule guards(1), assumption, rule hoare_bind [OF sign_safe], rule hoare_fact, rule hoare_bind, rule commit_safe [OF w])
  fix response s
  let ?m = "\<lparr>cm_id = i, cm_request = request, cm_sha = sha, cm_cost = cost, cm_response = response\<rparr>"
  assume room: "length (ss_operations (sg_state g)) < MAX_OPERATIONS \<and> ss_approvedCost (sg_state g) + cost \<le> maxAuthorizedCost b"
    and "signs_request w c (ss_scalar (sg_state g)) request response" and at: "at_signer w c p g s"
  then have "commit_ok w c (sg_state g) b ?m"
    using cost sha valid by (auto simp: commit_ok_def decision_cost_def split: option.splits jsval.splits bool.splits if_splits)
  then show "accounted w c (sg_state g\<lparr>ss_approvedCost := ss_approvedCost (sg_state g) + cost,
      ss_operations := ss_operations (sg_state g) @ [(i, \<lparr>so_request = sha, so_response = response\<rparr>)]\<rparr>) (sy_commits s @ [?m])"
    using accounted_new [OF w at_signer_accounted [OF at] b, of ?m] new room by simp
next
  fix response
  show "hoare (\<lambda>t. signer_inv w c t \<and> set [\<lparr>cm_id = i, cm_request = request, cm_sha = sha, cm_cost = cost, cm_response = response\<rparr>]
      \<subseteq> set (sy_commits t)) (answerApproval i request response) (\<lambda>_. signer_inv w c) (signer_stop w c p)"
    by (rule hoare_weaken [OF answer_safe]) (use sha in force)+
qed

lemma saved_answer:
  assumes "map_of (ss_operations (sg_state g)) i = Some r" and "so_request r = sha" and "fingerprint w request = Inr sha"
  shows "hoare (at_signer w c p g) (answerApproval i request (so_response r)) (\<lambda>_. signer_inv w c) (signer_stop w c p)"
proof (rule hoare_weaken [OF answer_safe])
  fix s assume at: "at_signer w c p g s"
  have "(i, r) \<in> set (ss_operations (sg_state g))" using assms(1) by (rule map_of_SomeD)
  then obtain m where "m \<in> set (sy_commits s)" "i = cm_id m" "r = \<lparr>so_request = cm_sha m, so_response = cm_response m\<rparr>"
    using at_signer_accounted [OF at] by (auto simp: accounted_def)
  then show "signer_inv w c s \<and> (\<exists>m \<in> set (sy_commits s). cm_id m = i \<and> cm_response m = so_response r \<and>
      fingerprint w request = Inr (cm_sha m))"
    using assms(2,3) at_signer_inv [OF at] by auto
qed

lemma approveRequest_safe:
  assumes "signer_world_ok w" and "ss_binding (sg_state g) = Some b"
  shows "hoare (at_signer w c p g) (approveRequest w c p g b i request) (\<lambda>_. signer_inv w c) (signer_stop w c p)"
proof (rule hoare_assume, rule hoare_weaken)
  fix s assume "at_signer w c p g s"
  from at_signer_accounted [OF this] have role: "ss_role (sg_state g) = sc_role c" by (simp add: accounted_def)
  show "hoare (at_signer w c p g) (approveRequest w c p g b i request) (\<lambda>_. signer_inv w c) (signer_stop w c p)"
    unfolding approveRequest_def Let_def role
    by (intro guards hoare_option approveNew_safe [OF assms]; (assumption | rule saved_answer; simp)?)
qed auto

lemma approve_safe:
  assumes "signer_world_ok w"
  shows "hoare (signer_inv w c) (approve w c p i d) (\<lambda>_. signer_inv w c) (signer_stop w c p)"
  unfolding approve_def
proof (rule live_safe)
  fix g
  show "hoare (at_signer w c p g)
     (case (ss_binding (sg_state g), i) of
        (Some b, JStr i) \<Rightarrow>
          bindM (requireM (identifier_text i)) (\<lambda>_.
          bindM (codecM (encodeVaultJson d)) (\<lambda>encoded.
          bindM (requireM (sw_byteLength w encoded \<le> 128 * 1024)) (\<lambda>_.
          bindM (codecM (decodeVaultJson encoded)) (\<lambda>request.
          approveRequest w c p g b i request))))
      | _ \<Rightarrow> refuseApproval) (\<lambda>_. signer_inv w c) (signer_stop w c p)"
    by (auto split: option.split jsval.split intro!: guards approveRequest_safe [OF assms])
qed

lemma bind_safe:
  assumes w: "signer_world_ok w"
  shows "hoare (signer_inv w c) (bindPolicy w c p config) (\<lambda>_. signer_inv w c) (signer_stop w c p)"
  unfolding bindPolicy_def Let_def
proof (intro live_safe guards)
  fix g :: "'a signer" and copy assume valid: "valid_policy_config (sc_abi c) config" and "cloneValue config = Inr copy"
  then have copy: "copy = config" "wf_val config" using wf_clone by auto
  let ?b = "\<lparr>sb_config = copy, sb_policyCode = sg_policyCode g, sb_policyModule = sg_policyModule g\<rparr>"
  show "hoare (at_signer w c p g)
     (case ss_binding (sg_state g) of
        None \<Rightarrow> commitState w c p (sg_state g\<lparr>ss_binding := Some ?b\<rparr>) []
      | Some old \<Rightarrow> bindM (codecM (fingerprint w (binding_val ?b)))
          (\<lambda>h. bindM (codecM (fingerprint w (binding_val old))) (\<lambda>h'. assertM (h = h'))))
     (\<lambda>_. signer_inv w c) (signer_stop w c p)"
  proof (cases "ss_binding (sg_state g)")
    case None
    have "hoare (at_signer w c p g) (commitState w c p (sg_state g\<lparr>ss_binding := Some ?b\<rparr>) [])
      (\<lambda>_ t. signer_inv w c t \<and> set [] \<subseteq> set (sy_commits t)) (signer_stop w c p)"
    proof (rule commit_safe [OF w])
      fix s assume "at_signer w c p g s"
      from at_signer_accounted [OF this] show "accounted w c (sg_state g\<lparr>ss_binding := Some ?b\<rparr>) (sy_commits s @ [])"
        using None copy valid
        by (auto simp: accounted_def wf_state maxAuthorizedCost_def valid_policy_config_def uint64_def split: jsval.split)
    qed
    then show ?thesis using None by (auto elim: hoare_weaken)
  next
    case (Some old)
    have "hoare (at_signer w c p g) (assertM b) (\<lambda>_. signer_inv w c) (signer_stop w c p)" for b
      by (auto simp: assertM_def hoare_def effect_defs at_signer_inv stop_threw)
    then show ?thesis using Some by (auto intro!: guards)
  qed
qed

text \<open>The constructor holds the lock while no other signer is open.\<close>

definition locking :: "('g, 'c) signer_world \<Rightarrow> signer_config \<Rightarrow> nat \<Rightarrow> ('g, 'c) signer_system \<Rightarrow> bool" where
  "locking w c p s \<longleftrightarrow> signer_inv w c s \<and> sy_lock s = Some p \<and> p \<in> sy_alive s \<and> (\<forall>q g. sy_handles s q = Some g \<longrightarrow> sg_closed g)"

lemma all_closed_inv:
  assumes "stored w c (sy_file t) (sy_commits t)" and "issued_ok w (sy_commits t) (sy_issued t)"
    and "\<forall>q g. sy_handles t q = Some g \<longrightarrow> sg_closed g"
  shows "signer_inv w c t"
  using assms by (auto simp: signer_inv_def signer_here_def)

lemma load_run:
  assumes w: "signer_world_ok w" and s: "locking w c p s" and run: "loadState w c create s = (r, t)"
  shows "locking w c p t \<and> (\<forall>st. r = Inr st \<longrightarrow> Option.bind (sy_file t) (envelopeState w c) = Some st)"
proof (cases create)
  case False
  then show ?thesis
    using s run by (auto simp: loadState_def readState_def effect_defs throw_def split: option.splits)
next
  case True
  have tick: "locking w c p (s\<lparr>sy_clock := n\<rparr>)" for n
    using s by (simp add: locking_def inv_tick)
  consider "sy_file s \<noteq> None \<or> find (\<lambda>v. 0 < v \<and> v < ORDER) (sw_draws w (sy_clock s)) = None"
    | x where "sy_file s = None" "find (\<lambda>v. 0 < v \<and> v < ORDER) (sw_draws w (sy_clock s)) = Some x" by auto
  then show ?thesis
  proof cases
    case 1
    then show ?thesis
      using True s run tick by (auto simp: loadState_def assertM_def tickM_def scalar_def effect_defs split: if_splits)
  next
    case 2
    let ?st = "freshState c x" and ?s = "s\<lparr>sy_clock := sy_clock s + 1\<rparr>"
    obtain r' u where u: "persistState w c ?st [] ?s = (r', u)" by fastforce
    have empty: "sy_commits s = []" using s 2(1) by (auto simp: locking_def signer_inv_def stored_def)
    have "0 < x \<and> x < ORDER" using 2(2) by (auto simp: find_Some_iff)
    then have "accounted w c ?st []" by (simp add: accounted_def freshState_def wf_state)
    then have "locking w c p u \<and> (r' = Inr () \<longrightarrow> Option.bind (sy_file u) (envelopeState w c) = Some ?st)"
      using persist_run [OF w _ u] s empty 2(1) stored_new [of w c _ ?st "[]"] inv_parts(1,2) [of w c s]
      by (auto simp: locking_def accounted_def inv_tick intro!: all_closed_inv)
    moreover have "t = u \<and> (\<forall>st. r = Inr st \<longrightarrow> r' = Inr () \<and> st = ?st)"
      using True run u 2 by (auto simp: loadState_def assertM_def tickM_def scalar_def effect_defs split: sum.splits)
    ultimately show ?thesis by auto
  qed
qed

lemma all_closed:
  assumes "signer_inv w c s" and "sy_lock s = None" and "sy_handles s q = Some g"
  shows "sg_closed g"
proof -
  have "signer_here w c (sy_lock s) (sy_alive s) (sy_file s) q g" using assms by (simp add: signer_inv_def)
  then show ?thesis using assms(2) by (simp add: signer_here_def)
qed

lemma locking_stop: "locking w c p t \<Longrightarrow> signer_stop w c p e t"
  by (simp add: signer_stop_def locking_def inv_killed split: halt.split)

lemma unlock_safe: "locking w c p t \<Longrightarrow> signer_inv w c (t\<lparr>sy_lock := None\<rparr>)"
  by (auto simp: locking_def intro: inv_unlock)

lemma install_safe:
  assumes "locking w c p t" and "Option.bind (sy_file t) (envelopeState w c) = Some (sg_state g)"
  shows "signer_inv w c (t\<lparr>sy_handles := (sy_handles t)(p := Some g)\<rparr>)"
  by (rule inv_changed [of w c t p]) (use assms in \<open>auto simp: locking_def signer_here_def dest: inv_parts\<close>)

lemma newSigner_safe:
  assumes w: "signer_world_ok w" and inv: "signer_inv w c s" and alive: "p \<in> sy_alive s"
    and run: "newSigner w c p create authorize code module s = (r, t)"
  shows "case r of Inl e \<Rightarrow> signer_stop w c p e t | Inr _ \<Rightarrow> signer_inv w c t"
proof (cases "(valid_config c \<and> (case module of None \<Rightarrow> True | Some h \<Rightarrow> policy_hash h)) \<and> sy_lock s = None")
  case False
  then have "t = s \<and> (\<exists>m. r = Inl (Threw m))"
    using run by (auto simp: newSigner_def assertM_def throw_def effect_defs split: if_splits)
  then show ?thesis using inv by (auto simp: stop_threw)
next
  case True
  let ?s = "s\<lparr>sy_lock := Some p\<rparr>"
  have s: "locking w c p ?s"
    using inv True alive all_closed [OF inv] inv_unlock [OF inv] by (auto simp: locking_def)
  obtain r' u where u: "loadState w c create ?s = (r', u)" by fastforce
  note load = load_run [OF w s u]
  show ?thesis
  proof (cases r')
    case (Inl e)
    then have "(r = Inl e \<and> e = Crashed \<and> t = u) \<or> (\<exists>m. r = Inl (Threw m) \<and> t = u\<lparr>sy_lock := None\<rparr>)"
      using run True u by (auto simp: newSigner_def assertM_def handleM_def throw_def effect_defs split: halt.splits)
    then show ?thesis using load by (auto simp: stop_threw unlock_safe locking_stop)
  next
    case (Inr st)
    let ?g = "\<lparr>sg_authorize = authorize, sg_policyCode = code, sg_policyModule = module, sg_state = st,
      sg_uncertain = False, sg_closed = False\<rparr>"
    from Inr have "(r = Inr () \<and> t = u\<lparr>sy_handles := (sy_handles u)(p := Some ?g)\<rparr>) \<or>
        (\<exists>m. r = Inl (Threw m) \<and> t = u\<lparr>sy_lock := None\<rparr>)"
      using run True u by (auto simp: newSigner_def assertM_def handleM_def throw_def effect_defs split: if_splits)
    then show ?thesis using load Inr install_safe [of w c p u ?g] by (auto simp: stop_threw unlock_safe)
  qed
qed

lemma closeSigner_safe:
  assumes "signer_inv w c s" and "closeSigner p s = (r, t)"
  shows "r = Inr () \<and> signer_inv w c t"
proof (cases "\<exists>g. sy_handles s p = Some g \<and> \<not> sg_closed g")
  case False
  then have "r = Inr () \<and> t = s"
    using assms(2) by (auto simp: closeSigner_def effect_defs split: option.splits if_splits)
  then show ?thesis using assms(1) by simp
next
  case True
  then obtain g where g: "sy_handles s p = Some g" "\<not> sg_closed g" by blast
  then have lock: "sy_lock s = Some p" using inv_parts(3) [OF assms(1)] by (auto simp: signer_here_def)
  have t: "r = Inr ()" "t = s\<lparr>sy_handles := (sy_handles s)(p := Some (g\<lparr>sg_closed := True\<rparr>)), sy_lock := None\<rparr>"
    using assms(2) g by (auto simp: closeSigner_def setSigner_def effect_defs)
  moreover have "signer_inv w c t"
    by (rule all_closed_inv) (use t inv_parts(1,2) [OF assms(1)] others_closed [OF assms(1)] lock in auto)
  ultimately show ?thesis by simp
qed

lemma recover_safe:
  assumes "signer_inv w c s"
  shows "signer_inv w c (snd (recoverStoppedSignerLease q s))"
proof (cases "0 < q \<and> sy_lock s = Some q \<and> q \<notin> sy_alive s")
  case False
  then have "snd (recoverStoppedSignerLease q s) = s"
    by (auto simp: recoverStoppedSignerLease_def assertM_def effect_defs)
  then show ?thesis using assms by simp
next
  case True
  have "sg_closed g" if "sy_handles s p = Some g" for p g
    using inv_parts(3) [OF assms that] True by (auto simp: signer_here_def)
  then have "signer_inv w c (s\<lparr>sy_lock := None\<rparr>)" by (rule inv_unlock [OF assms])
  then show ?thesis using True by (simp add: recoverStoppedSignerLease_def assertM_def effect_defs)
qed

section \<open>Histories\<close>

lemma inProcess_safe:
  assumes "signer_inv w c s"
    and "\<And>r t. p \<in> sy_alive s \<Longrightarrow> m s = (r, t) \<Longrightarrow> case r of Inl e \<Rightarrow> signer_stop w c p e t | Inr _ \<Rightarrow> signer_inv w c t"
  shows "signer_inv w c (inProcess p m s)"
proof (cases "p \<in> sy_alive s")
  case True
  obtain r t where "m s = (r, t)" by fastforce
  with assms(2) True show ?thesis by (auto simp: inProcess_def signer_stop_def split: sum.splits halt.splits)
qed (use assms(1) in \<open>simp add: inProcess_def\<close>)

lemma hoare_case: "hoare P m (\<lambda>_. Q) E \<Longrightarrow> P s \<Longrightarrow> m s = (r, t) \<Longrightarrow> case r of Inl e \<Rightarrow> E e t | Inr _ \<Rightarrow> Q t"
  by (force simp: hoare_def)

lemma signer_step_safe:
  assumes "signer_world_ok w" and "signer_inv w c s"
  shows "signer_inv w c (signer_step w c e s)"
proof (cases e)
  case (Spawn p)
  then show ?thesis using assms(2) by (auto simp: signer_inv_def signer_here_def)
next
  case (Construct p create authorize code module)
  have "signer_inv w c (inProcess p (newSigner w c p create authorize code module) s)"
    by (rule inProcess_safe [OF assms(2)]) (rule newSigner_safe [OF assms])
  then show ?thesis using Construct by simp
next
  case (BindPolicy p config)
  have "signer_inv w c (inProcess p (bindPolicy w c p config) s)"
    by (rule inProcess_safe [OF assms(2)]) (rule hoare_case [OF bind_safe [OF assms(1)] assms(2)])
  then show ?thesis using BindPolicy by simp
next
  case (Approve p i d)
  have "signer_inv w c (inProcess p (approve w c p i d) s)"
    by (rule inProcess_safe [OF assms(2)]) (rule hoare_case [OF approve_safe [OF assms(1)] assms(2)])
  then show ?thesis using Approve by simp
next
  case (CloseSigner p)
  have "signer_inv w c (inProcess p (closeSigner p) s)"
    by (rule inProcess_safe [OF assms(2)]) (auto dest: closeSigner_safe [OF assms(2)])
  then show ?thesis using CloseSigner by simp
qed (use assms in \<open>auto simp: inv_killed recover_safe\<close>)

lemma signer_history_safe:
  "signer_world_ok w \<Longrightarrow> signer_inv w c s \<Longrightarrow> signer_inv w c (signer_history w c es s)"
  by (induction es arbitrary: s) (simp_all add: signer_history_def signer_step_safe)

lemma signer_reachable: "signer_world_ok w \<Longrightarrow> signer_inv w c (signer_history w c es emptyDirectory)"
  by (simp add: signer_history_safe signer_inv_empty)

end
