(* ===== verification/Approval_Demo.thy ===== *)
theory Approval_Demo
  imports Approval_Signer_Facts "HOL-Library.Multiset"
begin

text \<open>A concrete signer: a curve of integers, a seal that remembers what it sealed, and an agent's draw.\<close>

definition agent_demo_signer_world :: "(nat \<Rightarrow> fate) \<Rightarrow> (int, jsval) signer_world" where
  "agent_demo_signer_world fates =
     \<lparr>persistentHash = (\<lambda>xs. replicate 32 1), persistentCommit = (\<lambda>al vs s. replicate 32 2),
      convertFieldToBytes = (\<lambda>n x. replicate 32 3), ecMulGenerator = (\<lambda>k. k mod ORDER), pointHash = (\<lambda>g. replicate 32 4),
      pointVal = JBig, degradeToTransient = (\<lambda>b. 7), sw_fate = fates, sw_random = (\<lambda>n. replicate 32 5),
      sw_draws = (\<lambda>n. [0, 11]), sw_clock = (\<lambda>n. 1800000000), sw_seal = (\<lambda>k iv a d. d), sw_open = (\<lambda>k iv a d. Some d),
      sw_size = (\<lambda>_. 1000), sw_byteLength = (\<lambda>_. 500), sw_digest = (\<lambda>d. js ''digest'')\<rparr>"

definition agent_demo_signer :: signer_config where
  "agent_demo_signer = \<lparr>sc_key = replicate 32 0, sc_custodyId = js ''agent'', sc_role = RAgent, sc_abi = LegacyABI\<rparr>"

definition agent_demo_bytes :: jsval where "agent_demo_bytes = JBytes (replicate 32 9)"

definition agent_demo_limits :: jsval where
  "agent_demo_limits = obj [(''domain'', agent_demo_bytes), (''maxAuthorizedCost'', JBig 50)]"

definition agent_demo_book :: jsval where
  "agent_demo_book = obj [(''domain'', agent_demo_bytes), (''identity'', agent_demo_bytes), (''limit'', JBig 100), (''outstanding'', JBig 0),
     (''epoch'', JBig 0), (''generation'', JBig 1), (''expiry'', JBig 1800001000), (''flatFee'', JBig 1),
     (''basisPoints'', JBig 0), (''status'', JNum (NInt 1))]"

definition agent_demo_draw :: jsval where
  "agent_demo_draw = obj [(''name'', JStr (js ''draw'')), (''args'', JArr [agent_demo_bytes, JBig 1800000300, JBig 1]), (''domain'', agent_demo_bytes),
     (''privateFinance'', JBool True),
     (''values'', obj [(''bookOpening'', agent_demo_book), (''salt'', agent_demo_bytes), (''newSalt'', agent_demo_bytes),
        (''quoteMerchantPk'', agent_demo_bytes), (''drawAmount'', JBig 20), (''noteNonce'', agent_demo_bytes), (''noteSalt'', agent_demo_bytes)])]"

definition agent_demo_policy :: "int policy" where
  "agent_demo_policy n request context = Some (obj [(''allowed'', JBool True), (''reservationCost'', JBig 21)])"

definition agent_demo_purchase :: "int signer_event list" where
  "agent_demo_purchase = [Spawn 1, Construct 1 True agent_demo_policy (js ''policy'') None, BindPolicy 1 agent_demo_limits,
     Approve 1 (JStr (js ''purchase'')) agent_demo_draw]"

lemma agent_demo_world_ok: "signer_world_ok (agent_demo_signer_world f)"
  by (simp add: signer_world_ok_def agent_demo_signer_world_def)

declare js_eq_iff [simp del] js_inject [simp]

lemma agent_demo_request: "valid_request LegacyABI RAgent agent_demo_limits agent_demo_draw"
  by (simp add: valid_request_def agent_demo_limits_def agent_demo_draw_def agent_demo_book_def agent_demo_bytes_def propOf_obj operation_of_def
      OPERATIONS_def the_bytes_def forbidden_def has_own_def keys_of_def args_valid_def byte32_def uint64_def only_keys_def
      top_fields_def values_valid_def allowed_values_def value_valid_def UINT_VALUES_def book_valid_def is_record_def BOOK_FIELDS_def
      status_value_def role_valid_def obj_def js_entries_def item_def propOf_def get_prop_def)

text \<open>What the codec makes of the values at hand.\<close>

definition encoded :: "jsval \<Rightarrow> jsval" where
  "encoded v = (case encodeVaultJson v of Inr t \<Rightarrow> t | Inl _ \<Rightarrow> JNull)"

lemma encoded_fits: "fits v \<Longrightarrow> encodeVaultJson v = Inr (encoded v)"
  using encodeVaultJson_ok [of v] by (auto simp: encoded_def)

lemma decoded_fits: "fits v \<Longrightarrow> wf_val v \<Longrightarrow> decodeVaultJson (encoded v) = Inr v"
  using vault_encode_decode encoded_fits by blast

lemmas agent_demo_small = fits_def MAX_NODES_def MAX_DEPTH_def obj_def js_entries_def finite_num_def

lemma agent_demo_limits_fits: "fits agent_demo_limits" "wf_val agent_demo_limits"
  by (simp_all add: agent_demo_limits_def agent_demo_bytes_def agent_demo_small)

lemma agent_demo_draw_fits: "fits agent_demo_draw" "wf_val agent_demo_draw"
  by (simp_all add: agent_demo_draw_def agent_demo_book_def agent_demo_bytes_def agent_demo_small)

text \<open>Sorting the keys does not change whether a value fits.\<close>

lemma sum_list_sorted: "sum_list (map f (sort_key k xs)) = (sum_list (map f xs) :: nat)"
  by (metis mset_map mset_sort sum_mset_sum_list)

lemma nodes_canonical: "val_nodes (canonical v) = val_nodes v"
proof (induction v rule: canonical.induct)
  case (1 vs)
  then show ?case by (simp add: comp_def cong: map_cong)
next
  case (2 es)
  then show ?case by (simp add: sum_list_sorted comp_def cong: map_cong)
qed simp_all

lemma fits_canonical: "fits (canonical v) \<longleftrightarrow> fits v"
proof -
  have "val_fits d (canonical v) \<longleftrightarrow> val_fits d v" for d
  proof (induction v arbitrary: d rule: canonical.induct)
    case (2 es)
    then show ?case by (auto simp: list_all_iff)
  qed (auto simp: list_all_iff)
  then show ?thesis by (simp add: fits_def nodes_canonical)
qed

lemma agent_demo_sha: "fingerprint (agent_demo_signer_world f) agent_demo_draw = Inr (js ''digest'')"
  using encoded_fits [of "canonical agent_demo_draw"] agent_demo_draw_fits fits_canonical
  by (simp add: fingerprint_def agent_demo_signer_world_def)

text \<open>The purchase, step by step.\<close>

definition agent_demo_response :: jsval where
  "agent_demo_response = approval_val (agent_demo_signer_world (\<lambda>_. Done)) (signApproval (agent_demo_signer_world (\<lambda>_. Done)) 11 11 (replicate 32 5)
     (replicate 32 1))"

definition agent_demo_empty_state :: signer_state where "agent_demo_empty_state = freshState agent_demo_signer 11"

definition agent_demo_bound_state :: signer_state where
  "agent_demo_bound_state = agent_demo_empty_state\<lparr>ss_binding := Some \<lparr>sb_config = agent_demo_limits, sb_policyCode = js ''policy'', sb_policyModule = None\<rparr>\<rparr>"

definition agent_demo_final_state :: signer_state where
  "agent_demo_final_state = agent_demo_bound_state\<lparr>ss_approvedCost := 21,
     ss_operations := [(js ''purchase'', \<lparr>so_request = js ''digest'', so_response = agent_demo_response\<rparr>)]\<rparr>"

lemmas agent_demo_states = agent_demo_empty_state_def agent_demo_bound_state_def agent_demo_final_state_def freshState_def agent_demo_signer_def

lemma agent_demo_fits: "fits (state_val agent_demo_empty_state)" "fits (state_val agent_demo_bound_state)" "fits (state_val agent_demo_final_state)"
  by (simp_all add: agent_demo_states state_val_def binding_val_def operation_val_def agent_demo_limits_def agent_demo_bytes_def agent_demo_small
      agent_demo_response_def approval_val_def words_val_def signApproval_def agent_demo_signer_world_def Let_def)

lemmas agent_demo_run = agent_demo_purchase_def signer_history_def signer_step.simps inProcess_def emptyDirectory_def
  newSigner_def loadState_def persistState_def replaceFile_def bindPolicy_def liveSigner_def commitState_def setSigner_def
  handleM_def tickM_def scalar_def assertM_def codecM_def requireM_def throw_def effect_defs Let_def

lemma agent_demo_config_ok: "valid_config agent_demo_signer" "binding_matches (js ''policy'') None None" "valid_policy_config LegacyABI agent_demo_limits"
  by (simp_all add: valid_config_def agent_demo_signer_def identifier_text_def alnum_def js_def binding_matches_def valid_policy_config_def
      agent_demo_limits_def agent_demo_bytes_def propOf_obj byte32_def uint64_def)

definition agent_demo_opened :: "(nat \<Rightarrow> fate) \<Rightarrow> (int, jsval) signer_system" where
  "agent_demo_opened f = signer_history (agent_demo_signer_world f) agent_demo_signer [Spawn 1, Construct 1 True agent_demo_policy (js ''policy'') None, BindPolicy 1 agent_demo_limits]
     emptyDirectory"

definition agent_demo_handle :: "signer_state \<Rightarrow> int signer" where
  "agent_demo_handle st = \<lparr>sg_authorize = agent_demo_policy, sg_policyCode = js ''policy'', sg_policyModule = None, sg_state = st,
     sg_uncertain = False, sg_closed = False\<rparr>"

lemma agent_demo_fields [simp]:
  "sw_fate (agent_demo_signer_world f) = f" "sw_draws (agent_demo_signer_world f) n = [0, 11]" "sw_random (agent_demo_signer_world f) n = replicate 32 5"
  "sw_seal (agent_demo_signer_world f) k iv a d = d" "sw_size (agent_demo_signer_world f) d = 1000" "sw_byteLength (agent_demo_signer_world f) d = 500"
  "sc_abi agent_demo_signer = LegacyABI" "sc_role agent_demo_signer = RAgent"
  by (simp_all add: agent_demo_signer_world_def agent_demo_signer_def)

lemma agent_demo_clone: "cloneValue agent_demo_limits = Inr agent_demo_limits"
  by (simp add: cloneValue_def encoded_fits decoded_fits agent_demo_limits_fits)

lemma agent_demo_state_steps [simp]:
  "freshState agent_demo_signer 11 = agent_demo_empty_state"
  "agent_demo_empty_state\<lparr>ss_binding := Some \<lparr>sb_config = agent_demo_limits, sb_policyCode = js ''policy'', sb_policyModule = None\<rparr>\<rparr> =
     agent_demo_bound_state"
  "agent_demo_bound_state\<lparr>ss_approvedCost := 21, ss_operations := [(js ''purchase'', \<lparr>so_request = js ''digest'', so_response = agent_demo_response\<rparr>)]\<rparr> =
     agent_demo_final_state"
  by (simp_all add: agent_demo_empty_state_def agent_demo_bound_state_def agent_demo_final_state_def)

lemma agent_demo_state_fields [simp]:
  "ss_role agent_demo_empty_state = RAgent" "ss_custodyId agent_demo_empty_state = sc_custodyId agent_demo_signer" "ss_scalar agent_demo_empty_state = 11"
  "ss_binding agent_demo_empty_state = None"
  "ss_role agent_demo_bound_state = RAgent" "ss_scalar agent_demo_bound_state = 11" "ss_approvedCost agent_demo_bound_state = 0"
  "ss_operations agent_demo_bound_state = []" "ss_custodyId agent_demo_bound_state = sc_custodyId agent_demo_signer"
  "ss_binding agent_demo_bound_state = Some \<lparr>sb_config = agent_demo_limits, sb_policyCode = js ''policy'', sb_policyModule = None\<rparr>"
  by (simp_all add: agent_demo_states)

lemmas agent_demo_encoded [simp] = agent_demo_fits [THEN encoded_fits] agent_demo_draw_fits(1) [THEN encoded_fits] decoded_fits [OF agent_demo_draw_fits]

lemma agent_demo_opened_eq:
  "agent_demo_opened (\<lambda>_. Done) = \<lparr>sy_file = Some \<lparr>se_iv = replicate 32 5, se_sealed = encoded (state_val agent_demo_bound_state)\<rparr>, sy_lock = Some 1,
     sy_alive = {1}, sy_handles = [1 \<mapsto> agent_demo_handle agent_demo_bound_state], sy_clock = 3, sy_commits = [], sy_issued = []\<rparr>"
  using agent_demo_config_ok agent_demo_clone
  by (simp add: agent_demo_opened_def agent_demo_run MAX_FILE_BYTES_def ORDER_def agent_demo_handle_def)

lemma agent_demo_read [simp]:
  "propOf agent_demo_draw ''name'' = JStr (js ''draw'')" "propOf agent_demo_draw ''domain'' = agent_demo_bytes"
  "propOf agent_demo_draw ''args'' = JArr [agent_demo_bytes, JBig 1800000300, JBig 1]"
  "propOf (propOf agent_demo_draw ''values'') ''bookOpening'' = agent_demo_book"
  "propOf (propOf agent_demo_draw ''values'') ''drawAmount'' = JBig 20"
  "k \<in> {''salt'', ''newSalt'', ''quoteMerchantPk'', ''noteNonce'', ''noteSalt''} \<Longrightarrow> propOf (propOf agent_demo_draw ''values'') k = agent_demo_bytes"
  by (auto simp: agent_demo_draw_def propOf_obj)

lemma agent_demo_operation [simp]: "operation_of (JStr (js ''draw'')) = Some Draw"
  by (simp add: operation_of_def OPERATIONS_def)

lemma agent_demo_body: "operationBody (agent_demo_signer_world f) LegacyABI pk agent_demo_draw = Some (8, replicate 32 1)"
proof -
  have "book_atoms agent_demo_book \<noteq> None"
    by (simp add: book_atoms_def agent_demo_book_def propOf_obj agent_demo_bytes_def the_bytes_def the_int_def)
  then have "commit_book (agent_demo_signer_world f) agent_demo_book agent_demo_bytes = Some (replicate 32 2)"
    by (auto simp: commit_book_def agent_demo_bytes_def the_bytes_def agent_demo_signer_world_def)
  moreover have "commit_note (agent_demo_signer_world f) (replicate 32 9) (JArr [agent_demo_bytes, JBig 1800000300, JBig 1]) (propOf agent_demo_draw ''values'') =
      Some (replicate 32 2)"
    by (simp add: commit_note_def agent_demo_bytes_def the_bytes_def the_int_def item_def) (simp add: agent_demo_book_def propOf_obj agent_demo_bytes_def agent_demo_signer_world_def)
  ultimately show ?thesis
    by (simp add: operationBody_def actionBody_def Let_def hash_of_def field_of_def item_def the_int_def)
      (simp add: agent_demo_bytes_def the_bytes_def field_bytes_def agent_demo_signer_world_def)
qed

lemma agent_demo_cost: "decision_cost RAgent agent_demo_draw (agent_demo_policy n agent_demo_draw x) = Some 21"
  by (simp add: decision_cost_def agent_demo_policy_def propOf_obj draw_cost_def item_def)

lemma agent_demo_signature:
  "approval_val (agent_demo_signer_world f) (signApproval (agent_demo_signer_world f) 11 11 (replicate 32 5) (replicate 32 1)) = agent_demo_response"
  by (simp add: agent_demo_response_def approval_val_def signApproval_def challenge_def Let_def) (simp add: agent_demo_signer_world_def)

lemma agent_demo_message: "messageOf (agent_demo_signer_world f) LegacyABI agent_demo_draw n body nonce = Some (replicate 32 1)"
  by (simp add: messageOf_def agent_demo_bytes_def the_bytes_def approvalMessage_def) (simp add: agent_demo_signer_world_def)

lemma agent_demo_signs: "signRequest (agent_demo_signer_world f) agent_demo_signer 11 agent_demo_draw s = (Inr agent_demo_response, s\<lparr>sy_clock := sy_clock s + 1\<rparr>)"
  by (simp add: signRequest_def agent_demo_body agent_demo_message agent_demo_signature effect_defs tickM_def scalar_def ORDER_def)

lemma agent_demo_approves:
  "approve (agent_demo_signer_world (\<lambda>_. Done)) agent_demo_signer 1 (JStr (js ''purchase'')) agent_demo_draw (agent_demo_opened (\<lambda>_. Done)) =
     (Inr agent_demo_response, \<lparr>sy_file = Some \<lparr>se_iv = replicate 32 5, se_sealed = encoded (state_val agent_demo_final_state)\<rparr>, sy_lock = Some 1,
       sy_alive = {1}, sy_handles = [1 \<mapsto> agent_demo_handle agent_demo_final_state], sy_clock = 6,
       sy_commits = [\<lparr>cm_id = js ''purchase'', cm_request = agent_demo_draw, cm_sha = js ''digest'', cm_cost = 21, cm_response = agent_demo_response\<rparr>],
       sy_issued = [(js ''purchase'', agent_demo_draw, agent_demo_response)]\<rparr>)"
proof -
  have "identifier_text (js ''purchase'')" by (simp add: identifier_text_def alnum_def js_def)
  moreover have "maxAuthorizedCost \<lparr>sb_config = agent_demo_limits, sb_policyCode = js ''policy'', sb_policyModule = None\<rparr> = 50"
    by (simp add: maxAuthorizedCost_def agent_demo_limits_def propOf_obj)
  ultimately show ?thesis
    using agent_demo_request agent_demo_sha agent_demo_cost agent_demo_signs
    by (simp add: agent_demo_opened_eq approve_def approveRequest_def approveNew_def answerApproval_def agent_demo_run agent_demo_handle_def
        MAX_OPERATIONS_def MAX_FILE_BYTES_def)
qed

lemma agent_demo_purchase_eq:
  "signer_history (agent_demo_signer_world (\<lambda>_. Done)) agent_demo_signer agent_demo_purchase emptyDirectory =
     snd (approve (agent_demo_signer_world (\<lambda>_. Done)) agent_demo_signer 1 (JStr (js ''purchase'')) agent_demo_draw (agent_demo_opened (\<lambda>_. Done)))"
proof -
  have "signer_history (agent_demo_signer_world (\<lambda>_. Done)) agent_demo_signer agent_demo_purchase emptyDirectory =
      signer_step (agent_demo_signer_world (\<lambda>_. Done)) agent_demo_signer (Approve 1 (JStr (js ''purchase'')) agent_demo_draw) (agent_demo_opened (\<lambda>_. Done))"
    by (simp add: agent_demo_purchase_def signer_history_def agent_demo_opened_def)
  moreover have "1 \<in> sy_alive (agent_demo_opened (\<lambda>_. Done))" by (simp add: agent_demo_opened_eq)
  ultimately show ?thesis by (simp add: inProcess_def agent_demo_approves del: One_nat_def)
qed

text \<open>The process dies after the purchase; another takes the lease over and is asked again.\<close>

definition agent_demo_again :: "int signer_event list" where
  "agent_demo_again = agent_demo_purchase @ [Kill 1, Spawn 2, RecoverLease 1, Construct 2 False agent_demo_policy (js ''policy'') None,
     Approve 2 (JStr (js ''purchase'')) agent_demo_draw]"

lemma agent_demo_final_wf: "wf_val (state_val agent_demo_final_state)"
  using wf_approval [OF agent_demo_world_ok] agent_demo_limits_fits(2) by (simp add: wf_state agent_demo_states agent_demo_response_def)

lemma agent_demo_final_fields [simp]:
  "ss_role agent_demo_final_state = RAgent" "ss_scalar agent_demo_final_state = 11" "ss_custodyId agent_demo_final_state = sc_custodyId agent_demo_signer"
  "ss_binding agent_demo_final_state = Some \<lparr>sb_config = agent_demo_limits, sb_policyCode = js ''policy'', sb_policyModule = None\<rparr>"
  "ss_operations agent_demo_final_state = [(js ''purchase'', \<lparr>so_request = js ''digest'', so_response = agent_demo_response\<rparr>)]"
  by (simp_all add: agent_demo_states)

lemma agent_demo_stored: "envelopeState (agent_demo_signer_world f) agent_demo_signer \<lparr>se_iv = iv, se_sealed = encoded (state_val agent_demo_final_state)\<rparr> =
    Some agent_demo_final_state"
  using envelope_read [OF agent_demo_world_ok encoded_fits agent_demo_final_wf, of f agent_demo_signer iv] agent_demo_fits(3)
  by (simp add: MAX_FILE_BYTES_def)

definition agent_demo_reopened :: "(int, jsval) signer_system" where
  "agent_demo_reopened = \<lparr>sy_file = Some \<lparr>se_iv = replicate 32 5, se_sealed = encoded (state_val agent_demo_final_state)\<rparr>, sy_lock = Some 2,
       sy_alive = {2}, sy_handles = [2 \<mapsto> agent_demo_handle agent_demo_final_state], sy_clock = 6,
       sy_commits = [\<lparr>cm_id = js ''purchase'', cm_request = agent_demo_draw, cm_sha = js ''digest'', cm_cost = 21, cm_response = agent_demo_response\<rparr>],
       sy_issued = [(js ''purchase'', agent_demo_draw, agent_demo_response)]\<rparr>"

lemma agent_demo_reopens:
  "signer_history (agent_demo_signer_world (\<lambda>_. Done)) agent_demo_signer [Kill 1, Spawn 2, RecoverLease 1, Construct 2 False agent_demo_policy (js ''policy'') None]
     (signer_history (agent_demo_signer_world (\<lambda>_. Done)) agent_demo_signer agent_demo_purchase emptyDirectory) = agent_demo_reopened"
proof -
  have "binding_matches (js ''policy'') None (ss_binding agent_demo_final_state)" by (simp add: binding_matches_def)
  then show ?thesis
    unfolding agent_demo_purchase_eq agent_demo_approves snd_conv
    using agent_demo_config_ok agent_demo_stored
    by (simp add: signer_history_def signer_step.simps inProcess_def killed_def recoverStoppedSignerLease_def newSigner_def loadState_def
        readState_def handleM_def assertM_def effect_defs ORDER_def agent_demo_reopened_def agent_demo_handle_def fun_eq_iff)
qed

lemma agent_demo_repeats:
  "sy_issued (signer_history (agent_demo_signer_world (\<lambda>_. Done)) agent_demo_signer agent_demo_again emptyDirectory) =
     [(js ''purchase'', agent_demo_draw, agent_demo_response), (js ''purchase'', agent_demo_draw, agent_demo_response)]"
proof -
  have "identifier_text (js ''purchase'')" by (simp add: identifier_text_def alnum_def js_def)
  then have "approve (agent_demo_signer_world (\<lambda>_. Done)) agent_demo_signer 2 (JStr (js ''purchase'')) agent_demo_draw agent_demo_reopened =
      (Inr agent_demo_response, agent_demo_reopened\<lparr>sy_clock := 7, sy_issued := [(js ''purchase'', agent_demo_draw, agent_demo_response), (js ''purchase'', agent_demo_draw, agent_demo_response)]\<rparr>)"
    using agent_demo_request agent_demo_sha agent_demo_cost
    by (simp add: agent_demo_reopened_def approve_def approveRequest_def answerApproval_def agent_demo_run agent_demo_handle_def)
  moreover have "signer_history (agent_demo_signer_world (\<lambda>_. Done)) agent_demo_signer agent_demo_again emptyDirectory =
      signer_step (agent_demo_signer_world (\<lambda>_. Done)) agent_demo_signer (Approve 2 (JStr (js ''purchase'')) agent_demo_draw) agent_demo_reopened"
    using agent_demo_reopens by (simp add: signer_history_def agent_demo_again_def)
  ultimately show ?thesis by (simp add: inProcess_def) (simp add: agent_demo_reopened_def)
qed

end
