(* ===== verification/Approval_Properties.thy ===== *)
theory Approval_Properties
  imports Approval_Demo
begin

text \<open>Properties of the approval signer, over every history of its directory, and of its signatures.\<close>

section \<open>Budget\<close>

definition draws_total :: "signer_commit list \<Rightarrow> int" where
  "draws_total ms = sum_list (map (\<lambda>m. nullish (draw_cost (cm_request m)) 0)
     (filter (\<lambda>m. operation_of (propOf (cm_request m) ''name'') = Some Draw) ms))"

lemma draws_within:
  assumes "\<forall>m \<in> set ms. 0 \<le> cm_cost m \<and> (operation_of (propOf (cm_request m) ''name'') = Some Draw \<longrightarrow>
    draw_cost (cm_request m) = Some (cm_cost m))"
  shows "draws_total ms \<le> sum_list (map cm_cost ms)"
  using assms by (induction ms) (auto simp: draws_total_def nullish_def)

text \<open>
  C24. Whatever happens to the signer's processes and its storage, no more is approved than the owner
  allowed: every answer ever given is one of the approvals that became durable before it, those have
  distinct identifiers, their total cost is the one on file, it is within the bound policy's limit,
  and for an agent it covers the amount and the fee of every draw.
\<close>

theorem approvals_within_budget:
  assumes "signer_world_ok w" and "s = signer_history w c es emptyDirectory" and "sy_commits s \<noteq> []"
  shows "(\<forall>(i, request, response) \<in> set (sy_issued s). \<exists>m \<in> set (sy_commits s). cm_id m = i \<and> cm_response m = response) \<and>
    distinct (map cm_id (sy_commits s)) \<and>
    (\<exists>st b. Option.bind (sy_file s) (envelopeState w c) = Some st \<and> ss_binding st = Some b \<and>
       ss_approvedCost st = sum_list (map cm_cost (sy_commits s)) \<and> ss_approvedCost st \<le> maxAuthorizedCost b \<and>
       (sc_role c = RAgent \<longrightarrow> draws_total (sy_commits s) \<le> maxAuthorizedCost b))"
proof -
  have inv: "signer_inv w c s" using signer_reachable assms(1,2) by blast
  obtain e st where e: "sy_file s = Some e" "envelopeState w c e = Some st" and acc: "accounted w c st (sy_commits s)"
    using inv_parts(1) [OF inv] assms(3) by (auto simp: stored_def split: option.splits)
  obtain b where b: "ss_binding st = Some b" "ss_approvedCost st \<le> maxAuthorizedCost b"
    "\<forall>m \<in> set (sy_commits s). commit_ok w c st b m"
    using acc assms(3) by (auto simp: accounted_def split: option.splits)
  have "draws_total (sy_commits s) \<le> sum_list (map cm_cost (sy_commits s))" if "sc_role c = RAgent"
    by (rule draws_within) (use b(3) that in \<open>auto simp: commit_ok_def\<close>)
  then show ?thesis
    using inv_parts(2) [OF inv] e acc b by (fastforce simp: accounted_def issued_ok_def)
qed

lemma agent_demo_purchase_state:
  "sy_commits (signer_history (agent_demo_signer_world (\<lambda>_. Done)) agent_demo_signer agent_demo_purchase emptyDirectory) =
     [\<lparr>cm_id = js ''purchase'', cm_request = agent_demo_draw, cm_sha = js ''digest'', cm_cost = 21, cm_response = agent_demo_response\<rparr>]"
  "sy_issued (signer_history (agent_demo_signer_world (\<lambda>_. Done)) agent_demo_signer agent_demo_purchase emptyDirectory) =
     [(js ''purchase'', agent_demo_draw, agent_demo_response)]"
  by (simp_all add: agent_demo_purchase_eq agent_demo_approves del: One_nat_def)

lemma approvals_within_budget_witness:
  "\<exists>b. 21 \<le> maxAuthorizedCost b \<and>
     draws_total (sy_commits (signer_history (agent_demo_signer_world (\<lambda>_. Done)) agent_demo_signer agent_demo_purchase emptyDirectory)) \<le> maxAuthorizedCost b"
  using approvals_within_budget [OF agent_demo_world_ok refl, of "\<lambda>_. Done" agent_demo_signer agent_demo_purchase] agent_demo_purchase_state by auto

section \<open>Repetition\<close>

text \<open>
  C25. An operation identifier is approved once: two answers given under it, by whatever processes and
  with whatever failures between them, are the same signature for requests of the same fingerprint.
\<close>

theorem approval_repeats:
  assumes "signer_world_ok w" and "s = signer_history w c es emptyDirectory"
    and "(i, request, response) \<in> set (sy_issued s)" and "(i, request', response') \<in> set (sy_issued s)"
  shows "response' = response \<and> fingerprint w request' = fingerprint w request"
proof -
  have inv: "signer_inv w c s" using signer_reachable assms(1,2) by blast
  obtain m m' where m: "m \<in> set (sy_commits s)" "cm_id m = i" "cm_response m = response" "fingerprint w request = Inr (cm_sha m)"
    and m': "m' \<in> set (sy_commits s)" "cm_id m' = i" "cm_response m' = response'" "fingerprint w request' = Inr (cm_sha m')"
    using issued_member [OF inv_parts(2) [OF inv]] assms(3,4) by meson
  have "distinct (map cm_id (sy_commits s))"
    using inv_parts(1) [OF inv] m(1) by (auto simp: stored_def accounted_def split: option.splits)
  then have "m = m'" using m(1,2) m'(1,2) by (metis (mono_tags, lifting) distinct_map inj_onD)
  then show ?thesis using m m' by simp
qed

lemma approval_repeats_witness:
  "snd (snd (sy_issued (signer_history (agent_demo_signer_world (\<lambda>_. Done)) agent_demo_signer agent_demo_again emptyDirectory) ! 1)) = agent_demo_response"
  using approval_repeats [OF agent_demo_world_ok refl, of "js ''purchase''" agent_demo_draw agent_demo_response "\<lambda>_. Done" agent_demo_signer agent_demo_again
      agent_demo_draw agent_demo_response] agent_demo_repeats by simp

section \<open>Scope\<close>

text \<open>
  C26. What is approved is within the signer's scope: every approval on file is of an operation of the
  signer's role, for the bound domain, and for the bound contract where approvals are bound to
  addresses; no secret of a role or of the reserve came with it; and the response is a signature by
  the stored scalar of the message of that request.
\<close>

theorem approval_scope:
  assumes "signer_world_ok w" and "s = signer_history w c es emptyDirectory" and "m \<in> set (sy_commits s)"
  shows "\<exists>st b op. Option.bind (sy_file s) (envelopeState w c) = Some st \<and> ss_binding st = Some b \<and>
    operation_of (propOf (cm_request m) ''name'') = Some op \<and> op \<in> set (ROLE_OPERATIONS (sc_role c)) \<and>
    propOf (cm_request m) ''domain'' = propOf (sb_config b) ''domain'' \<and>
    (sc_abi c = AddressBoundABI \<longrightarrow> propOf (cm_request m) ''contractAddress'' = propOf (sb_config b) ''contractAddress'') \<and>
    list_all (\<lambda>k. \<not> has_own (propOf (cm_request m) ''values'') k) forbidden \<and>
    signs_request w c (ss_scalar st) (cm_request m) (cm_response m)"
proof -
  have inv: "signer_inv w c s" using signer_reachable assms(1,2) by blast
  obtain e st where e: "sy_file s = Some e" "envelopeState w c e = Some st" and acc: "accounted w c st (sy_commits s)"
    using inv_parts(1) [OF inv] assms(3) by (auto simp: stored_def split: option.splits)
  then obtain b where "ss_binding st = Some b" "commit_ok w c st b m"
    using assms(3) by (auto simp: accounted_def split: option.splits)
  then show ?thesis
    using e by (auto simp: commit_ok_def valid_request_def role_valid_def split: option.splits)
qed

lemma approval_scope_witness:
  "\<exists>(st :: signer_state) (b :: signer_binding). ss_binding st = Some b \<and> agent_demo_bytes = propOf (sb_config b) ''domain'' \<and>
     signs_request (agent_demo_signer_world (\<lambda>_. Done)) agent_demo_signer (ss_scalar st) agent_demo_draw agent_demo_response"
proof -
  have "\<lparr>cm_id = js ''purchase'', cm_request = agent_demo_draw, cm_sha = js ''digest'', cm_cost = 21, cm_response = agent_demo_response\<rparr> \<in>
      set (sy_commits (signer_history (agent_demo_signer_world (\<lambda>_. Done)) agent_demo_signer agent_demo_purchase emptyDirectory))"
    by (simp add: agent_demo_purchase_state)
  from approval_scope [OF agent_demo_world_ok refl this] show ?thesis by auto
qed

section \<open>Signatures\<close>

lemma words_join: "snd (words n) * RADIX + fst (words n) = n"
  by (simp add: words_def)

lemma carry_limbs:
  fixes R :: int assumes "0 < R"
  shows "q * (O' mod R) + r mod R = ((q * (O' mod R) + r mod R) div R) * R + (q * O' + r) mod R"
    and "q * (O' div R) + r div R + (q * (O' mod R) + r mod R) div R = (q * O' + r) div R"
proof -
  have "q * O' + r = q * (O' div R * R + O' mod R) + (r div R * R + r mod R)" by simp
  then have sum: "q * O' + r = (q * (O' mod R) + r mod R) + (q * (O' div R) + r div R) * R"
    by (simp only: algebra_simps)
  show "q * (O' mod R) + r mod R = ((q * (O' mod R) + r mod R) div R) * R + (q * O' + r) mod R"
    unfolding sum mod_mult_self1 by simp
  show "q * (O' div R) + r div R + (q * (O' mod R) + r mod R) div R = (q * O' + r) div R"
    unfolding sum using assms by (subst div_mult_self1) simp_all
qed

text \<open>
  C27. A response verifies: with the curve's addition and multiplication, the recombined response
  times the generator is the announcement plus the challenge times the public key; quotient and
  remainder are those of the challenge by the order; and the carry is the one with which the
  quotient times the order plus the remainder is the challenge, limb by limb.
\<close>

theorem approval_verifies:
  assumes "\<forall>a b. ecMulGenerator rt ((a + b) mod ORDER) = ecAdd (ecMulGenerator rt a) (ecMulGenerator rt b)"
    and "\<forall>n a. ecMulGenerator rt ((n * a) mod ORDER) = ecMul (ecMulGenerator rt a) n"
    and "a = signApproval rt k r nonce message"
    and "h = challenge rt message (ap_rolePublicKey a) (ap_announcement a)"
  shows "ecMulGenerator rt (snd (ap_response a) * RADIX + fst (ap_response a)) =
      ecAdd (ap_announcement a) (ecMul (ap_rolePublicKey a) (h mod ORDER)) \<and>
    0 \<le> fst (ap_response a) \<and> snd (ap_response a) * RADIX + fst (ap_response a) < ORDER \<and>
    h = ap_challengeQuotient a * ORDER + (snd (ap_challengeRemainder a) * RADIX + fst (ap_challengeRemainder a)) \<and>
    ap_challengeQuotient a * (ORDER mod RADIX) + fst (ap_challengeRemainder a) = ap_challengeCarry a * RADIX + fst (ap_challengeWords a) \<and>
    ap_challengeQuotient a * (ORDER div RADIX) + snd (ap_challengeRemainder a) + ap_challengeCarry a = snd (ap_challengeWords a)"
proof -
  let ?R = "(r + h mod ORDER * k) mod ORDER"
  have h: "h = challenge rt message (ecMulGenerator rt k) (ecMulGenerator rt r)"
    using assms(3,4) by (simp add: signApproval_def Let_def)
  have a: "a = \<lparr>ap_rolePublicKey = ecMulGenerator rt k, ap_announcement = ecMulGenerator rt r, ap_response = words ?R,
      ap_authorizationNonce = nonce, ap_challengeQuotient = h div ORDER, ap_challengeRemainder = words (h mod ORDER),
      ap_challengeWords = words h, ap_challengeCarry = (h div ORDER * (ORDER mod RADIX) + h mod ORDER mod RADIX) div RADIX\<rparr>"
    using assms(3) h by (simp add: signApproval_def Let_def)
  have pos: "0 < ORDER" "0 < RADIX" by (simp_all add: ORDER_def RADIX_def)
  have "ecMulGenerator rt ?R = ecAdd (ecMulGenerator rt r) (ecMulGenerator rt ((h mod ORDER * k) mod ORDER))"
    using assms(1) by (metis mod_add_right_eq)
  then have "ecMulGenerator rt ?R = ecAdd (ecMulGenerator rt r) (ecMul (ecMulGenerator rt k) (h mod ORDER))"
    using assms(2) by simp
  then show ?thesis
    using pos carry_limbs [OF pos(2), of "h div ORDER" ORDER "h mod ORDER"] words_join [of ?R] words_join [of "h mod ORDER"]
    by (simp add: a words_def)
qed

lemma approval_verifies_witness:
  "ecMulGenerator (agent_demo_signer_world (\<lambda>_. Done)) (snd (ap_response (signApproval (agent_demo_signer_world (\<lambda>_. Done)) 11 13 [] [])) * RADIX +
      fst (ap_response (signApproval (agent_demo_signer_world (\<lambda>_. Done)) 11 13 [] []))) =
    (13 + 7 * 11) mod ORDER"
  using approval_verifies [of "agent_demo_signer_world (\<lambda>_. Done)" "\<lambda>a b. (a + b) mod ORDER" "\<lambda>a n. (n * a) mod ORDER", OF _ _ refl refl, of 11 13 "[]" "[]"]
  by (simp add: agent_demo_signer_world_def signApproval_def challenge_def Let_def mod_simps ORDER_def)

section \<open>Custody\<close>

text \<open>
  C28. One signer at a time: in every history at most one signer of the directory is not closed, its
  process is alive and holds the lock; while it is usable its memory is what the file says; and after
  a write whose outcome is uncertain it approves nothing and changes nothing until it is reopened.
\<close>

theorem one_signer:
  assumes "signer_world_ok w" and "s = signer_history w c es emptyDirectory"
    and "sy_handles s p = Some g" and "\<not> sg_closed g"
  shows "sy_lock s = Some p \<and> p \<in> sy_alive s \<and> (\<forall>q h. sy_handles s q = Some h \<and> \<not> sg_closed h \<longrightarrow> q = p) \<and>
    (if sg_uncertain g
     then approve w c p i d s = (Inl (Threw ''Signer must be reopened after closure or uncertain persistence.''), s)
     else Option.bind (sy_file s) (envelopeState w c) = Some (sg_state g))"
proof -
  have inv: "signer_inv w c s" using signer_reachable assms(1,2) by blast
  have here: "signer_here w c (sy_lock s) (sy_alive s) (sy_file s) p g" using inv_parts(3) [OF inv assms(3)] .
  then have "\<forall>q h. sy_handles s q = Some h \<and> \<not> sg_closed h \<longrightarrow> q = p"
    using others_closed [OF inv] assms(4) by (auto simp: signer_here_def)
  then show ?thesis
    using here assms(3,4) by (simp add: signer_here_def approve_def liveSigner_def effect_defs throw_def)
qed

lemma one_signer_witness:
  "Option.bind (sy_file (signer_history (agent_demo_signer_world (\<lambda>_. Done)) agent_demo_signer agent_demo_purchase emptyDirectory))
     (envelopeState (agent_demo_signer_world (\<lambda>_. Done)) agent_demo_signer) = Some agent_demo_final_state"
proof -
  let ?s = "signer_history (agent_demo_signer_world (\<lambda>_. Done)) agent_demo_signer agent_demo_purchase emptyDirectory"
  have "sy_handles ?s 1 = Some (agent_demo_handle agent_demo_final_state)"
    by (simp add: agent_demo_purchase_eq agent_demo_approves del: One_nat_def)
  from one_signer [OF agent_demo_world_ok refl this] show ?thesis by (simp add: agent_demo_handle_def)
qed





end
