(* ===== verification/Checkpoint_Store.thy ===== *)
theory Checkpoint_Store
  imports Effects Vault_Facts "HOL-Library.AList"
begin

text \<open>
  The encrypted checkpoint files of \<open>server/checkout-storage.ts\<close>: one file per evaluation, written to
  a temporary file, forced to disk and renamed, and read back all together. Each file operation has a
  fate of its own, so that a crash or an error leaves what was written by then. JSON text, scrypt and
  AES-GCM are parameters; a file is what its text parses to, or nothing readable. The holder of the
  directory's lease runs alone.
\<close>

section \<open>Files\<close>

record 'c checkpoint_envelope =
  ce_format :: jsstr
  ce_id :: jsstr
  ce_binding :: jsstr
  ce_salt :: bytes
  ce_iv :: bytes
  ce_sealed :: 'c

record 'c store_world =
  cw_fate :: "nat \<Rightarrow> fate"
  cw_torn :: "nat \<Rightarrow> bool"
  cw_random :: "nat \<Rightarrow> nat \<Rightarrow> bytes"
  cw_uuid :: "nat \<Rightarrow> jsstr"
  cw_seal :: "jsstr \<Rightarrow> bytes \<Rightarrow> bytes \<Rightarrow> jsstr \<Rightarrow> jsval \<Rightarrow> 'c"
  cw_open :: "jsstr \<Rightarrow> bytes \<Rightarrow> bytes \<Rightarrow> jsstr \<Rightarrow> 'c \<Rightarrow> jsval option"
  cw_size :: "'c checkpoint_envelope \<Rightarrow> nat"

record 'c checkpoint_store =
  cs_password :: jsstr
  cs_binding :: jsstr
  cs_closed :: bool
  cs_files :: "(jsstr \<times> 'c checkpoint_envelope option) list"
  cs_clock :: nat

type_synonym ('c, 'a) cs = "('c checkpoint_store, halt, 'a) effect"

definition CHECKPOINT_FORMAT :: jsstr where "CHECKPOINT_FORMAT = js ''line:checkout-checkpoint/v1''"

definition MAX_FILE :: nat where "MAX_FILE = 4000000"

text \<open>\<open>SESSION_ID\<close>: groups of 8, 4, 4, 4 and 12 lower-case hexadecimal digits.\<close>

definition SESSION_ID :: "jsstr \<Rightarrow> bool" where
  "SESSION_ID s \<longleftrightarrow> length s = 36 \<and>
     list_all (\<lambda>n. if n \<in> {8, 13, 18, 23} then s ! n = 45 else is_lower_hex (s ! n)) [0..<36]"

definition checkpoint_suffix :: jsstr where "checkpoint_suffix = js ''.checkpoint''"

definition checkpointName :: "jsstr \<Rightarrow> jsstr" where
  "checkpointName i = i @ checkpoint_suffix"

definition is_checkpoint :: "jsstr \<Rightarrow> bool" where
  "is_checkpoint f \<longleftrightarrow> length f \<ge> length checkpoint_suffix \<and> drop (length f - length checkpoint_suffix) f = checkpoint_suffix"

definition checkpointId :: "jsstr \<Rightarrow> jsstr" where
  "checkpointId f = take (length f - length checkpoint_suffix) f"

definition temporaryName :: "jsstr \<Rightarrow> jsstr \<Rightarrow> jsstr" where
  "temporaryName i uuid = js ''.'' @ i @ js ''.'' @ uuid @ js ''.tmp''"

definition checkpoint_aad :: "jsstr \<Rightarrow> jsstr \<Rightarrow> jsstr" where
  "checkpoint_aad i binding = CHECKPOINT_FORMAT @ [0] @ i @ [0] @ binding"

definition checkFile :: "jsstr \<Rightarrow> ('c, unit) cs" where
  "checkFile i =
     bindM (getM cs_closed) (\<lambda>closed.
     unlessM (\<not> closed \<and> SESSION_ID i) (Threw ''Checkout checkpoint store is closed or session ID is invalid.''))"

text \<open>A file operation at its moment.\<close>

definition fileM :: "'c store_world \<Rightarrow>
    (nat \<Rightarrow> bool \<Rightarrow> (jsstr \<times> 'c checkpoint_envelope option) list \<Rightarrow> (jsstr \<times> 'c checkpoint_envelope option) list) \<Rightarrow> ('c, unit) cs" where
  "fileM w change s =
     (let n = cs_clock s; t = s\<lparr>cs_clock := n + 1\<rparr> in
      case cw_fate w n of
        Done \<Rightarrow> (Inr (), t\<lparr>cs_files := change n True (cs_files s)\<rparr>)
      | Failed \<Rightarrow> (Inl (Threw ''io''), t)
      | FailedAfter \<Rightarrow> (Inl (Threw ''io''), t\<lparr>cs_files := change n False (cs_files s)\<rparr>)
      | CrashBefore \<Rightarrow> (Inl Crashed, t)
      | CrashAfter \<Rightarrow> (Inl Crashed, t\<lparr>cs_files := change n False (cs_files s)\<rparr>))"

section \<open>Saving\<close>

text \<open>Opening exclusively, writing and syncing the temporary file; it may be cut short.\<close>

definition writeTemporary :: "'c store_world \<Rightarrow> jsstr \<Rightarrow> 'c checkpoint_envelope \<Rightarrow> ('c, unit) cs" where
  "writeTemporary w tmp e =
     bindM (getM (\<lambda>s. tmp \<in> fst ` set (cs_files s))) (\<lambda>present.
     bindM (unlessM (\<not> present) (Threw ''EEXIST'')) (\<lambda>_.
     fileM w (\<lambda>n done fs. AList.update tmp (if done \<or> \<not> cw_torn w n then Some e else None) fs)))"

definition renameTemporary :: "'c store_world \<Rightarrow> jsstr \<Rightarrow> jsstr \<Rightarrow> 'c checkpoint_envelope \<Rightarrow> ('c, unit) cs" where
  "renameTemporary w tmp destination e =
     fileM w (\<lambda>n done fs. AList.update destination (Some e) (AList.delete tmp fs))"

definition syncDirectory :: "'c store_world \<Rightarrow> ('c, unit) cs" where
  "syncDirectory w = fileM w (\<lambda>n done fs. fs)"

definition removeFile :: "'c store_world \<Rightarrow> jsstr \<Rightarrow> ('c, unit) cs" where
  "removeFile w name = fileM w (\<lambda>n done fs. AList.delete name fs)"

definition sealCheckpoint :: "'c store_world \<Rightarrow> nat \<Rightarrow> 'c checkpoint_store \<Rightarrow> jsstr \<Rightarrow> jsval \<Rightarrow> 'c checkpoint_envelope" where
  "sealCheckpoint w n s i doc = \<lparr>ce_format = CHECKPOINT_FORMAT, ce_id = i, ce_binding = cs_binding s,
     ce_salt = cw_random w n 16, ce_iv = cw_random w n 12,
     ce_sealed = cw_seal w (cs_password s) (cw_random w n 16) (cw_random w n 12) (checkpoint_aad i (cs_binding s)) doc\<rparr>"

text \<open>Up to the rename a failure means the old checkpoint stands; after it the outcome is uncertain.\<close>

definition publishCheckpoint :: "'c store_world \<Rightarrow> jsstr \<Rightarrow> jsstr \<Rightarrow> 'c checkpoint_envelope \<Rightarrow> ('c, unit) cs" where
  "publishCheckpoint w tmp destination e =
     finallyM
       (bindM (handleM (bindM (writeTemporary w tmp e) (\<lambda>_. renameTemporary w tmp destination e))
          (\<lambda>_. throw ''Checkout checkpoint could not be committed.'')) (\<lambda>_.
        handleM (syncDirectory w)
          (\<lambda>_. throw ''Checkpoint publication is uncertain; restart and recover before further work.'')))
       (removeFile w tmp)"

definition saveCheckpoint :: "'c store_world \<Rightarrow> jsstr \<Rightarrow> jsval \<Rightarrow> ('c, unit) cs" where
  "saveCheckpoint w i snapshot =
     bindM (checkFile i) (\<lambda>_.
     bindM (case encodeVaultJson snapshot of Inl e \<Rightarrow> throw ''codec'' | Inr doc \<Rightarrow> pureM doc) (\<lambda>doc.
     bindM (getM (\<lambda>s. sealCheckpoint w (cs_clock s) s i doc)) (\<lambda>e.
     bindM (getM cs_clock) (\<lambda>n.
     bindM (unlessM (cw_size w e \<le> MAX_FILE) (Threw ''Checkout checkpoint exceeds storage bounds.'')) (\<lambda>_.
     publishCheckpoint w (temporaryName i (cw_uuid w n)) (checkpointName i) e)))))"

section \<open>Loading and removing\<close>

definition openCheckpoint :: "'c store_world \<Rightarrow> 'c checkpoint_store \<Rightarrow> jsstr \<Rightarrow> 'c checkpoint_envelope option \<Rightarrow> jsval option" where
  "openCheckpoint w s i file = (case file of
     None \<Rightarrow> None
   | Some e \<Rightarrow>
       if ce_format e \<noteq> CHECKPOINT_FORMAT \<or> ce_id e \<noteq> i \<or> ce_binding e \<noteq> cs_binding s \<or>
          length (ce_salt e) \<noteq> 16 \<or> length (ce_iv e) \<noteq> 12 then None
       else (case cw_open w (cs_password s) (ce_salt e) (ce_iv e) (checkpoint_aad i (cs_binding s)) (ce_sealed e) of
           None \<Rightarrow> None
         | Some doc \<Rightarrow> (case decodeVaultJson doc of Inl _ \<Rightarrow> None | Inr v \<Rightarrow> Some v)))"

definition file_fits :: "'c store_world \<Rightarrow> 'c checkpoint_envelope option \<Rightarrow> bool" where
  "file_fits w file \<longleftrightarrow> (case file of None \<Rightarrow> True | Some e \<Rightarrow> cw_size w e \<le> MAX_FILE)"

fun loadFiles :: "'c store_world \<Rightarrow> 'c checkpoint_store \<Rightarrow> (jsstr \<times> 'c checkpoint_envelope option) list \<Rightarrow> string + jsval list" where
  "loadFiles w s [] = Inr []"
| "loadFiles w s ((name, file) # fs) =
     (if cs_closed s \<or> \<not> SESSION_ID (checkpointId name)
      then Inl ''Checkout checkpoint store is closed or session ID is invalid.''
      else if \<not> file_fits w file then Inl ''Unsafe checkout checkpoint file.''
      else case openCheckpoint w s (checkpointId name) file of
          None \<Rightarrow> Inl ''Checkout recovery rejected an unauthenticated or incompatible checkpoint.''
        | Some v \<Rightarrow> (case loadFiles w s fs of Inl m \<Rightarrow> Inl m | Inr vs \<Rightarrow> Inr (v # vs)))"

definition loadAll :: "'c store_world \<Rightarrow> 'c checkpoint_store \<Rightarrow> string + jsval list" where
  "loadAll w s =
     (if cs_closed s then Inl ''Checkout checkpoint store is closed.''
      else let fs = filter (\<lambda>f. is_checkpoint (fst f)) (cs_files s) in
        if length fs > 20 then Inl ''Checkout checkpoint capacity exceeded.'' else loadFiles w s fs)"

definition removeCheckpoint :: "'c store_world \<Rightarrow> jsstr \<Rightarrow> ('c, unit) cs" where
  "removeCheckpoint w i =
     bindM (checkFile i) (\<lambda>_. bindM (removeFile w (checkpointName i)) (\<lambda>_. syncDirectory w))"

text \<open>\<open>close\<close>, apart from the lease, and the reopening of the directory by the same owner.\<close>

definition closeStore :: "('c, unit) cs" where
  "closeStore = updateM (\<lambda>s. s\<lparr>cs_closed := True\<rparr>)"

text \<open>The entries \<open>openBound\<close> tolerates in the directory, apart from the lease and the recovery guard.\<close>

definition hex_dashes :: "jsstr \<Rightarrow> bool" where
  "hex_dashes s \<longleftrightarrow> length s = 36 \<and> list_all (\<lambda>c. is_lower_hex c \<or> c = 45) s"

definition dedicated_entry :: "jsstr \<Rightarrow> bool" where
  "dedicated_entry f \<longleftrightarrow>
     (is_checkpoint f \<and> hex_dashes (checkpointId f)) \<or>
     (length f = 78 \<and> f ! 0 = 46 \<and> hex_dashes (take 36 (drop 1 f)) \<and> f ! 37 = 46 \<and>
        hex_dashes (take 36 (drop 38 f)) \<and> drop 74 f = js ''.tmp'')"

definition openBound :: "jsstr \<Rightarrow> jsstr \<Rightarrow> (jsstr \<times> 'c checkpoint_envelope option) list \<Rightarrow> nat \<Rightarrow> string + 'c checkpoint_store" where
  "openBound password binding files clock =
     (if \<not> (length binding = 64 \<and> list_all is_lower_hex binding) then Inl ''Checkpoint binding must be a provenance digest.''
      else if length password < 16 then Inl ''Checkout storage password must contain at least 16 characters.''
      else if \<not> list_all (\<lambda>f. dedicated_entry (fst f)) files
        then Inl ''Checkout storage must be a dedicated directory without unrelated files.''
      else Inr \<lparr>cs_password = password, cs_binding = binding, cs_closed = False, cs_files = files, cs_clock = clock\<rparr>)"

section \<open>Histories\<close>

datatype store_call = SaveCall jsstr jsval | RemoveCall jsstr

definition store_run :: "'c store_world \<Rightarrow> store_call \<Rightarrow> ('c, unit) cs" where
  "store_run w c = (case c of SaveCall i v \<Rightarrow> saveCheckpoint w i v | RemoveCall i \<Rightarrow> removeCheckpoint w i)"

definition store_history :: "'c store_world \<Rightarrow> store_call list \<Rightarrow> 'c checkpoint_store \<Rightarrow> 'c checkpoint_store" where
  "store_history w cs s = fold (\<lambda>c t. snd (store_run w c t)) cs s"

end
