(* ===== verification/Checkpoint_Facts.thy ===== *)
theory Checkpoint_Facts
  imports Checkpoint_Store
begin

text \<open>
  What the checkpoint files mean: a map from identifiers to snapshots. Every file operation keeps the
  files readable, and changes at most the meaning of the identifier it is about.
\<close>

section \<open>Names\<close>

lemma checkpointId_name [simp]: "checkpointId (checkpointName i) = i" "is_checkpoint (checkpointName i)"
  by (simp_all add: checkpointId_def checkpointName_def is_checkpoint_def)

lemma is_checkpoint_name: "is_checkpoint f \<Longrightarrow> checkpointName (checkpointId f) = f"
  unfolding is_checkpoint_def checkpointName_def checkpointId_def by (metis append_take_drop_id)

lemma checkpointName_inject [simp]: "checkpointName i = checkpointName j \<longleftrightarrow> i = j"
  by (simp add: checkpointName_def)

lemma temporary_not_checkpoint [simp]:
  "temporaryName i u \<noteq> checkpointName j" "checkpointName j \<noteq> temporaryName i u" "\<not> is_checkpoint (temporaryName i u)"
proof -
  have ends: "last (temporaryName i u) = 112" "last (checkpointName j) = 116" for j
    by (simp_all add: temporaryName_def checkpointName_def checkpoint_suffix_def js_def)
  have other: "temporaryName i u \<noteq> checkpointName j" for j
  proof
    assume "temporaryName i u = checkpointName j"
    then have "(112 :: 16 word) = 116" using ends by metis
    then show False by simp
  qed
  show "temporaryName i u \<noteq> checkpointName j" "checkpointName j \<noteq> temporaryName i u" using other by metis+
  show "\<not> is_checkpoint (temporaryName i u)" using is_checkpoint_name [of "temporaryName i u"] other by metis
qed

section \<open>Meaning\<close>

definition store_world_ok :: "'c store_world \<Rightarrow> bool" where
  "store_world_ok w \<longleftrightarrow> (\<forall>p s iv a d. cw_open w p s iv a (cw_seal w p s iv a d) = Some d) \<and> (\<forall>n k. length (cw_random w n k) = k)"

definition contents :: "'c store_world \<Rightarrow> 'c checkpoint_store \<Rightarrow> jsstr \<Rightarrow> jsval option" where
  "contents w s i = Option.bind (map_of (cs_files s) (checkpointName i)) (openCheckpoint w s i)"

text \<open>Every checkpoint file is whole and loads.\<close>

definition store_inv :: "'c store_world \<Rightarrow> 'c checkpoint_store \<Rightarrow> bool" where
  "store_inv w s \<longleftrightarrow> distinct (map fst (cs_files s)) \<and>
     (\<forall>i file. map_of (cs_files s) (checkpointName i) = Some file \<longrightarrow>
        SESSION_ID i \<and> file_fits w file \<and> openCheckpoint w s i file \<noteq> None)"

lemma openCheckpoint_cong: "cs_password s = cs_password t \<Longrightarrow> cs_binding s = cs_binding t \<Longrightarrow> openCheckpoint w s = openCheckpoint w t"
  by (simp add: openCheckpoint_def fun_eq_iff split: option.split)

lemma open_sealed:
  assumes "store_world_ok w" and "encodeVaultJson v = Inr doc" and "wf_val v"
  shows "openCheckpoint w s i (Some (sealCheckpoint w n s i doc)) = Some v"
  using assms by (simp add: openCheckpoint_def sealCheckpoint_def store_world_ok_def vault_encode_decode)

text \<open>
  What a run may do to the store: nothing but the files and the clock, files stay readable, and only
  the checkpoint of \<open>i\<close> may have become one of \<open>allowed\<close>.
\<close>

definition touches :: "'c store_world \<Rightarrow> jsstr \<times> jsstr \<Rightarrow> jsstr \<Rightarrow> jsval option set \<Rightarrow> 'c checkpoint_store \<Rightarrow> 'c checkpoint_store \<Rightarrow> bool" where
  "touches w own i allowed s t \<longleftrightarrow> cs_password t = cs_password s \<and> cs_binding t = cs_binding s \<and> cs_closed t = cs_closed s \<and>
     (store_inv w s \<and> own = (cs_password s, cs_binding s) \<longrightarrow> store_inv w t \<and> (\<forall>j. j \<noteq> i \<longrightarrow> contents w t j = contents w s j) \<and>
        (contents w t i = contents w s i \<or> contents w t i \<in> allowed))"

interpretation touching: state_order "touches w own i allowed"
proof unfold_locales
  fix s t u
  show "touches w own i allowed s s" by (simp add: touches_def)
  assume "touches w own i allowed s t" and "touches w own i allowed t u"
  then show "touches w own i allowed s u" by (auto simp: touches_def)
qed

text \<open>A change of the files that leaves the checkpoints alone, or sets or removes the one of \<open>i\<close>.\<close>

lemma touches_files:
  assumes "distinct (map fst (cs_files s)) \<Longrightarrow> distinct (map fst fs)"
    and "\<And>j. own = (cs_password s, cs_binding s) \<Longrightarrow> map_of fs (checkpointName j) = map_of (cs_files s) (checkpointName j) \<or>
      j = i \<and> (case map_of fs (checkpointName i) of None \<Rightarrow> None \<in> allowed
        | Some file \<Rightarrow> SESSION_ID i \<and> file_fits w file \<and> openCheckpoint w s i file \<noteq> None \<and> openCheckpoint w s i file \<in> allowed)"
  shows "touches w own i allowed s (s\<lparr>cs_clock := n, cs_files := fs\<rparr>)"
proof -
  have same: "openCheckpoint w (s\<lparr>cs_clock := n, cs_files := fs\<rparr>) = openCheckpoint w s"
    by (rule openCheckpoint_cong) simp_all
  show ?thesis
  proof (unfold touches_def, intro conjI impI allI)
    assume "store_inv w s \<and> own = (cs_password s, cs_binding s)"
    then have inv: "store_inv w s" and own: "own = (cs_password s, cs_binding s)" by simp_all
    show "store_inv w (s\<lparr>cs_clock := n, cs_files := fs\<rparr>)"
      unfolding store_inv_def same
    proof (intro conjI allI impI)
      fix j f assume f: "map_of (cs_files (s\<lparr>cs_clock := n, cs_files := fs\<rparr>)) (checkpointName j) = Some f"
      show "SESSION_ID j" "file_fits w f" "openCheckpoint w s j f \<noteq> None"
        using assms(2) [OF own, of j] f inv by (auto simp: store_inv_def)
    qed (use assms(1) inv in \<open>simp add: store_inv_def\<close>)
    show "contents w (s\<lparr>cs_clock := n, cs_files := fs\<rparr>) j = contents w s j" if "j \<noteq> i" for j
      using assms(2) [OF own, of j] that by (simp add: contents_def same)
    show "contents w (s\<lparr>cs_clock := n, cs_files := fs\<rparr>) i = contents w s i \<or> contents w (s\<lparr>cs_clock := n, cs_files := fs\<rparr>) i \<in> allowed"
      using assms(2) [OF own, of i]
      by (cases "map_of fs (checkpointName i) = map_of (cs_files s) (checkpointName i)")
        (auto simp: contents_def same split: option.splits)
  qed simp_all
qed

lemma file_moves:
  assumes "\<And>n done s. touches w own i allowed s (s\<lparr>cs_clock := n + 1, cs_files := change n done (cs_files s)\<rparr>)"
  shows "moves (touches w own i allowed) (fileM w change)"
proof -
  have clock: "touches w own i allowed s (s\<lparr>cs_clock := n\<rparr>)" for s n
    using touches_files [of s "cs_files s" own i allowed w n] by simp
  have "touches w own i allowed s (snd (fileM w change s))" for s
    using assms [of s "cs_clock s"] clock [of s "cs_clock s + 1"] by (simp add: fileM_def Let_def split: fate.split)
  then show ?thesis by (simp add: moves_def)
qed

lemma temporary_moves:
  "moves (touches w own i allowed) (fileM w (\<lambda>n done fs. AList.update (temporaryName j u) (f n done) fs))"
  "moves (touches w own i allowed) (fileM w (\<lambda>n done fs. AList.delete (temporaryName j u) fs))"
  by (rule file_moves, rule touches_files; simp add: update_conv' distinct_update distinct_delete delete_conv')+

lemma handle_moves: "moves (touches w own i allowed) m \<Longrightarrow> (\<And>x. moves (touches w own i allowed) (h x)) \<Longrightarrow> moves (touches w own i allowed) (handleM m h)"
  unfolding handleM_def by (intro touching.moves_catch) (auto intro: touching.moves_stop split: halt.split)

lemma finally_moves: "moves (touches w own i allowed) m \<Longrightarrow> moves (touches w own i allowed) f \<Longrightarrow> moves (touches w own i allowed) (finallyM m f)"
  unfolding finallyM_def throw_def by (intro touching.moves_bind handle_moves touching.moves_rules) simp_all

lemma rename_moves:
  assumes "SESSION_ID i" and "file_fits w (Some e)" and "v \<in> allowed"
    and "\<And>s. own = (cs_password s, cs_binding s) \<Longrightarrow> openCheckpoint w s i (Some e) = v \<and> v \<noteq> None"
  shows "moves (touches w own i allowed) (renameTemporary w (temporaryName i u) (checkpointName i) e)"
  unfolding renameTemporary_def
  by (rule file_moves, rule touches_files)
    (use assms in \<open>auto simp: update_conv' distinct_update distinct_delete delete_conv'\<close>)

lemma throw_moves: "moves (touches w own i allowed) (throw m)"
  by (simp add: throw_def touching.moves_stop)

lemma publish_moves:
  assumes "SESSION_ID i" and "file_fits w (Some e)" and "v \<in> allowed"
    and "\<And>s. own = (cs_password s, cs_binding s) \<Longrightarrow> openCheckpoint w s i (Some e) = v \<and> v \<noteq> None"
  shows "moves (touches w own i allowed) (publishCheckpoint w (temporaryName i u) (checkpointName i) e)"
proof -
  have "moves (touches w own i allowed) (writeTemporary w (temporaryName i u) e)"
    unfolding writeTemporary_def by (intro touching.moves_bind touching.moves_get touching.moves_unless temporary_moves)
  moreover have "moves (touches w own i allowed) (syncDirectory w)"
    unfolding syncDirectory_def by (rule file_moves, rule touches_files) simp_all
  moreover have "moves (touches w own i allowed) (removeFile w (temporaryName i u))"
    unfolding removeFile_def by (rule temporary_moves)
  ultimately show ?thesis
    unfolding publishCheckpoint_def
    by (intro finally_moves touching.moves_bind handle_moves throw_moves rename_moves [OF assms])
qed

lemma save_touches:
  assumes w: "store_world_ok w" and v: "wf_val v" and run: "saveCheckpoint w i v s = (r, t)"
  shows "touches w (cs_password s, cs_binding s) i {Some v} s t"
proof (cases "encodeVaultJson v")
  case (Inl e)
  then have "t = s" using run by (auto simp: saveCheckpoint_def checkFile_def throw_def effect_defs split: if_splits)
  then show ?thesis by (simp add: touching.rel_refl)
next
  case (Inr doc)
  let ?e = "sealCheckpoint w (cs_clock s) s i doc"
  show ?thesis
  proof (cases "\<not> cs_closed s \<and> SESSION_ID i \<and> cw_size w ?e \<le> MAX_FILE")
    case False
    then have "t = s" using run Inr by (auto simp: saveCheckpoint_def checkFile_def effect_defs split: if_splits)
    then show ?thesis by (simp add: touching.rel_refl)
  next
    case True
    have "openCheckpoint w s' i (Some ?e) = Some v" if "(cs_password s, cs_binding s) = (cs_password s', cs_binding s')" for s'
      using open_sealed [OF w Inr v, of s i "cs_clock s"] openCheckpoint_cong [of s s' w] that by simp
    then have "moves (touches w (cs_password s, cs_binding s) i {Some v})
        (publishCheckpoint w (temporaryName i (cw_uuid w (cs_clock s))) (checkpointName i) ?e)"
      using True by (intro publish_moves) (auto simp: file_fits_def)
    moreover have "publishCheckpoint w (temporaryName i (cw_uuid w (cs_clock s))) (checkpointName i) ?e s = (r, t)"
      using run Inr True by (simp add: saveCheckpoint_def checkFile_def effect_defs)
    ultimately show ?thesis by (rule movesD)
  qed
qed

lemma remove_touches:
  assumes "removeCheckpoint w i s = (r, t)"
  shows "touches w (cs_password s, cs_binding s) i {None} s t"
proof -
  have "moves (touches w own i {None}) (removeCheckpoint w i)" for own
    unfolding removeCheckpoint_def checkFile_def removeFile_def syncDirectory_def
    by (intro touching.moves_bind touching.moves_get touching.moves_unless; rule file_moves, rule touches_files)
      (auto simp: distinct_delete delete_conv')
  then show ?thesis using assms by (rule movesD)
qed

section \<open>Loading\<close>

lemma loadFiles_ok:
  assumes "\<not> cs_closed s" and "\<forall>(name, f) \<in> set fs. SESSION_ID (checkpointId name) \<and> file_fits w f \<and> openCheckpoint w s (checkpointId name) f \<noteq> None"
  shows "loadFiles w s fs = Inr (map (\<lambda>(name, f). the (openCheckpoint w s (checkpointId name) f)) fs)"
  using assms by (induction fs) auto

lemma loadAll_ok:
  assumes "\<not> cs_closed s" and "store_inv w s"
  shows "loadAll w s = (if length (filter (\<lambda>f. is_checkpoint (fst f)) (cs_files s)) > 20
    then Inl ''Checkout checkpoint capacity exceeded.''
    else Inr (map (\<lambda>(name, f). the (openCheckpoint w s (checkpointId name) f)) (filter (\<lambda>f. is_checkpoint (fst f)) (cs_files s))))"
proof -
  have "SESSION_ID (checkpointId name) \<and> file_fits w f \<and> openCheckpoint w s (checkpointId name) f \<noteq> None"
    if "(name, f) \<in> set (cs_files s)" "is_checkpoint name" for name f
    using assms(2) that is_checkpoint_name [of name] by (metis map_of_is_SomeI store_inv_def)
  then have "loadFiles w s (filter (\<lambda>f. is_checkpoint (fst f)) (cs_files s)) =
      Inr (map (\<lambda>(name, f). the (openCheckpoint w s (checkpointId name) f)) (filter (\<lambda>f. is_checkpoint (fst f)) (cs_files s)))"
    by (intro loadFiles_ok [OF assms(1)]) auto
  then show ?thesis using assms(1) by (simp add: loadAll_def)
qed

section \<open>Success\<close>

lemma handle_throws: "handleM m (\<lambda>_. throw x) s = (Inr a, t) \<longleftrightarrow> m s = (Inr a, t)"
  by (auto simp: handleM_def throw_def effect_defs split: prod.splits sum.splits halt.splits)

lemma bind_Inr: "bindM m f s = (Inr b, t) \<longleftrightarrow> (\<exists>a u. m s = (Inr a, u) \<and> f a u = (Inr b, t))"
  by (auto simp: bindM_def split: prod.splits sum.splits)

lemma finally_Inr: "finallyM m f s = (Inr a, t) \<longleftrightarrow> (\<exists>u. m s = (Inr a, u) \<and> f u = (Inr (), t))"
proof -
  have caught: "(case e of Threw x \<Rightarrow> bindM f (\<lambda>_. throw x) | Crashed \<Rightarrow> stopM Crashed) u = (Inr b, v) \<longleftrightarrow> False" for e u b v
    by (cases e) (auto simp: throw_def effect_defs split: prod.split sum.split)
  show ?thesis
    by (auto simp: finallyM_def handleM_def bind_Inr catchM_def pureM_def caught split: prod.splits sum.splits)
qed

lemma unless_Inr: "unlessM b x s = (Inr (), t) \<longleftrightarrow> b \<and> t = s"
  by (auto simp: unlessM_def pureM_def stopM_def)

lemma file_Inr: "fileM w change s = (Inr (), t) \<longleftrightarrow>
    cw_fate w (cs_clock s) = Done \<and> t = s\<lparr>cs_clock := cs_clock s + 1, cs_files := change (cs_clock s) True (cs_files s)\<rparr>"
  by (auto simp: fileM_def Let_def split: fate.split)

lemma save_done:
  assumes w: "store_world_ok w" and v: "wf_val v" and run: "saveCheckpoint w i v s = (Inr (), t)"
  shows "contents w t i = Some v"
proof -
  obtain doc where doc: "encodeVaultJson v = Inr doc" and ready: "\<not> cs_closed s \<and> SESSION_ID i"
    and publish: "publishCheckpoint w (temporaryName i (cw_uuid w (cs_clock s))) (checkpointName i) (sealCheckpoint w (cs_clock s) s i doc) s = (Inr (), t)"
    using run by (auto simp: saveCheckpoint_def checkFile_def throw_def effect_defs split: sum.splits if_splits)
  have "map_of (cs_files t) (checkpointName i) = Some (Some (sealCheckpoint w (cs_clock s) s i doc)) \<and>
      cs_password t = cs_password s \<and> cs_binding t = cs_binding s"
    using publish
    by (auto simp: publishCheckpoint_def finally_Inr bind_Inr handle_throws writeTemporary_def renameTemporary_def syncDirectory_def
        removeFile_def file_Inr getM_def unless_Inr update_conv' delete_conv')
  then show ?thesis
    using open_sealed [OF w doc v, of s i "cs_clock s"] openCheckpoint_cong [of t s w] by (simp add: contents_def)
qed

lemma remove_done:
  assumes "removeCheckpoint w i s = (Inr (), t)"
  shows "contents w t i = None"
  using assms
  by (auto simp: removeCheckpoint_def checkFile_def bind_Inr removeFile_def syncDirectory_def file_Inr contents_def delete_conv')

section \<open>Names in the directory\<close>

definition named :: "'c checkpoint_store \<Rightarrow> bool" where
  "named s \<longleftrightarrow> list_all (\<lambda>f. dedicated_entry (fst f)) (cs_files s)"

interpretation naming: state_order "\<lambda>s t. named s \<longrightarrow> named t"
  by unfold_locales auto

lemma session_id_dashes:
  assumes "SESSION_ID i"
  shows "hex_dashes i"
proof -
  have i: "length i = 36" and digits: "\<forall>n \<in> set [0..<36]. if n \<in> {8, 13, 18, 23} then i ! n = 45 else is_lower_hex (i ! n)"
    using assms unfolding SESSION_ID_def list_all_iff by blast+
  have "is_lower_hex (i ! n) \<or> i ! n = 45" if "n < length i" for n
    using bspec [OF digits, of n] that by (cases "n \<in> {8, 13, 18, 23}") (auto simp only: i set_upt atLeastLessThan_iff if_True if_False le0)
  then show ?thesis using i unfolding hex_dashes_def list_all_length by blast
qed

lemma dedicated_names:
  assumes "hex_dashes i" and "hex_dashes u"
  shows "dedicated_entry (checkpointName i)" and "dedicated_entry (temporaryName i u)"
proof -
  show "dedicated_entry (checkpointName i)" using assms(1) by (simp add: dedicated_entry_def)
  have "length i = 36" "length u = 36" using assms by (simp_all add: hex_dashes_def)
  then have "take 36 (drop 1 (temporaryName i u)) = i" "take 36 (drop 38 (temporaryName i u)) = u" "drop 74 (temporaryName i u) = js ''.tmp''"
    "temporaryName i u ! 37 = 46" "temporaryName i u ! 0 = 46" "length (temporaryName i u) = 78"
    by (simp_all add: temporaryName_def js_def nth_append)
  then show "dedicated_entry (temporaryName i u)" using assms by (simp add: dedicated_entry_def)
qed

lemma file_named:
  assumes "\<And>n done fs. list_all (\<lambda>f. dedicated_entry (fst f)) fs \<Longrightarrow> list_all (\<lambda>f. dedicated_entry (fst f)) (change n done fs)"
  shows "moves (\<lambda>s t. named s \<longrightarrow> named t) (fileM w change)"
  using assms by (auto simp: moves_def fileM_def named_def Let_def split: fate.split)

lemma named_update: "dedicated_entry k \<Longrightarrow> list_all (\<lambda>f. dedicated_entry (fst f)) fs \<Longrightarrow>
    list_all (\<lambda>f. dedicated_entry (fst f)) (AList.update k v fs)"
  by (induction fs) auto

lemma named_delete: "list_all (\<lambda>f. dedicated_entry (fst f)) fs \<Longrightarrow> list_all (\<lambda>f. dedicated_entry (fst f)) (AList.delete k fs)"
  by (induction fs) auto

lemma save_named:
  assumes "hex_dashes i" and "\<And>n. hex_dashes (cw_uuid w n)"
  shows "moves (\<lambda>s t. named s \<longrightarrow> named t) (publishCheckpoint w (temporaryName i (cw_uuid w n)) (checkpointName i) e)"
  unfolding publishCheckpoint_def writeTemporary_def renameTemporary_def syncDirectory_def removeFile_def finallyM_def handleM_def throw_def
  by (intro naming.moves_bind naming.moves_catch naming.moves_get naming.moves_unless naming.moves_pure naming.moves_stop file_named)
    (auto intro: named_update named_delete dedicated_names assms naming.moves_stop naming.moves_bind file_named split: halt.split)

lemma call_named:
  assumes "\<And>n. hex_dashes (cw_uuid w n)" and "store_run w c s = (r, t)" and "named s"
  shows "named t"
proof -
  note unchanged = naming.moves_bind naming.moves_get naming.moves_unless naming.moves_pure naming.moves_stop
  have "moves (\<lambda>s t. named s \<longrightarrow> named t) (removeCheckpoint w i)" for i
    unfolding removeCheckpoint_def checkFile_def removeFile_def syncDirectory_def
    by (intro unchanged file_named) (auto intro: named_delete)
  moreover have "named s \<longrightarrow> named t" if "saveCheckpoint w i v s = (r, t)" for i v
  proof (cases "SESSION_ID i")
    case True
    have "moves (\<lambda>s t. named s \<longrightarrow> named t) (saveCheckpoint w i v)"
      unfolding saveCheckpoint_def checkFile_def throw_def
      by (intro unchanged save_named session_id_dashes True assms(1)) (simp split: sum.split add: naming.moves_pure naming.moves_stop)
    then show ?thesis using that by (rule movesD)
  next
    case False
    then show ?thesis using that by (auto simp: saveCheckpoint_def checkFile_def effect_defs)
  qed
  ultimately show ?thesis using assms(2,3) by (cases c) (use movesD in \<open>fastforce simp: store_run_def\<close>)+
qed

section \<open>Calls as updates of the map\<close>

fun apply_call :: "store_call \<Rightarrow> (jsstr \<Rightarrow> jsval option) \<Rightarrow> (jsstr \<Rightarrow> jsval option)" where
  "apply_call (SaveCall i v) m = m(i := Some v)"
| "apply_call (RemoveCall i) m = m(i := None)"

definition call_ok :: "store_call \<Rightarrow> bool" where
  "call_ok c \<longleftrightarrow> (case c of SaveCall i v \<Rightarrow> wf_val v | RemoveCall i \<Rightarrow> True)"

lemma one_changed:
  assumes "\<forall>j. j \<noteq> i \<longrightarrow> f j = g j" and "f i = g i \<or> f i = v"
  shows "f = g \<or> f = g(i := v)" and "f i = v \<Longrightarrow> f = g(i := v)"
  using assms by (metis fun_upd_apply ext)+

lemma call_keeps:
  assumes "store_world_ok w" and "call_ok c" and "store_inv w s" and "store_run w c s = (r, t)"
  shows "store_inv w t" and "contents w t = contents w s \<or> contents w t = apply_call c (contents w s)"
    and "r = Inr () \<Longrightarrow> contents w t = apply_call c (contents w s)"
    and "cs_password t = cs_password s" and "cs_binding t = cs_binding s" and "cs_closed t = cs_closed s"
proof -
  let ?own = "(cs_password s, cs_binding s)"
  have all: "store_inv w t \<and> (contents w t = contents w s \<or> contents w t = apply_call c (contents w s)) \<and>
      (r = Inr () \<longrightarrow> contents w t = apply_call c (contents w s)) \<and>
      cs_password t = cs_password s \<and> cs_binding t = cs_binding s \<and> cs_closed t = cs_closed s"
  proof (cases c)
    case (SaveCall i v)
    then have v: "wf_val v" and run: "saveCheckpoint w i v s = (r, t)" using assms by (simp_all add: call_ok_def store_run_def)
    have "touches w ?own i {Some v} s t" by (rule save_touches [OF assms(1) v run])
    then show ?thesis
      using SaveCall assms(3) save_done [OF assms(1) v, of i s t] run one_changed [of i "contents w t" "contents w s" "Some v"]
      by (auto simp: touches_def)
  next
    case (RemoveCall i)
    then have run: "removeCheckpoint w i s = (r, t)" using assms by (simp add: store_run_def)
    have "touches w ?own i {None} s t" by (rule remove_touches [OF run])
    then show ?thesis
      using RemoveCall assms(3) remove_done [of w i s t] run one_changed [of i "contents w t" "contents w s" None]
      by (auto simp: touches_def)
  qed
  then show "store_inv w t" and "contents w t = contents w s \<or> contents w t = apply_call c (contents w s)"
    and "r = Inr () \<Longrightarrow> contents w t = apply_call c (contents w s)"
    and "cs_password t = cs_password s" and "cs_binding t = cs_binding s" and "cs_closed t = cs_closed s" by blast+
qed

section \<open>Histories\<close>

lemma history_keeps:
  assumes w: "store_world_ok w" "\<And>n. hex_dashes (cw_uuid w n)" and calls: "list_all call_ok calls"
    and start: "store_inv w s" "named s"
  shows "store_inv w (store_history w calls s) \<and> named (store_history w calls s) \<and>
    cs_password (store_history w calls s) = cs_password s \<and> cs_binding (store_history w calls s) = cs_binding s"
  using calls start
proof (induction calls arbitrary: s)
  case (Cons c calls)
  obtain r t where run: "store_run w c s = (r, t)" by fastforce
  have c: "call_ok c" and "list_all call_ok calls" using Cons.prems(1) by simp_all
  note kept = call_keeps [OF w(1) c Cons.prems(2) run]
  have "named t" by (rule call_named [OF w(2) run Cons.prems(3)])
  with kept Cons.IH [of t] \<open>list_all call_ok calls\<close> run show ?case by (simp add: store_history_def)
qed (simp add: store_history_def)

lemma open_fresh: "openBound password binding [] n = Inr s \<Longrightarrow> store_inv w s \<and> named s"
  by (auto simp: openBound_def store_inv_def named_def split: if_splits)

lemma reopen:
  assumes "named s" and "openBound (cs_password s) (cs_binding s) [] k = Inr u"
  shows "openBound (cs_password s) (cs_binding s) (cs_files s) n = Inr (s\<lparr>cs_closed := False, cs_clock := n\<rparr>)"
  using assms by (auto simp: openBound_def named_def split: if_splits)

lemma reopened_same:
  "contents w (s\<lparr>cs_closed := c, cs_clock := n\<rparr>) = contents w s" "store_inv w (s\<lparr>cs_closed := c, cs_clock := n\<rparr>) = store_inv w s"
proof -
  have same: "openCheckpoint w (s\<lparr>cs_closed := c, cs_clock := n\<rparr>) = openCheckpoint w s" by (rule openCheckpoint_cong) simp_all
  show "contents w (s\<lparr>cs_closed := c, cs_clock := n\<rparr>) = contents w s" by (rule ext) (simp add: contents_def same)
  show "store_inv w (s\<lparr>cs_closed := c, cs_clock := n\<rparr>) = store_inv w s" by (simp add: store_inv_def same)
qed

definition checkpoint_ids :: "'c checkpoint_store \<Rightarrow> jsstr list" where
  "checkpoint_ids s = map (\<lambda>f. checkpointId (fst f)) (filter (\<lambda>f. is_checkpoint (fst f)) (cs_files s))"

lemma checkpoint_ids_contents:
  assumes inv: "store_inv w s"
  shows "distinct (checkpoint_ids s)" and "set (checkpoint_ids s) = dom (contents w s)"
    and "\<not> cs_closed s \<Longrightarrow> length (checkpoint_ids s) \<le> 20 \<Longrightarrow> loadAll w s = Inr (map (the \<circ> contents w s) (checkpoint_ids s))"
proof -
  let ?fs = "filter (\<lambda>f. is_checkpoint (fst f)) (cs_files s)"
  have files: "distinct (map fst (cs_files s))" using inv by (simp add: store_inv_def)
  have there: "contents w s (checkpointId name) = openCheckpoint w s (checkpointId name) f \<and> contents w s (checkpointId name) \<noteq> None"
    if "(name, f) \<in> set ?fs" for name f
  proof -
    have "map_of (cs_files s) (checkpointName (checkpointId name)) = Some f"
      using that files by (simp add: is_checkpoint_name)
    then show ?thesis using inv by (auto simp: contents_def store_inv_def)
  qed
  have "distinct (map fst ?fs)" using files by (simp add: distinct_map_filter)
  moreover have "inj_on checkpointId (set (map fst ?fs))"
  proof (rule inj_onI)
    fix x y assume "x \<in> set (map fst ?fs)" "y \<in> set (map fst ?fs)" and same: "checkpointId x = checkpointId y"
    then have "is_checkpoint x" "is_checkpoint y" by auto
    then show "x = y" using same is_checkpoint_name by metis
  qed
  ultimately have "distinct (map checkpointId (map fst ?fs))" by (simp only: distinct_map simp_thms)
  then show "distinct (checkpoint_ids s)" by (simp add: checkpoint_ids_def comp_def)
  show "set (checkpoint_ids s) = dom (contents w s)"
  proof
    show "set (checkpoint_ids s) \<subseteq> dom (contents w s)"
    proof
      fix i assume "i \<in> set (checkpoint_ids s)"
      then obtain g where g: "g \<in> set ?fs" and i: "i = checkpointId (fst g)" by (auto simp: checkpoint_ids_def)
      from there [of "fst g" "snd g"] g show "i \<in> dom (contents w s)" unfolding i domIff prod.collapse by blast
    qed
    show "dom (contents w s) \<subseteq> set (checkpoint_ids s)"
    proof
      fix i assume "i \<in> dom (contents w s)"
      then obtain f where "map_of (cs_files s) (checkpointName i) = Some f"
        by (auto simp: contents_def bind_eq_Some_conv)
      then have "(checkpointName i, f) \<in> set (cs_files s)" by (rule map_of_SomeD)
      then show "i \<in> set (checkpoint_ids s)" by (force simp: checkpoint_ids_def)
    qed
  qed
  assume "\<not> cs_closed s" and few: "length (checkpoint_ids s) \<le> 20"
  have "map (\<lambda>(name, f). the (openCheckpoint w s (checkpointId name) f)) ?fs = map (the \<circ> contents w s) (checkpoint_ids s)"
    unfolding checkpoint_ids_def map_map by (rule map_cong) (use there in fastforce)+
  with loadAll_ok [OF \<open>\<not> cs_closed s\<close> inv] few
  show "loadAll w s = Inr (map (the \<circ> contents w s) (checkpoint_ids s))" by (simp add: checkpoint_ids_def)
qed

end
