(* ===== verification/Store_Demo.thy ===== *)
theory Store_Demo
  imports Checkpoint_Facts
begin

text \<open>A concrete directory: a seal that keeps its document, identifiers made of the draw's number.\<close>

definition store_demo_world :: "(nat \<Rightarrow> fate) \<Rightarrow> jsval store_world" where
  "store_demo_world fates = \<lparr>cw_fate = fates, cw_torn = (\<lambda>_. True), cw_random = (\<lambda>n k. replicate k 7), cw_uuid = (\<lambda>n. replicate 36 97),
     cw_seal = (\<lambda>p s iv a d. d), cw_open = (\<lambda>p s iv a c. Some c), cw_size = (\<lambda>_. 1000)\<rparr>"

lemma store_demo_ok: "store_world_ok (store_demo_world f)"
  by (simp add: store_world_ok_def store_demo_world_def)

definition store_demo_password :: jsstr where "store_demo_password = replicate 16 97"

definition store_demo_binding :: jsstr where "store_demo_binding = replicate 64 98"

definition store_demo :: "jsval checkpoint_store" where
  "store_demo = \<lparr>cs_password = store_demo_password, cs_binding = store_demo_binding, cs_closed = False, cs_files = [], cs_clock = 0\<rparr>"

definition store_demo_id :: jsstr where
  "store_demo_id = replicate 8 97 @ [45] @ replicate 4 98 @ [45] @ replicate 4 99 @ [45] @ replicate 4 48 @ [45] @ replicate 12 57"

lemma store_demo_opens: "openBound store_demo_password store_demo_binding [] 0 = Inr store_demo"
  by (simp add: openBound_def store_demo_def store_demo_password_def store_demo_binding_def is_lower_hex_def list_all_iff)

lemma store_demo_names: "SESSION_ID store_demo_id" "hex_dashes (cw_uuid (store_demo_world f) n)"
proof -
  show "SESSION_ID store_demo_id"
    by (simp add: SESSION_ID_def store_demo_id_def is_lower_hex_def upt_rec nth_append)
  show "hex_dashes (cw_uuid (store_demo_world f) n)"
    by (simp add: hex_dashes_def store_demo_world_def is_lower_hex_def list_all_iff)
qed

end
