(* ===== verification/Store_Lease.thy ===== *)
theory Store_Lease
  imports Line_Prelude
begin

text \<open>
  The lease of the checkpoint directory, \<open>acquire\<close> and \<open>close\<close> of \<open>server/checkout-storage.ts\<close>, at the
  grain of its file operations: several processes run it at once, each of their steps can fail or
  succeed, and any of them can die between two steps. The lease file names its owner's process and
  instance; a stale one is taken over under a recovery directory, which only one process can make.
  The second round of the loop in \<open>acquire\<close> is never reached, since a round that finds the lease
  taken returns or throws.
\<close>

section \<open>States\<close>

text \<open>What an instance is about to do.\<close>

datatype lease_pc =
    Absent
  | Opening
  | Writing
  | Guarding
  | Inspecting
  | Probing nat
  | Rereading nat
  | Removing nat
  | Recreating
  | Rewriting
  | Finishing
  | Leaving
  | Holding
  | Closing
  | Unlinking
  | Closed
  | Refused
  | Dead

text \<open>
  The lease file is absent, or the instance that made it with whether its content was written; the
  recovery directory is remembered with its maker, though the program only sees that it exists.
\<close>

record lease_state =
  lz_lease :: "(nat \<times> bool) option"
  lz_recovery :: "nat option"
  lz_pc :: "nat \<Rightarrow> lease_pc"
  lz_started :: "nat list"

text \<open>A file operation succeeds, fails, or is reported failed after it happened.\<close>

datatype io = Ok | Failing | FailingLate

definition alive :: "lease_state \<Rightarrow> nat \<Rightarrow> bool" where
  "alive s i \<longleftrightarrow> lz_pc s i \<noteq> Absent \<and> lz_pc s i \<noteq> Dead"

text \<open>\<open>process.kill(pid, 0)\<close>: some process with that number is alive.\<close>

definition pid_alive :: "(nat \<Rightarrow> nat) \<Rightarrow> lease_state \<Rightarrow> nat \<Rightarrow> bool" where
  "pid_alive pid s n \<longleftrightarrow> list_ex (\<lambda>k. alive s k \<and> pid k = n) (lz_started s)"

definition goto :: "nat \<Rightarrow> lease_pc \<Rightarrow> lease_state \<Rightarrow> lease_state" where
  "goto i pc s = s\<lparr>lz_pc := (lz_pc s)(i := pc)\<rparr>"

section \<open>The program\<close>

text \<open>The next file operation of instance \<open>i\<close>.\<close>

definition createLease :: "nat \<Rightarrow> io \<Rightarrow> lease_pc \<Rightarrow> lease_pc \<Rightarrow> lease_pc \<Rightarrow> lease_state \<Rightarrow> lease_state" where
  "createLease i r created taken failed s =
     (if r = Failing then goto i failed s
      else if lz_lease s \<noteq> None then goto i taken s
      else goto i (if r = Ok then created else failed) (s\<lparr>lz_lease := Some (i, False)\<rparr>))"

definition writeLease :: "nat \<Rightarrow> io \<Rightarrow> lease_pc \<Rightarrow> lease_pc \<Rightarrow> lease_state \<Rightarrow> lease_state" where
  "writeLease i r written failed s =
     (if r = Failing then goto i failed s
      else goto i (if r = Ok then written else failed) (s\<lparr>lz_lease := Some (i, True)\<rparr>))"

definition enterRecovery :: "nat \<Rightarrow> io \<Rightarrow> lease_state \<Rightarrow> lease_state" where
  "enterRecovery i r s =
     (if r = Failing \<or> lz_recovery s \<noteq> None then goto i Refused s
      else goto i (if r = Ok then Inspecting else Refused) (s\<lparr>lz_recovery := Some i\<rparr>))"

definition leaveRecovery :: "nat \<Rightarrow> io \<Rightarrow> lease_pc \<Rightarrow> lease_state \<Rightarrow> lease_state" where
  "leaveRecovery i r pc s =
     (if r = Failing then goto i Refused s
      else goto i (if r = Ok then pc else Refused) (s\<lparr>lz_recovery := None\<rparr>))"

fun advance :: "(nat \<Rightarrow> nat) \<Rightarrow> nat \<Rightarrow> io \<Rightarrow> lease_state \<Rightarrow> lease_state" where
  "advance pid i r s = (case lz_pc s i of
     Opening \<Rightarrow> createLease i r Writing Guarding Refused s
   | Writing \<Rightarrow> writeLease i r Holding Refused s
   | Guarding \<Rightarrow> enterRecovery i r s
   | Inspecting \<Rightarrow> (case lz_lease s of
       Some (j, True) \<Rightarrow> goto i (if r = Ok then Probing j else Leaving) s
     | _ \<Rightarrow> goto i Leaving s)
   | Probing j \<Rightarrow> goto i (if r = Ok \<and> \<not> pid_alive pid s (pid j) then Rereading j else Leaving) s
   | Rereading j \<Rightarrow> goto i (if r = Ok \<and> lz_lease s = Some (j, True) then Removing j else Leaving) s
   | Removing j \<Rightarrow>
       (if r = Failing \<or> lz_lease s = None then goto i Leaving s
        else goto i (if r = Ok then Recreating else Leaving) (s\<lparr>lz_lease := None\<rparr>))
   | Recreating \<Rightarrow> createLease i r Rewriting Leaving Leaving s
   | Rewriting \<Rightarrow> writeLease i r Finishing Leaving s
   | Finishing \<Rightarrow> leaveRecovery i r Holding s
   | Leaving \<Rightarrow> leaveRecovery i r Refused s
   | Closing \<Rightarrow> goto i (if r = Ok \<and> lz_lease s = Some (i, True) then Unlinking else Refused) s
   | Unlinking \<Rightarrow> (if r = Failing then goto i Refused s else goto i Closed (s\<lparr>lz_lease := None\<rparr>))
   | _ \<Rightarrow> s)"

section \<open>Interleavings\<close>

inductive lease_step :: "(nat \<Rightarrow> nat) \<Rightarrow> lease_state \<Rightarrow> lease_state \<Rightarrow> bool" for pid where
  start: "lz_pc s i = Absent \<Longrightarrow> lease_step pid s (goto i Opening (s\<lparr>lz_started := i # lz_started s\<rparr>))"
| advance: "lease_step pid s (advance pid i r s)"
| close: "lz_pc s i = Holding \<Longrightarrow> lease_step pid s (goto i Closing s)"
| die: "lease_step pid s (if lz_pc s i = Absent then s else goto i Dead s)"

inductive_cases lease_stepE: "lease_step pid s t"

definition emptyStore :: lease_state where
  "emptyStore = \<lparr>lz_lease = None, lz_recovery = None, lz_pc = (\<lambda>_. Absent), lz_started = []\<rparr>"

section \<open>The invariant\<close>

definition owning :: "lease_pc \<Rightarrow> bool" where
  "owning pc \<longleftrightarrow> pc \<in> {Writing, Holding, Closing, Unlinking, Rewriting, Finishing}"

definition recovering :: "lease_pc \<Rightarrow> bool" where
  "recovering pc = (case pc of Inspecting \<Rightarrow> True | Probing _ \<Rightarrow> True | Rereading _ \<Rightarrow> True | Removing _ \<Rightarrow> True
     | Recreating \<Rightarrow> True | Rewriting \<Rightarrow> True | Finishing \<Rightarrow> True | Leaving \<Rightarrow> True | _ \<Rightarrow> False)"

text \<open>Between the second reading of a stale lease and its removal nothing else can touch it.\<close>

definition judged :: "lease_state \<Rightarrow> lease_pc \<Rightarrow> bool" where
  "judged s pc = (case pc of
     Probing j \<Rightarrow> j \<in> set (lz_started s)
   | Rereading j \<Rightarrow> lz_pc s j = Dead
   | Removing j \<Rightarrow> lz_pc s j = Dead \<and> lz_lease s = Some (j, True)
   | _ \<Rightarrow> True)"

definition instance_ok :: "lease_state \<Rightarrow> nat \<Rightarrow> bool" where
  "instance_ok s i \<longleftrightarrow>
     (owning (lz_pc s i) \<longrightarrow> (\<exists>b. lz_lease s = Some (i, b))) \<and>
     (recovering (lz_pc s i) \<longrightarrow> lz_recovery s = Some i) \<and> judged s (lz_pc s i) \<and>
     (lz_pc s i \<noteq> Absent \<longleftrightarrow> i \<in> set (lz_started s))"

definition lease_inv :: "lease_state \<Rightarrow> bool" where
  "lease_inv s \<longleftrightarrow> (\<forall>i. instance_ok s i) \<and> (\<forall>i b. lz_lease s = Some (i, b) \<longrightarrow> i \<in> set (lz_started s))"

lemma lease_inv_empty: "lease_inv emptyStore"
  by (simp add: lease_inv_def instance_ok_def emptyStore_def owning_def recovering_def judged_def)

lemma owning_pcs [simp]:
  "owning Writing" "owning Holding" "owning Closing" "owning Unlinking" "owning Rewriting" "owning Finishing"
  "\<not> owning Absent" "\<not> owning Opening" "\<not> owning Guarding" "\<not> owning Inspecting" "\<not> owning (Probing j)" "\<not> owning (Rereading j)"
  "\<not> owning (Removing j)" "\<not> owning Recreating" "\<not> owning Leaving" "\<not> owning Closed" "\<not> owning Refused" "\<not> owning Dead"
  by (simp_all add: owning_def)

lemma recovering_pcs [simp]:
  "recovering Inspecting" "recovering (Probing j)" "recovering (Rereading j)" "recovering (Removing j)" "recovering Recreating"
  "recovering Rewriting" "recovering Finishing" "recovering Leaving"
  "\<not> recovering Absent" "\<not> recovering Opening" "\<not> recovering Writing" "\<not> recovering Guarding" "\<not> recovering Holding"
  "\<not> recovering Closing" "\<not> recovering Unlinking" "\<not> recovering Closed" "\<not> recovering Refused" "\<not> recovering Dead"
  by (simp_all add: recovering_def)

lemma judged_other: "(\<And>j. pc \<noteq> Probing j) \<Longrightarrow> (\<And>j. pc \<noteq> Rereading j) \<Longrightarrow> (\<And>j. pc \<noteq> Removing j) \<Longrightarrow> judged s pc"
  by (simp add: judged_def split: lease_pc.split)

lemma judged_pcs [simp]:
  "judged s (Probing j) \<longleftrightarrow> j \<in> set (lz_started s)" "judged s (Rereading j) \<longleftrightarrow> lz_pc s j = Dead"
  "judged s (Removing j) \<longleftrightarrow> lz_pc s j = Dead \<and> lz_lease s = Some (j, True)"
  by (simp_all add: judged_def)

text \<open>
  A step of one instance keeps the others right: it touches the lease only when no other instance
  owns it or is removing it, and the recovery directory only when no other instance is inside.
\<close>

lemma inv_moved:
  assumes "lease_inv s" and "lz_pc s i \<noteq> Dead"
    and "lz_pc t = (lz_pc s)(i := pc)" and "set (lz_started t) = insert i (set (lz_started s))"
    and "lz_lease t = lz_lease s \<or> (\<forall>k. k \<noteq> i \<longrightarrow> \<not> owning (lz_pc s k) \<and> (\<forall>j. lz_pc s k \<noteq> Removing j))"
    and "lz_recovery t = lz_recovery s \<or> (\<forall>k. k \<noteq> i \<longrightarrow> \<not> recovering (lz_pc s k))"
    and "\<And>j b. lz_lease t = Some (j, b) \<Longrightarrow> lz_lease s = Some (j, b) \<or> j = i"
    and "pc \<noteq> Absent" and "owning pc \<Longrightarrow> \<exists>b. lz_lease t = Some (i, b)" and "recovering pc \<Longrightarrow> lz_recovery t = Some i"
    and "judged t pc"
  shows "lease_inv t"
proof -
  have "instance_ok t k" for k
  proof (cases "k = i")
    case True
    then show ?thesis using assms(3,4,8-11) by (simp add: instance_ok_def)
  next
    case False
    have ok: "instance_ok s k" using assms(1) by (simp add: lease_inv_def)
    have pc: "lz_pc t k = lz_pc s k" using False assms(3) by simp
    have "judged t (lz_pc s k)"
    proof (cases "\<exists>j. lz_pc s k = Probing j \<or> lz_pc s k = Rereading j \<or> lz_pc s k = Removing j")
      case True
      then obtain j where j: "lz_pc s k = Probing j \<or> lz_pc s k = Rereading j \<or> lz_pc s k = Removing j" ..
      have dead: "lz_pc t j = Dead" if "lz_pc s j = Dead" using that assms(2,3) by auto
      have lease: "lz_lease t = lz_lease s" if "lz_pc s k = Removing j" using that assms(5) False by blast
      show ?thesis using j ok dead lease assms(4) by (auto simp: instance_ok_def)
    qed (simp add: judged_other)
    moreover have "\<exists>b. lz_lease t = Some (k, b)" if "owning (lz_pc s k)"
      using ok that assms(5) False by (auto simp: instance_ok_def)
    moreover have "lz_recovery t = Some k" if "recovering (lz_pc s k)"
      using ok that assms(6) False by (auto simp: instance_ok_def)
    ultimately show ?thesis using ok pc assms(4) False by (auto simp: instance_ok_def)
  qed
  moreover have "j \<in> set (lz_started t)" if "lz_lease t = Some (j, b)" for j b
    using assms(7) [OF that] assms(1,4) by (auto simp: lease_inv_def)
  ultimately show ?thesis by (simp add: lease_inv_def)
qed

lemma inv_uses:
  assumes "lease_inv s"
  shows "owning (lz_pc s i) \<Longrightarrow> \<exists>b. lz_lease s = Some (i, b)" and "recovering (lz_pc s i) \<Longrightarrow> lz_recovery s = Some i"
    and "judged s (lz_pc s i)" and "lz_pc s i \<noteq> Absent \<longleftrightarrow> i \<in> set (lz_started s)"
    and "lz_lease s = Some (i, b) \<Longrightarrow> i \<in> set (lz_started s)"
  using assms by (auto simp: lease_inv_def instance_ok_def)

text \<open>Who stands in nobody's way.\<close>

lemma no_owner: "lease_inv s \<Longrightarrow> lz_lease s = None \<Longrightarrow> \<not> owning (lz_pc s k) \<and> (\<forall>j. lz_pc s k \<noteq> Removing j)"
  using inv_uses(1) [of s k] inv_uses(3) [of s k] by force

lemma sole_owner:
  assumes "lease_inv s" and "lz_lease s = Some (i, b)" and "lz_pc s i \<noteq> Dead" and "k \<noteq> i"
  shows "\<not> owning (lz_pc s k) \<and> (\<forall>j. lz_pc s k \<noteq> Removing j)"
  using inv_uses(1,3) [OF assms(1), of k] assms by force

lemma sole_recoverer:
  assumes "lease_inv s" and "lz_recovery s = None \<or> recovering (lz_pc s i)" and "k \<noteq> i"
  shows "\<not> recovering (lz_pc s k)"
  using inv_uses(2) [OF assms(1), of k] inv_uses(2) [OF assms(1), of i] assms by force

lemma remover_alone:
  assumes "lease_inv s" and "lz_pc s i = Removing j" and "k \<noteq> i"
  shows "\<not> owning (lz_pc s k) \<and> (\<forall>j. lz_pc s k \<noteq> Removing j)"
proof -
  have j: "lz_pc s j = Dead" "lz_lease s = Some (j, True)" using inv_uses(3) [OF assms(1), of i] assms(2) by simp_all
  have "\<not> recovering (lz_pc s k)" using sole_recoverer [OF assms(1) _ assms(3)] assms(2) by simp
  moreover have "\<not> owning (lz_pc s k)" using inv_uses(1) [OF assms(1), of k] j by force
  ultimately show ?thesis by auto
qed

section \<open>Every step keeps it\<close>

lemma inv_goto:
  assumes "lease_inv s" and "lz_pc s i \<noteq> Dead" and "lz_pc s i \<noteq> Absent" and "pc \<noteq> Absent" and "owning pc \<Longrightarrow> owning (lz_pc s i)"
    and "recovering pc \<Longrightarrow> recovering (lz_pc s i)" and "judged s pc" and "\<And>j. pc = Rereading j \<or> pc = Removing j \<Longrightarrow> j \<noteq> i"
  shows "lease_inv (goto i pc s)"
proof (rule inv_moved [OF assms(1,2), where pc = pc])
  show "judged (goto i pc s) pc"
    using assms(7,8) by (cases pc) (auto simp: goto_def intro!: judged_other)
qed (use assms inv_uses [OF assms(1), of i] in \<open>auto simp: goto_def\<close>)

lemma inv_create:
  assumes inv: "lease_inv s" and at: "lz_pc s i = Opening \<or> lz_pc s i = Recreating"
    and quiet: "\<And>pc. pc = taken \<or> pc = failed \<Longrightarrow> pc \<in> {Guarding, Refused, Leaving} \<and> (pc = Leaving \<longrightarrow> lz_pc s i = Recreating)"
    and created: "created \<in> {Writing, Rewriting}" "recovering created \<longleftrightarrow> lz_pc s i = Recreating"
  shows "lease_inv (createLease i r created taken failed s)"
proof -
  have stay: "lease_inv (goto i pc s)" if "pc = taken \<or> pc = failed" for pc
    by (rule inv_goto [OF inv]) (use quiet [OF that] at in \<open>auto intro!: judged_other\<close>)
  have made: "lease_inv (goto i pc (s\<lparr>lz_lease := Some (i, False)\<rparr>))"
    if none: "lz_lease s = None" and pc: "pc = created \<or> pc = failed" for pc
  proof (rule inv_moved [OF inv, where pc = pc])
    have kind: "pc \<in> {Writing, Rewriting, Guarding, Refused, Leaving}" using pc created(1) quiet by auto
    then show "judged (goto i pc (s\<lparr>lz_lease := Some (i, False)\<rparr>)) pc" "pc \<noteq> Absent" by (auto intro!: judged_other)
    have "recovering pc \<Longrightarrow> lz_pc s i = Recreating" using pc created(2) quiet [of failed] by auto
    then show "recovering pc \<Longrightarrow> lz_recovery (goto i pc (s\<lparr>lz_lease := Some (i, False)\<rparr>)) = Some i"
      using inv_uses(2) [OF inv, of i] by (auto simp: goto_def)
    show "set (lz_started (goto i pc (s\<lparr>lz_lease := Some (i, False)\<rparr>))) = insert i (set (lz_started s))"
      using inv_uses(4) [OF inv, of i] at by (auto simp: goto_def)
  qed (use at no_owner [OF inv none] in \<open>auto simp: goto_def\<close>)
  show ?thesis
    using stay made by (cases "lz_lease s") (simp_all add: createLease_def)
qed

lemma inv_write:
  assumes inv: "lease_inv s" and at: "owning (lz_pc s i)"
    and pc: "\<And>pc. pc = written \<or> pc = failed \<Longrightarrow> pc \<in> {Holding, Finishing, Refused, Leaving} \<and>
      (pc = Leaving \<or> pc = Finishing \<longrightarrow> recovering (lz_pc s i))"
  shows "lease_inv (writeLease i r written failed s)"
proof -
  obtain b where b: "lz_lease s = Some (i, b)" using inv_uses(1) [OF inv at] by blast
  have i: "lz_pc s i \<noteq> Dead" "lz_pc s i \<noteq> Absent" using at by auto
  have wrote: "lease_inv (goto i pc (s\<lparr>lz_lease := Some (i, True)\<rparr>))" if "pc = written \<or> pc = failed" for pc
    by (rule inv_moved [OF inv i(1), where pc = pc])
      (use pc [OF that] at i inv_uses(2,4) [OF inv, of i] sole_owner [OF inv b i(1)] in \<open>auto simp: goto_def intro!: judged_other\<close>)
  have stay: "lease_inv (goto i failed s)"
    by (rule inv_goto [OF inv i]) (use pc [of failed] at in \<open>auto intro!: judged_other\<close>)
  show ?thesis using wrote stay by (simp add: writeLease_def)
qed

lemma inv_recovery:
  assumes inv: "lease_inv s" and i: "lz_pc s i \<noteq> Dead" "lz_pc s i \<noteq> Absent"
    and sole: "lz_recovery s = None \<or> recovering (lz_pc s i)"
    and pc: "pc \<in> {Inspecting, Refused, Holding}" "pc = Inspecting \<Longrightarrow> r = Some i" "pc = Holding \<Longrightarrow> owning (lz_pc s i)"
  shows "lease_inv (goto i pc (s\<lparr>lz_recovery := r\<rparr>))"
  by (rule inv_moved [OF inv i(1), where pc = pc])
    (use pc i sole_recoverer [OF inv sole] inv_uses(1,4) [OF inv, of i] in \<open>auto simp: goto_def intro!: judged_other\<close>)

lemma inv_release:
  assumes inv: "lease_inv s" and i: "lz_pc s i \<noteq> Dead" "lz_pc s i \<noteq> Absent"
    and alone: "\<And>k. k \<noteq> i \<Longrightarrow> \<not> owning (lz_pc s k) \<and> (\<forall>j. lz_pc s k \<noteq> Removing j)"
    and pc: "pc \<in> {Recreating, Leaving, Closed}" "pc \<noteq> Closed \<Longrightarrow> recovering (lz_pc s i)"
  shows "lease_inv (goto i pc (s\<lparr>lz_lease := None\<rparr>))"
  by (rule inv_moved [OF inv i(1), where pc = pc])
    (use pc i alone inv_uses(2,4) [OF inv, of i] in \<open>auto simp: goto_def intro!: judged_other\<close>)

lemma dead_pid:
  assumes "lease_inv s" and "j \<in> set (lz_started s)" and "\<not> pid_alive pid s (pid j)"
  shows "lz_pc s j = Dead"
  using assms inv_uses(4) [OF assms(1), of j] by (auto simp: pid_alive_def alive_def list_ex_iff)

lemma inv_refused:
  assumes "lease_inv s" and "lz_pc s i \<noteq> Dead" and "lz_pc s i \<noteq> Absent"
  shows "lease_inv (goto i Refused s)" and "recovering (lz_pc s i) \<Longrightarrow> lease_inv (goto i Leaving s)"
  by (rule inv_goto [OF assms(1)]; use assms in \<open>auto intro!: judged_other\<close>)+

lemma inv_enter:
  assumes "lease_inv s" and "lz_pc s i = Guarding"
  shows "lease_inv (enterRecovery i r s)"
proof (cases "lz_recovery s")
  case None
  have i: "lz_pc s i \<noteq> Dead" "lz_pc s i \<noteq> Absent" using assms(2) by auto
  show ?thesis
    using None inv_refused(1) [OF assms(1) i]
      inv_recovery [OF assms(1) i disjI1 [OF None], of Inspecting] inv_recovery [OF assms(1) i disjI1 [OF None], of Refused]
    by (cases r) (simp_all add: enterRecovery_def)
qed (use assms inv_refused(1) [OF assms(1), of i] in \<open>simp add: enterRecovery_def\<close>)

lemma inv_leave:
  assumes "lease_inv s" and "recovering (lz_pc s i)" and "pc = Holding \<and> owning (lz_pc s i) \<or> pc = Refused"
  shows "lease_inv (leaveRecovery i r pc s)"
proof -
  have i: "lz_pc s i \<noteq> Dead" "lz_pc s i \<noteq> Absent" using assms(2) by auto
  have "lease_inv (goto i pc' (s\<lparr>lz_recovery := None\<rparr>))" if "pc' = pc \<or> pc' = Refused" for pc'
    by (rule inv_recovery [OF assms(1) i disjI2 [OF assms(2)]]) (use that assms(3) in auto)
  then show ?thesis using inv_refused(1) [OF assms(1) i] by (cases r) (simp_all add: leaveRecovery_def)
qed

text \<open>Every step of the program.\<close>

lemma inv_advance: "lease_inv s \<Longrightarrow> lease_inv (advance pid i r s)"
proof (cases "lz_pc s i")
  assume inv: "lease_inv s"
  note own = inv_uses(1) [OF inv, of i] and rec = inv_uses(2) [OF inv, of i] and mine = inv_uses(3) [OF inv, of i]
  note quiet = inv_goto [OF inv, of i] judged_other
  {
    case Opening
    then have "lease_inv (createLease i r Writing Guarding Refused s)" by (intro inv_create [OF inv]) auto
    then show ?thesis using Opening by simp
  next
    case Writing
    then have "lease_inv (writeLease i r Holding Refused s)" by (intro inv_write [OF inv]) auto
    then show ?thesis using Writing by simp
  next
    case Guarding
    then show ?thesis using inv_enter [OF inv] by simp
  next
    case Inspecting
    have "lease_inv (goto i (Probing j) s)" if "lz_lease s = Some (j, b)" for j b
      by (rule inv_goto [OF inv]) (use Inspecting inv_uses(5) [OF inv that] in auto)
    then show ?thesis using Inspecting inv_refused(2) [OF inv, of i] by (auto split: option.split bool.split)
  next
    case (Probing j)
    have "lease_inv (goto i (Rereading j) s)" if "\<not> pid_alive pid s (pid j)"
      by (rule inv_goto [OF inv]) (use Probing mine dead_pid [OF inv _ that] in auto)
    then show ?thesis using Probing inv_refused(2) [OF inv, of i] by auto
  next
    case (Rereading j)
    have "lease_inv (goto i (Removing j) s)" if "lz_lease s = Some (j, True)"
      by (rule inv_goto [OF inv]) (use Rereading mine that in auto)
    then show ?thesis using Rereading inv_refused(2) [OF inv, of i] by auto
  next
    case (Removing j)
    have "lease_inv (goto i pc (s\<lparr>lz_lease := None\<rparr>))" if "pc = Recreating \<or> pc = Leaving" for pc
      by (rule inv_release [OF inv _ _ remover_alone [OF inv Removing]]) (use Removing that in auto)
    then show ?thesis using Removing inv_refused(2) [OF inv, of i] by auto
  next
    case Recreating
    then have "lease_inv (createLease i r Rewriting Leaving Leaving s)" by (intro inv_create [OF inv]) auto
    then show ?thesis using Recreating by simp
  next
    case Rewriting
    then have "lease_inv (writeLease i r Finishing Leaving s)" by (intro inv_write [OF inv]) auto
    then show ?thesis using Rewriting by simp
  next
    case Finishing
    then show ?thesis using inv_leave [OF inv, of i Holding] by simp
  next
    case Leaving
    then show ?thesis using inv_leave [OF inv, of i Refused] by simp
  next
    case Closing
    have "lease_inv (goto i Unlinking s)"
      by (rule inv_goto [OF inv]) (use Closing in \<open>auto intro!: judged_other\<close>)
    then show ?thesis using Closing inv_refused(1) [OF inv, of i] by auto
  next
    case Unlinking
    then obtain b where b: "lz_lease s = Some (i, b)" using own by auto
    have "lease_inv (goto i Closed (s\<lparr>lz_lease := None\<rparr>))"
      by (rule inv_release [OF inv _ _ sole_owner [OF inv b]]) (use Unlinking in auto)
    then show ?thesis using Unlinking inv_refused(1) [OF inv, of i] by auto
  }
qed simp_all

lemma inv_start: "lease_inv s \<Longrightarrow> lz_pc s i = Absent \<Longrightarrow> lease_inv (goto i Opening (s\<lparr>lz_started := i # lz_started s\<rparr>))"
  by (rule inv_moved [where i = i and pc = Opening]) (auto simp: goto_def intro!: judged_other)

lemma inv_die: "lease_inv s \<Longrightarrow> lz_pc s i \<noteq> Absent \<Longrightarrow> lease_inv (goto i Dead s)"
proof (cases "lz_pc s i = Dead")
  case True
  moreover from this have "goto i Dead s = s" by (simp add: goto_def fun_upd_idem)
  moreover assume "lease_inv s"
  ultimately show ?thesis by simp
next
  case False
  assume "lease_inv s" and "lz_pc s i \<noteq> Absent"
  with False show ?thesis by (intro inv_goto) (auto intro!: judged_other)
qed

lemma lease_inv_step: "lease_step pid s t \<Longrightarrow> lease_inv s \<Longrightarrow> lease_inv t"
proof (induction rule: lease_step.induct)
  case (close s i)
  then show ?case by (intro inv_goto) (auto intro!: judged_other)
qed (simp_all add: inv_start inv_advance inv_die del: advance.simps)

lemma lease_inv_reachable: "(lease_step pid)\<^sup>*\<^sup>* emptyStore s \<Longrightarrow> lease_inv s"
  by (induction rule: rtranclp_induct) (auto simp: lease_inv_empty lease_inv_step)

end
