(* ===== verification/Lease_Takeover.thy ===== *)
theory Lease_Takeover
  imports Store_Lease
begin

text \<open>
  An instance that runs undisturbed: how it takes a free lease, and how it takes over a stale one.
\<close>

section \<open>Undisturbed runs\<close>

definition undisturbed :: "(nat \<Rightarrow> nat) \<Rightarrow> nat \<Rightarrow> nat \<Rightarrow> lease_state \<Rightarrow> lease_state" where
  "undisturbed pid i n s = (advance pid i Ok ^^ n) (goto i Opening (s\<lparr>lz_started := i # lz_started s\<rparr>))"

lemma advances: "(lease_step pid)\<^sup>*\<^sup>* s ((advance pid i r ^^ n) s)"
proof (induction n)
  case (Suc n)
  from this lease_step.advance [of pid "(advance pid i r ^^ n) s" i r]
  have "(lease_step pid)\<^sup>*\<^sup>* s (advance pid i r ((advance pid i r ^^ n) s))" by (rule rtranclp.rtrancl_into_rtrancl)
  then show ?case by (simp del: advance.simps)
qed simp

lemma undisturbed_steps:
  assumes "lz_pc s i = Absent"
  shows "(lease_step pid)\<^sup>*\<^sup>* s (undisturbed pid i n s)"
  unfolding undisturbed_def
  by (rule converse_rtranclp_into_rtranclp [OF lease_step.start [OF assms] advances])

section \<open>Taking over\<close>

lemma pid_alive_other:
  assumes "lz_pc s q = Absent" and "pid q \<noteq> n"
  shows "pid_alive pid (goto q pc (s\<lparr>lz_lease := l, lz_recovery := r, lz_started := q # lz_started s\<rparr>)) n \<longleftrightarrow> pid_alive pid s n"
  using assms by (auto simp: pid_alive_def alive_def goto_def list_ex_iff)

lemma takeover:
  assumes "lz_lease s = Some (j, True)" and "\<not> pid_alive pid s (pid j)" and "lz_recovery s = None"
    and "lz_pc s q = Absent" and "pid q \<noteq> pid j"
  shows "undisturbed pid q 10 s = goto q Holding (s\<lparr>lz_lease := Some (q, True), lz_started := q # lz_started s\<rparr>)"
proof -
  let ?at = "\<lambda>pc l r. goto q pc (s\<lparr>lz_lease := l, lz_recovery := r, lz_started := q # lz_started s\<rparr>)"
  let ?step = "advance pid q Ok"
  have "?step (?at Opening (Some (j, True)) None) = ?at Guarding (Some (j, True)) None"
    and "?step (?at Guarding (Some (j, True)) None) = ?at Inspecting (Some (j, True)) (Some q)"
    and "?step (?at Inspecting (Some (j, True)) (Some q)) = ?at (Probing j) (Some (j, True)) (Some q)"
    and "?step (?at (Probing j) (Some (j, True)) (Some q)) = ?at (Rereading j) (Some (j, True)) (Some q)"
    and "?step (?at (Rereading j) (Some (j, True)) (Some q)) = ?at (Removing j) (Some (j, True)) (Some q)"
    and "?step (?at (Removing j) (Some (j, True)) (Some q)) = ?at Recreating None (Some q)"
    and "?step (?at Recreating None (Some q)) = ?at Rewriting (Some (q, False)) (Some q)"
    and "?step (?at Rewriting (Some (q, False)) (Some q)) = ?at Finishing (Some (q, True)) (Some q)"
    and "?step (?at Finishing (Some (q, True)) (Some q)) = ?at Holding (Some (q, True)) None"
    using assms pid_alive_other [OF assms(4), of pid, OF assms(5)]
    by (simp_all add: createLease_def writeLease_def enterRecovery_def leaveRecovery_def goto_def)
  moreover have "?step (?at Holding (Some (q, True)) None) = ?at Holding (Some (q, True)) None"
    by (simp add: goto_def)
  moreover have "goto q Opening (s\<lparr>lz_started := q # lz_started s\<rparr>) = ?at Opening (Some (j, True)) None"
    and "?at Holding (Some (q, True)) None = goto q Holding (s\<lparr>lz_lease := Some (q, True), lz_started := q # lz_started s\<rparr>)"
    using assms by (cases s; simp)+
  ultimately show ?thesis
    unfolding undisturbed_def by (simp add: eval_nat_numeral del: advance.simps)
qed

end
