(* ===== verification/Store_Properties.thy ===== *)
theory Store_Properties
  imports Store_Demo Lease_Takeover
begin

text \<open>What the checkpoint directory of the checkout server promises.\<close>

section \<open>Checkpoints\<close>

text \<open>
  C13. A save or removal behaves, towards everything that can be loaded, as one update of a map from
  identifiers to snapshots. It happens entirely or not at all, whichever file operation fails or
  where the process dies, and when the call returns normally it has happened.
\<close>

theorem checkpoint_refines:
  assumes "store_world_ok w" and "call_ok c" and "store_inv w s" and "store_run w c s = (r, t)"
  shows "store_inv w t \<and> (contents w t = contents w s \<or> contents w t = apply_call c (contents w s)) \<and>
    (r = Inr () \<longrightarrow> contents w t = apply_call c (contents w s))"
  using call_keeps [OF assms] by blast

theorem checkpoint_refines_witness:
  "contents (store_demo_world (\<lambda>n. if n = 2 then CrashAfter else Done))
     (snd (store_run (store_demo_world (\<lambda>n. if n = 2 then CrashAfter else Done)) (SaveCall store_demo_id (JBool True)) store_demo)) store_demo_id
   \<in> {None, Some (JBool True)}"
proof -
  let ?w = "store_demo_world (\<lambda>n. if n = 2 then CrashAfter else Done)"
  let ?c = "SaveCall store_demo_id (JBool True)"
  have inv: "store_inv ?w store_demo" using open_fresh [OF store_demo_opens] by blast
  have ok: "call_ok ?c" by (simp add: call_ok_def)
  have "contents ?w store_demo = Map.empty" by (simp add: contents_def store_demo_def fun_eq_iff)
  then show ?thesis
    using checkpoint_refines [OF store_demo_ok ok inv prod.collapse [symmetric]] by auto
qed

text \<open>
  C14. Whatever calls were made on a fresh directory, and whichever of them failed or were cut off by a
  crash, the directory can be opened again under the same password and binding, it means the same
  snapshots as before, and loading returns each of them once, as long as there are at most twenty.
\<close>

theorem checkpoints_recoverable:
  assumes "store_world_ok w" and "\<And>n. hex_dashes (cw_uuid w n)" and "list_all call_ok calls"
    and "openBound password binding [] n = Inr s"
  shows "\<exists>u ids. openBound password binding (cs_files (store_history w calls s)) k = Inr u \<and>
    contents w u = contents w (store_history w calls s) \<and> distinct ids \<and> set ids = dom (contents w u) \<and>
    (length ids \<le> 20 \<longrightarrow> loadAll w u = Inr (map (the \<circ> contents w u) ids))"
proof -
  let ?t = "store_history w calls s" and ?u = "(store_history w calls s)\<lparr>cs_closed := False, cs_clock := k\<rparr>"
  have fresh: "store_inv w s" "named s" using open_fresh [OF assms(4)] by blast+
  note kept = history_keeps [OF assms(1-3) fresh]
  have own: "cs_password s = password" "cs_binding s = binding" using assms(4) by (auto simp: openBound_def split: if_splits)
  have "store_inv w ?u" using kept reopened_same(2) by blast
  moreover have "openBound password binding (cs_files ?t) k = Inr ?u"
    using reopen [of ?t n s k] kept own assms(4) by simp
  ultimately show ?thesis
    using checkpoint_ids_contents [of w ?u] reopened_same(1) [where w = w and s = ?t and c = False and n = k]
    by (intro exI [of _ ?u] exI [of _ "checkpoint_ids ?u"]) simp
qed

theorem checkpoints_recoverable_witness:
  "\<exists>u. openBound store_demo_password store_demo_binding (cs_files (store_history (store_demo_world (\<lambda>n. if n = 5 then CrashBefore else Done))
     [SaveCall store_demo_id (JBool True), SaveCall store_demo_id JNull] store_demo)) 9 = Inr u"
proof -
  have "list_all call_ok [SaveCall store_demo_id (JBool True), SaveCall store_demo_id JNull]" by (simp add: call_ok_def)
  from checkpoints_recoverable [OF store_demo_ok store_demo_names(2) this store_demo_opens] show ?thesis by blast
qed

section \<open>The lease\<close>

text \<open>
  C15. However the file operations of any number of processes interleave, fail or are cut off, at most
  one instance holds the directory, and the lease file on disk is its own.
\<close>

theorem lease_exclusive:
  assumes "(lease_step pid)\<^sup>*\<^sup>* emptyStore s" and "lz_pc s i = Holding" and "lz_pc s j = Holding"
  shows "i = j \<and> (\<exists>b. lz_lease s = Some (i, b))"
  using inv_uses(1) [OF lease_inv_reachable [OF assms(1)], of i] inv_uses(1) [OF lease_inv_reachable [OF assms(1)], of j] assms(2,3)
  by auto

theorem lease_exclusive_witness:
  "(\<exists>b. lz_lease (undisturbed id 3 2 emptyStore) = Some (3, b))"
proof -
  have "lz_pc (undisturbed id 3 2 emptyStore) 3 = Holding"
    by (simp add: undisturbed_def emptyStore_def createLease_def writeLease_def goto_def numeral_2_eq_2)
  moreover have "(lease_step id)\<^sup>*\<^sup>* emptyStore (undisturbed id 3 2 emptyStore)"
    by (rule undisturbed_steps) (simp add: emptyStore_def)
  ultimately show ?thesis using lease_exclusive [of id "undisturbed id 3 2 emptyStore" 3 3] by blast
qed

text \<open>
  C16. A lease whose owner died is not lost: a new process that runs undisturbed takes it over and holds
  the directory, when nobody was left inside the recovery directory.
\<close>

theorem stale_lease_recovered:
  assumes "(lease_step pid)\<^sup>*\<^sup>* emptyStore s" and "lz_lease s = Some (j, True)" and "\<not> pid_alive pid s (pid j)"
    and "lz_recovery s = None" and "lz_pc s q = Absent" and "pid q \<noteq> pid j"
  shows "\<exists>t. (lease_step pid)\<^sup>*\<^sup>* emptyStore t \<and> (lease_step pid)\<^sup>*\<^sup>* s t \<and> lz_pc t q = Holding \<and> lz_lease t = Some (q, True)"
proof -
  have "(lease_step pid)\<^sup>*\<^sup>* s (undisturbed pid q 10 s)" by (rule undisturbed_steps [OF assms(5)])
  moreover from assms(1) this have "(lease_step pid)\<^sup>*\<^sup>* emptyStore (undisturbed pid q 10 s)" by (rule rtranclp_trans)
  ultimately show ?thesis using takeover [OF assms(2-6)] by (intro exI [of _ "undisturbed pid q 10 s"]) (simp add: goto_def)
qed

definition abandoned :: lease_state where
  "abandoned = goto 4 Dead (undisturbed id 4 2 emptyStore)"

theorem stale_lease_recovered_witness:
  "\<exists>t. (lease_step id)\<^sup>*\<^sup>* abandoned t \<and> lz_pc t 5 = Holding"
proof -
  have held: "undisturbed id 4 2 emptyStore = goto 4 Holding (emptyStore\<lparr>lz_lease := Some (4, True), lz_started := [4]\<rparr>)"
    by (simp add: undisturbed_def emptyStore_def createLease_def writeLease_def goto_def numeral_2_eq_2)
  have "(lease_step id)\<^sup>*\<^sup>* emptyStore (undisturbed id 4 2 emptyStore)"
    by (rule undisturbed_steps) (simp add: emptyStore_def)
  moreover have "lease_step id (undisturbed id 4 2 emptyStore) abandoned"
    using lease_step.die [of id "undisturbed id 4 2 emptyStore" 4] by (simp add: abandoned_def held goto_def)
  ultimately have reached: "(lease_step id)\<^sup>*\<^sup>* emptyStore abandoned" by (rule rtranclp.rtrancl_into_rtrancl)
  have "lz_lease abandoned = Some (4, True)" "\<not> pid_alive id abandoned (id 4)" "lz_recovery abandoned = None"
      "lz_pc abandoned 5 = Absent" "id (5::nat) \<noteq> id 4"
    unfolding abandoned_def held by (simp_all add: pid_alive_def alive_def goto_def emptyStore_def)
  then show ?thesis using stale_lease_recovered [OF reached] by blast
qed

end
