(* ===== verification/Spec2Isabelle.thy ===== *)
theory Spec2Isabelle
  imports Encoding_Properties Once_Properties Records_Properties Journal_Properties
    Lab_Properties Checkout_Properties Vault_Properties Private_State_Properties
    Native_Journal_Properties Approval_Properties Store_Properties
begin

text \<open>
  Line is a private credit line with merchant settlement on Midnight: an issuer funds a reserve and
  opens a line to an agent, the agent draws against a merchant's quote, the merchant redeems the note
  from the reserve, the agent repays, and what is not redeemed in time expires and is compensated.
  This library verifies the logic the TypeScript and JavaScript of the repository adds to that: the
  simulator of the contract with its encodings, the encrypted stores and journals a client and the
  servers keep, the local checkout evaluation, and the software signer of approvals.

  The parts and how they interact.
  \<^item> Base. \<open>Line_Prelude\<close> (outcomes of functions that may return early or throw, JavaScript's numbers
    and nullish operators, updates of arrays), \<open>Outcome_Machine\<close> (locales for machines with failing
    requests: an invariant, a preorder), \<open>Effects\<close> (stateful programs that can stop, the fates of an
    effect on the outside world, \<open>catch\<close> and \<open>finally\<close>, and two kinds of contract for them).
  \<^item> Encodings. \<open>Js_Strings\<close> (UTF-16 strings, \<open>src/lib/bytes.ts\<close>), \<open>Encoding\<close> with \<open>Encoding_Facts\<close>
    (\<open>src/lib/line/encoding.ts\<close>). A string is the list of its 16-bit code units, a byte array a list
    of 8-bit words, and both wrap as in the program.
  \<^item> The simulator. \<open>Ledger\<close> (\<open>types.ts\<close>, and the helpers of \<open>src/lib/line/protocol.ts\<close>) and
    \<open>Protocol\<close> (its twelve circuits, one definition each, guards in the order of the source). A
    circuit maps the ledger, the private witnesses and its arguments to a new ledger or a failure.
    \<open>Circuit_Facts\<close>, \<open>Accounting\<close>, \<open>Accounting_Steps\<close>, \<open>Evolution\<close> and \<open>Evolution_Steps\<close> hold, per
    circuit, what a success implies, that the counters stay sums over the notes, and how records may
    change; the interpretations at their ends lift this to every execution.
  \<^item> The attack lab. \<open>Lab\<close> and \<open>Lab_Facts\<close> (\<open>src/dev/simulator-store.ts\<close>): buttons that call circuits
    on a copy of the store.
  \<^item> Stored values. \<open>Vault_Codec\<close> (\<open>src/lib/security/vault-codec.ts\<close>, with JavaScript values as a
    datatype), \<open>Vault_Facts\<close> (which values the codec accepts, and that reading back is the identity),
    \<open>Records\<close> (the validators of \<open>types.ts\<close>).
  \<^item> The vault. \<open>Vault\<close> and \<open>Vault_Session\<close> (\<open>src/lib/security/vault.ts\<close>): encrypted envelopes and the
    unlocked session. \<open>Private_State\<close> with \<open>Private_State_Facts\<close>
    (\<open>src/lib/runtime/vault-provider.ts\<close>) keeps the states and signing keys of a contract in it.
  \<^item> Journals. \<open>Journal\<close>, \<open>Journal_Lease\<close>, \<open>Journal_Steps\<close>, \<open>Journal_Facts\<close>, \<open>Journal_Machine\<close>
    (\<open>src/lib/security/operation-journal.ts\<close>) and \<open>Native_Journal\<close>, \<open>Native_Journal_Facts\<close>
    (\<open>server/native-operation-journal.mjs\<close>): what was prepared, sent and confirmed, across crashes.
  \<^item> The checkout evaluation. \<open>Compact_Harness\<close> (\<open>src/lib/line/compact-harness.ts\<close>), \<open>Checkout\<close>,
    \<open>Checkout_Services\<close>, \<open>Checkout_Steps\<close>, \<open>Checkout_Recovery\<close> (\<open>server/checkout-engine.ts\<close>),
    \<open>Checkout_Machine\<close> (the abstract desk) and the simulation, durability and progress proofs in
    \<open>Checkout_Refinement\<close>, \<open>Checkout_Durability\<close>, \<open>Checkout_Settling\<close>. The engine hands its
    checkpoints to the directory of \<open>Checkpoint_Store\<close>, \<open>Checkpoint_Facts\<close>, \<open>Store_Lease\<close> and
    \<open>Lease_Takeover\<close> (\<open>server/checkout-storage.ts\<close>).
  \<^item> Approvals. \<open>Approval_Encoding\<close> (\<open>scripts/signed-pool-signers.mjs\<close>,
    \<open>scripts/private-offer-encoding.mjs\<close>, \<open>scripts/address-bound-approval.mjs\<close>), \<open>Approval_Signer\<close> and
    \<open>Approval_Signer_Facts\<close> (\<open>scripts/durable-approval-signer.mjs\<close>).

  The theories named \<open>..._Demo\<close> hold concrete values on which the properties are applied; those named
  \<open>..._Properties\<close> hold the properties.

  What the lemmas show.
  \<^item> Simulator: the six locked counters are sums over the notes in every reachable ledger and never
    exceed the reserve; a draw has exactly its stated effect and its claim can be redeemed; redeeming
    excludes expiry, compensation is exact and happens once, quotes and payment references are used
    once, every accepted request comes from who may make it.
  \<^item> Encodings and codec: round trips, injectivity, separation of hash inputs, agreement of the two fee
    computations, the loss in a funding above the range of safe integers.
  \<^item> Lab: its buttons implement sequences of circuits.
  \<^item> Checkout: the engine refines the desk, its checkpoint is its books or it has failed, a restart
    loses nothing, a retry finishes an order in a world that cooperates.
  \<^item> Checkpoint directory: a save is atomic towards what can be loaded, every history can be reopened,
    one instance at most holds the lease under any interleaving, and a dead one's lease is taken over.
  \<^item> Journals: nothing is sent or submitted twice, records stay valid, recovery settles what was sent,
    a torn file blocks instead of losing it.
  \<^item> Vault and provider: what was saved is loaded, what loads is authentic, the passphrase is released
    only before its deadline, a revoked authorization is worth nothing.
  \<^item> Signer: approvals stay within the owner's budget, one operation has one signature, signatures
    satisfy the contract's equation, one signer at a time holds the custody, and a dead one's is
    recovered.

  Parameters, with what is assumed of them where a theorem needs it: the hashes, commitments, field
  conversion and curve of the Compact runtime (injectivity where a separation is claimed, the group
  law for signatures); the generated contract behind the harness; key derivation, ciphers and their
  authenticity; JSON text, which is represented by the value it parses to; random bytes, clocks and
  identifiers; the fate of every write, and what another process does at an await; the owner's policy.
  Each assumption is discharged on a concrete instance by a witness.

  Bounds and fuel: numbers of the simulator are integers with the loss of precision above \<open>2 ^ 53\<close>
  written out; loops of the source are structural recursions or have a measure, so no fuel is used
  for termination. The signer draws scalars until one is in range; the draws are a list, and running
  out of it is an explicit failure. The bounded retries of the source keep their own bounds.

  Not modelled, and why.
  \<^item> \<open>contracts/\<close>: Compact sources and the code their compiler generates; the generated code is the
    parameter of \<open>Compact_Harness\<close>, and only the fee check of \<open>line.compact\<close> is modelled.
  \<^item> \<open>src/lib/runtime\<close> apart from the provider and its errors, and \<open>src/lib/organization\<close>: adapters to
    the wallet, the network and the Midnight SDK, whose behaviour is not in the repository.
  \<^item> \<open>src/app\<close>, \<open>src/components\<close>, \<open>src/pages\<close>: React state and views.
  \<^item> The HTTP layers of \<open>server/\<close> and \<open>mcp/\<close>: transport around the modelled operations.
  \<^item> The remaining \<open>scripts/\<close>: spikes, proof drivers, deployment.
  \<^item> Platform checks of file modes, links and access lists, and the intent fingerprint of the journal.
\<close>

end
